(* ===== verification/Prelude.thy ===== *)
theory Prelude
  imports Main "HOL-Library.Char_ord" "HOL-Library.List_Lexorder" "HOL-Library.Product_Lexorder"
    "HOL-Library.Multiset"
begin

text \<open>
  What every component of the development shares: the model of Rust's \<open>Result\<close>
  (a sum whose \<open>Inl\<close> side is the error), the combinators that stand for the
  operator \<open>?\<close>, for a chain of early returns and for the loops that validate a
  list while they collect its keys in a set, Rust's fixed-width integer arithmetic,
  and the generic lemmas on lists the components use.
\<close>

section \<open>Collections of rules\<close>

named_theorems result_simps \<open>characterisations of successful results\<close>
named_theorems row_simps \<open>reads of a table after a statement that writes it\<close>

section \<open>Results and early returns\<close>

type_synonym 'a result = "string + 'a"

text \<open>\<open>bind_r r f\<close> is \<open>let x = r?; f(x)\<close>.\<close>

definition bind_r :: "'e + 'a \<Rightarrow> ('a \<Rightarrow> 'e + 'b) \<Rightarrow> 'e + 'b" where
  "bind_r r f = (case r of Inl e \<Rightarrow> Inl e | Inr x \<Rightarrow> f x)"

text \<open>\<open>guard_r b m\<close> is \<open>if b { return Err(m) }\<close>.\<close>

definition guard_r :: "bool \<Rightarrow> 'e \<Rightarrow> 'e + unit" where
  "guard_r b m = (if b then Inl m else Inr ())"

text \<open>A sequence of checks, each followed by \<open>?\<close>: the first error is returned.\<close>

fun check_all :: "('e + unit) list \<Rightarrow> 'e + unit" where
  "check_all [] = Inr ()"
| "check_all (c # cs) = (case c of Inl e \<Rightarrow> Inl e | Inr _ \<Rightarrow> check_all cs)"

definition is_ok :: "'e + 'a \<Rightarrow> bool" where
  "is_ok r = (case r of Inl _ \<Rightarrow> False | Inr _ \<Rightarrow> True)"

definition ok_or :: "'a option \<Rightarrow> 'e \<Rightarrow> 'e + 'a" where
  "ok_or x e = (case x of None \<Rightarrow> Inl e | Some v \<Rightarrow> Inr v)"

text \<open>\<open>Result::map_err\<close>.\<close>

definition map_err :: "('e \<Rightarrow> 'f) \<Rightarrow> 'e + 'a \<Rightarrow> 'f + 'a" where
  "map_err f r = (case r of Inl e \<Rightarrow> Inl (f e) | Inr x \<Rightarrow> Inr x)"

text \<open>\<open>Option::unwrap_or\<close>.\<close>

definition or_else :: "'a option \<Rightarrow> 'a \<Rightarrow> 'a" where
  "or_else x d = (case x of None \<Rightarrow> d | Some v \<Rightarrow> v)"

text \<open>
  The loop \<open>for (index, x) in xs.iter().enumerate() { check(index, x)?; if
  !seen.insert(key(x)) { return Err(dup(x)) } }\<close>; the set of keys is passed in and
  returned, because one of the loops of the code goes on with the set of another.
\<close>

fun unique_loop ::
    "(nat \<Rightarrow> 'a \<Rightarrow> 'e + unit) \<Rightarrow> ('a \<Rightarrow> 'k) \<Rightarrow> ('a \<Rightarrow> 'e) \<Rightarrow> nat \<Rightarrow> 'k list \<Rightarrow> 'a list \<Rightarrow> 'e + 'k list"
where
  "unique_loop check key dup i seen [] = Inr seen"
| "unique_loop check key dup i seen (x # xs) =
     (case check i x of
        Inl e \<Rightarrow> Inl e
      | Inr _ \<Rightarrow>
          if key x \<in> set seen then Inl (dup x)
          else unique_loop check key dup (Suc i) (key x # seen) xs)"

lemma bind_r_simps [simp]:
  "bind_r (Inl e) f = Inl e"
  "bind_r (Inr x) f = f x"
  by (simp_all add: bind_r_def)

lemma bind_r_Inr [result_simps]:
  "bind_r r f = Inr y \<longleftrightarrow> (\<exists>x. r = Inr x \<and> f x = Inr y)"
  by (cases r) simp_all

lemma bind_r_Inl: "bind_r r f = Inl e \<longleftrightarrow> r = Inl e \<or> (\<exists>x. r = Inr x \<and> f x = Inl e)"
  by (cases r) simp_all

lemma guard_r_Inr [result_simps]: "guard_r b m = Inr u \<longleftrightarrow> \<not> b"
  by (simp add: guard_r_def)

lemma guard_r_Inl [result_simps]: "guard_r b m = Inl e \<longleftrightarrow> b \<and> e = m"
  by (auto simp: guard_r_def)

lemma guard_r_simps [simp]: "guard_r False m = Inr ()" "guard_r True m = Inl m"
  by (simp_all add: guard_r_def)

lemma check_all_Inr [result_simps]: "check_all cs = Inr u \<longleftrightarrow> list_all (\<lambda>c. c = Inr ()) cs"
  by (induction cs) (auto split: sum.splits)

lemma check_all_append: "check_all (cs @ ds) = bind_r (check_all cs) (\<lambda>_. check_all ds)"
  by (induction cs) (auto split: sum.splits)

lemma check_all_Inl_mem: "check_all cs = Inl e \<Longrightarrow> Inl e \<in> set cs"
  by (induction cs) (auto split: sum.splits)

lemma ok_or_Inr [result_simps]: "ok_or x e = Inr v \<longleftrightarrow> x = Some v"
  by (cases x) (simp_all add: ok_or_def)

lemma ok_or_simps [simp]: "ok_or (Some v) e = Inr v" "ok_or None e = Inl e"
  by (simp_all add: ok_or_def)

lemma map_err_Inr [result_simps]: "map_err f r = Inr x \<longleftrightarrow> r = Inr x"
  by (cases r) (simp_all add: map_err_def)

lemma map_err_simps [simp]: "map_err f (Inl e) = Inl (f e)" "map_err f (Inr x) = Inr x"
  by (simp_all add: map_err_def)

lemma if_Inl_Inr [result_simps]: "(if b then Inl e else r) = Inr y \<longleftrightarrow> \<not> b \<and> r = Inr y"
  by simp

lemma case_option_Inl_Inr [result_simps]:
  "(case x of None \<Rightarrow> Inl e | Some v \<Rightarrow> f v) = Inr y \<longleftrightarrow> (\<exists>v. x = Some v \<and> f v = Inr y)"
  by (cases x) simp_all

lemma unit_sum_Inr: "(r :: 'e + unit) = Inr u \<longleftrightarrow> r = Inr ()"
  by simp

text \<open>
  The loop succeeds exactly when every element passes its check and no key occurs
  twice, in the list or in the set it starts from.
\<close>

lemma unique_loop_Inr:
  "unique_loop check key dup i seen xs = Inr ks \<longleftrightarrow>
     (\<forall>j < length xs. check (i + j) (xs ! j) = Inr ()) \<and>
     distinct (map key xs) \<and> set (map key xs) \<inter> set seen = {} \<and>
     ks = rev (map key xs) @ seen"
proof (induction xs arbitrary: i seen)
  case Nil
  show ?case by auto
next
  case (Cons x xs)
  have shift: "(\<forall>j < length (x # xs). check (i + j) ((x # xs) ! j) = Inr ()) \<longleftrightarrow>
      check i x = Inr () \<and> (\<forall>j < length xs. check (Suc i + j) (xs ! j) = Inr ())"
    by (auto simp: less_Suc_eq_0_disj)
  show ?case
    unfolding shift using Cons.IH [of "Suc i" "key x # seen"]
    by (auto split: sum.splits)
qed

lemma unique_loop_ok [result_simps]:
  "(\<exists>ks. unique_loop check key dup i seen xs = Inr ks) \<longleftrightarrow>
     (\<forall>j < length xs. check (i + j) (xs ! j) = Inr ()) \<and>
     distinct (map key xs) \<and> set (map key xs) \<inter> set seen = {}"
  by (auto simp: unique_loop_Inr)

lemma unique_loop_cong:
  "(\<And>i x. is_ok (check i x) = is_ok (check' i x)) \<Longrightarrow>
   is_ok (unique_loop check key dup i seen xs) = is_ok (unique_loop check' key dup' i seen xs)"
proof (induction xs arbitrary: i seen)
  case Nil
  show ?case by (simp add: is_ok_def)
next
  case (Cons x xs)
  from Cons.prems [of i x] Cons.IH [OF Cons.prems, of "Suc i" "key x # seen"] show ?case
    by (auto simp: is_ok_def split: sum.splits)
qed

section \<open>Fixed-width integers\<close>

text \<open>
  A Rust \<open>i64\<close> or \<open>u64\<close> is an \<open>int\<close> in range. \<open>wrap64\<close> is two's complement
  wrap-around, what the operators do in a release build (the manifest sets no profile,
  so overflow checks are off there).
\<close>

definition i64_min :: int where "i64_min = - (2 ^ 63)"

definition i64_max :: int where "i64_max = 2 ^ 63 - 1"

definition u64_max :: int where "u64_max = 2 ^ 64 - 1"

definition wrap64 :: "int \<Rightarrow> int" where
  "wrap64 x = (x + 2 ^ 63) mod 2 ^ 64 - 2 ^ 63"

definition in_i64 :: "int \<Rightarrow> bool" where
  "in_i64 x \<longleftrightarrow> i64_min \<le> x \<and> x \<le> i64_max"

definition in_u64 :: "int \<Rightarrow> bool" where
  "in_u64 x \<longleftrightarrow> 0 \<le> x \<and> x \<le> u64_max"

lemma wrap64_id: "in_i64 x \<Longrightarrow> wrap64 x = x"
  by (simp add: wrap64_def in_i64_def i64_min_def i64_max_def)

lemma in_i64_wrap64: "in_i64 (wrap64 x)"
proof -
  have "0 \<le> (x + 2 ^ 63) mod 2 ^ 64" "(x + 2 ^ 63) mod 2 ^ 64 < 2 ^ 64"
    by simp_all
  then show ?thesis by (simp add: wrap64_def in_i64_def i64_min_def i64_max_def)
qed

text \<open>Rust's \<open>/\<close> on signed integers truncates towards zero.\<close>

definition rust_div :: "int \<Rightarrow> int \<Rightarrow> int" where
  "rust_div a b = sgn a * sgn b * (\<bar>a\<bar> div \<bar>b\<bar>)"

definition rust_mod :: "int \<Rightarrow> int \<Rightarrow> int" where
  "rust_mod a b = a - b * rust_div a b"

lemma rust_div_nonneg: "0 \<le> a \<Longrightarrow> 0 < b \<Longrightarrow> rust_div a b = a div b"
  by (cases "a = 0") (simp_all add: rust_div_def)

lemma rust_mod_nonneg: "0 \<le> a \<Longrightarrow> 0 < b \<Longrightarrow> rust_mod a b = a mod b"
  by (simp add: rust_mod_def rust_div_nonneg minus_mult_div_eq_mod)

section \<open>Lists\<close>

text \<open>\<open>dedup_adj\<close> is \<open>Vec::dedup\<close>: of equal neighbours the first is kept.\<close>

fun dedup_adj :: "'a list \<Rightarrow> 'a list" where
  "dedup_adj [] = []"
| "dedup_adj [x] = [x]"
| "dedup_adj (x # y # zs) = (if x = y then dedup_adj (x # zs) else x # dedup_adj (y # zs))"

text \<open>\<open>dedup_by_key\<close> is \<open>Vec::dedup_by\<close> for a test that compares keys.\<close>

fun dedup_by_key :: "('a \<Rightarrow> 'k) \<Rightarrow> 'a list \<Rightarrow> 'a list" where
  "dedup_by_key k [] = []"
| "dedup_by_key k [x] = [x]"
| "dedup_by_key k (x # y # zs) =
     (if k x = k y then dedup_by_key k (x # zs) else x # dedup_by_key k (y # zs))"

lemma set_dedup_adj [simp]: "set (dedup_adj xs) = set xs"
  by (induction xs rule: dedup_adj.induct) auto

lemma set_dedup_by_key: "set (dedup_by_key k xs) \<subseteq> set xs"
  by (induction k xs rule: dedup_by_key.induct) auto

lemma length_dedup_adj: "length (dedup_adj xs) \<le> length xs"
  by (induction xs rule: dedup_adj.induct) auto

lemma dedup_adj_eq_Nil [simp]: "dedup_adj xs = [] \<longleftrightarrow> xs = []"
  by (induction xs rule: dedup_adj.induct) auto

lemma sorted_dedup_adj: "sorted xs \<Longrightarrow> sorted (dedup_adj xs)"
  by (induction xs rule: dedup_adj.induct) auto

lemma distinct_dedup_adj: "sorted xs \<Longrightarrow> distinct (dedup_adj xs)"
proof (induction xs rule: dedup_adj.induct)
  case (3 x y zs)
  then show ?case by (cases "x = y") auto
qed simp_all

lemma dedup_adj_distinct: "distinct xs \<Longrightarrow> dedup_adj xs = xs"
  by (induction xs rule: dedup_adj.induct) auto

lemma distinct_map_dedup_by_key:
  "sorted (map k xs) \<Longrightarrow> distinct (map k (dedup_by_key k xs))"
proof (induction k xs rule: dedup_by_key.induct)
  case (3 k x y zs)
  show ?case
  proof (cases "k x = k y")
    case True
    with 3 show ?thesis by simp
  next
    case False
    with "3.prems" have "\<forall>z \<in> set (y # zs). k x < k z"
      by (auto dest: order_le_less_trans)
    then have "k x \<notin> k ` set (dedup_by_key k (y # zs))"
      using set_dedup_by_key [of k "y # zs"] by (auto dest!: subsetD)
    with False 3 show ?thesis by simp
  qed
qed simp_all

lemma find_append: "find P (xs @ ys) = (case find P xs of None \<Rightarrow> find P ys | Some x \<Rightarrow> Some x)"
  by (induction xs) auto

lemma find_SomeD: "find P xs = Some x \<Longrightarrow> x \<in> set xs \<and> P x"
  by (induction xs) (auto split: if_splits)

section \<open>Lifecycles\<close>

text \<open>
  The interface of a component whose records have a status: as long as the component's
  invariant holds, a step keeps it, and whatever the step does, the status of the record
  under observation stays or moves along an edge of the published diagram. What a client
  may conclude of any number of steps is proved here once.
\<close>

locale lifecycle =
  fixes inv :: "'s \<Rightarrow> bool"
    and step :: "'s \<Rightarrow> 's \<Rightarrow> bool"
    and status :: "'s \<Rightarrow> 'c"
    and edge :: "'c \<Rightarrow> 'c \<Rightarrow> bool"
  assumes step_inv: "inv s \<Longrightarrow> step s t \<Longrightarrow> inv t"
    and step_edge: "inv s \<Longrightarrow> step s t \<Longrightarrow> status t = status s \<or> edge (status s) (status t)"
begin

lemma reach_inv: "step\<^sup>*\<^sup>* s t \<Longrightarrow> inv s \<Longrightarrow> inv t"
  by (induction rule: rtranclp_induct) (auto intro: step_inv)

lemma run_path: "step\<^sup>*\<^sup>* s t \<Longrightarrow> inv s \<Longrightarrow> edge\<^sup>*\<^sup>* (status s) (status t)"
proof (induction rule: rtranclp_induct)
  case (step t u)
  from step_edge [OF reach_inv [OF step.hyps(1) step.prems] step.hyps(2)] step.IH [OF step.prems]
  show ?case by (auto intro: rtranclp.rtrancl_into_rtrancl)
qed simp

lemma closed_region:
  assumes "step\<^sup>*\<^sup>* s t" and "inv s" and "P (status s)" and "\<And>c d. P c \<Longrightarrow> edge c d \<Longrightarrow> P d"
  shows "P (status t)"
  using run_path [OF assms(1,2)] assms(3)
  by (induction rule: rtranclp_induct) (auto intro: assms(4))

lemma absorbing:
  assumes "step\<^sup>*\<^sup>* s t" and "inv s" and "\<And>c. \<not> edge (status s) c"
  shows "status t = status s"
  using closed_region [OF assms(1,2), of "\<lambda>c. c = status s"] assms(3) by blast

end

section \<open>Versioned stores\<close>

text \<open>A sequence of attempts to replace a value, each with its success.\<close>

fun swap_all :: "('s \<Rightarrow> 'v \<Rightarrow> bool \<times> 's) \<Rightarrow> 's \<Rightarrow> 'v list \<Rightarrow> bool list \<times> 's" where
  "swap_all swap s [] = ([], s)"
| "swap_all swap s (v # vs) =
     (let (ok, s1) = swap s v; (oks, s2) = swap_all swap s1 vs in (ok # oks, s2))"

text \<open>
  The interface of a store with optimistic concurrency: a replacement names the version it is
  based on; it succeeds only when that is the current version of its key, moves that key, and
  no other, to the next version, and changes nothing when it fails.
\<close>

locale versioned_store =
  fixes inv :: "'s \<Rightarrow> bool"
    and version :: "'s \<Rightarrow> 'k \<Rightarrow> int"
    and swap :: "'s \<Rightarrow> 'v \<Rightarrow> bool \<times> 's"
    and key :: "'v \<Rightarrow> 'k"
    and base :: "'v \<Rightarrow> int"
  assumes swap_inv: "inv s \<Longrightarrow> swap s v = (True, t) \<Longrightarrow> inv t"
    and swap_based: "inv s \<Longrightarrow> swap s v = (True, t) \<Longrightarrow> version s (key v) = base v"
    and swap_next: "inv s \<Longrightarrow> swap s v = (True, t) \<Longrightarrow> version t k = (if k = key v then base v + 1 else version s k)"
    and swap_failed: "swap s v = (False, t) \<Longrightarrow> t = s"
begin

lemma swap_any_inv: "inv s \<Longrightarrow> swap s v = (ok, t) \<Longrightarrow> inv t"
  by (cases ok) (auto dest: swap_failed intro: swap_inv)

lemma version_mono: "inv s \<Longrightarrow> swap s v = (ok, t) \<Longrightarrow> version s k \<le> version t k"
  by (cases ok) (auto dest: swap_failed simp: swap_next dest!: swap_based)

lemma versions_count:
  "inv s \<Longrightarrow> swap_all swap s vs = (oks, t) \<Longrightarrow>
   inv t \<and> length oks = length vs \<and>
   version t k = version s k + int (length (filter (\<lambda>(ok, v). ok \<and> key v = k) (zip oks vs)))"
proof (induction vs arbitrary: s oks)
  case (Cons v vs)
  obtain ok s1 where s1: "swap s v = (ok, s1)" by fastforce
  with Cons.prems obtain oks' where r: "swap_all swap s1 vs = (oks', t)" "oks = ok # oks'"
    by (auto split: prod.splits)
  have "version s1 k = version s k + (if ok \<and> key v = k then 1 else 0)"
    using s1 Cons.prems(1) by (cases ok) (auto dest: swap_failed swap_based simp: swap_next)
  with Cons.IH [OF swap_any_inv [OF Cons.prems(1) s1] r(1)] r(2) show ?case by auto
qed simp

lemma later_base:
  "inv s \<Longrightarrow> swap_all swap s vs = (oks, t) \<Longrightarrow> j < length vs \<Longrightarrow> oks ! j \<Longrightarrow>
   version s (key (vs ! j)) \<le> base (vs ! j)"
proof (induction vs arbitrary: s oks j)
  case (Cons v vs)
  obtain ok s1 where s1: "swap s v = (ok, s1)" by fastforce
  with Cons.prems obtain oks' where r: "swap_all swap s1 vs = (oks', t)" "oks = ok # oks'"
    by (auto split: prod.splits)
  show ?case
  proof (cases j)
    case 0
    with Cons.prems r(2) s1 show ?thesis using swap_based [of s v s1] by simp
  next
    case (Suc i)
    have "version s1 (key (vs ! i)) \<le> base (vs ! i)"
      using Cons.IH [OF swap_any_inv [OF Cons.prems(1) s1] r(1), of i] Cons.prems(3,4) r(2) Suc by simp
    with version_mono [OF Cons.prems(1) s1, of "key (vs ! i)"] show ?thesis by (simp add: Suc)
  qed
qed simp

text \<open>Of two successes for one key the later one is based on a later version.\<close>

lemma no_lost_update:
  "inv s \<Longrightarrow> swap_all swap s vs = (oks, t) \<Longrightarrow> i < j \<Longrightarrow> j < length vs \<Longrightarrow> oks ! i \<Longrightarrow> oks ! j \<Longrightarrow>
   key (vs ! i) = key (vs ! j) \<Longrightarrow> base (vs ! i) < base (vs ! j)"
proof (induction vs arbitrary: s oks i j)
  case (Cons v vs)
  obtain ok s1 where s1: "swap s v = (ok, s1)" by fastforce
  with Cons.prems obtain oks' where r: "swap_all swap s1 vs = (oks', t)" "oks = ok # oks'"
    by (auto split: prod.splits)
  note inv1 = swap_any_inv [OF Cons.prems(1) s1]
  obtain j' where j: "j = Suc j'" using Cons.prems(3) by (cases j) auto
  show ?case
  proof (cases i)
    case 0
    have "version s1 (key (vs ! j')) \<le> base (vs ! j')"
      using later_base [OF inv1 r(1), of j'] Cons.prems(4,6) r(2) j by simp
    moreover have "version s1 (key v) = base v + 1"
      using s1 Cons.prems(1,5) r(2) 0 swap_next [of s v s1] by simp
    ultimately show ?thesis using Cons.prems(7) 0 j by simp
  next
    case (Suc i')
    with Cons.IH [OF inv1 r(1), of i' j'] Cons.prems r(2) j show ?thesis by simp
  qed
qed simp

end

end
