(* ===== verification/Rust_Str.thy ===== *)
theory Rust_Str
  imports Prelude
begin

text \<open>
  The part of Rust's \<open>str\<close>, \<open>char\<close> and \<open>fmt\<close> the components use. A \<open>String\<close> is
  its UTF-8 byte sequence, a HOL \<open>string\<close>: \<open>len()\<close> is \<open>length\<close>, \<open>==\<close> and \<open>cmp\<close>
  are those of the byte list. \<open>chars\<close> decodes it into Unicode scalar values, on
  which the character classes, \<open>trim\<close> and \<open>chars().count()\<close> are defined;
  \<open>of_chars\<close> encodes them again.
\<close>

section \<open>UTF-8\<close>

type_synonym rchar = nat

fun decode :: "nat list \<Rightarrow> rchar list" where
  "decode [] = []"
| "decode (b # bs) =
     (if b < 128 then b # decode bs
      else if b < 224 then
        (case bs of c1 # r \<Rightarrow> ((b - 192) * 64 + (c1 - 128)) # decode r | _ \<Rightarrow> [])
      else if b < 240 then
        (case bs of c1 # c2 # r \<Rightarrow>
           ((b - 224) * 4096 + (c1 - 128) * 64 + (c2 - 128)) # decode r | _ \<Rightarrow> [])
      else
        (case bs of c1 # c2 # c3 # r \<Rightarrow>
           ((b - 240) * 262144 + (c1 - 128) * 4096 + (c2 - 128) * 64 + (c3 - 128)) # decode r
         | _ \<Rightarrow> []))"

definition encode_char :: "rchar \<Rightarrow> nat list" where
  "encode_char c =
     (if c < 128 then [c]
      else if c < 2048 then [192 + c div 64, 128 + c mod 64]
      else if c < 65536 then [224 + c div 4096, 128 + c div 64 mod 64, 128 + c mod 64]
      else [240 + c div 262144, 128 + c div 4096 mod 64, 128 + c div 64 mod 64, 128 + c mod 64])"

definition chars :: "string \<Rightarrow> rchar list" where
  "chars s = decode (map of_char s)"

definition of_chars :: "rchar list \<Rightarrow> string" where
  "of_chars cs = map char_of (concat (map encode_char cs))"

definition char_count :: "string \<Rightarrow> nat" where
  "char_count s = length (chars s)"

text \<open>\<open>len_utf8\<close>: the bytes of one character.\<close>

definition len_utf8 :: "rchar \<Rightarrow> nat" where
  "len_utf8 c = (if c < 128 then 1 else if c < 2048 then 2 else if c < 65536 then 3 else 4)"

definition scalar_value :: "rchar \<Rightarrow> bool" where
  "scalar_value c \<longleftrightarrow> c < 1114112"

definition is_ascii :: "string \<Rightarrow> bool" where
  "is_ascii s \<longleftrightarrow> list_all (\<lambda>c. of_char c < (128::nat)) s"

section \<open>Character classes\<close>

text \<open>\<open>char::is_control\<close> is the Unicode category Cc, \<open>char::is_whitespace\<close> the
  property White_Space.\<close>

definition is_control :: "rchar \<Rightarrow> bool" where
  "is_control c \<longleftrightarrow> c < 32 \<or> (127 \<le> c \<and> c < 160)"

definition is_whitespace :: "rchar \<Rightarrow> bool" where
  "is_whitespace c \<longleftrightarrow>
     (9 \<le> c \<and> c \<le> 13) \<or> c = 32 \<or> c = 133 \<or> c = 160 \<or> c = 5760 \<or>
     (8192 \<le> c \<and> c \<le> 8202) \<or> c = 8232 \<or> c = 8233 \<or> c = 8239 \<or> c = 8287 \<or> c = 12288"

definition is_ascii_digit :: "rchar \<Rightarrow> bool" where
  "is_ascii_digit c \<longleftrightarrow> 48 \<le> c \<and> c \<le> 57"

definition is_ascii_hexdigit :: "rchar \<Rightarrow> bool" where
  "is_ascii_hexdigit c \<longleftrightarrow> is_ascii_digit c \<or> (65 \<le> c \<and> c \<le> 70) \<or> (97 \<le> c \<and> c \<le> 102)"

definition is_ascii_uppercase :: "rchar \<Rightarrow> bool" where
  "is_ascii_uppercase c \<longleftrightarrow> 65 \<le> c \<and> c \<le> 90"

definition is_ascii_alphanumeric :: "rchar \<Rightarrow> bool" where
  "is_ascii_alphanumeric c \<longleftrightarrow> is_ascii_digit c \<or> is_ascii_uppercase c \<or> (97 \<le> c \<and> c \<le> 122)"

definition to_ascii_lowercase :: "rchar \<Rightarrow> rchar" where
  "to_ascii_lowercase c = (if is_ascii_uppercase c then c + 32 else c)"

section \<open>Trimming\<close>

definition trim_chars :: "rchar list \<Rightarrow> rchar list" where
  "trim_chars cs = rev (dropWhile is_whitespace (rev (dropWhile is_whitespace cs)))"

definition trim :: "string \<Rightarrow> string" where
  "trim s = of_chars (trim_chars (chars s))"

text \<open>\<open>s.trim().is_empty()\<close>.\<close>

definition blank :: "string \<Rightarrow> bool" where
  "blank s \<longleftrightarrow> trim s = []"

text \<open>\<open>str::contains\<close>.\<close>

fun contains :: "string \<Rightarrow> string \<Rightarrow> bool" where
  "contains [] p \<longleftrightarrow> p = []"
| "contains (c # s) p \<longleftrightarrow> take (length p) (c # s) = p \<or> contains s p"

section \<open>Decimal numbers\<close>

fun show_nat :: "nat \<Rightarrow> string" where
  "show_nat n = (if n < 10 then [char_of (48 + n)] else show_nat (n div 10) @ [char_of (48 + n mod 10)])"

declare show_nat.simps [simp del]

definition show_int :: "int \<Rightarrow> string" where
  "show_int i = (if i < 0 then ''-'' @ show_nat (nat (- i)) else show_nat (nat i))"

text \<open>\<open>'{v}'\<close> in a message.\<close>

definition quoted :: "string \<Rightarrow> string" where
  "quoted v = CHR 0x27 # v @ [CHR 0x27]"

text \<open>\<open>{label}[{i}]\<close>.\<close>

definition index_label :: "string \<Rightarrow> nat \<Rightarrow> string" where
  "index_label label i = label @ ''['' @ show_nat i @ '']''"

text \<open>\<open>{:0w}\<close> for a number that is not negative.\<close>

definition pad0 :: "nat \<Rightarrow> nat \<Rightarrow> string" where
  "pad0 w n = replicate (w - length (show_nat n)) (CHR ''0'') @ show_nat n"

definition all_digits :: "string \<Rightarrow> bool" where
  "all_digits s \<longleftrightarrow> list_all (\<lambda>c. is_ascii_digit (of_char c)) s"

definition digits_value :: "string \<Rightarrow> nat" where
  "digits_value s = foldl (\<lambda>v c. 10 * v + (of_char c - 48)) 0 s"

text \<open>\<open>parse::<i64>()\<close> on a string of ASCII digits: it fails on the empty string and on
  a value out of range.\<close>

definition parse_i64_digits :: "string \<Rightarrow> int option" where
  "parse_i64_digits s =
     (if s \<noteq> [] \<and> int (digits_value s) \<le> i64_max then Some (int (digits_value s)) else None)"

section \<open>Lemmas\<close>

lemma decode_encode_char:
  assumes "scalar_value c"
  shows "decode (encode_char c @ bs) = c # decode bs"
proof -
  have sum64: "c div 64 * 64 + c mod 64 = c"
    by simp
  have q: "c div 4096 = c div 64 div 64" "c div 262144 = c div 64 div 64 div 64"
    by (simp_all add: div_mult2_eq [symmetric])
  have "c div 64 div 64 * 64 + c div 64 mod 64 = c div 64"
    "c div 64 div 64 div 64 * 64 + c div 64 div 64 mod 64 = c div 64 div 64"
    by simp_all
  with sum64 have sum4096: "c div 4096 * 4096 + c div 64 mod 64 * 64 + c mod 64 = c"
    and sum262144:
      "c div 262144 * 262144 + c div 4096 mod 64 * 4096 + c div 64 mod 64 * 64 + c mod 64 = c"
    unfolding q by linarith+
  consider "c < 128" | "128 \<le> c" "c < 2048" | "2048 \<le> c" "c < 65536" | "65536 \<le> c"
    by linarith
  then show ?thesis
  proof cases
    case 1
    then show ?thesis by (simp add: encode_char_def)
  next
    case 2
    then have "c div 64 < 32" by simp
    with 2 sum64 show ?thesis by (simp add: encode_char_def)
  next
    case 3
    then have "c div 4096 < 16" by simp
    with 3 sum4096 show ?thesis by (simp add: encode_char_def)
  next
    case 4
    with sum262144 show ?thesis by (simp add: encode_char_def)
  qed
qed

lemma encode_char_bytes: "scalar_value c \<Longrightarrow> b \<in> set (encode_char c) \<Longrightarrow> b < 256"
proof -
  assume c: "scalar_value c" and b: "b \<in> set (encode_char c)"
  have m: "c mod 64 < 64" "c div 64 mod 64 < 64" "c div 4096 mod 64 < 64"
    by simp_all
  have "c < 2048 \<Longrightarrow> c div 64 < 32" "c < 65536 \<Longrightarrow> c div 4096 < 16" "c div 262144 < 5"
    using c by (simp_all add: scalar_value_def)
  with m b show "b < 256"
    by (auto simp: encode_char_def split: if_splits)
qed

lemma length_encode_char: "length (encode_char c) = len_utf8 c"
  by (simp add: encode_char_def len_utf8_def)

text \<open>Encoding and then decoding gives the characters back.\<close>

lemma decode_concat_encode:
  "list_all scalar_value cs \<Longrightarrow> decode (concat (map encode_char cs)) = cs"
  by (induction cs) (simp_all add: decode_encode_char del: decode.simps(2))

lemma map_of_char_char_of:
  "\<forall>b \<in> set bs. b < (256::nat) \<Longrightarrow> map of_char (map char_of bs) = bs"
  by (induction bs) simp_all

lemma chars_of_chars:
  assumes "list_all scalar_value cs"
  shows "chars (of_chars cs) = cs"
proof -
  have "\<forall>b \<in> set (concat (map encode_char cs)). b < 256"
    using assms encode_char_bytes by (auto simp: list_all_iff)
  then have "map of_char (of_chars cs) = concat (map encode_char cs)"
    unfolding of_chars_def by (rule map_of_char_char_of)
  with assms show ?thesis
    by (simp add: chars_def decode_concat_encode)
qed

lemma chars_Nil [simp]: "chars [] = []"
  by (simp add: chars_def)

lemma of_chars_Nil [simp]: "of_chars [] = []"
  by (simp add: of_chars_def)

lemma decode_ascii: "list_all (\<lambda>b. b < 128) bs \<Longrightarrow> decode bs = bs"
  by (induction bs) simp_all

lemma chars_ascii: "is_ascii s \<Longrightarrow> chars s = map of_char s"
  by (simp add: chars_def is_ascii_def decode_ascii list_all_iff)

lemma char_count_ascii: "is_ascii s \<Longrightarrow> char_count s = length s"
  by (simp add: char_count_def chars_ascii)

lemma of_chars_eq_Nil: "of_chars cs = [] \<longleftrightarrow> cs = []"
proof -
  have "encode_char c \<noteq> []" for c
    by (simp add: encode_char_def)
  then show ?thesis by (cases cs) (simp_all add: of_chars_def)
qed

lemma trim_chars_eq_Nil: "trim_chars cs = [] \<longleftrightarrow> list_all is_whitespace cs"
proof -
  have "dropWhile is_whitespace (rev (dropWhile is_whitespace cs)) = [] \<longleftrightarrow>
      (\<forall>x \<in> set (dropWhile is_whitespace cs). is_whitespace x)"
    by simp
  moreover have "(\<forall>x \<in> set (dropWhile is_whitespace cs). is_whitespace x) \<longleftrightarrow>
      (\<forall>x \<in> set cs. is_whitespace x)"
    by (induction cs) auto
  ultimately show ?thesis by (simp add: trim_chars_def list_all_iff)
qed

lemma of_chars_ascii: "is_ascii s \<Longrightarrow> of_chars (map of_char s) = s"
  by (induction s) (simp_all add: is_ascii_def of_chars_def encode_char_def)

text \<open>An ASCII word without whitespace at its ends is not changed by trimming.\<close>

lemma trim_ascii:
  assumes "is_ascii s" and "s \<noteq> []" and "\<not> is_whitespace (of_char (hd s))" "\<not> is_whitespace (of_char (last s))"
  shows "trim s = s"
proof -
  have "dropWhile is_whitespace (map of_char s) = map of_char s"
    using assms(2,3) by (cases s) simp_all
  moreover have "dropWhile is_whitespace (rev (map of_char s)) = rev (map of_char s)"
    using assms(2,4) by (cases s rule: rev_cases) simp_all
  ultimately show ?thesis
    using assms(1) by (simp add: trim_def trim_chars_def chars_ascii of_chars_ascii)
qed

text \<open>A string is blank exactly when it has only whitespace.\<close>

lemma blank_iff: "blank s \<longleftrightarrow> list_all is_whitespace (chars s)"
  by (simp add: blank_def trim_def of_chars_eq_Nil trim_chars_eq_Nil)

lemma blank_Nil [simp]: "blank []"
  by (simp add: blank_iff)

lemma show_nat_digits: "all_digits (show_nat n)"
proof (induction n rule: show_nat.induct)
  case (1 n)
  show ?case
  proof (cases "n < 10")
    case True
    then show ?thesis
      by (simp add: show_nat.simps [of n] all_digits_def is_ascii_digit_def)
  next
    case False
    have "48 + n mod 10 \<le> 57" by simp
    with False 1 show ?thesis
      by (simp add: show_nat.simps [of n] all_digits_def is_ascii_digit_def)
  qed
qed

lemma digits_value_append1: "digits_value (s @ [c]) = 10 * digits_value s + (of_char c - 48)"
  by (simp add: digits_value_def)

text \<open>Printing a number and reading it back.\<close>

lemma digits_value_show_nat: "digits_value (show_nat n) = n"
proof (induction n rule: show_nat.induct)
  case (1 n)
  show ?case
  proof (cases "n < 10")
    case True
    then show ?thesis by (simp add: show_nat.simps [of n] digits_value_def)
  next
    case False
    with 1 show ?thesis
      by (simp add: show_nat.simps [of n] digits_value_append1)
  qed
qed

lemma show_nat_not_Nil [simp]: "show_nat n \<noteq> []"
  by (simp add: show_nat.simps)

lemma show_nat_inj: "show_nat m = show_nat n \<longleftrightarrow> m = n"
  by (metis digits_value_show_nat)

lemma char_0: "CHR ''0'' = char_of (48::nat)"
  by code_simp

lemma pad0_2: "n < 100 \<Longrightarrow> pad0 2 n = [char_of (48 + n div 10), char_of (48 + n mod 10)]"
  by (cases "n < 10") (simp_all add: pad0_def char_0 show_nat.simps [of n] show_nat.simps [of "n div 10"])

lemma pad0_4:
  assumes "n < 10000"
  shows "pad0 4 n = [char_of (48 + n div 1000), char_of (48 + n div 100 mod 10),
    char_of (48 + n div 10 mod 10), char_of (48 + n mod 10)]"
proof -
  have d: "n div 10 div 10 = n div 100" "n div 100 div 10 = n div 1000"
    by (simp_all add: div_mult2_eq [symmetric])
  have c: "n div 10 < 10 \<longleftrightarrow> n < 100" "n div 100 < 10 \<longleftrightarrow> n < 1000" "n div 1000 < 10"
    using assms by auto
  have s: "show_nat n = (if n < 10 then [char_of (48 + n)]
      else if n < 100 then [char_of (48 + n div 10), char_of (48 + n mod 10)]
      else if n < 1000 then [char_of (48 + n div 100), char_of (48 + n div 10 mod 10), char_of (48 + n mod 10)]
      else [char_of (48 + n div 1000), char_of (48 + n div 100 mod 10), char_of (48 + n div 10 mod 10), char_of (48 + n mod 10)])"
    using assms d c
    by (simp add: show_nat.simps [of n] show_nat.simps [of "n div 10"]
        show_nat.simps [of "n div 100"] show_nat.simps [of "n div 1000"])
  have r: "replicate 3 x = [x, x, x]" "replicate 2 x = [x, x]" for x :: char
    by (simp_all add: numeral_3_eq_3 numeral_2_eq_2)
  consider "n < 10" | "10 \<le> n" "n < 100" | "100 \<le> n" "n < 1000" | "1000 \<le> n"
    by linarith
  then show ?thesis
    by cases (simp_all add: pad0_def s char_0 r)
qed

end
