(* ===== verification/Iso8601.thy ===== *)
theory Iso8601
  imports Rust_Str
begin

text \<open>
  The hand-written timestamp codec of \<open>src/src/util.rs\<close>: \<open>parse_iso8601_ms\<close>, which
  reads the retention convention \<open>expires_at\<close>, and \<open>format_iso8601\<close>. The parser
  counts days with the era formula of days-from-civil, the formatter subtracts year and
  month lengths in two loops; the theorems show that the two agree on every second from
  1970 to the end of 9999.
\<close>

section \<open>Parsing\<close>

text \<open>The closure \<open>num\<close>: a slice that is in range, made of digits, and read as an \<open>i64\<close>.\<close>

definition iso_num :: "string \<Rightarrow> nat \<Rightarrow> nat \<Rightarrow> int option" where
  "iso_num s a b =
     (if b \<le> length s \<and> all_digits (take (b - a) (drop a s))
      then parse_i64_digits (take (b - a) (drop a s)) else None)"

text \<open>Days since 1970-01-01 of a civil date, as the parser computes them.\<close>

definition days_from_civil :: "int \<Rightarrow> int \<Rightarrow> int \<Rightarrow> int" where
  "days_from_civil year month day =
     (let y = (if month \<le> 2 then year - 1 else year);
          era = rust_div (if 0 \<le> y then y else y - 399) 400;
          yoe = y - era * 400;
          mp = (if month > 2 then month - 3 else month + 9);
          doy = rust_div (153 * mp + 2) 5 + day - 1;
          doe = yoe * 365 + rust_div yoe 4 - rust_div yoe 100 + doy
      in era * 146097 + doe - 719468)"

text \<open>
  The fractional seconds after position 19: the milliseconds and the position after
  them. \<open>None\<close> is a failed parse of the digits.
\<close>

definition iso_fraction :: "string \<Rightarrow> (int \<times> nat) option" where
  "iso_fraction s =
     (if 19 < length s \<and> s ! 19 = CHR ''.'' then
        (let digits = takeWhile (\<lambda>c. is_ascii_digit (of_char c)) (drop 20 s)
         in case parse_i64_digits digits of
              None \<Rightarrow> None
            | Some v \<Rightarrow> Some (v * 10 ^ (3 - length digits), 20 + length digits))
      else Some (0, 19))"

text \<open>The offset at position \<open>i\<close>, in minutes.\<close>

definition iso_offset :: "string \<Rightarrow> nat \<Rightarrow> int option" where
  "iso_offset s i =
     (if \<not> i < length s then None
      else if s ! i = CHR ''Z'' then Some 0
      else if s ! i = CHR ''+'' \<or> s ! i = CHR ''-'' then
        (case (iso_num s (i + 1) (i + 3), iso_num s (i + 4) (i + 6)) of
           (Some oh, Some om) \<Rightarrow>
             if oh > 23 \<or> om > 59 then None
             else Some ((if s ! i = CHR ''-'' then -1 else 1) * (oh * 60 + om))
         | _ \<Rightarrow> None)
      else None)"

definition parse_iso8601_ms :: "string \<Rightarrow> int option" where
  "parse_iso8601_ms s =
     (if length s < 20 \<or> s ! 4 \<noteq> CHR ''-'' \<or> s ! 7 \<noteq> CHR ''-'' \<or> s ! 10 \<noteq> CHR ''T''
         \<or> s ! 13 \<noteq> CHR '':'' \<or> s ! 16 \<noteq> CHR '':'' then None
      else case (iso_num s 0 4, iso_num s 5 7, iso_num s 8 10) of
        (Some year, Some month, Some day) \<Rightarrow>
          (case (iso_num s 11 13, iso_num s 14 16, iso_num s 17 19) of
             (Some hour, Some minute, Some second) \<Rightarrow>
               if \<not> (1 \<le> month \<and> month \<le> 12) \<or> \<not> (1 \<le> day \<and> day \<le> 31)
                  \<or> hour > 23 \<or> minute > 59 \<or> second > 60 then None
               else (case iso_fraction s of
                  None \<Rightarrow> None
                | Some (frac_ms, i) \<Rightarrow>
                    (case iso_offset s i of
                       None \<Rightarrow> None
                     | Some offset_minutes \<Rightarrow>
                         let days = days_from_civil year month day;
                             secs = days * 86400 + hour * 3600 + minute * 60 + second
                                      - offset_minutes * 60
                         in Some (wrap64 (secs * 1000 + frac_ms))))
           | _ \<Rightarrow> None)
      | _ \<Rightarrow> None)"

section \<open>Formatting\<close>

definition is_leap :: "int \<Rightarrow> bool" where
  "is_leap y \<longleftrightarrow> (y mod 4 = 0 \<and> y mod 100 \<noteq> 0) \<or> y mod 400 = 0"

definition days_in_year :: "int \<Rightarrow> int" where
  "days_in_year y = (if is_leap y then 366 else 365)"

text \<open>The first loop: from a day count to a year and the day in it.\<close>

function year_loop :: "int \<Rightarrow> int \<Rightarrow> int \<times> int" where
  "year_loop y d = (if d < days_in_year y then (y, d) else year_loop (y + 1) (d - days_in_year y))"
  by pat_completeness auto
termination
  by (relation "measure (\<lambda>(y, d). nat (d + 1))") (auto simp: days_in_year_def split: if_splits)

declare year_loop.simps [simp del]

definition month_days :: "bool \<Rightarrow> int list" where
  "month_days leap = [31, if leap then 29 else 28, 31, 30, 31, 30, 31, 31, 30, 31, 30, 31]"

text \<open>The second loop, over the remaining months: the month index and the day in it.\<close>

fun month_loop :: "int list \<Rightarrow> nat \<Rightarrow> int \<Rightarrow> nat \<times> int" where
  "month_loop [] m d = (m, d)"
| "month_loop (l # ls) m d = (if l \<le> d then month_loop ls (Suc m) (d - l) else (m, d))"

definition format_iso8601 :: "int \<Rightarrow> string" where
  "format_iso8601 secs =
     (if secs \<le> 0 then ''1970-01-01T00:00:00Z''
      else
        let days_since_epoch = rust_div secs 86400;
            secs_of_day = rust_mod secs 86400;
            (y, d) = year_loop 1970 days_since_epoch;
            (m, d') = month_loop (month_days (is_leap y)) 0 d;
            month = m + 1;
            day = d' + 1;
            h = rust_div secs_of_day 3600;
            min = rust_div (rust_mod secs_of_day 3600) 60;
            s = rust_mod secs_of_day 60
        in pad0 4 (nat y) @ ''-'' @ pad0 2 month @ ''-'' @ pad0 2 (nat day) @ ''T''
           @ pad0 2 (nat h) @ '':'' @ pad0 2 (nat min) @ '':'' @ pad0 2 (nat s) @ ''Z'')"

section \<open>The calendar\<close>

text \<open>The era formula is the usual count of years and leap years.\<close>

lemma era_formula:
  fixes Y z :: int
  shows "Y div 400 * 146097 + ((Y - Y div 400 * 400) * 365 + (Y - Y div 400 * 400) div 4
           - (Y - Y div 400 * 400) div 100 + z)
         = 365 * Y + Y div 4 - Y div 100 + Y div 400 + z"
proof -
  define e r where "e = Y div 400" and "r = Y mod 400"
  have Y: "Y = 400 * e + r" and r: "0 \<le> r" "r < 400"
    by (simp_all add: e_def r_def)
  have "Y - e * 400 = r" by (simp add: Y)
  moreover have "(400 * e + r) div 4 = 100 * e + r div 4" by simp
  moreover have "(400 * e + r) div 100 = 4 * e + r div 100" by simp
  ultimately show ?thesis
    unfolding e_def [symmetric] by (simp add: Y algebra_simps)
qed

definition jan1 :: "int \<Rightarrow> int" where
  "jan1 y = 365 * (y - 1) + (y - 1) div 4 - (y - 1) div 100 + (y - 1) div 400 + 306 - 719468"

definition month_offset :: "bool \<Rightarrow> nat \<Rightarrow> int" where
  "month_offset leap m = sum_list (take m (month_days leap))"

lemma div_unique_range:
  fixes n y q :: int
  assumes "q * n \<le> y" "y < q * n + n"
  shows "y div n = q"
proof -
  from assms have "0 < n" by linarith
  moreover have "y = n * q + (y - q * n)" by (simp add: algebra_simps)
  ultimately show ?thesis
    using assms by (intro int_div_pos_eq [of y n q "y - q * n"]) simp_all
qed

lemma div_pred:
  fixes n y :: int
  assumes "0 < n"
  shows "y div n = (y - 1) div n + (if y mod n = 0 then 1 else 0)"
proof -
  define q r where "q = y div n" and "r = y mod n"
  have y: "y = q * n + r" and r: "0 \<le> r" "r < n"
    using assms by (simp_all add: q_def r_def)
  have "(y - 1) div n = (if r = 0 then q - 1 else q)"
    using y r by (intro div_unique_range) (auto simp: left_diff_distrib)
  then show ?thesis
    by (simp add: q_def r_def)
qed

lemma mod_400_100:
  fixes y :: int
  shows "y mod 400 = 0 \<Longrightarrow> y mod 100 = 0" and "y mod 100 = 0 \<Longrightarrow> y mod 4 = 0"
proof -
  show "y mod 100 = 0" if "y mod 400 = 0"
  proof -
    from that obtain k where "y = 400 * k" by (auto simp: mod_eq_0_iff_dvd elim: dvdE)
    then have "y = 100 * (4 * k)" by simp
    then show ?thesis by (simp only: mod_mult_self1_is_0)
  qed
  show "y mod 4 = 0" if "y mod 100 = 0"
  proof -
    from that obtain k where "y = 100 * k" by (auto simp: mod_eq_0_iff_dvd elim: dvdE)
    then have "y = 4 * (25 * k)" by simp
    then show ?thesis by (simp only: mod_mult_self1_is_0)
  qed
qed

lemma jan1_Suc: "jan1 (y + 1) = jan1 y + days_in_year y"
proof -
  have "jan1 (y + 1) = 365 * y + y div 4 - y div 100 + y div 400 + 306 - 719468"
    by (simp add: jan1_def)
  also have "\<dots> = jan1 y + 365 + (if y mod 4 = 0 then 1 else 0)
      - (if y mod 100 = 0 then 1 else 0) + (if y mod 400 = 0 then 1 else 0)"
    unfolding jan1_def div_pred [of 4 y, simplified] div_pred [of 100 y, simplified]
      div_pred [of 400 y, simplified]
    by simp
  also have "\<dots> = jan1 y + days_in_year y"
    using mod_400_100 [of y] by (simp add: days_in_year_def is_leap_def)
  finally show ?thesis .
qed

lemma year_loop_correct:
  assumes "year_loop y d = (y', d')" and "0 \<le> d"
  shows "y \<le> y' \<and> 0 \<le> d' \<and> d' < days_in_year y' \<and> jan1 y' + d' = jan1 y + d"
  using assms
proof (induction y d rule: year_loop.induct)
  case (1 y d)
  show ?case
  proof (cases "d < days_in_year y")
    case True
    with "1.prems" show ?thesis by (simp add: year_loop.simps [of y d])
  next
    case False
    with "1.prems" have "year_loop (y + 1) (d - days_in_year y) = (y', d')" "0 \<le> d - days_in_year y"
      by (simp_all add: year_loop.simps [of y d])
    with "1.IH" False show ?thesis by (simp add: jan1_Suc)
  qed
qed

lemma jan1_mono: "y \<le> z \<Longrightarrow> jan1 y \<le> jan1 z"
proof (induction z rule: int_ge_induct)
  case (step z)
  then show ?case by (simp add: jan1_Suc days_in_year_def)
qed simp

text \<open>The parser's day count, from the first of January and the month lengths.\<close>

lemma days_from_civil_shift:
  assumes "0 \<le> Y" and "0 \<le> mp" and "Y = (if month \<le> 2 then year - 1 else year)"
    and "mp = (if month > 2 then month - 3 else month + 9)"
  shows "days_from_civil year month day =
    365 * Y + Y div 4 - Y div 100 + Y div 400 + (153 * mp + 2) div 5 + day - 1 - 719468"
proof -
  have "0 \<le> Y - Y div 400 * 400"
    unfolding minus_div_mult_eq_mod by (rule pos_mod_sign) simp
  then have quot: "rust_div (Y - Y div 400 * 400) 4 = (Y - Y div 400 * 400) div 4"
    "rust_div (Y - Y div 400 * 400) 100 = (Y - Y div 400 * 400) div 100"
    "rust_div (153 * mp + 2) 5 = (153 * mp + 2) div 5"
    using \<open>0 \<le> mp\<close> by (auto intro!: rust_div_nonneg)
  have era: "rust_div Y 400 = Y div 400"
    using \<open>0 \<le> Y\<close> by (simp add: rust_div_nonneg)
  have split: "days_from_civil year month day =
      Y div 400 * 146097 + ((Y - Y div 400 * 400) * 365 + (Y - Y div 400 * 400) div 4
        - (Y - Y div 400 * 400) div 100 + ((153 * mp + 2) div 5 + day - 1)) - 719468"
    unfolding days_from_civil_def Let_def assms(3) [symmetric] assms(4) [symmetric]
    using \<open>0 \<le> Y\<close> by (simp only: if_True era quot)
  show ?thesis
    unfolding split era_formula by (simp only: add_diff_eq add.assoc [symmetric])
qed

lemma month_cases:
  fixes m :: nat
  assumes "m < 12"
  obtains "m = 0" | "m = 1" | "m = 2" | "m = 3" | "m = 4" | "m = 5" | "m = 6" | "m = 7"
    | "m = 8" | "m = 9" | "m = 10" | "m = 11"
  using assms by atomize_elim arith

lemma jan1_regroup:
  fixes a b c e q d :: int
  shows "a + b - c + e + q + d - 719468 = (a + b - c + e + 306 - 719468) - 306 + q + d"
  by simp

lemma days_from_civil_month:
  assumes "1 \<le> y" and "m < 12"
  shows "days_from_civil y (int m + 1) (d + 1) = jan1 y + month_offset (is_leap y) m + d"
proof (cases "m \<le> 1")
  case True
  with assms have "days_from_civil y (int m + 1) (d + 1) =
      365 * (y - 1) + (y - 1) div 4 - (y - 1) div 100 + (y - 1) div 400
        + (153 * (int m + 10) + 2) div 5 + d - 719468"
    by (subst days_from_civil_shift [of "y - 1" "int m + 10"]) simp_all
  also have "\<dots> = jan1 y - 306 + (153 * (int m + 10) + 2) div 5 + d"
    unfolding jan1_def by (rule jan1_regroup)
  also have "\<dots> = jan1 y + month_offset (is_leap y) m + d"
    using True by (cases m) (auto simp: month_offset_def month_days_def)
  finally show ?thesis .
next
  case False
  with assms have "days_from_civil y (int m + 1) (d + 1) =
      365 * (y + 1 - 1) + (y + 1 - 1) div 4 - (y + 1 - 1) div 100 + (y + 1 - 1) div 400
        + (153 * (int m - 2) + 2) div 5 + d - 719468"
    by (subst days_from_civil_shift [of y "int m - 2"]) simp_all
  also have "\<dots> = jan1 (y + 1) - 306 + (153 * (int m - 2) + 2) div 5 + d"
    unfolding jan1_def by (rule jan1_regroup)
  also have "\<dots> = jan1 y + month_offset (is_leap y) m + d"
    unfolding jan1_Suc days_in_year_def using \<open>m < 12\<close> False
    by (cases rule: month_cases) (simp_all add: month_offset_def month_days_def)
  finally show ?thesis .
qed

lemma month_loop_correct:
  assumes "month_loop ls m d = (m', d')" and "0 \<le> d" and "d < sum_list ls" and "\<forall>l \<in> set ls. 0 < l"
  shows "\<exists>k < length ls. m' = m + k \<and> 0 \<le> d' \<and> d' < ls ! k \<and> d = sum_list (take k ls) + d'"
  using assms
proof (induction ls arbitrary: m d)
  case Nil
  then show ?case by simp
next
  case (Cons l ls)
  show ?case
  proof (cases "l \<le> d")
    case True
    with Cons.prems have "month_loop ls (Suc m) (d - l) = (m', d')" "0 \<le> d - l"
      "d - l < sum_list ls" "\<forall>l \<in> set ls. 0 < l"
      by simp_all
    then obtain k where "k < length ls" "m' = Suc m + k" "0 \<le> d'" "d' < ls ! k"
      "d - l = sum_list (take k ls) + d'"
      using Cons.IH by blast
    then show ?thesis by (intro exI [of _ "Suc k"]) auto
  next
    case False
    with Cons.prems show ?thesis by (intro exI [of _ 0]) auto
  qed
qed

lemma month_days_facts:
  "length (month_days b) = 12" "sum_list (month_days b) = (if b then 366 else 365)"
  "\<forall>l \<in> set (month_days b). 0 < l \<and> l \<le> 31"
  by (auto simp: month_days_def)

section \<open>The round trip\<close>

lemma iso_num_slice:
  assumes "s = xs @ ds @ ys" and "a = length xs" and "b = a + length ds"
    and "ds \<noteq> []" and "all_digits ds" and "int (digits_value ds) \<le> i64_max"
  shows "iso_num s a b = Some (int (digits_value ds))"
  using assms by (simp add: iso_num_def parse_i64_digits_def)

lemma digits_value_2: "n < 100 \<Longrightarrow> digits_value [char_of (48 + n div 10), char_of (48 + n mod 10)] = n"
proof -
  assume "n < 100"
  then have "n div 10 < 10" by simp
  then show ?thesis by (simp add: digits_value_def)
qed

lemma digits_value_4:
  assumes "n < 10000"
  shows "digits_value [char_of (48 + n div 1000), char_of (48 + n div 100 mod 10),
    char_of (48 + n div 10 mod 10), char_of (48 + n mod 10)] = n"
proof -
  from assms have "n div 1000 < 10" by simp
  moreover have "10 * (10 * (10 * (n div 1000) + n div 100 mod 10) + n div 10 mod 10) + n mod 10 = n"
  proof -
    have q: "n div 1000 = n div 10 div 10 div 10" "n div 100 = n div 10 div 10"
      by (simp_all add: div_mult2_eq [symmetric])
    show ?thesis unfolding q by simp
  qed
  ultimately show ?thesis by (simp add: digits_value_def)
qed

lemma all_digits_chars:
  "all_digits [] " "all_digits (char_of (48 + k) # cs) \<longleftrightarrow> all_digits cs" if "k < (10::nat)" for k
  using that by (simp_all add: all_digits_def is_ascii_digit_def)

lemma iso_num_2:
  assumes "n < 100" and "s = xs @ pad0 2 n @ ys" and "a = length xs"
  shows "iso_num s a (a + 2) = Some (int n)"
proof -
  from assms(1) have "n div 10 < 10" by simp
  then show ?thesis
    using assms by (subst iso_num_slice [of s xs "pad0 2 n" ys])
      (simp_all add: pad0_2 digits_value_2 all_digits_chars i64_max_def)
qed

lemma iso_num_4:
  assumes "n < 10000" and "s = pad0 4 n @ ys"
  shows "iso_num s 0 4 = Some (int n)"
proof -
  from assms(1) have "n div 1000 < 10" by simp
  then show ?thesis
    using assms by (subst iso_num_slice [of s "[]" "pad0 4 n" ys])
      (simp_all add: pad0_4 digits_value_4 all_digits_chars i64_max_def)
qed

lemma length_pad0: "n < 100 \<Longrightarrow> length (pad0 2 n) = 2" "n < 10000 \<Longrightarrow> length (pad0 4 n) = 4"
  by (simp_all add: pad0_2 pad0_4)

text \<open>What the parser makes of a string in the formatter's shape.\<close>

lemma parse_fields:
  assumes y: "y < 10000" and mo: "1 \<le> mo" "mo \<le> 12" and da: "1 \<le> da" "da \<le> 31"
    and h: "h \<le> 23" and mi: "mi \<le> 59" and se: "se \<le> 59"
  shows "parse_iso8601_ms (pad0 4 y @ ''-'' @ pad0 2 mo @ ''-'' @ pad0 2 da @ ''T''
      @ pad0 2 h @ '':'' @ pad0 2 mi @ '':'' @ pad0 2 se @ ''Z'') =
    Some (wrap64 ((days_from_civil (int y) (int mo) (int da) * 86400 + int h * 3600
      + int mi * 60 + int se) * 1000))"
proof -
  define s where "s = pad0 4 y @ ''-'' @ pad0 2 mo @ ''-'' @ pad0 2 da @ ''T''
      @ pad0 2 h @ '':'' @ pad0 2 mi @ '':'' @ pad0 2 se @ ''Z''"
  note len = length_pad0
  have shape: "length s = 20" "s ! 4 = CHR ''-''" "s ! 7 = CHR ''-''" "s ! 10 = CHR ''T''"
      "s ! 13 = CHR '':''" "s ! 16 = CHR '':''" "s ! 19 = CHR ''Z''"
    using assms by (simp_all add: s_def nth_append len)
  have "iso_num s 0 4 = Some (int y)"
    using y by (rule iso_num_4) (simp add: s_def)
  moreover have "iso_num s 5 7 = Some (int mo)"
    using iso_num_2 [of mo s "pad0 4 y @ ''-''" _ 5] assms by (simp add: s_def len)
  moreover have "iso_num s 8 10 = Some (int da)"
    using iso_num_2 [of da s "pad0 4 y @ ''-'' @ pad0 2 mo @ ''-''" _ 8] assms
    by (simp add: s_def len)
  moreover have "iso_num s 11 13 = Some (int h)"
    using iso_num_2 [of h s "pad0 4 y @ ''-'' @ pad0 2 mo @ ''-'' @ pad0 2 da @ ''T''" _ 11] assms
    by (simp add: s_def len)
  moreover have "iso_num s 14 16 = Some (int mi)"
    using iso_num_2 [of mi s "pad0 4 y @ ''-'' @ pad0 2 mo @ ''-'' @ pad0 2 da @ ''T''
      @ pad0 2 h @ '':''" _ 14] assms
    by (simp add: s_def len)
  moreover have "iso_num s 17 19 = Some (int se)"
    using iso_num_2 [of se s "pad0 4 y @ ''-'' @ pad0 2 mo @ ''-'' @ pad0 2 da @ ''T''
      @ pad0 2 h @ '':'' @ pad0 2 mi @ '':''" _ 17] assms
    by (simp add: s_def len)
  moreover have "iso_fraction s = Some (0, 19)" "iso_offset s 19 = Some 0"
    using shape by (simp_all add: iso_fraction_def iso_offset_def)
  ultimately show ?thesis
    unfolding s_def [symmetric] using assms shape by (simp add: parse_iso8601_ms_def)
qed

text \<open>The days of the years 1970 to 9999.\<close>

lemma civil_of_days:
  assumes "0 \<le> D" and "D < 2932897" and "year_loop 1970 D = (y, d)"
    and "month_loop (month_days (is_leap y)) 0 d = (m, d')"
  shows "1970 \<le> y \<and> y < 10000 \<and> m < 12 \<and> 0 \<le> d' \<and> d' < 31 \<and>
    days_from_civil y (int m + 1) (d' + 1) = D"
proof -
  from year_loop_correct [OF assms(3,1)]
  have y: "1970 \<le> y" "0 \<le> d" "d < days_in_year y" "jan1 y + d = jan1 1970 + D" by auto
  have j: "jan1 1970 = 0" "jan1 10000 = 2932897" by (simp_all add: jan1_def)
  have "y < 10000"
  proof (rule ccontr)
    assume "\<not> y < 10000"
    then have "jan1 10000 \<le> jan1 y" by (intro jan1_mono) simp
    with y j assms(2) show False by simp
  qed
  moreover from month_loop_correct [OF assms(4) y(2)] y(3)
  obtain k where k: "k < 12" "m = k" "0 \<le> d'" "d' < month_days (is_leap y) ! k"
      "d = month_offset (is_leap y) k + d'"
    by (auto simp: month_days_facts days_in_year_def month_offset_def)
  moreover have "month_days (is_leap y) ! k \<le> 31"
    using k(1) month_days_facts(3) [of "is_leap y"]
    by (auto dest!: bspec [OF _ nth_mem [of k]] simp: month_days_facts(1))
  moreover have "days_from_civil y (int k + 1) (d' + 1) = D"
    using y j k days_from_civil_month [of y k d'] by simp
  ultimately show ?thesis using y by auto
qed

lemma format_iso8601_pos:
  assumes "0 < secs" and "secs < 253402300800"
  shows "parse_iso8601_ms (format_iso8601 secs) = Some (wrap64 (secs * 1000))"
proof -
  define D t where "D = secs div 86400" and "t = secs mod 86400"
  have t: "0 \<le> t" "t < 86400" and D: "0 \<le> D" "D < 2932897" and split: "secs = D * 86400 + t"
    using assms by (simp_all add: D_def t_def)
  obtain y d where yd: "year_loop 1970 D = (y, d)" by (cases "year_loop 1970 D")
  obtain m d' where md: "month_loop (month_days (is_leap y)) 0 d = (m, d')"
    by (cases "month_loop (month_days (is_leap y)) 0 d")
  note civil = civil_of_days [OF D yd md]
  have hms: "rust_div t 3600 = t div 3600" "rust_div (rust_mod t 3600) 60 = t mod 3600 div 60"
      "rust_mod t 60 = t mod 60"
    using t by (simp_all add: rust_div_nonneg rust_mod_nonneg)
  have bounds: "t div 3600 < 24" "t mod 3600 div 60 < 60"
    using t by simp_all
  have recombine: "t div 3600 * 3600 + t mod 3600 div 60 * 60 + t mod 60 = t"
  proof -
    have "t mod 60 = t mod 3600 mod 60" by (simp add: mod_mod_cancel)
    then show ?thesis by (simp only: div_mult_mod_eq add.assoc)
  qed
  have "format_iso8601 secs = pad0 4 (nat y) @ ''-'' @ pad0 2 (m + 1) @ ''-'' @ pad0 2 (nat (d' + 1))
      @ ''T'' @ pad0 2 (nat (t div 3600)) @ '':'' @ pad0 2 (nat (t mod 3600 div 60)) @ '':''
      @ pad0 2 (nat (t mod 60)) @ ''Z''"
    using assms yd md hms
    by (simp add: format_iso8601_def rust_div_nonneg rust_mod_nonneg D_def t_def Let_def)
  also have "parse_iso8601_ms \<dots> = Some (wrap64 ((D * 86400 + t div 3600 * 3600
      + t mod 3600 div 60 * 60 + t mod 60) * 1000))"
    using civil bounds t by (subst parse_fields) (auto simp: add.commute)
  also have "D * 86400 + t div 3600 * 3600 + t mod 3600 div 60 * 60 + t mod 60 = secs"
    using recombine split by linarith
  finally show ?thesis .
qed

lemma epoch_roundtrip: "parse_iso8601_ms (format_iso8601 0) = Some 0"
  by code_simp

section \<open>Properties\<close>

text \<open>
  C35. The formatter and the parser are inverse: the ISO 8601 text of any second from the
  epoch to the end of the year 9999 is read back as exactly that instant, in
  milliseconds.
\<close>

theorem format_parse_roundtrip:
  assumes "0 \<le> secs" and "secs < 253402300800"
  shows "parse_iso8601_ms (format_iso8601 secs) = Some (secs * 1000)"
proof (cases "secs = 0")
  case True
  then show ?thesis by (simp add: epoch_roundtrip)
next
  case False
  with assms have "parse_iso8601_ms (format_iso8601 secs) = Some (wrap64 (secs * 1000))"
    by (intro format_iso8601_pos) simp_all
  moreover have "in_i64 (secs * 1000)"
    using assms by (simp add: in_i64_def i64_min_def i64_max_def)
  ultimately show ?thesis by (simp add: wrap64_id)
qed

theorem format_parse_roundtrip_witness:
  "parse_iso8601_ms (format_iso8601 1709210096) = Some 1709210096000"
  using format_parse_roundtrip [of 1709210096] by simp

text \<open>
  The fractional seconds are read as their digits padded to three places, and are not
  cut after three: every digit beyond the third multiplies the milliseconds by ten, for
  any timestamp prefix of 19 bytes and any text after the digits.
\<close>

theorem iso_fraction_scaling:
  assumes "length pre = 19" and "ds \<noteq> []" and "all_digits ds"
    and "int (digits_value ds) \<le> i64_max" and "\<not> is_ascii_digit (of_char c)"
  shows "iso_fraction (pre @ ''.'' @ ds @ c # rest) =
    Some (int (digits_value ds) * 10 ^ (3 - length ds), 20 + length ds)"
proof -
  have "takeWhile (\<lambda>c. is_ascii_digit (of_char c)) (ds @ c # rest) = ds"
    using assms(3,5) by (induction ds) (auto simp: all_digits_def)
  with assms show ?thesis
    by (simp add: iso_fraction_def nth_append parse_i64_digits_def)
qed

theorem iso_fraction_scaling_witness:
  "iso_fraction ''1970-01-01T00:00:00.123456Z'' = Some (123456, 26)"
  using iso_fraction_scaling [of "''1970-01-01T00:00:00''" "''123456''" "CHR ''Z''" "[]"]
  by (simp add: all_digits_def digits_value_def is_ascii_digit_def i64_max_def)

end
