(* ===== verification/Json.thy ===== *)
theory Json
  imports Rust_Str
begin

text \<open>
  The JSON values the code builds with \<open>serde\<close> and hashes. An object is the list of its
  members in the order they are written. Rendering a value as text and SHA-256 are
  packages outside the repository: they are the two functions of the record
  \<open>digest_env\<close>, an argument of every definition that hashes. What the code relies on is
  the hypothesis \<open>sha256_32\<close>: a SHA-256 digest has 32 bytes.
\<close>

datatype json =
    JNull
  | JBool bool
  | JInt int
  | JStr string
  | JArr "json list"
  | JObj "(string \<times> json) list"

record digest_env =
  sha256 :: "string \<Rightarrow> string"
  json_text :: "json \<Rightarrow> string"

text \<open>\<open>{:x}\<close> of a digest: two lowercase hexadecimal digits for each byte.\<close>

definition hex_digit :: "nat \<Rightarrow> char" where
  "hex_digit n = char_of (if n < 10 then 48 + n else 87 + n)"

definition hex_text :: "string \<Rightarrow> string" where
  "hex_text bs = concat (map (\<lambda>b. [hex_digit (of_char b div 16), hex_digit (of_char b mod 16)]) bs)"

definition sha256_hex :: "digest_env \<Rightarrow> string \<Rightarrow> string" where
  "sha256_hex env s = hex_text (sha256 env s)"

text \<open>A member that \<open>skip_serializing_if = "Option::is_none"\<close> leaves out.\<close>

definition opt_member :: "string \<Rightarrow> ('a \<Rightarrow> json) \<Rightarrow> 'a option \<Rightarrow> (string \<times> json) list" where
  "opt_member k f x = (case x of None \<Rightarrow> [] | Some v \<Rightarrow> [(k, f v)])"

text \<open>
  \<open>validate_sha256\<close> occurs with the same test in several files of the code: 64 bytes, all
  hexadecimal digits, none upper case.
\<close>

definition lower_hex64 :: "string \<Rightarrow> bool" where
  "lower_hex64 s \<longleftrightarrow> length s = 64 \<and>
     list_all (\<lambda>c. is_ascii_hexdigit (of_char c) \<and> \<not> is_ascii_uppercase (of_char c)) s"

definition sha256_32 :: "digest_env \<Rightarrow> bool" where
  "sha256_32 env \<longleftrightarrow> (\<forall>s. length (sha256 env s) = 32)"

text \<open>A concrete environment that satisfies the hypothesis, for witnesses.\<close>

definition sample_env :: digest_env where
  "sample_env = \<lparr>sha256 = (\<lambda>s. take 32 (s @ replicate 32 (CHR ''x''))), json_text = (\<lambda>j. ''{}'')\<rparr>"

lemma sha256_32_sample_env: "sha256_32 sample_env"
  by (auto simp: sha256_32_def sample_env_def min_def)

lemma hex_digit_class:
  assumes "n < 16"
  shows "is_ascii_hexdigit (of_char (hex_digit n)) \<and> \<not> is_ascii_uppercase (of_char (hex_digit n))"
  using assms by (auto simp: hex_digit_def is_ascii_hexdigit_def is_ascii_digit_def is_ascii_uppercase_def)

lemma length_hex_text: "length (hex_text bs) = 2 * length bs"
  by (induction bs) (simp_all add: hex_text_def)

lemma hex_text_class:
  "list_all (\<lambda>c. is_ascii_hexdigit (of_char c) \<and> \<not> is_ascii_uppercase (of_char c)) (hex_text bs)"
proof (induction bs)
  case (Cons b bs)
  have "of_char b div 16 < (16::nat)"
    by (rule less_mult_imp_div_less) simp
  with Cons show ?case by (simp add: hex_text_def hex_digit_class)
qed (simp add: hex_text_def)

lemma lower_hex64_sha256_hex [simp, intro]: "sha256_32 env \<Longrightarrow> lower_hex64 (sha256_hex env s)"
  by (simp add: lower_hex64_def sha256_32_def sha256_hex_def length_hex_text hex_text_class)

lemma lower_hex64_not_Nil: "lower_hex64 s \<Longrightarrow> s \<noteq> []"
  by (auto simp: lower_hex64_def)

text \<open>A digest is ASCII, so it has no control character and no whitespace.\<close>

lemma lower_hex64_class:
  assumes "lower_hex64 s"
  shows "is_ascii s" and "list_all (\<lambda>c. \<not> is_control c \<and> \<not> is_whitespace c) (chars s)"
proof -
  from assms show "is_ascii s"
    by (auto simp: lower_hex64_def is_ascii_def list_all_iff is_ascii_hexdigit_def is_ascii_digit_def)
  then have "chars s = map of_char s" by (rule chars_ascii)
  with assms show "list_all (\<lambda>c. \<not> is_control c \<and> \<not> is_whitespace c) (chars s)"
    by (auto simp: lower_hex64_def list_all_iff is_ascii_hexdigit_def is_ascii_digit_def
        is_control_def is_whitespace_def)
qed

section \<open>Canonical values\<close>

text \<open>
  \<open>canonical_value\<close> of \<open>task_state.rs\<close>: the members of every object are inserted in the
  order of their keys.
\<close>

fun canonical_value :: "json \<Rightarrow> json" where
  "canonical_value (JObj ms) = JObj (sort_key fst (map (\<lambda>m. (fst m, canonical_value (snd m))) ms))"
| "canonical_value (JArr vs) = JArr (map canonical_value vs)"
| "canonical_value v = v"

lemma sort_key_perm_eq:
  assumes "mset xs = mset ys" and "distinct (map k xs)"
  shows "sort_key k xs = sort_key k ys"
proof (rule properties_for_sort_key)
  show "mset (sort_key k ys) = mset xs" using assms(1) by simp
  show "filter (\<lambda>x. k z = k x) (sort_key k ys) = filter (\<lambda>x. k z = k x) xs" 
    if "z \<in> set (sort_key k ys)" for z
  proof -
    have "set xs = set ys" using assms(1) by (rule mset_eq_setD)
    with that have z: "z \<in> set xs" by simp
    have one: "filter_mset (\<lambda>x. k z = k x) (mset xs) = {#z#}"
    proof -
      from z obtain us vs where xs: "xs = us @ z # vs" by (meson split_list)
      with assms(2) have "filter (\<lambda>x. k z = k x) us = []" "filter (\<lambda>x. k z = k x) vs = []"
        by (auto simp: filter_empty_conv)
      then have "filter (\<lambda>x. k z = k x) xs = [z]" by (simp add: xs)
      then show ?thesis by (metis mset_filter mset_single_iff)
    qed
    have "mset (filter (\<lambda>x. k z = k x) xs) = {#z#}"
      "mset (filter (\<lambda>x. k z = k x) (sort_key k ys)) = {#z#}"
      using one assms(1) by simp_all
    then show ?thesis by (simp only: mset_single_iff)
  qed
  show "sorted (map k (sort_key k ys))" by simp
qed

text \<open>
  The order in which the members of an object are written does not matter to its
  canonical form, as long as no key occurs twice.
\<close>

theorem canonical_value_member_order:
  assumes "mset ms = mset ms'" and "distinct (map fst ms)"
  shows "canonical_value (JObj ms) = canonical_value (JObj ms')"
proof -
  define f where "f = (\<lambda>m :: string \<times> json. (fst m, canonical_value (snd m)))"
  have "mset (map f ms) = mset (map f ms')"
    using assms(1) by (simp only: mset_map)
  moreover have "fst \<circ> f = fst"
    by (auto simp: f_def)
  ultimately have "sort_key fst (map f ms) = sort_key fst (map f ms')"
    using assms(2) by (intro sort_key_perm_eq) simp_all
  then show ?thesis by (simp add: f_def)
qed

theorem canonical_value_member_order_witness:
  "canonical_value (JObj [(''b'', JInt 1), (''a'', JNull)]) =
   canonical_value (JObj [(''a'', JNull), (''b'', JInt 1)])"
  by (rule canonical_value_member_order) simp_all

end
