(* ===== verification/Trust_Admission.thy ===== *)
theory Trust_Admission
  imports Json "HOL-Library.Word"
begin

text \<open>
  The hash-only trust admission gate of \<open>src/src/trust_admission.rs\<close>: the decision
  \<open>evaluate\<close> takes on a request, the evidence record it writes, the validation every
  reader of the record runs, the transitions a reviewer or an operator makes
  (\<open>approve\<close>, \<open>reject\<close>, \<open>downgrade_to_proposed\<close>, \<open>revoke\<close>) and the attestation
  digest of an admission source. A transition takes \<open>&mut self\<close>: its model returns the
  result and the record as the method leaves it, on the error paths too.
\<close>

unbundle bit_operations_syntax

section \<open>Data\<close>

definition ADMISSION_SCHEMA_VERSION :: string where
  "ADMISSION_SCHEMA_VERSION = ''perseus-vault-memory-admission/v1''"

definition OUTCOMES :: "string list" where
  "OUTCOMES = [''admitted'', ''proposed'', ''quarantined'', ''suppressed'', ''escalated'',
     ''abstained'', ''revoked'']"

datatype outcome_class = Save | Drop | Block | PendingApproval

definition class_of_outcome :: "string \<Rightarrow> outcome_class result" where
  "class_of_outcome outcome =
     (if outcome = ''admitted'' then Inr Save
      else if outcome = ''suppressed'' then Inr Drop
      else if outcome = ''abstained'' \<or> outcome = ''revoked'' then Inr Block
      else if outcome = ''proposed'' \<or> outcome = ''quarantined'' \<or> outcome = ''escalated''
        then Inr PendingApproval
      else Inl (''unsupported admission outcome: '' @ outcome))"

fun show_class :: "outcome_class \<Rightarrow> string" where
  "show_class Save = ''save''"
| "show_class Drop = ''drop''"
| "show_class Block = ''block''"
| "show_class PendingApproval = ''pending_approval''"

record admission_request =
  ar_record_digest :: string
  ar_source_identity :: string
  ar_authorization_scope :: string
  ar_ingestion_channel :: string
  ar_workspace_hash :: string
  ar_source_trust :: string
  ar_valid_from_unix_ms :: int
  ar_recorded_at_unix_ms :: int
  ar_task_relevance_bps :: nat
  ar_instruction_bearing :: bool
  ar_contradicts_authoritative :: bool
  ar_source_event_id :: "string option"
  ar_actor_kind :: "string option"
  ar_actor_identity :: "string option"
  ar_validated :: bool

record admission_evidence =
  ae_schema_version :: string
  ae_outcome :: string
  ae_outcome_class :: "outcome_class option"
  ae_reason_codes :: "string list"
  ae_record_digest :: string
  ae_source_identity :: string
  ae_authorization_scope :: string
  ae_ingestion_channel :: string
  ae_workspace_hash :: string
  ae_authoritative :: bool
  ae_durable :: bool
  ae_decision_digest :: string
  ae_revocation_digest :: "string option"
  ae_source_event_id :: "string option"
  ae_actor_kind :: "string option"
  ae_actor_identity :: "string option"

section \<open>Field checks\<close>

definition validate_sha256 :: "string \<Rightarrow> string \<Rightarrow> unit result" where
  "validate_sha256 label v =
     guard_r (\<not> lower_hex64 v) (label @ '' must be a lowercase SHA-256 value'')"

definition validate_review_reason :: "string \<Rightarrow> string \<Rightarrow> unit result" where
  "validate_review_reason label v =
     guard_r (blank v \<or> length v > 256 \<or> list_ex is_control (chars v))
       (label @ '' must be non-empty, bounded, and free of control characters'')"

definition is_identifier :: "string \<Rightarrow> bool" where
  "is_identifier v \<longleftrightarrow> v \<noteq> [] \<and> length v \<le> 256
     \<and> \<not> list_ex (\<lambda>c. is_control c \<or> is_whitespace c) (chars v)"

definition validate_identifier :: "string \<Rightarrow> string \<Rightarrow> unit result" where
  "validate_identifier label v =
     guard_r (\<not> is_identifier v) (label @ '' must be a bounded non-whitespace identifier'')"

section \<open>The evidence record\<close>

text \<open>Serialisation, in the order of the fields; \<open>rename_all\<close> makes the class its name.\<close>

definition evidence_json :: "admission_evidence \<Rightarrow> json" where
  "evidence_json e = JObj (
     [(''schema_version'', JStr (ae_schema_version e)), (''outcome'', JStr (ae_outcome e))]
     @ opt_member ''outcome_class'' (\<lambda>c. JStr (show_class c)) (ae_outcome_class e)
     @ [(''reason_codes'', JArr (map JStr (ae_reason_codes e))),
        (''record_digest'', JStr (ae_record_digest e)),
        (''source_identity'', JStr (ae_source_identity e)),
        (''authorization_scope'', JStr (ae_authorization_scope e)),
        (''ingestion_channel'', JStr (ae_ingestion_channel e)),
        (''workspace_hash'', JStr (ae_workspace_hash e)),
        (''authoritative'', JBool (ae_authoritative e)),
        (''durable'', JBool (ae_durable e)),
        (''decision_digest'', JStr (ae_decision_digest e))]
     @ opt_member ''revocation_digest'' JStr (ae_revocation_digest e)
     @ opt_member ''source_event_id'' JStr (ae_source_event_id e)
     @ opt_member ''actor_kind'' JStr (ae_actor_kind e)
     @ opt_member ''actor_identity'' JStr (ae_actor_identity e))"

text \<open>\<open>canonical_digest\<close>: serialisation of these types does not fail.\<close>

definition canonical_digest :: "digest_env \<Rightarrow> json \<Rightarrow> string" where
  "canonical_digest env v = sha256_hex env (json_text env v)"

definition digest_text :: "digest_env \<Rightarrow> string \<Rightarrow> string" where
  "digest_text env v = sha256_hex env v"

definition unsigned_digest :: "digest_env \<Rightarrow> admission_evidence \<Rightarrow> string" where
  "unsigned_digest env e = canonical_digest env (evidence_json (e\<lparr>ae_decision_digest := []\<rparr>))"

definition evidence_class :: "admission_evidence \<Rightarrow> outcome_class result" where
  "evidence_class e =
     bind_r (class_of_outcome (ae_outcome e)) (\<lambda>expected.
       case ae_outcome_class e of
         Some actual \<Rightarrow>
           if actual \<noteq> expected
           then Inl (''outcome_class '' @ show_class actual @ '' does not match outcome '' @ ae_outcome e)
           else Inr actual
       | None \<Rightarrow> Inr expected)"

definition validate_opt_sha256 :: "string \<Rightarrow> string option \<Rightarrow> unit result" where
  "validate_opt_sha256 label d =
     (case d of None \<Rightarrow> Inr () | Some v \<Rightarrow> validate_sha256 label v)"

definition evidence_validate :: "digest_env \<Rightarrow> admission_evidence \<Rightarrow> unit result" where
  "evidence_validate env e = check_all
     [guard_r (ae_schema_version e \<noteq> ADMISSION_SCHEMA_VERSION)
        (''unsupported schema_version: '' @ ae_schema_version e),
      guard_r (ae_outcome e \<notin> set OUTCOMES) (''unsupported outcome: '' @ ae_outcome e),
      bind_r (evidence_class e) (\<lambda>_. Inr ()),
      validate_sha256 ''record_digest'' (ae_record_digest e),
      validate_sha256 ''decision_digest'' (ae_decision_digest e),
      validate_identifier ''source_identity'' (ae_source_identity e),
      validate_identifier ''authorization_scope'' (ae_authorization_scope e),
      validate_identifier ''ingestion_channel'' (ae_ingestion_channel e),
      validate_identifier ''workspace_hash'' (ae_workspace_hash e),
      guard_r (ae_reason_codes e = [] \<or> length (ae_reason_codes e) > 16)
        ''reason_codes must contain between 1 and 16 entries'',
      check_all (map (validate_identifier ''reason_code'') (ae_reason_codes e)),
      validate_opt_sha256 ''revocation_digest'' (ae_revocation_digest e),
      guard_r (ae_authoritative e \<and> (\<not> ae_durable e \<or> ae_outcome e \<noteq> ''admitted''))
        ''only durable admitted evidence may be authoritative'',
      guard_r (ae_decision_digest e \<noteq> unsigned_digest env e)
        ''decision_digest does not match admission evidence'',
      guard_r (ae_outcome e = ''proposed'' \<and> ae_authoritative e)
        ''proposed evidence cannot be authoritative'',
      guard_r (ae_outcome e \<in> {''quarantined'', ''suppressed'', ''escalated'', ''abstained'', ''revoked''}
          \<and> ae_authoritative e)
        ''non-admitted evidence cannot be authoritative'']"

text \<open>\<open>decision_digest.clear()\<close> and then the digest of the record without it.\<close>

definition seal_evidence :: "digest_env \<Rightarrow> admission_evidence \<Rightarrow> admission_evidence" where
  "seal_evidence env e = e\<lparr>ae_decision_digest := unsigned_digest env e\<rparr>"

text \<open>\<open>reason_codes.sort()\<close> and \<open>dedup()\<close> after the pushes.\<close>

definition push_reasons :: "string list \<Rightarrow> admission_evidence \<Rightarrow> admission_evidence" where
  "push_reasons rs e = e\<lparr>ae_reason_codes := dedup_adj (sort (ae_reason_codes e @ rs))\<rparr>"

section \<open>Transitions\<close>

type_synonym transition = "unit result \<times> admission_evidence"

definition finish :: "digest_env \<Rightarrow> admission_evidence \<Rightarrow> transition" where
  "finish env e = (let e' = seal_evidence env e in (evidence_validate env e', e'))"

definition approve :: "digest_env \<Rightarrow> string \<Rightarrow> admission_evidence \<Rightarrow> transition" where
  "approve env reason e =
     (case validate_review_reason ''approval_reason'' reason of Inl m \<Rightarrow> (Inl m, e) | Inr _ \<Rightarrow>
      (case evidence_class e of Inl m \<Rightarrow> (Inl m, e) | Inr c \<Rightarrow>
       if c \<noteq> PendingApproval then (Inl ''only pending_approval evidence may be approved'', e)
       else finish env (push_reasons [''human_approved'', ''review_reason_'' @ digest_text env reason]
         (e\<lparr>ae_outcome := ''admitted'', ae_outcome_class := Some Save,
            ae_authoritative := True, ae_durable := True\<rparr>))))"

definition reject :: "digest_env \<Rightarrow> outcome_class \<Rightarrow> string \<Rightarrow> admission_evidence \<Rightarrow> transition" where
  "reject env cls reason e =
     (case validate_review_reason ''rejection_reason'' reason of Inl m \<Rightarrow> (Inl m, e) | Inr _ \<Rightarrow>
      (case evidence_class e of Inl m \<Rightarrow> (Inl m, e) | Inr c \<Rightarrow>
       if c \<noteq> PendingApproval then (Inl ''only pending_approval evidence may be rejected'', e)
       else (case (case cls of
               Drop \<Rightarrow> Some (''suppressed'', ''human_rejected_drop'')
             | Block \<Rightarrow> Some (''abstained'', ''human_rejected_block'')
             | _ \<Rightarrow> None) of
           None \<Rightarrow> (Inl ''rejection class must be drop or block'', e)
         | Some (outcome, marker) \<Rightarrow>
             finish env (push_reasons [marker, ''review_reason_'' @ digest_text env reason]
               (e\<lparr>ae_outcome := outcome, ae_outcome_class := Some cls,
                  ae_authoritative := False, ae_durable := False\<rparr>)))))"

definition downgrade_to_proposed :: "digest_env \<Rightarrow> string \<Rightarrow> admission_evidence \<Rightarrow> transition" where
  "downgrade_to_proposed env reason e =
     (case validate_identifier ''downgrade_reason'' reason of Inl m \<Rightarrow> (Inl m, e) | Inr _ \<Rightarrow>
       finish env (push_reasons [reason]
         (e\<lparr>ae_outcome := ''proposed'', ae_outcome_class := Some PendingApproval,
            ae_authoritative := False, ae_durable := True\<rparr>)))"

definition revoke :: "digest_env \<Rightarrow> string \<Rightarrow> string \<Rightarrow> admission_evidence \<Rightarrow> transition" where
  "revoke env actor_digest reason e =
     (case validate_sha256 ''actor_digest'' actor_digest of Inl m \<Rightarrow> (Inl m, e) | Inr _ \<Rightarrow>
      (case validate_identifier ''revocation_reason'' reason of Inl m \<Rightarrow> (Inl m, e) | Inr _ \<Rightarrow>
       (let material = JArr [JStr (ae_schema_version e), JStr (ae_decision_digest e),
              JStr actor_digest, JStr reason, JStr ''revoked'']
        in finish env
          (e\<lparr>ae_revocation_digest := Some (canonical_digest env material),
             ae_outcome := ''revoked'', ae_outcome_class := Some Block,
             ae_authoritative := False, ae_durable := True,
             ae_reason_codes := ae_reason_codes e @ [''operator_revoked'']\<rparr>))))"

definition can_activate :: "admission_evidence \<Rightarrow> string \<Rightarrow> nat \<Rightarrow> bool" where
  "can_activate e query_workspace query_relevance_bps \<longleftrightarrow>
     ae_outcome e = ''admitted'' \<and> ae_authoritative e \<and> ae_durable e
     \<and> ae_workspace_hash e = query_workspace \<and> query_relevance_bps \<ge> 5000"

section \<open>The decision\<close>

definition validate_opt_identifier :: "string \<Rightarrow> string option \<Rightarrow> unit result" where
  "validate_opt_identifier label d =
     (case d of None \<Rightarrow> Inr () | Some v \<Rightarrow> validate_identifier label v)"

definition validate_request :: "admission_request \<Rightarrow> unit result" where
  "validate_request r = check_all
     [validate_sha256 ''record_digest'' (ar_record_digest r),
      validate_identifier ''source_identity'' (ar_source_identity r),
      validate_identifier ''authorization_scope'' (ar_authorization_scope r),
      validate_identifier ''ingestion_channel'' (ar_ingestion_channel r),
      validate_identifier ''workspace_hash'' (ar_workspace_hash r),
      validate_identifier ''source_trust'' (ar_source_trust r),
      guard_r (ar_source_trust r \<notin> {''untrusted'', ''trusted'', ''authoritative''})
        (''unsupported source_trust: '' @ ar_source_trust r),
      validate_opt_identifier ''source_event_id'' (ar_source_event_id r),
      validate_opt_identifier ''actor_kind'' (ar_actor_kind r),
      validate_opt_identifier ''actor_identity'' (ar_actor_identity r),
      guard_r (ar_valid_from_unix_ms r < 0 \<or> ar_recorded_at_unix_ms r < ar_valid_from_unix_ms r)
        ''invalid valid/recorded time interval'',
      guard_r (ar_task_relevance_bps r > 10000) ''task_relevance_bps must be between 0 and 10000'']"

text \<open>The chain of conditions: outcome, reason, authoritative, durable.\<close>

definition decide :: "admission_request \<Rightarrow> string \<times> string \<times> bool \<times> bool" where
  "decide r =
     (if ar_authorization_scope r \<noteq> ar_workspace_hash r
        then (''abstained'', ''workspace_scope_mismatch'', False, False)
      else if ar_task_relevance_bps r < 5000
        then (''suppressed'', ''task_irrelevant'', False, False)
      else if ar_instruction_bearing r \<and> ar_source_trust r = ''untrusted''
        then (''quarantined'', ''untrusted_instruction_bearing'', False, True)
      else if ar_contradicts_authoritative r
        then (''escalated'', ''contradicts_authoritative_record'', False, True)
      else if ar_source_trust r = ''authoritative''
          \<and> (\<not> ar_validated r \<or> ar_source_event_id r = None)
        then (''proposed'', ''source_validation_required'', False, True)
      else if ar_source_trust r = ''untrusted''
        then (''quarantined'', ''untrusted_source'', False, True)
      else if ar_source_trust r = ''authoritative''
        then (''admitted'', ''authorized_authoritative_source'', True, True)
      else (''proposed'', ''trusted_source_requires_authority'', False, True))"

text \<open>The record a decision is written into, before it is sealed.\<close>

definition decision_record :: "admission_request \<Rightarrow> outcome_class \<Rightarrow> admission_evidence" where
  "decision_record r cls = (case decide r of (outcome, reason, authoritative, durable) \<Rightarrow>
     \<lparr>ae_schema_version = ADMISSION_SCHEMA_VERSION, ae_outcome = outcome,
      ae_outcome_class = Some cls, ae_reason_codes = [reason],
      ae_record_digest = ar_record_digest r, ae_source_identity = ar_source_identity r,
      ae_authorization_scope = ar_authorization_scope r,
      ae_ingestion_channel = ar_ingestion_channel r, ae_workspace_hash = ar_workspace_hash r,
      ae_authoritative = authoritative, ae_durable = durable, ae_decision_digest = [],
      ae_revocation_digest = None, ae_source_event_id = ar_source_event_id r,
      ae_actor_kind = ar_actor_kind r, ae_actor_identity = ar_actor_identity r\<rparr>)"

definition evaluate :: "digest_env \<Rightarrow> admission_request \<Rightarrow> admission_evidence result" where
  "evaluate env r =
     bind_r (validate_request r) (\<lambda>_.
       bind_r (class_of_outcome (fst (decide r))) (\<lambda>cls.
         let evidence = seal_evidence env (decision_record r cls)
         in bind_r (evidence_validate env evidence) (\<lambda>_. Inr evidence)))"

section \<open>Attestation of an admission source\<close>

text \<open>A member of the evaluated object that is a string with something other than whitespace.\<close>

definition attestation_field :: "(string \<times> json) list \<Rightarrow> string \<Rightarrow> string result" where
  "attestation_field ms name =
     (case map_of ms name of
        Some (JStr v) \<Rightarrow>
          if blank v then Inl (''admission_source attestation requires evaluated.'' @ name) else Inr v
      | _ \<Rightarrow> Inl (''admission_source attestation requires evaluated.'' @ name))"

text \<open>The \<open>json!\<close> object is a map ordered by key, so its text lists the members in that order.\<close>

definition admission_source_attestation_payload ::
    "digest_env \<Rightarrow> json \<Rightarrow> string \<Rightarrow> string result" where
  "admission_source_attestation_payload env evaluated requesting_agent_id =
     (case evaluated of
        JObj ms \<Rightarrow>
          if blank requesting_agent_id
          then Inl ''admission_source attestation requires requesting_agent_id''
          else bind_r (attestation_field ms ''record_digest'') (\<lambda>record_digest.
               bind_r (attestation_field ms ''source_identity'') (\<lambda>source_identity.
               bind_r (attestation_field ms ''workspace_hash'') (\<lambda>workspace_hash.
               bind_r (attestation_field ms ''actor_kind'') (\<lambda>actor_kind.
               bind_r (attestation_field ms ''actor_identity'') (\<lambda>actor_identity.
                 Inr (json_text env (JObj
                   [(''actor_identity'', JStr actor_identity),
                    (''actor_kind'', JStr actor_kind),
                    (''record_digest'', JStr record_digest),
                    (''requesting_agent_id'', JStr requesting_agent_id),
                    (''source_identity'', JStr source_identity),
                    (''workspace_hash'', JStr workspace_hash)])))))))
      | _ \<Rightarrow> Inl ''admission_source evaluated must be an object'')"

type_synonym byte = "8 word"

definition xor_byte :: "byte \<Rightarrow> char \<Rightarrow> char" where
  "xor_byte p c = char_of (unat (p XOR of_nat (of_char c)))"

text \<open>The key block of 64 bytes: the key, or its digest when it is longer, then zeros.\<close>

definition key_block :: "digest_env \<Rightarrow> string \<Rightarrow> string" where
  "key_block env key =
     (let k = (if length key > 64 then sha256 env key else key)
      in k @ replicate (64 - length k) (char_of (0::nat)))"

definition admission_source_hmac_hex :: "digest_env \<Rightarrow> string \<Rightarrow> string \<Rightarrow> string" where
  "admission_source_hmac_hex env key payload =
     (let block = key_block env key;
          inner_pad = map (xor_byte 0x36) block;
          outer_pad = map (xor_byte 0x5c) block;
          inner_digest = sha256 env (inner_pad @ payload)
      in hex_text (sha256 env (outer_pad @ inner_digest)))"

text \<open>\<open>key\<close> is the value of the environment variable, if it is set.\<close>

definition admission_source_attestation_digest ::
    "digest_env \<Rightarrow> string option \<Rightarrow> json \<Rightarrow> string \<Rightarrow> string result" where
  "admission_source_attestation_digest env key evaluated requesting_agent_id =
     (case key of
        None \<Rightarrow> Inl ''PERSEUS_VAULT_ADMISSION_SOURCE_HMAC_KEY is not configured''
      | Some value \<Rightarrow>
          if blank value then Inl ''PERSEUS_VAULT_ADMISSION_SOURCE_HMAC_KEY is not configured''
          else bind_r (admission_source_attestation_payload env evaluated requesting_agent_id)
            (\<lambda>payload. Inr (digest_text env (admission_source_hmac_hex env (trim value) payload))))"

section \<open>Lemmas\<close>

lemma validate_sha256_Inr [result_simps]: "validate_sha256 l v = Inr u \<longleftrightarrow> lower_hex64 v"
  by (simp add: validate_sha256_def result_simps)

lemma validate_identifier_Inr [result_simps]: "validate_identifier l v = Inr u \<longleftrightarrow> is_identifier v"
  by (simp add: validate_identifier_def result_simps)

lemma validate_opt_sha256_Inr [result_simps]:
  "validate_opt_sha256 l d = Inr u \<longleftrightarrow> (\<forall>v. d = Some v \<longrightarrow> lower_hex64 v)"
  by (cases d) (simp_all add: validate_opt_sha256_def result_simps)

lemma ascii_identifier:
  assumes "s \<noteq> []" and "length s \<le> 256"
    and "list_all (\<lambda>c. (33::nat) \<le> of_char c \<and> of_char c \<le> (126::nat)) s"
  shows "is_identifier s"
proof -
  have "is_ascii s" using assms(3) by (auto simp: is_ascii_def list_all_iff)
  then have "chars s = map of_char s" by (rule chars_ascii)
  with assms show ?thesis
    by (auto simp: is_identifier_def list_all_iff list_ex_iff is_control_def is_whitespace_def)
qed

lemma class_of_outcome_simps [simp]:
  "class_of_outcome ''admitted'' = Inr Save" "class_of_outcome ''suppressed'' = Inr Drop"
  "class_of_outcome ''abstained'' = Inr Block" "class_of_outcome ''revoked'' = Inr Block"
  "class_of_outcome ''proposed'' = Inr PendingApproval"
  "class_of_outcome ''quarantined'' = Inr PendingApproval"
  "class_of_outcome ''escalated'' = Inr PendingApproval"
  by (simp_all add: class_of_outcome_def)

lemma class_of_outcome_outcomes: "class_of_outcome out = Inr c \<Longrightarrow> out \<in> set OUTCOMES"
  unfolding class_of_outcome_def OUTCOMES_def by (simp split: if_split_asm)

lemma class_of_outcome_Save: "class_of_outcome out = Inr Save \<longleftrightarrow> out = ''admitted''"
  unfolding class_of_outcome_def by simp

lemma evidence_class_Inr [result_simps]:
  "evidence_class e = Inr c \<longleftrightarrow>
     class_of_outcome (ae_outcome e) = Inr c \<and> (ae_outcome_class e = None \<or> ae_outcome_class e = Some c)"
  by (cases "ae_outcome_class e") (auto simp: evidence_class_def bind_r_Inr)

text \<open>What a validated record satisfies.\<close>

definition evidence_wf :: "digest_env \<Rightarrow> admission_evidence \<Rightarrow> bool" where
  "evidence_wf env e \<longleftrightarrow>
     ae_schema_version e = ADMISSION_SCHEMA_VERSION \<and>
     (\<exists>c. evidence_class e = Inr c) \<and>
     lower_hex64 (ae_record_digest e) \<and> lower_hex64 (ae_decision_digest e) \<and>
     is_identifier (ae_source_identity e) \<and> is_identifier (ae_authorization_scope e) \<and>
     is_identifier (ae_ingestion_channel e) \<and> is_identifier (ae_workspace_hash e) \<and>
     ae_reason_codes e \<noteq> [] \<and> length (ae_reason_codes e) \<le> 16 \<and>
     list_all is_identifier (ae_reason_codes e) \<and>
     (\<forall>d. ae_revocation_digest e = Some d \<longrightarrow> lower_hex64 d) \<and>
     (ae_authoritative e \<longrightarrow> ae_durable e \<and> ae_outcome e = ''admitted'') \<and>
     ae_decision_digest e = unsigned_digest env e"

lemma evidence_class_outcomes: "evidence_class e = Inr c \<Longrightarrow> ae_outcome e \<in> set OUTCOMES"
  by (auto simp: evidence_class_Inr dest: class_of_outcome_outcomes)

lemma evidence_validate_iff: "evidence_validate env e = Inr () \<longleftrightarrow> evidence_wf env e"
proof -
  have reasons: "list_all (\<lambda>c. c = Inr ()) (map (validate_identifier ''reason_code'') rs)
      \<longleftrightarrow> list_all is_identifier rs" for rs
    by (simp add: list_all_iff validate_identifier_Inr)
  have "evidence_validate env e = Inr () \<longleftrightarrow> evidence_wf env e \<and> ae_outcome e \<in> set OUTCOMES
      \<and> \<not> (ae_outcome e = ''proposed'' \<and> ae_authoritative e)
      \<and> \<not> (ae_outcome e \<in> {''quarantined'', ''suppressed'', ''escalated'', ''abstained'', ''revoked''}
          \<and> ae_authoritative e)"
    unfolding evidence_validate_def evidence_wf_def check_all_Inr list.pred_inject
      guard_r_Inr validate_sha256_Inr validate_identifier_Inr validate_opt_sha256_Inr reasons
      bind_r_Inr
    by auto
  moreover have "evidence_wf env e \<Longrightarrow> ae_outcome e \<in> set OUTCOMES"
    by (auto simp: evidence_wf_def dest: evidence_class_outcomes)
  moreover have "evidence_wf env e \<Longrightarrow> ae_authoritative e \<Longrightarrow> ae_outcome e = ''admitted''"
    by (simp add: evidence_wf_def)
  ultimately show ?thesis by auto
qed

lemma unsigned_digest_update [simp]:
  "unsigned_digest env (e\<lparr>ae_decision_digest := d\<rparr>) = unsigned_digest env e"
  by (simp add: unsigned_digest_def)

lemma evidence_class_update [simp]:
  "evidence_class (e\<lparr>ae_decision_digest := d\<rparr>) = evidence_class e"
  by (cases "ae_outcome_class e"; cases "class_of_outcome (ae_outcome e)")
    (simp_all add: evidence_class_def)

lemma seal_evidence_simps [simp]:
  "ae_decision_digest (seal_evidence env e) = unsigned_digest env e"
  "ae_outcome (seal_evidence env e) = ae_outcome e"
  "ae_outcome_class (seal_evidence env e) = ae_outcome_class e"
  "ae_reason_codes (seal_evidence env e) = ae_reason_codes e"
  "ae_authoritative (seal_evidence env e) = ae_authoritative e"
  "ae_durable (seal_evidence env e) = ae_durable e"
  "ae_workspace_hash (seal_evidence env e) = ae_workspace_hash e"
  "ae_revocation_digest (seal_evidence env e) = ae_revocation_digest e"
  "ae_schema_version (seal_evidence env e) = ae_schema_version e"
  "ae_record_digest (seal_evidence env e) = ae_record_digest e"
  "ae_source_identity (seal_evidence env e) = ae_source_identity e"
  "ae_authorization_scope (seal_evidence env e) = ae_authorization_scope e"
  "ae_ingestion_channel (seal_evidence env e) = ae_ingestion_channel e"
  "unsigned_digest env (seal_evidence env e) = unsigned_digest env e"
  "evidence_class (seal_evidence env e) = evidence_class e"
  by (simp_all add: seal_evidence_def)

lemma push_reasons_simps [simp]:
  "set (ae_reason_codes (push_reasons rs e)) = set (ae_reason_codes e) \<union> set rs"
  "ae_outcome (push_reasons rs e) = ae_outcome e"
  "ae_outcome_class (push_reasons rs e) = ae_outcome_class e"
  "ae_authoritative (push_reasons rs e) = ae_authoritative e"
  "ae_durable (push_reasons rs e) = ae_durable e"
  "ae_workspace_hash (push_reasons rs e) = ae_workspace_hash e"
  by (simp_all add: push_reasons_def)

lemma snd_finish [simp]: "snd (finish env e) = seal_evidence env e"
  by (simp add: finish_def Let_def)

lemma fst_finish [simp]: "fst (finish env e) = evidence_validate env (seal_evidence env e)"
  by (simp add: finish_def Let_def)

lemma lower_hex64_unsigned: "sha256_32 env \<Longrightarrow> lower_hex64 (unsigned_digest env e)"
  by (simp add: unsigned_digest_def canonical_digest_def)

text \<open>The decisions the chain can take.\<close>

definition decision_table :: "(string \<times> string \<times> bool \<times> bool) list" where
  "decision_table =
     [(''abstained'', ''workspace_scope_mismatch'', False, False),
      (''suppressed'', ''task_irrelevant'', False, False),
      (''quarantined'', ''untrusted_instruction_bearing'', False, True),
      (''escalated'', ''contradicts_authoritative_record'', False, True),
      (''proposed'', ''source_validation_required'', False, True),
      (''quarantined'', ''untrusted_source'', False, True),
      (''admitted'', ''authorized_authoritative_source'', True, True),
      (''proposed'', ''trusted_source_requires_authority'', False, True)]"

lemma decide_in_table: "decide r \<in> set decision_table"
  unfolding decide_def decision_table_def by simp

lemma decision_table_facts:
  "list_all (\<lambda>(out, reason, authoritative, durable).
     is_identifier reason \<and> is_ok (class_of_outcome out) \<and>
     authoritative = (out = ''admitted'') \<and>
     (authoritative \<longrightarrow> durable \<and> reason = ''authorized_authoritative_source'')) decision_table"
  by (simp add: decision_table_def is_ok_def ascii_identifier)

lemma decide_facts:
  assumes "decide r = (out, reason, authoritative, durable)"
  shows "is_identifier reason" and "\<exists>c. class_of_outcome out = Inr c"
    and "authoritative \<longleftrightarrow> out = ''admitted''" and "authoritative \<Longrightarrow> durable"
    and "authoritative \<Longrightarrow> reason = ''authorized_authoritative_source''"
  using decide_in_table [of r] decision_table_facts unfolding assms list_all_iff
  by (auto simp: is_ok_def split: sum.splits)

text \<open>The gate opens for exactly one combination of facts.\<close>

lemma decide_admits:
  "fst (decide r) = ''admitted'' \<longleftrightarrow>
     ar_authorization_scope r = ar_workspace_hash r \<and> ar_task_relevance_bps r \<ge> 5000 \<and>
     \<not> ar_contradicts_authoritative r \<and> ar_source_trust r = ''authoritative'' \<and>
     ar_validated r \<and> ar_source_event_id r \<noteq> None"
  unfolding decide_def by simp

lemma validate_request_fields:
  assumes "validate_request r = Inr ()"
  shows "lower_hex64 (ar_record_digest r)" "is_identifier (ar_source_identity r)"
    "is_identifier (ar_authorization_scope r)" "is_identifier (ar_ingestion_channel r)"
    "is_identifier (ar_workspace_hash r)"
  using assms unfolding validate_request_def check_all_Inr list.pred_inject
  by (simp_all only: validate_sha256_Inr validate_identifier_Inr)

lemma evaluate_Inr:
  "evaluate env r = Inr e \<longleftrightarrow>
     validate_request r = Inr () \<and>
     (\<exists>cls. class_of_outcome (fst (decide r)) = Inr cls \<and> e = seal_evidence env (decision_record r cls))
     \<and> evidence_validate env e = Inr ()"
  by (auto simp: evaluate_def bind_r_Inr Let_def)

lemma decision_record_wf:
  assumes "sha256_32 env" and "validate_request r = Inr ()"
    and "class_of_outcome (fst (decide r)) = Inr cls"
  shows "evidence_wf env (seal_evidence env (decision_record r cls))"
proof -
  obtain out reason a d where d: "decide r = (out, reason, a, d)"
    by (cases "decide r")
  have "lower_hex64 (unsigned_digest env (decision_record r cls))"
    using assms(1) by (rule lower_hex64_unsigned)
  with decide_facts [OF d] validate_request_fields [OF assms(2)] assms(3) show ?thesis
    by (auto simp: evidence_wf_def evidence_class_Inr decision_record_def d)
qed

section \<open>Histories of a record\<close>

text \<open>
  Every record a decision and any number of transitions can lead to, the records that a
  failed transition leaves behind included.
\<close>

inductive history :: "digest_env \<Rightarrow> admission_evidence \<Rightarrow> bool" for env where
  evaluated: "evaluate env r = Inr e \<Longrightarrow> history env e"
| approved: "history env e \<Longrightarrow> history env (snd (approve env reason e))"
| rejected: "history env e \<Longrightarrow> history env (snd (reject env cls reason e))"
| downgraded: "history env e \<Longrightarrow> history env (snd (downgrade_to_proposed env reason e))"
| revoked: "history env e \<Longrightarrow> history env (snd (revoke env actor reason e))"

definition evidence_inv :: "admission_evidence \<Rightarrow> bool" where
  "evidence_inv e \<longleftrightarrow>
     (\<exists>c. evidence_class e = Inr c) \<and>
     (ae_authoritative e \<longrightarrow> ae_outcome e = ''admitted'' \<and> ae_durable e \<and>
        (''authorized_authoritative_source'' \<in> set (ae_reason_codes e) \<or>
         ''human_approved'' \<in> set (ae_reason_codes e)))"

lemma evidence_inv_seal [simp]: "evidence_inv (seal_evidence env e) = evidence_inv e"
  by (simp add: evidence_inv_def)

lemma evidence_inv_finish: "evidence_inv e \<Longrightarrow> evidence_inv (snd (finish env e))"
  by simp

lemma approve_inv: "evidence_inv e \<Longrightarrow> evidence_inv (snd (approve env reason e))"
  by (auto simp: approve_def evidence_inv_def evidence_class_Inr split: sum.splits)

lemma reject_inv: "evidence_inv e \<Longrightarrow> evidence_inv (snd (reject env cls reason e))"
  by (cases cls)
    (auto simp: reject_def evidence_inv_def evidence_class_Inr split: sum.splits)

lemma downgrade_inv: "evidence_inv e \<Longrightarrow> evidence_inv (snd (downgrade_to_proposed env reason e))"
  by (auto simp: downgrade_to_proposed_def evidence_inv_def evidence_class_Inr split: sum.splits)

lemma revoke_inv: "evidence_inv e \<Longrightarrow> evidence_inv (snd (revoke env actor reason e))"
  by (auto simp: revoke_def evidence_inv_def evidence_class_Inr Let_def split: sum.splits)

lemma evaluate_inv: "evaluate env r = Inr e \<Longrightarrow> evidence_inv e"
proof -
  assume "evaluate env r = Inr e"
  then obtain cls where cls: "class_of_outcome (fst (decide r)) = Inr cls"
      and e: "e = seal_evidence env (decision_record r cls)"
    by (auto simp: evaluate_Inr)
  obtain out reason a d where d: "decide r = (out, reason, a, d)"
    by (cases "decide r")
  show ?thesis
    using decide_facts [OF d] cls
    by (auto simp: e evidence_inv_def evidence_class_Inr decision_record_def d)
qed

lemma history_inv: "history env e \<Longrightarrow> evidence_inv e"
  by (induction rule: history.induct)
    (auto intro: evaluate_inv approve_inv reject_inv downgrade_inv revoke_inv)

section \<open>The review lifecycle\<close>

text \<open>One step of a reviewer or an operator on a record, whether it succeeds or fails.\<close>

inductive review_step :: "digest_env \<Rightarrow> admission_evidence \<Rightarrow> admission_evidence \<Rightarrow> bool" for env where
  review_approve: "review_step env e (snd (approve env reason e))"
| review_reject: "review_step env e (snd (reject env cls reason e))"
| review_revoke: "review_step env e (snd (revoke env actor reason e))"

inductive_cases review_stepE: "review_step env e e'"

text \<open>The classes a review step can lead to from a class.\<close>

fun review_edge :: "outcome_class result \<Rightarrow> outcome_class result \<Rightarrow> bool" where
  "review_edge (Inr PendingApproval) (Inr c) \<longleftrightarrow> c = Save \<or> c = Drop \<or> c = Block"
| "review_edge _ (Inr c) \<longleftrightarrow> c = Block"
| "review_edge _ _ \<longleftrightarrow> False"

lemma evidence_classI:
  "ae_outcome_class e = Some c \<Longrightarrow> class_of_outcome (ae_outcome e) = Inr c \<Longrightarrow> evidence_class e = Inr c"
  by (simp add: evidence_class_Inr)

lemma approve_cases:
  "snd (approve env reason e) = e \<or>
   evidence_class e = Inr PendingApproval \<and> evidence_class (snd (approve env reason e)) = Inr Save"
  by (auto simp: approve_def intro!: evidence_classI split: sum.split)

lemma reject_cases:
  "snd (reject env cls reason e) = e \<or>
   evidence_class e = Inr PendingApproval \<and> (cls = Drop \<or> cls = Block) \<and>
   evidence_class (snd (reject env cls reason e)) = Inr cls"
  by (cases cls) (auto simp: reject_def intro!: evidence_classI split: sum.split)

lemma revoke_cases:
  "snd (revoke env actor reason e) = e \<or> evidence_class (snd (revoke env actor reason e)) = Inr Block"
  by (auto simp: revoke_def Let_def intro!: evidence_classI split: sum.split)

lemma review_edge_Block: "review_edge c (Inr Block)"
  by (cases "(c, Inr Block :: outcome_class result)" rule: review_edge.cases) auto

lemma review_step_edge:
  "review_step env e e' \<Longrightarrow>
   evidence_class e' = evidence_class e \<or> review_edge (evidence_class e) (evidence_class e')"
proof (elim review_stepE)
  fix reason
  assume "e' = snd (approve env reason e)"
  then show ?thesis using approve_cases [of env reason e] by auto
next
  fix cls reason
  assume "e' = snd (reject env cls reason e)"
  then show ?thesis using reject_cases [of env cls reason e] by auto
next
  fix actor reason
  assume "e' = snd (revoke env actor reason e)"
  then show ?thesis using revoke_cases [of env actor reason e] review_edge_Block by auto
qed

interpretation review: lifecycle "\<lambda>_. True" "review_step env" evidence_class review_edge for env
  by unfold_locales (simp, rule review_step_edge)

lemma can_activate_class: "evidence_class e = Inr c \<Longrightarrow> can_activate e ws bps \<Longrightarrow> c = Save"
  by (auto simp: can_activate_def evidence_class_Inr)

section \<open>Properties\<close>

definition sample_request :: admission_request where
  "sample_request =
     \<lparr>ar_record_digest = replicate 64 (CHR ''a''), ar_source_identity = ''agent-1'',
      ar_authorization_scope = ''workspace-a'', ar_ingestion_channel = ''mcp'',
      ar_workspace_hash = ''workspace-a'', ar_source_trust = ''authoritative'',
      ar_valid_from_unix_ms = 1, ar_recorded_at_unix_ms = 2, ar_task_relevance_bps = 9000,
      ar_instruction_bearing = False, ar_contradicts_authoritative = False,
      ar_source_event_id = Some ''evt-1'', ar_actor_kind = None, ar_actor_identity = None,
      ar_validated = True\<rparr>"

definition sample_evidence :: admission_evidence where
  "sample_evidence = seal_evidence sample_env (decision_record sample_request Save)"

lemma lower_hex64_replicate: "lower_hex64 (replicate 64 (CHR ''a''))"
  by (simp add: lower_hex64_def is_ascii_hexdigit_def is_ascii_digit_def is_ascii_uppercase_def
      list_all_iff)

lemma sample_request_valid: "validate_request sample_request = Inr ()"
  unfolding validate_request_def check_all_Inr list.pred_inject sample_request_def
  by (simp add: validate_sha256_Inr validate_identifier_Inr validate_opt_identifier_def
      lower_hex64_replicate ascii_identifier)

lemma sample_decide: "decide sample_request = (''admitted'', ''authorized_authoritative_source'', True, True)"
  by (simp add: decide_def sample_request_def)

lemma sample_workspace: "ar_workspace_hash sample_request = ''workspace-a''"
  by (simp add: sample_request_def)

lemma sample_evaluate: "evaluate sample_env sample_request = Inr sample_evidence"
  using decision_record_wf [OF sha256_32_sample_env sample_request_valid, of Save]
  by (simp add: evaluate_Inr sample_evidence_def sample_decide sample_request_valid evidence_validate_iff)

lemma sample_evidence_class: "evidence_class sample_evidence = Inr Save"
  by (simp add: sample_evidence_def decision_record_def sample_decide evidence_class_Inr)

text \<open>
  The gate answers every request that passes the field checks: the record it writes
  carries the outcome, the reason, the authority and the durability of the decision
  chain, and passes the validation that every later reader runs on it.
\<close>

theorem evaluate_total:
  assumes "sha256_32 env" and "validate_request r = Inr ()"
  shows "\<exists>e. evaluate env r = Inr e \<and> evidence_validate env e = Inr () \<and>
    (ae_outcome e, ae_reason_codes e, ae_authoritative e, ae_durable e) =
      (case decide r of (out, reason, a, d) \<Rightarrow> (out, [reason], a, d))"
proof -
  obtain out reason a d where d: "decide r = (out, reason, a, d)"
    by (cases "decide r")
  then obtain cls where cls: "class_of_outcome (fst (decide r)) = Inr cls"
    using decide_facts(2) by fastforce
  note wf = decision_record_wf [OF assms cls]
  show ?thesis
    using wf cls assms(2)
    by (intro exI [of _ "seal_evidence env (decision_record r cls)"])
      (simp add: evaluate_Inr evidence_validate_iff decision_record_def d)
qed

theorem evaluate_total_witness:
  "\<exists>e. evaluate sample_env sample_request = Inr e \<and> evidence_validate sample_env e = Inr () \<and>
    (ae_outcome e, ae_reason_codes e, ae_authoritative e, ae_durable e) =
      (''admitted'', [''authorized_authoritative_source''], True, True)"
  using evaluate_total [OF sha256_32_sample_env sample_request_valid] by (simp add: sample_decide)

text \<open>
  The gate lets a record activate for a query exactly when the request was scoped to
  its own workspace, relevant, from an authoritative source that was validated and names
  its source event, and not in contradiction with an authoritative record; and then only
  in that workspace and for a relevant query.
\<close>

theorem evaluate_activation:
  assumes "evaluate env r = Inr e"
  shows "can_activate e ws bps \<longleftrightarrow>
    ws = ar_workspace_hash r \<and> bps \<ge> 5000 \<and>
    ar_authorization_scope r = ar_workspace_hash r \<and> ar_task_relevance_bps r \<ge> 5000 \<and>
    \<not> ar_contradicts_authoritative r \<and> ar_source_trust r = ''authoritative'' \<and>
    ar_validated r \<and> ar_source_event_id r \<noteq> None"
proof -
  obtain out reason a d where d: "decide r = (out, reason, a, d)"
    by (cases "decide r")
  from assms obtain cls where e: "e = seal_evidence env (decision_record r cls)"
    by (auto simp: evaluate_Inr)
  have "can_activate e ws bps \<longleftrightarrow> out = ''admitted'' \<and> ws = ar_workspace_hash r \<and> bps \<ge> 5000"
    using decide_facts(3,4) [OF d]
    by (auto simp: e can_activate_def decision_record_def d)
  with decide_admits [of r] show ?thesis by (auto simp: d)
qed

theorem evaluate_activation_witness: "can_activate sample_evidence ''workspace-a'' 5000"
  using evaluate_activation [OF sample_evaluate, of "''workspace-a''" 5000]
  by (simp add: sample_request_def)

text \<open>
  C36. However a record came to be, through a decision and any sequence of approvals,
  rejections, downgrades and revocations, failed ones included: if it can activate, its
  reason codes say that the source was authoritative or that a human approved it, and
  its class is \<open>save\<close>.
\<close>

theorem history_authority:
  assumes "history env e" and "can_activate e ws bps"
  shows "(''authorized_authoritative_source'' \<in> set (ae_reason_codes e) \<or>
      ''human_approved'' \<in> set (ae_reason_codes e)) \<and> evidence_class e = Inr Save"
proof -
  from history_inv [OF assms(1)] have inv: "evidence_inv e" .
  then obtain c where c: "evidence_class e = Inr c" by (auto simp: evidence_inv_def)
  with assms(2) have "c = Save" by (auto dest: can_activate_class)
  with inv c assms(2) show ?thesis by (auto simp: evidence_inv_def can_activate_def)
qed

theorem history_authority_witness: "evidence_class sample_evidence = Inr Save"
proof -
  have "history sample_env sample_evidence" by (rule history.evaluated [OF sample_evaluate])
  moreover have "can_activate sample_evidence ''workspace-a'' 5000"
    by (simp add: can_activate_def sample_evidence_def decision_record_def sample_decide sample_workspace)
  ultimately show ?thesis by (rule history_authority [THEN conjunct2])
qed

text \<open>
  A record that was rejected or revoked (class \<open>drop\<close> or \<open>block\<close>) never activates
  again, whatever reviewers and operators do with it through approve, reject and revoke.
\<close>

theorem rejected_never_activates:
  assumes "evidence_class e = Inr Drop \<or> evidence_class e = Inr Block"
    and "(review_step env)\<^sup>*\<^sup>* e e'"
  shows "\<not> can_activate e' ws bps"
proof -
  have "evidence_class e' = Inr Drop \<or> evidence_class e' = Inr Block"
  proof (rule review.closed_region [OF assms(2) TrueI, where P = "\<lambda>c. c = Inr Drop \<or> c = Inr Block"])
    show "evidence_class e = Inr Drop \<or> evidence_class e = Inr Block" by (rule assms(1))
    show "d = Inr Drop \<or> d = Inr Block"
      if "c = Inr Drop \<or> c = Inr Block" and "review_edge c d" for c d
      using that by (cases d) auto
  qed
  then show ?thesis by (auto dest: can_activate_class)
qed

theorem rejected_never_activates_witness:
  "\<not> can_activate (snd (approve sample_env ''ok'' (sample_evidence\<lparr>ae_outcome := ''revoked'',
     ae_outcome_class := Some Block\<rparr>))) ''workspace-a'' 9000"
proof -
  define e where "e = sample_evidence\<lparr>ae_outcome := ''revoked'', ae_outcome_class := Some Block\<rparr>"
  have "evidence_class e = Inr Drop \<or> evidence_class e = Inr Block"
    by (simp add: e_def evidence_class_Inr)
  moreover have "(review_step sample_env)\<^sup>*\<^sup>* e (snd (approve sample_env ''ok'' e))"
    by (intro r_into_rtranclp review_step.review_approve)
  ultimately show ?thesis
    unfolding e_def [symmetric] by (rule rejected_never_activates)
qed

text \<open>
  Revocation is effective: a valid record with room for one more reason is revoked by
  any well-formed actor and reason; the revoked record is valid, names its revocation
  digest and the reason \<open>operator_revoked\<close>, and activates for no query.
\<close>

theorem revoke_effective:
  assumes "sha256_32 env" and "evidence_validate env e = Inr ()"
    and "length (ae_reason_codes e) < 16" and "lower_hex64 actor" and "is_identifier reason"
  shows "fst (revoke env actor reason e) = Inr () \<and>
    evidence_validate env (snd (revoke env actor reason e)) = Inr () \<and>
    ae_revocation_digest (snd (revoke env actor reason e)) \<noteq> None \<and>
    ''operator_revoked'' \<in> set (ae_reason_codes (snd (revoke env actor reason e))) \<and>
    \<not> can_activate (snd (revoke env actor reason e)) ws bps"
proof -
  define e' where "e' = snd (revoke env actor reason e)"
  have ok: "validate_sha256 ''actor_digest'' actor = Inr ()"
      "validate_identifier ''revocation_reason'' reason = Inr ()"
    using assms(4,5) by (simp_all add: result_simps)
  have "is_identifier ''operator_revoked''"
    by (rule ascii_identifier) simp_all
  with assms have "evidence_wf env e'"
    by (auto simp: e'_def revoke_def ok Let_def evidence_validate_iff evidence_wf_def
        canonical_digest_def evidence_class_Inr lower_hex64_unsigned)
  moreover have "fst (revoke env actor reason e) = evidence_validate env e'"
    by (simp add: e'_def revoke_def ok Let_def)
  moreover have "ae_revocation_digest e' \<noteq> None" "''operator_revoked'' \<in> set (ae_reason_codes e')"
      "\<not> can_activate e' ws bps"
    by (simp_all add: e'_def revoke_def ok Let_def can_activate_def)
  ultimately show ?thesis by (simp add: e'_def evidence_validate_iff)
qed

lemma sample_evidence_valid: "evidence_validate sample_env sample_evidence = Inr ()"
  using sample_evaluate by (simp add: evaluate_Inr)

lemma sample_reason_codes: "ae_reason_codes sample_evidence = [''authorized_authoritative_source'']"
  by (simp add: sample_evidence_def decision_record_def sample_decide)

theorem revoke_effective_witness:
  "fst (revoke sample_env (replicate 64 (CHR ''a'')) ''superseded'' sample_evidence) = Inr () \<and>
   \<not> can_activate (snd (revoke sample_env (replicate 64 (CHR ''a'')) ''superseded'' sample_evidence))
       ''workspace-a'' 9000"
proof -
  have "length (ae_reason_codes sample_evidence) < 16" by (simp add: sample_reason_codes)
  moreover have "is_identifier ''superseded''" by (rule ascii_identifier) simp_all
  ultimately show ?thesis
    using revoke_effective [OF sha256_32_sample_env sample_evidence_valid _ lower_hex64_replicate,
        of "''superseded''" "''workspace-a''" 9000]
    by blast
qed

text \<open>The identifier that ties a review reason to its digest.\<close>

lemma review_reason_identifier:
  assumes "lower_hex64 d"
  shows "is_identifier (''review_reason_'' @ d)"
proof (rule ascii_identifier)
  show "''review_reason_'' @ d \<noteq> []" by simp
  show "length (''review_reason_'' @ d) \<le> 256" using assms by (simp add: lower_hex64_def)
  show "list_all (\<lambda>c. (33::nat) \<le> of_char c \<and> of_char c \<le> (126::nat)) (''review_reason_'' @ d)"
    using assms
    by (auto simp: lower_hex64_def list_all_iff is_ascii_hexdigit_def is_ascii_digit_def)
qed

lemma push_reasons_length:
  "length (ae_reason_codes (push_reasons rs e)) \<le> length (ae_reason_codes e) + length rs"
  using length_dedup_adj [of "sort (ae_reason_codes e @ rs)"] by (simp add: push_reasons_def)

lemma push_reasons_other [simp]:
  "ae_schema_version (push_reasons rs e) = ae_schema_version e"
  "ae_record_digest (push_reasons rs e) = ae_record_digest e"
  "ae_source_identity (push_reasons rs e) = ae_source_identity e"
  "ae_authorization_scope (push_reasons rs e) = ae_authorization_scope e"
  "ae_ingestion_channel (push_reasons rs e) = ae_ingestion_channel e"
  "ae_revocation_digest (push_reasons rs e) = ae_revocation_digest e"
  by (simp_all add: push_reasons_def)

text \<open>
  Approval is guarded and effective. A record whose class is not
  \<open>pending_approval\<close> is refused and left as it was. A valid pending record with room for
  two more reasons is admitted by any acceptable reason: the result is valid, carries
  \<open>human_approved\<close>, and activates for a relevant query in its own workspace.
\<close>

theorem approve_guarded:
  assumes "sha256_32 env" and "evidence_validate env e = Inr ()"
    and "length (ae_reason_codes e) \<le> 14"
    and "validate_review_reason ''approval_reason'' reason = Inr ()"
  shows "if evidence_class e = Inr PendingApproval
    then fst (approve env reason e) = Inr () \<and>
      evidence_validate env (snd (approve env reason e)) = Inr () \<and>
      ''human_approved'' \<in> set (ae_reason_codes (snd (approve env reason e))) \<and>
      can_activate (snd (approve env reason e)) (ae_workspace_hash e) 5000
    else is_ok (fst (approve env reason e)) = False \<and> snd (approve env reason e) = e"
proof (cases "evidence_class e = Inr PendingApproval")
  case True
  define rs where "rs = [''human_approved'', ''review_reason_'' @ digest_text env reason]"
  define u where "u = push_reasons rs (e\<lparr>ae_outcome := ''admitted'', ae_outcome_class := Some Save,
      ae_authoritative := True, ae_durable := True\<rparr>)"
  have approve: "approve env reason e = finish env u"
    by (simp add: approve_def assms(4) True u_def rs_def)
  have "is_identifier ''human_approved''" by (rule ascii_identifier) simp_all
  moreover have "is_identifier (''review_reason_'' @ digest_text env reason)"
    using assms(1) by (intro review_reason_identifier) (simp add: digest_text_def)
  ultimately have ids: "list_all is_identifier rs" by (simp add: rs_def)
  have "length (ae_reason_codes u) \<le> length (ae_reason_codes e) + length rs"
    unfolding u_def by (rule order_trans [OF push_reasons_length]) simp
  then have "length (ae_reason_codes u) \<le> 16"
    using assms(3) by (simp add: rs_def)
  moreover have reasons: "set (ae_reason_codes u) = set (ae_reason_codes e) \<union> set rs"
    by (simp add: u_def)
  have "''human_approved'' \<in> set (ae_reason_codes u)" unfolding reasons by (simp add: rs_def)
  then have "ae_reason_codes u \<noteq> []" by (cases "ae_reason_codes u") simp_all
  moreover have "list_all is_identifier (ae_reason_codes e)"
    using assms(2) by (simp add: evidence_validate_iff evidence_wf_def)
  then have "list_all is_identifier (ae_reason_codes u)"
    using ids unfolding list_all_iff reasons by (simp add: ball_Un)
  ultimately have "evidence_wf env (seal_evidence env u)"
    using assms(1,2)
    by (auto simp: u_def evidence_validate_iff evidence_wf_def evidence_class_Inr lower_hex64_unsigned)
  with True show ?thesis
    by (auto simp: approve evidence_validate_iff u_def rs_def can_activate_def)
next
  case False
  with assms(2) show ?thesis
    by (auto simp: approve_def assms(4) is_ok_def evidence_validate_iff evidence_wf_def)
qed

lemma sample_review_reason: "validate_review_reason ''approval_reason'' ''looks right'' = Inr ()"
  by (simp add: validate_review_reason_def blank_iff chars_ascii is_ascii_def is_whitespace_def
      is_control_def)

text \<open>A pending record: the decision on the sample request when it is not validated.\<close>

definition sample_pending :: admission_evidence where
  "sample_pending = seal_evidence sample_env
     (decision_record (sample_request\<lparr>ar_validated := False\<rparr>) PendingApproval)"

lemma sample_pending_facts:
  "evidence_validate sample_env sample_pending = Inr ()"
  "length (ae_reason_codes sample_pending) \<le> 14"
  "evidence_class sample_pending = Inr PendingApproval"
proof -
  have d: "decide (sample_request\<lparr>ar_validated := False\<rparr>) =
      (''proposed'', ''source_validation_required'', False, True)"
    by (simp add: decide_def sample_request_def)
  have "validate_request (sample_request\<lparr>ar_validated := False\<rparr>) = Inr ()"
    using sample_request_valid by (simp add: validate_request_def)
  then show "evidence_validate sample_env sample_pending = Inr ()"
    unfolding evidence_validate_iff sample_pending_def
    by (intro decision_record_wf sha256_32_sample_env) (simp_all add: d)
  show "length (ae_reason_codes sample_pending) \<le> 14"
      "evidence_class sample_pending = Inr PendingApproval"
    by (simp_all add: sample_pending_def decision_record_def d evidence_class_Inr)
qed

theorem approve_guarded_witness:
  "fst (approve sample_env ''looks right'' sample_pending) = Inr () \<and>
   can_activate (snd (approve sample_env ''looks right'' sample_pending))
     (ae_workspace_hash sample_pending) 5000"
  using approve_guarded [OF sha256_32_sample_env sample_pending_facts(1,2) sample_review_reason]
  by (simp add: sample_pending_facts(3))

lemma length_key_block: "sha256_32 env \<Longrightarrow> length (key_block env key) = 64"
  by (auto simp: key_block_def sha256_32_def Let_def)

text \<open>
  The attestation code is HMAC as RFC 2104 prescribes it for keys of any length: a
  key longer than the block stands for its digest, a key that fits stands for itself
  padded with zeros, and the code is the digest of the outer pad and the digest of the
  inner pad and the payload. The pads have the block length of 64 bytes and the result
  is 64 lowercase hexadecimal digits.
\<close>

theorem hmac_construction:
  assumes "sha256_32 env"
  shows "length (key_block env key) = 64 \<and>
    lower_hex64 (admission_source_hmac_hex env key payload) \<and>
    (length key > 64 \<longrightarrow>
       admission_source_hmac_hex env key payload =
       admission_source_hmac_hex env (sha256 env key) payload) \<and>
    (length key \<le> 64 \<longrightarrow>
       (\<forall>n. length key + n \<le> 64 \<longrightarrow>
         admission_source_hmac_hex env (key @ replicate n (char_of (0::nat))) payload =
         admission_source_hmac_hex env key payload))"
proof (intro conjI impI allI)
  show "length (key_block env key) = 64"
    using assms by (rule length_key_block)
  show "lower_hex64 (admission_source_hmac_hex env key payload)"
    using lower_hex64_sha256_hex [OF assms]
    by (simp add: admission_source_hmac_hex_def Let_def sha256_hex_def)
  show "admission_source_hmac_hex env key payload =
      admission_source_hmac_hex env (sha256 env key) payload" if "length key > 64"
    using that assms by (simp add: admission_source_hmac_hex_def key_block_def sha256_32_def)
  show "admission_source_hmac_hex env (key @ replicate n (char_of (0::nat))) payload =
      admission_source_hmac_hex env key payload" if "length key + n \<le> 64" for n
  proof -
    have "replicate (64 - length key) (char_of (0::nat)) =
        replicate n (char_of (0::nat)) @ replicate (64 - (length key + n)) (char_of (0::nat))"
      using that by (simp add: replicate_add [symmetric])
    with that have "key_block env (key @ replicate n (char_of (0::nat))) = key_block env key"
      by (simp add: key_block_def)
    then show ?thesis by (simp add: admission_source_hmac_hex_def)
  qed
qed

theorem hmac_construction_witness:
  "admission_source_hmac_hex sample_env (replicate 65 (CHR ''k'')) ''p'' =
   admission_source_hmac_hex sample_env (sha256 sample_env (replicate 65 (CHR ''k''))) ''p''"
  using hmac_construction [OF sha256_32_sample_env, of "replicate 65 (CHR ''k'')" "''p''"] by simp

end
