(* ===== verification/Op_Sanitize.thy ===== *)
theory Op_Sanitize
  imports Rust_Str
begin

text \<open>
  \<open>sanitize_error_detail\<close> of \<open>src/src/op_runs.rs\<close>, the filter every error detail goes
  through before it is stored. It works on characters: a scan that masks long
  hexadecimal runs and values after \<open>=\<close> and \<open>:\<close>, then one loop for each credential
  marker, then truncation. The marker loops search the lower-cased text and cut the
  text by the index they find; they may not end, so the loop is a
  \<^theory_text>\<open>partial_function\<close> whose value \<open>None\<close> is a call that never returns.
  \<open>str::to_lowercase\<close> maps by the Unicode tables of the standard library: it is the
  argument \<open>lc\<close>, of which the proofs use at most that it agrees with
  \<open>to_ascii_lowercase\<close> on ASCII.
\<close>

section \<open>The model\<close>

definition lit :: "string \<Rightarrow> rchar list" where
  "lit s = map of_char s"

definition ERROR_DETAIL_CAP :: nat where
  "ERROR_DETAIL_CAP = 500"

definition redacted :: "rchar list" where
  "redacted = lit ''[REDACTED]''"

definition byte_len :: "rchar list \<Rightarrow> nat" where
  "byte_len cs = sum_list (map len_utf8 cs)"

text \<open>The characters that end a value after \<open>=\<close> or \<open>:\<close>.\<close>

definition value_delim :: "rchar \<Rightarrow> bool" where
  "value_delim v \<longleftrightarrow> v = 32 \<or> v = 10 \<or> v = 13 \<or> v = 9 \<or> v = 44 \<or> v = 34"

definition run_char :: "rchar \<Rightarrow> bool" where
  "run_char n \<longleftrightarrow> is_ascii_hexdigit n \<or> n = 45"

definition assign_char :: "rchar \<Rightarrow> bool" where
  "assign_char c \<longleftrightarrow> c = 61 \<or> c = 58"

text \<open>The first loop. A run of hexadecimal digits and dashes is at most as long in
  characters as in bytes.\<close>

function (sequential) scan :: "rchar list \<Rightarrow> rchar list" where
  "scan [] = []"
| "scan (c # cs) =
     (if is_ascii_hexdigit c then
        (let run = c # takeWhile run_char cs
         in (if 32 \<le> length run then redacted else run) @ scan (dropWhile run_char cs))
      else if assign_char c then
        (if list_all (\<lambda>t. \<not> is_whitespace t \<and> \<not> assign_char t) (take 3 cs) then
           (let val = takeWhile (\<lambda>v. \<not> value_delim v) cs
            in c # (if 4 \<le> byte_len val then redacted else val)
                 @ scan (dropWhile (\<lambda>v. \<not> value_delim v) cs))
         else c # scan cs)
      else c # scan cs)"
  by pat_completeness auto
termination
  by (relation "measure length") (auto simp: le_imp_less_Suc length_dropWhile_le)

declare scan.simps(2) [simp del]

text \<open>\<open>lower.find(marker)\<close>: a byte index.\<close>

fun find_sub :: "rchar list \<Rightarrow> rchar list \<Rightarrow> nat option" where
  "find_sub m [] = (if m = [] then Some 0 else None)"
| "find_sub m (c # cs) =
     (if take (length m) (c # cs) = m then Some 0
      else map_option (\<lambda>i. len_utf8 c + i) (find_sub m cs))"

text \<open>\<open>rest.find(|ch| ...).unwrap_or(rest.len())\<close>: a byte index too.\<close>

fun find_end :: "rchar list \<Rightarrow> nat" where
  "find_end [] = 0"
| "find_end (c # cs) =
     (if is_whitespace c \<or> c = 44 \<or> c = 34 then 0 else len_utf8 c + find_end cs)"

partial_function (option) mask_loop ::
    "rchar list \<Rightarrow> rchar list \<Rightarrow> rchar list \<Rightarrow> (rchar list \<times> rchar list) option" where
  "mask_loop marker masked lower =
     (case find_sub marker lower of
        None \<Rightarrow> Some (masked, lower)
      | Some idx \<Rightarrow>
          let rest = drop idx masked;
              e = find_end rest;
              val = take (e - length marker) (drop (length marker) rest)
          in if 4 \<le> byte_len val then
               let masked' = take idx masked @ redacted @ drop e rest
               in mask_loop marker masked' (map to_ascii_lowercase masked')
             else Some (masked, lower))"

definition markers :: "rchar list list" where
  "markers = [lit ''bearer '', lit ''sk-'', lit ''authorization '', lit ''x-api-key '']"

fun mask_markers :: "rchar list list \<Rightarrow> rchar list \<Rightarrow> rchar list \<Rightarrow> rchar list option" where
  "mask_markers [] masked lower = Some masked"
| "mask_markers (m # ms) masked lower =
     Option.bind (mask_loop m masked lower) (\<lambda>(masked', lower'). mask_markers ms masked' lower')"

definition truncate :: "rchar list \<Rightarrow> rchar list" where
  "truncate s =
     (if length s > ERROR_DETAIL_CAP
      then take (ERROR_DETAIL_CAP - (length ''[truncated]'' + 1)) s @ 8230 # lit ''[truncated]''
      else s)"

definition sanitize_chars :: "(rchar list \<Rightarrow> rchar list) \<Rightarrow> rchar list \<Rightarrow> rchar list option" where
  "sanitize_chars lc cs =
     (let out = scan cs in map_option truncate (mask_markers markers out (lc out)))"

definition sanitize_error_detail ::
    "(rchar list \<Rightarrow> rchar list) \<Rightarrow> string \<Rightarrow> string option" where
  "sanitize_error_detail lc detail = map_option of_chars (sanitize_chars lc (chars detail))"

section \<open>Bounded length\<close>

lemma length_truncate: "length (truncate s) \<le> 500"
  by (simp add: truncate_def ERROR_DETAIL_CAP_def lit_def)

section \<open>No long hexadecimal run survives\<close>

definition run_free :: "nat \<Rightarrow> rchar list \<Rightarrow> bool" where
  "run_free n xs \<longleftrightarrow> (\<forall>a h b. xs = a @ h @ b \<longrightarrow> length h = n \<longrightarrow> \<not> list_all is_ascii_hexdigit h)"

lemma run_free_short: "length xs < n \<Longrightarrow> run_free n xs"
  by (auto simp: run_free_def)

lemma run_free_appendD:
  assumes "run_free n (xs @ ys)"
  shows "run_free n xs" and "run_free n ys"
proof -
  show "run_free n xs"
    unfolding run_free_def
  proof (intro allI impI)
    fix a h b assume "xs = a @ h @ b" "length h = n"
    then have "xs @ ys = a @ h @ (b @ ys)" by simp
    with assms \<open>length h = n\<close> show "\<not> list_all is_ascii_hexdigit h"
      unfolding run_free_def by blast
  qed
  show "run_free n ys"
    unfolding run_free_def
  proof (intro allI impI)
    fix a h b assume "ys = a @ h @ b" "length h = n"
    then have "xs @ ys = (xs @ a) @ h @ b" by simp
    with assms \<open>length h = n\<close> show "\<not> list_all is_ascii_hexdigit h"
      unfolding run_free_def by blast
  qed
qed

lemma run_free_take: "run_free n xs \<Longrightarrow> run_free n (take k xs)"
  by (metis append_take_drop_id run_free_appendD(1))

lemma run_free_drop: "run_free n xs \<Longrightarrow> run_free n (drop k xs)"
  by (metis append_take_drop_id run_free_appendD(2))

text \<open>Two lists without a run, with something in between that is no digit.\<close>

lemma run_free_join:
  assumes "run_free n xs" and "\<not> is_ascii_hexdigit c" and "run_free n (c # ys)"
  shows "run_free n (xs @ c # ys)"
  unfolding run_free_def
proof (intro allI impI)
  fix a h b
  assume split: "xs @ c # ys = a @ h @ b" and len: "length h = n"
  consider (left) us where "xs = a @ h @ us" | (right) us where "c # ys = us @ h @ b"
    | (across) "c \<in> set h"
  proof -
    from split obtain us where "xs = a @ us \<and> us @ c # ys = h @ b \<or> xs @ us = a \<and> c # ys = us @ h @ b"
      by (auto simp: append_eq_append_conv2)
    then show ?thesis
    proof (elim disjE conjE)
      assume xs: "xs = a @ us" and "us @ c # ys = h @ b"
      then obtain vs where "us = h @ vs \<and> vs @ c # ys = b \<or> us @ vs = h \<and> c # ys = vs @ b"
        by (auto simp: append_eq_append_conv2)
      then show ?thesis
      proof (elim disjE conjE)
        assume "us = h @ vs" then show ?thesis using left xs by simp
      next
        assume h: "us @ vs = h" and v: "c # ys = vs @ b"
        show ?thesis
        proof (cases vs)
          case Nil
          with h xs show ?thesis using left [of "[]"] by simp
        next
          case (Cons v vs')
          with v h show ?thesis using across by auto
        qed
      qed
    next
      assume "c # ys = us @ h @ b" then show ?thesis by (rule right)
    qed
  qed
  then show "\<not> list_all is_ascii_hexdigit h"
  proof cases
    case left
    with assms(1) len show ?thesis unfolding run_free_def by blast
  next
    case right
    with assms(3) len show ?thesis unfolding run_free_def by blast
  next
    case across
    with assms(2) show ?thesis by (auto simp: list_all_iff)
  qed
qed

lemma run_free_Cons: "\<not> is_ascii_hexdigit c \<Longrightarrow> 0 < n \<Longrightarrow> run_free n ys \<Longrightarrow> run_free n (c # ys)"
proof -
  assume c: "\<not> is_ascii_hexdigit c" and n: "0 < n" and ys: "run_free n ys"
  show ?thesis
    unfolding run_free_def
  proof (intro allI impI)
    fix a h b
    assume split: "c # ys = a @ h @ b" and len: "length h = n"
    show "\<not> list_all is_ascii_hexdigit h"
    proof (cases a)
      case Nil
      with split len n c show ?thesis by (cases h) auto
    next
      case (Cons a' as)
      with split have "ys = as @ h @ b" by simp
      with ys len show ?thesis unfolding run_free_def by blast
    qed
  qed
qed

lemma redacted_eq: "redacted = 91 # lit ''REDACTED'' @ [93]"
  by (simp add: redacted_def lit_def)

lemma run_free_redact:
  assumes "run_free 32 xs" and "run_free 32 ys"
  shows "run_free 32 (xs @ redacted @ ys)"
proof -
  have nd: "\<not> is_ascii_hexdigit 91" "\<not> is_ascii_hexdigit 93"
    by (simp_all add: is_ascii_hexdigit_def is_ascii_digit_def)
  have "run_free 32 (lit ''REDACTED'' @ 93 # ys)"
    using assms(2) nd by (intro run_free_join run_free_Cons) (simp_all add: run_free_short lit_def)
  then have "run_free 32 (91 # lit ''REDACTED'' @ 93 # ys)"
    using nd by (intro run_free_Cons) simp_all
  with assms(1) nd have "run_free 32 (xs @ 91 # lit ''REDACTED'' @ 93 # ys)"
    by (intro run_free_join) simp_all
  then show ?thesis by (simp add: redacted_eq)
qed

lemma scan_head: "\<not> is_ascii_hexdigit c \<Longrightarrow> \<exists>t. scan (c # cs) = c # t"
  by (simp add: scan.simps(2) Let_def)

text \<open>What follows a run or a value starts with a character that is no digit.\<close>

lemma scan_after:
  assumes "\<And>c. is_ascii_hexdigit c \<Longrightarrow> P c"
  shows "scan (dropWhile P cs) = [] \<or> (\<exists>c t. scan (dropWhile P cs) = c # t \<and> \<not> is_ascii_hexdigit c)"
proof (cases "dropWhile P cs")
  case Nil
  show ?thesis unfolding Nil by simp
next
  case (Cons c t)
  then have "\<not> P c" by (metis dropWhile_eq_Cons_conv)
  with assms have "\<not> is_ascii_hexdigit c" by blast
  with scan_head Cons show ?thesis by metis
qed

lemma run_free_after:
  assumes "length xs < 32" and "run_free 32 ys" and "ys = [] \<or> (\<exists>c t. ys = c # t \<and> \<not> is_ascii_hexdigit c)"
  shows "run_free 32 (xs @ ys)"
  using assms by (auto simp: run_free_short intro: run_free_join)

lemma byte_len_ge: "length cs \<le> byte_len cs"
proof (induction cs)
  case (Cons c cs)
  then show ?case by (simp add: byte_len_def len_utf8_def)
qed (simp add: byte_len_def)

lemma scan_run_free: "run_free 32 (scan cs)"
proof (induction cs rule: scan.induct)
  case 1
  show ?case by (simp add: run_free_short)
next
  case (2 c cs)
  have hex_delim: "is_ascii_hexdigit v \<Longrightarrow> \<not> value_delim v" for v
    by (auto simp: is_ascii_hexdigit_def is_ascii_digit_def value_delim_def)
  have hex_run: "is_ascii_hexdigit v \<Longrightarrow> run_char v" for v
    by (simp add: run_char_def)
  consider (run) "is_ascii_hexdigit c"
    | (assign) "\<not> is_ascii_hexdigit c" "assign_char c"
        "list_all (\<lambda>t. \<not> is_whitespace t \<and> \<not> assign_char t) (take 3 cs)"
    | (plain) "\<not> is_ascii_hexdigit c"
        "\<not> (assign_char c \<and> list_all (\<lambda>t. \<not> is_whitespace t \<and> \<not> assign_char t) (take 3 cs))"
    by blast
  then show ?case
  proof cases
    case run
    have IH: "run_free 32 (scan (dropWhile run_char cs))" using "2.IH"(1) run by blast
    show ?thesis
    proof (cases "32 \<le> length (c # takeWhile run_char cs)")
      case True
      with run IH run_free_redact [of "[]"] show ?thesis
        by (simp add: scan.simps(2) run_free_short)
    next
      case False
      with run_free_after [OF _ IH scan_after [of run_char], of "c # takeWhile run_char cs"] hex_run
      show ?thesis by (simp add: scan.simps(2) run)
    qed
  next
    case assign
    have IH: "run_free 32 (scan (dropWhile (\<lambda>v. \<not> value_delim v) cs))" using "2.IH"(2) assign by blast
    have "run_free 32 ((if 4 \<le> byte_len (takeWhile (\<lambda>v. \<not> value_delim v) cs) then redacted
        else takeWhile (\<lambda>v. \<not> value_delim v) cs) @ scan (dropWhile (\<lambda>v. \<not> value_delim v) cs))"
    proof (cases "4 \<le> byte_len (takeWhile (\<lambda>v. \<not> value_delim v) cs)")
      case True
      with IH run_free_redact [of "[]"] show ?thesis by (simp add: run_free_short)
    next
      case False
      with byte_len_ge [of "takeWhile (\<lambda>v. \<not> value_delim v) cs"]
      have "length (takeWhile (\<lambda>v. \<not> value_delim v) cs) < 32" by simp
      with run_free_after [OF this IH scan_after] hex_delim False show ?thesis by simp
    qed
    with assign show ?thesis
      by (simp add: scan.simps(2) Let_def run_free_Cons)
  next
    case plain
    then have "run_free 32 (scan cs)" using "2.IH"(3,4) by blast
    moreover have "scan (c # cs) = c # scan cs"
      using plain by (auto simp: scan.simps(2))
    ultimately show ?thesis using plain by (simp add: run_free_Cons)
  qed
qed

text \<open>The marker loops keep a property that holds of the mask and of every part.\<close>

lemma mask_loop_preserves:
  assumes ret: "mask_loop marker masked lower = Some r" and "Q masked"
    and "\<And>xs i e. Q xs \<Longrightarrow> Q (take i xs @ redacted @ drop e (drop i xs))"
  shows "Q (fst r)"
proof -
  have "Q masked \<longrightarrow> Q (fst r)"
  proof (rule mask_loop.raw_induct [where P = "\<lambda>marker masked lower r. Q masked \<longrightarrow> Q (fst r)", OF _ ret])
    fix f marker masked lower r
    assume IH: "\<And>marker masked lower r. f marker masked lower = Some r \<Longrightarrow> Q masked \<longrightarrow> Q (fst r)"
      and eq: "(case find_sub marker lower of None \<Rightarrow> Some (masked, lower)
        | Some idx \<Rightarrow>
          let rest = drop idx masked; e = find_end rest;
              val = take (e - length marker) (drop (length marker) rest)
          in if 4 \<le> byte_len val then
               let masked' = take idx masked @ redacted @ drop e rest
               in f marker masked' (map to_ascii_lowercase masked')
             else Some (masked, lower)) = Some r"
    show "Q masked \<longrightarrow> Q (fst r)"
      using eq assms(3) by (auto simp: Let_def split: option.splits if_splits dest: IH)
  qed
  with assms(2) show ?thesis by simp
qed

lemma mask_markers_preserves:
  assumes "\<And>xs i e. Q xs \<Longrightarrow> Q (take i xs @ redacted @ drop e (drop i xs))"
  shows "mask_markers ms masked lower = Some r \<Longrightarrow> Q masked \<Longrightarrow> Q r"
proof (induction ms arbitrary: masked lower)
  case (Cons m ms)
  then obtain masked' lower' where "mask_loop m masked lower = Some (masked', lower')"
      and rest: "mask_markers ms masked' lower' = Some r"
    by (auto simp: Option.bind_eq_Some_conv)
  from mask_loop_preserves [OF this(1) Cons.prems(2) assms] have "Q masked'" by simp
  with rest show ?case by (rule Cons.IH)
qed simp

lemma mask_markers_run_free:
  "mask_markers ms masked lower = Some r \<Longrightarrow> run_free 32 masked \<Longrightarrow> run_free 32 r"
  by (rule mask_markers_preserves [where Q = "run_free 32"])
    (auto intro: run_free_redact run_free_take run_free_drop)

lemma truncate_run_free: "run_free 32 s \<Longrightarrow> run_free 32 (truncate s)"
proof -
  assume s: "run_free 32 s"
  have nd: "\<not> is_ascii_hexdigit 8230" by (simp add: is_ascii_hexdigit_def is_ascii_digit_def)
  have "run_free 32 (8230 # lit ''[truncated]'')" by (rule run_free_short) (simp add: lit_def)
  with s nd show ?thesis by (auto simp: truncate_def intro!: run_free_join run_free_take)
qed

section \<open>Text that is ASCII\<close>

definition ascii_chars :: "rchar list \<Rightarrow> bool" where
  "ascii_chars cs \<longleftrightarrow> list_all (\<lambda>c. c < 128) cs"

text \<open>The documented behaviour of \<open>to_lowercase\<close> on ASCII text.\<close>

definition ascii_lowercase :: "(rchar list \<Rightarrow> rchar list) \<Rightarrow> bool" where
  "ascii_lowercase lc \<longleftrightarrow> (\<forall>cs. ascii_chars cs \<longrightarrow> lc cs = map to_ascii_lowercase cs)"

lemma ascii_chars_lower: "ascii_chars cs \<Longrightarrow> ascii_chars (map to_ascii_lowercase cs)"
  by (auto simp: ascii_chars_def list_all_iff to_ascii_lowercase_def is_ascii_uppercase_def)

lemma lower_eq_iff: "to_ascii_lowercase c = 32 \<longleftrightarrow> c = 32" "to_ascii_lowercase c = 44 \<longleftrightarrow> c = 44"
  by (auto simp: to_ascii_lowercase_def is_ascii_uppercase_def)

lemma find_sub_ascii:
  assumes "ascii_chars s" and "find_sub m s = Some i" and "m \<noteq> []"
  shows "i + length m \<le> length s \<and> take (length m) (drop i s) = m \<and>
    (\<forall>j < i. take (length m) (drop j s) \<noteq> m)"
  using assms
proof (induction s arbitrary: i)
  case (Cons c s)
  show ?case
  proof (cases "take (length m) (c # s) = m")
    case True
    with Cons.prems have "i = 0" by simp
    moreover have "length m \<le> length (c # s)"
      using True by (metis length_take min.cobounded1 nat_le_linear take_all_iff)
    ultimately show ?thesis using True by simp
  next
    case False
    with Cons.prems obtain k where k: "find_sub m s = Some k" "i = Suc k"
      by (auto simp: ascii_chars_def len_utf8_def)
    with Cons.IH Cons.prems have "k + length m \<le> length s \<and> take (length m) (drop k s) = m \<and>
        (\<forall>j < k. take (length m) (drop j s) \<noteq> m)"
      by (auto simp: ascii_chars_def)
    with False k show ?thesis by (auto simp: less_Suc_eq_0_disj)
  qed
qed simp

lemma find_sub_skip:
  assumes "ascii_chars p" and "\<forall>j < length p. take (length m) (drop j (p @ q)) \<noteq> m"
  shows "find_sub m (p @ q) = map_option (\<lambda>i. length p + i) (find_sub m q)"
  using assms
proof (induction p)
  case Nil
  then show ?case by (simp add: option.map_ident)
next
  case (Cons c p)
  from Cons.prems(2) have here: "take (length m) (c # p @ q) \<noteq> m"
    and later: "\<forall>j < length p. take (length m) (drop j (p @ q)) \<noteq> m"
    by auto
  have "len_utf8 c = 1" using Cons.prems(1) by (simp add: ascii_chars_def len_utf8_def)
  moreover have "find_sub m (p @ q) = map_option (\<lambda>i. length p + i) (find_sub m q)"
    using Cons.IH Cons.prems(1) later by (simp add: ascii_chars_def)
  ultimately show ?case
    using here by (simp add: option.map_comp comp_def)
qed

text \<open>The end of a token of ASCII text is where the first delimiter stands.\<close>

lemma find_end_ascii:
  "ascii_chars cs \<Longrightarrow> i < length cs \<Longrightarrow> is_whitespace (cs ! i) \<Longrightarrow> find_end cs \<le> i"
proof (induction cs arbitrary: i)
  case (Cons c cs)
  then show ?case
    by (cases i) (auto simp: ascii_chars_def len_utf8_def)
qed simp

text \<open>
  A marker that ends with a space is found, but the space ends the token too: the value
  that would be masked is empty, and the loop stops.
\<close>

lemma mask_loop_space_marker:
  assumes "ascii_chars masked" and "marker = m @ [32]"
  shows "mask_loop marker masked (map to_ascii_lowercase masked) =
    Some (masked, map to_ascii_lowercase masked)"
proof (cases "find_sub marker (map to_ascii_lowercase masked)")
  case None
  then show ?thesis by (simp add: mask_loop.simps)
next
  case (Some idx)
  have found: "idx + length marker \<le> length masked"
      "take (length marker) (drop idx (map to_ascii_lowercase masked)) = marker"
    using find_sub_ascii [OF ascii_chars_lower [OF assms(1)] Some] assms(2) by simp_all
  have "take (length marker) (drop idx (map to_ascii_lowercase masked)) ! length m = 32"
    unfolding found(2) by (simp add: assms(2))
  then have "to_ascii_lowercase (masked ! (idx + length m)) = 32"
    using found(1) by (simp add: assms(2))
  then have space: "drop idx masked ! length m = 32"
    using found(1) by (simp add: lower_eq_iff assms(2))
  have "find_end (drop idx masked) \<le> length m"
  proof (rule find_end_ascii)
    show "ascii_chars (drop idx masked)"
      using assms(1) by (auto simp: ascii_chars_def list_all_iff dest: in_set_dropD)
    show "length m < length (drop idx masked)" using found(1) assms(2) by simp
    show "is_whitespace (drop idx masked ! length m)" by (simp add: space is_whitespace_def)
  qed
  then have "find_end (drop idx masked) - length marker = 0" by (simp add: assms(2))
  with Some show ?thesis by (simp add: mask_loop.simps byte_len_def)
qed

text \<open>Where a marker can stand in a text.\<close>

lemma occurs_before_separator:
  assumes "c \<notin> set m" and "take (length m) (drop j (p @ c # x)) = m" and "j \<le> length p"
  shows "j + length m \<le> length p \<and> take (length m) (drop j p) = m"
proof -
  have split: "take (length m) (drop j (p @ c # x)) =
      take (length m) (drop j p) @ take (length m - (length p - j)) (c # x)"
    using assms(3) by simp
  have "length m \<le> length p - j"
  proof (rule ccontr)
    assume "\<not> length m \<le> length p - j"
    then have "c \<in> set (take (length m - (length p - j)) (c # x))"
      by (cases "length m - (length p - j)") simp_all
    moreover have "set (take (length m - (length p - j)) (c # x)) \<subseteq> set m"
      using trans [OF assms(2) [symmetric] split] by (metis Un_upper2 set_append)
    ultimately show False using assms(1) by blast
  qed
  with split assms(2,3) show ?thesis by simp
qed

lemma occurs_hd:
  assumes "m \<noteq> []" and "take (length m) (drop j s) = m"
  shows "j < length s \<and> s ! j = hd m"
proof -
  from assms have ne: "drop j s \<noteq> []" by auto
  then have "j < length s" by simp
  moreover from ne assms have "hd m = hd (drop j s)"
    by (metis hd_take length_greater_0_conv)
  ultimately show ?thesis by (simp add: hd_drop_conv_nth)
qed

lemma length_sk: "length (lit ''sk-'') = 3"
  by (simp add: lit_def)

text \<open>After a replacement the next \<open>sk-\<close> can only stand behind the mask.\<close>

lemma sk_behind_mask:
  assumes "ascii_chars pre"
    and "\<forall>j < length pre. take 3 (drop j (map to_ascii_lowercase (pre @ post))) \<noteq> lit ''sk-''"
  shows "find_sub (lit ''sk-'') (map to_ascii_lowercase (pre @ redacted @ suf)) =
    map_option (\<lambda>i. length pre + 10 + i) (find_sub (lit ''sk-'') (map to_ascii_lowercase suf))"
proof -
  define low q where "low = map to_ascii_lowercase (pre @ redacted)"
    and "q = map to_ascii_lowercase suf"
  define P R where "P = map to_ascii_lowercase pre"
    and "R = [114, 101, 100, 97, 99, 116, 101, 100, 93 :: nat]"
  have low: "low = P @ 91 # R"
    by (simp add: low_def P_def R_def redacted_def lit_def to_ascii_lowercase_def is_ascii_uppercase_def)
  have sk: "lit ''sk-'' = [115, 107, 45]" by (simp add: lit_def)
  have "take (length (lit ''sk-'')) (drop j (low @ q)) \<noteq> lit ''sk-''" if "j < length low" for j
  proof
    assume occ: "take (length (lit ''sk-'')) (drop j (low @ q)) = lit ''sk-''"
    show False
    proof (cases "j < length P")
      case True
      from occ have "take 3 (drop j (P @ 91 # (R @ q))) = lit ''sk-''"
        by (simp add: low length_sk)
      with True have "j + 3 \<le> length P" "take 3 (drop j P) = lit ''sk-''"
        using occurs_before_separator [of 91 "lit ''sk-''" j P "R @ q", unfolded length_sk]
        by (simp_all add: sk)
      then have "take 3 (drop j (map to_ascii_lowercase (pre @ post))) = lit ''sk-''"
        by (simp add: P_def)
      with assms(2) True show False by (auto simp: P_def)
    next
      case False
      have "(low @ q) ! j = 115" using occurs_hd [OF _ occ] by (simp add: sk)
      moreover have "(low @ q) ! j = low ! j" using that by (simp add: nth_append)
      moreover have "low ! j = (91 # R) ! (j - length P)"
        using False unfolding low by (simp add: nth_append)
      moreover have "(91 # R) ! (j - length P) \<in> set (91 # R)"
        using that False by (intro nth_mem) (simp add: low)
      ultimately show False by (simp add: R_def)
    qed
  qed
  moreover have "ascii_chars low"
    using assms(1) unfolding low_def
    by (intro ascii_chars_lower) (simp add: ascii_chars_def redacted_def lit_def)
  ultimately have "find_sub (lit ''sk-'') (low @ q) =
      map_option (\<lambda>i. length low + i) (find_sub (lit ''sk-'') q)"
    by (intro find_sub_skip) auto
  moreover have "length low = length pre + 10" by (simp add: low P_def R_def)
  ultimately show ?thesis by (simp add: low_def q_def)
qed

text \<open>The loop for \<open>sk-\<close> returns on ASCII text: each round moves behind the mask.\<close>

lemma mask_loop_sk_returns:
  assumes "ascii_chars masked"
  shows "\<exists>masked'. mask_loop (lit ''sk-'') masked (map to_ascii_lowercase masked) =
    Some (masked', map to_ascii_lowercase masked') \<and> ascii_chars masked'"
  using assms
proof (induction "case find_sub (lit ''sk-'') (map to_ascii_lowercase masked) of
    None \<Rightarrow> 0 | Some i \<Rightarrow> length masked - i" arbitrary: masked rule: less_induct)
  case less
  show ?case
  proof (cases "find_sub (lit ''sk-'') (map to_ascii_lowercase masked)")
    case None
    then show ?thesis using less.prems by (simp add: mask_loop.simps)
  next
    case (Some idx)
    define rest e where "rest = drop idx masked" and "e = find_end rest"
    define masked' where "masked' = take idx masked @ redacted @ drop e rest"
    have occ: "idx + 3 \<le> length masked"
        "\<forall>j < idx. take 3 (drop j (map to_ascii_lowercase masked)) \<noteq> lit ''sk-''"
      using find_sub_ascii [OF ascii_chars_lower [OF less.prems] Some, unfolded length_sk]
      by (simp_all add: lit_def)
    show ?thesis
    proof (cases "4 \<le> byte_len (take (e - 3) (drop 3 rest))")
      case False
      then show ?thesis
        using less.prems Some
        by (simp add: mask_loop.simps [of _ masked] length_sk rest_def e_def Let_def)
    next
      case True
      then have e: "3 < e" by (cases "e \<le> 3") (simp_all add: byte_len_def)
      have step: "mask_loop (lit ''sk-'') masked (map to_ascii_lowercase masked) =
          mask_loop (lit ''sk-'') masked' (map to_ascii_lowercase masked')"
        using True Some
        by (subst mask_loop.simps) (simp add: length_sk rest_def e_def masked'_def Let_def)
      have ascii': "ascii_chars masked'"
        using less.prems
        by (auto simp: ascii_chars_def masked'_def rest_def list_all_iff redacted_def lit_def
            dest!: in_set_takeD in_set_dropD)
      have "ascii_chars (take idx masked)"
        using less.prems by (auto simp: ascii_chars_def list_all_iff dest: in_set_takeD)
      moreover have "length (take idx masked) = idx" using occ(1) by simp
      moreover have "take idx masked @ drop idx masked = masked" by simp
      ultimately have nxt: "find_sub (lit ''sk-'') (map to_ascii_lowercase masked') =
          map_option (\<lambda>i. idx + 10 + i) (find_sub (lit ''sk-'') (map to_ascii_lowercase (drop e rest)))"
        unfolding masked'_def using sk_behind_mask [of "take idx masked" "drop idx masked"] occ(2)
        by simp
      have "length masked' = idx + 10 + (length masked - (idx + e))"
        using occ(1) by (simp add: masked'_def rest_def redacted_def lit_def)
      then have "(case find_sub (lit ''sk-'') (map to_ascii_lowercase masked') of
          None \<Rightarrow> 0 | Some i \<Rightarrow> length masked' - i) < length masked - idx"
        using e occ(1) by (auto simp: nxt split: option.split)
      then show ?thesis
        unfolding step using less.hyps [OF _ ascii'] by (simp add: Some)
    qed
  qed
qed

lemma scan_ascii: "ascii_chars cs \<Longrightarrow> ascii_chars (scan cs)"
proof (induction cs rule: scan.induct)
  case (2 c cs)
  have sub: "ascii_chars (dropWhile P cs)" "ascii_chars (takeWhile P cs)" for P
    using "2.prems" by (auto simp: ascii_chars_def list_all_iff dest: set_dropWhileD set_takeWhileD)
  have "ascii_chars redacted" by (simp add: ascii_chars_def redacted_def lit_def)
  with 2 sub show ?case
    by (auto simp: scan.simps(2) Let_def ascii_chars_def)
qed simp

lemma scan_scalar: "list_all scalar_value cs \<Longrightarrow> list_all scalar_value (scan cs)"
proof (induction cs rule: scan.induct)
  case (2 c cs)
  have sub: "list_all scalar_value (dropWhile P cs)" "list_all scalar_value (takeWhile P cs)" for P
    using "2.prems" by (auto simp: list_all_iff dest: set_dropWhileD set_takeWhileD)
  have "list_all scalar_value redacted" by (simp add: redacted_def lit_def scalar_value_def)
  with 2 sub show ?case by (auto simp: scan.simps(2) Let_def)
qed simp

lemma mask_markers_scalar:
  "mask_markers ms masked lower = Some r \<Longrightarrow> list_all scalar_value masked \<Longrightarrow> list_all scalar_value r"
  by (rule mask_markers_preserves [where Q = "list_all scalar_value"])
    (auto simp: list_all_iff redacted_def lit_def scalar_value_def dest: in_set_takeD in_set_dropD)

lemma truncate_scalar: "list_all scalar_value s \<Longrightarrow> list_all scalar_value (truncate s)"
  by (auto simp: truncate_def lit_def scalar_value_def list_all_iff dest: in_set_takeD)

lemma markers_ascii:
  assumes "ascii_chars out"
  shows "\<exists>r. mask_markers markers out (map to_ascii_lowercase out) = Some r"
proof -
  have spaced: "lit ''bearer '' = lit ''bearer'' @ [32]" "lit ''authorization '' = lit ''authorization'' @ [32]"
      "lit ''x-api-key '' = lit ''x-api-key'' @ [32]"
    by (simp_all add: lit_def)
  obtain m where m: "mask_loop (lit ''sk-'') out (map to_ascii_lowercase out) =
      Some (m, map to_ascii_lowercase m)" "ascii_chars m"
    using mask_loop_sk_returns [OF assms] by blast
  show ?thesis
    using mask_loop_space_marker [OF assms spaced(1)] mask_loop_space_marker [OF m(2) spaced(2)]
      mask_loop_space_marker [OF m(2) spaced(3)] m(1)
    by (simp add: markers_def)
qed

section \<open>Properties\<close>

text \<open>
  C37. Whatever the filter returns is bounded and free of long hexadecimal blobs: at most
  500 characters, and no 32 hexadecimal digits in a row. This holds for every text,
  ASCII or not, and for every lower-casing.
\<close>

theorem sanitize_bounded_and_masked:
  assumes "list_all scalar_value (chars detail)" and "sanitize_error_detail lc detail = Some r"
  shows "char_count r \<le> 500 \<and> run_free 32 (chars r)"
proof -
  from assms(2) obtain m where m: "mask_markers markers (scan (chars detail)) (lc (scan (chars detail))) = Some m"
      and r: "r = of_chars (truncate m)"
    by (auto simp: sanitize_error_detail_def sanitize_chars_def Let_def)
  have "list_all scalar_value (truncate m)"
    using m assms(1) by (intro truncate_scalar mask_markers_scalar [OF m] scan_scalar)
  then have "chars r = truncate m" unfolding r by (rule chars_of_chars)
  moreover have "run_free 32 m" using m scan_run_free by (rule mask_markers_run_free)
  ultimately show ?thesis
    by (simp add: char_count_def length_truncate truncate_run_free)
qed

theorem sanitize_bounded_and_masked_witness:
  "char_count ''boom'' \<le> 500 \<and> run_free 32 (chars ''boom'')"
proof (rule sanitize_bounded_and_masked)
  show "list_all scalar_value (chars ''boom'')"
    by (simp add: chars_def scalar_value_def)
  have "sanitize_chars (map to_ascii_lowercase) (chars ''boom'') = Some (chars ''boom'')"
    by (simp add: sanitize_chars_def chars_def scan.simps(2) Let_def
        markers_def mask_loop.simps is_ascii_hexdigit_def is_ascii_digit_def assign_char_def
        to_ascii_lowercase_def is_ascii_uppercase_def lit_def truncate_def ERROR_DETAIL_CAP_def
        run_char_def)
  moreover have "of_chars (chars ''boom'') = ''boom''"
    using of_chars_ascii [of "''boom''"] chars_ascii [of "''boom''"] by (simp only: is_ascii_def) simp
  ultimately show "sanitize_error_detail (map to_ascii_lowercase) ''boom'' = Some ''boom''"
    by (simp add: sanitize_error_detail_def)
qed

text \<open>
  The filter returns on every ASCII text, so recording a failure with an ASCII detail
  does not hang.
\<close>

theorem sanitize_returns_on_ascii:
  assumes "is_ascii detail" and "ascii_lowercase lc"
  shows "\<exists>r. sanitize_error_detail lc detail = Some r"
proof -
  have "ascii_chars (chars detail)"
    using assms(1) by (simp add: chars_ascii ascii_chars_def is_ascii_def list_all_iff)
  then have out: "ascii_chars (scan (chars detail))" by (rule scan_ascii)
  with assms(2) have "lc (scan (chars detail)) = map to_ascii_lowercase (scan (chars detail))"
    by (simp add: ascii_lowercase_def)
  with markers_ascii [OF out] show ?thesis
    by (auto simp: sanitize_error_detail_def sanitize_chars_def Let_def)
qed

theorem sanitize_returns_on_ascii_witness:
  "\<exists>r. sanitize_error_detail (map to_ascii_lowercase) ''sk-live-zzzzzzzz rejected'' = Some r"
  by (rule sanitize_returns_on_ascii) (simp_all add: is_ascii_def ascii_lowercase_def)

text \<open>
  The markers that end with a space (\<open>bearer\<close>, \<open>authorization\<close>, \<open>x-api-key\<close>) never
  mask anything in ASCII text: the end of the value is looked for from the start of the
  marker and is found at the marker's own space.
\<close>

theorem spaced_markers_never_mask:
  assumes "ascii_chars masked"
    and "marker = lit ''bearer '' \<or> marker = lit ''authorization '' \<or> marker = lit ''x-api-key ''"
  shows "mask_loop marker masked (map to_ascii_lowercase masked) =
    Some (masked, map to_ascii_lowercase masked)"
proof -
  from assms(2) have "\<exists>m. marker = m @ [32]"
    by (elim disjE) (auto simp: lit_def)
  with assms(1) mask_loop_space_marker show ?thesis by blast
qed

theorem spaced_markers_never_mask_witness:
  "mask_loop (lit ''bearer '') (lit ''Bearer zzzzzzzzzzzzzzzz'') (lit ''bearer zzzzzzzzzzzzzzzz'') =
    Some (lit ''Bearer zzzzzzzzzzzzzzzz'', lit ''bearer zzzzzzzzzzzzzzzz'')"
proof -
  have "map to_ascii_lowercase (lit ''Bearer zzzzzzzzzzzzzzzz'') = lit ''bearer zzzzzzzzzzzzzzzz''"
    by (simp add: lit_def to_ascii_lowercase_def is_ascii_uppercase_def)
  with spaced_markers_never_mask [of "lit ''Bearer zzzzzzzzzzzzzzzz''" "lit ''bearer ''"]
  show ?thesis by (simp add: ascii_chars_def lit_def)
qed

text \<open>
  The loop for \<open>sk-\<close> gives up at the first short token: a text that starts with
  \<open>sk-x\<close> is returned unchanged, whatever keys follow.
\<close>

theorem short_token_stops_masking:
  "mask_loop (lit ''sk-'') (lit ''sk-x '' @ tail) (map to_ascii_lowercase (lit ''sk-x '' @ tail)) =
    Some (lit ''sk-x '' @ tail, map to_ascii_lowercase (lit ''sk-x '' @ tail))"
  by (subst mask_loop.simps)
    (simp add: lit_def to_ascii_lowercase_def is_ascii_uppercase_def is_whitespace_def len_utf8_def
      byte_len_def)

text \<open>
  A text the loop for \<open>sk-\<close> maps to itself: seven two-byte characters, a key and a mask.
\<close>

definition cycle_text :: "rchar list" where
  "cycle_text = [233, 233, 233, 233, 233, 233, 233, 32, 115, 107, 45, 122, 122, 122, 122,
     91, 82, 69, 68, 65, 67, 84, 69, 68, 93]"

definition diverging_detail :: "rchar list" where
  "diverging_detail = [233, 233, 233, 233, 233, 233, 233, 32, 115, 107, 45, 122, 122, 122, 122,
     122, 122, 122, 122, 122, 122, 122]"

lemmas text_simps = lit_def redacted_def len_utf8_def is_whitespace_def byte_len_def
  to_ascii_lowercase_def is_ascii_uppercase_def

lemma cycle_text_step:
  "find_sub (lit ''sk-'') (map to_ascii_lowercase cycle_text) = Some 15"
  "drop 15 cycle_text = redacted" "find_end redacted = 10"
  "byte_len (take (10 - length (lit ''sk-'')) (drop (length (lit ''sk-'')) redacted)) = 7"
  "take 15 cycle_text @ redacted @ drop 10 redacted = cycle_text"
  by (simp_all add: cycle_text_def text_simps)

lemma diverging_detail_step:
  "scan diverging_detail = diverging_detail"
  "find_sub (lit ''bearer '') diverging_detail = None"
  "find_sub (lit ''sk-'') diverging_detail = Some 15"
  "find_end (drop 15 diverging_detail) = 7"
  "take 15 diverging_detail @ redacted @ drop 7 (drop 15 diverging_detail) = cycle_text"
  by (simp_all add: diverging_detail_def cycle_text_def text_simps scan.simps(2)
      is_ascii_hexdigit_def is_ascii_digit_def assign_char_def)

lemma mask_loop_cycle: "mask_loop (lit ''sk-'') cycle_text (map to_ascii_lowercase cycle_text) = None"
proof (rule ccontr)
  define arg where "arg = (lit ''sk-'', cycle_text, map to_ascii_lowercase cycle_text)"
  assume "mask_loop (lit ''sk-'') cycle_text (map to_ascii_lowercase cycle_text) \<noteq> None"
  then obtain r where r: "mask_loop (lit ''sk-'') cycle_text (map to_ascii_lowercase cycle_text) = Some r"
    by auto
  have "(lit ''sk-'', cycle_text, map to_ascii_lowercase cycle_text) \<noteq> arg"
  proof (rule mask_loop.raw_induct
      [where P = "\<lambda>marker masked lower r. (marker, masked, lower) \<noteq> arg", OF _ r])
    fix f :: "rchar list \<Rightarrow> rchar list \<Rightarrow> rchar list \<Rightarrow> (rchar list \<times> rchar list) option"
      and marker masked lower r
    assume IH: "\<And>marker masked lower r. f marker masked lower = Some r \<Longrightarrow>
          (marker, masked, lower) \<noteq> arg"
      and eq: "(case find_sub marker lower of None \<Rightarrow> Some (masked, lower)
        | Some idx \<Rightarrow>
          let rest = drop idx masked; e = find_end rest;
              val = take (e - length marker) (drop (length marker) rest)
          in if 4 \<le> byte_len val then
               let masked' = take idx masked @ redacted @ drop e rest
               in f marker masked' (map to_ascii_lowercase masked')
             else Some (masked, lower)) = Some r"
    show "(marker, masked, lower) \<noteq> arg"
    proof
      assume "(marker, masked, lower) = arg"
      then have s: "marker = lit ''sk-''" "masked = cycle_text"
          "lower = map to_ascii_lowercase cycle_text"
        by (simp_all add: arg_def)
      have "f (lit ''sk-'') cycle_text (map to_ascii_lowercase cycle_text) = Some r"
        using eq unfolding s by (simp add: cycle_text_step Let_def)
      from IH [OF this] show False by (simp add: arg_def)
    qed
  qed
  then show False by (simp add: arg_def)
qed

text \<open>
  C38. The filter does not return on every text. The index of a marker is counted in bytes
  and used as a count of characters; behind seven two-byte characters the text that is
  replaced is not the marker, the marker is found again, and the loop runs forever.
\<close>

theorem sanitize_diverges:
  assumes "chars detail = diverging_detail" and "lc diverging_detail = diverging_detail"
  shows "sanitize_error_detail lc detail = None"
proof -
  have b: "mask_loop (lit ''bearer '') diverging_detail diverging_detail =
      Some (diverging_detail, diverging_detail)"
    by (subst mask_loop.simps) (simp add: diverging_detail_step)
  have v: "byte_len (take (7 - length (lit ''sk-'')) (drop (length (lit ''sk-'')) (drop 15 diverging_detail))) = 4"
    by (simp add: diverging_detail_def text_simps)
  have s: "mask_loop (lit ''sk-'') diverging_detail diverging_detail = None"
    by (subst mask_loop.simps) (simp add: diverging_detail_step v Let_def mask_loop_cycle del: drop_drop map_append)
  show ?thesis
    by (simp add: sanitize_error_detail_def sanitize_chars_def assms diverging_detail_step
        markers_def Let_def b s)
qed

theorem sanitize_diverges_witness: "sanitize_error_detail id (of_chars diverging_detail) = None"
proof (rule sanitize_diverges)
  have "list_all scalar_value diverging_detail"
    by (simp add: diverging_detail_def scalar_value_def)
  then show "chars (of_chars diverging_detail) = diverging_detail" by (rule chars_of_chars)
qed simp

end
