(* ===== verification/Op_Runs.thy ===== *)
theory Op_Runs
  imports Op_Sanitize
begin

text \<open>
  The durable runs of \<open>src/src/op_runs.rs\<close>: the two tables, the statements the module
  executes on them and its operations. A row of a table is the struct with the column
  types (\<open>state\<close> is text, the flags are integers); \<open>row_to_run\<close> and \<open>row_to_item\<close> read it.
  An operation takes the tables and gives its result and the tables it leaves. The clock
  and the random part of a new id are arguments; \<open>now\<close> and \<open>uuid\<close> of \<open>retry\<close> are
  indexed by the call. An operation reads the state, checks it and then updates the row by its id, in
  two statements without a transaction (\<open>retry\<close> apart): here it is one step, so calls follow each other, and
  what two overlapping calls on one run do is outside the model. Failures of the storage engine other than the constraints the
  schema declares are not modelled. The operations that filter an error detail may not
  return and have an optional value.
\<close>

section \<open>States\<close>

datatype op_run_state = Queued | Running | Completed | Failed | Cancelled | Interrupted | FailedToStart

fun as_str :: "op_run_state \<Rightarrow> string" where
  "as_str Queued = ''queued''"
| "as_str Running = ''running''"
| "as_str Completed = ''completed''"
| "as_str Failed = ''failed''"
| "as_str Cancelled = ''cancelled''"
| "as_str Interrupted = ''interrupted''"
| "as_str FailedToStart = ''failed_to_start''"

definition parse_state :: "string \<Rightarrow> op_run_state option" where
  "parse_state s =
     (if s = ''queued'' then Some Queued
      else if s = ''running'' then Some Running
      else if s = ''completed'' then Some Completed
      else if s = ''failed'' then Some Failed
      else if s = ''cancelled'' then Some Cancelled
      else if s = ''interrupted'' then Some Interrupted
      else if s = ''failed_to_start'' then Some FailedToStart
      else None)"

fun is_terminal :: "op_run_state \<Rightarrow> bool" where
  "is_terminal Completed = True"
| "is_terminal Failed = True"
| "is_terminal Cancelled = True"
| "is_terminal Interrupted = True"
| "is_terminal FailedToStart = True"
| "is_terminal _ = False"

fun is_inflight :: "op_run_state \<Rightarrow> bool" where
  "is_inflight Queued = True"
| "is_inflight Running = True"
| "is_inflight _ = False"

lemma parse_as_str [simp]: "parse_state (as_str s) = Some s"
  by (cases s) (simp_all add: parse_state_def)

lemma is_inflight_iff: "is_inflight s \<longleftrightarrow> \<not> is_terminal s"
  by (cases s) simp_all

section \<open>Rows and structs\<close>

record ('s, 'b) op_run_data =
  r_id :: string
  r_op_type :: string
  r_state :: 's
  r_partial :: 'b
  r_timeout :: 'b
  r_stale :: 'b
  r_scope :: string
  r_input_digest :: string
  r_items_total :: int
  r_items_done :: int
  r_items_failed :: int
  r_items_unattempted :: int
  r_error_class :: string
  r_error_detail :: string
  r_receipt :: string
  r_retry_count :: int
  r_max_retries :: int
  r_parent_run_id :: string
  r_created_by :: string
  r_created_at :: int
  r_started_at :: "int option"
  r_updated_at :: int
  r_finished_at :: "int option"

type_synonym op_run = "(op_run_state, bool) op_run_data"
type_synonym run_row = "(string, int) op_run_data"

record 's op_item_data =
  i_id :: string
  i_run_id :: string
  i_item_ref :: string
  i_item_digest :: string
  i_state :: 's
  i_receipt_ref :: string
  i_error_class :: string
  i_error_detail :: string
  i_retry_count :: int
  i_created_at :: int
  i_updated_at :: int
  i_finished_at :: "int option"

type_synonym op_run_item = "op_run_state op_item_data"
type_synonym item_row = "string op_item_data"

record op_db =
  op_runs :: "run_row list"
  op_run_items :: "item_row list"

definition read_state :: "string \<Rightarrow> op_run_state" where
  "read_state s = (case parse_state s of None \<Rightarrow> Interrupted | Some st \<Rightarrow> st)"

definition row_to_run :: "run_row \<Rightarrow> op_run" where
  "row_to_run row = \<lparr>
     r_id = r_id row, r_op_type = r_op_type row,
     r_state = read_state (r_state row),
     r_partial = (r_partial row \<noteq> 0), r_timeout = (r_timeout row \<noteq> 0), r_stale = (r_stale row \<noteq> 0),
     r_scope = r_scope row, r_input_digest = r_input_digest row,
     r_items_total = r_items_total row, r_items_done = r_items_done row,
     r_items_failed = r_items_failed row, r_items_unattempted = r_items_unattempted row,
     r_error_class = r_error_class row, r_error_detail = r_error_detail row,
     r_receipt = r_receipt row, r_retry_count = r_retry_count row,
     r_max_retries = r_max_retries row, r_parent_run_id = r_parent_run_id row,
     r_created_by = r_created_by row, r_created_at = r_created_at row,
     r_started_at = r_started_at row, r_updated_at = r_updated_at row,
     r_finished_at = r_finished_at row\<rparr>"

definition row_to_item :: "item_row \<Rightarrow> op_run_item" where
  "row_to_item row = \<lparr>
     i_id = i_id row, i_run_id = i_run_id row, i_item_ref = i_item_ref row,
     i_item_digest = i_item_digest row,
     i_state = read_state (i_state row),
     i_receipt_ref = i_receipt_ref row, i_error_class = i_error_class row,
     i_error_detail = i_error_detail row, i_retry_count = i_retry_count row,
     i_created_at = i_created_at row, i_updated_at = i_updated_at row,
     i_finished_at = i_finished_at row\<rparr>"

section \<open>Statements\<close>

datatype op_error =
    UnknownRun string
  | InvalidTransition string op_run_state string
  | InvalidOpType
  | ConstraintViolation string
  | UnknownItem string string
  | InvalidItemTransition string op_run_state string
  | CountersRead
  | RetryRefused string op_run_state
  | RetryExhausted int string
  | NothingToRetry string
  | TooManyVariables
  | ChildVanished string

type_synonym 'a op_result = "(op_error + 'a) \<times> op_db"

text \<open>\<open>UPDATE ... WHERE\<close>, on either table.\<close>

definition update_where :: "('r \<Rightarrow> bool) \<Rightarrow> ('r \<Rightarrow> 'r) \<Rightarrow> 'r list \<Rightarrow> 'r list" where
  "update_where p f rows = map (\<lambda>r. if p r then f r else r) rows"

definition update_run :: "string \<Rightarrow> (run_row \<Rightarrow> run_row) \<Rightarrow> op_db \<Rightarrow> op_db" where
  "update_run rid f db = db\<lparr>op_runs := update_where (\<lambda>r. r_id r = rid) f (op_runs db)\<rparr>"

definition update_item :: "string \<Rightarrow> (item_row \<Rightarrow> item_row) \<Rightarrow> op_db \<Rightarrow> op_db" where
  "update_item rid f db = db\<lparr>op_run_items := update_where (\<lambda>r. i_id r = rid) f (op_run_items db)\<rparr>"

text \<open>\<open>INSERT\<close>, with the constraints of the schema: the primary keys and
  \<open>UNIQUE(run_id, item_ref)\<close>.\<close>

definition insert_run :: "run_row \<Rightarrow> op_db \<Rightarrow> op_error + op_db" where
  "insert_run row db =
     (if r_id row \<in> set (map r_id (op_runs db)) then Inl (ConstraintViolation ''op_runs.id'')
      else Inr (db\<lparr>op_runs := op_runs db @ [row]\<rparr>))"

definition insert_item :: "item_row \<Rightarrow> op_db \<Rightarrow> op_error + op_db" where
  "insert_item row db =
     (if i_id row \<in> set (map i_id (op_run_items db))
      then Inl (ConstraintViolation ''op_run_items.id'')
      else if (i_run_id row, i_item_ref row) \<in>
          set (map (\<lambda>r. (i_run_id r, i_item_ref r)) (op_run_items db))
      then Inl (ConstraintViolation ''op_run_items.run_id, op_run_items.item_ref'')
      else Inr (db\<lparr>op_run_items := op_run_items db @ [row]\<rparr>))"

section \<open>Operations on runs\<close>

definition new_id :: "string \<Rightarrow> string \<Rightarrow> string" where
  "new_id prefix uuid = prefix @ ''-'' @ uuid"

definition get_run :: "op_db \<Rightarrow> string \<Rightarrow> op_run option" where
  "get_run db rid = map_option row_to_run (find (\<lambda>r. r_id r = rid) (op_runs db))"

definition assert_state ::
    "op_db \<Rightarrow> string \<Rightarrow> op_run_state list \<Rightarrow> string \<Rightarrow> op_error + op_run" where
  "assert_state db rid allowed action =
     bind_r (ok_or (get_run db rid) (UnknownRun rid)) (\<lambda>run.
       if r_state run \<notin> set allowed then Inl (InvalidTransition action (r_state run) rid)
       else Inr run)"

text \<open>The rest of an operation behind \<open>assert_state(...)?\<close>, which changes nothing.\<close>

definition checked :: "op_db \<Rightarrow> op_error + 'a \<Rightarrow> ('a \<Rightarrow> 'b op_result) \<Rightarrow> 'b op_result" where
  "checked db r k = (case r of Inl e \<Rightarrow> (Inl e, db) | Inr x \<Rightarrow> k x)"

definition new_run_row ::
    "string \<Rightarrow> string \<Rightarrow> string \<Rightarrow> string \<Rightarrow> int \<Rightarrow> string \<Rightarrow> int \<Rightarrow> run_row" where
  "new_run_row rid op_type scope input_digest max_retries created_by now = \<lparr>
     r_id = rid, r_op_type = op_type, r_state = as_str Queued,
     r_partial = 0, r_timeout = 0, r_stale = 0,
     r_scope = scope, r_input_digest = input_digest,
     r_items_total = 0, r_items_done = 0, r_items_failed = 0, r_items_unattempted = 0,
     r_error_class = [], r_error_detail = [], r_receipt = [],
     r_retry_count = 0, r_max_retries = max_retries, r_parent_run_id = [],
     r_created_by = created_by, r_created_at = now, r_started_at = None,
     r_updated_at = now, r_finished_at = None\<rparr>"

definition op_begin ::
    "op_db \<Rightarrow> int \<Rightarrow> string \<Rightarrow> string \<Rightarrow> string \<Rightarrow> string \<Rightarrow> int \<Rightarrow> string \<Rightarrow> op_run op_result"
where
  "op_begin db now uuid op_type scope input_digest max_retries created_by =
     (if trim op_type = [] \<or> char_count op_type > 64 then (Inl InvalidOpType, db)
      else
        let run = row_to_run (new_run_row (new_id ''opr'' uuid) (trim op_type) scope input_digest
              (max 0 (min 10 max_retries)) created_by now);
            row = new_run_row (r_id run) (r_op_type run) (r_scope run) (r_input_digest run)
              (r_max_retries run) (r_created_by run) (r_created_at run)
        in checked db (insert_run row db) (\<lambda>db'. (Inr run, db')))"

definition op_start :: "op_db \<Rightarrow> int \<Rightarrow> string \<Rightarrow> op_run op_result" where
  "op_start db now rid =
     checked db (assert_state db rid [Queued] ''start'') (\<lambda>run.
       (Inr (run\<lparr>r_state := Running, r_started_at := Some now, r_updated_at := now\<rparr>),
        update_run rid (\<lambda>r. r\<lparr>r_state := ''running'', r_started_at := Some now,
          r_updated_at := now\<rparr>) db))"

definition op_progress :: "op_db \<Rightarrow> int \<Rightarrow> string \<Rightarrow> int \<Rightarrow> int \<Rightarrow> int \<Rightarrow> op_run op_result" where
  "op_progress db now rid done failed tot =
     checked db (assert_state db rid [Running] ''progress'') (\<lambda>run.
       let done = max done 0;
           failed = max failed 0;
           tot = (if tot \<ge> 0 then tot else r_items_total run);
           unattempted = max (wrap64 (wrap64 (tot - done) - failed)) 0;
           partial = (done > 0 \<and> wrap64 (done + failed) < tot)
       in (Inr (run\<lparr>r_items_done := done, r_items_failed := failed, r_items_total := tot,
             r_items_unattempted := unattempted, r_partial := partial, r_updated_at := now\<rparr>),
           update_run rid (\<lambda>r. r\<lparr>r_items_done := done, r_items_failed := failed,
             r_items_total := tot, r_items_unattempted := unattempted,
             r_partial := of_bool partial, r_updated_at := now\<rparr>) db))"

definition op_complete :: "op_db \<Rightarrow> int \<Rightarrow> string \<Rightarrow> string \<Rightarrow> op_run op_result" where
  "op_complete db now rid receipt =
     checked db (assert_state db rid [Running] ''complete'') (\<lambda>run.
       (Inr (run\<lparr>r_state := Completed, r_receipt := receipt, r_items_unattempted := 0,
          r_finished_at := Some now, r_updated_at := now\<rparr>),
        update_run rid (\<lambda>r. r\<lparr>r_state := ''completed'', r_receipt := receipt,
          r_finished_at := Some now, r_updated_at := now, r_items_unattempted := 0\<rparr>) db))"

text \<open>\<open>with_detail\<close> is the call of the filter, which may not return, followed by the rest.\<close>

definition with_detail ::
    "op_db \<Rightarrow> op_error + 'a \<Rightarrow> string option \<Rightarrow> ('a \<Rightarrow> string \<Rightarrow> 'b op_result) \<Rightarrow> 'b op_result option"
where
  "with_detail db r sanitized k =
     (case r of Inl e \<Rightarrow> Some (Inl e, db) | Inr x \<Rightarrow> map_option (k x) sanitized)"

definition op_fail ::
    "(rchar list \<Rightarrow> rchar list) \<Rightarrow> op_db \<Rightarrow> int \<Rightarrow> string \<Rightarrow> string \<Rightarrow> string \<Rightarrow> bool \<Rightarrow> op_run op_result option"
where
  "op_fail lc db now rid error_class detail to_start =
     with_detail db
       (assert_state db rid (if to_start then [Queued] else [Running])
          (if to_start then ''failed_to_start'' else ''fail''))
       (sanitize_error_detail lc detail)
       (\<lambda>run detail.
          (Inr (run\<lparr>r_state := if to_start then FailedToStart else Failed,
             r_error_class := error_class, r_error_detail := detail,
             r_finished_at := Some now, r_updated_at := now\<rparr>),
           update_run rid (\<lambda>r. r\<lparr>r_state := if to_start then ''failed_to_start'' else ''failed'',
             r_error_class := error_class, r_error_detail := detail,
             r_finished_at := Some now, r_updated_at := now\<rparr>) db))"

definition op_cancel :: "op_db \<Rightarrow> int \<Rightarrow> string \<Rightarrow> op_run op_result" where
  "op_cancel db now rid =
     checked db (assert_state db rid [Queued, Running] ''cancel'') (\<lambda>run.
       (Inr (run\<lparr>r_state := Cancelled, r_finished_at := Some now, r_updated_at := now\<rparr>),
        update_run rid (\<lambda>r. r\<lparr>r_state := ''cancelled'', r_finished_at := Some now,
          r_updated_at := now\<rparr>) db))"

definition op_timeout :: "op_db \<Rightarrow> int \<Rightarrow> string \<Rightarrow> op_run op_result" where
  "op_timeout db now rid =
     checked db (assert_state db rid [Running] ''timeout'') (\<lambda>_.
       let db' = update_run rid (\<lambda>r. r\<lparr>r_state := ''failed'', r_timeout := 1,
             r_error_class := ''timeout'', r_error_detail := ''bounded deadline exceeded'',
             r_finished_at := Some now, r_updated_at := now\<rparr>) db
       in (ok_or (get_run db' rid) (UnknownRun rid), db'))"

section \<open>Operations on items\<close>

definition new_item_row ::
    "string \<Rightarrow> string \<Rightarrow> string \<Rightarrow> string \<Rightarrow> string \<Rightarrow> string \<Rightarrow> int \<Rightarrow> int \<Rightarrow> int option \<Rightarrow> item_row"
where
  "new_item_row rid run_id item_ref item_digest state receipt_ref retry_count now finished = \<lparr>
     i_id = rid, i_run_id = run_id, i_item_ref = item_ref, i_item_digest = item_digest,
     i_state = state, i_receipt_ref = receipt_ref, i_error_class = [], i_error_detail = [],
     i_retry_count = retry_count, i_created_at = now, i_updated_at = now,
     i_finished_at = finished\<rparr>"

definition item_add ::
    "op_db \<Rightarrow> int \<Rightarrow> string \<Rightarrow> string \<Rightarrow> string \<Rightarrow> string \<Rightarrow> op_run_item op_result" where
  "item_add db now uuid run_id item_ref item_digest =
     checked db (assert_state db run_id [Running] ''item_add'') (\<lambda>run.
       let row = new_item_row (new_id ''opi'' uuid) run_id item_ref item_digest (as_str Queued)
             [] 0 now None;
           tot = wrap64 (r_items_total run + 1);
           unattempted = wrap64 (wrap64 (tot - r_items_done run) - r_items_failed run)
       in checked db (insert_item row db) (\<lambda>db'.
            (Inr (row_to_item row),
             update_run run_id (\<lambda>r. r\<lparr>r_items_total := tot,
               r_items_unattempted := max unattempted 0, r_updated_at := now\<rparr>) db')))"

definition get_item :: "op_db \<Rightarrow> string \<Rightarrow> string \<Rightarrow> op_run_item option" where
  "get_item db run_id item_ref =
     map_option row_to_item
       (find (\<lambda>r. i_run_id r = run_id \<and> i_item_ref r = item_ref) (op_run_items db))"

definition assert_item_state ::
    "op_db \<Rightarrow> string \<Rightarrow> string \<Rightarrow> op_run_state list \<Rightarrow> string \<Rightarrow> op_error + op_run_item" where
  "assert_item_state db run_id item_ref allowed action =
     bind_r (ok_or (get_item db run_id item_ref) (UnknownItem item_ref run_id)) (\<lambda>item.
       if i_state item \<notin> set allowed then Inl (InvalidItemTransition action (i_state item) item_ref)
       else Inr item)"

definition count_items :: "op_db \<Rightarrow> string \<Rightarrow> string \<Rightarrow> int" where
  "count_items db run_id state =
     int (length (filter (\<lambda>r. i_run_id r = run_id \<and> i_state r = state) (op_run_items db)))"

definition touch_item ::
    "op_db \<Rightarrow> int \<Rightarrow> op_run_item \<Rightarrow> op_run_state \<Rightarrow> string \<Rightarrow> string \<Rightarrow> string \<Rightarrow> op_run_item op_result"
where
  "touch_item db now item state receipt_ref error_class detail =
     (let finished = (if is_terminal state then Some now else None);
          db1 = update_item (i_id item) (\<lambda>r. r\<lparr>i_state := as_str state,
            i_receipt_ref := receipt_ref, i_error_class := error_class, i_error_detail := detail,
            i_updated_at := now, i_finished_at := finished\<rparr>) db
      in checked db1
           (ok_or (map_option r_items_total
              (find (\<lambda>r. r_id r = i_run_id item) (op_runs db1))) CountersRead)
           (\<lambda>tot.
              let done = count_items db1 (i_run_id item) ''completed'';
                  failed = count_items db1 (i_run_id item) ''failed''
              in (Inr (item\<lparr>i_state := state, i_receipt_ref := receipt_ref,
                    i_error_class := error_class, i_error_detail := detail,
                    i_updated_at := now, i_finished_at := finished\<rparr>),
                  update_run (i_run_id item) (\<lambda>r. r\<lparr>r_items_done := done,
                    r_items_failed := failed,
                    r_items_unattempted := max (wrap64 (wrap64 (tot - done) - failed)) 0,
                    r_updated_at := now\<rparr>) db1)))"

definition item_start :: "op_db \<Rightarrow> int \<Rightarrow> string \<Rightarrow> string \<Rightarrow> op_run_item op_result" where
  "item_start db now run_id item_ref =
     checked db (assert_item_state db run_id item_ref [Queued] ''item_start'')
       (\<lambda>item. touch_item db now item Running [] [] [])"

definition item_complete ::
    "op_db \<Rightarrow> int \<Rightarrow> string \<Rightarrow> string \<Rightarrow> string \<Rightarrow> op_run_item op_result" where
  "item_complete db now run_id item_ref receipt_ref =
     checked db (assert_item_state db run_id item_ref [Running] ''item_complete'')
       (\<lambda>item. touch_item db now item Completed receipt_ref [] [])"

definition item_fail ::
    "(rchar list \<Rightarrow> rchar list) \<Rightarrow> op_db \<Rightarrow> int \<Rightarrow> string \<Rightarrow> string \<Rightarrow> string \<Rightarrow> string \<Rightarrow>
      op_run_item op_result option" where
  "item_fail lc db now run_id item_ref error_class detail =
     with_detail db (assert_item_state db run_id item_ref [Running] ''item_fail'')
       (sanitize_error_detail lc detail)
       (\<lambda>item detail. touch_item db now item Failed [] error_class detail)"

definition item_cancel :: "op_db \<Rightarrow> int \<Rightarrow> string \<Rightarrow> string \<Rightarrow> op_run_item op_result" where
  "item_cancel db now run_id item_ref =
     checked db (assert_item_state db run_id item_ref [Queued, Running] ''item_cancel'')
       (\<lambda>item. touch_item db now item Cancelled [] [] [])"

section \<open>Retry, recovery, retention and reads\<close>

text \<open>\<open>ORDER BY created_at_unix_ms\<close>; SQLite leaves the order of rows of one millisecond
  open, and here it is the order of insertion.\<close>

definition list_items :: "op_db \<Rightarrow> string \<Rightarrow> op_run_item list" where
  "list_items db run_id =
     map row_to_item (sort_key i_created_at (filter (\<lambda>r. i_run_id r = run_id) (op_run_items db)))"

definition retry_row :: "string \<Rightarrow> string \<Rightarrow> int \<Rightarrow> op_run_item \<Rightarrow> item_row" where
  "retry_row child_id uuid now item =
     (if i_state item = Completed
      then new_item_row (new_id ''opi'' uuid) child_id (i_item_ref item) (i_item_digest item)
        ''completed'' (i_receipt_ref item) (i_retry_count item) now (Some now)
      else new_item_row (new_id ''opi'' uuid) child_id (i_item_ref item) (i_item_digest item)
        ''queued'' [] (wrap64 (i_retry_count item + 1)) now None)"

fun retry_items ::
    "string \<Rightarrow> (nat \<Rightarrow> string) \<Rightarrow> (nat \<Rightarrow> int) \<Rightarrow> nat \<Rightarrow> op_run_item list \<Rightarrow> op_db \<Rightarrow> op_error + op_db"
where
  "retry_items child_id uuid now k [] db = Inr db"
| "retry_items child_id uuid now k (item # items) db =
     bind_r (insert_item (retry_row child_id (uuid k) (now k) item) db)
       (retry_items child_id uuid now (Suc k) items)"

text \<open>An error inside the transaction rolls it back.\<close>

definition op_retry :: "op_db \<Rightarrow> (nat \<Rightarrow> int) \<Rightarrow> (nat \<Rightarrow> string) \<Rightarrow> string \<Rightarrow> op_run op_result" where
  "op_retry db now uuid rid =
     checked db (ok_or (get_run db rid) (UnknownRun rid)) (\<lambda>run.
       if is_inflight (r_state run) then (Inl (RetryRefused rid (r_state run)), db)
       else if r_retry_count run \<ge> r_max_retries run
       then (Inl (RetryExhausted (r_max_retries run) rid), db)
       else
         let items = list_items db rid;
             recoverable = length (filter (\<lambda>i. i_state i \<noteq> Completed) items)
         in if recoverable = 0 then (Inl (NothingToRetry rid), db)
            else case op_begin db (now 0) (uuid 0) (r_op_type run) (r_scope run)
                (r_input_digest run) (r_max_retries run) (r_created_by run) of
              (Inl e, _) \<Rightarrow> (Inl e, db)
            | (Inr child, db1) \<Rightarrow>
                let db2 = update_run (r_id child) (\<lambda>r. r\<lparr>
                      r_retry_count := wrap64 (r_retry_count run + 1),
                      r_parent_run_id := r_id run, r_updated_at := now 1\<rparr>) db1
                in checked db
                     (retry_items (r_id child) (\<lambda>k. uuid (k + 1)) (\<lambda>k. now (k + 2)) 0 items db2)
                     (\<lambda>db3.
                        let done = int (length (filter (\<lambda>i. i_state i = Completed) items));
                            failed = int (length (filter (\<lambda>i. i_state i \<noteq> Completed) items));
                            tot = int (length items);
                            db4 = update_run (r_id child) (\<lambda>r. r\<lparr>r_items_done := done,
                              r_items_failed := failed, r_items_total := tot,
                              r_items_unattempted := failed\<rparr>) db3
                        in (ok_or (get_run db4 (r_id child)) (ChildVanished (r_id child)), db4)))"

definition inflight_text :: "string \<Rightarrow> bool" where
  "inflight_text s \<longleftrightarrow> s = ''queued'' \<or> s = ''running''"

definition terminal_text :: "string \<Rightarrow> bool" where
  "terminal_text s \<longleftrightarrow> s \<in> set [''completed'', ''failed'', ''cancelled'', ''interrupted'', ''failed_to_start'']"

definition op_recover :: "op_db \<Rightarrow> int \<Rightarrow> int op_result" where
  "op_recover db now =
     (let runs = map r_id (sort_key r_created_at
            (filter (\<lambda>r. inflight_text (r_state r)) (op_runs db)))
      in if runs = [] then (Inr 0, db)
         else
           let runs1 = update_where (\<lambda>r. inflight_text (r_state r))
                 (\<lambda>r. r\<lparr>r_state := ''interrupted'', r_updated_at := now\<rparr>) (op_runs db);
               items1 = update_where (\<lambda>i. inflight_text (i_state i) \<and>
                   i_run_id i \<in> set (map r_id (filter (\<lambda>r. r_state r = ''interrupted'') runs1)))
                 (\<lambda>i. i\<lparr>i_state := ''interrupted'', i_updated_at := now\<rparr>) (op_run_items db)
           in (Inr (int (length runs)), \<lparr>op_runs = runs1, op_run_items = items1\<rparr>))"

text \<open>\<open>max_vars\<close> is the number of parameters the engine accepts in one statement.\<close>

definition op_prune :: "nat \<Rightarrow> op_db \<Rightarrow> int \<Rightarrow> int \<Rightarrow> int op_result" where
  "op_prune max_vars db now retention_days =
     (let retention_days = max retention_days 1;
          cutoff = wrap64 (now - wrap64 (retention_days * 86400000));
          ids = map r_id (filter (\<lambda>r. terminal_text (r_state r) \<and> r_updated_at r < cutoff) (op_runs db))
      in if ids = [] then (Inr 0, db)
         else
           let db1 = fold (\<lambda>rid db. db\<lparr>op_run_items :=
                 filter (\<lambda>i. i_run_id i \<noteq> rid) (op_run_items db)\<rparr>) ids db
           in if length ids > max_vars then (Inl TooManyVariables, db)
              else (Inr (int (length ids)),
                db1\<lparr>op_runs := filter (\<lambda>r. r_id r \<notin> set ids) (op_runs db1)\<rparr>))"

definition op_list :: "op_db \<Rightarrow> op_run_state option \<Rightarrow> string option \<Rightarrow> int \<Rightarrow> op_run list" where
  "op_list db state_filter op_type_filter limit =
     map row_to_run (take (nat (max 1 (min 100 limit)))
       (sort_key (\<lambda>r. - r_created_at r)
         (filter (\<lambda>r. (case state_filter of None \<Rightarrow> True | Some s \<Rightarrow> r_state r = as_str s) \<and>
              (case op_type_filter of None \<Rightarrow> True | Some t \<Rightarrow> r_op_type r = t)) (op_runs db))))"

definition get_with_items :: "op_db \<Rightarrow> string \<Rightarrow> (op_run \<times> op_run_item list) option" where
  "get_with_items db rid = map_option (\<lambda>run. (run, list_items db rid)) (get_run db rid)"

end
