(* ===== verification/Op_Tools.thy ===== *)
theory Op_Tools
  imports Op_Runs Json
begin

text \<open>
  The callers of the durable runs: the wrappers of \<open>src/src/db.rs\<close> and the tool handlers of
  \<open>src/src/tools.rs\<close> (\<open>handle_op_run\<close> with its actions, list, get, retry, prune, and
  \<open>run_tracked\<close>, which wraps a whole operation in a run). A handler takes the JSON
  arguments of the call. The JSON text of the reply is left out: the reply is the value that
  is printed.
\<close>

section \<open>JSON arguments\<close>

definition json_get :: "json \<Rightarrow> string \<Rightarrow> json option" where
  "json_get args k = (case args of JObj ms \<Rightarrow> map_of ms k | _ \<Rightarrow> None)"

definition as_text :: "json \<Rightarrow> string option" where
  "as_text v = (case v of JStr s \<Rightarrow> Some s | _ \<Rightarrow> None)"

definition as_i64 :: "json \<Rightarrow> int option" where
  "as_i64 v = (case v of JInt n \<Rightarrow> if in_i64 n then Some n else None | _ \<Rightarrow> None)"

definition arg_str :: "json \<Rightarrow> string \<Rightarrow> string option" where
  "arg_str args k = Option.bind (json_get args k) as_text"

definition arg_i64 :: "json \<Rightarrow> string \<Rightarrow> int option" where
  "arg_i64 args k = Option.bind (json_get args k) as_i64"

section \<open>The wrappers of the database\<close>

text \<open>What a call needs from outside: the clock and the random ids of its successive calls,
  the lower-casing of the standard library, the engine's limit on parameters and the variable
  \<open>PERSEUS_VAULT_OP_RETENTION_DAYS\<close>, when it is set and an integer.\<close>

record op_env =
  e_now :: "nat \<Rightarrow> int"
  e_uuid :: "nat \<Rightarrow> string"
  e_lower :: "rchar list \<Rightarrow> rchar list"
  e_max_vars :: nat
  e_retention_days :: "int option"

definition op_run_begin ::
    "op_env \<Rightarrow> op_db \<Rightarrow> string \<Rightarrow> string \<Rightarrow> string \<Rightarrow> int \<Rightarrow> string \<Rightarrow> op_run op_result" where
  "op_run_begin env db op_type scope input_digest max_retries created_by =
     op_begin db (e_now env 0) (e_uuid env 0) op_type scope input_digest max_retries created_by"

definition op_run_start :: "op_env \<Rightarrow> op_db \<Rightarrow> string \<Rightarrow> op_run op_result" where
  "op_run_start env db rid = op_start db (e_now env 0) rid"

definition op_run_progress :: "op_env \<Rightarrow> op_db \<Rightarrow> string \<Rightarrow> int \<Rightarrow> int \<Rightarrow> int \<Rightarrow> op_run op_result" where
  "op_run_progress env db rid done failed tot = op_progress db (e_now env 0) rid done failed tot"

definition op_run_complete :: "op_env \<Rightarrow> op_db \<Rightarrow> string \<Rightarrow> string \<Rightarrow> op_run op_result" where
  "op_run_complete env db rid receipt = op_complete db (e_now env 0) rid receipt"

definition op_run_fail :: "op_env \<Rightarrow> op_db \<Rightarrow> string \<Rightarrow> string \<Rightarrow> string \<Rightarrow> op_run op_result option" where
  "op_run_fail env db rid error_class detail =
     op_fail (e_lower env) db (e_now env 0) rid error_class detail False"

definition op_run_failed_to_start ::
    "op_env \<Rightarrow> op_db \<Rightarrow> string \<Rightarrow> string \<Rightarrow> string \<Rightarrow> op_run op_result option" where
  "op_run_failed_to_start env db rid error_class detail =
     op_fail (e_lower env) db (e_now env 0) rid error_class detail True"

definition op_run_cancel :: "op_env \<Rightarrow> op_db \<Rightarrow> string \<Rightarrow> op_run op_result" where
  "op_run_cancel env db rid = op_cancel db (e_now env 0) rid"

definition op_run_timeout :: "op_env \<Rightarrow> op_db \<Rightarrow> string \<Rightarrow> op_run op_result" where
  "op_run_timeout env db rid = op_timeout db (e_now env 0) rid"

definition op_run_item_add ::
    "op_env \<Rightarrow> op_db \<Rightarrow> string \<Rightarrow> string \<Rightarrow> string \<Rightarrow> op_run_item op_result" where
  "op_run_item_add env db run_id item_ref item_digest =
     item_add db (e_now env 0) (e_uuid env 0) run_id item_ref item_digest"

definition op_run_item_start :: "op_env \<Rightarrow> op_db \<Rightarrow> string \<Rightarrow> string \<Rightarrow> op_run_item op_result" where
  "op_run_item_start env db run_id item_ref = item_start db (e_now env 0) run_id item_ref"

definition op_run_item_complete ::
    "op_env \<Rightarrow> op_db \<Rightarrow> string \<Rightarrow> string \<Rightarrow> string \<Rightarrow> op_run_item op_result" where
  "op_run_item_complete env db run_id item_ref receipt_ref =
     item_complete db (e_now env 0) run_id item_ref receipt_ref"

definition op_run_item_fail ::
    "op_env \<Rightarrow> op_db \<Rightarrow> string \<Rightarrow> string \<Rightarrow> string \<Rightarrow> string \<Rightarrow> op_run_item op_result option" where
  "op_run_item_fail env db run_id item_ref error_class detail =
     item_fail (e_lower env) db (e_now env 0) run_id item_ref error_class detail"

definition op_run_item_cancel :: "op_env \<Rightarrow> op_db \<Rightarrow> string \<Rightarrow> string \<Rightarrow> op_run_item op_result" where
  "op_run_item_cancel env db run_id item_ref = item_cancel db (e_now env 0) run_id item_ref"

definition op_run_retry :: "op_env \<Rightarrow> op_db \<Rightarrow> string \<Rightarrow> op_run op_result" where
  "op_run_retry env db rid = op_retry db (e_now env) (e_uuid env) rid"

definition op_run_prune :: "op_env \<Rightarrow> op_db \<Rightarrow> int \<Rightarrow> int op_result" where
  "op_run_prune env db retention_days = op_prune (e_max_vars env) db (e_now env 0) retention_days"

definition op_run_list :: "op_db \<Rightarrow> op_run_state option \<Rightarrow> string option \<Rightarrow> int \<Rightarrow> op_run list" where
  "op_run_list db state_filter op_type_filter limit = op_list db state_filter op_type_filter limit"

definition op_run_get :: "op_db \<Rightarrow> string \<Rightarrow> (op_run \<times> op_run_item list) option" where
  "op_run_get db rid = get_with_items db rid"

definition recover_op_runs :: "op_env \<Rightarrow> op_db \<Rightarrow> int op_result" where
  "recover_op_runs env db = op_recover db (e_now env 0)"

lemmas wrapper_defs = op_run_begin_def op_run_start_def op_run_progress_def op_run_complete_def
  op_run_fail_def op_run_failed_to_start_def op_run_cancel_def op_run_timeout_def
  op_run_item_add_def op_run_item_start_def op_run_item_complete_def op_run_item_fail_def
  op_run_item_cancel_def op_run_retry_def op_run_prune_def recover_op_runs_def

section \<open>The tool handlers\<close>

datatype tool_error =
    OpError op_error
  | MissingArgument string string
  | InvalidState string
  | InvalidAction string

datatype op_reply =
    RunReply op_run
  | ItemReply op_run_item
  | RunList nat "op_run list"
  | RunWithItems op_run "op_run_item list"
  | Retried string string string int
  | Pruned int int

type_synonym reply = "(tool_error + op_reply) \<times> op_db"

definition answer :: "('a \<Rightarrow> op_reply) \<Rightarrow> 'a op_result \<Rightarrow> reply" where
  "answer f r = (case r of (Inl e, db) \<Rightarrow> (Inl (OpError e), db) | (Inr x, db) \<Rightarrow> (Inr (f x), db))"

text \<open>\<open>args.get(k).and_then(as_str).ok_or_else(...)?\<close>\<close>

definition require :: "op_db \<Rightarrow> string \<Rightarrow> json \<Rightarrow> string \<Rightarrow> (string \<Rightarrow> reply option) \<Rightarrow> reply option" where
  "require db what args k f =
     (case arg_str args k of None \<Rightarrow> Some (Inl (MissingArgument what k), db) | Some v \<Rightarrow> f v)"

definition handle_op_run :: "op_env \<Rightarrow> json \<Rightarrow> op_db \<Rightarrow> reply option" where
  "handle_op_run env args db =
     (let action = or_else (arg_str args ''action'') ''begin'';
          run_id = or_else (arg_str args ''run_id'') []
      in if action = ''begin'' then
           require db ''begin'' args ''op_type'' (\<lambda>op_type.
             Some (answer RunReply (op_run_begin env db op_type
               (or_else (arg_str args ''scope'') [])
               (or_else (arg_str args ''input_digest'') [])
               (or_else (arg_i64 args ''max_retries'') 2)
               (or_else (arg_str args ''created_by'') []))))
         else if action = ''start'' then Some (answer RunReply (op_run_start env db run_id))
         else if action = ''progress'' then
           Some (answer RunReply (op_run_progress env db run_id
             (or_else (arg_i64 args ''done'') 0)
             (or_else (arg_i64 args ''failed'') 0)
             (or_else (arg_i64 args ''total'') (- 1))))
         else if action = ''complete'' then
           Some (answer RunReply (op_run_complete env db run_id
             (or_else (arg_str args ''receipt'') [])))
         else if action = ''fail'' then
           map_option (answer RunReply) (op_run_fail env db run_id
             (or_else (arg_str args ''error_class'') ''operation_failed'')
             (or_else (arg_str args ''error_detail'') []))
         else if action = ''failed_to_start'' then
           map_option (answer RunReply) (op_run_failed_to_start env db run_id
             (or_else (arg_str args ''error_class'') ''failed_to_start'')
             (or_else (arg_str args ''error_detail'') []))
         else if action = ''cancel'' then Some (answer RunReply (op_run_cancel env db run_id))
         else if action = ''timeout'' then Some (answer RunReply (op_run_timeout env db run_id))
         else if action = ''item_add'' then
           require db ''item_add'' args ''item_ref'' (\<lambda>item_ref.
             Some (answer ItemReply (op_run_item_add env db run_id item_ref
               (or_else (arg_str args ''item_digest'') []))))
         else if action = ''item_start'' then
           require db ''item_start'' args ''item_ref'' (\<lambda>item_ref.
             Some (answer ItemReply (op_run_item_start env db run_id item_ref)))
         else if action = ''item_complete'' then
           require db ''item_complete'' args ''item_ref'' (\<lambda>item_ref.
             Some (answer ItemReply (op_run_item_complete env db run_id item_ref
               (or_else (arg_str args ''receipt_ref'') []))))
         else if action = ''item_fail'' then
           require db ''item_fail'' args ''item_ref'' (\<lambda>item_ref.
             map_option (answer ItemReply) (op_run_item_fail env db run_id item_ref
               (or_else (arg_str args ''error_class'') ''item_failed'')
               (or_else (arg_str args ''error_detail'') [])))
         else if action = ''item_cancel'' then
           require db ''item_cancel'' args ''item_ref'' (\<lambda>item_ref.
             Some (answer ItemReply (op_run_item_cancel env db run_id item_ref)))
         else Some (Inl (InvalidAction action), db))"

definition parse_run_state :: "string \<Rightarrow> tool_error + op_run_state" where
  "parse_run_state s = ok_or (parse_state s) (InvalidState s)"

definition handle_op_run_list :: "json \<Rightarrow> op_db \<Rightarrow> tool_error + op_reply" where
  "handle_op_run_list args db =
     bind_r (case arg_str args ''state'' of None \<Rightarrow> Inr None
             | Some s \<Rightarrow> bind_r (parse_run_state s) (\<lambda>st. Inr (Some st)))
       (\<lambda>state.
          let runs = op_run_list db state (arg_str args ''op_type'')
                (or_else (arg_i64 args ''limit'') 20)
          in Inr (RunList (length runs) runs))"

definition handle_op_run_get :: "json \<Rightarrow> op_db \<Rightarrow> tool_error + op_reply" where
  "handle_op_run_get args db =
     bind_r (ok_or (arg_str args ''run_id'') (MissingArgument ''op_run_get'' ''run_id'')) (\<lambda>run_id.
       case op_run_get db run_id of
         Some (run, items) \<Rightarrow> Inr (RunWithItems run items)
       | None \<Rightarrow> Inl (OpError (UnknownRun run_id)))"

definition handle_op_run_retry :: "op_env \<Rightarrow> json \<Rightarrow> op_db \<Rightarrow> reply" where
  "handle_op_run_retry env args db =
     (case arg_str args ''run_id'' of
        None \<Rightarrow> (Inl (MissingArgument ''op_run_retry'' ''run_id''), db)
      | Some run_id \<Rightarrow>
          answer (\<lambda>child. Retried run_id (r_id child) (as_str (r_state child)) (r_retry_count child))
            (op_run_retry env db run_id))"

definition handle_op_run_prune :: "op_env \<Rightarrow> json \<Rightarrow> op_db \<Rightarrow> reply" where
  "handle_op_run_prune env args db =
     (let retention_days = or_else (arg_i64 args ''retention_days'') (or_else (e_retention_days env) 30)
      in answer (\<lambda>pruned. Pruned pruned retention_days) (op_run_prune env db retention_days))"

section \<open>A tracked operation\<close>

text \<open>\<open>value[k] = v\<close>: on an object or on null; on any other value it panics.\<close>

definition json_set :: "string \<Rightarrow> json \<Rightarrow> json \<Rightarrow> json option" where
  "json_set k v j =
     (case j of
        JObj ms \<Rightarrow> Some (JObj (insort_key fst (k, v) (filter (\<lambda>m. fst m \<noteq> k) ms)))
      | JNull \<Rightarrow> Some (JObj [(k, v)])
      | _ \<Rightarrow> None)"

text \<open>
  \<open>env k\<close> is what the \<open>k\<close>-th database call finds. The body \<open>f\<close> may use the tables itself. The
  outer option is \<open>None\<close> when the filter of the error text does not return, the inner one
  when the assignment into the body's value panics.
\<close>

definition begin_error_text :: "op_error \<Rightarrow> string" where
  "begin_error_text e =
     (case e of ConstraintViolation c \<Rightarrow> ''op_run begin: UNIQUE constraint failed: '' @ c
      | _ \<Rightarrow> ''op_run begin: invalid op_type'')"

definition run_tracked ::
    "(nat \<Rightarrow> op_env) \<Rightarrow> op_db \<Rightarrow> string \<Rightarrow> string \<Rightarrow> string \<Rightarrow>
      (string \<Rightarrow> op_db \<Rightarrow> (string + json \<times> string) \<times> op_db) \<Rightarrow> (json option \<times> op_db) option"
where
  "run_tracked env db op_type scope created_by f =
     (case op_run_begin (env 0) db op_type scope [] 2 created_by of
        (Inl e, db1) \<Rightarrow> Some (Some (JObj [(''error'', JStr (op_type @ '' failed: '' @ begin_error_text e))]), db1)
      | (Inr run, db1) \<Rightarrow>
          let db2 = snd (op_run_start (env 1) db1 (r_id run))
          in case f (r_id run) db2 of
               (Inr (val, receipt), db3) \<Rightarrow>
                 let db4 = snd (op_run_progress (env 2) db3 (r_id run) 0 0 0);
                     db5 = snd (op_run_complete (env 3) db4 (r_id run) receipt)
                 in Some (Option.bind (json_set ''op_run_id'' (JStr (r_id run)) val)
                      (json_set ''op_run_state'' (JStr ''completed'')), db5)
             | (Inl e, db3) \<Rightarrow>
                 map_option (\<lambda>(_, db4).
                     (Some (JObj [(''error'', JStr e), (''op_run_id'', JStr (r_id run)),
                        (''op_run_state'', JStr ''failed'')]), db4))
                   (op_run_fail (env 2) db3 (r_id run) ''operation_failed'' e))"

end
