(* ===== verification/Op_Lifecycle.thy ===== *)
theory Op_Lifecycle
  imports Op_Tools
begin

text \<open>
  What the durable runs promise. The steps of the component are the calls of its tools and
  the recovery at start-up, one after the other; the status of a run moves along the diagram of the
  module's documentation, one edge in a call, and so does the status of an item. Retention deletes
  finished runs with their items. The tables keep the constraints of the schema and the bounds of the
  counters.
\<close>

section \<open>Reads after writes\<close>

lemma find_update_where:
  "(\<And>r. k (f r) = k r) \<Longrightarrow>
   find (\<lambda>r. k r = j) (update_where (\<lambda>r. k r = i) f rows) =
     map_option (\<lambda>r. if i = j then f r else r) (find (\<lambda>r. k r = j) rows)"
  by (induction rows) (auto simp: update_where_def)

lemma row_to_run_sel [simp]:
  "r_id (row_to_run r) = r_id r" "r_state (row_to_run r) = read_state (r_state r)"
  "r_op_type (row_to_run r) = r_op_type r" "r_scope (row_to_run r) = r_scope r"
  "r_input_digest (row_to_run r) = r_input_digest r"
  "r_items_total (row_to_run r) = r_items_total r" "r_items_done (row_to_run r) = r_items_done r"
  "r_items_failed (row_to_run r) = r_items_failed r"
  "r_items_unattempted (row_to_run r) = r_items_unattempted r"
  "r_partial (row_to_run r) = (r_partial r \<noteq> 0)"
  "r_retry_count (row_to_run r) = r_retry_count r" "r_max_retries (row_to_run r) = r_max_retries r"
  "r_parent_run_id (row_to_run r) = r_parent_run_id r"
  "r_created_by (row_to_run r) = r_created_by r" "r_created_at (row_to_run r) = r_created_at r"
  "r_updated_at (row_to_run r) = r_updated_at r" "r_finished_at (row_to_run r) = r_finished_at r"
  by (simp_all add: row_to_run_def)

lemma row_to_item_sel [simp]:
  "i_id (row_to_item r) = i_id r" "i_run_id (row_to_item r) = i_run_id r"
  "i_item_ref (row_to_item r) = i_item_ref r" "i_item_digest (row_to_item r) = i_item_digest r"
  "i_state (row_to_item r) = read_state (i_state r)"
  "i_receipt_ref (row_to_item r) = i_receipt_ref r" "i_retry_count (row_to_item r) = i_retry_count r"
  by (simp_all add: row_to_item_def)

lemma read_state_as_str [simp]: "read_state (as_str s) = s"
  by (simp add: read_state_def)

lemma read_state_literals [simp]:
  "read_state ''queued'' = Queued" "read_state ''running'' = Running"
  "read_state ''completed'' = Completed" "read_state ''failed'' = Failed"
  "read_state ''cancelled'' = Cancelled" "read_state ''interrupted'' = Interrupted"
  "read_state ''failed_to_start'' = FailedToStart"
  by (simp_all add: read_state_def parse_state_def)

lemma get_run_update_run [row_simps]:
  assumes "\<And>r. r_id (f r) = r_id r"
  shows "get_run (update_run i f db) j =
    map_option (\<lambda>r. row_to_run (if i = j then f r else r)) (find (\<lambda>r. r_id r = j) (op_runs db))"
  using find_update_where [of r_id f, OF assms]
  by (simp add: get_run_def update_run_def option.map_comp comp_def)

lemma op_runs_update_item [simp]: "op_runs (update_item i f db) = op_runs db"
  by (simp add: update_item_def)

lemma items_update_run [simp]: "op_run_items (update_run i f db) = op_run_items db"
  by (simp add: update_run_def)

lemma get_run_update_item [simp]: "get_run (update_item i f db) j = get_run db j"
  by (simp add: get_run_def)

lemma get_item_update_run [simp]: "get_item (update_run i f db) a b = get_item db a b"
  by (simp add: get_item_def)

lemma get_run_Some:
  "get_run db rid = Some run \<longleftrightarrow> (\<exists>r. find (\<lambda>r. r_id r = rid) (op_runs db) = Some r \<and> run = row_to_run r)"
  by (auto simp: get_run_def)

lemma get_run_mem: "get_run db rid = Some run \<Longrightarrow> \<exists>r \<in> set (op_runs db). r_id r = rid \<and> run = row_to_run r"
  by (auto simp: get_run_Some dest!: find_SomeD)

lemma get_run_id: "get_run db rid = Some run \<Longrightarrow> r_id run = rid"
  by (auto simp: get_run_Some find_Some_iff)

lemma assert_state_Inr [result_simps]:
  "assert_state db rid allowed action = Inr run \<longleftrightarrow>
     get_run db rid = Some run \<and> r_state run \<in> set allowed"
  by (auto simp: assert_state_def bind_r_Inr ok_or_Inr)

lemma assert_item_state_Inr [result_simps]:
  "assert_item_state db a b allowed action = Inr item \<longleftrightarrow>
     get_item db a b = Some item \<and> i_state item \<in> set allowed"
  by (auto simp: assert_item_state_def bind_r_Inr ok_or_Inr)

lemma checked_Inr [result_simps]:
  "checked db r k = (Inr y, db') \<longleftrightarrow> (\<exists>x. r = Inr x \<and> k x = (Inr y, db'))"
  by (cases r) (simp_all add: checked_def)

lemma checked_cases:
  assumes "checked db r k = res"
  obtains (err) e where "r = Inl e" "res = (Inl e, db)" | (ok) x where "r = Inr x" "res = k x"
  using assms by (cases r) (auto simp: checked_def)

lemma with_detail_cases:
  assumes "with_detail db r d k = Some res"
  obtains (err) e where "r = Inl e" "res = (Inl e, db)" | (ok) x t where "r = Inr x" "d = Some t" "res = k x t"
  using assms by (cases r) (auto simp: with_detail_def)

text \<open>An insertion appends one row whose key is new.\<close>

lemma insert_run_Inr [result_simps]:
  "insert_run row db = Inr db' \<longleftrightarrow>
     r_id row \<notin> set (map r_id (op_runs db)) \<and> db' = db\<lparr>op_runs := op_runs db @ [row]\<rparr>"
  by (auto simp: insert_run_def)

lemma insert_item_Inr [result_simps]:
  "insert_item row db = Inr db' \<longleftrightarrow>
     i_id row \<notin> set (map i_id (op_run_items db)) \<and>
     (i_run_id row, i_item_ref row) \<notin> set (map (\<lambda>r. (i_run_id r, i_item_ref r)) (op_run_items db)) \<and>
     db' = db\<lparr>op_run_items := op_run_items db @ [row]\<rparr>"
  by (auto simp: insert_item_def)

lemma find_append_new:
  "j \<notin> k ` set rows \<Longrightarrow> find (\<lambda>r. k r = j) (rows @ [row]) = (if k row = j then Some row else None)"
  by (induction rows) auto

section \<open>The diagram\<close>

text \<open>
  The diagram of the module's documentation. \<open>None\<close> is a run that is not in the table: \<open>begin\<close> and
  \<open>retry\<close> put it there queued. A finished state has no successor, and nothing in the diagram takes a run
  out of the table: that is retention, which is stated on its own.
\<close>

fun run_edge :: "op_run_state option \<Rightarrow> op_run_state option \<Rightarrow> bool" where
  "run_edge None (Some s) = (s = Queued)"
| "run_edge (Some Queued) (Some s) = (s \<in> {Running, Cancelled, Interrupted, FailedToStart})"
| "run_edge (Some Running) (Some s) = (s \<in> {Completed, Failed, Cancelled, Interrupted})"
| "run_edge _ _ = False"

text \<open>Items go through the same states; a retry carries a completed item over as completed.\<close>

fun item_edge :: "op_run_state option \<Rightarrow> op_run_state option \<Rightarrow> bool" where
  "item_edge None (Some s) = (s = Queued \<or> s = Completed)"
| "item_edge (Some Queued) (Some s) = (s \<in> {Running, Cancelled, Interrupted})"
| "item_edge (Some Running) (Some s) = (s \<in> {Completed, Failed, Cancelled, Interrupted})"
| "item_edge _ _ = False"

lemma edge_None [simp]: "\<not> run_edge c None" "\<not> item_edge c None"
  by (cases "(c, None :: op_run_state option)" rule: run_edge.cases; simp)
    (cases "(c, None :: op_run_state option)" rule: item_edge.cases; simp)

lemma terminal_final: "is_terminal s \<Longrightarrow> \<not> run_edge (Some s) c" "is_terminal s \<Longrightarrow> \<not> item_edge (Some s) c"
  by (cases s; cases c; simp)+

definition run_status :: "string \<Rightarrow> op_db \<Rightarrow> op_run_state option" where
  "run_status rid db = map_option r_state (get_run db rid)"

definition item_status :: "string \<Rightarrow> string \<Rightarrow> op_db \<Rightarrow> op_run_state option" where
  "item_status run_id item_ref db = map_option i_state (get_item db run_id item_ref)"

section \<open>What the tables keep\<close>

definition run_ok :: "run_row \<Rightarrow> bool" where
  "run_ok r \<longleftrightarrow> parse_state (r_state r) \<noteq> None \<and> 0 \<le> r_retry_count r \<and> r_retry_count r \<le> r_max_retries r \<and>
     r_max_retries r \<le> 10 \<and> 0 \<le> r_items_done r \<and> 0 \<le> r_items_failed r \<and> 0 \<le> r_items_unattempted r"

definition item_key :: "item_row \<Rightarrow> string \<times> string" where
  "item_key i = (i_run_id i, i_item_ref i)"

definition op_wf :: "op_db \<Rightarrow> bool" where
  "op_wf db \<longleftrightarrow>
     distinct (map r_id (op_runs db)) \<and> list_all run_ok (op_runs db) \<and>
     distinct (map i_id (op_run_items db)) \<and> distinct (map item_key (op_run_items db)) \<and>
     list_all (\<lambda>i. parse_state (i_state i) \<noteq> None \<and> i_run_id i \<in> r_id ` set (op_runs db))
       (op_run_items db)"

text \<open>
  The statements of the operations, one by one, with what is known where they are executed. The flag says
  whether statements that change a status are among them; the others add rows or write counters.
\<close>

inductive row_step :: "bool \<Rightarrow> op_db \<Rightarrow> op_db \<Rightarrow> bool" where
  add_run: "row_step moving db db'"
    if "insert_run row db = Inr db'" "r_state row = ''queued''" "run_ok row"
| add_item: "row_step moving db db'"
    if "insert_item row db = Inr db'" "i_state row = ''queued'' \<or> i_state row = ''completed''"
      "i_run_id row \<in> r_id ` set (op_runs db)"
| settle_run: "row_step moving db (update_run rid f db)"
    if "find (\<lambda>r. r_id r = rid) (op_runs db) = Some r0"
      "\<And>r. r_id (f r) = r_id r"
      "\<And>r. r \<in> set (op_runs db) \<Longrightarrow> r_id r = rid \<Longrightarrow> run_ok r \<Longrightarrow> run_ok (f r)"
      "read_state (r_state (f r0)) = read_state (r_state r0)"
| set_run: "row_step True db (update_run rid f db)"
    if "find (\<lambda>r. r_id r = rid) (op_runs db) = Some r0"
      "\<And>r. r_id (f r) = r_id r"
      "\<And>r. r \<in> set (op_runs db) \<Longrightarrow> r_id r = rid \<Longrightarrow> run_ok r \<Longrightarrow> run_ok (f r)"
      "run_edge (Some (read_state (r_state r0))) (Some (read_state (r_state (f r0))))"
| set_item: "row_step True db (update_item (i_id item) f db)"
    if "get_item db a b = Some item"
      "\<And>r. i_id (f r) = i_id r" "\<And>r. item_key (f r) = item_key r"
      "\<And>r. parse_state (i_state (f r)) = Some s"
      "item_edge (Some (i_state item)) (Some s)"
| recover: "row_step True db (snd (op_recover db now))"

text \<open>What a call does: at most one statement that changes a status, then rows and counters.\<close>

definition call_path :: "op_db \<Rightarrow> op_db \<Rightarrow> bool" where
  "call_path db db' \<longleftrightarrow> (\<exists>db1. (db1 = db \<or> row_step True db db1) \<and> (row_step False)\<^sup>*\<^sup>* db1 db')"

lemma call_path_refl [simp]: "call_path db db"
  by (auto simp: call_path_def)

lemma call_path_grow: "(row_step False)\<^sup>*\<^sup>* db db' \<Longrightarrow> call_path db db'"
  by (auto simp: call_path_def)

lemma call_path_move: "row_step True db db1 \<Longrightarrow> (row_step False)\<^sup>*\<^sup>* db1 db' \<Longrightarrow> call_path db db'"
  by (auto simp: call_path_def)

lemma call_path_once: "row_step True db db' \<Longrightarrow> call_path db db'"
  by (auto simp: call_path_def)

subsection \<open>Lemmas on lists of rows\<close>

lemma map_update_where: "(\<And>r. k (f r) = k r) \<Longrightarrow> map k (update_where p f rows) = map k rows"
  by (induction rows) (simp_all add: update_where_def)

lemma image_update_where: "(\<And>r. k (f r) = k r) \<Longrightarrow> k ` set (update_where p f rows) = k ` set rows"
  by (metis list.set_map map_update_where)

lemma list_all_update_where:
  "list_all P rows \<Longrightarrow> (\<And>r. r \<in> set rows \<Longrightarrow> p r \<Longrightarrow> P r \<Longrightarrow> P (f r)) \<Longrightarrow> list_all P (update_where p f rows)"
  by (induction rows) (simp_all add: update_where_def)

lemma distinct_map_filter_rows: "distinct (map k rows) \<Longrightarrow> distinct (map k (filter p rows))"
  by (rule distinct_map_filter)

text \<open>With distinct keys the first match is the only one.\<close>

lemma find_eq_if_distinct:
  "distinct (map k rows) \<Longrightarrow> r \<in> set rows \<Longrightarrow> find (\<lambda>x. k x = k r) rows = Some r"
  by (induction rows) (auto simp: rev_image_eqI)

lemma find_filter_key:
  "find (\<lambda>r. k r = j) (filter (\<lambda>r. k r \<notin> S) rows) = (if j \<in> S then None else find (\<lambda>r. k r = j) rows)"
  by (induction rows) auto

lemma find_None_keys: "find (\<lambda>r. k r = j) rows = None \<longleftrightarrow> j \<notin> set (map k rows)"
  by (induction rows) auto

subsection \<open>Recovery and retention\<close>

lemma recover_tables:
  "op_runs (snd (op_recover db now)) = update_where (\<lambda>r. inflight_text (r_state r))
     (\<lambda>r. r\<lparr>r_state := ''interrupted'', r_updated_at := now\<rparr>) (op_runs db)"
proof (cases "filter (\<lambda>r. inflight_text (r_state r)) (op_runs db) = []")
  case True
  then have "update_where (\<lambda>r. inflight_text (r_state r)) f (op_runs db) = op_runs db" for f
    by (auto simp: update_where_def filter_empty_conv intro: map_idI)
  then show ?thesis using True by (simp add: op_recover_def)
next
  case False
  then show ?thesis by (auto simp add: op_recover_def Let_def simp flip: set_empty)
qed

lemma recover_items:
  "\<exists>p. op_run_items (snd (op_recover db now)) = update_where (\<lambda>i. inflight_text (i_state i) \<and> p i)
     (\<lambda>i. i\<lparr>i_state := ''interrupted'', i_updated_at := now\<rparr>) (op_run_items db)"
proof -
  have "update_where (\<lambda>i. inflight_text (i_state i) \<and> False) f rows = rows" for f and rows :: "item_row list"
    by (simp add: update_where_def)
  then show ?thesis by (auto simp: op_recover_def Let_def intro: exI [of _ "\<lambda>_. False"])
qed

definition prune_ids :: "op_db \<Rightarrow> int \<Rightarrow> int \<Rightarrow> string set" where
  "prune_ids db now days = r_id ` {r \<in> set (op_runs db). terminal_text (r_state r) \<and>
     r_updated_at r < wrap64 (now - wrap64 (max days 1 * 86400000))}"

lemma fold_delete_items:
  "fold (\<lambda>rid db. db\<lparr>op_run_items := filter (\<lambda>i. i_run_id i \<noteq> rid) (op_run_items db)\<rparr>) ids db =
     db\<lparr>op_run_items := filter (\<lambda>i. i_run_id i \<notin> set ids) (op_run_items db)\<rparr>"
  by (induction ids arbitrary: db) (simp_all add: conj_commute)

lemma prune_cases:
  obtains "op_prune max_vars db now days = (Inr 0, db)" "prune_ids db now days = {}"
  | "op_prune max_vars db now days = (Inl TooManyVariables, db)" "prune_ids db now days \<noteq> {}"
  | n where "n \<le> max_vars" "prune_ids db now days \<noteq> {}"
      "distinct (map r_id (op_runs db)) \<Longrightarrow> n = card (prune_ids db now days)"
      "op_prune max_vars db now days = (Inr (int n),
        db\<lparr>op_run_items := filter (\<lambda>i. i_run_id i \<notin> prune_ids db now days) (op_run_items db),
           op_runs := filter (\<lambda>r. r_id r \<notin> prune_ids db now days) (op_runs db)\<rparr>)"
proof -
  define rows where "rows = filter (\<lambda>r. terminal_text (r_state r) \<and>
      r_updated_at r < wrap64 (now - wrap64 (max days 1 * 86400000))) (op_runs db)"
  have ids: "set (map r_id rows) = prune_ids db now days"
    by (auto simp: rows_def prune_ids_def)
  have card: "length rows = card (prune_ids db now days)" if "distinct (map r_id (op_runs db))"
    using distinct_card [OF distinct_map_filter_rows [OF that], of "\<lambda>r. terminal_text (r_state r) \<and>
      r_updated_at r < wrap64 (now - wrap64 (max days 1 * 86400000))"]
    by (simp add: ids [symmetric] rows_def)
  have prune: "op_prune max_vars db now days =
     (if map r_id rows = [] then (Inr 0, db)
      else if length (map r_id rows) > max_vars then (Inl TooManyVariables, db)
      else (Inr (int (length (map r_id rows))),
        db\<lparr>op_run_items := filter (\<lambda>i. i_run_id i \<notin> set (map r_id rows)) (op_run_items db),
           op_runs := filter (\<lambda>r. r_id r \<notin> set (map r_id rows)) (op_runs db)\<rparr>))"
    unfolding op_prune_def Let_def rows_def [symmetric] fold_delete_items by simp
  show thesis
  proof (cases "rows = []")
    case True
    then show thesis using that(1) prune ids by auto
  next
    case False
    then have ne: "prune_ids db now days \<noteq> {}" using ids by auto
    show thesis
    proof (cases "length rows > max_vars")
      case True
      then show thesis using that(2) prune ne False by simp
    next
      case over: False
      show thesis
        using that(3) [of "length rows"] prune ne card over False unfolding ids by simp
    qed
  qed
qed


subsection \<open>Every statement keeps the tables well formed\<close>

lemma run_ok_interrupted: "run_ok r \<Longrightarrow> run_ok (r\<lparr>r_state := ''interrupted'', r_updated_at := now\<rparr>)"
  by (simp add: run_ok_def parse_state_def)

lemma op_wf_recover:
  assumes "op_wf db"
  shows "op_wf (snd (op_recover db now))"
proof -
  obtain p where items: "op_run_items (snd (op_recover db now)) =
      update_where (\<lambda>i. inflight_text (i_state i) \<and> p i)
        (\<lambda>i. i\<lparr>i_state := ''interrupted'', i_updated_at := now\<rparr>) (op_run_items db)"
    using recover_items by blast
  have runs: "r_id ` set (op_runs (snd (op_recover db now))) = r_id ` set (op_runs db)"
    unfolding recover_tables by (rule image_update_where) simp
  have ids: "map r_id (op_runs (snd (op_recover db now))) = map r_id (op_runs db)"
    unfolding recover_tables by (rule map_update_where) simp
  have keys: "map i_id (op_run_items (snd (op_recover db now))) = map i_id (op_run_items db)"
      "map item_key (op_run_items (snd (op_recover db now))) = map item_key (op_run_items db)"
    unfolding items by (rule map_update_where, simp add: item_key_def)+
  have "list_all run_ok (op_runs (snd (op_recover db now)))"
    unfolding recover_tables using assms
    by (intro list_all_update_where run_ok_interrupted) (simp_all add: op_wf_def)
  moreover have "list_all (\<lambda>i. parse_state (i_state i) \<noteq> None \<and> i_run_id i \<in> r_id ` set (op_runs db))
      (op_run_items (snd (op_recover db now)))"
    unfolding items using assms
    by (intro list_all_update_where) (simp_all add: op_wf_def parse_state_def)
  ultimately show ?thesis
    using assms unfolding op_wf_def runs ids keys by blast
qed

lemma op_wf_prune:
  assumes "op_wf db"
  shows "op_wf (snd (op_prune max_vars db now days))"
proof (rule prune_cases [of max_vars db now days])
  fix n
  assume "op_prune max_vars db now days = (Inr (int n),
        db\<lparr>op_run_items := filter (\<lambda>i. i_run_id i \<notin> prune_ids db now days) (op_run_items db),
           op_runs := filter (\<lambda>r. r_id r \<notin> prune_ids db now days) (op_runs db)\<rparr>)"
  then show ?thesis
    using assms by (auto simp: op_wf_def distinct_map_filter_rows list_all_iff)
qed (use assms in simp_all)

lemma op_wf_row_step: "row_step moving db db' \<Longrightarrow> op_wf db \<Longrightarrow> op_wf db'"
proof (induction rule: row_step.induct)
  case (add_run row db db')
  then show ?case by (auto simp: op_wf_def insert_run_Inr list_all_iff)
next
  case (settle_run rid db r0 f moving)
  then show ?case
    by (auto simp: op_wf_def update_run_def map_update_where image_update_where
        intro!: list_all_update_where)
next
  case (set_run rid db r0 f)
  then show ?case
    by (auto simp: op_wf_def update_run_def map_update_where image_update_where
        intro!: list_all_update_where)
next
  case (add_item row db db')
  then show ?case
    by (auto simp: op_wf_def insert_item_Inr item_key_def [abs_def] parse_state_def)
next
  case (set_item db a b item f s)
  have "i_run_id (f r) = i_run_id r" for r
    using set_item(3) [of r] by (simp add: item_key_def)
  with set_item show ?case
    by (auto simp: op_wf_def update_item_def map_update_where intro!: list_all_update_where)
qed (simp add: op_wf_recover)

subsection \<open>Every statement moves a run along the diagram\<close>

lemma inflight_text_read: "inflight_text s \<Longrightarrow> is_inflight (read_state s)"
  by (auto simp: inflight_text_def)

lemma terminal_text_read: "terminal_text s \<Longrightarrow> is_terminal (read_state s)"
  by (auto simp: terminal_text_def)

lemma run_status_rows: "run_status rid db =
    map_option (\<lambda>r. read_state (r_state r)) (find (\<lambda>r. r_id r = rid) (op_runs db))"
  by (simp add: run_status_def get_run_def option.map_comp comp_def)

lemma run_status_recover:
  "run_status rid (snd (op_recover db now)) = run_status rid db \<or>
   run_edge (run_status rid db) (run_status rid (snd (op_recover db now)))"
proof -
  have "find (\<lambda>r. r_id r = rid) (update_where p f rows) =
      map_option (\<lambda>r. if p r then f r else r) (find (\<lambda>r. r_id r = rid) rows)"
    if "\<And>r. r_id (f r) = r_id r" for p f and rows :: "run_row list"
    using that by (induction rows) (auto simp: update_where_def)
  then show ?thesis
    unfolding run_status_rows recover_tables
    by (cases "find (\<lambda>r. r_id r = rid) (op_runs db)") (auto simp: inflight_text_def)
qed

lemma run_status_prune:
  assumes "op_wf db"
  shows "run_status rid (snd (op_prune max_vars db now days)) = run_status rid db \<or>
    run_status rid (snd (op_prune max_vars db now days)) = None \<and> (\<exists>s. run_status rid db = Some s \<and> is_terminal s)"
proof (rule prune_cases [of max_vars db now days])
  fix n
  assume p: "op_prune max_vars db now days = (Inr (int n),
        db\<lparr>op_run_items := filter (\<lambda>i. i_run_id i \<notin> prune_ids db now days) (op_run_items db),
           op_runs := filter (\<lambda>r. r_id r \<notin> prune_ids db now days) (op_runs db)\<rparr>)"
  show ?thesis
  proof (cases "rid \<in> prune_ids db now days")
    case False
    then show ?thesis by (simp add: p run_status_rows find_filter_key)
  next
    case True
    then obtain r where r: "r \<in> set (op_runs db)" "terminal_text (r_state r)" "r_id r = rid"
      by (auto simp: prune_ids_def)
    moreover from this assms have "find (\<lambda>x. r_id x = rid) (op_runs db) = Some r"
      using find_eq_if_distinct [of r_id "op_runs db" r] by (simp add: op_wf_def)
    ultimately show ?thesis
      using True terminal_text_read [OF r(2)]
      by (simp add: p run_status_rows find_filter_key)
  qed
qed simp_all

lemma run_status_row_step:
  "row_step moving db db' \<Longrightarrow> op_wf db \<Longrightarrow>
   run_status rid db' = run_status rid db \<or> run_edge (run_status rid db) (run_status rid db')"
proof (induction rule: row_step.induct)
  case (add_run row db db')
  then show ?case
    by (cases "find (\<lambda>r. r_id r = rid) (op_runs db)")
      (auto simp: run_status_rows insert_run_Inr find_append)
next
  case (settle_run i db r0 f)
  then show ?case
    using find_update_where [of r_id f rid i "op_runs db"]
    by (cases "i = rid") (auto simp: run_status_rows update_run_def option.map_comp comp_def)
next
  case (set_run i db r0 f)
  then show ?case
    using find_update_where [of r_id f rid i "op_runs db"]
    by (cases "i = rid") (auto simp: run_status_rows update_run_def option.map_comp comp_def)
next
  case (add_item row db db')
  then show ?case by (simp add: run_status_rows insert_item_Inr)
next
  case (set_item db a b item f s)
  then show ?case by (simp add: run_status_rows)
qed (simp add: run_status_recover)

lemma run_status_grow:
  assumes "row_step False db db'" and "run_status rid db \<noteq> None"
  shows "run_status rid db' = run_status rid db"
  using assms
proof (induction "False" db db' rule: row_step.induct)
  case (add_run row db db')
  then show ?case by (auto simp: run_status_rows insert_run_Inr find_append)
next
  case (settle_run i db r0 f)
  then show ?case
    using find_update_where [of r_id f rid i "op_runs db"]
    by (cases "i = rid") (auto simp: run_status_rows update_run_def option.map_comp comp_def)
qed (simp_all add: run_status_rows insert_item_Inr)

subsection \<open>Every statement moves an item along its diagram\<close>

lemma item_status_rows: "item_status a b db =
    map_option (\<lambda>i. read_state (i_state i)) (find (\<lambda>i. item_key i = (a, b)) (op_run_items db))"
  by (simp add: item_status_def get_item_def option.map_comp comp_def item_key_def)

lemma find_update_where_pred:
  "(\<And>r. k (f r) = k r) \<Longrightarrow>
   find (\<lambda>r. k r = j) (update_where p f rows) =
     map_option (\<lambda>r. if p r then f r else r) (find (\<lambda>r. k r = j) rows)"
  by (induction rows) (auto simp: update_where_def)

lemma item_status_recover:
  "item_status a b (snd (op_recover db now)) = item_status a b db \<or>
   item_edge (item_status a b db) (item_status a b (snd (op_recover db now)))"
proof -
  obtain p where items: "op_run_items (snd (op_recover db now)) =
      update_where (\<lambda>i. inflight_text (i_state i) \<and> p i)
        (\<lambda>i. i\<lparr>i_state := ''interrupted'', i_updated_at := now\<rparr>) (op_run_items db)"
    using recover_items by blast
  have find: "find (\<lambda>i. item_key i = (a, b)) (op_run_items (snd (op_recover db now))) =
      map_option (\<lambda>i. if inflight_text (i_state i) \<and> p i
          then i\<lparr>i_state := ''interrupted'', i_updated_at := now\<rparr> else i)
        (find (\<lambda>i. item_key i = (a, b)) (op_run_items db))"
    unfolding items by (rule find_update_where_pred) (simp add: item_key_def)
  show ?thesis
    unfolding item_status_rows find
    by (cases "find (\<lambda>i. item_key i = (a, b)) (op_run_items db)") (auto simp: inflight_text_def)
qed

lemma item_status_prune:
  assumes "op_wf db"
  shows "item_status a b (snd (op_prune max_vars db now days)) = item_status a b db \<or>
    item_status a b (snd (op_prune max_vars db now days)) = None \<and>
    run_status a (snd (op_prune max_vars db now days)) = None \<and> (\<exists>s. run_status a db = Some s \<and> is_terminal s)"
proof (rule prune_cases [of max_vars db now days])
  fix n
  assume p: "op_prune max_vars db now days = (Inr (int n),
        db\<lparr>op_run_items := filter (\<lambda>i. i_run_id i \<notin> prune_ids db now days) (op_run_items db),
           op_runs := filter (\<lambda>r. r_id r \<notin> prune_ids db now days) (op_runs db)\<rparr>)"
  have find: "find (\<lambda>i. item_key i = (a, b)) (filter (\<lambda>i. i_run_id i \<notin> S) rows) =
      (if a \<in> S then None else find (\<lambda>i. item_key i = (a, b)) rows)" for S rows
    by (induction rows) (auto simp: item_key_def)
  show ?thesis
  proof (cases "a \<in> prune_ids db now days")
    case False
    then show ?thesis by (simp add: p item_status_rows find)
  next
    case True
    then have gone: "run_status a (snd (op_prune max_vars db now days)) = None"
      by (simp add: p run_status_rows find_filter_key)
    from True have "run_status a db \<noteq> None"
      by (auto simp: run_status_rows prune_ids_def find_None_iff)
    with run_status_prune [OF assms, of a max_vars now days] gone
    have "\<exists>s. run_status a db = Some s \<and> is_terminal s" by auto
    with gone True show ?thesis by (simp add: p item_status_rows find)
  qed
qed simp_all

lemma item_status_row_step:
  "row_step moving db db' \<Longrightarrow> op_wf db \<Longrightarrow>
   item_status a b db' = item_status a b db \<or> item_edge (item_status a b db) (item_status a b db')"
proof (induction rule: row_step.induct)
  case (add_run row db db')
  then show ?case by (simp add: item_status_rows insert_run_Inr)
next
  case (settle_run rid db r0 f)
  show ?case by (simp add: item_status_rows)
next
  case (set_run rid db r0 f)
  show ?case by (simp add: item_status_rows)
next
  case (add_item row db db')
  then show ?case
    by (cases "find (\<lambda>i. item_key i = (a, b)) (op_run_items db)")
      (auto simp: item_status_rows insert_item_Inr find_append)
next
  case (set_item db c d item f s)
  from set_item(1) obtain r where r: "find (\<lambda>i. item_key i = (c, d)) (op_run_items db) = Some r"
      and item: "item = row_to_item r"
    by (auto simp: get_item_def item_key_def)
  have read: "read_state (i_state (f x)) = s" for x
    using set_item(4) [of x] by (simp add: read_state_def)
  have find: "find (\<lambda>i. item_key i = (a, b)) (op_run_items (update_item (i_id item) f db)) =
      map_option (\<lambda>x. if i_id x = i_id r then f x else x)
        (find (\<lambda>i. item_key i = (a, b)) (op_run_items db))"
    unfolding update_item_def item by (simp, rule find_update_where_pred) (rule set_item(3))
  show ?case
  proof (cases "find (\<lambda>i. item_key i = (a, b)) (op_run_items db)")
    case None
    then show ?thesis by (simp add: item_status_rows find)
  next
    case (Some x)
    then have "x \<in> set (op_run_items db)" "r \<in> set (op_run_items db)"
      using r by (auto simp: find_Some_iff)
    moreover have "distinct (map i_id (op_run_items db))"
      using set_item.prems by (simp add: op_wf_def)
    ultimately have "i_id x = i_id r \<Longrightarrow> x = r"
      by (auto simp: distinct_map dest: inj_onD)
    with Some set_item(5) read show ?thesis
      unfolding item_status_rows find by (auto simp: item)
  qed
qed (simp add: item_status_recover)

lemma item_status_grow:
  assumes "row_step False db db'" and "item_status a b db \<noteq> None"
  shows "item_status a b db' = item_status a b db"
  using assms
proof (induction "False" db db' rule: row_step.induct)
  case (add_item row db db')
  then show ?case by (auto simp: item_status_rows insert_item_Inr find_append)
qed (simp_all add: item_status_rows insert_run_Inr)

section \<open>The steps of the component\<close>

text \<open>A step is a call of one of the tools that write, or the recovery when the database is
  opened.\<close>

inductive op_call :: "op_db \<Rightarrow> op_db \<Rightarrow> bool" where
  call_op_run: "handle_op_run env args db = Some (r, db') \<Longrightarrow> op_call db db'"
| call_retry: "handle_op_run_retry env args db = (r, db') \<Longrightarrow> op_call db db'"
| call_open: "recover_op_runs env db = (r, db') \<Longrightarrow> op_call db db'"

inductive op_step :: "op_db \<Rightarrow> op_db \<Rightarrow> bool" where
  step_call: "op_call db db' \<Longrightarrow> op_step db db'"
| step_prune: "handle_op_run_prune env args db = (r, db') \<Longrightarrow> op_step db db'"

subsection \<open>The operations are sequences of statements\<close>

lemma checked_step:
  assumes "checked db r k = (y, db')" and "\<And>x. r = Inr x \<Longrightarrow> k x = (y, db') \<Longrightarrow> call_path db db'"
  shows "call_path db db'"
  using assms by (cases r) (auto simp: checked_def)

lemma with_detail_step:
  assumes "with_detail db r d k = Some (y, db')"
    and "\<And>x t. r = Inr x \<Longrightarrow> k x t = (y, db') \<Longrightarrow> call_path db db'"
  shows "call_path db db'"
  using assms(1) by (rule with_detail_cases) (auto intro: assms(2))

text \<open>The update that follows a successful \<open>assert_state\<close>.\<close>

lemma asserted_run:
  assumes "assert_state db rid allowed action = Inr run"
  obtains r where "find (\<lambda>r. r_id r = rid) (op_runs db) = Some r" "read_state (r_state r) \<in> set allowed"
  using assms by (auto simp: assert_state_Inr get_run_Some)

lemma set_run_step:
  assumes "assert_state db rid allowed action = Inr run"
    and "\<And>r. r_id (f r) = r_id r" and "\<And>r. run_ok r \<Longrightarrow> run_ok (f r)"
    and "\<And>r. read_state (r_state r) \<in> set allowed \<Longrightarrow>
       run_edge (Some (read_state (r_state r))) (Some (read_state (r_state (f r))))"
  shows "call_path db (update_run rid f db)"
  by (rule asserted_run [OF assms(1)]) (intro call_path_once row_step.set_run, use assms(2-4) in auto)

lemma settle_run_step:
  assumes "assert_state db rid allowed action = Inr run"
    and "\<And>r. r_id (f r) = r_id r" and "\<And>r. run_ok r \<Longrightarrow> run_ok (f r)" and "\<And>r. r_state (f r) = r_state r"
  shows "row_step moving db (update_run rid f db)"
  by (rule asserted_run [OF assms(1)]) (intro row_step.settle_run, use assms(2-4) in auto)

lemma op_begin_grows:
  assumes "op_begin db now uuid op_type scope dig n by = (Inr run, db')"
  shows "row_step moving db db'"
  using assms unfolding op_begin_def Let_def
  by (auto split: if_splits simp: checked_Inr new_run_row_def run_ok_def parse_state_def intro!: row_step.add_run)

lemma op_begin_steps:
  assumes "op_begin db now uuid op_type scope dig n by = (r, db')"
  shows "call_path db db'"
proof (cases r)
  case (Inl e)
  with assms have "db' = db" unfolding op_begin_def Let_def by (auto split: if_splits simp: checked_def split: sum.splits)
  then show ?thesis by simp
next
  case (Inr run)
  with assms show ?thesis using call_path_once op_begin_grows by blast
qed

lemma op_start_steps: "op_start db now rid = (r, db') \<Longrightarrow> call_path db db'"
  unfolding op_start_def
  by (erule checked_step) (auto elim!: set_run_step simp: run_ok_def parse_state_def)

lemma op_complete_steps: "op_complete db now rid receipt = (r, db') \<Longrightarrow> call_path db db'"
  unfolding op_complete_def
  by (erule checked_step) (auto elim!: set_run_step simp: run_ok_def parse_state_def)

lemma op_cancel_steps: "op_cancel db now rid = (r, db') \<Longrightarrow> call_path db db'"
  unfolding op_cancel_def
  by (erule checked_step) (auto elim!: set_run_step simp: run_ok_def parse_state_def)

lemma op_timeout_steps: "op_timeout db now rid = (r, db') \<Longrightarrow> call_path db db'"
  unfolding op_timeout_def Let_def
  by (erule checked_step) (auto elim!: set_run_step simp: run_ok_def parse_state_def)

lemma op_progress_steps: "op_progress db now rid d f t = (r, db') \<Longrightarrow> call_path db db'"
  unfolding op_progress_def Let_def
  by (erule checked_step) (auto elim!: settle_run_step intro!: call_path_once simp: run_ok_def)

lemma op_fail_steps: "op_fail lc db now rid c d to_start = Some (r, db') \<Longrightarrow> call_path db db'"
  unfolding op_fail_def
  by (erule with_detail_step)
    (auto elim!: set_run_step simp: run_ok_def parse_state_def split: if_splits)


lemma item_add_steps:
  assumes "item_add db now uuid run_id item_ref dig = (r, db')"
  shows "call_path db db'"
proof -
  let ?row = "new_item_row (new_id ''opi'' uuid) run_id item_ref dig (as_str Queued) [] 0 now None"
  show ?thesis
    using assms unfolding item_add_def Let_def
  proof (rule checked_step)
    fix run
    assume run: "assert_state db run_id [Running] ''item_add'' = Inr run"
    let ?f = "\<lambda>r. r\<lparr>r_items_total := wrap64 (r_items_total run + 1),
       r_items_unattempted := max (wrap64 (wrap64 (wrap64 (r_items_total run + 1) - r_items_done run) -
         r_items_failed run)) 0, r_updated_at := now\<rparr>"
    assume "checked db (insert_item ?row db)
        (\<lambda>db'. (Inr (row_to_item ?row), update_run run_id ?f db')) = (r, db')"
    then show "call_path db db'"
    proof (rule checked_step)
      fix db1
      assume ins: "insert_item ?row db = Inr db1"
        and "(Inr (row_to_item ?row), update_run run_id ?f db1) = (r, db')"
      then have db': "db' = update_run run_id ?f db1" by simp
      have same: "assert_state db1 run_id [Running] ''item_add'' = Inr run"
        using run ins by (simp add: insert_item_Inr assert_state_def get_run_def)
      have "run_id \<in> r_id ` set (op_runs db)"
        using run by (auto simp: assert_state_Inr get_run_Some find_Some_iff)
      with ins have "row_step True db db1"
        by (rule_tac row_step.add_item [of ?row]) (simp_all add: new_item_row_def)
      moreover have "row_step False db1 db'"
        unfolding db' using same by (rule settle_run_step) (auto simp: run_ok_def)
      ultimately show ?thesis by (intro call_path_move) auto
    qed
  qed
qed

text \<open>An item's transition writes the item and then the counters of its run.\<close>

lemma touch_item_steps:
  assumes touch: "touch_item db now item s rr ec d = (r, db')" and item: "get_item db a b = Some item"
    and edge: "item_edge (Some (i_state item)) (Some s)"
  shows "call_path db db'"
proof -
  define f where "f = (\<lambda>r :: item_row. r\<lparr>i_state := as_str s, i_receipt_ref := rr, i_error_class := ec,
     i_error_detail := d, i_updated_at := now,
     i_finished_at := if is_terminal s then Some now else None\<rparr>)"
  define db1 where "db1 = update_item (i_id item) f db"
  have "row_step True db db1"
    unfolding db1_def using item edge
    by (intro row_step.set_item [of db a b item f s]) (simp_all add: f_def item_key_def)
  moreover have "(row_step False)\<^sup>*\<^sup>* db1 db'"
  proof (rule checked_cases [OF touch [unfolded touch_item_def Let_def, folded f_def, folded db1_def]])
    fix t
    let ?g = "\<lambda>r. r\<lparr>r_items_done := count_items db1 (i_run_id item) ''completed'',
      r_items_failed := count_items db1 (i_run_id item) ''failed'',
      r_items_unattempted := max (wrap64 (wrap64 (t - count_items db1 (i_run_id item) ''completed'') -
          count_items db1 (i_run_id item) ''failed'')) 0, r_updated_at := now\<rparr>"
    assume "ok_or (map_option r_items_total (find (\<lambda>r. r_id r = i_run_id item) (op_runs db1)))
        CountersRead = Inr t"
    then obtain r0 where r0: "find (\<lambda>r. r_id r = i_run_id item) (op_runs db1) = Some r0"
      by (auto simp: ok_or_Inr)
    assume "(r, db') = (Inr (item\<lparr>i_state := s, i_receipt_ref := rr, i_error_class := ec, i_error_detail := d,
          i_updated_at := now, i_finished_at := if is_terminal s then Some now else None\<rparr>),
        update_run (i_run_id item) ?g db1)"
    then have "db' = update_run (i_run_id item) ?g db1" by simp
    moreover have "row_step False db1 (update_run (i_run_id item) ?g db1)"
      using r0 by (rule row_step.settle_run) (simp_all add: run_ok_def count_items_def)
    ultimately show "(row_step False)\<^sup>*\<^sup>* db1 db'" by simp
  qed simp
  ultimately show ?thesis by (rule call_path_move)
qed

lemma touch_checked_steps:
  assumes "checked db (assert_item_state db a b allowed action)
      (\<lambda>item. touch_item db now item s rr ec d) = (r, db')"
    and "\<And>st. st \<in> set allowed \<Longrightarrow> item_edge (Some st) (Some s)"
  shows "call_path db db'"
  using assms(1)
  by (rule checked_step) (auto simp: assert_item_state_Inr intro: touch_item_steps assms(2))

lemma item_start_steps: "item_start db now a b = (r, db') \<Longrightarrow> call_path db db'"
  unfolding item_start_def by (rule touch_checked_steps) auto

lemma item_complete_steps: "item_complete db now a b rr = (r, db') \<Longrightarrow> call_path db db'"
  unfolding item_complete_def by (rule touch_checked_steps) auto

lemma item_cancel_steps: "item_cancel db now a b = (r, db') \<Longrightarrow> call_path db db'"
  unfolding item_cancel_def by (rule touch_checked_steps) auto

lemma item_fail_steps: "item_fail lc db now a b ec d = Some (r, db') \<Longrightarrow> call_path db db'"
  unfolding item_fail_def
  by (erule with_detail_step) (auto simp: assert_item_state_Inr intro: touch_item_steps)


subsection \<open>Retry\<close>

lemma op_begin_Inr:
  "op_begin db now uuid op_type scope dig n by = (Inr run, db') \<longleftrightarrow>
     trim op_type \<noteq> [] \<and> char_count op_type \<le> 64 \<and>
     new_id ''opr'' uuid \<notin> r_id ` set (op_runs db) \<and>
     run = row_to_run (new_run_row (new_id ''opr'' uuid) (trim op_type) scope dig (max 0 (min 10 n)) by now) \<and>
     db' = db\<lparr>op_runs := op_runs db @ [new_run_row (new_id ''opr'' uuid) (trim op_type) scope dig
       (max 0 (min 10 n)) by now]\<rparr>"
  by (auto simp: op_begin_def Let_def checked_Inr insert_run_Inr new_run_row_def not_less)

lemma retry_items_rows:
  "retry_items child uuid now k items db = Inr db' \<Longrightarrow>
   op_runs db' = op_runs db \<and>
   op_run_items db' = op_run_items db @
     map (\<lambda>(j, item). retry_row child (uuid j) (now j) item) (zip [k..<k + length items] items)"
proof (induction items arbitrary: k db)
  case (Cons item items)
  then show ?case
    by (fastforce simp: bind_r_Inr insert_item_Inr upt_conv_Cons simp del: upt_Suc)
qed simp

lemma retry_items_steps:
  "retry_items child uuid now k items db = Inr db' \<Longrightarrow> child \<in> r_id ` set (op_runs db) \<Longrightarrow>
   (row_step False)\<^sup>*\<^sup>* db db'"
proof (induction items arbitrary: k db)
  case (Cons item items)
  then obtain db1 where ins: "insert_item (retry_row child (uuid k) (now k) item) db = Inr db1"
      and rest: "retry_items child uuid now (Suc k) items db1 = Inr db'"
    by (auto simp: bind_r_Inr)
  have "row_step False db db1"
    using ins Cons.prems(2)
    by (intro row_step.add_item [OF ins]) (auto simp: retry_row_def new_item_row_def)
  moreover have "(row_step False)\<^sup>*\<^sup>* db1 db'"
    using Cons.IH [OF rest] Cons.prems(2) ins by (simp add: insert_item_Inr)
  ultimately show ?case by (rule converse_rtranclp_into_rtranclp)
qed simp

text \<open>What a retry that is not refused has done, before the child is read back.\<close>

lemma op_retry_cases:
  assumes "op_retry db now uuid rid = (res, db')"
  obtains (err) e where "res = Inl e" "db' = db"
  | (ok) run items child db1 db3 where
      "get_run db rid = Some run" "\<not> is_inflight (r_state run)" "r_retry_count run < r_max_retries run"
      "items = list_items db rid" "\<exists>i \<in> set items. i_state i \<noteq> Completed"
      "op_begin db (now 0) (uuid 0) (r_op_type run) (r_scope run) (r_input_digest run)
         (r_max_retries run) (r_created_by run) = (Inr child, db1)"
      "retry_items (r_id child) (\<lambda>k. uuid (k + 1)) (\<lambda>k. now (k + 2)) 0 items
         (update_run (r_id child) (\<lambda>r. r\<lparr>r_retry_count := wrap64 (r_retry_count run + 1),
            r_parent_run_id := r_id run, r_updated_at := now 1\<rparr>) db1) = Inr db3"
      "db' = update_run (r_id child) (\<lambda>r. r\<lparr>
         r_items_done := int (length (filter (\<lambda>i. i_state i = Completed) items)),
         r_items_failed := int (length (filter (\<lambda>i. i_state i \<noteq> Completed) items)),
         r_items_total := int (length items),
         r_items_unattempted := int (length (filter (\<lambda>i. i_state i \<noteq> Completed) items))\<rparr>) db3"
      "res = ok_or (get_run db' (r_id child)) (ChildVanished (r_id child))"
proof (cases "get_run db rid")
  case None
  then show thesis using assms err by (auto simp: op_retry_def checked_def)
next
  case (Some run)
  show thesis
  proof (cases "is_inflight (r_state run) \<or> r_retry_count run \<ge> r_max_retries run \<or>
      length (filter (\<lambda>i. i_state i \<noteq> Completed) (list_items db rid)) = 0")
    case True
    then show thesis using assms err Some by (auto simp: op_retry_def checked_def Let_def split: if_splits)
  next
    case False
    define items where "items = list_items db rid"
    have some: "\<exists>i \<in> set items. i_state i \<noteq> Completed"
      using False by (auto simp: items_def filter_empty_conv)
    obtain b db1 where beg: "op_begin db (now 0) (uuid 0) (r_op_type run) (r_scope run)
        (r_input_digest run) (r_max_retries run) (r_created_by run) = (b, db1)"
      by (cases "op_begin db (now 0) (uuid 0) (r_op_type run) (r_scope run)
        (r_input_digest run) (r_max_retries run) (r_created_by run)")
    show thesis
    proof (cases b)
      case (Inl e)
      then show thesis using assms err Some False beg
        by (auto simp add: op_retry_def checked_def Let_def items_def)
    next
      case (Inr child)
      let ?db2 = "update_run (r_id child) (\<lambda>r. r\<lparr>r_retry_count := wrap64 (r_retry_count run + 1),
            r_parent_run_id := r_id run, r_updated_at := now 1\<rparr>) db1"
      let ?ri = "retry_items (r_id child) (\<lambda>k. uuid (k + 1)) (\<lambda>k. now (k + 2)) 0 items ?db2"
      show thesis
      proof (cases ?ri)
        case (Inl e)
        then show thesis using assms err Some False beg Inr
          by (auto simp add: op_retry_def checked_def Let_def items_def)
      next
        case ri: (Inr db3)
        show thesis
        proof (rule ok [OF Some _ _ items_def some beg [unfolded Inr] ri])
        qed (use assms Some False beg Inr ri in
            \<open>auto simp: op_retry_def checked_def Let_def items_def not_le\<close>)
      qed
    qed
  qed
qed

lemma op_retry_steps:
  assumes "op_retry db now uuid rid = (res, db')" and wf: "op_wf db"
  shows "call_path db db'"
  using assms(1)
proof (cases rule: op_retry_cases)
  case err
  then show ?thesis by simp
next
  case (ok run items child db1 db3)
  let ?f = "\<lambda>r. r\<lparr>r_retry_count := wrap64 (r_retry_count run + 1),
            r_parent_run_id := r_id run, r_updated_at := now 1\<rparr>"
  let ?db2 = "update_run (r_id child) ?f db1"
  from ok(1) obtain r where r: "r \<in> set (op_runs db)" and run: "run = row_to_run r"
    by (auto dest!: get_run_mem)
  with wf have "run_ok r" by (simp add: op_wf_def list_all_iff)
  with ok(3) have bnd: "0 \<le> r_retry_count run" "r_retry_count run < r_max_retries run"
      "r_max_retries run \<le> 10"
    by (simp_all add: run run_ok_def)
  then have wrap: "wrap64 (r_retry_count run + 1) = r_retry_count run + 1"
    by (intro wrap64_id) (simp add: in_i64_def i64_min_def i64_max_def)
  note child = ok(6) [unfolded op_begin_Inr]
  let ?c = "new_run_row (new_id ''opr'' (uuid 0)) (trim (r_op_type run)) (r_scope run)
     (r_input_digest run) (max 0 (min 10 (r_max_retries run))) (r_created_by run) (now 0)"
  have cid: "r_id child = new_id ''opr'' (uuid 0)" using child by (simp add: new_run_row_def)
  have find_c: "find (\<lambda>r. r_id r = r_id child) (op_runs db1) = Some ?c"
    using child find_append_new [of "r_id child" r_id "op_runs db" ?c]
    by (simp add: cid new_run_row_def)
  have only: "x = ?c" if "x \<in> set (op_runs db1)" "r_id x = r_id child" for x
    using that child cid by (auto simp: image_iff)
  have s1: "row_step False db db1" using ok(6) by (rule op_begin_grows)
  have s2: "row_step False db1 ?db2"
    using find_c
  proof (rule row_step.settle_run)
    fix x
    assume "x \<in> set (op_runs db1)" "r_id x = r_id child" "run_ok x"
    moreover from this have "x = ?c" using only by blast
    ultimately show "run_ok (?f x)"
      using bnd by (simp add: run_ok_def wrap) (simp add: new_run_row_def)
  qed simp_all
  have in2: "r_id child \<in> r_id ` set (op_runs ?db2)"
    using find_SomeD [OF find_c] by (auto simp: update_run_def image_update_where rev_image_eqI)
  have s3: "(row_step False)\<^sup>*\<^sup>* ?db2 db3" using ok(7) in2 by (rule retry_items_steps)
  have "op_runs db3 = op_runs ?db2" using retry_items_rows [OF ok(7)] by simp
  then obtain r3 where r3: "find (\<lambda>r. r_id r = r_id child) (op_runs db3) = Some r3"
    using in2 by (cases "find (\<lambda>r. r_id r = r_id child) (op_runs db3)") (auto simp: find_None_iff)
  have s4: "row_step False db3 db'"
    unfolding ok(8) using r3 by (rule row_step.settle_run) (simp_all add: run_ok_def)
  from s3 s4 have "(row_step False)\<^sup>*\<^sup>* ?db2 db'" by (rule rtranclp.rtrancl_into_rtrancl)
  with s1 s2 show ?thesis by (intro call_path_grow) (blast intro: converse_rtranclp_into_rtranclp)
qed


subsection \<open>The tools\<close>

lemma answer_step: "answer f r = (y, db') \<Longrightarrow> \<exists>x. r = (x, db')"
  by (cases r) (auto simp: answer_def split: sum.splits)

lemma require_step:
  assumes "require db what args k f = Some (y, db')"
    and "\<And>v. f v = Some (y, db') \<Longrightarrow> call_path db db'"
  shows "call_path db db'"
  using assms by (auto simp: require_def split: option.splits)

lemma some_answer_step: "Some (answer f r) = Some (y, db') \<Longrightarrow> \<exists>x. r = (x, db')"
  by (simp add: answer_step)

lemma map_answer_step: "map_option (answer f) r = Some (y, db') \<Longrightarrow> \<exists>x. r = Some (x, db')"
  by (auto dest: answer_step)

lemmas operation_steps = op_begin_steps op_start_steps op_progress_steps op_complete_steps
  op_fail_steps op_cancel_steps op_timeout_steps item_add_steps item_start_steps
  item_complete_steps item_fail_steps item_cancel_steps

lemma handle_op_run_steps:
  assumes "handle_op_run env args db = Some (r, db')"
  shows "call_path db db'"
  using assms unfolding handle_op_run_def Let_def wrapper_defs
  by (auto split: if_split_asm elim!: require_step
      dest!: answer_step dest: operation_steps)

lemma op_call_steps: "op_call db db' \<Longrightarrow> op_wf db \<Longrightarrow> call_path db db'"
proof (induction rule: op_call.induct)
  case (call_op_run env args db r db')
  then show ?case by (simp add: handle_op_run_steps)
next
  case (call_retry env args db r db')
  then show ?case
    by (auto simp: handle_op_run_retry_def wrapper_defs split: option.splits dest!: answer_step
        intro: op_retry_steps)
next
  case (call_open env db r db')
  then have "db' = snd (op_recover db (e_now env 0))" by (simp add: wrapper_defs)
  then show ?case by (auto intro: call_path_once row_step.recover)
qed

text \<open>Retention deletes finished runs that are old enough, with their items.\<close>

lemma prune_call:
  assumes "handle_op_run_prune env args db = (r, db')"
  obtains n d t where "db' = snd (op_prune n db t d)"
proof -
  from assms have "\<exists>n d t. db' = snd (op_prune n db t d)"
    by (auto simp: handle_op_run_prune_def wrapper_defs Let_def dest!: answer_step intro: sym) (metis snd_conv)
  with that show ?thesis by blast
qed

subsection \<open>Calls and their edges\<close>

text \<open>A status that at most one statement of a call moves, while all that follow leave it alone once it
  is there, moves along at most one edge in the call.\<close>

locale guarded_path =
  fixes inv :: "'s \<Rightarrow> bool" and move grow :: "'s \<Rightarrow> 's \<Rightarrow> bool" and status :: "'s \<Rightarrow> 'c option"
    and edge :: "'c option \<Rightarrow> 'c option \<Rightarrow> bool"
  assumes move_inv: "inv s \<Longrightarrow> move s t \<Longrightarrow> inv t" and grow_inv: "inv s \<Longrightarrow> grow s t \<Longrightarrow> inv t"
    and move_edge: "inv s \<Longrightarrow> move s t \<Longrightarrow> status t = status s \<or> edge (status s) (status t)"
    and grow_edge: "inv s \<Longrightarrow> grow s t \<Longrightarrow> status t = status s \<or> edge (status s) (status t)"
    and grow_keeps: "inv s \<Longrightarrow> grow s t \<Longrightarrow> status s \<noteq> None \<Longrightarrow> status t = status s"
    and edge_stays: "\<not> edge c None"
begin

lemma grow_path:
  assumes "grow\<^sup>*\<^sup>* s t" and "inv s"
  shows "inv t \<and> (status t = status s \<or> status s = None \<and> edge None (status t))"
  using assms(1)
proof (induction rule: rtranclp_induct)
  case (step t u)
  then have "inv t" by simp
  with step.hyps(2) have "inv u" and "status u = status t \<or> edge (status t) (status u)"
      and "status t \<noteq> None \<Longrightarrow> status u = status t" using grow_inv grow_edge grow_keeps by blast+
  with step.IH edge_stays show ?case by (cases "status t") auto
qed (simp add: assms(2))

lemma path_edge:
  assumes "t = s \<or> move s t" and "grow\<^sup>*\<^sup>* t u" and "inv s"
  shows "inv u \<and> (status u = status s \<or> edge (status s) (status u))"
proof -
  have "inv t" and t: "status t = status s \<or> edge (status s) (status t)" using assms(1,3) move_inv move_edge by blast+
  with grow_path [OF assms(2)] have "inv u" and "status u = status t \<or> status t = None \<and> edge None (status u)" by blast+
  with t edge_stays show ?thesis by metis
qed

end

interpretation run_path: guarded_path op_wf "row_step True" "row_step False" "run_status rid" run_edge for rid
  by unfold_locales (simp_all add: op_wf_row_step run_status_row_step run_status_grow)

interpretation item_path: guarded_path op_wf "row_step True" "row_step False" "item_status a b" item_edge for a b
  by unfold_locales (simp_all add: op_wf_row_step item_status_row_step item_status_grow)

text \<open>Every call is a step of the diagram, for each run and for each item.\<close>

lemma call_path_edge:
  assumes "op_call db db'" and "op_wf db"
  shows "op_wf db'" and "run_status rid db' = run_status rid db \<or> run_edge (run_status rid db) (run_status rid db')"
    and "item_status a b db' = item_status a b db \<or> item_edge (item_status a b db) (item_status a b db')"
proof -
  from op_call_steps [OF assms] obtain db1 where db1: "db1 = db \<or> row_step True db db1" "(row_step False)\<^sup>*\<^sup>* db1 db'"
    by (auto simp: call_path_def)
  from run_path.path_edge [OF db1 assms(2)] item_path.path_edge [OF db1 assms(2)]
  show "op_wf db'" and "run_status rid db' = run_status rid db \<or> run_edge (run_status rid db) (run_status rid db')"
    and "item_status a b db' = item_status a b db \<or> item_edge (item_status a b db) (item_status a b db')" by blast+
qed

interpretation run_calls: lifecycle op_wf op_call "run_status rid" run_edge for rid
  by unfold_locales (use call_path_edge in blast)+

interpretation item_calls: lifecycle op_wf op_call "item_status a b" item_edge for a b
  by unfold_locales (use call_path_edge in blast)+

lemma op_wf_step: "op_step db db' \<Longrightarrow> op_wf db \<Longrightarrow> op_wf db'"
  by (induction rule: op_step.induct) (auto intro: run_calls.step_inv op_wf_prune elim!: prune_call)

lemma op_wf_steps: "op_step\<^sup>*\<^sup>* db db' \<Longrightarrow> op_wf db \<Longrightarrow> op_wf db'"
  by (induction rule: rtranclp_induct) (auto intro: op_wf_step)

end
