(* ===== verification/Op_Guarantees.thy ===== *)
theory Op_Guarantees
  imports Op_Lifecycle
begin

text \<open>
  The properties of the durable runs, over the tools that serve them: the lifecycle, that
  replies are what is stored and errors write nothing, recovery, retention, retry, and the
  wrapper that tracks a whole operation.
\<close>

section \<open>Sample tables\<close>

definition empty_db :: op_db where
  "empty_db = \<lparr>op_runs = [], op_run_items = []\<rparr>"

definition sample_run :: "string \<Rightarrow> run_row" where
  "sample_run st = (new_run_row ''opr-1'' ''embed'' [] [] 2 ''cli'' 5)\<lparr>r_state := st\<rparr>"

definition sample_item :: "string \<Rightarrow> string \<Rightarrow> item_row" where
  "sample_item st ref = new_item_row (''opi-'' @ ref) ''opr-1'' ref ''d'' st [] 0 5 None"

definition sample_db :: "string \<Rightarrow> op_db" where
  "sample_db st = \<lparr>op_runs = [sample_run st],
     op_run_items = [sample_item ''completed'' ''a'', sample_item ''failed'' ''b'']\<rparr>"

definition sample_op_env :: op_env where
  "sample_op_env = \<lparr>e_now = (\<lambda>k. 100 + int k), e_uuid = (\<lambda>k. ''n'' @ replicate k (CHR ''x'')),
     e_lower = map to_ascii_lowercase, e_max_vars = 32766, e_retention_days = None\<rparr>"

lemma op_wf_empty: "op_wf empty_db"
  by (simp add: op_wf_def empty_db_def)

lemma op_wf_sample: "parse_state st \<noteq> None \<Longrightarrow> op_wf (sample_db st)"
  by (simp add: op_wf_def sample_db_def sample_run_def sample_item_def new_run_row_def new_item_row_def
      run_ok_def item_key_def) (simp add: parse_state_def)

lemma run_status_sample: "run_status ''opr-1'' (sample_db st) = Some (read_state st)"
  by (simp add: run_status_rows sample_db_def sample_run_def new_run_row_def)

section \<open>Lifecycle\<close>

text \<open>
  C39. From well-formed tables, whatever tool calls, restarts and retention did one after the other, the
  tables stay well formed (keys unique, every item belongs to a run, known states, a retry count within its
  bound of at most ten, counters not negative). In such a state every call of a tool and every restart moves
  each run and each item along at most one edge of its diagram, which has no way back and no way out of the
  table; and retention leaves a run or an item alone, or deletes a finished run with all its items.
\<close>

theorem op_histories_follow_diagram:
  assumes "op_wf db" and "op_step\<^sup>*\<^sup>* db db1"
  shows "op_wf db1 \<and>
    (op_call db1 db2 \<longrightarrow>
      (run_status rid db2 = run_status rid db1 \<or> run_edge (run_status rid db1) (run_status rid db2)) \<and>
      (item_status rid ref db2 = item_status rid ref db1 \<or> item_edge (item_status rid ref db1) (item_status rid ref db2))) \<and>
    (handle_op_run_prune env args db1 = (r, db2) \<longrightarrow>
      (run_status rid db2 = run_status rid db1 \<or>
        run_status rid db2 = None \<and> (\<exists>s. run_status rid db1 = Some s \<and> is_terminal s)) \<and>
      (item_status rid ref db2 = item_status rid ref db1 \<or>
        item_status rid ref db2 = None \<and> run_status rid db2 = None \<and> (\<exists>s. run_status rid db1 = Some s \<and> is_terminal s)))"
proof (intro conjI impI)
  show wf: "op_wf db1" using assms(2,1) by (rule op_wf_steps)
  {
    assume call: "op_call db1 db2"
    from run_calls.step_edge [OF wf call]
    show "run_status rid db2 = run_status rid db1 \<or> run_edge (run_status rid db1) (run_status rid db2)" .
    from item_calls.step_edge [OF wf call]
    show "item_status rid ref db2 = item_status rid ref db1 \<or> item_edge (item_status rid ref db1) (item_status rid ref db2)" .
  next
    assume "handle_op_run_prune env args db1 = (r, db2)"
    then obtain n d t where db2: "db2 = snd (op_prune n db1 t d)" by (rule prune_call)
    show "run_status rid db2 = run_status rid db1 \<or>
        run_status rid db2 = None \<and> (\<exists>s. run_status rid db1 = Some s \<and> is_terminal s)"
      unfolding db2 using wf by (rule run_status_prune)
    show "item_status rid ref db2 = item_status rid ref db1 \<or>
        item_status rid ref db2 = None \<and> run_status rid db2 = None \<and> (\<exists>s. run_status rid db1 = Some s \<and> is_terminal s)"
      unfolding db2 using wf by (rule item_status_prune)
  }
qed

theorem op_histories_follow_diagram_witness:
  "run_edge (Some Running) (run_status ''opr-1'' (snd (op_recover (sample_db ''running'') 9)))"
proof -
  have "op_wf (sample_db ''running'')" by (rule op_wf_sample) (simp add: parse_state_def)
  moreover have "recover_op_runs (sample_op_env\<lparr>e_now := \<lambda>_. 9\<rparr>) (sample_db ''running'') =
      (fst (op_recover (sample_db ''running'') 9), snd (op_recover (sample_db ''running'') 9))"
    by (simp add: recover_op_runs_def)
  then have "op_call (sample_db ''running'') (snd (op_recover (sample_db ''running'') 9))" by (rule op_call.call_open)
  ultimately have "run_status ''opr-1'' (snd (op_recover (sample_db ''running'') 9)) = run_status ''opr-1'' (sample_db ''running'') \<or>
      run_edge (run_status ''opr-1'' (sample_db ''running'')) (run_status ''opr-1'' (snd (op_recover (sample_db ''running'') 9)))"
    using op_histories_follow_diagram by blast
  moreover have "run_status ''opr-1'' (sample_db ''running'') = Some Running" by (simp add: run_status_sample)
  moreover have "run_status ''opr-1'' (snd (op_recover (sample_db ''running'') 9)) = Some Interrupted"
    by (simp add: run_status_rows recover_tables update_where_def inflight_text_def sample_db_def sample_run_def new_run_row_def)
  ultimately show ?thesis by simp
qed

text \<open>
  C40. A finished run stays as it finished: no sequence of tool calls and restarts that do not overlap,
  short of retention, changes the state of a run that is completed, failed, cancelled, interrupted or
  failed to start; the same holds for a finished item.
\<close>

theorem finished_stays_finished:
  assumes "op_wf db" and "op_call\<^sup>*\<^sup>* db db'"
  shows "(run_status rid db = Some s \<and> is_terminal s \<longrightarrow> run_status rid db' = Some s) \<and>
    (item_status rid ref db = Some s \<and> is_terminal s \<longrightarrow> item_status rid ref db' = Some s)"
  using run_calls.absorbing [OF assms(2,1), of rid] item_calls.absorbing [OF assms(2,1), of rid ref] terminal_final
  by auto

theorem finished_stays_finished_witness:
  "run_status ''opr-1'' (snd (op_recover (sample_db ''completed'') 9)) = Some Completed"
proof -
  have "recover_op_runs (sample_op_env\<lparr>e_now := \<lambda>_. 9\<rparr>) (sample_db ''completed'') =
      (fst (op_recover (sample_db ''completed'') 9), snd (op_recover (sample_db ''completed'') 9))"
    by (simp add: recover_op_runs_def)
  then have "op_call\<^sup>*\<^sup>* (sample_db ''completed'') (snd (op_recover (sample_db ''completed'') 9))"
    by (blast intro: op_call.call_open)
  moreover have "op_wf (sample_db ''completed'')" by (rule op_wf_sample) (simp add: parse_state_def)
  ultimately show ?thesis
    using finished_stays_finished [of "sample_db ''completed''" _ "''opr-1''" Completed]
    by (simp add: run_status_sample)
qed

section \<open>Replies and errors\<close>

lemma checked_stored:
  assumes "checked db (assert_state db rid allowed action) (\<lambda>run. (Inr (g run), update_run rid f db)) =
      (Inr run', db')"
    and "\<And>r. r_id (f r) = r_id r" and "\<And>r. row_to_run (f r) = g (row_to_run r)"
  shows "r_id run' = rid \<and> get_run db' rid = Some run'"
proof -
  from assms(1) obtain run where run: "get_run db rid = Some run"
      and out: "run' = g run" "db' = update_run rid f db"
    by (auto simp: checked_Inr assert_state_Inr)
  from run obtain r where r: "find (\<lambda>r. r_id r = rid) (op_runs db) = Some r" "run = row_to_run r"
    by (auto simp: get_run_Some)
  have "get_run db' rid = Some run'"
    using r assms(3) by (simp add: out get_run_update_run [OF assms(2)])
  then show ?thesis using get_run_id by blast
qed

lemmas row_struct_simps = row_to_run_def row_to_item_def

lemma op_start_stored: "op_start db now rid = (Inr run, db') \<Longrightarrow> r_id run = rid \<and> get_run db' rid = Some run"
  unfolding op_start_def by (erule checked_stored) (simp_all add: row_struct_simps)

lemma op_complete_stored:
  "op_complete db now rid receipt = (Inr run, db') \<Longrightarrow> r_id run = rid \<and> get_run db' rid = Some run"
  unfolding op_complete_def by (erule checked_stored) (simp_all add: row_struct_simps)

lemma op_cancel_stored: "op_cancel db now rid = (Inr run, db') \<Longrightarrow> r_id run = rid \<and> get_run db' rid = Some run"
  unfolding op_cancel_def by (erule checked_stored) (simp_all add: row_struct_simps)

lemma op_progress_stored:
  assumes "op_progress db now rid d f t = (Inr run, db')"
  shows "r_id run = rid \<and> get_run db' rid = Some run"
proof -
  from assms obtain run0 where run0: "assert_state db rid [Running] ''progress'' = Inr run0"
    by (auto simp: op_progress_def checked_Inr)
  define D F where "D = max d 0" and "F = max f 0"
  let ?t = "if t \<ge> 0 then t else r_items_total run0"
  have "checked db (assert_state db rid [Running] ''progress'') (\<lambda>run.
       (Inr (run\<lparr>r_items_done := D, r_items_failed := F, r_items_total := ?t,
          r_items_unattempted := max (wrap64 (wrap64 (?t - D) - F)) 0,
          r_partial := (D > 0 \<and> wrap64 (D + F) < ?t), r_updated_at := now\<rparr>),
        update_run rid (\<lambda>r. r\<lparr>r_items_done := D, r_items_failed := F, r_items_total := ?t,
          r_items_unattempted := max (wrap64 (wrap64 (?t - D) - F)) 0,
          r_partial := of_bool (D > 0 \<and> wrap64 (D + F) < ?t),
          r_updated_at := now\<rparr>) db)) = (Inr run, db')"
    using assms unfolding op_progress_def Let_def checked_def by (simp only: run0 sum.case D_def F_def)
  then show ?thesis by (rule checked_stored) (simp_all add: row_struct_simps)
qed

lemma op_fail_stored:
  assumes "op_fail lc db now rid c d b = Some (Inr run, db')"
  shows "r_id run = rid \<and> get_run db' rid = Some run"
proof -
  from assms obtain t where "checked db
      (assert_state db rid (if b then [Queued] else [Running]) (if b then ''failed_to_start'' else ''fail''))
      (\<lambda>run. (Inr (run\<lparr>r_state := if b then FailedToStart else Failed, r_error_class := c,
          r_error_detail := t, r_finished_at := Some now, r_updated_at := now\<rparr>),
        update_run rid (\<lambda>r. r\<lparr>r_state := if b then ''failed_to_start'' else ''failed'',
          r_error_class := c, r_error_detail := t, r_finished_at := Some now,
          r_updated_at := now\<rparr>) db)) = (Inr run, db')"
    unfolding op_fail_def by (auto elim!: with_detail_cases simp: checked_def)
  then show ?thesis by (rule checked_stored) (simp_all add: row_struct_simps)
qed

lemma op_timeout_stored: "op_timeout db now rid = (Inr run, db') \<Longrightarrow> r_id run = rid \<and> get_run db' rid = Some run"
  by (auto simp: op_timeout_def Let_def checked_Inr ok_or_Inr dest: get_run_id)

lemma op_begin_stored:
  "op_begin db now uuid a b c n d = (Inr run, db') \<Longrightarrow> get_run db' (r_id run) = Some run"
  by (auto simp: op_begin_Inr get_run_def find_append_new new_run_row_def)


lemma answer_iff:
  "answer f r = (Inr y, db') \<longleftrightarrow> (\<exists>x. r = (Inr x, db') \<and> y = f x)"
  "answer f r = (Inl e, db') \<longleftrightarrow> (\<exists>x. r = (Inl x, db') \<and> e = OpError x)"
  by (cases r; cases "fst r"; auto simp: answer_def)+

lemma map_answer_iff:
  "map_option (answer f) r = Some (Inr y, db') \<longleftrightarrow> (\<exists>x. r = Some (Inr x, db') \<and> y = f x)"
  "map_option (answer f) r = Some (Inl e, db') \<longleftrightarrow> (\<exists>x. r = Some (Inl x, db') \<and> e = OpError x)"
  by (cases r; auto simp: answer_iff)+

lemma require_iff:
  "require db what args k f = Some (Inr y, db') \<longleftrightarrow> (\<exists>v. f v = Some (Inr y, db') \<and> arg_str args k = Some v)"
  "require db what args k f = Some (Inl e, db') \<longleftrightarrow>
     (\<exists>v. f v = Some (Inl e, db') \<and> arg_str args k = Some v) \<or>
     arg_str args k = None \<and> e = MissingArgument what k \<and> db' = db"
  by (cases "arg_str args k"; auto simp: require_def)+

lemmas reply_iffs = answer_iff map_answer_iff require_iff

lemma run_replies_stored:
  "handle_op_run env args db = Some (Inr (RunReply run), db') \<Longrightarrow> get_run db' (r_id run) = Some run"
  unfolding handle_op_run_def Let_def wrapper_defs
  by (auto simp: reply_iffs simp del: option.map_sel split: if_split_asm
      dest!: op_start_stored op_complete_stored op_cancel_stored op_progress_stored op_fail_stored
        op_timeout_stored dest: op_begin_stored)

lemma get_item_mem:
  assumes "get_item db a b = Some item"
  obtains r where "find (\<lambda>i. item_key i = (a, b)) (op_run_items db) = Some r" "item = row_to_item r"
    "r \<in> set (op_run_items db)" "i_run_id r = a" "i_item_ref r = b"
proof -
  from assms obtain r where "find (\<lambda>i. item_key i = (a, b)) (op_run_items db) = Some r" "item = row_to_item r"
    by (auto simp: get_item_def item_key_def)
  with that show thesis by (auto dest: find_SomeD simp: item_key_def)
qed

lemma run_exists: "op_wf db \<Longrightarrow> get_item db a b = Some item \<Longrightarrow> \<exists>r. find (\<lambda>r. r_id r = a) (op_runs db) = Some r"
  by (erule get_item_mem)
    (auto simp: op_wf_def list_all_iff find_None_keys simp flip: not_None_eq)

text \<open>The transition of an item in full: with well-formed tables it succeeds, and what it
  leaves is known.\<close>

lemma touch_item_outcome:
  assumes wf: "op_wf db" and item: "get_item db a b = Some item"
  obtains item' db' where "touch_item db now item s rr ec d = (Inr item', db')"
    "i_run_id item' = a" "i_item_ref item' = b" "i_state item' = s" "get_item db' a b = Some item'"
    "\<And>run. get_run db a = Some run \<Longrightarrow> get_run db' a = Some (run\<lparr>
       r_items_done := count_items db' a ''completed'', r_items_failed := count_items db' a ''failed'',
       r_items_unattempted := max (wrap64 (wrap64 (r_items_total run - count_items db' a ''completed'') -
         count_items db' a ''failed'')) 0, r_updated_at := now\<rparr>)"
proof -
  define fin where "fin = (if is_terminal s then Some now else None)"
  define f where "f = (\<lambda>r :: item_row. r\<lparr>i_state := as_str s, i_receipt_ref := rr, i_error_class := ec,
     i_error_detail := d, i_updated_at := now, i_finished_at := fin\<rparr>)"
  define db1 where "db1 = update_item (i_id item) f db"
  obtain r where r: "find (\<lambda>i. item_key i = (a, b)) (op_run_items db) = Some r" "item = row_to_item r"
      "i_run_id r = a" "i_item_ref r = b"
    using item by (rule get_item_mem)
  obtain r0 where r0: "find (\<lambda>r. r_id r = a) (op_runs db) = Some r0"
    using run_exists [OF wf item] by blast
  define item' where "item' = item\<lparr>i_state := s, i_receipt_ref := rr, i_error_class := ec,
     i_error_detail := d, i_updated_at := now, i_finished_at := fin\<rparr>"
  define dn fl where "dn = count_items db1 a ''completed''" and "fl = count_items db1 a ''failed''"
  define g where "g = (\<lambda>r :: run_row. r\<lparr>r_items_done := dn, r_items_failed := fl,
     r_items_unattempted := max (wrap64 (wrap64 (r_items_total r0 - dn) - fl)) 0, r_updated_at := now\<rparr>)"
  define db' where "db' = update_run a g db1"
  have runs1: "op_runs db1 = op_runs db" by (simp add: db1_def)
  have "touch_item db now item s rr ec d = (Inr item', db')"
    unfolding touch_item_def Let_def fin_def [symmetric] f_def [symmetric] db1_def [symmetric]
    using r r0 by (simp add: runs1 checked_def item'_def db'_def g_def dn_def fl_def)
  moreover have "find (\<lambda>i. item_key i = (a, b)) (op_run_items db1) = Some (f r)"
    using r find_update_where_pred [of item_key f "(a, b)" "\<lambda>x. i_id x = i_id r" "op_run_items db"]
    by (simp add: db1_def update_item_def) (simp add: f_def item_key_def)
  then have "get_item db' a b = Some (row_to_item (f r))"
    by (simp add: db'_def get_item_def item_key_def)
  moreover have "row_to_item (f r) = item'"
    by (simp add: item'_def r f_def row_to_item_def)
  moreover have "count_items db' x y = count_items db1 x y" for x y
    by (simp add: db'_def count_items_def)
  moreover have "get_run db' a = Some (row_to_run (g r0))"
    using r0 by (simp add: db'_def get_run_update_run g_def runs1)
  ultimately show thesis
    using that [of item' db'] r r0
    by (simp add: item'_def g_def row_to_run_def get_run_def dn_def fl_def)
qed

lemma item_replies_stored:
  assumes wf: "op_wf db" and "handle_op_run env args db = Some (Inr (ItemReply item), db')"
  shows "get_item db' (i_run_id item) (i_item_ref item) = Some item"
proof -
  have touched: "get_item db' (i_run_id item) (i_item_ref item) = Some item"
    if "get_item db a b = Some it" "touch_item db now it s rr ec d = (Inr item, db')" for a b it now s rr ec d
    using touch_item_outcome [OF wf that(1), of now s rr ec d] that(2) by auto
  have checked: "get_item db' (i_run_id item) (i_item_ref item) = Some item"
    if "checked db (assert_item_state db a b al ac) (\<lambda>it. touch_item db now it s rr ec d) = (Inr item, db')"
    for a b al ac now s rr ec d
    using that touched by (auto simp: checked_Inr assert_item_state_Inr)
  have added: "get_item db' (i_run_id item) (i_item_ref item) = Some item"
    if "item_add db now uuid a b dig = (Inr item, db')" for now uuid a b dig
    using that
    by (auto simp: item_add_def Let_def checked_Inr insert_item_Inr get_item_def new_item_row_def
        find_append split: option.split dest!: find_SomeD)
  have failed: "get_item db' (i_run_id item) (i_item_ref item) = Some item"
    if "item_fail lc db now a b ec d = Some (Inr item, db')" for lc now a b ec d
    using that unfolding item_fail_def
    by (auto elim!: with_detail_cases simp: assert_item_state_Inr touched)
  show ?thesis
    using assms(2) unfolding handle_op_run_def Let_def wrapper_defs item_start_def item_complete_def
      item_cancel_def
    by (auto simp: reply_iffs split: if_split_asm intro: checked added failed)
qed


text \<open>
  A reply of the lifecycle tool is what is stored: the run or the item it returns is the
  one a read of the tables gives afterwards.
\<close>

theorem replies_are_stored:
  assumes "op_wf db" and "handle_op_run env args db = Some (Inr reply, db')"
  shows "(\<forall>run. reply = RunReply run \<longrightarrow> get_run db' (r_id run) = Some run) \<and>
    (\<forall>item. reply = ItemReply item \<longrightarrow> get_item db' (i_run_id item) (i_item_ref item) = Some item)"
  using assms run_replies_stored item_replies_stored by blast

definition cancel_args :: json where
  "cancel_args = JObj [(''action'', JStr ''cancel''), (''run_id'', JStr ''opr-1'')]"

lemma cancel_args_sel [simp]:
  "arg_str cancel_args ''action'' = Some ''cancel''" "arg_str cancel_args ''run_id'' = Some ''opr-1''"
  by (simp_all add: cancel_args_def arg_str_def json_get_def as_text_def)

definition cancelled_run :: op_run where
  "cancelled_run = (row_to_run (sample_run ''running''))\<lparr>r_state := Cancelled, r_finished_at := Some 100,
     r_updated_at := 100\<rparr>"

lemma sample_cancel:
  "handle_op_run sample_op_env cancel_args (sample_db ''running'') = Some (Inr (RunReply cancelled_run),
     update_run ''opr-1'' (\<lambda>r. r\<lparr>r_state := ''cancelled'', r_finished_at := Some 100,
       r_updated_at := 100\<rparr>) (sample_db ''running''))"
proof -
  have "assert_state (sample_db ''running'') ''opr-1'' [Queued, Running] ''cancel'' =
      Inr (row_to_run (sample_run ''running''))"
    by (simp add: assert_state_def get_run_def sample_db_def sample_run_def new_run_row_def)
  then show ?thesis
    by (simp add: handle_op_run_def or_else_def op_run_cancel_def op_cancel_def checked_def answer_def
        sample_op_env_def cancelled_run_def)
qed

theorem replies_are_stored_witness:
  "get_run (update_run ''opr-1'' (\<lambda>r. r\<lparr>r_state := ''cancelled'', r_finished_at := Some 100,
       r_updated_at := 100\<rparr>) (sample_db ''running'')) (r_id cancelled_run) = Some cancelled_run"
  using replies_are_stored [OF op_wf_sample sample_cancel] by (simp add: parse_state_def)

lemma checked_Inl:
  "checked db r k = (Inl e, db') \<Longrightarrow> (\<And>x e db'. r = Inr x \<Longrightarrow> k x = (Inl e, db') \<Longrightarrow> db' = db) \<Longrightarrow> db' = db"
  by (cases r) (auto simp: checked_def)

lemma touch_item_Inl:
  "op_wf db \<Longrightarrow> get_item db a b = Some item \<Longrightarrow> touch_item db now item s rr ec d \<noteq> (Inl e, db')"
  by (rule touch_item_outcome [of db a b item now s rr ec d]) simp_all

lemma op_begin_error: "op_begin db now uuid a b c n d = (Inl e, db') \<Longrightarrow> db' = db"
  by (auto simp: op_begin_def Let_def checked_def split: if_splits sum.splits)

lemma op_start_error: "op_start db now rid = (Inl e, db') \<Longrightarrow> db' = db"
  unfolding op_start_def by (erule checked_Inl) simp

lemma op_progress_error: "op_progress db now rid i j k = (Inl e, db') \<Longrightarrow> db' = db"
  unfolding op_progress_def Let_def by (erule checked_Inl) simp

lemma op_complete_error: "op_complete db now rid r = (Inl e, db') \<Longrightarrow> db' = db"
  unfolding op_complete_def by (erule checked_Inl) simp

lemma op_cancel_error: "op_cancel db now rid = (Inl e, db') \<Longrightarrow> db' = db"
  unfolding op_cancel_def by (erule checked_Inl) simp

lemma op_fail_error: "op_fail lc db now rid ec d to_start = Some (Inl e, db') \<Longrightarrow> db' = db"
  unfolding op_fail_def by (auto elim: with_detail_cases)

lemmas run_op_errors = op_begin_error op_start_error op_progress_error op_complete_error
  op_cancel_error op_fail_error

lemma op_timeout_error: "op_timeout db now rid = (Inl e, db') \<Longrightarrow> db' = db"
  unfolding op_timeout_def Let_def
  by (erule checked_Inl)
    (auto simp: assert_state_Inr get_run_Some get_run_update_run)

lemma item_op_errors:
  assumes "op_wf db"
  shows "item_add db now uuid a b dig = (Inl e, db') \<Longrightarrow> db' = db"
    and "item_start db now a b = (Inl e, db') \<Longrightarrow> db' = db"
    and "item_complete db now a b rr = (Inl e, db') \<Longrightarrow> db' = db"
    and "item_cancel db now a b = (Inl e, db') \<Longrightarrow> db' = db"
    and "item_fail lc db now a b ec d = Some (Inl e, db') \<Longrightarrow> db' = db"
  using touch_item_Inl [OF assms] touch_item_Inl [OF assms, THEN not_sym]
  by (auto simp: item_add_def item_start_def item_complete_def item_cancel_def item_fail_def Let_def
      assert_item_state_Inr elim!: checked_Inl with_detail_cases)

lemma child_found:
  assumes "op_begin db t0 u0 a b c n d = (Inr child, db1)"
    and "retry_items (r_id child) us ns 0 items (update_run (r_id child) f db1) = Inr db3"
    and "\<And>r. r_id (f r) = r_id r" and "\<And>r. r_id (g r) = r_id r"
  shows "get_run (update_run (r_id child) g db3) (r_id child) =
    Some (row_to_run (g (f (new_run_row (new_id ''opr'' u0) (trim a) b c (max 0 (min 10 n)) d t0))))"
proof -
  have "op_runs db3 = update_where (\<lambda>r. r_id r = r_id child) f (op_runs db1)"
    using retry_items_rows [OF assms(2)] by (simp add: update_run_def)
  moreover have "find (\<lambda>r. r_id r = r_id child) (op_runs db1) =
      Some (new_run_row (new_id ''opr'' u0) (trim a) b c (max 0 (min 10 n)) d t0)"
    using assms(1) by (auto simp: op_begin_Inr find_append_new new_run_row_def)
  ultimately show ?thesis
    by (simp add: get_run_update_run [OF assms(4)] find_update_where [of r_id f, OF assms(3)])
qed

lemma op_retry_error: "op_retry db now uuid rid = (Inl e, db') \<Longrightarrow> db' = db"
proof (erule op_retry_cases)
  fix run items child db1 db3
  assume *: "op_begin db (now 0) (uuid 0) (r_op_type run) (r_scope run) (r_input_digest run)
         (r_max_retries run) (r_created_by run) = (Inr child, db1)"
      "retry_items (r_id child) (\<lambda>k. uuid (k + 1)) (\<lambda>k. now (k + 2)) 0 items
         (update_run (r_id child) (\<lambda>r. r\<lparr>r_retry_count := wrap64 (r_retry_count run + 1),
            r_parent_run_id := r_id run, r_updated_at := now 1\<rparr>) db1) = Inr db3"
    and db': "db' = update_run (r_id child) (\<lambda>r. r\<lparr>
         r_items_done := int (length (filter (\<lambda>i. i_state i = Completed) items)),
         r_items_failed := int (length (filter (\<lambda>i. i_state i \<noteq> Completed) items)),
         r_items_total := int (length items),
         r_items_unattempted := int (length (filter (\<lambda>i. i_state i \<noteq> Completed) items))\<rparr>) db3"
      "Inl e = ok_or (get_run db' (r_id child)) (ChildVanished (r_id child))"
  show "db' = db" using db'(2) unfolding db'(1) by (simp add: child_found [OF *])
qed simp

text \<open>
  A call that reports an error has written nothing: not the lifecycle tool, not the
  retry, not the retention tool.
\<close>

theorem errors_write_nothing:
  assumes "op_wf db"
    and "handle_op_run env args db = Some (Inl e, db') \<or> handle_op_run_retry env args db = (Inl e, db') \<or>
      handle_op_run_prune env args db = (Inl e, db')"
  shows "db' = db"
  using assms(2)
proof (elim disjE)
  assume "handle_op_run env args db = Some (Inl e, db')"
  then show ?thesis
    unfolding handle_op_run_def Let_def wrapper_defs
    by (auto simp: reply_iffs split: if_split_asm
        dest!: run_op_errors op_timeout_error item_op_errors [OF assms(1)])
next
  assume "handle_op_run_retry env args db = (Inl e, db')"
  then show ?thesis
    by (auto simp: handle_op_run_retry_def wrapper_defs reply_iffs split: option.splits dest: op_retry_error)
next
  assume "handle_op_run_prune env args db = (Inl e, db')"
  then show ?thesis
    by (auto simp: handle_op_run_prune_def wrapper_defs reply_iffs op_prune_def Let_def split: if_splits)
qed

theorem errors_write_nothing_witness:
  "snd (the (handle_op_run sample_op_env cancel_args (sample_db ''completed''))) = sample_db ''completed''"
proof -
  have "assert_state (sample_db ''completed'') ''opr-1'' [Queued, Running] ''cancel'' =
      Inl (InvalidTransition ''cancel'' Completed ''opr-1'')"
    by (simp add: assert_state_def get_run_def sample_db_def sample_run_def new_run_row_def)
  then obtain db' where out: "handle_op_run sample_op_env cancel_args (sample_db ''completed'') =
      Some (Inl (OpError (InvalidTransition ''cancel'' Completed ''opr-1'')), db')"
    by (simp add: handle_op_run_def or_else_def op_run_cancel_def op_cancel_def checked_def answer_def)
  then show ?thesis
    using errors_write_nothing [OF op_wf_sample disjI1 [OF out]] by (simp add: parse_state_def)
qed


section \<open>Counters\<close>

text \<open>
  After the transition of an item, the counters of its run are recounted from the items:
  completed, failed, and the rest of the total.
\<close>

theorem item_transition_recounts:
  assumes "op_wf db" and "get_item db a b = Some item" and "get_run db a = Some run"
    and "touch_item db now item s rr ec d = (res, db')"
    and "in_i64 (r_items_total run)" and "0 \<le> r_items_total run"
    and "count_items db' a ''completed'' + count_items db' a ''failed'' \<le> i64_max"
  shows "res = Inr (the (get_item db' a b)) \<and> i_state (the (get_item db' a b)) = s \<and>
    (\<exists>run'. get_run db' a = Some run' \<and> r_state run' = r_state run \<and>
       r_items_done run' = count_items db' a ''completed'' \<and>
       r_items_failed run' = count_items db' a ''failed'' \<and>
       r_items_unattempted run' =
         max 0 (r_items_total run - (count_items db' a ''completed'' + count_items db' a ''failed'')))"
proof -
  obtain item' db2 where out: "touch_item db now item s rr ec d = (Inr item', db2)"
      "i_state item' = s" "get_item db2 a b = Some item'"
      "\<And>run. get_run db a = Some run \<Longrightarrow> get_run db2 a = Some (run\<lparr>
         r_items_done := count_items db2 a ''completed'', r_items_failed := count_items db2 a ''failed'',
         r_items_unattempted := max (wrap64 (wrap64 (r_items_total run - count_items db2 a ''completed'') -
           count_items db2 a ''failed'')) 0, r_updated_at := now\<rparr>)"
    by (rule touch_item_outcome [OF assms(1,2), of now s rr ec d]) blast
  have db2: "db2 = db'" "res = Inr item'" using out(1) assms(4) by simp_all
  have nn: "0 \<le> count_items db' a x" for x by (simp add: count_items_def)
  have "in_i64 (r_items_total run - count_items db' a ''completed'')"
      "in_i64 (r_items_total run - count_items db' a ''completed'' - count_items db' a ''failed'')"
    using assms(5-7) nn [of "''completed''"] nn [of "''failed''"]
    by (auto simp: in_i64_def i64_min_def i64_max_def)
  then show ?thesis
    using out(2,3) out(4) [OF assms(3)] unfolding db2 by (simp add: wrap64_id algebra_simps max.commute)
qed

theorem item_transition_recounts_witness:
  "\<exists>run'. get_run (snd (touch_item (sample_db ''running'') 7 (row_to_item (sample_item ''failed'' ''b''))
        Running [] [] [])) ''opr-1'' = Some run' \<and> r_items_done run' = 1 \<and> r_items_failed run' = 0"
proof -
  let ?db = "sample_db ''running''" and ?item = "row_to_item (sample_item ''failed'' ''b'')"
  let ?db' = "snd (touch_item ?db 7 ?item Running [] [] [])"
  have c: "count_items ?db' ''opr-1'' ''completed'' = 1" "count_items ?db' ''opr-1'' ''failed'' = 0"
    by (simp_all add: touch_item_def Let_def checked_def sample_db_def sample_item_def sample_run_def
        new_item_row_def new_run_row_def count_items_def update_item_def update_where_def row_to_item_def
        update_run_def)
  have g: "get_item ?db ''opr-1'' ''b'' = Some ?item"
    by (simp add: get_item_def sample_db_def sample_item_def new_item_row_def)
  have r: "get_run ?db ''opr-1'' = Some (row_to_run (sample_run ''running''))"
    by (simp add: get_run_def sample_db_def sample_run_def new_run_row_def)
  have "op_wf ?db" by (rule op_wf_sample) (simp add: parse_state_def)
  from item_transition_recounts [OF this g r, of 7 Running "[]" "[]" "[]" "fst (touch_item ?db 7 ?item Running [] [] [])" ?db']
  show ?thesis
    by (auto simp: c i64_max_def in_i64_def i64_min_def) (auto simp: sample_run_def new_run_row_def)
qed

text \<open>
  A progress report stores the counters it is given, cut off at zero; as long as the sum
  of the done and the failed items fits into 64 bits, the unattempted items are what is left
  of the total, and the run counts as partial when some but not all items have been handled.
\<close>

theorem progress_counters:
  assumes "op_progress db now rid d f t = (Inr run, db')" and "0 \<le> t" and "in_i64 t"
    and "max d 0 + max f 0 \<le> i64_max"
  shows "get_run db' rid = Some run \<and> r_items_total run = t \<and> r_items_done run = max d 0 \<and>
    r_items_failed run = max f 0 \<and> r_items_unattempted run = max 0 (t - max d 0 - max f 0) \<and>
    (r_partial run \<longleftrightarrow> 0 < d \<and> max d 0 + max f 0 < t)"
proof -
  have "in_i64 (t - max d 0)" "in_i64 (t - max d 0 - max f 0)" "in_i64 (max d 0 + max f 0)"
    using assms(2-4) by (auto simp: in_i64_def i64_min_def i64_max_def)
  with assms(1,2) have "r_items_total run = t \<and> r_items_done run = max d 0 \<and> r_items_failed run = max f 0 \<and>
      r_items_unattempted run = max 0 (t - max d 0 - max f 0) \<and>
      (r_partial run \<longleftrightarrow> 0 < max d 0 \<and> max d 0 + max f 0 < t)"
    by (simp add: op_progress_def Let_def checked_Inr wrap64_id max.commute [of _ 0])
      (auto simp: max.commute)
  then show ?thesis using op_progress_stored [OF assms(1)] by auto
qed

lemma sample_progress:
  "\<exists>run db'. op_progress (sample_db ''running'') 9 ''opr-1'' 2 1 5 = (Inr run, db')"
proof -
  have "assert_state (sample_db ''running'') ''opr-1'' [Running] ''progress'' =
      Inr (row_to_run (sample_run ''running''))"
    by (simp add: assert_state_def get_run_def sample_db_def sample_run_def new_run_row_def)
  then show ?thesis by (simp add: op_progress_def checked_def Let_def)
qed

theorem progress_counters_witness:
  "\<exists>run db'. op_progress (sample_db ''running'') 9 ''opr-1'' 2 1 5 = (Inr run, db') \<and>
     r_items_unattempted run = 2 \<and> r_partial run"
proof -
  obtain run db' where "op_progress (sample_db ''running'') 9 ''opr-1'' 2 1 5 = (Inr run, db')"
    using sample_progress by blast
  moreover from progress_counters [OF this] have "r_items_unattempted run = 2 \<and> r_partial run"
    by (simp add: in_i64_def i64_min_def i64_max_def)
  ultimately show ?thesis by blast
qed

section \<open>Recovery\<close>

lemma known_state: "parse_state s \<noteq> None \<Longrightarrow> inflight_text s \<longleftrightarrow> is_inflight (read_state s)"
  by (auto simp: inflight_text_def read_state_def parse_state_def split: if_splits)

lemma known_terminal: "parse_state s \<noteq> None \<Longrightarrow> terminal_text s \<longleftrightarrow> is_terminal (read_state s)"
  by (auto simp: terminal_text_def read_state_def parse_state_def split: if_splits)

lemma inflight_ids:
  assumes "op_wf db"
  shows "length (filter (\<lambda>r. inflight_text (r_state r)) (op_runs db)) =
    card {rid. \<exists>s. run_status rid db = Some s \<and> is_inflight s}"
proof -
  let ?rows = "filter (\<lambda>r. inflight_text (r_state r)) (op_runs db)"
  have d: "distinct (map r_id (op_runs db))" and k: "\<And>r. r \<in> set (op_runs db) \<Longrightarrow> parse_state (r_state r) \<noteq> None"
    using assms by (auto simp: op_wf_def list_all_iff run_ok_def)
  have "set (map r_id ?rows) = {rid. \<exists>s. run_status rid db = Some s \<and> is_inflight s}"
  proof (intro set_eqI iffI)
    fix rid
    assume "rid \<in> set (map r_id ?rows)"
    then obtain r where r: "r \<in> set (op_runs db)" "inflight_text (r_state r)" "rid = r_id r" by auto
    with find_eq_if_distinct [OF d, of r] known_state [OF k [OF r(1)]]
    show "rid \<in> {rid. \<exists>s. run_status rid db = Some s \<and> is_inflight s}"
      by (simp add: run_status_rows)
  next
    fix rid
    assume "rid \<in> {rid. \<exists>s. run_status rid db = Some s \<and> is_inflight s}"
    then obtain r where "find (\<lambda>r. r_id r = rid) (op_runs db) = Some r" "is_inflight (read_state (r_state r))"
      by (auto simp: run_status_rows)
    with known_state k show "rid \<in> set (map r_id ?rows)" by (auto dest!: find_SomeD)
  qed
  moreover have "distinct (map r_id ?rows)" using d by (rule distinct_map_filter_rows)
  ultimately show ?thesis by (metis distinct_card length_map)
qed

lemma run_status_recovered:
  assumes "op_wf db"
  shows "run_status rid (snd (op_recover db now)) =
    map_option (\<lambda>s. if is_inflight s then Interrupted else s) (run_status rid db)"
proof (cases "find (\<lambda>r. r_id r = rid) (op_runs db)")
  case (Some r)
  with assms have "inflight_text (r_state r) \<longleftrightarrow> is_inflight (read_state (r_state r))"
    by (intro known_state) (auto simp: op_wf_def list_all_iff run_ok_def dest!: find_SomeD)
  with Some show ?thesis
    by (simp add: run_status_rows recover_tables find_update_where_pred [where k = r_id])
qed (simp add: run_status_rows recover_tables find_update_where_pred [where k = r_id])


lemma recover_items_exact:
  assumes wf: "op_wf db" and some: "run_status rid0 db = Some s0" "is_inflight s0"
  shows "item_status a b (snd (op_recover db now)) =
    map_option (\<lambda>s. if is_inflight s \<and> run_status a (snd (op_recover db now)) = Some Interrupted
      then Interrupted else s) (item_status a b db)"
proof -
  let ?runs = "op_runs (snd (op_recover db now))"
  let ?p = "\<lambda>i. inflight_text (i_state i) \<and> i_run_id i \<in> set (map r_id (filter (\<lambda>r. r_state r = ''interrupted'') ?runs))"
  have ne: "filter (\<lambda>r. inflight_text (r_state r)) (op_runs db) \<noteq> []"
  proof -
    from some obtain r where "find (\<lambda>r. r_id r = rid0) (op_runs db) = Some r" "is_inflight (read_state (r_state r))"
      by (auto simp: run_status_rows)
    with wf known_state show ?thesis
      by (auto simp: filter_empty_conv op_wf_def list_all_iff run_ok_def dest!: find_SomeD)
  qed
  then have items: "op_run_items (snd (op_recover db now)) = update_where ?p
      (\<lambda>i. i\<lparr>i_state := ''interrupted'', i_updated_at := now\<rparr>) (op_run_items db)"
    unfolding recover_tables by (auto simp: op_recover_def Let_def simp flip: set_empty)
  have wf': "op_wf (snd (op_recover db now))" using wf by (rule op_wf_recover)
  have run: "x \<in> set (map r_id (filter (\<lambda>r. r_state r = ''interrupted'') ?runs)) \<longleftrightarrow>
      run_status x (snd (op_recover db now)) = Some Interrupted" for x
  proof
    assume "x \<in> set (map r_id (filter (\<lambda>r. r_state r = ''interrupted'') ?runs))"
    then obtain r where "r \<in> set ?runs" "r_state r = ''interrupted''" "r_id r = x" by auto
    with wf' find_eq_if_distinct [of r_id ?runs r]
    show "run_status x (snd (op_recover db now)) = Some Interrupted"
      by (simp add: op_wf_def run_status_rows)
  next
    assume "run_status x (snd (op_recover db now)) = Some Interrupted"
    then obtain r where r: "r \<in> set ?runs" "r_id r = x" "read_state (r_state r) = Interrupted"
      by (auto simp: run_status_rows dest!: find_SomeD)
    moreover from r(1) wf' have "parse_state (r_state r) \<noteq> None"
      by (auto simp: op_wf_def list_all_iff run_ok_def)
    ultimately have "r_state r = ''interrupted''"
      by (auto simp: read_state_def parse_state_def split: if_splits)
    with r show "x \<in> set (map r_id (filter (\<lambda>r. r_state r = ''interrupted'') ?runs))" by auto
  qed
  have find: "find (\<lambda>i. item_key i = (a, b)) (op_run_items (snd (op_recover db now))) =
      map_option (\<lambda>i. if ?p i then i\<lparr>i_state := ''interrupted'', i_updated_at := now\<rparr> else i)
        (find (\<lambda>i. item_key i = (a, b)) (op_run_items db))"
    unfolding items by (rule find_update_where_pred) (simp add: item_key_def)
  show ?thesis
  proof (cases "find (\<lambda>i. item_key i = (a, b)) (op_run_items db)")
    case None
    then show ?thesis by (simp only: item_status_rows find) simp
  next
    case (Some i)
    then have "i \<in> set (op_run_items db)" "i_run_id i = a"
      by (auto dest!: find_SomeD simp: item_key_def)
    moreover from this(1) wf have "inflight_text (i_state i) \<longleftrightarrow> is_inflight (read_state (i_state i))"
      by (intro known_state) (auto simp: op_wf_def list_all_iff)
    ultimately show ?thesis
      using Some by (simp only: item_status_rows find run) simp
  qed
qed

text \<open>
  Recovery at start-up marks exactly the work that was in flight: every queued or running
  run becomes interrupted together with its queued and running items, every other run keeps
  its state, the items of a run that had finished otherwise keep theirs, and the number
  returned is the number of runs that were in flight.
\<close>

theorem recover_interrupts_inflight:
  assumes "op_wf db" and "op_recover db now = (res, db')"
  shows "res = Inr (int (card {rid. \<exists>s. run_status rid db = Some s \<and> is_inflight s})) \<and>
    (\<forall>rid. run_status rid db' = map_option (\<lambda>s. if is_inflight s then Interrupted else s) (run_status rid db)) \<and>
    (\<forall>rid s ref. run_status rid db = Some s \<and> is_inflight s \<longrightarrow>
       item_status rid ref db' = map_option (\<lambda>s. if is_inflight s then Interrupted else s) (item_status rid ref db)) \<and>
    (\<forall>rid s ref. run_status rid db = Some s \<and> is_terminal s \<and> s \<noteq> Interrupted \<longrightarrow>
       item_status rid ref db' = item_status rid ref db)"
proof -
  have db': "db' = snd (op_recover db now)" using assms(2) by simp
  have "res = Inr (int (length (filter (\<lambda>r. inflight_text (r_state r)) (op_runs db))))"
    using assms(2) by (auto simp: op_recover_def Let_def split: if_splits simp flip: set_empty)
  then have "res = Inr (int (card {rid. \<exists>s. run_status rid db = Some s \<and> is_inflight s}))"
    by (simp add: inflight_ids [OF assms(1)])
  moreover note st = run_status_recovered [OF assms(1), of _ now, folded db']
  moreover have "item_status rid ref db' = map_option (\<lambda>s. if is_inflight s then Interrupted else s) (item_status rid ref db)"
    if "run_status rid db = Some s" "is_inflight s" for rid s ref
    using recover_items_exact [OF assms(1) that, of rid ref now, folded db'] that st [of rid]
    by (simp cong: option.map_cong)
  moreover have "item_status rid ref db' = item_status rid ref db"
    if "run_status rid db = Some s" "is_terminal s" "s \<noteq> Interrupted" for rid s ref
  proof (cases "\<exists>rid0 s0. run_status rid0 db = Some s0 \<and> is_inflight s0")
    case True
    then obtain rid0 s0 where "run_status rid0 db = Some s0" "is_inflight s0" by blast
    from recover_items_exact [OF assms(1) this, of rid ref now, folded db'] that st [of rid]
    show ?thesis by (simp add: is_inflight_iff option.map_ident)
  next
    case False
    then have "{rid. \<exists>s. run_status rid db = Some s \<and> is_inflight s} = {}" by blast
    with inflight_ids [OF assms(1)] have "filter (\<lambda>r. inflight_text (r_state r)) (op_runs db) = []"
      by (simp only: card.empty length_0_conv)
    then show ?thesis by (simp add: db' op_recover_def)
  qed
  ultimately show ?thesis by blast
qed

theorem recover_interrupts_inflight_witness:
  "run_status ''opr-1'' (snd (op_recover (sample_db ''running'') 9)) = Some Interrupted"
  using recover_interrupts_inflight [of "sample_db ''running''" 9 "fst (op_recover (sample_db ''running'') 9)"
      "snd (op_recover (sample_db ''running'') 9)"]
  by (simp add: op_wf_sample parse_state_def run_status_sample)


section \<open>Retention\<close>

definition expired :: "int \<Rightarrow> int \<Rightarrow> op_run \<Rightarrow> bool" where
  "expired now days run \<longleftrightarrow> is_terminal (r_state run) \<and>
     r_updated_at run < wrap64 (now - wrap64 (max days 1 * 86400000))"

lemma prune_ids_status:
  assumes "op_wf db"
  shows "rid \<in> prune_ids db now days \<longleftrightarrow>
    (\<exists>run. get_run db rid = Some run \<and> is_terminal (r_state run) \<and>
       r_updated_at run < wrap64 (now - wrap64 (max days 1 * 86400000)))"
proof
  assume "rid \<in> prune_ids db now days"
  then obtain r where r: "r \<in> set (op_runs db)" "r_id r = rid" "terminal_text (r_state r)"
      "r_updated_at r < wrap64 (now - wrap64 (max days 1 * 86400000))"
    by (auto simp: prune_ids_def)
  moreover have "find (\<lambda>x. r_id x = rid) (op_runs db) = Some r"
    using assms r find_eq_if_distinct [of r_id "op_runs db" r] by (simp add: op_wf_def)
  ultimately show "\<exists>run. get_run db rid = Some run \<and> is_terminal (r_state run) \<and>
       r_updated_at run < wrap64 (now - wrap64 (max days 1 * 86400000))"
    by (simp add: get_run_def terminal_text_read)
next
  assume "\<exists>run. get_run db rid = Some run \<and> is_terminal (r_state run) \<and>
       r_updated_at run < wrap64 (now - wrap64 (max days 1 * 86400000))"
  then obtain r where r: "r \<in> set (op_runs db)" "r_id r = rid" "is_terminal (read_state (r_state r))"
      "r_updated_at r < wrap64 (now - wrap64 (max days 1 * 86400000))"
    by (auto dest!: get_run_mem)
  moreover have "terminal_text (r_state r)"
    using assms r by (auto simp: known_terminal op_wf_def list_all_iff run_ok_def)
  ultimately show "rid \<in> prune_ids db now days" by (auto simp: prune_ids_def)
qed

lemma prune_Inr:
  assumes "op_wf db" and "op_prune max_vars db now days = (Inr n, db')"
  shows "n = int (card (prune_ids db now days)) \<and>
    db' = db\<lparr>op_run_items := filter (\<lambda>i. i_run_id i \<notin> prune_ids db now days) (op_run_items db),
             op_runs := filter (\<lambda>r. r_id r \<notin> prune_ids db now days) (op_runs db)\<rparr>"
proof (rule prune_cases [of max_vars db now days])
  assume "op_prune max_vars db now days = (Inr 0, db)" "prune_ids db now days = {}"
  then show ?thesis using assms(2) by simp
next
  fix k
  assume "distinct (map r_id (op_runs db)) \<Longrightarrow> k = card (prune_ids db now days)"
    and "op_prune max_vars db now days = (Inr (int k),
        db\<lparr>op_run_items := filter (\<lambda>i. i_run_id i \<notin> prune_ids db now days) (op_run_items db),
           op_runs := filter (\<lambda>r. r_id r \<notin> prune_ids db now days) (op_runs db)\<rparr>)"
  then show ?thesis using assms by (simp add: op_wf_def)
qed (use assms(2) in simp)

text \<open>
  Retention deletes exactly the finished runs last updated before the cutoff, and their
  items with them; runs in flight, newer runs and all other items are untouched. The cutoff is
  computed with wrap-around at 64 bits.
\<close>

theorem prune_deletes_old_finished:
  assumes "op_wf db" and "op_prune max_vars db now days = (Inr n, db')"
  shows "n = int (card {rid. \<exists>run. get_run db rid = Some run \<and> expired now days run}) \<and>
    (\<forall>rid. get_run db' rid = (case get_run db rid of None \<Rightarrow> None
       | Some run \<Rightarrow> if expired now days run then None else Some run)) \<and>
    (\<forall>rid ref. get_item db' rid ref = (if get_run db' rid = None then None else get_item db rid ref))"
proof -
  have ids: "prune_ids db now days = {rid. \<exists>run. get_run db rid = Some run \<and> expired now days run}"
    using prune_ids_status [OF assms(1)] by (auto simp: expired_def)
  note out = prune_Inr [OF assms(1,2)]
  have run: "get_run db' rid = (if rid \<in> prune_ids db now days then None else get_run db rid)" for rid
    using out by (simp add: get_run_def find_filter_key)
  have fi: "find (\<lambda>i. i_run_id i = a \<and> i_item_ref i = b) (filter (\<lambda>i. i_run_id i \<notin> S) rows) =
      (if a \<in> S then None else find (\<lambda>i. i_run_id i = a \<and> i_item_ref i = b) rows)" for a b S and rows :: "item_row list"
    by (induction rows) auto
  have orphan: "get_item db a b = None" if "get_run db a = None" for a b
    using run_exists [OF assms(1), of a b] that by (cases "get_item db a b") (auto simp: get_run_def)
  have item: "get_item db' a b = (if a \<in> prune_ids db now days then None else get_item db a b)" for a b
    using out by (simp add: get_item_def fi)
  show ?thesis
    using out [THEN conjunct1] by (auto simp: run item ids orphan split: option.splits)
qed

theorem prune_deletes_old_finished_witness:
  "get_run (snd (op_prune 32766 (sample_db ''completed'') 1000000000000 30)) ''opr-1'' = None"
proof -
  let ?r = "op_prune 32766 (sample_db ''completed'') 1000000000000 30"
  have g: "get_run (sample_db ''completed'') ''opr-1'' = Some (row_to_run (sample_run ''completed''))"
    by (simp add: get_run_def sample_db_def sample_run_def new_run_row_def)
  have "\<exists>n. fst ?r = Inr n"
    by (simp add: op_prune_def Let_def sample_db_def sample_run_def new_run_row_def)
  then obtain n where n: "?r = (Inr n, snd ?r)" by (metis prod.collapse)
  have "op_wf (sample_db ''completed'')" by (rule op_wf_sample) (simp add: parse_state_def)
  from prune_deletes_old_finished [OF this n] g show ?thesis
    by (simp add: expired_def wrap64_def sample_run_def new_run_row_def)
qed

text \<open>
  The arithmetic of the cutoff overflows for large retention periods: a request to keep
  150 billion days of history deletes every finished run updated before the year 170 million.
\<close>

theorem prune_overflow_deletes_recent:
  assumes "op_wf db" and "op_prune max_vars db now 150000000000 = (Inr n, db')"
    and "0 \<le> now" and "now < 2 ^ 61"
    and "get_run db rid = Some run" and "is_terminal (r_state run)" and "r_updated_at run < 5000000000000000000"
  shows "get_run db' rid = None"
proof -
  have "wrap64 (max 150000000000 1 * 86400000) = - 5486744073709551616" by (simp add: wrap64_def)
  moreover have "wrap64 (now + 5486744073709551616) = now + 5486744073709551616"
    using assms(3,4) by (intro wrap64_id) (simp add: in_i64_def i64_min_def i64_max_def)
  ultimately have "rid \<in> prune_ids db now 150000000000"
    using prune_ids_status [OF assms(1)] assms(3,5-7) by simp
  with prune_Inr [OF assms(1,2)] show ?thesis by (simp add: get_run_def find_filter_key)
qed

theorem prune_overflow_deletes_recent_witness:
  "get_run (snd (op_prune 32766 (sample_db ''completed'') 6 150000000000)) ''opr-1'' = None"
proof -
  let ?r = "op_prune 32766 (sample_db ''completed'') 6 150000000000"
  have g: "get_run (sample_db ''completed'') ''opr-1'' = Some (row_to_run (sample_run ''completed''))"
    by (simp add: get_run_def sample_db_def sample_run_def new_run_row_def)
  have "\<exists>n. fst ?r = Inr n"
    by (simp add: op_prune_def Let_def sample_db_def sample_run_def new_run_row_def)
  then obtain n where n: "?r = (Inr n, snd ?r)" by (metis prod.collapse)
  have "op_wf (sample_db ''completed'')" by (rule op_wf_sample) (simp add: parse_state_def)
  from prune_overflow_deletes_recent [OF this n _ _ g] show ?thesis
    by (simp add: sample_run_def new_run_row_def)
qed


section \<open>Retry\<close>

lemma list_items_set: "set (list_items db rid) = row_to_item ` {i \<in> set (op_run_items db). i_run_id i = rid}"
  by (auto simp: list_items_def)

lemma get_item_list_items:
  assumes "op_wf db"
  shows "get_item db rid ref = find (\<lambda>i. i_item_ref i = ref) (list_items db rid)"
proof -
  let ?rows = "sort_key i_created_at (filter (\<lambda>r. i_run_id r = rid) (op_run_items db))"
  have "distinct (map item_key (filter (\<lambda>r. i_run_id r = rid) (op_run_items db)))"
    using assms by (simp add: op_wf_def distinct_map_filter_rows)
  then have d: "distinct (map i_item_ref ?rows)"
    by (auto simp: distinct_map item_key_def inj_on_def)
  have map: "find (\<lambda>i. i_item_ref i = ref) (map row_to_item rows) =
      map_option row_to_item (find (\<lambda>i. i_item_ref i = ref) rows)" for rows
    by (induction rows) simp_all
  have keys: "distinct (map item_key (op_run_items db))" using assms by (simp add: op_wf_def)
  show ?thesis
  proof (cases "find (\<lambda>i. item_key i = (rid, ref)) (op_run_items db)")
    case None
    then have "ref \<notin> set (map i_item_ref ?rows)"
      by (auto simp: find_None_iff item_key_def)
    with None show ?thesis
      by (simp add: get_item_def list_items_def map find_None_keys item_key_def)
  next
    case (Some r)
    then have "r \<in> set ?rows" "i_item_ref r = ref" by (auto dest!: find_SomeD simp: item_key_def)
    with find_eq_if_distinct [OF d] have "find (\<lambda>i. i_item_ref i = ref) ?rows = Some r" by blast
    with Some show ?thesis by (simp add: get_item_def list_items_def map item_key_def)
  qed
qed

text \<open>The items of the child: one for each item of the parent, in the same order.\<close>

lemma find_retry_rows:
  "length ks = length items \<Longrightarrow>
   find (\<lambda>i. i_run_id i = child \<and> i_item_ref i = ref)
     (map (\<lambda>(j, item). retry_row child (us j) (ns j) item) (zip ks items)) =
   map_option (\<lambda>(j, item). retry_row child (us j) (ns j) item)
     (find (\<lambda>(j, item). i_item_ref item = ref) (zip ks items))"
  by (induction ks items rule: list_induct2) (auto simp: retry_row_def new_item_row_def)

lemma find_zip_snd:
  "length ks = length items \<Longrightarrow>
   map_option snd (find (\<lambda>(j, item). i_item_ref item = ref) (zip ks items)) = find (\<lambda>i. i_item_ref i = ref) items"
  by (induction ks items rule: list_induct2) auto

text \<open>What the child holds for an item of its parent.\<close>

definition carried :: "op_run_item \<Rightarrow> op_run_item \<Rightarrow> bool" where
  "carried item item' \<longleftrightarrow> i_item_ref item' = i_item_ref item \<and> i_item_digest item' = i_item_digest item \<and>
     (if i_state item = Completed
      then i_state item' = Completed \<and> i_receipt_ref item' = i_receipt_ref item \<and>
        i_retry_count item' = i_retry_count item
      else i_state item' = Queued \<and> i_receipt_ref item' = [] \<and>
        i_retry_count item' = wrap64 (i_retry_count item + 1))"

lemma i_run_id_retry_row [simp]: "i_run_id (retry_row child u n item) = child"
  by (simp add: retry_row_def new_item_row_def)

lemma carried_retry_row: "carried item (row_to_item (retry_row child u n item))"
  by (simp add: carried_def retry_row_def new_item_row_def)


text \<open>The tables after a successful retry.\<close>

lemma op_retry_tables:
  assumes wf: "op_wf db" and "op_retry db now uuid rid = (Inr child, db')"
  obtains run f where "get_run db rid = Some run" "is_terminal (r_state run)"
    "r_retry_count run < r_max_retries run" "0 \<le> r_retry_count run" "r_max_retries run \<le> 10"
    "get_run db (r_id child) = None" "get_run db' (r_id child) = Some child"
    "\<exists>i \<in> set (list_items db rid). i_state i \<noteq> Completed"
    "r_state child = Queued" "r_parent_run_id child = rid"
    "r_retry_count child = r_retry_count run + 1" "r_max_retries child = r_max_retries run"
    "r_items_done child = int (length (filter (\<lambda>i. i_state i = Completed) (list_items db rid)))"
    "r_items_failed child = int (length (filter (\<lambda>i. i_state i \<noteq> Completed) (list_items db rid)))"
    "r_items_total child = int (length (list_items db rid))"
    "r_items_unattempted child = r_items_failed child"
    "\<And>other. other \<noteq> r_id child \<Longrightarrow> get_run db' other = get_run db other"
    "op_run_items db' = op_run_items db @ map (\<lambda>(j, item). retry_row (r_id child) (uuid (j + 1)) (now (j + 2)) item)
       (zip [0..<length (list_items db rid)] (list_items db rid))"
  using assms(2)
proof (cases rule: op_retry_cases)
  case err
  then show thesis by simp
next
  case (ok run items c db1 db3)
  let ?c = "new_run_row (new_id ''opr'' (uuid 0)) (trim (r_op_type run)) (r_scope run)
     (r_input_digest run) (max 0 (min 10 (r_max_retries run))) (r_created_by run) (now 0)"
  note beg = ok(6) [unfolded op_begin_Inr]
  have cid: "r_id c = new_id ''opr'' (uuid 0)" using beg by (simp add: new_run_row_def)
  note rows = retry_items_rows [OF ok(7)]
  have child: "child = row_to_run (?c\<lparr>r_retry_count := wrap64 (r_retry_count run + 1),
      r_parent_run_id := r_id run, r_updated_at := now 1,
      r_items_done := int (length (filter (\<lambda>i. i_state i = Completed) items)),
      r_items_failed := int (length (filter (\<lambda>i. i_state i \<noteq> Completed) items)),
      r_items_total := int (length items),
      r_items_unattempted := int (length (filter (\<lambda>i. i_state i \<noteq> Completed) items))\<rparr>)"
      and got: "get_run db' (r_id c) = Some child"
    using ok(9) unfolding ok(8) by (simp_all add: child_found [OF ok(6,7)])
  have same: "r_id child = r_id c" using got by (rule get_run_id)
  obtain r where r: "r \<in> set (op_runs db)" "run = row_to_run r"
    using get_run_mem [OF ok(1)] by blast
  with wf have bnd: "0 \<le> r_retry_count run" "r_max_retries run \<le> 10"
    by (auto simp: op_wf_def list_all_iff run_ok_def)
  with ok(3) have wrap: "wrap64 (r_retry_count run + 1) = r_retry_count run + 1"
    by (intro wrap64_id) (simp add: in_i64_def i64_min_def i64_max_def)
  have fresh: "get_run db (r_id c) = None"
    using beg cid by (simp add: get_run_def find_None_keys)
  have other: "get_run db' q = get_run db q" if "q \<noteq> r_id c" for q
  proof -
    have "find (\<lambda>r. r_id r = q) (op_runs db1) = find (\<lambda>r. r_id r = q) (op_runs db)"
      using beg that cid
      by (auto simp: find_append new_run_row_def split: option.split)
    then have "get_run db3 q = get_run db q"
      using that rows by (simp add: get_run_def update_run_def find_update_where_pred [where k = r_id])
        (auto simp: option.map_comp comp_def dest!: find_SomeD
          intro!: option.map_cong)
    then show ?thesis using that
      by (simp add: ok(8) get_run_update_run) (simp add: get_run_def)
  qed
  have items: "op_run_items db' = op_run_items db @
      map (\<lambda>(j, item). retry_row (r_id c) (uuid (j + 1)) (now (j + 2)) item) (zip [0..<length items] items)"
    using rows beg by (simp add: ok(8))
  show thesis
  proof (rule that [of run])
    show "r_parent_run_id child = rid" using get_run_id [OF ok(1)] by (simp add: child)
    show "r_max_retries child = r_max_retries run"
      using bnd ok(3) by (simp add: child new_run_row_def)
    show "r_state child = Queued" by (simp add: child new_run_row_def)
  qed (use ok(1-5) bnd wrap fresh got same other items in \<open>simp_all add: is_inflight_iff child\<close>)
qed

text \<open>
  A retry forks exactly one new run and leaves everything else alone. The parent had
  finished and had retries left; the child is queued, names its parent, counts one retry more
  and stays within the bound; and for each item of the parent it holds one item: completed
  ones with their receipt, so that they are not executed again, all others queued.
\<close>

theorem retry_forks_child:
  assumes "op_wf db" and "op_retry db now uuid rid = (Inr child, db')"
  shows "\<exists>run. get_run db rid = Some run \<and> is_terminal (r_state run) \<and>
    get_run db (r_id child) = None \<and> get_run db' (r_id child) = Some child \<and>
    r_state child = Queued \<and> r_parent_run_id child = rid \<and>
    r_retry_count child = r_retry_count run + 1 \<and> r_retry_count child \<le> r_max_retries child \<and>
    r_max_retries child = r_max_retries run \<and>
    (\<forall>ref. rel_option carried (get_item db rid ref) (get_item db' (r_id child) ref)) \<and>
    (\<forall>other. other \<noteq> r_id child \<longrightarrow> get_run db' other = get_run db other \<and>
       (\<forall>ref. get_item db' other ref = get_item db other ref))"
  using assms
proof (rule op_retry_tables)
  fix run f
  let ?items = "list_items db rid"
  assume *: "get_run db rid = Some run" "is_terminal (r_state run)" "r_retry_count run < r_max_retries run"
    "get_run db (r_id child) = None" "get_run db' (r_id child) = Some child"
    "r_state child = Queued" "r_parent_run_id child = rid"
    "r_retry_count child = r_retry_count run + 1" "r_max_retries child = r_max_retries run"
    "\<And>other. other \<noteq> r_id child \<Longrightarrow> get_run db' other = get_run db other"
    and rows: "op_run_items db' = op_run_items db @ map (\<lambda>(j, item). retry_row (r_id child) (uuid (j + 1)) (now (j + 2)) item)
       (zip [0..<length ?items] ?items)"
  have none: "find (\<lambda>i. i_run_id i = r_id child \<and> i_item_ref i = ref) (op_run_items db) = None" for ref
    using run_exists [OF assms(1), of "r_id child" ref] *(4)
    by (cases "find (\<lambda>i. i_run_id i = r_id child \<and> i_item_ref i = ref) (op_run_items db)")
      (auto simp: get_item_def get_run_def)
  have find_c: "get_item db' (r_id child) ref =
      map_option (\<lambda>(j, item). row_to_item (retry_row (r_id child) (uuid (j + 1)) (now (j + 2)) item))
        (find (\<lambda>(j, item). i_item_ref item = ref) (zip [0..<length ?items] ?items))" for ref
    using find_retry_rows [of "[0..<length ?items]" ?items "r_id child" ref "\<lambda>j. uuid (j + 1)" "\<lambda>j. now (j + 2)"]
    by (simp add: get_item_def rows find_append none option.map_comp comp_def case_prod_unfold)
  have "rel_option carried (get_item db rid ref) (get_item db' (r_id child) ref)" for ref
  proof (cases "find (\<lambda>(j, item). i_item_ref item = ref) (zip [0..<length ?items] ?items)")
    case None
    then show ?thesis
      using find_zip_snd [of "[0..<length ?items]" ?items ref]
      by (simp add: get_item_list_items [OF assms(1)] find_c)
  next
    case (Some p)
    then show ?thesis
      using find_zip_snd [of "[0..<length ?items]" ?items ref, symmetric]
      by (cases p) (simp add: get_item_list_items [OF assms(1)] find_c carried_retry_row)
  qed
  moreover have "get_item db' q ref = get_item db q ref" if "q \<noteq> r_id child" for q ref
  proof -
    have "find (\<lambda>i. i_run_id i = q \<and> i_item_ref i = ref)
        (map (\<lambda>(j, item). retry_row (r_id child) (uuid (j + 1)) (now (j + 2)) item) ps) = None" for ps
      using that by (induction ps) auto
    then show ?thesis by (simp add: get_item_def rows find_append split: option.split)
  qed
  ultimately show ?thesis using * by (intro exI [of _ run]) auto
qed

lemma sample_retry:
  "\<exists>child db'. op_retry (sample_db ''failed'') (\<lambda>k. 100) (\<lambda>k. if k = 1 then ''x'' else ''y'') ''opr-1'' =
     (Inr child, db')"
proof -
  have g: "get_run (sample_db ''failed'') ''opr-1'' = Some (row_to_run (sample_run ''failed''))"
    by (simp add: get_run_def sample_db_def sample_run_def new_run_row_def)
  have l: "list_items (sample_db ''failed'') ''opr-1'' =
      [row_to_item (sample_item ''completed'' ''a''), row_to_item (sample_item ''failed'' ''b'')]"
    by (simp add: list_items_def sample_db_def sample_item_def new_item_row_def)
  have t: "trim ''embed'' = ''embed''" "char_count ''embed'' = 5"
    by (simp_all add: trim_ascii char_count_ascii is_ascii_def is_whitespace_def)
  obtain child db1 where b: "op_begin (sample_db ''failed'') 100 ''y'' ''embed'' [] [] 2 ''cli'' = (Inr child, db1)"
      "r_id child = ''opr-y''"
    by (simp add: op_begin_Inr t new_id_def sample_db_def sample_run_def new_run_row_def)
  have items: "op_run_items db1 = op_run_items (sample_db ''failed'')"
    using b by (simp add: op_begin_Inr)
  have "\<exists>db3. retry_items ''opr-y'' (\<lambda>k. if k = 0 then ''x'' else ''y'') (\<lambda>k. 100) 0
      [row_to_item (sample_item ''completed'' ''a''), row_to_item (sample_item ''failed'' ''b'')]
      (update_run ''opr-y'' f db1) = Inr db3" for f
    by (simp add: items insert_item_def retry_row_def sample_db_def sample_item_def new_item_row_def
        row_to_item_def new_id_def)
  then obtain db3 where r: "retry_items ''opr-y'' (\<lambda>k. if k = 0 then ''x'' else ''y'') (\<lambda>k. 100) 0
      [row_to_item (sample_item ''completed'' ''a''), row_to_item (sample_item ''failed'' ''b'')]
      (update_run ''opr-y'' (\<lambda>r. r\<lparr>r_retry_count := wrap64 (0 + 1),
            r_parent_run_id := ''opr-1'', r_updated_at := 100\<rparr>) db1) = Inr db3"
    by blast
  have sel: "r_op_type (sample_run st) = ''embed''" "r_scope (sample_run st) = []" "r_retry_count (sample_run st) = 0"
      "r_input_digest (sample_run st) = []" "r_max_retries (sample_run st) = 2" "r_created_by (sample_run st) = ''cli''"
      "r_id (sample_run st) = ''opr-1''" "r_state (sample_run st) = st" "i_state (sample_item st ref) = st" for st ref
    by (simp_all add: sample_run_def new_run_row_def sample_item_def new_item_row_def)
  obtain res db' where out: "op_retry (sample_db ''failed'') (\<lambda>k. 100) (\<lambda>k. if k = 1 then ''x'' else ''y'') ''opr-1'' = (res, db')"
    by fastforce
  then have "\<not> (\<exists>e. res = Inl e)"
    using g l b r sel child_found [OF b(1), unfolded b(2), OF r]
    by (auto simp: op_retry_def checked_def Let_def)
  with out show ?thesis by (cases res) auto
qed

theorem retry_forks_child_witness:
  "\<exists>child db'. op_retry (sample_db ''failed'') (\<lambda>k. 100) (\<lambda>k. if k = 1 then ''x'' else ''y'') ''opr-1'' = (Inr child, db') \<and>
     r_parent_run_id child = ''opr-1'' \<and> get_run db' (r_id child) = Some child"
proof -
  obtain child db' where out: "op_retry (sample_db ''failed'') (\<lambda>k. 100) (\<lambda>k. if k = 1 then ''x'' else ''y'') ''opr-1'' = (Inr child, db')"
    using sample_retry by blast
  have "op_wf (sample_db ''failed'')" by (rule op_wf_sample) (simp add: parse_state_def)
  from retry_forks_child [OF this out] out show ?thesis by blast
qed

text \<open>
  The counters of the child count the re-queued items twice, as failed and as unattempted:
  with at least one re-queued item the three counters exceed the total.
\<close>

theorem retry_counts_twice:
  assumes "op_wf db" and "op_retry db now uuid rid = (Inr child, db')"
  shows "r_items_unattempted child = r_items_failed child \<and> r_items_failed child > 0 \<and>
    r_items_done child + r_items_failed child = r_items_total child \<and>
    r_items_done child + r_items_failed child + r_items_unattempted child > r_items_total child"
  using assms
proof (rule op_retry_tables)
  let ?items = "list_items db rid"
  assume "\<exists>i \<in> set ?items. i_state i \<noteq> Completed"
    and *: "r_items_done child = int (length (filter (\<lambda>i. i_state i = Completed) ?items))"
    "r_items_failed child = int (length (filter (\<lambda>i. i_state i \<noteq> Completed) ?items))"
    "r_items_total child = int (length ?items)" "r_items_unattempted child = r_items_failed child"
  then have "filter (\<lambda>i. i_state i \<noteq> Completed) ?items \<noteq> []" by (auto simp: filter_empty_conv)
  moreover have "length ?items = length (filter (\<lambda>i. i_state i = Completed) ?items) +
      length (filter (\<lambda>i. i_state i \<noteq> Completed) ?items)"
    using sum_length_filter_compl [of "\<lambda>i. i_state i = Completed" ?items] by simp
  ultimately show ?thesis using * by simp
qed


theorem retry_counts_twice_witness:
  "\<exists>child db'. op_retry (sample_db ''failed'') (\<lambda>k. 100) (\<lambda>k. if k = 1 then ''x'' else ''y'') ''opr-1'' = (Inr child, db') \<and>
     r_items_done child + r_items_failed child + r_items_unattempted child > r_items_total child"
proof -
  obtain child db' where out: "op_retry (sample_db ''failed'') (\<lambda>k. 100) (\<lambda>k. if k = 1 then ''x'' else ''y'') ''opr-1'' = (Inr child, db')"
    using sample_retry by blast
  have "op_wf (sample_db ''failed'')" by (rule op_wf_sample) (simp add: parse_state_def)
  from retry_counts_twice [OF this out] out show ?thesis by blast
qed

section \<open>Tracked operations\<close>

lemma get_run_find: "get_run db rid = Some run \<Longrightarrow> \<exists>r. find (\<lambda>r. r_id r = rid) (op_runs db) = Some r"
  by (auto simp: get_run_Some)

text \<open>
  What a tracked operation reports is what is stored: when the run could be created and
  the body leaves it running, the run ends up completed with the receipt of the body when the
  body succeeded, and failed with the filtered error text when it did not, and the reply names
  that state.
\<close>

theorem tracked_outcome_is_stored:
  assumes "op_run_begin (env 0) db op_type scope [] 2 created_by = (Inr run, db1)"
    and "f (r_id run) (snd (op_run_start (env 1) db1 (r_id run))) = (res, db3)"
    and "run_status (r_id run) db3 = Some Running"
    and "run_tracked env db op_type scope created_by f = Some (reply, db')"
  shows "run_status (r_id run) (snd (op_run_start (env 1) db1 (r_id run))) = Some Running \<and>
    (case res of
       Inr (val, receipt) \<Rightarrow>
         (\<exists>run'. get_run db' (r_id run) = Some run' \<and> r_state run' = Completed \<and> r_receipt run' = receipt) \<and>
         reply = Option.bind (json_set ''op_run_id'' (JStr (r_id run)) val)
           (json_set ''op_run_state'' (JStr (as_str Completed)))
     | Inl e \<Rightarrow>
         (\<exists>run'. get_run db' (r_id run) = Some run' \<and> r_state run' = Failed \<and>
            sanitize_error_detail (e_lower (env 2)) e = Some (r_error_detail run')) \<and>
         reply = Some (JObj [(''error'', JStr e), (''op_run_id'', JStr (r_id run)),
           (''op_run_state'', JStr (as_str Failed))]))"
proof -
  let ?id = "r_id run"
  have "get_run db1 ?id = Some run" "r_state run = Queued"
    using assms(1) by (auto simp: op_run_begin_def dest: op_begin_stored)
      (auto simp: op_begin_Inr new_run_row_def)
  then have "\<exists>run2. op_start db1 (e_now (env 1) 0) ?id = (Inr run2, snd (op_start db1 (e_now (env 1) 0) ?id)) \<and>
      r_state run2 = Running"
    by (simp add: op_start_def checked_def assert_state_def)
  then have started: "run_status ?id (snd (op_run_start (env 1) db1 ?id)) = Some Running"
    by (auto simp: op_run_start_def run_status_def dest: op_start_stored)
  from assms(3) obtain run3 where run3: "get_run db3 ?id = Some run3" "r_state run3 = Running"
    by (auto simp: run_status_def)
  show ?thesis
  proof (cases res)
    case (Inl e)
    obtain t where t: "sanitize_error_detail (e_lower (env 2)) e = Some t"
      using assms(1,2,4) Inl run3
      by (auto simp: run_tracked_def op_run_fail_def op_fail_def with_detail_def assert_state_def)
    define run4 where "run4 = run3\<lparr>r_state := Failed, r_error_class := ''operation_failed'', r_error_detail := t,
        r_finished_at := Some (e_now (env 2) 0), r_updated_at := e_now (env 2) 0\<rparr>"
    have "\<exists>db4. op_run_fail (env 2) db3 ?id ''operation_failed'' e = Some (Inr run4, db4)"
      using run3 t by (simp add: op_run_fail_def op_fail_def with_detail_def assert_state_def run4_def)
    then obtain db4 where f4: "op_run_fail (env 2) db3 ?id ''operation_failed'' e = Some (Inr run4, db4)" by blast
    then have "get_run db4 ?id = Some run4" by (auto simp: op_run_fail_def dest: op_fail_stored)
    then show ?thesis
      using assms(1,2,4) Inl f4 started t by (auto simp: run_tracked_def run4_def)
  next
    case (Inr vr)
    obtain val receipt where vr: "vr = (val, receipt)" by force
    obtain run4 where p: "op_run_progress (env 2) db3 ?id 0 0 0 = (Inr run4, snd (op_run_progress (env 2) db3 ?id 0 0 0))"
        "r_state run4 = Running"
      using run3 by (simp add: op_run_progress_def op_progress_def checked_def assert_state_def Let_def)
    let ?db4 = "snd (op_run_progress (env 2) db3 ?id 0 0 0)"
    have g4: "get_run ?db4 ?id = Some run4"
      using p(1) op_progress_stored unfolding op_run_progress_def by blast
    obtain run5 where c: "op_run_complete (env 3) ?db4 ?id receipt = (Inr run5, snd (op_run_complete (env 3) ?db4 ?id receipt))"
        "r_state run5 = Completed" "r_receipt run5 = receipt"
      using g4 p(2) by (simp add: op_run_complete_def op_complete_def checked_def assert_state_def)
    then have "get_run (snd (op_run_complete (env 3) ?db4 ?id receipt)) ?id = Some run5"
      using op_complete_stored unfolding op_run_complete_def by blast
    then show ?thesis
      using assms(1,2,4) Inr vr c started by (auto simp: run_tracked_def Let_def)
  qed
qed


definition sample_body :: "string \<Rightarrow> op_db \<Rightarrow> (string + json \<times> string) \<times> op_db" where
  "sample_body rid db = (Inr (JObj [], ''reindexed=3''), db)"

theorem tracked_outcome_is_stored_witness:
  "\<exists>db'. run_tracked (\<lambda>_. sample_op_env) empty_db ''reindex'' [] ''internal'' sample_body =
     Some (Some (JObj [(''op_run_id'', JStr ''opr-n''), (''op_run_state'', JStr ''completed'')]), db') \<and>
     (\<exists>run'. get_run db' ''opr-n'' = Some run' \<and> r_state run' = Completed \<and> r_receipt run' = ''reindexed=3'')"
proof -
  let ?env = "\<lambda>_ :: nat. sample_op_env"
  let ?t = "run_tracked ?env empty_db ''reindex'' [] ''internal'' sample_body"
  have t: "trim ''reindex'' = ''reindex''" "char_count ''reindex'' = 7"
    by (simp_all add: trim_ascii char_count_ascii is_ascii_def is_whitespace_def)
  obtain run db1 where b: "op_run_begin sample_op_env empty_db ''reindex'' [] [] 2 ''internal'' = (Inr run, db1)"
      "r_id run = ''opr-n''" "get_run db1 ''opr-n'' = Some run" "r_state run = Queued"
    by (simp add: op_run_begin_def op_begin_Inr t new_id_def empty_db_def new_run_row_def sample_op_env_def
        get_run_def)
  let ?db2 = "snd (op_run_start sample_op_env db1 ''opr-n'')"
  obtain run2 where s: "op_run_start sample_op_env db1 ''opr-n'' = (Inr run2, ?db2)" "r_state run2 = Running"
    using b by (simp add: op_run_start_def op_start_def checked_def assert_state_def)
  then have run2: "run_status ''opr-n'' ?db2 = Some Running"
    unfolding op_run_start_def by (auto simp: run_status_def dest!: op_start_stored)
  have f: "sample_body (r_id run) (snd (op_run_start sample_op_env db1 (r_id run))) =
      (Inr (JObj [], ''reindexed=3''), ?db2)"
    by (simp add: sample_body_def b)
  obtain reply db' where out: "?t = Some (reply, db')"
    using b by (simp add: run_tracked_def sample_body_def Let_def)
  from tracked_outcome_is_stored [of ?env, OF b(1) f _ out] run2 b(2) out show ?thesis
    by (simp add: json_set_def)
qed

end
