(* ===== verification/Recall_Outcome.thy ===== *)
theory Recall_Outcome
  imports Prelude
begin

text \<open>
  The verdict on a recall: \<open>recall_outcome\<close>, its estimate of completeness and the deadline of
  \<open>src/src/db.rs\<close>, with the types of \<open>src/src/models.rs\<close>. What the functions ask of the
  running server (does the database answer, how many records are active and embedded, how
  many embedding jobs wait, is a backend enabled, the scan bound of the environment) is the
  record \<open>recall_health\<close>.
\<close>

datatype search_mode = Fts5 | Dense | Hybrid | Fused

datatype recall_status = RFresh | RPartial | RTimeout | RUnavailable | REmpty | RStale

datatype completeness = CExact | CBounded | CPartial | CAbstain

record backend_health =
  bh_enabled :: bool
  bh_query_embedding_available :: bool
  bh_embedded_memories :: int
  bh_active_memories :: int
  bh_pending_embed_jobs :: int

record recall_outcome =
  ro_status :: recall_status
  ro_abstained :: bool
  ro_reason :: string
  ro_deadline_elapsed :: bool
  ro_backend_health :: "backend_health option"
  ro_completeness :: "completeness option"

record recall_health =
  rh_db_responds :: bool
  rh_active_memories :: int
  rh_embedded_memories :: int
  rh_pending :: int
  rh_enabled :: bool
  rh_max_scan :: int

definition plain_outcome :: "recall_status \<Rightarrow> bool \<Rightarrow> string \<Rightarrow> backend_health \<Rightarrow> recall_outcome" where
  "plain_outcome status abstained reason health =
     \<lparr>ro_status = status, ro_abstained = abstained, ro_reason = reason, ro_deadline_elapsed = False,
      ro_backend_health = Some health, ro_completeness = None\<rparr>"

definition readiness :: "recall_health \<Rightarrow> bool \<times> int \<times> int" where
  "readiness h =
     (if rh_db_responds h then (True, rh_active_memories h, rh_embedded_memories h) else (False, 0, 0))"

definition recall_outcome_inner :: "recall_health \<Rightarrow> search_mode \<Rightarrow> bool \<Rightarrow> nat \<Rightarrow> string option \<Rightarrow> recall_outcome" where
  "recall_outcome_inner h mode query_embedding_available hits fatal_error =
     (let (db_responds, active, embedded) = readiness h;
          pending = rh_pending h;
          health = \<lparr>bh_enabled = rh_enabled h, bh_query_embedding_available = query_embedding_available,
            bh_embedded_memories = embedded, bh_active_memories = active, bh_pending_embed_jobs = pending\<rparr>
      in case fatal_error of
           Some err \<Rightarrow> plain_outcome RUnavailable True
             (if \<not> db_responds then ''db_unhealthy'' else ''recall_error:'' @ err) health
         | None \<Rightarrow>
             if (mode = Dense \<or> mode = Hybrid) \<and> \<not> query_embedding_available \<and> embedded = 0 then
               plain_outcome (if bh_enabled health then RStale else RUnavailable) True
                 ''semantic_backend_not_serving'' health
             else if hits > 0 then
               let semantic_served = (mode = Fts5 \<or> query_embedding_available);
                   degraded = (\<not> semantic_served \<or>
                     pending > 0 \<and> (mode = Dense \<or> mode = Hybrid \<or> mode = Fused))
               in plain_outcome (if degraded then RPartial else RFresh) False
                    (if degraded then (if \<not> semantic_served then ''partial_arms'' else ''pending_embeds'')
                     else []) health
             else
               let backend_behind = (pending > 0 \<or> (mode = Dense \<or> mode = Hybrid) \<and> embedded < active)
               in plain_outcome (if backend_behind then RStale else REmpty) True
                    (if \<not> db_responds then ''db_unhealthy''
                     else if active = 0 then ''empty_store''
                     else if backend_behind then ''index_behind''
                     else ''no_match'') health)"

definition estimate_completeness :: "recall_health \<Rightarrow> search_mode \<Rightarrow> recall_outcome \<Rightarrow> completeness" where
  "estimate_completeness h mode outcome =
     (if ro_abstained outcome then CAbstain
      else if mode = Fts5 then CExact
      else
        let population = (case ro_backend_health outcome of None \<Rightarrow> 0 | Some b \<Rightarrow> bh_embedded_memories b);
            bound = rh_max_scan h
        in if bound = i64_max \<or> population \<le> wrap64 bound then CExact else CBounded)"

definition recall_outcome :: "recall_health \<Rightarrow> search_mode \<Rightarrow> bool \<Rightarrow> nat \<Rightarrow> string option \<Rightarrow> recall_outcome" where
  "recall_outcome h mode query_embedding_available hits fatal_error =
     (let outcome = recall_outcome_inner h mode query_embedding_available hits fatal_error
      in outcome\<lparr>ro_completeness := Some (estimate_completeness h mode outcome)\<rparr>)"

definition apply_recall_deadline :: "recall_outcome \<Rightarrow> bool \<Rightarrow> recall_outcome" where
  "apply_recall_deadline outcome deadline_elapsed =
     (if deadline_elapsed \<and> (ro_status outcome = RFresh \<or> ro_status outcome = RPartial)
      then outcome\<lparr>ro_status := RTimeout,
             ro_reason := if ro_reason outcome = [] then ''deadline_elapsed'' else ro_reason outcome,
             ro_deadline_elapsed := True\<rparr>
      else outcome)"

section \<open>Properties\<close>

text \<open>
  C34. An empty or failed recall never passes for a healthy one: the verdict is fresh only when
  there were hits, no error, and the requested arms have served with no embedding job waiting;
  without hits, or after an error, the verdict abstains, is unavailable, empty or stale, and
  names a reason, and an elapsed deadline does not change that.
\<close>

theorem empty_recall_is_never_fresh:
  "let r = apply_recall_deadline (recall_outcome h mode q hits err) elapsed in
     (ro_status r = RFresh \<longrightarrow> hits > 0 \<and> err = None \<and> \<not> elapsed \<and>
        (mode = Fts5 \<or> q \<and> rh_pending h \<le> 0) \<and> ro_completeness r \<noteq> Some CAbstain) \<and>
     (hits = 0 \<or> err \<noteq> None \<longrightarrow> ro_abstained r \<and> ro_status r \<in> {RUnavailable, REmpty, RStale} \<and>
        ro_reason r \<noteq> [] \<and> ro_completeness r = Some CAbstain)"
  by (cases "err"; cases mode)
    (auto simp: recall_outcome_def recall_outcome_inner_def estimate_completeness_def plain_outcome_def
      apply_recall_deadline_def readiness_def Let_def split: if_splits)

definition sample_health :: recall_health where
  "sample_health = \<lparr>rh_db_responds = True, rh_active_memories = 3, rh_embedded_memories = 0, rh_pending = 0,
     rh_enabled = False, rh_max_scan = 50000\<rparr>"

theorem empty_recall_is_never_fresh_witness:
  "ro_status (apply_recall_deadline (recall_outcome sample_health Fts5 True 0 None) True) = REmpty \<and>
   ro_abstained (apply_recall_deadline (recall_outcome sample_health Fts5 True 0 None) True)"
proof -
  have "ro_status (apply_recall_deadline (recall_outcome sample_health Fts5 True 0 None) True) = REmpty"
    by (simp add: recall_outcome_def recall_outcome_inner_def plain_outcome_def apply_recall_deadline_def
        readiness_def sample_health_def)
  with empty_recall_is_never_fresh [of sample_health Fts5 True 0 None True] show ?thesis
    by (simp add: Let_def)
qed

end
