(* ===== verification/Read_Gate.thy ===== *)
theory Read_Gate
  imports Json Iso8601
begin

text \<open>
  The governed reads of \<open>src/src/db.rs\<close>: who may read a record, which lifecycle states are
  served, and the suppression of rejected and erased values, which also follows the sources
  a derived record names. The tables are lists of rows; a row has the columns these
  functions read. Outside the model are the JSON parser, SHA-256, the decryption of bodies
  and the Unicode tables of \<open>to_lowercase\<close>: they are the functions of the record
  \<open>gate_env\<close>. \<open>ge_decrypt\<close> is \<open>None\<close> in a store without encryption; otherwise it gives
  no text for a body that does not authenticate.
\<close>

section \<open>Rows\<close>

record gate_env =
  ge_digest :: digest_env
  ge_parse_json :: "string \<Rightarrow> json option"
  ge_parse_links :: "string \<Rightarrow> (string \<times> string) list option"
  ge_decrypt :: "(string \<Rightarrow> string \<Rightarrow> string \<Rightarrow> string option) option"
  ge_lower :: "string \<Rightarrow> string"

record entity_row =
  row_id :: string
  row_category :: string
  row_key :: string
  row_body_json :: string
  row_status :: string
  row_archived :: int
  row_links :: string
  row_workspace :: "string option"
  row_agent :: "string option"
  row_visibility :: "string option"
  row_created_at :: int
  row_valid_from :: "int option"
  row_valid_to :: "int option"
  row_invalidated_at :: "int option"

text \<open>The struct a row is read into; a link is its target and its relationship.\<close>

record entity =
  en_id :: string
  en_category :: string
  en_key :: string
  en_body_json :: string
  en_status :: string
  en_archived :: bool
  en_links :: "(string \<times> string) list"
  en_workspace_hash :: string
  en_agent_id :: string
  en_visibility :: string
  en_created_at :: int

record mandate =
  m_workspace :: string
  m_predicate :: string
  m_value_sha256 :: string
  m_expires_at :: "int option"

text \<open>The sidecar with the erasure mandates may be missing, or present with a schema the code
  refuses.\<close>

datatype overlay = Absent | Incompatible | Sidecar "mandate list"

record agent =
  ag_id :: string
  ag_trust_tier :: int
  ag_fleet_id :: string

record gate_db =
  gd_entities :: "entity_row list"
  gd_tombstones :: "mandate list"
  gd_overlay :: overlay
  gd_agents :: "agent list"

text \<open>\<open>RecallFailed\<close> is any error of the ranked retrieval.\<close>

datatype gate_error = IncompatibleSidecar | BodyAuthenticationFailed | RecallFailed string

fun gate_error_text :: "gate_error \<Rightarrow> string" where
  "gate_error_text IncompatibleSidecar = ''governance sidecar exists but has an incompatible schema''"
| "gate_error_text BodyAuthenticationFailed =
     ''Conversion error from type Text at index: 3, entity body authentication failed''"
| "gate_error_text (RecallFailed e) = e"

text \<open>A body as the read path sees it: none when its authentication fails.\<close>

definition open_body :: "gate_env \<Rightarrow> entity_row \<Rightarrow> string option" where
  "open_body env r =
     (case ge_decrypt env of
        None \<Rightarrow> Some (row_body_json r)
      | Some d \<Rightarrow> d (row_body_json r) (row_category r) (row_key r))"

definition entity_from_row :: "gate_env \<Rightarrow> entity_row \<Rightarrow> gate_error + entity" where
  "entity_from_row env r =
     bind_r (ok_or (open_body env r) BodyAuthenticationFailed) (\<lambda>body. Inr \<lparr>
       en_id = row_id r, en_category = row_category r, en_key = row_key r, en_body_json = body,
       en_status = row_status r, en_archived = (row_archived r \<noteq> 0),
       en_links = or_else (ge_parse_links env (row_links r)) [],
       en_workspace_hash = or_else (row_workspace r) [], en_agent_id = or_else (row_agent r) [],
       en_visibility = or_else (row_visibility r) ''workspace'', en_created_at = row_created_at r\<rparr>)"

section \<open>Digests of values\<close>

fun split_ws :: "rchar list \<Rightarrow> rchar list \<Rightarrow> rchar list list" where
  "split_ws acc [] = (if acc = [] then [] else [rev acc])"
| "split_ws acc (c # cs) =
     (if is_whitespace c then (if acc = [] then split_ws [] cs else rev acc # split_ws [] cs)
      else split_ws (c # acc) cs)"

fun join_ws :: "rchar list list \<Rightarrow> rchar list" where
  "join_ws [] = []"
| "join_ws [w] = w"
| "join_ws (w # v # ws) = w @ 32 # join_ws (v # ws)"

definition normalize_rejected_value :: "gate_env \<Rightarrow> string \<Rightarrow> string" where
  "normalize_rejected_value env v =
     (let canonical = (case ge_parse_json env v of
            Some j \<Rightarrow> json_text (ge_digest env) (case j of
                JObj ms \<Rightarrow> JObj (filter (\<lambda>m. fst m \<noteq> ''provenance'' \<and> fst m \<noteq> ''admission'') ms)
              | _ \<Rightarrow> j)
          | None \<Rightarrow> v)
      in ge_lower env (of_chars (join_ws (split_ws [] (chars canonical)))))"

definition rejected_value_digest :: "gate_env \<Rightarrow> string \<Rightarrow> string" where
  "rejected_value_digest env v = sha256_hex (ge_digest env) (normalize_rejected_value env v)"

section \<open>Expiry of a body\<close>

definition entity_expiry_ms :: "gate_env \<Rightarrow> string \<Rightarrow> int option" where
  "entity_expiry_ms env body =
     (case ge_parse_json env body of
        Some (JObj ms) \<Rightarrow>
          (case map_of ms ''expires_at'' of
             Some (JInt n) \<Rightarrow> if in_i64 n then Some n else None
           | Some (JStr s) \<Rightarrow>
               let t = trim s
               in if t \<noteq> [] \<and> all_digits t then parse_i64_digits t else parse_iso8601_ms t
           | _ \<Rightarrow> None)
      | _ \<Rightarrow> None)"

section \<open>Mandates\<close>

text \<open>The condition of the statements: workspace and predicate match or are empty, the digest
  is the one looked for, and, in the table that has one, the expiry has not passed.\<close>

definition mandate_matches :: "int option \<Rightarrow> string \<Rightarrow> string \<Rightarrow> mandate \<Rightarrow> bool" where
  "mandate_matches expiry_after ws cat m \<longleftrightarrow>
     (m_workspace m = [] \<or> m_workspace m = ws) \<and> (m_predicate m = [] \<or> m_predicate m = cat) \<and>
     (case expiry_after of None \<Rightarrow> True
      | Some now \<Rightarrow> (case m_expires_at m of None \<Rightarrow> True | Some x \<Rightarrow> x > now))"

definition mandate_hit :: "mandate list \<Rightarrow> int option \<Rightarrow> string \<Rightarrow> string \<Rightarrow> string \<Rightarrow> bool" where
  "mandate_hit table expiry_after ws cat digest \<longleftrightarrow>
     list_ex (\<lambda>m. mandate_matches expiry_after ws cat m \<and> m_value_sha256 m = digest) table"

function chunks :: "nat \<Rightarrow> 'a list \<Rightarrow> 'a list list" where
  "chunks n xs = (if n = 0 \<or> xs = [] then [] else take n xs # chunks n (drop n xs))"
  by pat_completeness auto
termination by (relation "measure (\<lambda>(n, xs). length xs)") auto

declare chunks.simps [simp del]

definition CHUNK :: nat where
  "CHUNK = 512"

text \<open>One statement for each chunk of digests of each pair of workspace and predicate.\<close>

definition chunk_hits :: "mandate list \<Rightarrow> int option \<Rightarrow> string \<Rightarrow> string \<Rightarrow> string list \<Rightarrow> (string \<times> string \<times> string) list" where
  "chunk_hits table expiry_after ws cat chunk =
     map (\<lambda>m. (ws, cat, m_value_sha256 m))
       (filter (\<lambda>m. mandate_matches expiry_after ws cat m \<and> m_value_sha256 m \<in> set chunk) table)"

definition mandate_hits_batched ::
    "mandate list \<Rightarrow> (string \<times> string \<times> string) list \<Rightarrow> int option \<Rightarrow> (string \<times> string \<times> string) list" where
  "mandate_hits_batched table triples expiry_after =
     concat (map (\<lambda>(ws, cat).
         concat (map (chunk_hits table expiry_after ws cat)
           (chunks CHUNK (map (\<lambda>(_, _, d). d) (filter (\<lambda>(w, c, _). w = ws \<and> c = cat) triples)))))
       (remdups (map (\<lambda>(ws, cat, _). (ws, cat)) triples)))"

definition value_suppressed :: "gate_env \<Rightarrow> gate_db \<Rightarrow> mandate list option \<Rightarrow> string \<Rightarrow> string \<Rightarrow> string \<Rightarrow> int \<Rightarrow> bool" where
  "value_suppressed env db sidecar ws predicate v now =
     (let digest = rejected_value_digest env v
      in mandate_hit (gd_tombstones db) (Some now) ws predicate digest \<or>
         (case sidecar of None \<Rightarrow> False | Some t \<Rightarrow> mandate_hit t None ws predicate digest))"

section \<open>Lineage\<close>

definition str_items :: "json \<Rightarrow> string \<Rightarrow> string list" where
  "str_items j field =
     (case j of JObj ms \<Rightarrow>
        (case map_of ms field of
           Some (JArr items) \<Rightarrow> List.map_filter (\<lambda>i. case i of JStr s \<Rightarrow> Some s | _ \<Rightarrow> None) items
         | _ \<Rightarrow> [])
      | _ \<Rightarrow> [])"

definition lineage_source_ids_from_body :: "gate_env \<Rightarrow> string \<Rightarrow> string list" where
  "lineage_source_ids_from_body env body =
     (case ge_parse_json env body of
        None \<Rightarrow> []
      | Some j \<Rightarrow> dedup_adj (sort (concat (map (str_items j)
          [''source_ids'', ''evidence_for'', ''promoted_from'']))))"

definition lineage_link :: "string \<times> string \<Rightarrow> bool" where
  "lineage_link l \<longleftrightarrow> snd l \<in> set [''evidence_for'', ''promoted_from'', ''derived_from'']"

definition lineage_source_ids :: "gate_env \<Rightarrow> entity \<Rightarrow> string list" where
  "lineage_source_ids env e =
     dedup_adj (sort (lineage_source_ids_from_body env (en_body_json e) @
       map fst (filter lineage_link (en_links e))))"

definition source_row :: "gate_db \<Rightarrow> string \<Rightarrow> entity_row option" where
  "source_row db sid = find (\<lambda>r. row_id r = sid) (gd_entities db)"

text \<open>The sources a source row names in turn.\<close>

definition nested_sources :: "gate_env \<Rightarrow> entity_row \<Rightarrow> string \<Rightarrow> string list" where
  "nested_sources env r body =
     dedup_adj (sort (lineage_source_ids_from_body env body @
       (case ge_parse_links env (row_links r) of
          None \<Rightarrow> []
        | Some links \<Rightarrow> map fst (filter lineage_link links))))"

text \<open>
  The walk over the sources: \<open>fuel\<close> is \<open>8 - depth\<close>, and the set of ids seen goes through
  all calls. With no depth left and sources still to visit, the record counts as suppressed.
\<close>

fun lineage_sources_suppressed ::
    "gate_env \<Rightarrow> gate_db \<Rightarrow> mandate list option \<Rightarrow> int \<Rightarrow> nat \<Rightarrow> string list \<Rightarrow> string list \<Rightarrow> bool \<times> string list"
where
  "lineage_sources_suppressed env db sc now fuel [] seen = (False, seen)"
| "lineage_sources_suppressed env db sc now 0 (sid # sids) seen = (True, seen)"
| "lineage_sources_suppressed env db sc now (Suc fuel) (sid # sids) seen =
     (if sid \<in> set seen then lineage_sources_suppressed env db sc now (Suc fuel) sids seen
      else
        let seen1 = sid # seen
        in case source_row db sid of
             None \<Rightarrow> lineage_sources_suppressed env db sc now (Suc fuel) sids seen1
           | Some r \<Rightarrow>
               (case open_body env r of
                  None \<Rightarrow> (True, seen1)
                | Some body \<Rightarrow>
                    if value_suppressed env db sc (or_else (row_workspace r) []) (row_category r) body now
                    then (True, seen1)
                    else
                      case lineage_sources_suppressed env db sc now fuel (nested_sources env r body) seen1 of
                        (True, seen2) \<Rightarrow> (True, seen2)
                      | (False, seen2) \<Rightarrow> lineage_sources_suppressed env db sc now (Suc fuel) sids seen2))"

definition derived_lineage_suppressed :: "gate_env \<Rightarrow> gate_db \<Rightarrow> mandate list option \<Rightarrow> entity \<Rightarrow> int \<Rightarrow> bool" where
  "derived_lineage_suppressed env db sc e now =
     fst (lineage_sources_suppressed env db sc now 8 (lineage_source_ids env e) [])"

section \<open>The filters\<close>

definition open_overlay :: "gate_db \<Rightarrow> gate_error + mandate list option" where
  "open_overlay db =
     (case gd_overlay db of
        Absent \<Rightarrow> Inr None
      | Incompatible \<Rightarrow> Inl IncompatibleSidecar
      | Sidecar t \<Rightarrow> Inr (Some t))"

definition filter_suppressed :: "gate_env \<Rightarrow> gate_db \<Rightarrow> int \<Rightarrow> entity list \<Rightarrow> gate_error + entity list" where
  "filter_suppressed env db now entities =
     (if entities = [] then Inr entities
      else bind_r (open_overlay db) (\<lambda>sidecar.
        let triple = (\<lambda>e. (en_workspace_hash e, en_category e, rejected_value_digest env (en_body_json e)));
            triples = map triple entities;
            primary = mandate_hits_batched (gd_tombstones db) triples (Some now);
            erased = (case sidecar of None \<Rightarrow> [] | Some t \<Rightarrow> mandate_hits_batched t triples None)
        in Inr (filter (\<lambda>e. \<not> (triple e \<in> set primary \<or> triple e \<in> set erased) \<and>
              \<not> derived_lineage_suppressed env db sidecar e now) entities)))"

definition ENTITY_STATUSES :: "string list" where
  "ENTITY_STATUSES = [''active'', ''draft'', ''deprecated'', ''expired'', ''proposed'', ''quarantined'',
     ''redacted'', ''compacted'']"

definition NON_SERVEABLE_STATUSES :: "string list" where
  "NON_SERVEABLE_STATUSES = [''deprecated'', ''expired'', ''proposed'', ''quarantined'', ''redacted'', ''compacted'']"

definition lower_text :: "string \<Rightarrow> string" where
  "lower_text s = of_chars (map to_ascii_lowercase (chars s))"

definition canonical_entity_status :: "string \<Rightarrow> string option" where
  "canonical_entity_status status =
     (let canonical = lower_text (trim status)
      in if canonical \<in> set ENTITY_STATUSES then Some canonical else None)"

definition entity_lifecycle_serveable :: "entity \<Rightarrow> bool" where
  "entity_lifecycle_serveable e \<longleftrightarrow>
     canonical_entity_status (en_status e) = Some (en_status e) \<and> \<not> en_archived e \<and>
     en_status e \<notin> set NON_SERVEABLE_STATUSES"

definition entity_pending_hidden :: "entity \<Rightarrow> bool" where
  "entity_pending_hidden e \<longleftrightarrow> \<not> entity_lifecycle_serveable e"

definition filter_direct_readable :: "gate_env \<Rightarrow> gate_db \<Rightarrow> int \<Rightarrow> entity list \<Rightarrow> gate_error + entity list" where
  "filter_direct_readable env db now entities =
     (let readable = filter (\<lambda>e. \<not> entity_pending_hidden e) entities
      in if readable = [] then Inr readable else filter_suppressed env db now readable)"

section \<open>Visibility\<close>

definition TRUST_TIER_UNSCOPED :: int where
  "TRUST_TIER_UNSCOPED = 3"

definition agent_get :: "gate_db \<Rightarrow> string \<Rightarrow> agent option" where
  "agent_get db aid = find (\<lambda>a. ag_id a = aid) (gd_agents db)"

definition agent_trust_tier :: "gate_db \<Rightarrow> string \<Rightarrow> int" where
  "agent_trust_tier db aid =
     (if aid = [] then TRUST_TIER_UNSCOPED
      else or_else (map_option ag_trust_tier (agent_get db aid)) 0)"

definition agent_fleet :: "gate_db \<Rightarrow> string \<Rightarrow> string option" where
  "agent_fleet db aid =
     (if aid = [] then None
      else case agent_get db aid of
        None \<Rightarrow> None
      | Some a \<Rightarrow> if ag_fleet_id a = [] then None else Some (ag_fleet_id a))"

definition can_read :: "gate_db \<Rightarrow> string \<Rightarrow> string \<Rightarrow> string \<Rightarrow> bool" where
  "can_read db requesting visibility owner =
     (let tier = agent_trust_tier db requesting
      in if tier \<ge> TRUST_TIER_UNSCOPED then True
         else if visibility = ''private'' then requesting = owner
         else if visibility = ''fleet'' then
           (if tier \<ge> 2 then True
            else case (agent_fleet db requesting, agent_fleet db owner) of
              (Some rf, Some of_) \<Rightarrow> rf = of_
            | _ \<Rightarrow> requesting = owner)
         else True)"

definition requester_can_read :: "gate_db \<Rightarrow> string option \<Rightarrow> string \<Rightarrow> string \<Rightarrow> bool" where
  "requester_can_read db requesting visibility owner =
     (case requesting of
        Some r \<Rightarrow> if trim r \<noteq> [] then can_read db r visibility owner
                  else \<not> (visibility = ''private'' \<or> visibility = ''fleet'')
      | None \<Rightarrow> \<not> (visibility = ''private'' \<or> visibility = ''fleet''))"

definition filter_for_requester ::
    "gate_env \<Rightarrow> gate_db \<Rightarrow> int \<Rightarrow> entity list \<Rightarrow> string option \<Rightarrow> gate_error + entity list" where
  "filter_for_requester env db now entities requesting =
     bind_r (filter_direct_readable env db now entities) (\<lambda>readable.
       Inr (filter (\<lambda>e. requester_can_read db requesting (en_visibility e) (en_agent_id e)) readable))"

section \<open>Reads\<close>

definition get_entity_by_id_raw :: "gate_env \<Rightarrow> gate_db \<Rightarrow> string \<Rightarrow> gate_error + entity option" where
  "get_entity_by_id_raw env db eid =
     (case find (\<lambda>r. row_id r = eid) (gd_entities db) of
        None \<Rightarrow> Inr None
      | Some r \<Rightarrow> bind_r (entity_from_row env r) (\<lambda>e. Inr (Some e)))"

definition get_entity_by_id_for_requester ::
    "gate_env \<Rightarrow> gate_db \<Rightarrow> int \<Rightarrow> string \<Rightarrow> string option \<Rightarrow> gate_error + entity option" where
  "get_entity_by_id_for_requester env db now eid requesting =
     bind_r (get_entity_by_id_raw env db eid) (\<lambda>raw.
       case raw of
         None \<Rightarrow> Inr None
       | Some e \<Rightarrow> bind_r (filter_for_requester env db now [e] requesting) (\<lambda>kept.
           Inr (case kept of [] \<Rightarrow> None | k # _ \<Rightarrow> Some k)))"

text \<open>The lookup of a caller without an identity of its own, \<open>kept.pop()\<close> being the last one kept.\<close>

definition get_entity_by_id :: "gate_env \<Rightarrow> gate_db \<Rightarrow> int \<Rightarrow> string \<Rightarrow> gate_error + entity option" where
  "get_entity_by_id env db now eid =
     bind_r (get_entity_by_id_raw env db eid) (\<lambda>raw.
       case raw of
         None \<Rightarrow> Inr None
       | Some e \<Rightarrow> bind_r (filter_direct_readable env db now [e]) (\<lambda>kept.
           Inr (if kept = [] then None else Some (last kept))))"

text \<open>\<open>recall\<close> is the ranked retrieval, which is not modelled.\<close>

definition recall_for_requester ::
    "gate_env \<Rightarrow> gate_db \<Rightarrow> int \<Rightarrow> gate_error + entity list \<Rightarrow> string option \<Rightarrow> gate_error + entity list" where
  "recall_for_requester env db now recall requesting =
     bind_r recall (\<lambda>entities. filter_for_requester env db now entities requesting)"

end
