(* ===== verification/Read_Guarantees.thy ===== *)
theory Read_Guarantees
  imports Read_Gate
begin

text \<open>
  What the governed reads promise: the batched lookup of mandates agrees with the statement
  for one row, a record that is served is in a served state, visible to its reader and not
  suppressed, neither itself nor any source it was derived from, and an unusable sidecar
  stops all reads.
\<close>

section \<open>Batched mandates\<close>

lemma concat_chunks: "0 < n \<Longrightarrow> concat (chunks n xs) = xs"
proof (induction n xs rule: chunks.induct)
  case (1 n xs)
  then show ?case by (subst chunks.simps) auto
qed

lemma set_chunk_hits:
  "(w, c, d) \<in> set (chunk_hits table ex ws cat chunk) \<longleftrightarrow>
     w = ws \<and> c = cat \<and> d \<in> set chunk \<and> mandate_hit table ex ws cat d"
  by (auto simp: chunk_hits_def mandate_hit_def list_ex_iff)

lemma mandate_hits_batched_iff:
  "(ws, cat, d) \<in> set (mandate_hits_batched table triples ex) \<longleftrightarrow>
     (ws, cat, d) \<in> set triples \<and> mandate_hit table ex ws cat d"
proof -
  let ?ds = "\<lambda>ws cat. map (\<lambda>(_, _, d). d) (filter (\<lambda>(w, c, _). w = ws \<and> c = cat) triples)"
  have mem: "d \<in> set (?ds ws cat) \<longleftrightarrow> (ws, cat, d) \<in> set triples" for ws cat d by force
  have chunk: "(\<exists>ch \<in> set (chunks CHUNK xs). d \<in> set ch) \<longleftrightarrow> d \<in> set xs" for d and xs :: "string list"
    using arg_cong [OF concat_chunks [of CHUNK xs], of set] by (auto simp: CHUNK_def)
  have "(ws, cat, d) \<in> set (mandate_hits_batched table triples ex) \<longleftrightarrow>
      (ws, cat) \<in> set (map (\<lambda>(ws, cat, _). (ws, cat)) triples) \<and>
      (\<exists>ch \<in> set (chunks CHUNK (?ds ws cat)). d \<in> set ch) \<and> mandate_hit table ex ws cat d"
    by (force simp: mandate_hits_batched_def set_chunk_hits)
  then show ?thesis unfolding chunk mem by force
qed

text \<open>
  The batched lookup agrees with the statement for a single row: a candidate is in the
  set of hits exactly when some row of the table matches its workspace, its predicate and its
  digest and has not expired, whatever the other candidates are.
\<close>

theorem batched_hits_agree:
  assumes "(ws, cat, d) \<in> set triples"
  shows "(ws, cat, d) \<in> set (mandate_hits_batched table triples ex) \<longleftrightarrow> mandate_hit table ex ws cat d"
  using assms by (simp add: mandate_hits_batched_iff)

definition sample_mandate :: mandate where
  "sample_mandate = \<lparr>m_workspace = [], m_predicate = ''note'', m_value_sha256 = ''d1'', m_expires_at = Some 10\<rparr>"

theorem batched_hits_agree_witness:
  "(''w'', ''note'', ''d1'') \<in> set (mandate_hits_batched [sample_mandate]
     [(''w'', ''note'', ''d0''), (''w'', ''note'', ''d1'')] (Some 9))"
  using batched_hits_agree [of "''w''" "''note''" "''d1''" "[(''w'', ''note'', ''d0''), (''w'', ''note'', ''d1'')]"
      "[sample_mandate]" "Some 9"]
  by (simp add: mandate_hit_def mandate_matches_def sample_mandate_def)

section \<open>Lineage\<close>

definition source_clean :: "gate_env \<Rightarrow> gate_db \<Rightarrow> mandate list option \<Rightarrow> int \<Rightarrow> string \<Rightarrow> bool" where
  "source_clean env db sc now sid \<longleftrightarrow>
     (case source_row db sid of
        None \<Rightarrow> True
      | Some r \<Rightarrow> (case open_body env r of
          None \<Rightarrow> False
        | Some body \<Rightarrow> \<not> value_suppressed env db sc (or_else (row_workspace r) []) (row_category r) body now))"

definition sources_of :: "gate_env \<Rightarrow> gate_db \<Rightarrow> string \<Rightarrow> string set" where
  "sources_of env db sid =
     (case source_row db sid of
        None \<Rightarrow> {}
      | Some r \<Rightarrow> (case open_body env r of None \<Rightarrow> {} | Some body \<Rightarrow> set (nested_sources env r body)))"

text \<open>The ids from which a record is derived, directly or through other records.\<close>

inductive derived_from :: "gate_env \<Rightarrow> gate_db \<Rightarrow> string set \<Rightarrow> string \<Rightarrow> bool" for env db roots where
  root: "sid \<in> roots \<Longrightarrow> derived_from env db roots sid"
| nested: "derived_from env db roots sid \<Longrightarrow> tid \<in> sources_of env db sid \<Longrightarrow> derived_from env db roots tid"

text \<open>A walk that finds nothing has seen all ids it was given, and everything it saw is clean
  and has its sources seen.\<close>

lemma lineage_walk:
  "lineage_sources_suppressed env db sc now fuel sids seen = (False, seen') \<Longrightarrow>
   set sids \<subseteq> set seen' \<and> set seen \<subseteq> set seen' \<and>
   (\<forall>x \<in> set seen' - set seen. source_clean env db sc now x \<and> sources_of env db x \<subseteq> set seen')"
proof (induction env db sc now fuel sids seen arbitrary: seen' rule: lineage_sources_suppressed.induct)
  case (3 env db sc now fuel sid sids seen)
  show ?case
  proof (cases "sid \<in> set seen")
    case True
    with "3.prems" "3.IH"(1) show ?thesis by auto
  next
    case new: False
    show ?thesis
    proof (cases "source_row db sid")
      case None
      have *: "source_clean env db sc now sid" "sources_of env db sid = {}"
        using None by (simp_all add: source_clean_def sources_of_def)
      have "set sids \<subseteq> set seen' \<and> set (sid # seen) \<subseteq> set seen' \<and>
          (\<forall>x \<in> set seen' - set (sid # seen). source_clean env db sc now x \<and> sources_of env db x \<subseteq> set seen')"
        using "3.IH"(2) [OF new refl None] "3.prems" new None by simp
      with * show ?thesis by auto
    next
      case (Some r)
      obtain body where body: "open_body env r = Some body"
          and ok: "\<not> value_suppressed env db sc (or_else (row_workspace r) []) (row_category r) body now"
        using "3.prems" new Some by (auto simp: Let_def split: option.splits if_splits)
      obtain seen2 where inner: "lineage_sources_suppressed env db sc now fuel (nested_sources env r body) (sid # seen) = (False, seen2)"
          and rest: "lineage_sources_suppressed env db sc now (Suc fuel) sids seen2 = (False, seen')"
        using "3.prems" new Some body ok by (auto simp: Let_def split: prod.splits bool.splits)
      note in1 = "3.IH"(3) [OF new refl Some body ok inner]
      note in2 = "3.IH"(4) [OF new refl Some body ok inner [symmetric] refl rest]
      have "source_clean env db sc now sid" "sources_of env db sid = set (nested_sources env r body)"
        using Some body ok by (simp_all add: source_clean_def sources_of_def)
      moreover have "set seen2 \<subseteq> set seen'" using in2 by blast
      ultimately have "source_clean env db sc now x \<and> sources_of env db x \<subseteq> set seen'"
        if "x \<in> set seen' - set seen" for x
        using that in1 in2 by (cases "x = sid"; cases "x \<in> set seen2") (simp_all, blast+)
      with in1 in2 show ?thesis by auto
    qed
  qed
qed auto

lemma lineage_closed:
  assumes "\<not> derived_lineage_suppressed env db sc e now"
    and "derived_from env db (set (lineage_source_ids env e)) sid"
  shows "source_clean env db sc now sid"
proof -
  obtain seen where walk: "lineage_sources_suppressed env db sc now 8 (lineage_source_ids env e) [] = (False, seen)"
    using assms(1) by (cases "lineage_sources_suppressed env db sc now 8 (lineage_source_ids env e) []")
      (auto simp: derived_lineage_suppressed_def)
  note closed = lineage_walk [OF this]
  from assms(2) have "sid \<in> set seen"
    by induction (use closed in auto)
  with closed show ?thesis by auto
qed


section \<open>What is served\<close>

lemma filter_suppressed_mem:
  assumes "filter_suppressed env db now es = Inr kept" and "e \<in> set kept"
  shows "e \<in> set es \<and> (\<exists>sc. open_overlay db = Inr sc \<and>
    \<not> value_suppressed env db sc (en_workspace_hash e) (en_category e) (en_body_json e) now \<and>
    \<not> derived_lineage_suppressed env db sc e now)"
proof -
  have "es \<noteq> []" using assms by (auto simp: filter_suppressed_def)
  with assms obtain sc where sc: "open_overlay db = Inr sc"
    by (auto simp: filter_suppressed_def bind_r_Inr)
  let ?t = "\<lambda>e. (en_workspace_hash e, en_category e, rejected_value_digest env (en_body_json e))"
  have "e \<in> set es" and "\<not> derived_lineage_suppressed env db sc e now"
    and p: "?t e \<notin> set (mandate_hits_batched (gd_tombstones db) (map ?t es) (Some now))"
    and s: "?t e \<notin> set (case sc of None \<Rightarrow> [] | Some t \<Rightarrow> mandate_hits_batched t (map ?t es) None)"
    using assms sc \<open>es \<noteq> []\<close> by (auto simp: filter_suppressed_def Let_def)
  moreover from \<open>e \<in> set es\<close> have "?t e \<in> set (map ?t es)" by simp
  then have "\<not> value_suppressed env db sc (en_workspace_hash e) (en_category e) (en_body_json e) now"
    using p s unfolding value_suppressed_def Let_def
    by (cases sc) (simp_all only: mandate_hits_batched_iff option.case simp_thms)
  ultimately show ?thesis using sc by blast
qed

lemma filter_suppressed_keeps:
  assumes "open_overlay db = Inr sc" and "e \<in> set es"
    and "\<not> value_suppressed env db sc (en_workspace_hash e) (en_category e) (en_body_json e) now"
    and "\<not> derived_lineage_suppressed env db sc e now"
  shows "\<exists>kept. filter_suppressed env db now es = Inr kept \<and> e \<in> set kept"
  using assms
  by (cases sc) (auto simp: filter_suppressed_def Let_def value_suppressed_def mandate_hits_batched_iff)

lemma serveable_status: "entity_lifecycle_serveable e \<Longrightarrow> en_status e = ''active'' \<or> en_status e = ''draft''"
proof -
  assume a: "entity_lifecycle_serveable e"
  then have "en_status e \<in> set ENTITY_STATUSES"
    by (auto simp: entity_lifecycle_serveable_def canonical_entity_status_def Let_def split: if_splits)
  with a show ?thesis
    by (simp add: entity_lifecycle_serveable_def ENTITY_STATUSES_def NON_SERVEABLE_STATUSES_def)
qed

lemma raw_id: "get_entity_by_id_raw env db eid = Inr (Some e) \<Longrightarrow> en_id e = eid"
  by (auto simp: get_entity_by_id_raw_def entity_from_row_def bind_r_Inr find_Some_iff split: option.splits)

lemma filter_for_requester_mem:
  assumes "filter_for_requester env db now es req = Inr kept" and "e \<in> set kept"
  shows "e \<in> set es \<and> entity_lifecycle_serveable e \<and>
    requester_can_read db req (en_visibility e) (en_agent_id e) \<and>
    (\<exists>sc. open_overlay db = Inr sc \<and>
       \<not> value_suppressed env db sc (en_workspace_hash e) (en_category e) (en_body_json e) now \<and>
       \<not> derived_lineage_suppressed env db sc e now)"
proof -
  from assms obtain readable where r: "filter_direct_readable env db now es = Inr readable"
      "e \<in> set readable" "requester_can_read db req (en_visibility e) (en_agent_id e)"
    by (auto simp: filter_for_requester_def bind_r_Inr)
  then have "filter_suppressed env db now (filter (\<lambda>e. \<not> entity_pending_hidden e) es) = Inr readable"
    by (auto simp: filter_direct_readable_def Let_def split: if_splits)
  from filter_suppressed_mem [OF this r(2)] r(3) show ?thesis
    by (auto simp: entity_pending_hidden_def)
qed

text \<open>
  C3. Every record a governed recall gives out, whatever the ranking found, is active or a draft and not archived, may be read by the requester, and is not suppressed: no
  tombstone in force and no erasure mandate matches it, and none matches any record it was
  derived from, through any number of steps; and every such source that is stored could be
  authenticated.
\<close>

theorem served_records_are_governed:
  assumes "recall_for_requester env db now recalled req = Inr served" and "e \<in> set served"
  shows "(en_status e = ''active'' \<or> en_status e = ''draft'') \<and> \<not> en_archived e \<and>
    requester_can_read db req (en_visibility e) (en_agent_id e) \<and>
    (\<exists>sc. open_overlay db = Inr sc \<and>
       \<not> value_suppressed env db sc (en_workspace_hash e) (en_category e) (en_body_json e) now \<and>
       (\<forall>sid. derived_from env db (set (lineage_source_ids env e)) sid \<longrightarrow> source_clean env db sc now sid))"
proof -
  from assms(1) obtain es where "filter_for_requester env db now es req = Inr served"
    by (auto simp: recall_for_requester_def bind_r_Inr)
  note m = filter_for_requester_mem [OF this assms(2)]
  from m have "en_status e = ''active'' \<or> en_status e = ''draft''" by (intro serveable_status) blast
  moreover have "\<not> en_archived e" using m by (simp add: entity_lifecycle_serveable_def)
  ultimately show ?thesis using m lineage_closed by blast
qed

definition sample_gate_env :: gate_env where
  "sample_gate_env = \<lparr>ge_digest = sample_env, ge_parse_json = (\<lambda>_. None), ge_parse_links = (\<lambda>_. None),
     ge_decrypt = None, ge_lower = (\<lambda>s. s)\<rparr>"

definition sample_row :: entity_row where
  "sample_row = \<lparr>row_id = ''e1'', row_category = ''note'', row_key = ''k'', row_body_json = ''b'',
     row_status = ''active'', row_archived = 0, row_links = [], row_workspace = Some ''w'', row_agent = Some ''a1'',
     row_visibility = Some ''private'', row_created_at = 1, row_valid_from = None, row_valid_to = None,
     row_invalidated_at = None\<rparr>"

definition sample_gate_db :: gate_db where
  "sample_gate_db = \<lparr>gd_entities = [sample_row], gd_tombstones = [], gd_overlay = Absent, gd_agents = []\<rparr>"

definition sample_entity :: entity where
  "sample_entity = \<lparr>en_id = ''e1'', en_category = ''note'', en_key = ''k'', en_body_json = ''b'', en_status = ''active'',
     en_archived = False, en_links = [], en_workspace_hash = ''w'', en_agent_id = ''a1'', en_visibility = ''private'',
     en_created_at = 1\<rparr>"

lemma lower_text_ascii:
  assumes "is_ascii s" and "list_all (\<lambda>c. \<not> is_ascii_uppercase (of_char c)) s"
  shows "lower_text s = s"
proof -
  have eq: "map (to_ascii_lowercase \<circ> of_char) s = map of_char s"
    using assms(2) by (auto simp: list_all_iff to_ascii_lowercase_def)
  show ?thesis
    unfolding lower_text_def chars_ascii [OF assms(1)] map_map eq by (rule of_chars_ascii [OF assms(1)])
qed

lemma lower_text_statuses: "lower_text (trim ''active'') = ''active''" "trim ''a1'' = ''a1''"
  by (simp_all add: trim_ascii lower_text_ascii is_ascii_def is_whitespace_def is_ascii_uppercase_def)

lemma sample_served:
  "filter_for_requester sample_gate_env sample_gate_db 5 [sample_entity] (Some ''a1'') = Inr [sample_entity]"
proof -
  have "entity_lifecycle_serveable sample_entity"
    by (simp add: entity_lifecycle_serveable_def canonical_entity_status_def sample_entity_def lower_text_statuses
        ENTITY_STATUSES_def NON_SERVEABLE_STATUSES_def)
  moreover have "lineage_source_ids sample_gate_env sample_entity = []"
    by (simp add: lineage_source_ids_def lineage_source_ids_from_body_def sample_gate_env_def sample_entity_def)
  then have "\<not> derived_lineage_suppressed sample_gate_env sample_gate_db None sample_entity 5"
    by (simp add: derived_lineage_suppressed_def)
  moreover have "mandate_hits_batched [] ts ex = []" for ts ex
    by (auto simp: mandate_hits_batched_def chunk_hits_def)
  ultimately have "filter_direct_readable sample_gate_env sample_gate_db 5 [sample_entity] = Inr [sample_entity]"
    by (simp add: filter_direct_readable_def entity_pending_hidden_def filter_suppressed_def open_overlay_def
        sample_gate_db_def Let_def)
  then show ?thesis
    by (simp add: filter_for_requester_def requester_can_read_def lower_text_statuses can_read_def sample_entity_def)
qed

theorem served_records_are_governed_witness:
  "requester_can_read sample_gate_db (Some ''a1'') ''private'' ''a1'' \<and>
   (\<exists>sc. open_overlay sample_gate_db = Inr sc \<and> \<not> value_suppressed sample_gate_env sample_gate_db sc ''w'' ''note'' ''b'' 5)"
proof -
  have "recall_for_requester sample_gate_env sample_gate_db 5 (Inr [sample_entity]) (Some ''a1'') = Inr [sample_entity]"
    by (simp add: recall_for_requester_def sample_served)
  from served_records_are_governed [OF this, of sample_entity] show ?thesis
    by (auto simp: sample_entity_def)
qed


lemma first_kept: "(case kept of [] \<Rightarrow> None | k # _ \<Rightarrow> Some k) = Some e \<longleftrightarrow> (\<exists>t. kept = e # t)"
  by (cases kept) auto

text \<open>
  C33. A lookup by id gives exactly the stored record that passes every gate: it returns the
  record when its body authenticates, its state is served, its reader may see it and neither
  the record nor its lineage is suppressed, and nothing in every other case.
\<close>

theorem lookup_serves_exactly_governed:
  assumes "open_overlay db = Inr sc"
  shows "get_entity_by_id_for_requester env db now eid req = Inr (Some e) \<longleftrightarrow>
    (\<exists>r. find (\<lambda>r. row_id r = eid) (gd_entities db) = Some r \<and> entity_from_row env r = Inr e) \<and>
    entity_lifecycle_serveable e \<and> requester_can_read db req (en_visibility e) (en_agent_id e) \<and>
    \<not> value_suppressed env db sc (en_workspace_hash e) (en_category e) (en_body_json e) now \<and>
    \<not> derived_lineage_suppressed env db sc e now"
  (is "?L \<longleftrightarrow> ?raw \<and> ?gates")
proof
  assume ?L
  then obtain e0 kept where e0: "get_entity_by_id_raw env db eid = Inr (Some e0)"
      and kept: "filter_for_requester env db now [e0] req = Inr kept" "kept \<noteq> []" "e = hd kept"
    by (auto simp: get_entity_by_id_for_requester_def bind_r_Inr first_kept split: option.splits)
  then have "e \<in> set kept" by simp
  from filter_for_requester_mem [OF kept(1) this] assms e0
  show "?raw \<and> ?gates"
    by (auto simp: get_entity_by_id_raw_def bind_r_Inr split: option.splits)
next
  assume g: "?raw \<and> ?gates"
  have "filter_suppressed env db now [e] = Inr [e]"
    using g assms filter_suppressed_keeps [of db sc e "[e]" env now]
    by (auto simp: filter_suppressed_def bind_r_Inr Let_def split: if_splits)
  then have "filter_for_requester env db now [e] req = Inr [e]"
    using g by (simp add: filter_for_requester_def filter_direct_readable_def entity_pending_hidden_def)
  moreover have "get_entity_by_id_raw env db eid = Inr (Some e)"
    using g by (auto simp: get_entity_by_id_raw_def)
  ultimately show ?L by (simp add: get_entity_by_id_for_requester_def)
qed

lemma sample_raw: "get_entity_by_id_raw sample_gate_env sample_gate_db ''e1'' = Inr (Some sample_entity)"
  by (simp add: get_entity_by_id_raw_def sample_gate_db_def entity_from_row_def sample_row_def open_body_def
      sample_gate_env_def sample_entity_def or_else_def)

lemma sample_lookup:
  "get_entity_by_id_for_requester sample_gate_env sample_gate_db 5 ''e1'' (Some ''a1'') = Inr (Some sample_entity)"
  by (simp add: get_entity_by_id_for_requester_def sample_raw sample_served)

theorem lookup_serves_exactly_governed_witness:
  "get_entity_by_id_for_requester sample_gate_env sample_gate_db 5 ''e1'' (Some ''a1'') = Inr (Some sample_entity) \<and>
   requester_can_read sample_gate_db (Some ''a1'') ''private'' ''a1''"
proof -
  have o: "open_overlay sample_gate_db = Inr None" by (simp add: open_overlay_def sample_gate_db_def)
  with lookup_serves_exactly_governed [OF o, of sample_gate_env 5 "''e1''" "Some ''a1''" sample_entity] sample_lookup
  show ?thesis by (simp add: sample_entity_def)
qed

section \<open>Who may read\<close>

text \<open>
  The rule of visibility, in full: a private record is for its author and for agents of
  trust tier three; a record of a fleet also for tier two and for members of the author's
  fleet; every other visibility is open. A reader without identity, or with a blank one, is
  anonymous and sees neither private nor fleet records.
\<close>

theorem visibility_rule:
  "requester_can_read db req visibility owner \<longleftrightarrow>
     (visibility \<noteq> ''private'' \<and> visibility \<noteq> ''fleet'') \<or>
     (\<exists>r. req = Some r \<and> trim r \<noteq> [] \<and>
        (agent_trust_tier db r \<ge> 3 \<or>
         visibility = ''private'' \<and> r = owner \<or>
         visibility = ''fleet'' \<and> (agent_trust_tier db r \<ge> 2 \<or>
           (case (agent_fleet db r, agent_fleet db owner) of
              (Some f, Some g) \<Rightarrow> f = g | _ \<Rightarrow> r = owner))))"
  by (auto simp: requester_can_read_def can_read_def TRUST_TIER_UNSCOPED_def Let_def
      split: option.splits if_splits)

section \<open>Failing closed\<close>

text \<open>
  While the sidecar with the erasure mandates is unusable, no governed read gives out a
  record.
\<close>

theorem unusable_sidecar_stops_reads:
  assumes "gd_overlay db = Incompatible"
  shows "get_entity_by_id_for_requester env db now eid req \<noteq> Inr (Some e) \<and>
    (recall_for_requester env db now recalled req = Inr served \<longrightarrow> served = [])"
proof
  have o: "open_overlay db = Inl IncompatibleSidecar" using assms by (simp add: open_overlay_def)
  have none: "kept = []" if "filter_for_requester env db now es req = Inr kept" for es kept
    using filter_for_requester_mem [OF that] o by (cases kept) auto
  show "get_entity_by_id_for_requester env db now eid req \<noteq> Inr (Some e)"
    using none by (auto simp: get_entity_by_id_for_requester_def bind_r_Inr split: option.splits list.splits)
  show "recall_for_requester env db now recalled req = Inr served \<longrightarrow> served = []"
    using none by (auto simp: recall_for_requester_def bind_r_Inr)
qed

theorem unusable_sidecar_stops_reads_witness:
  "get_entity_by_id_for_requester sample_gate_env (sample_gate_db\<lparr>gd_overlay := Incompatible\<rparr>) 5 ''e1'' (Some ''a1'') \<noteq>
     Inr (Some sample_entity)"
  using unusable_sidecar_stops_reads [of "sample_gate_db\<lparr>gd_overlay := Incompatible\<rparr>" sample_gate_env 5 "''e1''" "Some ''a1''" sample_entity]
  by simp

text \<open>
  A source that is named but no longer stored does not suppress: a record whose only
  sources are missing rows passes the walk.
\<close>

theorem missing_sources_pass:
  assumes "\<And>sid. sid \<in> set (lineage_source_ids env e) \<Longrightarrow> source_row db sid = None"
  shows "\<not> derived_lineage_suppressed env db sc e now"
proof -
  have "\<not> fst (lineage_sources_suppressed env db sc now (Suc n) sids seen)"
    if "\<And>sid. sid \<in> set sids \<Longrightarrow> source_row db sid = None" for n sids seen
    using that by (induction sids arbitrary: seen) (auto simp: Let_def)
  from this [of "lineage_source_ids env e" 7 "[]"] assms show ?thesis
    by (simp add: derived_lineage_suppressed_def numeral_eq_Suc)
qed

theorem missing_sources_pass_witness:
  "\<not> derived_lineage_suppressed sample_gate_env sample_gate_db None (sample_entity\<lparr>en_links := [(''gone'', ''derived_from'')]\<rparr>) 5"
proof (rule missing_sources_pass)
  have "lineage_source_ids sample_gate_env (sample_entity\<lparr>en_links := [(''gone'', ''derived_from'')]\<rparr>) = [''gone'']"
    by (simp add: lineage_source_ids_def lineage_source_ids_from_body_def sample_gate_env_def lineage_link_def)
  then show "source_row sample_gate_db sid = None"
    if "sid \<in> set (lineage_source_ids sample_gate_env (sample_entity\<lparr>en_links := [(''gone'', ''derived_from'')]\<rparr>))" for sid
    using that by (simp add: source_row_def sample_gate_db_def sample_row_def)
qed

end
