(* ===== verification/Task_State.thy ===== *)
theory Task_State
  imports Json Recall_Outcome
begin

text \<open>
  The task states of \<open>src/src/task_state.rs\<close>: the request, the persisted state, their
  validation and the digests that seal a state. A check is a value of the result type, a
  chain of checks is \<open>check_all\<close>, and the loops that also reject duplicates are
  \<open>unique_loop\<close>; messages are those of the code.
\<close>

section \<open>Outcomes and limits\<close>

definition TASK_STATE_SCHEMA_VERSION :: string where
  "TASK_STATE_SCHEMA_VERSION = ''perseus-vault-task-state/v1''"

definition MAX_ID_CHARS :: nat where "MAX_ID_CHARS = 256"
definition MAX_TASK_ID_CHARS :: nat where "MAX_TASK_ID_CHARS = 128"
definition MAX_ROUTE_CHARS :: nat where "MAX_ROUTE_CHARS = 64"
definition MAX_OBJECTIVE_CHARS :: nat where "MAX_OBJECTIVE_CHARS = 512"
definition MAX_CONSTRAINTS :: nat where "MAX_CONSTRAINTS = 32"
definition MAX_CONSTRAINT_CHARS :: nat where "MAX_CONSTRAINT_CHARS = 256"
definition MAX_EVIDENCE_REFS :: nat where "MAX_EVIDENCE_REFS = 256"
definition MAX_SLOTS :: nat where "MAX_SLOTS = 128"
definition MAX_SLOT_REASON_CHARS :: nat where "MAX_SLOT_REASON_CHARS = 256"
definition MAX_CONFLICTS :: nat where "MAX_CONFLICTS = 128"
definition MAX_NEXT_STEP_REASON_CHARS :: nat where "MAX_NEXT_STEP_REASON_CHARS = 256"

datatype task_state_outcome = Complete | Partial | Degraded | Abstained | Unavailable

fun outcome_str :: "task_state_outcome \<Rightarrow> string" where
  "outcome_str Complete = ''complete''"
| "outcome_str Partial = ''partial''"
| "outcome_str Degraded = ''degraded''"
| "outcome_str Abstained = ''abstained''"
| "outcome_str Unavailable = ''unavailable''"

definition parse_outcome :: "string \<Rightarrow> task_state_outcome result" where
  "parse_outcome v =
     (if v = ''complete'' then Inr Complete
      else if v = ''partial'' then Inr Partial
      else if v = ''degraded'' then Inr Degraded
      else if v = ''abstained'' then Inr Abstained
      else if v = ''unavailable'' then Inr Unavailable
      else Inl (''unsupported task-state outcome '' @ quoted (v)))"

section \<open>Texts and digests\<close>

definition ensure_text_without_control :: "string \<Rightarrow> bool" where
  "ensure_text_without_control v \<longleftrightarrow> \<not> list_ex is_control (chars v)"

definition validate_text :: "string \<Rightarrow> string \<Rightarrow> nat \<Rightarrow> unit result" where
  "validate_text label v max_chars =
     (if trim v = [] then Inl (label @ '' must be non-empty'')
      else if char_count v > max_chars \<or> \<not> ensure_text_without_control v
      then Inl (label @ '' is invalid or exceeds '' @ show_nat max_chars @ '' characters'')
      else Inr ())"

definition validate_sha256 :: "string \<Rightarrow> string \<Rightarrow> unit result" where
  "validate_sha256 label v =
     (if \<not> lower_hex64 v then Inl (label @ '' must be a lowercase SHA-256 digest'') else Inr ())"

definition validate_optional_digest :: "string \<Rightarrow> string option \<Rightarrow> unit result" where
  "validate_optional_digest label v = (case v of None \<Rightarrow> Inr () | Some d \<Rightarrow> validate_sha256 label d)"

definition domain_digest :: "digest_env \<Rightarrow> string \<Rightarrow> json \<Rightarrow> string" where
  "domain_digest env domain v =
     sha256_hex env (domain @ ''|'' @ json_text env (canonical_value v))"

section \<open>The parts of a state\<close>

record task_state_scope =
  sc_tenant_id :: string
  sc_workspace_hash :: string
  sc_principal_id :: string
  sc_agent_id :: string
  sc_task_id :: string

definition scope_validate :: "task_state_scope \<Rightarrow> unit result" where
  "scope_validate s = check_all
     [validate_text ''tenant_id'' (sc_tenant_id s) MAX_ID_CHARS,
      validate_text ''workspace_hash'' (sc_workspace_hash s) MAX_ID_CHARS,
      validate_text ''principal_id'' (sc_principal_id s) MAX_ID_CHARS,
      validate_text ''agent_id'' (sc_agent_id s) MAX_ID_CHARS,
      validate_text ''task_id'' (sc_task_id s) MAX_TASK_ID_CHARS,
      guard_r (sc_tenant_id s \<noteq> sc_workspace_hash s)
        ''tenant_id must equal workspace_hash for task state'',
      guard_r (sc_principal_id s \<noteq> sc_agent_id s)
        ''principal_id and agent_id must match for task state'']"

record task_evidence_reference =
  er_entity_id :: string
  er_source_id :: string
  er_revision :: string
  er_source_digest :: string
  er_evidence_digest :: string

definition reference_validate :: "string \<Rightarrow> task_evidence_reference \<Rightarrow> unit result" where
  "reference_validate label r = check_all
     [validate_text (label @ ''.entity_id'') (er_entity_id r) MAX_ID_CHARS,
      validate_text (label @ ''.source_id'') (er_source_id r) MAX_ID_CHARS,
      validate_text (label @ ''.revision'') (er_revision r) MAX_ID_CHARS,
      validate_sha256 (label @ ''.source_digest'') (er_source_digest r),
      validate_sha256 (label @ ''.evidence_digest'') (er_evidence_digest r)]"

record evidence_slot =
  sl_slot_id :: string
  sl_reason :: string

definition slot_validate :: "string \<Rightarrow> evidence_slot \<Rightarrow> unit result" where
  "slot_validate label s = check_all
     [validate_text (label @ ''.slot_id'') (sl_slot_id s) MAX_ID_CHARS,
      validate_text (label @ ''.reason'') (sl_reason s) MAX_SLOT_REASON_CHARS]"

record active_conflict =
  cf_conflict_id :: string
  cf_evidence_ids :: "string list"
  cf_reason :: string

text \<open>A loop of \<open>unique_loop\<close> whose set is not used further.\<close>

definition no_duplicates ::
    "(nat \<Rightarrow> 'a \<Rightarrow> unit result) \<Rightarrow> ('a \<Rightarrow> 'k) \<Rightarrow> ('a \<Rightarrow> string) \<Rightarrow> 'a list \<Rightarrow> unit result" where
  "no_duplicates check key dup xs = bind_r (unique_loop check key dup 0 [] xs) (\<lambda>_. Inr ())"

definition conflict_validate :: "string \<Rightarrow> active_conflict \<Rightarrow> unit result" where
  "conflict_validate label c = check_all
     [validate_text (label @ ''.conflict_id'') (cf_conflict_id c) MAX_ID_CHARS,
      validate_text (label @ ''.reason'') (cf_reason c) MAX_SLOT_REASON_CHARS,
      guard_r (cf_evidence_ids c = [] \<or> length (cf_evidence_ids c) > MAX_EVIDENCE_REFS)
        (label @ ''.evidence_ids must contain between 1 and '' @ show_nat MAX_EVIDENCE_REFS @ '' IDs''),
      no_duplicates (\<lambda>i v. validate_text (index_label (label @ ''.evidence_ids'') i) v MAX_ID_CHARS)
        (\<lambda>v. v) (\<lambda>v. label @ ''.evidence_ids contains duplicate ID '' @ quoted (v))
        (cf_evidence_ids c)]"

record next_step_metadata =
  ns_kind :: string
  ns_reason :: string

definition default_next_step :: next_step_metadata where
  "default_next_step = \<lparr>ns_kind = ''none'', ns_reason = ''no next step declared''\<rparr>"

definition next_step_validate :: "next_step_metadata \<Rightarrow> unit result" where
  "next_step_validate n = check_all
     [validate_text ''next_step.kind'' (ns_kind n) MAX_ROUTE_CHARS,
      validate_text ''next_step.reason'' (ns_reason n) MAX_NEXT_STEP_REASON_CHARS]"

definition validate_reference_lists ::
    "task_evidence_reference list \<Rightarrow> task_evidence_reference list \<Rightarrow> unit result" where
  "validate_reference_lists accepted rejected =
     (let dup = (\<lambda>r. ''duplicate evidence reference ID '' @ quoted (er_entity_id r))
      in if length accepted > MAX_EVIDENCE_REFS \<or> length rejected > MAX_EVIDENCE_REFS
         then Inl (''evidence reference lists may contain at most '' @ show_nat MAX_EVIDENCE_REFS @ '' entries'')
         else bind_r (unique_loop (\<lambda>i. reference_validate (index_label ''accepted_evidence'' i))
             er_entity_id dup 0 [] accepted) (\<lambda>ids.
           bind_r (unique_loop (\<lambda>i. reference_validate (index_label ''rejected_evidence'' i))
             er_entity_id dup 0 ids rejected) (\<lambda>_. Inr ())))"

definition validate_slots :: "string \<Rightarrow> evidence_slot list \<Rightarrow> unit result" where
  "validate_slots label slots =
     (if length slots > MAX_SLOTS
      then Inl (label @ '' may contain at most '' @ show_nat MAX_SLOTS @ '' entries'')
      else no_duplicates (\<lambda>i. slot_validate (index_label label i)) sl_slot_id
        (\<lambda>s. label @ '' contains duplicate slot ID '' @ quoted (sl_slot_id s)) slots)"

section \<open>Requests\<close>

definition task_search_mode :: "string \<Rightarrow> search_mode result" where
  "task_search_mode route =
     (if route = ''dense'' then Inr Dense
      else if route = ''hybrid'' then Inr Hybrid
      else if route = ''fused'' then Inr Fused
      else if route = ''fts5'' \<or> route = ''fts'' \<or> route = ''project_task'' then Inr Fts5
      else Inl ''unsupported task route'')"

record task_state_request =
  rq_schema_version :: string
  rq_task_id :: string
  rq_tenant_id :: string
  rq_workspace_hash :: string
  rq_principal_id :: string
  rq_agent_id :: string
  rq_task_digest :: string
  rq_route :: string
  rq_objective :: string
  rq_temporal_anchor :: "int option"
  rq_constraints :: "string list"
  rq_base_sequence :: int
  rq_observed_input_digest :: string
  rq_source_digest :: "string option"
  rq_evidence_digest :: "string option"
  rq_accepted :: "task_evidence_reference list"
  rq_rejected :: "task_evidence_reference list"
  rq_unresolved :: "evidence_slot list"
  rq_conflicts :: "active_conflict list"
  rq_missing :: "evidence_slot list"
  rq_next_step :: next_step_metadata

definition request_scope :: "task_state_request \<Rightarrow> task_state_scope" where
  "request_scope r = \<lparr>sc_tenant_id = rq_tenant_id r, sc_workspace_hash = rq_workspace_hash r,
     sc_principal_id = rq_principal_id r, sc_agent_id = rq_agent_id r, sc_task_id = rq_task_id r\<rparr>"

definition request_validate ::
    "digest_env \<Rightarrow> task_state_request \<Rightarrow> string \<Rightarrow> string option \<Rightarrow> string \<Rightarrow> unit result" where
  "request_validate env r query requested_workspace requester = check_all
     [guard_r (rq_schema_version r \<noteq> TASK_STATE_SCHEMA_VERSION)
        (''unsupported task-state schema_version '' @ quoted (rq_schema_version r) @ ''; expected '' @
         TASK_STATE_SCHEMA_VERSION),
      scope_validate (request_scope r),
      guard_r (requested_workspace \<noteq> Some (rq_workspace_hash r))
        ''task-state workspace scope does not match project_task scope'',
      guard_r (rq_principal_id r \<noteq> requester \<or> rq_agent_id r \<noteq> requester)
        ''task-state principal/agent scope does not match transport identity'',
      guard_r (rq_task_digest r \<noteq> sha256_hex env query)
        ''task_digest does not match the resolved task query'',
      validate_sha256 ''observed_input_digest'' (rq_observed_input_digest r),
      validate_text ''route'' (rq_route r) MAX_ROUTE_CHARS,
      validate_text ''objective'' (rq_objective r) MAX_OBJECTIVE_CHARS,
      guard_r (case rq_temporal_anchor r of None \<Rightarrow> False | Some a \<Rightarrow> a < 0)
        ''temporal_anchor_unix_ms must be non-negative'',
      guard_r (length (rq_constraints r) > MAX_CONSTRAINTS)
        (''load_bearing_constraints may contain at most '' @ show_nat MAX_CONSTRAINTS @ '' entries''),
      no_duplicates (\<lambda>i v. validate_text (index_label ''load_bearing_constraints'' i) v MAX_CONSTRAINT_CHARS)
        (\<lambda>v. v) (\<lambda>v. ''load_bearing_constraints contains duplicate value '' @ quoted (v))
        (rq_constraints r),
      validate_optional_digest ''source_digest'' (rq_source_digest r),
      validate_optional_digest ''evidence_digest'' (rq_evidence_digest r),
      validate_reference_lists (rq_accepted r) (rq_rejected r),
      validate_slots ''unresolved_evidence'' (rq_unresolved r),
      validate_slots ''missing_evidence'' (rq_missing r),
      guard_r (length (rq_conflicts r) > MAX_CONFLICTS)
        (''active_conflicts may contain at most '' @ show_nat MAX_CONFLICTS @ '' entries''),
      no_duplicates (\<lambda>i. conflict_validate (index_label ''active_conflicts'' i)) cf_conflict_id
        (\<lambda>c. ''active_conflicts contains duplicate ID '' @ quoted (cf_conflict_id c))
        (rq_conflicts r),
      next_step_validate (rq_next_step r),
      bind_r (task_search_mode (rq_route r)) (\<lambda>_. Inr ())]"

section \<open>States\<close>

record task_state =
  ts_schema_version :: string
  ts_scope :: task_state_scope
  ts_task_digest :: string
  ts_route :: string
  ts_objective :: string
  ts_temporal_anchor :: "int option"
  ts_constraints :: "string list"
  ts_accepted :: "task_evidence_reference list"
  ts_rejected :: "task_evidence_reference list"
  ts_unresolved :: "evidence_slot list"
  ts_conflicts :: "active_conflict list"
  ts_missing :: "evidence_slot list"
  ts_next_step :: next_step_metadata
  ts_state_sequence :: int
  ts_base_sequence :: int
  ts_observed_input_digest :: string
  ts_source_digest :: string
  ts_evidence_digest :: string
  ts_outcome :: task_state_outcome
  ts_state_digest :: string

definition strs :: "string list \<Rightarrow> json" where
  "strs xs = JArr (map JStr xs)"

definition scope_json :: "task_state_scope \<Rightarrow> json" where
  "scope_json s = JObj [(''tenant_id'', JStr (sc_tenant_id s)), (''workspace_hash'', JStr (sc_workspace_hash s)),
     (''principal_id'', JStr (sc_principal_id s)), (''agent_id'', JStr (sc_agent_id s)),
     (''task_id'', JStr (sc_task_id s))]"

definition reference_json :: "task_evidence_reference \<Rightarrow> json" where
  "reference_json r = JObj [(''entity_id'', JStr (er_entity_id r)), (''source_id'', JStr (er_source_id r)),
     (''revision'', JStr (er_revision r)), (''source_digest'', JStr (er_source_digest r)),
     (''evidence_digest'', JStr (er_evidence_digest r))]"

definition slot_json :: "evidence_slot \<Rightarrow> json" where
  "slot_json s = JObj [(''slot_id'', JStr (sl_slot_id s)), (''reason'', JStr (sl_reason s))]"

definition conflict_json :: "active_conflict \<Rightarrow> json" where
  "conflict_json c = JObj [(''conflict_id'', JStr (cf_conflict_id c)),
     (''evidence_ids'', strs (cf_evidence_ids c)), (''reason'', JStr (cf_reason c))]"

definition next_step_json :: "next_step_metadata \<Rightarrow> json" where
  "next_step_json n = JObj [(''kind'', JStr (ns_kind n)), (''reason'', JStr (ns_reason n))]"

text \<open>The members of the state without its digest, and the serialised state.\<close>

definition state_members :: "task_state \<Rightarrow> (string \<times> json) list" where
  "state_members s =
     [(''schema_version'', JStr (ts_schema_version s)), (''scope'', scope_json (ts_scope s)),
      (''query_digest'', JStr (ts_task_digest s)), (''route'', JStr (ts_route s)),
      (''objective'', JStr (ts_objective s))] @
     opt_member ''temporal_anchor_unix_ms'' JInt (ts_temporal_anchor s) @
     [(''constraints'', strs (ts_constraints s)),
      (''accepted_evidence'', JArr (map reference_json (ts_accepted s))),
      (''rejected_evidence'', JArr (map reference_json (ts_rejected s))),
      (''unresolved_evidence'', JArr (map slot_json (ts_unresolved s))),
      (''active_conflicts'', JArr (map conflict_json (ts_conflicts s))),
      (''missing_evidence'', JArr (map slot_json (ts_missing s))),
      (''next_step'', next_step_json (ts_next_step s)),
      (''state_sequence'', JInt (ts_state_sequence s)), (''base_sequence'', JInt (ts_base_sequence s)),
      (''observed_input_digest'', JStr (ts_observed_input_digest s)),
      (''source_digest'', JStr (ts_source_digest s)), (''evidence_digest'', JStr (ts_evidence_digest s)),
      (''outcome'', JStr (outcome_str (ts_outcome s)))]"

definition task_state_json :: "task_state \<Rightarrow> json" where
  "task_state_json s = JObj (state_members s @ [(''state_digest'', JStr (ts_state_digest s))])"

definition compute_state_digest :: "digest_env \<Rightarrow> task_state \<Rightarrow> string" where
  "compute_state_digest env s = domain_digest env ''perseus-vault/task-state/v1'' (JObj (state_members s))"

text \<open>\<open>checked_add\<close> on \<open>u64\<close>.\<close>

definition checked_add_u64 :: "int \<Rightarrow> int \<Rightarrow> int option" where
  "checked_add_u64 a b = (if a + b \<le> u64_max then Some (a + b) else None)"

definition state_validate :: "digest_env \<Rightarrow> task_state \<Rightarrow> unit result" where
  "state_validate env s = check_all
     [scope_validate (ts_scope s),
      guard_r (ts_schema_version s \<noteq> TASK_STATE_SCHEMA_VERSION)
        (''unsupported persisted task-state schema_version '' @ quoted (ts_schema_version s) @ ''; expected '' @
         TASK_STATE_SCHEMA_VERSION),
      (case checked_add_u64 (ts_base_sequence s) 1 of
         None \<Rightarrow> Inl ''task-state base_sequence overflow''
       | Some expected \<Rightarrow> guard_r (ts_state_sequence s = 0 \<or> ts_state_sequence s \<noteq> expected)
           ''task-state sequence must be base_sequence + 1''),
      validate_sha256 ''task_digest'' (ts_task_digest s),
      validate_sha256 ''observed_input_digest'' (ts_observed_input_digest s),
      validate_sha256 ''source_digest'' (ts_source_digest s),
      validate_sha256 ''evidence_digest'' (ts_evidence_digest s),
      validate_text ''route'' (ts_route s) MAX_ROUTE_CHARS,
      validate_text ''objective'' (ts_objective s) MAX_OBJECTIVE_CHARS,
      guard_r (case ts_temporal_anchor s of None \<Rightarrow> False | Some a \<Rightarrow> a < 0)
        ''temporal_anchor_unix_ms must be non-negative'',
      guard_r (length (ts_constraints s) > MAX_CONSTRAINTS)
        (''load_bearing_constraints may contain at most '' @ show_nat MAX_CONSTRAINTS @ '' entries''),
      no_duplicates (\<lambda>_ v. validate_text ''load_bearing_constraints'' v MAX_CONSTRAINT_CHARS)
        (\<lambda>v. v) (\<lambda>_. ''load_bearing_constraints contains duplicate values'') (ts_constraints s),
      validate_reference_lists (ts_accepted s) (ts_rejected s),
      validate_slots ''unresolved_evidence'' (ts_unresolved s),
      validate_slots ''missing_evidence'' (ts_missing s),
      guard_r (length (ts_conflicts s) > MAX_CONFLICTS)
        (''active_conflicts may contain at most '' @ show_nat MAX_CONFLICTS @ '' entries''),
      no_duplicates (\<lambda>_. conflict_validate ''active_conflicts'') cf_conflict_id
        (\<lambda>_. ''active_conflicts contains duplicate IDs'') (ts_conflicts s),
      next_step_validate (ts_next_step s),
      bind_r (parse_outcome (outcome_str (ts_outcome s))) (\<lambda>_. Inr ()),
      guard_r (compute_state_digest env s \<noteq> ts_state_digest s)
        ''state_digest does not match task-state contents'']"

definition state_seal :: "digest_env \<Rightarrow> task_state \<Rightarrow> task_state result" where
  "state_seal env s =
     (let sealed = s\<lparr>ts_state_digest := compute_state_digest env s\<rparr>
      in bind_r (state_validate env sealed) (\<lambda>_. Inr sealed))"

definition from_request ::
    "digest_env \<Rightarrow> task_state_request \<Rightarrow> task_evidence_reference list \<Rightarrow> task_evidence_reference list \<Rightarrow>
      evidence_slot list \<Rightarrow> string \<Rightarrow> string \<Rightarrow> task_state_outcome \<Rightarrow> task_state result" where
  "from_request env r accepted rejected missing source_digest evidence_digest outcome =
     (case checked_add_u64 (rq_base_sequence r) 1 of
        None \<Rightarrow> Inl ''task-state base_sequence overflow''
      | Some state_sequence \<Rightarrow>
          state_seal env \<lparr>
            ts_schema_version = TASK_STATE_SCHEMA_VERSION, ts_scope = request_scope r,
            ts_task_digest = rq_task_digest r, ts_route = rq_route r, ts_objective = rq_objective r,
            ts_temporal_anchor = rq_temporal_anchor r, ts_constraints = rq_constraints r,
            ts_accepted = accepted, ts_rejected = rejected, ts_unresolved = rq_unresolved r,
            ts_conflicts = rq_conflicts r, ts_missing = missing, ts_next_step = rq_next_step r,
            ts_state_sequence = state_sequence, ts_base_sequence = rq_base_sequence r,
            ts_observed_input_digest = rq_observed_input_digest r, ts_source_digest = source_digest,
            ts_evidence_digest = evidence_digest, ts_outcome = outcome, ts_state_digest = []\<rparr>)"

definition ensure_immutable_spec :: "task_state \<Rightarrow> task_state_request \<Rightarrow> unit result" where
  "ensure_immutable_spec previous r =
     guard_r (ts_scope previous \<noteq> request_scope r \<or> ts_task_digest previous \<noteq> rq_task_digest r \<or>
       ts_route previous \<noteq> rq_route r \<or> ts_objective previous \<noteq> rq_objective r \<or>
       ts_temporal_anchor previous \<noteq> rq_temporal_anchor r \<or>
       ts_constraints previous \<noteq> rq_constraints r)
     ''task-state immutable specification changed''"

end
