(* ===== verification/Temporal_Store.thy ===== *)
theory Temporal_Store
  imports Read_Gate Trust_Admission
begin

text \<open>
  The bi-temporal record store of \<open>src/src/db.rs\<close>: the live table, the history of superseded
  versions, the audited writers that move a version from the one to the other
  (\<open>set_valid_to\<close>, \<open>update_entity_status\<close>, \<open>invalidate_entity\<close>) and the readers that answer for
  an instant of transaction time or of valid time (\<open>as_of\<close>, \<open>as_of_version\<close>,
  \<open>bitemporal_at\<close>, \<open>valid_at\<close>, \<open>resolve_temporal_versions\<close>). A row extends the one of the
  governed reads with the columns these functions and the writer of \<open>Remember\<close> use; the
  columns that hold a floating-point number (\<open>decay_score\<close>, \<open>certainty\<close>) and the
  embeddings are left out. The two encryption functions of the
  writers are arguments, as are the clock and the random history ids; the clock is read once
  for each operation. The full-text index of the history and the markers on derived
  projections are not modelled: no function here reads them. A statement that orders rows
  takes rows of the same time in the order of the table.
\<close>

section \<open>Tables\<close>

record version_row = entity_row +
  vr_recorded_at :: "int option"
  vr_supersedes :: string
  vr_superseded_by :: string
  vr_archive_reason :: string
  vr_last_accessed :: int
  vr_type :: string
  vr_tags :: string
  vr_retrieval_count :: int
  vr_layer :: string
  vr_topic_path :: string
  vr_verified :: int
  vr_source :: string
  vr_always_on :: int
  vr_epistemic_state :: string
  vr_expires_at :: "int option"
  vr_hints :: string
  vr_memory_type :: string

record temporal_db =
  td_live :: "version_row list"
  td_history :: "(string \<times> version_row) list"
  td_tombstones :: "mandate list"
  td_overlay :: overlay
  td_agents :: "agent list"

text \<open>The tables as the governed reads see them.\<close>

definition gate_of :: "temporal_db \<Rightarrow> gate_db" where
  "gate_of td = \<lparr>gd_entities = map entity_row.truncate (td_live td), gd_tombstones = td_tombstones td,
     gd_overlay = td_overlay td, gd_agents = td_agents td\<rparr>"

text \<open>\<open>se_legacy_decrypt\<close> gives the error text when a body does not authenticate.\<close>

record store_env =
  se_gate :: gate_env
  se_legacy_decrypt :: "string \<Rightarrow> string \<Rightarrow> string \<Rightarrow> string + string"
  se_encrypt :: "string \<Rightarrow> string \<Rightarrow> string \<Rightarrow> string + string"
  se_storage_state :: string

text \<open>\<open>COALESCE(recorded_at_unix_ms, created_at_unix_ms)\<close> and the effective start of the valid
  period.\<close>

definition recorded :: "version_row \<Rightarrow> int" where
  "recorded r = or_else (vr_recorded_at r) (row_created_at r)"

definition valid_start :: "version_row \<Rightarrow> int" where
  "valid_start r = or_else (row_valid_from r) (recorded r)"

section \<open>Writers\<close>

definition stored_body :: "store_env \<Rightarrow> version_row \<Rightarrow> string result" where
  "stored_body env r =
     (case ge_decrypt (se_gate env) of
        None \<Rightarrow> Inr (row_body_json r)
      | Some _ \<Rightarrow>
          (case se_legacy_decrypt env (row_body_json r) (row_category r) (row_key r) of
             Inl e \<Rightarrow> Inl (''history snapshot cannot authenticate '' @ row_category r @ '':'' @ row_key r @ '': '' @ e)
           | Inr plain \<Rightarrow> se_encrypt env plain (row_category r) (row_key r)))"

text \<open>The history has no columns for the epistemic state, the expiry, the hints and the memory type.\<close>

definition history_row :: "version_row \<Rightarrow> version_row" where
  "history_row r = r\<lparr>vr_epistemic_state := [], vr_expires_at := None, vr_hints := [], vr_memory_type := []\<rparr>"

definition insert_history :: "temporal_db \<Rightarrow> string \<Rightarrow> version_row \<Rightarrow> temporal_db result" where
  "insert_history td hid h =
     (if hid \<in> set (map fst (td_history td)) then Inl ''UNIQUE constraint failed: entity_history.history_id''
      else Inr (td\<lparr>td_history := td_history td @ [(hid, h)]\<rparr>))"

definition live_row :: "temporal_db \<Rightarrow> string \<Rightarrow> version_row option" where
  "live_row td eid = find (\<lambda>r. row_id r = eid) (td_live td)"

definition snapshot_live_row_to_history ::
    "store_env \<Rightarrow> temporal_db \<Rightarrow> string \<Rightarrow> int \<Rightarrow> string \<Rightarrow> temporal_db result" where
  "snapshot_live_row_to_history env td hid invalidated_at eid =
     (case live_row td eid of
        None \<Rightarrow> Inr td
      | Some r \<Rightarrow> bind_r (stored_body env r) (\<lambda>body.
          insert_history td hid ((history_row r)\<lparr>row_body_json := body, row_invalidated_at := Some invalidated_at,
            vr_superseded_by := eid\<rparr>)))"

definition update_live :: "temporal_db \<Rightarrow> string \<Rightarrow> (version_row \<Rightarrow> version_row) \<Rightarrow> temporal_db" where
  "update_live td eid f = td\<lparr>td_live := map (\<lambda>r. if row_id r = eid then f r else r) (td_live td)\<rparr>"

text \<open>An error drops the transaction.\<close>

definition commit :: "temporal_db \<Rightarrow> ('a \<times> temporal_db) result \<Rightarrow> 'a result \<times> temporal_db" where
  "commit td res = (case res of Inl e \<Rightarrow> (Inl e, td) | Inr (x, td') \<Rightarrow> (Inr x, td'))"

definition no_rows :: string where
  "no_rows = ''Query returned no rows''"

definition em_dash :: string where
  "em_dash = [CHR 0xE2, CHR 0x80, CHR 0x94]"

text \<open>The update both audited writers make of the live row: the new transaction time, the link
  to the snapshot, and a start of the valid period that was open is pinned.\<close>

definition restamp :: "int \<Rightarrow> string \<Rightarrow> int \<Rightarrow> version_row \<Rightarrow> version_row" where
  "restamp now hid eff_from r = r\<lparr>vr_recorded_at := Some now, vr_supersedes := hid,
     row_valid_from := Some (or_else (row_valid_from r) eff_from)\<rparr>"

text \<open>The transaction of each writer; \<open>commit\<close> closes it.\<close>

definition set_valid_to_tx :: "store_env \<Rightarrow> temporal_db \<Rightarrow> int \<Rightarrow> string \<Rightarrow> string \<Rightarrow> int \<Rightarrow> (int \<times> temporal_db) result" where
  "set_valid_to_tx env td clock hid eid valid_to =
     bind_r (ok_or (live_row td eid) no_rows) (\<lambda>r.
       let eff_from = valid_start r; now = max clock (wrap64 (recorded r + 1)) in
       if valid_to \<le> eff_from
       then Inl (''valid_to ('' @ show_int valid_to @ '') must be greater than the fact'' @ [CHR 0x27] @
         ''s valid_from ('' @ show_int eff_from @ '') '' @ em_dash @ '' refusing to invert the valid period'')
       else if (case row_valid_to r of None \<Rightarrow> False | Some cur \<Rightarrow> cur \<le> valid_to)
       then Inr (the (row_valid_to r), td)
       else bind_r (snapshot_live_row_to_history env td hid now eid) (\<lambda>td1.
         Inr (valid_to, update_live td1 eid (\<lambda>r. restamp now hid eff_from (r\<lparr>row_valid_to := Some valid_to\<rparr>)))))"

definition set_valid_to ::
    "store_env \<Rightarrow> temporal_db \<Rightarrow> int \<Rightarrow> string \<Rightarrow> string \<Rightarrow> int \<Rightarrow> int result \<times> temporal_db" where
  "set_valid_to env td clock hid eid valid_to = commit td (set_valid_to_tx env td clock hid eid valid_to)"

text \<open>\<open>{:?}\<close> of the list of statuses.\<close>

definition debug_text :: "string \<Rightarrow> string" where
  "debug_text s = CHR 0x22 # s @ [CHR 0x22]"

fun debug_items :: "string list \<Rightarrow> string" where
  "debug_items [] = []"
| "debug_items [s] = debug_text s"
| "debug_items (s # t # ss) = debug_text s @ '', '' @ debug_items (t # ss)"

definition writable_status :: "string \<Rightarrow> string result" where
  "writable_status status =
     ok_or (case canonical_entity_status status of
         None \<Rightarrow> None
       | Some c \<Rightarrow> if c \<noteq> ''compacted'' then Some c else None)
       (''invalid writable entity status '' @ [CHR 0x27] @ status @ [CHR 0x27] @ '': expected one of ['' @
        debug_items ENTITY_STATUSES @ '']'')"

definition update_entity_status_tx ::
    "store_env \<Rightarrow> temporal_db \<Rightarrow> int \<Rightarrow> string \<Rightarrow> string \<Rightarrow> string \<Rightarrow> string \<Rightarrow> (unit \<times> temporal_db) result" where
  "update_entity_status_tx env td clock hid eid status reason =
     bind_r (writable_status status) (\<lambda>canonical.
     bind_r (ok_or (live_row td eid) no_rows) (\<lambda>r.
       let eff_from = valid_start r; now = max clock (wrap64 (recorded r + 1)) in
       if (canonical = ''active'' \<or> canonical = ''draft'') \<and> row_status r \<in> set NON_SERVEABLE_STATUSES
       then Inl ''non-serveable lifecycle rows require an authenticated admission_decide transition before activation''
       else if row_status r = canonical
       then Inr ((), update_live td eid (\<lambda>r. r\<lparr>vr_archive_reason := reason, vr_last_accessed := clock\<rparr>))
       else bind_r (snapshot_live_row_to_history env td hid now eid) (\<lambda>td1.
         Inr ((), update_live td1 eid (\<lambda>r. restamp now hid eff_from (r\<lparr>row_status := canonical,
           vr_archive_reason := reason, vr_last_accessed := clock\<rparr>))))))"

definition update_entity_status ::
    "store_env \<Rightarrow> temporal_db \<Rightarrow> int \<Rightarrow> string \<Rightarrow> string \<Rightarrow> string \<Rightarrow> string \<Rightarrow> unit result \<times> temporal_db" where
  "update_entity_status env td clock hid eid status reason =
     commit td (update_entity_status_tx env td clock hid eid status reason)"

definition require_key :: "store_env \<Rightarrow> unit result" where
  "require_key env =
     (if ge_decrypt (se_gate env) = None \<and> se_storage_state env \<in>
         set [''encrypted'', ''encrypted-incomplete'', ''mixed-legacy'', ''unknown'']
      then Inl (''refusing unkeyed mutation of '' @ se_storage_state env @ '' database; load the encryption key first'')
      else Inr ())"

definition invalidate_entity_tx ::
    "store_env \<Rightarrow> temporal_db \<Rightarrow> int \<Rightarrow> string \<Rightarrow> string \<Rightarrow> string \<Rightarrow> (bool \<times> temporal_db) result" where
  "invalidate_entity_tx env td clock hid loser winner =
     bind_r (require_key env) (\<lambda>_.
       case find (\<lambda>r. row_id r = loser \<and> row_archived r = 0) (td_live td) of
         None \<Rightarrow> Inr (False, td)
       | Some r \<Rightarrow> bind_r (stored_body env r) (\<lambda>body.
           bind_r (insert_history td hid ((history_row r)\<lparr>row_body_json := body,
               row_invalidated_at := Some (max clock (recorded r + 1)), vr_superseded_by := winner\<rparr>)) (\<lambda>td1.
             Inr (True, td1\<lparr>td_live := filter (\<lambda>r. row_id r \<noteq> loser) (td_live td1)\<rparr>))))"

definition invalidate_entity ::
    "store_env \<Rightarrow> temporal_db \<Rightarrow> int \<Rightarrow> string \<Rightarrow> string \<Rightarrow> string \<Rightarrow> bool result \<times> temporal_db" where
  "invalidate_entity env td clock hid loser winner = commit td (invalidate_entity_tx env td clock hid loser winner)"

section \<open>Governed temporal reads\<close>

definition entity_suppressed :: "gate_env \<Rightarrow> gate_db \<Rightarrow> entity \<Rightarrow> int \<Rightarrow> gate_error + bool" where
  "entity_suppressed env db e now =
     bind_r (open_overlay db) (\<lambda>sidecar.
       let digest = rejected_value_digest env (en_body_json e) in
       if (case sidecar of None \<Rightarrow> False
           | Some t \<Rightarrow> mandate_hit t None (en_workspace_hash e) (en_category e) digest) then Inr True
       else if mandate_hit (gd_tombstones db) (Some now) (en_workspace_hash e) (en_category e) digest then Inr True
       else Inr (derived_lineage_suppressed env db sidecar e now))"

text \<open>The members of a compacted body that its marker repeats.\<close>

definition int_member :: "json option \<Rightarrow> string \<Rightarrow> json" where
  "int_member j k = (case j of
     Some (JObj ms) \<Rightarrow> (case map_of ms k of Some (JInt n) \<Rightarrow> if in_i64 n then JInt n else JNull | _ \<Rightarrow> JNull)
   | _ \<Rightarrow> JNull)"

definition str_member :: "json option \<Rightarrow> string \<Rightarrow> json" where
  "str_member j k = (case j of
     Some (JObj ms) \<Rightarrow> (case map_of ms k of Some (JStr s) \<Rightarrow> JStr s | _ \<Rightarrow> JNull)
   | _ \<Rightarrow> JNull)"

definition compacted_marker :: "gate_env \<Rightarrow> entity \<Rightarrow> entity" where
  "compacted_marker env e = e\<lparr>en_body_json := json_text (ge_digest env) (JObj
     [(''compacted'', JBool True), (''terminal_audit'', JBool True), (''status'', JStr ''compacted''),
      (''versions'', int_member (ge_parse_json env (en_body_json e)) ''versions''),
      (''digest'', str_member (ge_parse_json env (en_body_json e)) ''digest''),
      (''body_sha256'', JStr (digest_text (ge_digest env) (en_body_json e)))]), en_links := []\<rparr>"

definition terminal_marker :: "gate_env \<Rightarrow> entity \<Rightarrow> entity" where
  "terminal_marker env e = e\<lparr>en_body_json := json_text (ge_digest env) (JObj
     [(''terminal_audit'', JBool True), (''status'', JStr (en_status e)), (''archived'', JBool (en_archived e)),
      (''body_sha256'', JStr (digest_text (ge_digest env) (en_body_json e)))]), en_links := []\<rparr>"

fun filter_temporal_readable :: "gate_env \<Rightarrow> gate_db \<Rightarrow> int \<Rightarrow> entity list \<Rightarrow> gate_error + entity list" where
  "filter_temporal_readable env db now [] = Inr []"
| "filter_temporal_readable env db now (e # es) =
     bind_r (if en_status e = ''compacted'' then Inr [compacted_marker env e]
         else if entity_lifecycle_serveable e
         then bind_r (entity_suppressed env db e now) (\<lambda>hit. Inr (if hit then [] else [e]))
         else if en_status e = ''deprecated'' \<or> en_status e = ''expired'' \<or> en_status e = ''redacted''
         then Inr [terminal_marker env e]
         else Inr []) (\<lambda>kept.
     bind_r (filter_temporal_readable env db now es) (\<lambda>rest. Inr (kept @ rest)))"

definition first_of :: "'a list \<Rightarrow> 'a option" where
  "first_of xs = (case xs of [] \<Rightarrow> None | x # _ \<Rightarrow> Some x)"

text \<open>The row that answers for an instant of transaction time: a superseded one whose window
  contains it, that with the earliest end first, and otherwise the live one.\<close>

definition of_key :: "string \<Rightarrow> string \<Rightarrow> version_row \<Rightarrow> bool" where
  "of_key cat key r \<longleftrightarrow> row_category r = cat \<and> row_key r = key"

definition history_hits :: "temporal_db \<Rightarrow> string \<Rightarrow> string \<Rightarrow> int \<Rightarrow> version_row list" where
  "history_hits td cat key t =
     sort_key (\<lambda>r. or_else (row_invalidated_at r) 0)
       (filter (\<lambda>r. of_key cat key r \<and> recorded r \<le> t \<and>
          (case row_invalidated_at r of None \<Rightarrow> False | Some i \<Rightarrow> i > t)) (map snd (td_history td)))"

definition as_of_row :: "temporal_db \<Rightarrow> string \<Rightarrow> string \<Rightarrow> int \<Rightarrow> version_row option" where
  "as_of_row td cat key t =
     (case first_of (history_hits td cat key t) of
        Some r \<Rightarrow> Some r
      | None \<Rightarrow> find (\<lambda>r. of_key cat key r \<and> recorded r \<le> t) (td_live td))"

definition as_of :: "gate_env \<Rightarrow> temporal_db \<Rightarrow> int \<Rightarrow> string \<Rightarrow> string \<Rightarrow> int \<Rightarrow> gate_error + entity option" where
  "as_of env td now cat key t =
     (case as_of_row td cat key t of
        None \<Rightarrow> Inr None
      | Some r \<Rightarrow> bind_r (entity_from_row env (entity_row.truncate r)) (\<lambda>e.
          bind_r (filter_temporal_readable env (gate_of td) now [e]) (\<lambda>visible. Inr (first_of visible))))"

record temporal_version =
  tv_entity :: entity
  tv_valid_from :: "int option"
  tv_valid_to :: "int option"
  tv_recorded_at :: int
  tv_invalidated_at :: "int option"

fun map_r :: "('a \<Rightarrow> 'e + 'b) \<Rightarrow> 'a list \<Rightarrow> 'e + 'b list" where
  "map_r f [] = Inr []"
| "map_r f (x # xs) = bind_r (f x) (\<lambda>y. bind_r (map_r f xs) (\<lambda>ys. Inr (y # ys)))"

definition version_of :: "gate_env \<Rightarrow> version_row \<Rightarrow> gate_error + temporal_version" where
  "version_of env r = bind_r (entity_from_row env (entity_row.truncate r)) (\<lambda>e.
     Inr \<lparr>tv_entity = e, tv_valid_from = row_valid_from r, tv_valid_to = row_valid_to r,
          tv_recorded_at = recorded r, tv_invalidated_at = row_invalidated_at r\<rparr>)"

text \<open>The versions recorded by an instant, newest first.\<close>

definition rows_recorded_by :: "temporal_db \<Rightarrow> string \<Rightarrow> string \<Rightarrow> int \<Rightarrow> version_row list" where
  "rows_recorded_by td cat key t =
     sort_key (\<lambda>r. - recorded r)
       (filter (\<lambda>r. of_key cat key r \<and> recorded r \<le> t) (td_live td @ map snd (td_history td)))"

text \<open>\<open>pop\<close> of the filtered singleton.\<close>

definition keep_visible :: "gate_env \<Rightarrow> gate_db \<Rightarrow> int \<Rightarrow> temporal_version \<Rightarrow> gate_error + temporal_version list" where
  "keep_visible env db now v = bind_r (filter_temporal_readable env db now [tv_entity v]) (\<lambda>visible.
     Inr (case visible of [] \<Rightarrow> [] | _ \<Rightarrow> [v\<lparr>tv_entity := last visible\<rparr>]))"

definition versions_recorded_by ::
    "gate_env \<Rightarrow> temporal_db \<Rightarrow> int \<Rightarrow> string \<Rightarrow> string \<Rightarrow> int \<Rightarrow> gate_error + temporal_version list" where
  "versions_recorded_by env td now cat key t =
     bind_r (map_r (version_of env) (rows_recorded_by td cat key t)) (\<lambda>vs.
     bind_r (map_r (keep_visible env (gate_of td) now) vs) (\<lambda>kept. Inr (concat kept)))"

definition effective_from :: "temporal_version \<Rightarrow> int" where
  "effective_from v = or_else (tv_valid_from v) (tv_recorded_at v)"

definition effective_to :: "temporal_version \<Rightarrow> int option \<Rightarrow> int option" where
  "effective_to v min_later =
     (let implicit = (case min_later of None \<Rightarrow> None | Some m \<Rightarrow> if m \<ge> effective_from v then Some m else None)
      in case (tv_valid_to v, implicit) of
           (Some t, Some m) \<Rightarrow> Some (min t m)
         | (Some t, None) \<Rightarrow> Some t
         | (None, m) \<Rightarrow> m)"

fun bitemporal_walk :: "int \<Rightarrow> int option \<Rightarrow> temporal_version list \<Rightarrow> temporal_version option" where
  "bitemporal_walk valid_at min_later [] = None"
| "bitemporal_walk valid_at min_later (v # vs) =
     (if effective_from v \<le> valid_at \<and>
         (case effective_to v min_later of None \<Rightarrow> True | Some t \<Rightarrow> valid_at < t)
      then Some v
      else bitemporal_walk valid_at
        (Some (case min_later of None \<Rightarrow> effective_from v | Some m \<Rightarrow> min m (effective_from v))) vs)"

definition bitemporal_at ::
    "gate_env \<Rightarrow> temporal_db \<Rightarrow> int \<Rightarrow> string \<Rightarrow> string \<Rightarrow> int \<Rightarrow> int \<Rightarrow> gate_error + temporal_version option" where
  "bitemporal_at env td now cat key tx_at valid_at =
     bind_r (versions_recorded_by env td now cat key tx_at) (\<lambda>vs. Inr (bitemporal_walk valid_at None vs))"

definition valid_at ::
    "gate_env \<Rightarrow> temporal_db \<Rightarrow> int \<Rightarrow> string \<Rightarrow> string \<Rightarrow> int \<Rightarrow> gate_error + temporal_version option" where
  "valid_at env td now cat key t = bitemporal_at env td now cat key i64_max t"

definition as_of_version ::
    "gate_env \<Rightarrow> temporal_db \<Rightarrow> int \<Rightarrow> string \<Rightarrow> string \<Rightarrow> int \<Rightarrow> gate_error + temporal_version option" where
  "as_of_version env td now cat key tx_at =
     bind_r (versions_recorded_by env td now cat key tx_at) (\<lambda>vs. Inr (first_of vs))"

definition resolve_temporal_versions ::
    "gate_env \<Rightarrow> temporal_db \<Rightarrow> int \<Rightarrow> entity list \<Rightarrow> int option \<Rightarrow> int option \<Rightarrow> gate_error + entity list" where
  "resolve_temporal_versions env td now es as_of_ms valid_ms =
     (if as_of_ms = None \<and> valid_ms = None then Inr es
      else bind_r (map_r (\<lambda>e.
          case valid_ms of
            Some v \<Rightarrow> bitemporal_at env td now (en_category e) (en_key e) (or_else as_of_ms i64_max) v
          | None \<Rightarrow> as_of_version env td now (en_category e) (en_key e) (the as_of_ms)) es) (\<lambda>tvs.
        Inr (map tv_entity (List.map_filter (\<lambda>x. x) tvs))))"

section \<open>Periods\<close>

definition valid_period_matches :: "int \<Rightarrow> int option \<Rightarrow> int \<Rightarrow> int option \<Rightarrow> string \<Rightarrow> bool" where
  "valid_period_matches row_from row_to query_from query_to op =
     (if op = ''contains'' then
        row_from \<le> query_from \<and>
        (case (query_to, row_to) of
           (Some qt, Some rt) \<Rightarrow> qt \<le> rt
         | (_, None) \<Rightarrow> True
         | (None, Some _) \<Rightarrow> False)
      else (case row_to of None \<Rightarrow> True | Some rt \<Rightarrow> query_from < rt) \<and>
           (case query_to of None \<Rightarrow> True | Some qt \<Rightarrow> row_from < qt))"

definition valid_period_contains_instant :: "int \<Rightarrow> int option \<Rightarrow> int \<Rightarrow> bool" where
  "valid_period_contains_instant row_from row_to t \<longleftrightarrow>
     row_from \<le> t \<and> (case row_to of None \<Rightarrow> True | Some rt \<Rightarrow> t < rt)"

end
