(* ===== verification/Audit_Chain.thy ===== *)
theory Audit_Chain
  imports Temporal_Store
begin

text \<open>
  The journal of \<open>src/src/db.rs\<close> and its audit chain: the insertion of an event, the link over the
  previous hash, the id, the time, the workspace and a commitment to the payload, keyed with
  HMAC-SHA256 when encryption is enabled, the verification of the chain, its recomputation under
  another key, and the redaction of payloads. The rows are in the order of their rowid. SHA-256 is a parameter; a text that the code
  feeds to the hash in pieces is the concatenation of the pieces. The newest row of several with
  one time is the one with the largest rowid, which is what the index on the time gives.
\<close>

record journal_event =
  je_id :: string
  je_event_type :: string
  je_evaluated_json :: string
  je_acted_json :: string
  je_forward_json :: string
  je_category :: string
  je_key :: string
  je_entity_id :: string
  je_agent_id :: string
  je_workspace_hash :: string
  je_created_at :: int

record journal_row = journal_event +
  jr_rowid :: nat
  jr_audit_hash :: string
  jr_payload_commitment :: string
  jr_chancery_writ_id :: string

text \<open>\<open>au_chain\<close> is the row of \<open>audit_chain_state\<close>, its scheme and canary; \<open>au_key\<close> the audit key
  of the running process.\<close>

record audit_db =
  au_journal :: "journal_row list"
  au_chain :: "(string \<times> string) option"
  au_key :: "string option"
  au_store :: temporal_db

datatype journal_error =
    AdmissionSourceRefused | AdmissionSourceRequired | ReceiptInvalid string | ProofRequired | DuplicateJournalId string

datatype chain_error = KeyRequired | ContentAltered string | LinkMismatch string bool

section \<open>Hashes\<close>

text \<open>\<open>to_le_bytes\<close> of a 64-bit integer.\<close>

definition le_bytes64 :: "int \<Rightarrow> string" where
  "le_bytes64 n = map (\<lambda>i. char_of (nat (n div 256 ^ i mod 256))) [0..<8]"

definition audit_feed :: "string \<Rightarrow> string" where
  "audit_feed field = le_bytes64 (int (length field)) @ field"

definition hmac_sha256 :: "digest_env \<Rightarrow> string \<Rightarrow> string \<Rightarrow> string" where
  "hmac_sha256 env key msg =
     (let k = key_block env key; ipad = map (xor_byte 0x36) k; opad = map (xor_byte 0x5c) k
      in sha256 env (opad @ sha256 env (ipad @ msg)))"

definition payload_text :: "'a journal_event_scheme \<Rightarrow> string" where
  "payload_text e = concat (map audit_feed
     [je_event_type e, je_evaluated_json e, je_acted_json e, je_forward_json e, je_category e, je_key e, je_entity_id e, je_agent_id e])"

definition audit_payload_commitment :: "digest_env \<Rightarrow> 'a journal_event_scheme \<Rightarrow> string" where
  "audit_payload_commitment env e = hex_text (sha256 env (payload_text e))"

definition link_text :: "string \<Rightarrow> string \<Rightarrow> int \<Rightarrow> string \<Rightarrow> string \<Rightarrow> string" where
  "link_text prev eid ts ws commitment =
     concat (map audit_feed [prev, eid, le_bytes64 ts, ws, commitment])"

definition audit_chain_mac :: "digest_env \<Rightarrow> string option \<Rightarrow> string \<Rightarrow> string \<Rightarrow> int \<Rightarrow> string \<Rightarrow> string \<Rightarrow> string" where
  "audit_chain_mac env key prev eid ts ws commitment =
     (let framed = sha256 env (link_text prev eid ts ws commitment)
      in case key of Some k \<Rightarrow> hex_text (hmac_sha256 env k framed) | None \<Rightarrow> hex_text framed)"

definition audit_key_canary :: "digest_env \<Rightarrow> string \<Rightarrow> string" where
  "audit_key_canary env k = hex_text (hmac_sha256 env k ''perseus-vault/audit-canary/v1'')"

section \<open>Appending\<close>

definition genesis :: string where
  "genesis = ''genesis''"

definition newest_hash :: "journal_row list \<Rightarrow> string" where
  "newest_hash rows = (case rev (sort_key je_created_at rows) of [] \<Rightarrow> genesis | r # _ \<Rightarrow> jr_audit_hash r)"

text \<open>The workspace of the event, or of the record it names in the live table or in the history.\<close>

definition event_workspace :: "temporal_db \<Rightarrow> journal_event \<Rightarrow> string" where
  "event_workspace td e =
     (if je_workspace_hash e \<noteq> [] then je_workspace_hash e
      else if je_entity_id e = [] then []
      else case live_row td (je_entity_id e) of
        Some r \<Rightarrow> or_else (row_workspace r) []
      | None \<Rightarrow> (case find (\<lambda>h. row_id (snd h) = je_entity_id e) (td_history td) of
          Some (_, h) \<Rightarrow> or_else (row_workspace h) []
        | None \<Rightarrow> []))"

definition journal_row_of :: "digest_env \<Rightarrow> audit_db \<Rightarrow> string \<Rightarrow> journal_event \<Rightarrow> journal_row" where
  "journal_row_of env db writ e =
     (let ws = event_workspace (au_store db) e; commitment = audit_payload_commitment env e
      in journal_event.extend (e\<lparr>je_workspace_hash := ws\<rparr>)
        (journal_row.fields (length (au_journal db))
          (audit_chain_mac env (au_key db) (newest_hash (au_journal db)) (je_id e) (je_created_at e) ws commitment)
          commitment writ))"

definition journal_with_conn :: "digest_env \<Rightarrow> audit_db \<Rightarrow> string \<Rightarrow> journal_event \<Rightarrow> journal_error + audit_db" where
  "journal_with_conn env db writ e =
     (if je_id e \<in> set (map je_id (au_journal db)) then Inl (DuplicateJournalId (je_id e))
      else Inr (db\<lparr>au_journal := au_journal db @ [journal_row_of env db writ e]\<rparr>))"

definition journal :: "digest_env \<Rightarrow> audit_db \<Rightarrow> string \<Rightarrow> journal_event \<Rightarrow> journal_error + audit_db" where
  "journal env db writ e =
     (if je_event_type e = ''admission_source'' then Inl AdmissionSourceRefused else journal_with_conn env db writ e)"

text \<open>\<open>acted["attestation_digest"].as_str()\<close>; the parser gives its error text.\<close>

fun attestation_member :: "json \<Rightarrow> string option" where
  "attestation_member (JObj ms) = (case map_of ms ''attestation_digest'' of Some (JStr s) \<Rightarrow> Some s | _ \<Rightarrow> None)"
| "attestation_member _ = None"

definition journal_authenticated_admission_source ::
    "digest_env \<Rightarrow> (string \<Rightarrow> string + json) \<Rightarrow> audit_db \<Rightarrow> string \<Rightarrow> journal_event \<Rightarrow> journal_error + audit_db" where
  "journal_authenticated_admission_source env parse db writ e =
     (if je_event_type e \<noteq> ''admission_source'' then Inl AdmissionSourceRequired
      else case parse (je_acted_json e) of
        Inl err \<Rightarrow> Inl (ReceiptInvalid err)
      | Inr acted \<Rightarrow>
          (case attestation_member acted of
             Some s \<Rightarrow> if length s = 64 \<and> list_all (\<lambda>c. is_ascii_hexdigit c) (chars s) then journal_with_conn env db writ e
               else Inl ProofRequired
           | None \<Rightarrow> Inl ProofRequired))"

section \<open>Verification\<close>

text \<open>The rows of the chain in the order both passes read them.\<close>

definition chain_rows :: "journal_row list \<Rightarrow> journal_row list" where
  "chain_rows rows = sort_key je_created_at (filter (\<lambda>r. jr_audit_hash r \<noteq> []) rows)"

fun verify_loop :: "digest_env \<Rightarrow> string option \<Rightarrow> string \<Rightarrow> int \<Rightarrow> journal_row list \<Rightarrow> chain_error + int" where
  "verify_loop env key prev n [] = Inr n"
| "verify_loop env key prev n (r # rs) =
     (if je_event_type r \<noteq> ''redacted'' \<and> audit_payload_commitment env r \<noteq> jr_payload_commitment r
      then Inl (ContentAltered (je_id r))
      else if audit_chain_mac env key prev (je_id r) (je_created_at r) (je_workspace_hash r) (jr_payload_commitment r) \<noteq> jr_audit_hash r
      then Inl (LinkMismatch (je_id r) (key \<noteq> None))
      else verify_loop env key (jr_audit_hash r) (n + 1) rs)"

definition KEYED_SCHEME :: string where
  "KEYED_SCHEME = ''hmac-sha256-v1''"

definition verify_audit_chain :: "digest_env \<Rightarrow> audit_db \<Rightarrow> chain_error + int" where
  "verify_audit_chain env db =
     (if map_option fst (au_chain db) = Some KEYED_SCHEME \<and> au_key db = None then Inl KeyRequired
      else verify_loop env (au_key db) genesis 0 (chain_rows (au_journal db)))"

section \<open>Recomputing the chain\<close>

text \<open>Each row of the chain with its new hash and commitment; a redacted row keeps its commitment.\<close>

fun rehash_loop :: "digest_env \<Rightarrow> string option \<Rightarrow> string \<Rightarrow> journal_row list \<Rightarrow> journal_row list" where
  "rehash_loop env key prev [] = []"
| "rehash_loop env key prev (r # rs) =
     (let commitment = (if je_event_type r = ''redacted'' \<and> jr_payload_commitment r \<noteq> [] then jr_payload_commitment r
            else audit_payload_commitment env r);
          h = audit_chain_mac env key prev (je_id r) (je_created_at r) (je_workspace_hash r) commitment
      in r\<lparr>jr_audit_hash := h, jr_payload_commitment := commitment\<rparr> # rehash_loop env key h rs)"

text \<open>\<open>UPDATE journal SET audit_hash, payload_commitment WHERE rowid\<close>.\<close>

definition write_back :: "journal_row list \<Rightarrow> journal_row \<Rightarrow> journal_row" where
  "write_back updates r =
     (case find (\<lambda>u. jr_rowid u = jr_rowid r) updates of
        None \<Rightarrow> r
      | Some u \<Rightarrow> r\<lparr>jr_audit_hash := jr_audit_hash u, jr_payload_commitment := jr_payload_commitment u\<rparr>)"

definition rehash_audit_chain_keyed :: "digest_env \<Rightarrow> string option \<Rightarrow> journal_row list \<Rightarrow> int \<times> journal_row list" where
  "rehash_audit_chain_keyed env key rows =
     (let updates = rehash_loop env key genesis (chain_rows rows)
      in (int (length updates), map (write_back updates) rows))"

text \<open>The part of \<open>set_encryption\<close> that keys the chain, and that of \<open>rotate_encryption_key\<close>.\<close>

definition set_encryption_chain :: "digest_env \<Rightarrow> audit_db \<Rightarrow> string \<Rightarrow> audit_db" where
  "set_encryption_chain env db k =
     (let canary = audit_key_canary env k
      in if map_option snd (au_chain db) = Some canary then db\<lparr>au_key := Some k\<rparr>
         else db\<lparr>au_journal := snd (rehash_audit_chain_keyed env (Some k) (au_journal db)),
           au_chain := Some (KEYED_SCHEME, canary), au_key := Some k\<rparr>)"

definition rotate_chain :: "digest_env \<Rightarrow> audit_db \<Rightarrow> string \<Rightarrow> audit_db" where
  "rotate_chain env db k =
     db\<lparr>au_journal := snd (rehash_audit_chain_keyed env (Some k) (au_journal db)),
       au_chain := Some (KEYED_SCHEME, audit_key_canary env k), au_key := Some k\<rparr>"

section \<open>Redaction\<close>

definition redact_match :: "string \<Rightarrow> string \<Rightarrow> string \<Rightarrow> string \<Rightarrow> journal_row \<Rightarrow> bool" where
  "redact_match eid cat k ws r \<longleftrightarrow> je_event_type r \<noteq> ''redacted'' \<and>
     (je_entity_id r = eid \<or> je_category r = cat \<and> je_key r = k \<and> je_key r \<noteq> [] \<and>
       (je_workspace_hash r = ws \<or> je_workspace_hash r = []))"

definition redact_row :: "journal_row \<Rightarrow> journal_row" where
  "redact_row r = r\<lparr>je_event_type := ''redacted'', je_evaluated_json := ''{}'', je_acted_json := ''{}'', je_forward_json := ''{}'',
     je_category := [], je_key := [], je_entity_id := []\<rparr>"

definition redact_journal :: "audit_db \<Rightarrow> string \<Rightarrow> string \<Rightarrow> string \<Rightarrow> string \<Rightarrow> audit_db" where
  "redact_journal db eid cat k ws =
     db\<lparr>au_journal := map (\<lambda>r. if redact_match eid cat k ws r then redact_row r else r) (au_journal db)\<rparr>"

end
