(* ===== verification/Task_Serve.thy ===== *)
theory Task_Serve
  imports Task_State Audit_Chain
begin

text \<open>
  The operations on task states: the store with its compare-and-swap (\<open>task_state_get\<close> and
  \<open>task_state_compare_and_swap\<close> of \<open>src/src/db.rs\<close>), the resolution of evidence against the
  governed tables, the serving path and the rebuild of \<open>src/src/task_state.rs\<close>. Decoding the
  stored JSON is \<open>serde_json\<close>, the argument \<open>te_decode\<close>. Serving recalls candidates, and a recall without
  retrieval side effects still writes: it stores embeddings that are missing and journals seals that do
  not match. The ranking itself and the embedding backend are the arguments \<open>recall_call\<close> of the serving
  path. An embedding is known by the id of its record; the numbers, their signatures and the declared
  basis are not modelled. The clock is read once for each operation.
\<close>

section \<open>Tables\<close>

record provider_row =
  pv_source_id :: string
  pv_entity_id :: "string option"
  pv_revision :: string
  pv_content_sha256 :: "string option"
  pv_workspace_hash :: string
  pv_visibility :: string
  pv_state :: string
  pv_deleted_at :: "int option"

text \<open>A row of \<open>task_state_projections\<close>; the five columns of the primary key are its scope.\<close>

record projection_row =
  pj_scope :: task_state_scope
  pj_schema_version :: string
  pj_state_sequence :: int
  pj_base_sequence :: int
  pj_observed_input_digest :: string
  pj_source_digest :: string
  pj_evidence_digest :: string
  pj_state_digest :: string
  pj_state_json :: string
  pj_created_at :: int
  pj_updated_at :: int

record memory_seal =
  sa_seal_id :: string
  sa_target_id :: string
  sa_label :: string
  sa_scope :: string
  sa_sha256 :: string
  sa_workspace_hash :: string
  sa_agent_id :: string
  sa_created_at :: int

text \<open>The records with their journal, the other tables, and the ids of the records with an embedding.\<close>

record vault =
  vt_audit :: audit_db
  vt_providers :: "provider_row list"
  vt_projections :: "projection_row list"
  vt_seals :: "memory_seal list"
  vt_embedded :: "string list"

definition vt_gate :: "vault \<Rightarrow> gate_db" where
  "vt_gate vt = gate_of (au_store (vt_audit vt))"

record task_env =
  te_gate :: gate_env
  te_decode :: "string \<Rightarrow> task_state option"
  te_writ :: string

definition te_digest :: "task_env \<Rightarrow> digest_env" where
  "te_digest env = ge_digest (te_gate env)"

section \<open>The store\<close>

definition projection :: "vault \<Rightarrow> task_state_scope \<Rightarrow> projection_row option" where
  "projection vt scope = find (\<lambda>r. pj_scope r = scope) (vt_projections vt)"

text \<open>\<open>u64::try_from\<close> on an \<open>i64\<close> column, with a default.\<close>

definition u64_of :: "int \<Rightarrow> int \<Rightarrow> int" where
  "u64_of x d = (if x \<ge> 0 then x else d)"

definition task_state_get :: "task_env \<Rightarrow> vault \<Rightarrow> task_state_scope \<Rightarrow> task_state option result" where
  "task_state_get env vt scope =
     (case projection vt scope of
        None \<Rightarrow> Inr None
      | Some row \<Rightarrow>
          bind_r (ok_or (te_decode env (pj_state_json row)) ''stored task-state is malformed'') (\<lambda>state.
          bind_r (state_validate (te_digest env) state) (\<lambda>_.
            if ts_scope state \<noteq> scope \<or> ts_schema_version state \<noteq> pj_schema_version row \<or>
               sc_task_id (ts_scope state) \<noteq> sc_task_id (pj_scope row) \<or>
               ts_state_sequence state \<noteq> u64_of (pj_state_sequence row) 0 \<or>
               ts_base_sequence state \<noteq> u64_of (pj_base_sequence row) 0 \<or>
               ts_state_digest state \<noteq> pj_state_digest row
            then Inl ''stored task-state scope, sequence, or digest mismatch''
            else Inr (Some state))))"

definition state_row :: "task_env \<Rightarrow> task_state \<Rightarrow> int \<Rightarrow> int \<Rightarrow> projection_row" where
  "state_row env s created now = \<lparr>pj_scope = ts_scope s, pj_schema_version = ts_schema_version s,
     pj_state_sequence = ts_state_sequence s, pj_base_sequence = ts_base_sequence s,
     pj_observed_input_digest = ts_observed_input_digest s, pj_source_digest = ts_source_digest s,
     pj_evidence_digest = ts_evidence_digest s, pj_state_digest = ts_state_digest s,
     pj_state_json = json_text (te_digest env) (task_state_json s), pj_created_at = created,
     pj_updated_at = now\<rparr>"

text \<open>The sequence the code compares with: that of the row, \<open>u64::MAX\<close> for a negative one, zero
  without a row.\<close>

definition current_sequence :: "vault \<Rightarrow> task_state_scope \<Rightarrow> int" where
  "current_sequence vt scope =
     (case projection vt scope of None \<Rightarrow> 0 | Some row \<Rightarrow> u64_of (pj_state_sequence row) u64_max)"

text \<open>An error rolls the transaction back.\<close>

definition task_state_compare_and_swap :: "task_env \<Rightarrow> vault \<Rightarrow> int \<Rightarrow> task_state \<Rightarrow> unit result \<times> vault" where
  "task_state_compare_and_swap env vt now s =
     (case state_validate (te_digest env) s of
        Inl e \<Rightarrow> (Inl e, vt)
      | Inr _ \<Rightarrow>
          if current_sequence vt (ts_scope s) \<noteq> ts_base_sequence s
          then (Inl (''stale base sequence: expected '' @ show_int (ts_base_sequence s) @ '', current '' @
                 show_int (current_sequence vt (ts_scope s))), vt)
          else if ts_state_sequence s > i64_max then (Inl ''state_sequence exceeds SQLite range'', vt)
          else if ts_base_sequence s > i64_max then (Inl ''base_sequence exceeds SQLite range'', vt)
          else
            (case projection vt (ts_scope s) of
               Some _ \<Rightarrow>
                 let hit = (\<lambda>r. pj_scope r = ts_scope s \<and> pj_state_sequence r = ts_base_sequence s);
                     affected = length (filter hit (vt_projections vt));
                     vt' = vt\<lparr>vt_projections := map (\<lambda>r. if hit r
                       then state_row env s (pj_created_at r) now else r) (vt_projections vt)\<rparr>
                 in if affected \<noteq> 1
                    then (Inl ''stale base sequence: compare-and-swap did not update one row'', vt)
                    else (Inr (), vt')
             | None \<Rightarrow>
                 (Inr (), vt\<lparr>vt_projections := vt_projections vt @ [state_row env s now now]\<rparr>)))"

section \<open>Evidence\<close>

record canonical_source =
  cs_id :: string
  cs_source_id :: string
  cs_category :: string
  cs_key :: string
  cs_workspace_hash :: string
  cs_agent_id :: string
  cs_status :: string
  cs_revision :: string
  cs_source_digest :: string

definition entity_source :: "entity \<Rightarrow> string \<Rightarrow> string \<Rightarrow> string \<Rightarrow> canonical_source" where
  "entity_source e source_id revision digest = \<lparr>cs_id = en_id e, cs_source_id = source_id,
     cs_category = en_category e, cs_key = en_key e, cs_workspace_hash = en_workspace_hash e,
     cs_agent_id = en_agent_id e, cs_status = en_status e, cs_revision = revision,
     cs_source_digest = digest\<rparr>"

definition canonical_reference :: "digest_env \<Rightarrow> entity \<Rightarrow> task_evidence_reference" where
  "canonical_reference env e =
     (let digest = sha256_hex env (en_body_json e)
      in \<lparr>er_entity_id = en_id e, er_source_id = ''entity:'' @ en_id e,
          er_revision = ''entity-v1:'' @ digest, er_source_digest = digest, er_evidence_digest = digest\<rparr>)"

text \<open>A message about one reference.\<close>

definition about :: "string \<Rightarrow> string \<Rightarrow> string \<Rightarrow> string" where
  "about pre x post = pre @ quoted x @ post"

definition resolve_provider_source ::
    "task_env \<Rightarrow> vault \<Rightarrow> task_state_scope \<Rightarrow> entity \<Rightarrow> task_evidence_reference \<Rightarrow> canonical_source result" where
  "resolve_provider_source env vt scope e ref =
     (case find (\<lambda>p. pv_source_id p = er_source_id ref) (vt_providers vt) of
        None \<Rightarrow> Inl (about ''unknown source identity '' (er_source_id ref) [])
      | Some p \<Rightarrow>
          if pv_state p \<noteq> ''active'' \<or> pv_deleted_at p \<noteq> None
          then Inl (about ''evidence source '' (er_source_id ref) '' is revoked'')
          else if pv_entity_id p \<noteq> Some (en_id e)
          then Inl (about ''source identity mismatch for evidence reference '' (er_entity_id ref) [])
          else if pv_workspace_hash p \<noteq> sc_workspace_hash scope \<and> pv_workspace_hash p \<noteq> []
          then Inl (about ''source workspace scope mismatch for '' (er_source_id ref) [])
          else if \<not> requester_can_read (vt_gate vt) (Some (sc_principal_id scope)) (pv_visibility p) (en_agent_id e)
          then Inl (about ''evidence source '' (er_source_id ref) '' is invisible to the task principal'')
          else case pv_content_sha256 p of
            None \<Rightarrow> Inl (about ''source digest unavailable for '' (er_source_id ref) [])
          | Some digest \<Rightarrow>
              bind_r (Task_State.validate_sha256 ''provider source content_sha256'' digest) (\<lambda>_.
                if er_revision ref \<noteq> pv_revision p
                then Inl (about ''stale source version for evidence source '' (er_source_id ref) [])
                else if er_source_digest ref \<noteq> digest
                then Inl (about ''source digest mismatch for evidence source '' (er_source_id ref) [])
                else Inr (entity_source e (er_source_id ref) (pv_revision p) digest)))"

definition check_status :: "string \<Rightarrow> string \<Rightarrow> unit result" where
  "check_status eid status =
     (if status = ''deprecated'' then Inl (about ''evidence reference '' eid '' is superseded'')
      else if status = ''expired'' then Inl (about ''evidence reference '' eid '' is expired'')
      else if status = ''active'' \<or> status = ''draft'' then Inr ()
      else Inl (about ''evidence reference '' eid '' has non-serveable lifecycle status '' @ quoted status))"

text \<open>The times of the row against the anchor.\<close>

definition outside_validity :: "entity_row \<Rightarrow> int \<Rightarrow> bool" where
  "outside_validity r anchor \<longleftrightarrow>
     anchor < row_created_at r \<or>
     (case row_valid_from r of None \<Rightarrow> False | Some t \<Rightarrow> anchor < t) \<or>
     (case row_valid_to r of None \<Rightarrow> False | Some t \<Rightarrow> anchor \<ge> t) \<or>
     (case row_invalidated_at r of None \<Rightarrow> False | Some t \<Rightarrow> anchor \<ge> t)"

definition entity_reference_source ::
    "digest_env \<Rightarrow> entity \<Rightarrow> task_evidence_reference \<Rightarrow> canonical_source result" where
  "entity_reference_source env e ref =
     (let digest = sha256_hex env (en_body_json e);
          revision = ''entity-v1:'' @ digest
      in if er_source_digest ref \<noteq> digest \<or> er_evidence_digest ref \<noteq> digest
         then Inl (about ''source digest mismatch for evidence reference '' (er_entity_id ref) [])
         else if er_revision ref \<noteq> revision
         then Inl (about ''stale source version for evidence reference '' (er_entity_id ref) [])
         else Inr (entity_source e (er_source_id ref) revision digest))"

text \<open>One round of the loop of \<open>resolve_references\<close>.\<close>

definition resolve_reference ::
    "task_env \<Rightarrow> vault \<Rightarrow> int \<Rightarrow> task_state_scope \<Rightarrow> int option \<Rightarrow> task_evidence_reference \<Rightarrow> canonical_source result" where
  "resolve_reference env vt now scope temporal_anchor ref =
     (let genv = te_gate env; gdb = vt_gate vt; eid = er_entity_id ref
      in bind_r (reference_validate ''evidence'' ref) (\<lambda>_.
         bind_r (map_err (\<lambda>e. ''canonical evidence lookup failed: '' @ gate_error_text e)
           (get_entity_by_id_raw genv gdb eid)) (\<lambda>found.
         case found of
           None \<Rightarrow> Inl (about ''unknown evidence reference ID '' eid [])
         | Some raw \<Rightarrow>
             if en_workspace_hash raw \<noteq> sc_workspace_hash scope \<and> en_workspace_hash raw \<noteq> []
             then Inl (about ''evidence workspace scope mismatch for '' eid [])
             else if \<not> requester_can_read gdb (Some (sc_principal_id scope)) (en_visibility raw) (en_agent_id raw)
             then Inl (about ''evidence reference '' eid '' is invisible to the task principal'')
             else if en_archived raw then Inl (about ''evidence reference '' eid '' is archived'')
             else bind_r (check_status eid (en_status raw)) (\<lambda>_.
               case find (\<lambda>r. row_id r = en_id raw) (gd_entities gdb) of
                 None \<Rightarrow> Inl ''canonical temporal lookup failed: Query returned no rows''
               | Some r \<Rightarrow>
                   let anchor = or_else temporal_anchor now
                   in if outside_validity r anchor
                      then Inl (about ''evidence reference '' eid '' is not valid at temporal anchor'')
                      else if (case entity_expiry_ms genv (en_body_json raw) of None \<Rightarrow> False | Some x \<Rightarrow> x \<le> anchor)
                      then Inl (about ''evidence reference '' eid '' is expired'')
                      else bind_r (map_err (\<lambda>e. ''governed evidence lookup failed: '' @ gate_error_text e)
                          (get_entity_by_id_for_requester genv gdb now eid (Some (sc_principal_id scope)))) (\<lambda>served.
                        case served of
                          None \<Rightarrow> Inl (about ''evidence reference '' eid '' is suppressed or unavailable'')
                        | Some e \<Rightarrow>
                            if er_source_id ref = ''entity:'' @ en_id e
                            then entity_reference_source (te_digest env) e ref
                            else resolve_provider_source env vt scope e ref)))))"

text \<open>The loop pushes each source and each reference; it stops at the first error.\<close>

fun resolve_references ::
    "task_env \<Rightarrow> vault \<Rightarrow> int \<Rightarrow> task_state_scope \<Rightarrow> int option \<Rightarrow> task_evidence_reference list \<Rightarrow>
      canonical_source list \<Rightarrow> (task_evidence_reference list \<times> canonical_source list) result" where
  "resolve_references env vt now scope anchor [] sources = Inr ([], sources)"
| "resolve_references env vt now scope anchor (ref # refs) sources =
     bind_r (resolve_reference env vt now scope anchor ref) (\<lambda>source.
     bind_r (resolve_references env vt now scope anchor refs (sources @ [source])) (\<lambda>(rs, ss).
       Inr (ref # rs, ss)))"

section \<open>Digests of evidence\<close>

definition source_json :: "canonical_source \<Rightarrow> json" where
  "source_json s = JObj [(''id'', JStr (cs_id s)), (''source_id'', JStr (cs_source_id s)),
     (''category'', JStr (cs_category s)), (''key'', JStr (cs_key s)),
     (''workspace_hash'', JStr (cs_workspace_hash s)), (''agent_id'', JStr (cs_agent_id s)),
     (''status'', JStr (cs_status s)), (''revision'', JStr (cs_revision s)),
     (''source_digest'', JStr (cs_source_digest s))]"

definition digest_sources :: "digest_env \<Rightarrow> canonical_source list \<Rightarrow> string" where
  "digest_sources env sources = domain_digest env ''perseus-vault/task-state-sources/v1''
     (JArr (map source_json
       (sort_key (\<lambda>s. (cs_id s, cs_source_id s, cs_revision s, cs_source_digest s)) sources)))"

definition digest_references ::
    "digest_env \<Rightarrow> task_evidence_reference list \<Rightarrow> task_evidence_reference list \<Rightarrow> string" where
  "digest_references env accepted rejected = domain_digest env ''perseus-vault/task-state-evidence/v1''
     (JObj [(''accepted'', JArr (map reference_json accepted)), (''rejected'', JArr (map reference_json rejected)),
        (''accepted_count'', JInt (int (length accepted))), (''rejected_count'', JInt (int (length rejected)))])"

section \<open>Serving\<close>

definition derive_outcome :: "nat \<Rightarrow> nat \<Rightarrow> nat \<Rightarrow> nat \<Rightarrow> nat \<Rightarrow> recall_outcome option \<Rightarrow> task_state_outcome" where
  "derive_outcome accepted rejected unresolved conflicts missing recall =
     (let rest =
            (if accepted = 0 \<and> (unresolved > 0 \<or> missing > 0) then Abstained
             else if accepted = 0 then Abstained
             else if rejected > 0 \<or> unresolved > 0 \<or> missing > 0 then Partial
             else Complete)
      in if conflicts > 0 then Abstained
         else case recall of
           None \<Rightarrow> rest
         | Some r \<Rightarrow>
             (case ro_status r of
                RUnavailable \<Rightarrow>
                  if accepted > 0 \<and> ro_reason r = ''semantic_backend_not_serving'' then Degraded else Unavailable
              | RPartial \<Rightarrow> Degraded
              | RTimeout \<Rightarrow> Degraded
              | RStale \<Rightarrow> Degraded
              | RFresh \<Rightarrow> rest
              | REmpty \<Rightarrow> rest))"

definition missing_reason :: "recall_status \<Rightarrow> bool \<Rightarrow> string" where
  "missing_reason status no_candidates =
     (case status of
        RUnavailable \<Rightarrow> ''governed evidence backend unavailable''
      | RPartial \<Rightarrow> ''governed evidence lane is incomplete''
      | RTimeout \<Rightarrow> ''governed evidence lane is incomplete''
      | RStale \<Rightarrow> ''governed evidence lane is incomplete''
      | _ \<Rightarrow> if no_candidates then ''no governed evidence matched the task query''
             else ''no governed evidence survived validation'')"

record task_fallback =
  fb_mode :: string
  fb_reason :: string

record task_serving_response =
  sv_schema_version :: string
  sv_outcome :: task_state_outcome
  sv_task_state :: task_state
  sv_canonical_sources :: "canonical_source list"
  sv_recalled_evidence :: "task_evidence_reference list"
  sv_rejected_evidence :: "task_evidence_reference list"
  sv_unresolved_evidence :: "evidence_slot list"
  sv_missing_evidence :: "evidence_slot list"
  sv_fallback :: "task_fallback option"

fun fallback_for :: "task_state_outcome \<Rightarrow> task_fallback option" where
  "fallback_for Complete = None"
| "fallback_for Partial = Some \<lparr>fb_mode = ''canonical_retrieval'', fb_reason = ''task state has incomplete evidence''\<rparr>"
| "fallback_for Degraded = Some \<lparr>fb_mode = ''canonical_retrieval'',
     fb_reason = ''task state was served from a degraded evidence lane''\<rparr>"
| "fallback_for Abstained = Some \<lparr>fb_mode = ''canonical_retrieval'',
     fb_reason = ''task state has no sufficient unconflicted evidence''\<rparr>"
| "fallback_for Unavailable = Some \<lparr>fb_mode = ''canonical_retrieval'',
     fb_reason = ''task-state projection is unavailable''\<rparr>"

section \<open>Recall\<close>

text \<open>What a recall depends on besides the tables: whether the search of a mode gets as far as settling
  embeddings, whether a text is embedded (the store has its key and the backend answers), the hits the
  search selects for a mode and a limit, and the ids of new journal events. Query, category and workspace are
  fixed in it.\<close>

record recall_call =
  rc_settles :: "search_mode \<Rightarrow> bool"
  rc_embeds :: "string \<Rightarrow> bool"
  rc_hits :: "search_mode \<Rightarrow> int \<Rightarrow> gate_error + entity list"
  rc_event_id :: "nat \<Rightarrow> string"

definition get_entity :: "gate_env \<Rightarrow> gate_db \<Rightarrow> int \<Rightarrow> string \<Rightarrow> string \<Rightarrow> gate_error + entity option" where
  "get_entity env db now cat k =
     (case sort_key (\<lambda>r. (or_else (row_workspace r) [], row_id r))
         (filter (\<lambda>r. row_category r = cat \<and> row_key r = k) (gd_entities db)) of
        [] \<Rightarrow> Inr None
      | r # _ \<Rightarrow> bind_r (entity_from_row env r) (\<lambda>e.
          bind_r (filter_direct_readable env db now [e]) (\<lambda>kept.
            Inr (if kept = [] then None else Some (last kept)))))"

definition store_embedding :: "vault \<Rightarrow> string \<Rightarrow> vault" where
  "store_embedding vt eid = vt\<lparr>vt_embedded := List.insert eid (vt_embedded vt)\<rparr>"

text \<open>One record by category and key; every failure is ignored by the caller.\<close>

definition embed_entity :: "task_env \<Rightarrow> (string \<Rightarrow> bool) \<Rightarrow> int \<Rightarrow> string \<Rightarrow> string \<Rightarrow> vault \<Rightarrow> vault" where
  "embed_entity env embeds now cat k vt =
     (case get_entity (te_gate env) (vt_gate vt) now cat k of
        Inr (Some e) \<Rightarrow> if embeds (en_body_json e) then store_embedding vt (en_id e) else vt
      | _ \<Rightarrow> vt)"

definition settle_dense_candidates :: "task_env \<Rightarrow> (string \<Rightarrow> bool) \<Rightarrow> int \<Rightarrow> nat \<Rightarrow> vault \<Rightarrow> vault" where
  "settle_dense_candidates env embeds now cap vt =
     fold (\<lambda>r. embed_entity env embeds now (row_category r) (row_key r))
       (take cap (filter (\<lambda>r. row_archived r = 0 \<and> row_id r \<notin> set (vt_embedded vt)) (gd_entities (vt_gate vt)))) vt"

text \<open>The newest row; of several with one time the last one.\<close>

definition newest_row :: "('a \<Rightarrow> int) \<Rightarrow> 'a list \<Rightarrow> 'a option" where
  "newest_row t rows = (case sort_key t rows of [] \<Rightarrow> None | r # rs \<Rightarrow> Some (last (r # rs)))"

text \<open>The arguments that name a mismatch.\<close>

record seal_mismatch =
  sm_seal :: string
  sm_target_id :: string
  sm_label :: string
  sm_scope :: string
  sm_expected :: string
  sm_actual :: string
  sm_surface :: string
  sm_workspace_hash :: string

definition tamper_event :: "digest_env \<Rightarrow> int \<Rightarrow> string \<Rightarrow> seal_mismatch \<Rightarrow> journal_event" where
  "tamper_event env now event_id sm =
     \<lparr>je_id = ''jrn-'' @ event_id, je_event_type = ''tamper_evidence'',
      je_evaluated_json = json_text env (JObj [(''actual_sha256'', JStr (sm_actual sm)),
        (''expected_sha256'', JStr (sm_expected sm)), (''label'', JStr (sm_label sm)), (''scope'', JStr (sm_scope sm)),
        (''seal_id'', JStr (sm_seal sm)), (''surface'', JStr (sm_surface sm)), (''target_id'', JStr (sm_target_id sm))]),
      je_acted_json = ''{}'', je_forward_json = ''{}'', je_category = [], je_key = [], je_entity_id = sm_target_id sm,
      je_agent_id = [], je_workspace_hash = sm_workspace_hash sm, je_created_at = now\<rparr>"

definition journal_tamper_evidence :: "task_env \<Rightarrow> vault \<Rightarrow> int \<Rightarrow> string \<Rightarrow> seal_mismatch \<Rightarrow> journal_error + vault" where
  "journal_tamper_evidence env vt now event_id sm =
     (let prev = newest_row je_created_at (filter (\<lambda>j. je_entity_id j = sm_target_id sm \<and> je_event_type j = ''tamper_evidence'')
           (au_journal (vt_audit vt)))
      in if (case prev of None \<Rightarrow> False
             | Some j \<Rightarrow> contains (je_evaluated_json j) (sm_expected sm) \<and> contains (je_evaluated_json j) (sm_actual sm))
         then Inr vt
         else bind_r (journal_with_conn (te_digest env) (vt_audit vt) (te_writ env) (tamper_event (te_digest env) now event_id sm))
           (\<lambda>audit. Inr (vt\<lparr>vt_audit := audit\<rparr>)))"

text \<open>One delivered record against its newest seal; an event that cannot be written is dropped.\<close>

definition seal_check :: "task_env \<Rightarrow> int \<Rightarrow> string \<Rightarrow> entity \<Rightarrow> vault \<Rightarrow> vault" where
  "seal_check env now event_id e vt =
     (case newest_row sa_created_at (filter (\<lambda>x. sa_scope x = ''entity'' \<and> sa_target_id x = en_id e) (vt_seals vt)) of
        None \<Rightarrow> vt
      | Some latest \<Rightarrow>
          let expected = sa_sha256 latest; actual = sha256_hex (te_digest env) (en_body_json e)
          in if actual = expected then vt
             else
               let found = newest_row sa_created_at
                     (filter (\<lambda>x. sa_target_id x = en_id e \<and> sa_sha256 x = expected) (vt_seals vt));
                   ws = or_else (map_option sa_workspace_hash found) [];
                   sm = \<lparr>sm_seal = or_else (map_option sa_seal_id found) [], sm_target_id = en_id e,
                     sm_label = or_else (map_option sa_label found) [], sm_scope = ''entity'', sm_expected = expected,
                     sm_actual = actual, sm_surface = ''recall'',
                     sm_workspace_hash = (if ws = [] then en_workspace_hash e else ws)\<rparr>
               in case journal_tamper_evidence env vt now event_id sm of
                    Inl _ \<Rightarrow> vt
                  | Inr vt' \<Rightarrow> vt')"

text \<open>The loop over the delivered records; the ids it collects are not used by a recall.\<close>

fun seal_loop :: "task_env \<Rightarrow> int \<Rightarrow> (nat \<Rightarrow> string) \<Rightarrow> nat \<Rightarrow> entity list \<Rightarrow> vault \<Rightarrow> vault" where
  "seal_loop env now ids n [] vt = vt"
| "seal_loop env now ids n (e # es) vt = seal_loop env now ids (Suc n) es (seal_check env now (ids n) e vt)"

definition recall_seal_compare :: "task_env \<Rightarrow> int \<Rightarrow> (nat \<Rightarrow> string) \<Rightarrow> entity list \<Rightarrow> vault \<Rightarrow> vault" where
  "recall_seal_compare env now ids entities vt =
     (if entities = [] \<or> vt_seals vt = [] then vt else seal_loop env now ids 0 entities vt)"

text \<open>\<open>Database::recall\<close> with \<open>skip_side_effects\<close>: embeddings are settled before the search, also when it then
  fails. The wait for the background embedding worker that follows writes nothing itself.\<close>

definition vault_recall ::
    "task_env \<Rightarrow> vault \<Rightarrow> int \<Rightarrow> recall_call \<Rightarrow> search_mode \<Rightarrow> int \<Rightarrow> (gate_error + entity list) \<times> vault" where
  "vault_recall env vt now call mode limit =
     (let vt1 = (if rc_settles call mode then settle_dense_candidates env (rc_embeds call) now 128 vt else vt)
      in case rc_hits call mode limit of
           Inl e \<Rightarrow> (Inl e, vt1)
         | Inr entities \<Rightarrow> (Inr entities, recall_seal_compare env now (rc_event_id call) entities vt1))"

definition recall_candidates ::
    "task_env \<Rightarrow> vault \<Rightarrow> int \<Rightarrow> recall_health \<Rightarrow> recall_call \<Rightarrow> search_mode \<Rightarrow> int \<Rightarrow> string \<Rightarrow>
      (entity list \<times> recall_outcome) \<times> vault" where
  "recall_candidates env vt now health call mode limit who =
     (let available = (mode = Fts5);
          (hits, vt1) = vault_recall env vt now call mode (max 1 (min (int MAX_EVIDENCE_REFS) limit))
      in ((case recall_for_requester (te_gate env) (vt_gate vt1) now hits (Some who) of
             Inr candidates \<Rightarrow> (candidates, recall_outcome health mode available (length candidates) None)
           | Inl e \<Rightarrow> ([], recall_outcome health mode available 0 (Some (gate_error_text e)))), vt1))"

section \<open>Serving a task\<close>

text \<open>What is checked before anything is recalled; it only reads.\<close>

definition task_gates ::
    "task_env \<Rightarrow> vault \<Rightarrow> task_state_request \<Rightarrow> string \<Rightarrow> string \<Rightarrow> string option \<Rightarrow> search_mode result" where
  "task_gates env vt request query requester requested_workspace =
     bind_r (request_validate (te_digest env) request query requested_workspace requester) (\<lambda>_.
     bind_r (if rq_base_sequence request > 0 then task_state_get env vt (request_scope request) else Inr None) (\<lambda>previous.
     bind_r (case previous of None \<Rightarrow> Inr () | Some p \<Rightarrow> ensure_immutable_spec p request) (\<lambda>_.
       task_search_mode (rq_route request))))"

text \<open>The state made of the request and what was recalled; it only reads.\<close>

definition assemble_task_state ::
    "task_env \<Rightarrow> vault \<Rightarrow> int \<Rightarrow> task_state_request \<Rightarrow> entity list \<Rightarrow> recall_outcome \<Rightarrow>
      (task_state \<times> canonical_source list) result" where
  "assemble_task_state env vt now request candidates outcome =
     (let denv = te_digest env; scope = request_scope request; anchor = rq_temporal_anchor request;
          auto_recall = (rq_accepted request = [] \<and> rq_rejected request = []);
          accepted_input = (if auto_recall then map (canonical_reference denv) candidates else rq_accepted request)
      in
      bind_r (resolve_references env vt now scope anchor accepted_input []) (\<lambda>(accepted, sources1).
      bind_r (resolve_references env vt now scope anchor (rq_rejected request) sources1) (\<lambda>(rejected, sources).
        let missing = (if accepted = [] \<and> rq_unresolved request = [] \<and> rq_missing request = []
              then [\<lparr>sl_slot_id = ''task-evidence'',
                     sl_reason = missing_reason (ro_status outcome) (candidates = [])\<rparr>]
              else rq_missing request);
            source_digest = digest_sources denv sources;
            evidence_digest = digest_references denv accepted rejected
        in
        bind_r (validate_slots ''missing_evidence'' missing) (\<lambda>_.
        bind_r (guard_r (case rq_source_digest request of None \<Rightarrow> False | Some d \<Rightarrow> d \<noteq> source_digest)
          ''source digest mismatch'') (\<lambda>_.
        bind_r (guard_r (case rq_evidence_digest request of None \<Rightarrow> False | Some d \<Rightarrow> d \<noteq> evidence_digest)
          ''evidence digest mismatch'') (\<lambda>_.
        let result = derive_outcome (length accepted) (length rejected) (length (rq_unresolved request))
              (length (rq_conflicts request)) (length missing) (if auto_recall then Some outcome else None)
        in
        bind_r (from_request denv request accepted rejected missing source_digest evidence_digest result)
          (\<lambda>state. Inr (state, sources))))))))"

definition serve_project_task ::
    "task_env \<Rightarrow> vault \<Rightarrow> int \<Rightarrow> recall_health \<Rightarrow> recall_call \<Rightarrow> task_state_request \<Rightarrow> string \<Rightarrow> int \<Rightarrow> string \<Rightarrow> string option \<Rightarrow>
      task_serving_response result \<times> vault" where
  "serve_project_task env vt now health recall request query limit requester requested_workspace =
     (case task_gates env vt request query requester requested_workspace of
        Inl e \<Rightarrow> (Inl e, vt)
      | Inr mode \<Rightarrow>
          (case recall_candidates env vt now health recall mode limit (sc_principal_id (request_scope request)) of
             ((candidates, outcome), vt1) \<Rightarrow>
               (case assemble_task_state env vt1 now request candidates outcome of
                  Inl e \<Rightarrow> (Inl e, vt1)
                | Inr (state, sources) \<Rightarrow>
                    (case task_state_compare_and_swap env vt1 now state of
                       (Inl e, vt') \<Rightarrow> (Inl e, vt')
                     | (Inr _, vt') \<Rightarrow>
                         (Inr \<lparr>sv_schema_version = TASK_STATE_SCHEMA_VERSION, sv_outcome = ts_outcome state,
                            sv_task_state = state,
                            sv_canonical_sources = dedup_by_key (\<lambda>s. (cs_id s, cs_source_id s))
                              (sort_key (\<lambda>s. (cs_id s, cs_source_id s, cs_revision s)) sources),
                            sv_recalled_evidence = ts_accepted state, sv_rejected_evidence = ts_rejected state,
                            sv_unresolved_evidence = ts_unresolved state, sv_missing_evidence = ts_missing state,
                            sv_fallback = fallback_for (ts_outcome state)\<rparr>, vt')))))"

definition rebuild_task_state :: "task_env \<Rightarrow> vault \<Rightarrow> int \<Rightarrow> task_state_scope \<Rightarrow> task_state result" where
  "rebuild_task_state env vt now scope =
     bind_r (scope_validate scope) (\<lambda>_.
     bind_r (task_state_get env vt scope) (\<lambda>found.
     bind_r (ok_or found ''task state is unavailable'') (\<lambda>state.
     bind_r (resolve_references env vt now scope (ts_temporal_anchor state) (ts_accepted state) []) (\<lambda>(accepted, sources1).
     bind_r (resolve_references env vt now scope (ts_temporal_anchor state) (ts_rejected state) sources1) (\<lambda>(rejected, sources).
       if digest_sources (te_digest env) sources \<noteq> ts_source_digest state
       then Inl ''source digest mismatch while rebuilding task state''
       else if digest_references (te_digest env) accepted rejected \<noteq> ts_evidence_digest state
       then Inl ''evidence digest mismatch while rebuilding task state''
       else bind_r (state_validate (te_digest env) state) (\<lambda>_. Inr state))))))"

end
