(* ===== verification/Temporal_Guarantees.thy ===== *)
theory Temporal_Guarantees
  imports Temporal_Store Read_Guarantees
begin

text \<open>
  What the bi-temporal store promises: the audited writers keep the versions of a record in
  disjoint windows of transaction time, a read as of an instant finds the one version whose
  window contains it, no write changes what was believed before it, and claims recorded in
  the order of their valid time are answered by the newest claim that had begun.
\<close>

declare history_row_def [simp]

section \<open>Timelines\<close>

text \<open>A window of transaction time, open at the end for a live version.\<close>

definition covers :: "int \<times> int option \<Rightarrow> int \<Rightarrow> bool" where
  "covers w t \<longleftrightarrow> fst w \<le> t \<and> (case snd w of None \<Rightarrow> True | Some i \<Rightarrow> t < i)"

definition apart :: "int \<times> int option \<Rightarrow> int \<times> int option \<Rightarrow> bool" where
  "apart u v \<longleftrightarrow> (case snd u of None \<Rightarrow> False | Some i \<Rightarrow> i \<le> fst v) \<or>
     (case snd v of None \<Rightarrow> False | Some j \<Rightarrow> j \<le> fst u)"

lemma apart_sym: "apart u v \<longleftrightarrow> apart v u"
  by (auto simp: apart_def)

lemma apart_covers: "apart u v \<Longrightarrow> covers u t \<Longrightarrow> \<not> covers v t"
  by (auto simp: apart_def covers_def split: option.splits)

text \<open>
  The interface of a store whose versions have windows of transaction time: the windows of
  the versions of one key are apart. Then an instant has at most one version.
\<close>

locale timeline =
  fixes inv :: "'s \<Rightarrow> 'k \<Rightarrow> bool"
    and versions :: "'s \<Rightarrow> 'k \<Rightarrow> 'v list"
    and window :: "'v \<Rightarrow> int \<times> int option"
  assumes versions_apart: "inv s k \<Longrightarrow> sorted_wrt (\<lambda>u v. apart (window u) (window v)) (versions s k)"
begin

lemma version_unique:
  assumes "inv s k" and "u \<in> set (versions s k)" "v \<in> set (versions s k)"
    and "covers (window u) t" "covers (window v) t"
  shows "u = v"
proof -
  have "sorted_wrt (\<lambda>u v. apart (window u) (window v)) vs \<Longrightarrow> u \<in> set vs \<Longrightarrow> v \<in> set vs \<Longrightarrow> u = v" for vs
    using assms(4,5) by (induction vs) (auto dest: apart_covers)
  with versions_apart [OF assms(1)] assms(2,3) show ?thesis by blast
qed

lemma select_iff:
  assumes "inv s k" and "x \<noteq> None \<longleftrightarrow> (\<exists>v \<in> set (versions s k). covers (window v) t)"
    and "\<And>v. x = Some v \<Longrightarrow> v \<in> set (versions s k) \<and> covers (window v) t"
  shows "x = Some v \<longleftrightarrow> v \<in> set (versions s k) \<and> covers (window v) t"
proof
  assume "v \<in> set (versions s k) \<and> covers (window v) t"
  with assms(2) obtain u where "x = Some u" by auto
  with assms(3) version_unique [OF assms(1)] \<open>v \<in> set (versions s k) \<and> covers (window v) t\<close>
  show "x = Some v" by blast
qed (rule assms(3))

end

section \<open>The invariant of the store\<close>

definition identity :: "version_row \<Rightarrow> string \<times> string \<times> string option" where
  "identity r = (row_category r, row_key r, row_workspace r)"

text \<open>All versions with their windows, the live ones first.\<close>

definition all_versions :: "temporal_db \<Rightarrow> (version_row \<times> int \<times> int option) list" where
  "all_versions td = map (\<lambda>r. (r, recorded r, None)) (td_live td) @
     map (\<lambda>h. (snd h, recorded (snd h), row_invalidated_at (snd h))) (td_history td)"

text \<open>A superseded version has a window of positive width.\<close>

definition closed :: "version_row \<Rightarrow> bool" where
  "closed r \<longleftrightarrow> (case row_invalidated_at r of None \<Rightarrow> False | Some i \<Rightarrow> recorded r < i)"

lemma closedD: "closed r \<Longrightarrow> row_invalidated_at r \<noteq> None"
  by (auto simp: closed_def split: option.splits)

definition timeline_ok :: "temporal_db \<Rightarrow> bool" where
  "timeline_ok td \<longleftrightarrow>
     distinct (map row_id (td_live td)) \<and>
     list_all (\<lambda>h. closed (snd h)) (td_history td) \<and>
     sorted_wrt (\<lambda>u v. identity (fst u) = identity (fst v) \<longrightarrow> apart (snd u) (snd v)) (all_versions td)"

definition key_versions :: "temporal_db \<Rightarrow> string \<times> string \<Rightarrow> (version_row \<times> int \<times> int option) list" where
  "key_versions td k = filter (\<lambda>v. of_key (fst k) (snd k) (fst v)) (all_versions td)"

text \<open>The key is used in one workspace only.\<close>

definition single_workspace :: "temporal_db \<Rightarrow> string \<times> string \<Rightarrow> bool" where
  "single_workspace td k \<longleftrightarrow>
     (\<exists>ws. \<forall>v \<in> set (key_versions td k). row_workspace (fst v) = ws)"

interpretation store: timeline "\<lambda>td k. timeline_ok td \<and> single_workspace td k" key_versions snd
proof
  fix td k
  assume ok: "timeline_ok td \<and> single_workspace td k"
  then obtain ws where "\<And>v. v \<in> set (key_versions td k) \<Longrightarrow> row_workspace (fst v) = ws"
    by (auto simp: single_workspace_def)
  then have "identity (fst u) = identity (fst v)"
    if "u \<in> set (key_versions td k)" "v \<in> set (key_versions td k)" for u v
    using that by (auto simp: identity_def key_versions_def of_key_def)
  moreover have "sorted_wrt (\<lambda>u v. identity (fst u) = identity (fst v) \<longrightarrow> apart (snd u) (snd v)) (key_versions td k)"
    using ok unfolding timeline_ok_def key_versions_def by (intro sorted_wrt_filter) blast
  ultimately show "sorted_wrt (\<lambda>u v. apart (snd u) (snd v)) (key_versions td k)"
    by (rule_tac sorted_wrt_mono_rel [rotated]) blast+
qed

lemma first_of_simps [simp]: "first_of [] = None" "first_of (x # xs) = Some x"
  by (simp_all add: first_of_def)

lemma first_of_eq_None [simp]: "first_of xs = None \<longleftrightarrow> xs = []"
  by (cases xs) (simp_all add: first_of_def)

lemma first_of_SomeD: "first_of xs = Some x \<Longrightarrow> x \<in> set xs"
  by (cases xs) (simp_all add: first_of_def)

lemma set_history_hits:
  "r \<in> set (history_hits td cat key t) \<longleftrightarrow>
     (\<exists>hid. (hid, r) \<in> set (td_history td)) \<and> of_key cat key r \<and> row_invalidated_at r \<noteq> None \<and>
     covers (recorded r, row_invalidated_at r) t"
  by (auto simp: history_hits_def covers_def image_iff split: option.splits) force+

text \<open>A read as of an instant, with the window of the version it found.\<close>

definition as_of_window :: "temporal_db \<Rightarrow> string \<times> string \<Rightarrow> int \<Rightarrow> (version_row \<times> int \<times> int option) option" where
  "as_of_window td k t =
     (case first_of (history_hits td (fst k) (snd k) t) of
        Some r \<Rightarrow> Some (r, recorded r, row_invalidated_at r)
      | None \<Rightarrow> map_option (\<lambda>r. (r, recorded r, None))
          (find (\<lambda>r. of_key (fst k) (snd k) r \<and> recorded r \<le> t) (td_live td)))"

lemma as_of_row_window: "as_of_row td cat key t = map_option fst (as_of_window td (cat, key) t)"
  by (cases "history_hits td cat key t")
    (simp_all add: as_of_row_def as_of_window_def first_of_def option.map_comp comp_def option.map_ident)

lemma mem_key_versions:
  "(r, w) \<in> set (key_versions td k) \<longleftrightarrow> of_key (fst k) (snd k) r \<and>
     (r \<in> set (td_live td) \<and> w = (recorded r, None) \<or>
      (\<exists>hid. (hid, r) \<in> set (td_history td)) \<and> w = (recorded r, row_invalidated_at r))"
  by (force simp: key_versions_def all_versions_def)

lemma ex_covering:
  "(\<exists>v \<in> set (key_versions td k). covers (snd v) t) \<longleftrightarrow>
     (\<exists>r \<in> set (td_live td). of_key (fst k) (snd k) r \<and> recorded r \<le> t) \<or>
     (\<exists>hid r. (hid, r) \<in> set (td_history td) \<and> of_key (fst k) (snd k) r \<and>
        covers (recorded r, row_invalidated_at r) t)"
  (is "_ \<longleftrightarrow> ?live \<or> ?hist")
proof -
  have "(\<exists>v \<in> set (key_versions td k). covers (snd v) t) \<longleftrightarrow> (\<exists>r w. (r, w) \<in> set (key_versions td k) \<and> covers w t)"
    by (metis prod.collapse snd_conv)
  also have "\<dots> \<longleftrightarrow> (\<exists>r \<in> set (td_live td). of_key (fst k) (snd k) r \<and> covers (recorded r, None) t) \<or> ?hist"
    unfolding mem_key_versions by blast
  finally show ?thesis by (simp add: covers_def)
qed

lemma as_of_window_iff:
  assumes "timeline_ok td" and "single_workspace td k"
  shows "as_of_window td k t = Some v \<longleftrightarrow> v \<in> set (key_versions td k) \<and> covers (snd v) t"
proof (rule store.select_iff)
  show "timeline_ok td \<and> single_workspace td k" using assms by simp
  have hist: "row_invalidated_at r \<noteq> None" if "(hid, r) \<in> set (td_history td)" for hid r
    using that assms(1) closedD by (fastforce simp: timeline_ok_def list_all_iff)
  show "as_of_window td k t \<noteq> None \<longleftrightarrow> (\<exists>v \<in> set (key_versions td k). covers (snd v) t)"
  proof (cases "history_hits td (fst k) (snd k) t")
    case Nil
    then have "\<not> covers (recorded r, row_invalidated_at r) t"
      if "(hid, r) \<in> set (td_history td)" "of_key (fst k) (snd k) r" for hid r
      using that hist set_history_hits [of r td "fst k" "snd k" t] by auto
    then have "(\<exists>v \<in> set (key_versions td k). covers (snd v) t) \<longleftrightarrow>
        (\<exists>r \<in> set (td_live td). of_key (fst k) (snd k) r \<and> recorded r \<le> t)"
      unfolding ex_covering by blast
    with Nil show ?thesis by (auto simp: as_of_window_def first_of_def find_None_iff)
  next
    case (Cons r rs)
    then have "(r, recorded r, row_invalidated_at r) \<in> set (key_versions td k) \<and> covers (recorded r, row_invalidated_at r) t"
      using set_history_hits [of r td "fst k" "snd k" t] by (auto simp: mem_key_versions)
    with Cons show ?thesis by (force simp: as_of_window_def first_of_def)
  qed
  fix v
  assume "as_of_window td k t = Some v"
  then show "v \<in> set (key_versions td k) \<and> covers (snd v) t"
    by (auto simp: as_of_window_def mem_key_versions set_history_hits covers_def split: option.splits
        dest!: first_of_SomeD find_SomeD)
qed

section \<open>What the writers do\<close>

text \<open>A write that retires the version \<open>r\<close>: a copy of it with an end goes into the history, and the live
  row gets the end as its new start, or is deleted.\<close>

definition snapshot_of :: "version_row \<Rightarrow> string \<Rightarrow> int \<Rightarrow> string \<Rightarrow> version_row" where
  "snapshot_of r body now by_id = (history_row r)\<lparr>row_body_json := body, row_invalidated_at := Some now, vr_superseded_by := by_id\<rparr>"

definition retires :: "store_env \<Rightarrow> temporal_db \<Rightarrow> int \<Rightarrow> temporal_db \<Rightarrow> bool" where
  "retires env td clock td' \<longleftrightarrow>
     (\<exists>r hid body by_id now f.
        live_row td (row_id r) = Some r \<and> stored_body env r = Inr body \<and> clock \<le> now \<and> recorded r < now \<and>
        td_history td' = td_history td @ [(hid, snapshot_of r body now by_id)] \<and>
        (td_live td' = filter (\<lambda>x. row_id x \<noteq> row_id r) (td_live td) \<or>
         td_live td' = map (\<lambda>x. if row_id x = row_id r then f x else x) (td_live td) \<and>
         row_id (f r) = row_id r \<and> identity (f r) = identity r \<and> recorded (f r) = now))"

lemma retiresI:
  assumes "live_row td (row_id r) = Some r" and "stored_body env r = Inr body" and "clock \<le> now" "recorded r < now"
    and "td_history td' = td_history td @ [(hid, snapshot_of r body now by_id)]"
    and "td_live td' = filter (\<lambda>x. row_id x \<noteq> row_id r) (td_live td) \<or>
      td_live td' = map (\<lambda>x. if row_id x = row_id r then f x else x) (td_live td) \<and>
      row_id (f r) = row_id r \<and> identity (f r) = identity r \<and> recorded (f r) = now"
  shows "retires env td clock td'"
  unfolding retires_def using assms by blast

text \<open>A write that changes only what no reader here looks at.\<close>

definition same_rows :: "temporal_db \<Rightarrow> temporal_db \<Rightarrow> bool" where
  "same_rows td td' \<longleftrightarrow> td_history td' = td_history td \<and>
     map (\<lambda>r. (entity_row.truncate r, vr_recorded_at r)) (td_live td') =
     map (\<lambda>r. (entity_row.truncate r, vr_recorded_at r)) (td_live td)"

text \<open>No live version carries the last representable instant.\<close>

definition time_left :: "temporal_db \<Rightarrow> bool" where
  "time_left td \<longleftrightarrow> list_all (\<lambda>r. in_i64 (recorded r) \<and> recorded r < i64_max) (td_live td)"

lemma next_instant:
  assumes "time_left td" and "r \<in> set (td_live td)"
  shows "wrap64 (recorded r + 1) = recorded r + 1"
  using assms by (intro wrap64_id) (auto simp: time_left_def list_all_iff in_i64_def)

lemma live_rowD: "live_row td eid = Some r \<Longrightarrow> r \<in> set (td_live td) \<and> row_id r = eid"
  by (auto simp: live_row_def dest: find_SomeD)

lemma snapshot_Inr:
  "snapshot_live_row_to_history env td hid now eid = Inr td1 \<Longrightarrow> live_row td eid = Some r \<Longrightarrow>
   \<exists>body. stored_body env r = Inr body \<and> td1 = td\<lparr>td_history := td_history td @ [(hid, snapshot_of r body now eid)]\<rparr>"
  by (auto simp: snapshot_live_row_to_history_def insert_history_def bind_r_Inr snapshot_of_def split: if_splits)

lemma restamp_facts:
  "row_id (restamp now hid eff r) = row_id r" "identity (restamp now hid eff r) = identity r"
  "recorded (restamp now hid eff r) = now"
  by (simp_all add: restamp_def identity_def recorded_def or_else_def)

lemma snapshot_restamp_retires:
  assumes "snapshot_live_row_to_history env td hid (max clock (wrap64 (recorded r + 1))) eid = Inr td1"
    and "live_row td eid = Some r" and "time_left td"
    and "\<And>x. row_id (g x) = row_id x \<and> identity (g x) = identity x"
  shows "retires env td clock (update_live td1 eid (\<lambda>x. restamp (max clock (wrap64 (recorded r + 1))) hid eff (g x)))"
proof -
  note live = live_rowD [OF assms(2)]
  let ?now = "max clock (wrap64 (recorded r + 1))"
  have now: "clock \<le> ?now" "recorded r < ?now"
    using next_instant [OF assms(3)] live by simp_all
  obtain body where b: "stored_body env r = Inr body"
      "td1 = td\<lparr>td_history := td_history td @ [(hid, snapshot_of r body ?now eid)]\<rparr>"
    using snapshot_Inr [OF assms(1,2)] by blast
  show ?thesis
    by (rule retiresI [OF _ b(1) now, where by_id = eid and f = "\<lambda>x. restamp ?now hid eff (g x)"])
      (use assms(2,4) live b(2) in \<open>simp_all add: update_live_def restamp_facts\<close>)
qed

lemma commit_cases:
  "commit td res = (out, td') \<Longrightarrow> td' = td \<or> (\<exists>x. res = Inr (x, td'))"
  by (auto simp: commit_def split: sum.splits prod.splits)

lemma set_valid_to_cases:
  assumes "time_left td" and "set_valid_to env td clock hid eid valid_to = (res, td')"
  shows "td' = td \<or> retires env td clock td'"
proof (cases "td' = td")
  case False
  let ?g = "\<lambda>x. x\<lparr>row_valid_to := Some valid_to\<rparr> :: version_row"
  obtain r td1 where r: "live_row td eid = Some r"
    and s: "snapshot_live_row_to_history env td hid (max clock (wrap64 (recorded r + 1))) eid = Inr td1"
    and td': "td' = update_live td1 eid (\<lambda>x. restamp (max clock (wrap64 (recorded r + 1))) hid (valid_start r) (?g x))"
    using commit_cases [OF assms(2) [unfolded set_valid_to_def]] False
    by (auto simp: set_valid_to_tx_def bind_r_Inr ok_or_Inr Let_def split: if_splits)
  show ?thesis unfolding td' using snapshot_restamp_retires [OF s r assms(1), of ?g] by (simp add: identity_def)
qed simp

lemma update_entity_status_cases:
  assumes "time_left td" and "update_entity_status env td clock hid eid status reason = (res, td')"
  shows "same_rows td td' \<or> retires env td clock td'"
proof (cases "same_rows td td'")
  case False
  have refl: "same_rows td td" and touch: "same_rows td (update_live td eid (\<lambda>r. r\<lparr>vr_archive_reason := a, vr_last_accessed := b\<rparr>))" for a b
    by (simp_all add: same_rows_def update_live_def entity_row.truncate_def)
  let ?g = "\<lambda>c x. x\<lparr>row_status := c, vr_archive_reason := reason, vr_last_accessed := clock\<rparr> :: version_row"
  obtain r td1 c where r: "live_row td eid = Some r"
    and s: "snapshot_live_row_to_history env td hid (max clock (wrap64 (recorded r + 1))) eid = Inr td1"
    and td': "td' = update_live td1 eid (\<lambda>x. restamp (max clock (wrap64 (recorded r + 1))) hid (valid_start r) (?g c x))"
    using commit_cases [OF assms(2) [unfolded update_entity_status_def]] False refl touch
    by (auto simp: update_entity_status_tx_def bind_r_Inr ok_or_Inr Let_def split: if_splits)
  show ?thesis unfolding td' using snapshot_restamp_retires [OF s r assms(1), of "?g c"] by (simp add: identity_def)
qed simp

lemma find_unique_id:
  "distinct (map row_id rows) \<Longrightarrow> r \<in> set rows \<Longrightarrow> find (\<lambda>x. row_id x = row_id r) rows = Some r"
  by (induction rows) (auto simp: image_iff)

lemma invalidate_entity_cases:
  assumes "timeline_ok td" and "invalidate_entity env td clock hid loser winner = (res, td')"
  shows "td' = td \<or> retires env td clock td'"
proof (cases "td' = td")
  case False
  then obtain r body where r: "r \<in> set (td_live td)" "row_id r = loser" and b: "stored_body env r = Inr body"
    and td': "td_history td' = td_history td @ [(hid, snapshot_of r body (max clock (recorded r + 1)) winner)]"
      "td_live td' = filter (\<lambda>x. row_id x \<noteq> row_id r) (td_live td)"
    using commit_cases [OF assms(2) [unfolded invalidate_entity_def]]
    by (auto simp: invalidate_entity_tx_def bind_r_Inr insert_history_def snapshot_of_def dest!: find_SomeD
        split: if_splits option.splits)
  have "live_row td (row_id r) = Some r"
    using assms(1) r(1) find_unique_id by (auto simp: live_row_def timeline_ok_def)
  then show ?thesis
    using retiresI [OF _ b _ _ td'(1)] td'(2) by simp
qed simp

section \<open>Keeping the timeline\<close>

lemma timeline_ok_iff:
  "timeline_ok td \<longleftrightarrow>
     distinct (map row_id (td_live td)) \<and> distinct (map identity (td_live td)) \<and>
     (\<forall>h \<in> set (td_history td). closed (snd h)) \<and>
     (\<forall>r \<in> set (td_live td). \<forall>h \<in> set (td_history td). identity (snd h) = identity r \<longrightarrow>
        the (row_invalidated_at (snd h)) \<le> recorded r) \<and>
     sorted_wrt (\<lambda>g h. identity (snd g) = identity (snd h) \<longrightarrow>
        apart (recorded (snd g), row_invalidated_at (snd g)) (recorded (snd h), row_invalidated_at (snd h))) (td_history td)"
proof -
  have live: "sorted_wrt (\<lambda>u v. identity u = identity v \<longrightarrow> apart (recorded u, None) (recorded v, None)) rs \<longleftrightarrow>
      distinct (map identity rs)" for rs
    by (induction rs) (auto simp: apart_def image_iff)
  have cross: "apart (recorded r, None) (recorded h, row_invalidated_at h) \<longleftrightarrow> the (row_invalidated_at h) \<le> recorded r"
    if "row_invalidated_at h \<noteq> None" for r h
    using that by (auto simp: apart_def)
  have crossall: "(\<forall>x \<in> set (td_live td). \<forall>v \<in> set (td_history td). identity x = identity (snd v) \<longrightarrow>
        apart (recorded x, None) (recorded (snd v), row_invalidated_at (snd v))) \<longleftrightarrow>
      (\<forall>r \<in> set (td_live td). \<forall>h \<in> set (td_history td). identity (snd h) = identity r \<longrightarrow>
        the (row_invalidated_at (snd h)) \<le> recorded r)"
    if "\<forall>h \<in> set (td_history td). closed (snd h)"
    using that closedD by (intro ball_cong refl) (simp add: cross eq_commute [of "identity _" "identity (snd _)"])
  show ?thesis
    unfolding timeline_ok_def all_versions_def sorted_wrt_append sorted_wrt_map live [symmetric]
    using crossall by (auto simp: list_all_iff)
qed

lemma map_update_same:
  "(\<And>x. x \<in> set xs \<Longrightarrow> P x \<Longrightarrow> g (f x) = g x) \<Longrightarrow> map g (map (\<lambda>x. if P x then f x else x) xs) = map g xs"
  by simp

lemma retires_live:
  assumes "timeline_ok td" and "live_row td (row_id r) = Some r"
    and "td_live td' = filter (\<lambda>x. row_id x \<noteq> row_id r) (td_live td) \<or>
      td_live td' = map (\<lambda>x. if row_id x = row_id r then f x else x) (td_live td) \<and>
      row_id (f r) = row_id r \<and> identity (f r) = identity r \<and> recorded (f r) = now"
  shows "distinct (map row_id (td_live td'))" and "distinct (map identity (td_live td'))"
    and "\<And>x. x \<in> set (td_live td') \<Longrightarrow>
      x \<in> set (td_live td) \<and> identity x \<noteq> identity r \<or> x = f r \<and> identity x = identity r \<and> recorded x = now"
proof -
  from assms(1) have d: "distinct (map row_id (td_live td))" "distinct (map identity (td_live td))"
    by (simp_all add: timeline_ok_iff)
  have r: "r \<in> set (td_live td)" using live_rowD [OF assms(2)] by simp
  have same: "x = r" if "row_id x = row_id r" "x \<in> set (td_live td)" for x
    using that d r by (auto simp: distinct_map inj_on_def)
  have same2: "x = r" if "identity x = identity r" "x \<in> set (td_live td)" for x
    using that d r by (auto simp: distinct_map inj_on_def)
  have ids: "row_id (f r) = row_id r \<Longrightarrow>
      map row_id (map (\<lambda>x. if row_id x = row_id r then f x else x) (td_live td)) = map row_id (td_live td)"
    by (rule map_update_same) (use same in auto)
  have idents: "identity (f r) = identity r \<Longrightarrow>
      map identity (map (\<lambda>x. if row_id x = row_id r then f x else x) (td_live td)) = map identity (td_live td)"
    by (rule map_update_same) (use same in auto)
  from assms(3) show "distinct (map row_id (td_live td'))"
    by (elim disjE conjE) (simp_all only: ids d distinct_map_filter)
  from assms(3) show "distinct (map identity (td_live td'))"
    by (elim disjE conjE) (simp_all only: idents d distinct_map_filter)
  show "x \<in> set (td_live td) \<and> identity x \<noteq> identity r \<or> x = f r \<and> identity x = identity r \<and> recorded x = now"
    if "x \<in> set (td_live td')" for x
    using that assms(3) by (auto split: if_splits dest: same same2)
qed

lemma snapshot_of_facts [simp]:
  "identity (snapshot_of r body now by_id) = identity r" "recorded (snapshot_of r body now by_id) = recorded r"
  "row_invalidated_at (snapshot_of r body now by_id) = Some now" "of_key c k (snapshot_of r body now by_id) = of_key c k r"
  by (simp_all add: snapshot_of_def identity_def recorded_def of_key_def)

lemma retires_timeline:
  assumes "timeline_ok td" and "retires env td clock td'"
  shows "timeline_ok td'"
proof -
  from assms(2) obtain r hid body by_id now f where
    r: "live_row td (row_id r) = Some r" and now: "recorded r < now"
    and h: "td_history td' = td_history td @ [(hid, snapshot_of r body now by_id)]"
    and live: "td_live td' = filter (\<lambda>x. row_id x \<noteq> row_id r) (td_live td) \<or>
      td_live td' = map (\<lambda>x. if row_id x = row_id r then f x else x) (td_live td) \<and>
      row_id (f r) = row_id r \<and> identity (f r) = identity r \<and> recorded (f r) = now"
    unfolding retires_def by blast
  note l = retires_live [OF assms(1) r live]
  have ok: "\<forall>h \<in> set (td_history td). closed (snd h)"
    "\<And>x h. x \<in> set (td_live td) \<Longrightarrow> h \<in> set (td_history td) \<Longrightarrow> identity (snd h) = identity x \<Longrightarrow>
       the (row_invalidated_at (snd h)) \<le> recorded x"
    using assms(1) by (simp_all add: timeline_ok_iff)
  have rin: "r \<in> set (td_live td)" using live_rowD [OF r] by simp
  have cross: "the (row_invalidated_at (snd g)) \<le> recorded x"
    if "x \<in> set (td_live td')" "g \<in> set (td_history td')" "identity (snd g) = identity x" for x g
    using l(3) [OF that(1)] that(2,3) ok(2) [of x g] ok(2) [OF rin, of g] now by (auto simp: h)
  have "apart (recorded (snd g), row_invalidated_at (snd g)) (recorded r, Some now)"
    if "g \<in> set (td_history td)" "identity (snd g) = identity r" for g
    using ok(2) [OF rin that] ok(1) that(1) by (auto simp: apart_def closed_def split: option.splits)
  then show ?thesis
    using assms(1) l(1,2) cross ok(1) now unfolding timeline_ok_iff by (auto simp: h sorted_wrt_append closed_def)
qed

lemma same_rows_timeline: "same_rows td td' \<Longrightarrow> timeline_ok td \<Longrightarrow> timeline_ok td'"
proof -
  assume same: "same_rows td td'" and ok: "timeline_ok td"
  define key where "key = (\<lambda>r :: version_row. (entity_row.truncate r, vr_recorded_at r))"
  have k: "row_id r = row_id (fst (key r))" "identity r = (row_category (fst (key r)), row_key (fst (key r)), row_workspace (fst (key r)))"
    "recorded r = or_else (snd (key r)) (row_created_at (fst (key r)))" for r
    by (simp_all add: key_def identity_def recorded_def entity_row.truncate_def)
  have live: "map key (td_live td') = map key (td_live td)" and hist: "td_history td' = td_history td"
    using same by (simp_all add: same_rows_def key_def)
  have "map row_id (td_live td') = map row_id (td_live td)" "map identity (td_live td') = map identity (td_live td)"
    using arg_cong [OF live, of "map (\<lambda>x. row_id (fst x))"]
      arg_cong [OF live, of "map (\<lambda>x. (row_category (fst x), row_key (fst x), row_workspace (fst x)))"]
    by (simp_all add: comp_def k [symmetric])
  moreover have "\<exists>y \<in> set (td_live td). identity y = identity x \<and> recorded y = recorded x"
    if "x \<in> set (td_live td')" for x
  proof -
    have "key x \<in> set (map key (td_live td))" using that live by (metis in_set_conv_nth length_map nth_map)
    then obtain y where "y \<in> set (td_live td)" "key y = key x" by auto
    then show ?thesis using k by metis
  qed
  then have "the (row_invalidated_at (snd h)) \<le> recorded x"
    if "x \<in> set (td_live td')" "h \<in> set (td_history td)" "identity (snd h) = identity x" for x h
    using that ok by (fastforce simp: timeline_ok_iff)
  ultimately show ?thesis
    using ok unfolding timeline_ok_iff hist by simp
qed

section \<open>Audited writes\<close>

inductive audited_write :: "store_env \<Rightarrow> int \<Rightarrow> temporal_db \<Rightarrow> temporal_db \<Rightarrow> bool" for env clock where
  close: "time_left td \<Longrightarrow> set_valid_to env td clock hid eid valid_to = (res, td') \<Longrightarrow> audited_write env clock td td'"
| status: "time_left td \<Longrightarrow> update_entity_status env td clock hid eid st reason = (out, td') \<Longrightarrow> audited_write env clock td td'"
| invalidate: "invalidate_entity env td clock hid loser winner = (ok, td') \<Longrightarrow> audited_write env clock td td'"

lemma same_rows_refl [simp]: "same_rows td td"
  by (simp add: same_rows_def)

lemma audited_write_effect:
  "audited_write env clock td td' \<Longrightarrow> timeline_ok td \<Longrightarrow> same_rows td td' \<or> retires env td clock td'"
  by (induction rule: audited_write.induct)
    (use set_valid_to_cases update_entity_status_cases invalidate_entity_cases in fastforce)+

lemma audited_write_timeline: "audited_write env clock td td' \<Longrightarrow> timeline_ok td \<Longrightarrow> timeline_ok td'"
  using audited_write_effect same_rows_timeline retires_timeline by blast

definition key_workspaces :: "temporal_db \<Rightarrow> string \<times> string \<Rightarrow> string option set" where
  "key_workspaces td k = (\<lambda>v. row_workspace (fst v)) ` set (key_versions td k)"

lemma single_workspace_iff: "single_workspace td k \<longleftrightarrow> (\<exists>ws. key_workspaces td k \<subseteq> {ws})"
  by (simp add: single_workspace_def key_workspaces_def image_subset_iff)

lemma key_workspaces_eq:
  "key_workspaces td k = {ws. (fst k, snd k, ws) \<in> identity ` set (td_live td) \<or>
     (fst k, snd k, ws) \<in> (\<lambda>h. identity (snd h)) ` set (td_history td)}"
proof (rule set_eqI)
  fix ws
  have "ws \<in> key_workspaces td k \<longleftrightarrow> (\<exists>r w. (r, w) \<in> set (key_versions td k) \<and> row_workspace r = ws)"
    unfolding key_workspaces_def image_iff by (metis prod.collapse fst_conv)
  also have "\<dots> \<longleftrightarrow> (\<exists>r \<in> set (td_live td). of_key (fst k) (snd k) r \<and> row_workspace r = ws) \<or>
      (\<exists>hid r. (hid, r) \<in> set (td_history td) \<and> of_key (fst k) (snd k) r \<and> row_workspace r = ws)"
    unfolding mem_key_versions by blast
  finally show "ws \<in> key_workspaces td k \<longleftrightarrow> ws \<in> {ws. (fst k, snd k, ws) \<in> identity ` set (td_live td) \<or>
      (fst k, snd k, ws) \<in> (\<lambda>h. identity (snd h)) ` set (td_history td)}"
    unfolding mem_Collect_eq image_iff identity_def of_key_def by fastforce
qed

lemma audited_write_workspaces:
  assumes "audited_write env clock td td'" and "timeline_ok td"
  shows "key_workspaces td' k \<subseteq> key_workspaces td k"
proof -
  from audited_write_effect [OF assms] show ?thesis
  proof
    assume "same_rows td td'"
    then have "map (\<lambda>x. (row_category (fst x), row_key (fst x), row_workspace (fst x)))
        (map (\<lambda>r. (entity_row.truncate r, vr_recorded_at r)) (td_live td')) =
      map (\<lambda>x. (row_category (fst x), row_key (fst x), row_workspace (fst x)))
        (map (\<lambda>r. (entity_row.truncate r, vr_recorded_at r)) (td_live td))" "td_history td' = td_history td"
      by (simp_all add: same_rows_def)
    then have "map identity (td_live td') = map identity (td_live td)"
      by (simp add: comp_def identity_def [abs_def] entity_row.truncate_def)
    from arg_cong [OF this, of set] \<open>td_history td' = td_history td\<close> show ?thesis
      by (simp add: key_workspaces_eq)
  next
    assume "retires env td clock td'"
    then obtain r hid body by_id now f where
      r: "live_row td (row_id r) = Some r"
      and h: "td_history td' = td_history td @ [(hid, snapshot_of r body now by_id)]"
      and live: "td_live td' = filter (\<lambda>x. row_id x \<noteq> row_id r) (td_live td) \<or>
        td_live td' = map (\<lambda>x. if row_id x = row_id r then f x else x) (td_live td) \<and>
        row_id (f r) = row_id r \<and> identity (f r) = identity r \<and> recorded (f r) = now"
      unfolding retires_def by blast
    have rin: "identity r \<in> identity ` set (td_live td)" using live_rowD [OF r] by simp
    have "identity ` set (td_live td') \<subseteq> identity ` set (td_live td)"
      using retires_live(3) [OF assms(2) r live] rin by (metis (no_types, lifting) image_subsetI image_eqI)
    then show ?thesis using rin by (auto simp: key_workspaces_eq h)
  qed
qed

section \<open>The past\<close>

lemma find_same_key:
  assumes "map g xs = map g ys" and "\<And>x. P x \<longleftrightarrow> Q (g x)"
  shows "map_option g (find P xs) = map_option g (find P ys)"
  using assms(1)
proof (induction xs arbitrary: ys)
  case (Cons x xs)
  then obtain y zs where "ys = y # zs" "g y = g x" "map g zs = map g xs" by (cases ys) auto
  with Cons.IH [of zs] assms(2) [of x] assms(2) [of y] show ?case by simp
qed simp

lemma same_rows_as_of:
  assumes "same_rows td td'"
  shows "map_option entity_row.truncate (as_of_row td' cat key t) = map_option entity_row.truncate (as_of_row td cat key t)"
proof -
  let ?g = "\<lambda>r :: version_row. (entity_row.truncate r, vr_recorded_at r)"
  have "map_option ?g (find (\<lambda>r. of_key cat key r \<and> recorded r \<le> t) (td_live td')) =
      map_option ?g (find (\<lambda>r. of_key cat key r \<and> recorded r \<le> t) (td_live td))"
    by (rule find_same_key [where Q = "\<lambda>x. row_category (fst x) = cat \<and> row_key (fst x) = key \<and>
        or_else (snd x) (row_created_at (fst x)) \<le> t"])
      (use assms in \<open>simp_all add: same_rows_def of_key_def recorded_def entity_row.truncate_def\<close>)
  from arg_cong [OF this, of "map_option fst"]
  have "map_option entity_row.truncate (find (\<lambda>r. of_key cat key r \<and> recorded r \<le> t) (td_live td')) =
      map_option entity_row.truncate (find (\<lambda>r. of_key cat key r \<and> recorded r \<le> t) (td_live td))"
    by (simp add: option.map_comp comp_def)
  moreover have "history_hits td' cat key t = history_hits td cat key t"
    using assms by (simp add: history_hits_def same_rows_def)
  ultimately show ?thesis by (simp add: as_of_row_def split: option.split)
qed

lemma retires_as_of:
  assumes "timeline_ok td" and "single_workspace td k" and "retires env td clock td'" and "t < clock"
    and "single_workspace td' k"
  shows "case as_of_window td k t of
      None \<Rightarrow> as_of_window td' k t = None
    | Some v \<Rightarrow> \<exists>v'. as_of_window td' k t = Some v' \<and>
        (v' = v \<or> (\<exists>body now by_id. stored_body env (fst v) = Inr body \<and> fst v' = snapshot_of (fst v) body now by_id))"
proof -
  from assms(3) obtain r hid body by_id now f where
    r: "live_row td (row_id r) = Some r" and b: "stored_body env r = Inr body" and now: "clock \<le> now"
    and h: "td_history td' = td_history td @ [(hid, snapshot_of r body now by_id)]"
    and live: "td_live td' = filter (\<lambda>x. row_id x \<noteq> row_id r) (td_live td) \<or>
      td_live td' = map (\<lambda>x. if row_id x = row_id r then f x else x) (td_live td) \<and>
      row_id (f r) = row_id r \<and> identity (f r) = identity r \<and> recorded (f r) = now"
    unfolding retires_def by blast
  let ?snap = "snapshot_of r body now by_id"
  note ok' = retires_timeline [OF assms(1,3)]
  note iff = as_of_window_iff [OF assms(1,2)] and iff' = as_of_window_iff [OF ok' assms(5)]
  have older: "(x, w) \<in> set (key_versions td k) \<and> covers w t \<or> x = ?snap \<and> (r, recorded r, None) \<in> set (key_versions td k) \<and> recorded r \<le> t"
    if "(x, w) \<in> set (key_versions td' k)" "covers w t" for x w
    using that retires_live(3) [OF assms(1) r live, of x] live_rowD [OF r] now assms(4)
    by (auto simp: mem_key_versions h covers_def)
  have snap: "as_of_window td' k t = Some (?snap, recorded r, Some now)"
    if "(r, recorded r, None) \<in> set (key_versions td k)" "recorded r \<le> t"
    unfolding iff' using that now assms(4) by (auto simp: mem_key_versions h covers_def)
  show ?thesis
  proof (cases "as_of_window td k t")
    case None
    then have none: "\<not> ((x, w) \<in> set (key_versions td k) \<and> covers w t)" for x w using iff [of t "(x, w)"] by simp
    have "as_of_window td' k t = None"
    proof (rule ccontr)
      assume "as_of_window td' k t \<noteq> None"
      then obtain x w where "as_of_window td' k t = Some (x, w)" by auto
      then have xw: "(x, w) \<in> set (key_versions td' k)" "covers w t" using iff' by auto
      from older [OF this] none [of x w] none [of r "(recorded r, None)"] show False by (auto simp: covers_def)
    qed
    with None show ?thesis by simp
  next
    case (Some v)
    then have v: "v \<in> set (key_versions td k)" "covers (snd v) t" using iff by auto
    show ?thesis
    proof (cases "fst v = r \<and> snd v = (recorded r, None)")
      case True
      then have "v = (r, recorded r, None)" by (cases v) auto
      with v snap b Some show ?thesis by (fastforce simp: covers_def)
    next
      case False
      obtain x w where xw: "v = (x, w)" by (cases v)
      have "x \<in> set (td_live td')" if "x \<in> set (td_live td)" "x \<noteq> r"
      proof -
        have "row_id x \<noteq> row_id r"
          using that live_rowD [OF r] assms(1) by (auto simp: timeline_ok_iff distinct_map inj_on_def)
        with that(1) live show ?thesis by auto
      qed
      then have "v \<in> set (key_versions td' k)"
        using v(1) False unfolding xw mem_key_versions by (auto simp: h)
      with v iff' have "as_of_window td' k t = Some v" by auto
      with Some show ?thesis by simp
    qed
  qed
qed

text \<open>What the writers rely on of the encryption package: a body that opens opens to the same text
  for the writers, and again after it was encrypted for the history.\<close>

definition rewrap_ok :: "store_env \<Rightarrow> bool" where
  "rewrap_ok env \<longleftrightarrow> (case ge_decrypt (se_gate env) of None \<Rightarrow> True
     | Some d \<Rightarrow> \<forall>raw cat key plain. d raw cat key = Some plain \<longrightarrow>
         se_legacy_decrypt env raw cat key = Inr plain \<and>
         (\<forall>body. se_encrypt env plain cat key = Inr body \<longrightarrow> d body cat key = Some plain))"

lemma snapshot_reads_same:
  assumes "rewrap_ok env" and "stored_body env r = Inr body"
    and "entity_from_row (se_gate env) (entity_row.truncate r) = Inr e"
  shows "entity_from_row (se_gate env) (entity_row.truncate (snapshot_of r body now by_id)) = Inr e"
proof (cases "ge_decrypt (se_gate env)")
  case None
  with assms(2,3) show ?thesis
    by (simp add: stored_body_def entity_from_row_def open_body_def snapshot_of_def entity_row.truncate_def)
next
  case (Some d)
  have fields: "open_body (se_gate env) (entity_row.truncate x) = d (row_body_json x) (row_category x) (row_key x)" for x :: version_row
    by (simp add: open_body_def Some entity_row.truncate_def)
  obtain plain where plain: "d (row_body_json r) (row_category r) (row_key r) = Some plain"
    using assms(3) by (auto simp: entity_from_row_def bind_r_Inr ok_or_Inr fields)
  have law: "se_legacy_decrypt env (row_body_json r) (row_category r) (row_key r) = Inr plain \<and>
      (\<forall>body. se_encrypt env plain (row_category r) (row_key r) = Inr body \<longrightarrow>
         d body (row_category r) (row_key r) = Some plain)"
    using assms(1) plain unfolding rewrap_ok_def Some option.case by blast
  then have "d body (row_category r) (row_key r) = Some plain"
    using assms(2) by (simp add: stored_body_def Some)
  then have "open_body (se_gate env) (entity_row.truncate (snapshot_of r body now by_id)) = Some plain"
    unfolding fields by (simp add: snapshot_of_def)
  with assms(3) plain show ?thesis
    by (simp add: entity_from_row_def fields) (simp add: snapshot_of_def entity_row.truncate_def)
qed

section \<open>Claims in order\<close>

definition unexpired :: "temporal_version \<Rightarrow> int \<Rightarrow> bool" where
  "unexpired v t \<longleftrightarrow> (case tv_valid_to v of None \<Rightarrow> True | Some e \<Rightarrow> t < e)"

lemma bitemporal_walk_closed:
  "m \<le> t \<Longrightarrow> (\<And>v. v \<in> set vs \<Longrightarrow> effective_from v \<le> m) \<Longrightarrow>
   sorted_wrt (\<lambda>u v. effective_from v \<le> effective_from u) vs \<Longrightarrow> bitemporal_walk t (Some m) vs = None"
proof (induction vs arbitrary: m)
  case (Cons v vs)
  have "effective_to v (Some m) \<noteq> None \<and> the (effective_to v (Some m)) \<le> m"
    using Cons.prems(2) [of v] by (auto simp: effective_to_def Let_def split: option.splits)
  moreover have "min m (effective_from v) = effective_from v" using Cons.prems(2) [of v] by simp
  moreover have "bitemporal_walk t (Some (effective_from v)) vs = None"
    using Cons.prems by (intro Cons.IH) fastforce+
  ultimately show ?case using Cons.prems(1) by (auto split: option.splits)
qed simp

lemma bitemporal_walk_in_order:
  assumes "sorted_wrt (\<lambda>u v. effective_from v \<le> effective_from u) vs"
    and "case m of None \<Rightarrow> True | Some x \<Rightarrow> t < x \<and> (\<forall>v \<in> set vs. effective_from v \<le> x)"
  shows "bitemporal_walk t m vs =
    (case find (\<lambda>v. effective_from v \<le> t) vs of
       None \<Rightarrow> None
     | Some v \<Rightarrow> if unexpired v t then Some v else None)"
  using assms
proof (induction vs arbitrary: m)
  case (Cons v vs)
  have close: "(case effective_to v m of None \<Rightarrow> True | Some x \<Rightarrow> t < x) \<longleftrightarrow> unexpired v t"
    using Cons.prems(2) by (auto simp: effective_to_def unexpired_def Let_def split: option.splits)
  have next_min: "(case m of None \<Rightarrow> effective_from v | Some x \<Rightarrow> min x (effective_from v)) = effective_from v"
    using Cons.prems(2) by (auto split: option.splits)
  show ?case
  proof (cases "effective_from v \<le> t")
    case True
    have "bitemporal_walk t (Some (effective_from v)) vs = None"
      using Cons.prems(1) True by (intro bitemporal_walk_closed) auto
    with True close next_min show ?thesis by simp
  next
    case False
    with Cons.IH [of "Some (effective_from v)"] Cons.prems(1) next_min show ?thesis by simp
  qed
qed simp

section \<open>A sample store\<close>

definition sample_version :: version_row where
  "sample_version = \<lparr>row_id = ''e1'', row_category = ''note'', row_key = ''k'', row_body_json = ''b'',
     row_status = ''active'', row_archived = 0, row_links = [], row_workspace = Some ''w'', row_agent = Some ''a1'',
     row_visibility = Some ''private'', row_created_at = 10, row_valid_from = None, row_valid_to = None,
     row_invalidated_at = None, vr_recorded_at = Some 10, vr_supersedes = [], vr_superseded_by = [],
     vr_archive_reason = [], vr_last_accessed = 10, vr_type = ''insight'', vr_tags = ''[]'', vr_retrieval_count = 0,
     vr_layer = ''buffer'', vr_topic_path = [], vr_verified = 0, vr_source = ''agent'', vr_always_on = 0,
     vr_epistemic_state = [], vr_expires_at = None, vr_hints = [], vr_memory_type = []\<rparr>"

definition sample_store :: temporal_db where
  "sample_store = \<lparr>td_live = [sample_version], td_history = [], td_tombstones = [], td_overlay = Absent, td_agents = []\<rparr>"

definition sample_store_env :: store_env where
  "sample_store_env = \<lparr>se_gate = sample_gate_env, se_legacy_decrypt = (\<lambda>raw cat key. Inr raw),
     se_encrypt = (\<lambda>plain cat key. Inr plain), se_storage_state = ''plaintext''\<rparr>"

definition closed_store :: temporal_db where
  "closed_store = sample_store\<lparr>
     td_live := [sample_version\<lparr>row_valid_to := Some 100, vr_recorded_at := Some 20, vr_supersedes := ''h1'',
       row_valid_from := Some 10\<rparr>],
     td_history := [(''h1'', sample_version\<lparr>row_invalidated_at := Some 20, vr_superseded_by := ''e1''\<rparr>)]\<rparr>"

lemma sample_close: "set_valid_to sample_store_env sample_store 20 ''h1'' ''e1'' 100 = (Inr 100, closed_store)"
  by (simp add: set_valid_to_def set_valid_to_tx_def live_row_def sample_store_def sample_version_def valid_start_def
      recorded_def or_else_def snapshot_live_row_to_history_def stored_body_def sample_store_env_def sample_gate_env_def
      insert_history_def update_live_def restamp_def commit_def closed_store_def wrap64_def)

lemma sample_store_facts:
  "timeline_ok sample_store" "time_left sample_store" "single_workspace sample_store (''note'', ''k'')"
  by (simp_all add: timeline_ok_iff sample_store_def sample_version_def time_left_def recorded_def or_else_def
      in_i64_def i64_min_def i64_max_def single_workspace_def key_versions_def all_versions_def)

lemma sample_write: "audited_write sample_store_env 20 sample_store closed_store"
  using sample_store_facts(2) sample_close by (rule audited_write.close)

section \<open>Properties\<close>

text \<open>
  C22. Any sequence of audited writes (closing a valid period, changing a status, invalidating a
  record), with whatever clock readings, keeps the timeline of the store: for each record, in
  each workspace, the live version and the superseded ones have windows of transaction time
  that do not overlap, no superseded window is empty or inverted, and a key that was used in
  one workspace only still is.
\<close>

theorem audited_writes_keep_timeline:
  assumes "(\<lambda>s t. \<exists>clock. audited_write env clock s t)\<^sup>*\<^sup>* td td'" and "timeline_ok td"
  shows "timeline_ok td' \<and> (single_workspace td k \<longrightarrow> single_workspace td' k)"
  using assms(1)
proof (induction rule: rtranclp_induct)
  case base
  show ?case using assms(2) by simp
next
  case (step s t)
  then obtain clock where w: "audited_write env clock s t" and ok: "timeline_ok s" by blast
  from audited_write_workspaces [OF w ok, of k] have "single_workspace s k \<longrightarrow> single_workspace t k"
    by (auto simp: single_workspace_iff)
  with audited_write_timeline [OF w ok] step.IH show ?case by blast
qed

theorem audited_writes_keep_timeline_witness:
  "timeline_ok closed_store \<and> single_workspace closed_store (''note'', ''k'')"
  using audited_writes_keep_timeline [of sample_store_env sample_store closed_store "(''note'', ''k'')"]
    sample_write sample_store_facts by blast

text \<open>
  C26. A read as of an instant is a lookup in the timeline: on a store that keeps its timeline,
  for a key used in one workspace, the row it selects is the version whose window of
  transaction time contains the instant; there is at most one, and there is no answer exactly
  when no version was believed then.
\<close>

theorem as_of_reads_the_timeline:
  assumes "timeline_ok td" and "single_workspace td (cat, key)"
  shows "(as_of_row td cat key t = Some r \<longleftrightarrow>
      (\<exists>w. (r, w) \<in> set (key_versions td (cat, key)) \<and> covers w t)) \<and>
    (\<forall>u \<in> set (key_versions td (cat, key)). \<forall>v \<in> set (key_versions td (cat, key)).
       covers (snd u) t \<and> covers (snd v) t \<longrightarrow> u = v)"
proof
  show "as_of_row td cat key t = Some r \<longleftrightarrow> (\<exists>w. (r, w) \<in> set (key_versions td (cat, key)) \<and> covers w t)"
    using as_of_window_iff [OF assms] by (force simp: as_of_row_window)
  show "\<forall>u \<in> set (key_versions td (cat, key)). \<forall>v \<in> set (key_versions td (cat, key)).
      covers (snd u) t \<and> covers (snd v) t \<longrightarrow> u = v"
    using store.version_unique assms by blast
qed

theorem as_of_reads_the_timeline_witness:
  "as_of_row sample_store ''note'' ''k'' 15 = Some sample_version"
proof -
  have "(sample_version, 10, None) \<in> set (key_versions sample_store (''note'', ''k''))" "covers (10, None) 15"
    by (simp_all add: key_versions_def all_versions_def sample_store_def sample_version_def of_key_def recorded_def
        or_else_def covers_def)
  with as_of_reads_the_timeline [OF sample_store_facts(1,3), of 15 sample_version] show ?thesis by blast
qed

text \<open>
  C21. No write changes the past: after an audited write at some clock reading, for a key used in one
  workspace, a read as of any earlier instant finds a version with the same content and the same valid period as before
  the write, and finds none where there was none. The encryption package is assumed to open
  what it encrypted.
\<close>

theorem writes_keep_the_past:
  assumes "timeline_ok td" and "single_workspace td (cat, key)" and "rewrap_ok env"
    and "audited_write env clock td td'" and "t < clock"
  shows "case as_of_row td cat key t of
      None \<Rightarrow> as_of_row td' cat key t = None
    | Some r \<Rightarrow> \<forall>e. entity_from_row (se_gate env) (entity_row.truncate r) = Inr e \<longrightarrow>
        (\<exists>r'. as_of_row td' cat key t = Some r' \<and> entity_from_row (se_gate env) (entity_row.truncate r') = Inr e \<and>
           row_valid_from r' = row_valid_from r \<and> row_valid_to r' = row_valid_to r)"
  using audited_write_effect [OF assms(4,1)]
proof
  assume "same_rows td td'"
  note eq = same_rows_as_of [OF this, of cat key t]
  show ?thesis
  proof (cases "as_of_row td cat key t")
    case (Some r)
    with eq obtain r' where r': "as_of_row td' cat key t = Some r'" "entity_row.truncate r' = entity_row.truncate r"
      by (cases "as_of_row td' cat key t") auto
    then have "row_valid_from r' = row_valid_from r \<and> row_valid_to r' = row_valid_to r"
      by (simp add: entity_row.truncate_def)
    with Some r' show ?thesis by simp
  qed (use eq in simp)
next
  assume w: "retires env td clock td'"
  have ws: "single_workspace td' (cat, key)"
    using assms(2) audited_write_workspaces [OF assms(4,1), of "(cat, key)"] by (auto simp: single_workspace_iff)
  note past = retires_as_of [OF assms(1,2) w assms(5) ws]
  show ?thesis
  proof (cases "as_of_window td (cat, key) t")
    case (Some v)
    with past have "\<exists>v'. as_of_window td' (cat, key) t = Some v' \<and> (v' = v \<or>
        (\<exists>body now by_id. stored_body env (fst v) = Inr body \<and> fst v' = snapshot_of (fst v) body now by_id))"
      by simp
    then obtain v' where v': "as_of_window td' (cat, key) t = Some v'"
      "v' = v \<or> (\<exists>body now by_id. stored_body env (fst v) = Inr body \<and> fst v' = snapshot_of (fst v) body now by_id)"
      by blast
    then have "entity_from_row (se_gate env) (entity_row.truncate (fst v')) = Inr e"
      if "entity_from_row (se_gate env) (entity_row.truncate (fst v)) = Inr e" for e
      using that snapshot_reads_same [OF assms(3)] by auto
    moreover have "row_valid_from (fst v') = row_valid_from (fst v) \<and> row_valid_to (fst v') = row_valid_to (fst v)"
      using v'(2) by (auto simp: snapshot_of_def)
    ultimately show ?thesis using Some v'(1) by (simp add: as_of_row_window)
  qed (use past in \<open>simp add: as_of_row_window\<close>)
qed

theorem writes_keep_the_past_witness:
  "\<exists>r'. as_of_row closed_store ''note'' ''k'' 15 = Some r' \<and> row_valid_to r' = None"
proof -
  have law: "rewrap_ok sample_store_env" by (simp add: rewrap_ok_def sample_store_env_def sample_gate_env_def)
  have row: "as_of_row sample_store ''note'' ''k'' 15 = Some sample_version"
    by (simp add: as_of_row_def history_hits_def sample_store_def sample_version_def of_key_def recorded_def or_else_def)
  have read: "\<exists>e. entity_from_row (se_gate sample_store_env) (entity_row.truncate sample_version) = Inr e"
    by (simp add: entity_from_row_def open_body_def sample_store_env_def sample_gate_env_def)
  have past: "15 < (20 :: int)" by simp
  from writes_keep_the_past [OF sample_store_facts(1,3) law sample_write past] row read show ?thesis
    by (auto simp: sample_version_def)
qed

text \<open>
  When claims were recorded in the order of their valid time, the answer for a point of
  both time axes is the newest claim recorded by then that had begun, unless it has ended:
  the loop with its running minimum agrees with this direct search.
\<close>

theorem in_order_claims_answer_newest:
  assumes "versions_recorded_by env td now cat key tx_at = Inr vs"
    and "sorted_wrt (\<lambda>u v. effective_from v \<le> effective_from u) vs"
  shows "bitemporal_at env td now cat key tx_at t =
    Inr (case find (\<lambda>v. effective_from v \<le> t) vs of
       None \<Rightarrow> None
     | Some v \<Rightarrow> if unexpired v t then Some v else None)"
  using assms by (simp add: bitemporal_at_def bitemporal_walk_in_order)

text \<open>On an ungoverned store without encryption a live record is read as it is.\<close>

lemma plain_visible:
  assumes "en_status e = ''active''" "\<not> en_archived e" "en_links e = []"
    and "gd_tombstones db = []" "gd_overlay db = Absent"
  shows "filter_temporal_readable sample_gate_env db now [e] = Inr [e]"
proof -
  have "entity_lifecycle_serveable e"
    using assms(1,2) by (simp add: entity_lifecycle_serveable_def canonical_entity_status_def lower_text_statuses
        ENTITY_STATUSES_def NON_SERVEABLE_STATUSES_def)
  moreover have "lineage_source_ids sample_gate_env e = []"
    using assms(3) by (simp add: lineage_source_ids_def lineage_source_ids_from_body_def sample_gate_env_def)
  then have "\<not> derived_lineage_suppressed sample_gate_env db None e now"
    by (simp add: derived_lineage_suppressed_def)
  ultimately show ?thesis
    using assms(1,4,5) by (simp add: entity_suppressed_def open_overlay_def mandate_hit_def)
qed

definition entity_of :: "version_row \<Rightarrow> entity" where
  "entity_of r = \<lparr>en_id = row_id r, en_category = row_category r, en_key = row_key r, en_body_json = row_body_json r,
     en_status = row_status r, en_archived = (row_archived r \<noteq> 0), en_links = [],
     en_workspace_hash = or_else (row_workspace r) [], en_agent_id = or_else (row_agent r) [],
     en_visibility = or_else (row_visibility r) ''workspace'', en_created_at = row_created_at r\<rparr>"

lemma plain_entity: "entity_from_row sample_gate_env (entity_row.truncate r) = Inr (entity_of r)"
  by (simp add: entity_from_row_def open_body_def sample_gate_env_def entity_row.truncate_def entity_of_def or_else_def)

definition version_at :: "version_row \<Rightarrow> temporal_version" where
  "version_at r = \<lparr>tv_entity = entity_of r, tv_valid_from = row_valid_from r, tv_valid_to = row_valid_to r,
     tv_recorded_at = recorded r, tv_invalidated_at = row_invalidated_at r\<rparr>"

lemma plain_versions:
  assumes "td_tombstones td = []" "td_overlay td = Absent"
    and "\<And>r. r \<in> set rows \<Longrightarrow> row_status r = ''active'' \<and> row_archived r = 0"
  shows "map_r (version_of sample_gate_env) rows = Inr (map version_at rows)"
    and "map_r (keep_visible sample_gate_env (gate_of td) now) (map version_at rows) = Inr (map (\<lambda>r. [version_at r]) rows)"
proof -
  show "map_r (version_of sample_gate_env) rows = Inr (map version_at rows)"
    by (induction rows) (simp_all add: version_of_def plain_entity version_at_def)
  have "keep_visible sample_gate_env (gate_of td) now (version_at r) = Inr [version_at r]" if "r \<in> set rows" for r
  proof -
    have "filter_temporal_readable sample_gate_env (gate_of td) now [tv_entity (version_at r)] = Inr [tv_entity (version_at r)]"
      by (rule plain_visible) (use assms(1,2) assms(3) [OF that] in \<open>simp_all add: entity_of_def version_at_def gate_of_def\<close>)
    then show ?thesis by (simp only: keep_visible_def bind_r_simps) simp
  qed
  then show "map_r (keep_visible sample_gate_env (gate_of td) now) (map version_at rows) = Inr (map (\<lambda>r. [version_at r]) rows)"
    by (induction rows) simp_all
qed

lemma plain_versions_recorded_by:
  assumes "td_tombstones td = []" "td_overlay td = Absent"
    and "\<And>r. r \<in> set (td_live td) \<or> r \<in> snd ` set (td_history td) \<Longrightarrow> row_status r = ''active'' \<and> row_archived r = 0"
  shows "versions_recorded_by sample_gate_env td now cat key t = Inr (map version_at (rows_recorded_by td cat key t))"
proof -
  have "row_status r = ''active'' \<and> row_archived r = 0" if "r \<in> set (rows_recorded_by td cat key t)" for r
    using that assms(3) by (auto simp: rows_recorded_by_def)
  from plain_versions [OF assms(1,2) this] show ?thesis
    by (simp add: versions_recorded_by_def concat_map_singleton)
qed

theorem in_order_claims_answer_newest_witness:
  "bitemporal_at sample_gate_env closed_store 30 ''note'' ''k'' 50 60 =
     Inr (Some (version_at (sample_version\<lparr>row_valid_to := Some 100, vr_recorded_at := Some 20, vr_supersedes := ''h1'',
       row_valid_from := Some 10\<rparr>)))"
proof -
  let ?new = "sample_version\<lparr>row_valid_to := Some 100, vr_recorded_at := Some 20, vr_supersedes := ''h1'',
       row_valid_from := Some 10\<rparr>"
  let ?old = "sample_version\<lparr>row_invalidated_at := Some 20, vr_superseded_by := ''e1''\<rparr>"
  have "rows_recorded_by closed_store ''note'' ''k'' 50 = [?new, ?old]"
    by (simp add: rows_recorded_by_def closed_store_def sample_store_def of_key_def sample_version_def recorded_def or_else_def)
  then have vs: "versions_recorded_by sample_gate_env closed_store 30 ''note'' ''k'' 50 = Inr [version_at ?new, version_at ?old]"
    by (subst plain_versions_recorded_by) (auto simp: closed_store_def sample_store_def sample_version_def)
  have "sorted_wrt (\<lambda>u v. effective_from v \<le> effective_from u) [version_at ?new, version_at ?old]"
    by (simp add: version_at_def effective_from_def or_else_def sample_version_def recorded_def)
  from in_order_claims_answer_newest [OF vs this, of 60] show ?thesis
    by (simp add: version_at_def effective_from_def unexpired_def or_else_def)
qed

section \<open>Where the reads differ from their description\<close>

text \<open>
  A claim that begins earlier but was recorded later hides a genuine successor: the running
  minimum is the start of the earlier claim, which closes nothing, and a claim that its
  successor had closed at 100 answers for the instant 200 again.
\<close>

definition claim :: "int \<Rightarrow> int option \<Rightarrow> int \<Rightarrow> temporal_version" where
  "claim from to rec = \<lparr>tv_entity = sample_entity, tv_valid_from = Some from, tv_valid_to = to,
     tv_recorded_at = rec, tv_invalidated_at = None\<rparr>"

theorem earlier_claim_hides_successor:
  "bitemporal_walk 200 None [claim 100 (Some 150) 2, claim 50 None 1] = None \<and>
   bitemporal_walk 200 None [claim 0 (Some 5) 3, claim 100 (Some 150) 2, claim 50 None 1] = Some (claim 50 None 1)"
  by (simp add: claim_def effective_from_def effective_to_def or_else_def)

text \<open>
  After a record was invalidated, a read as of a later instant finds nothing, but the version
  that \<open>as_of_version\<close> gives for the same instant is the invalidated one: it looks at the start
  of a window only.
\<close>

definition retired_store :: temporal_db where
  "retired_store = sample_store\<lparr>td_live := [],
     td_history := [(''h1'', sample_version\<lparr>row_invalidated_at := Some 20, vr_superseded_by := ''e2''\<rparr>)]\<rparr>"

theorem retired_version_still_answers:
  "invalidate_entity sample_store_env sample_store 20 ''h1'' ''e1'' ''e2'' = (Inr True, retired_store) \<and>
   as_of sample_gate_env retired_store 40 ''note'' ''k'' 30 = Inr None \<and>
   as_of_version sample_gate_env retired_store 40 ''note'' ''k'' 30 =
     Inr (Some (version_at (sample_version\<lparr>row_invalidated_at := Some 20, vr_superseded_by := ''e2''\<rparr>)))"
proof (intro conjI)
  show "invalidate_entity sample_store_env sample_store 20 ''h1'' ''e1'' ''e2'' = (Inr True, retired_store)"
    by (simp add: invalidate_entity_def invalidate_entity_tx_def require_key_def sample_store_env_def sample_gate_env_def
        sample_store_def sample_version_def stored_body_def insert_history_def commit_def retired_store_def recorded_def
        or_else_def)
  show "as_of sample_gate_env retired_store 40 ''note'' ''k'' 30 = Inr None"
    by (simp add: as_of_def as_of_row_def history_hits_def retired_store_def sample_store_def sample_version_def)
  have "rows_recorded_by retired_store ''note'' ''k'' 30 = [sample_version\<lparr>row_invalidated_at := Some 20, vr_superseded_by := ''e2''\<rparr>]"
    by (simp add: rows_recorded_by_def retired_store_def sample_store_def of_key_def sample_version_def recorded_def or_else_def)
  then have "versions_recorded_by sample_gate_env retired_store 40 ''note'' ''k'' 30 =
      Inr [version_at (sample_version\<lparr>row_invalidated_at := Some 20, vr_superseded_by := ''e2''\<rparr>)]"
    by (subst plain_versions_recorded_by) (auto simp: retired_store_def sample_store_def sample_version_def)
  then show "as_of_version sample_gate_env retired_store 40 ''note'' ''k'' 30 =
      Inr (Some (version_at (sample_version\<lparr>row_invalidated_at := Some 20, vr_superseded_by := ''e2''\<rparr>)))"
    by (simp add: as_of_version_def)
qed

text \<open>
  The temporal reads know a record by category and key, the table also by workspace: with the
  same key in two workspaces, two versions are live at one instant and the read gives the
  first row of the table, whatever the workspace.
\<close>

theorem other_workspace_answers:
  assumes "td_live td = [r, s]" and "td_history td = []" and "of_key cat key r" "of_key cat key s"
    and "row_workspace r \<noteq> row_workspace s" and "recorded r \<le> t" "recorded s \<le> t" and "row_id r \<noteq> row_id s"
  shows "timeline_ok td \<and> as_of_row td cat key t = Some r \<and>
    (r, recorded r, None) \<in> set (key_versions td (cat, key)) \<and> (s, recorded s, None) \<in> set (key_versions td (cat, key))"
  using assms
  by (simp add: timeline_ok_iff identity_def as_of_row_def history_hits_def key_versions_def all_versions_def)

end
