(* ===== verification/Task_Guarantees.thy ===== *)
theory Task_Guarantees
  imports Task_Serve Temporal_Guarantees
begin

text \<open>
  What the task states promise: the compare-and-swap is a versioned store, a stored state is
  read back and rebuilt, a served state rests on governed evidence only, a caller writes no task state
  but its own, and what its recall writes besides is journal evidence and embeddings.
\<close>

section \<open>The store as a versioned store\<close>

definition store_ok :: "vault \<Rightarrow> bool" where
  "store_ok vt \<longleftrightarrow> distinct (map pj_scope (vt_projections vt)) \<and>
     list_all (\<lambda>r. 1 \<le> pj_state_sequence r \<and> pj_state_sequence r \<le> i64_max) (vt_projections vt)"

lemma find_map_key:
  "(\<And>r. k (f r) = k r) \<Longrightarrow> find (\<lambda>r. k r = j) (map f rows) = map_option f (find (\<lambda>r. k r = j) rows)"
  by (induction rows) auto

lemma state_validate_sequence:
  "state_validate env s = Inr () \<Longrightarrow> ts_state_sequence s = ts_base_sequence s + 1 \<and> scope_validate (ts_scope s) = Inr ()"
  unfolding state_validate_def check_all_Inr list.pred_inject
  by (elim conjE) (simp add: checked_add_u64_def guard_r_Inr split: option.splits if_splits)

lemma projection_unique:
  assumes "store_ok vt" and "projection vt scope = Some row"
  shows "filter (\<lambda>r. pj_scope r = scope \<and> P r) (vt_projections vt) = (if P row then [row] else [])"
proof -
  have "find (\<lambda>r. pj_scope r = scope) rows = Some row \<Longrightarrow> distinct (map pj_scope rows) \<Longrightarrow>
      filter (\<lambda>r. pj_scope r = scope \<and> P r) rows = (if P row then [row] else [])" for rows
    by (induction rows) (auto simp: filter_empty_conv image_iff split: if_splits)
  with assms show ?thesis by (simp add: projection_def store_ok_def)
qed

text \<open>The compare-and-swap in full, on a store that keeps its primary key.\<close>

lemma cas_cases:
  assumes ok: "store_ok vt" and "task_state_compare_and_swap env vt now s = (res, vt')"
  obtains (err) e where "res = Inl e" "vt' = vt"
  | (stored) created where "res = Inr ()" "state_validate (te_digest env) s = Inr ()"
      "current_sequence vt (ts_scope s) = ts_base_sequence s" "ts_state_sequence s \<le> i64_max"
      "store_ok vt'" "vt_audit vt' = vt_audit vt" "vt_providers vt' = vt_providers vt"
      "\<And>scope. projection vt' scope =
         (if scope = ts_scope s then Some (state_row env s created now) else projection vt scope)"
      "vt_seals vt' = vt_seals vt" "vt_embedded vt' = vt_embedded vt"
proof (cases "state_validate (te_digest env) s")
  case (Inl e)
  then show thesis using assms(2) err [of e] by (auto simp: task_state_compare_and_swap_def)
next
  case (Inr u)
  then have valid: "state_validate (te_digest env) s = Inr ()" by simp
  note seq = state_validate_sequence [OF valid]
  show thesis
  proof (cases "current_sequence vt (ts_scope s) = ts_base_sequence s \<and> ts_state_sequence s \<le> i64_max")
    case False
    then show thesis using assms(2) err valid
      by (auto simp: task_state_compare_and_swap_def split: if_splits)
  next
    case True
    then have cur: "current_sequence vt (ts_scope s) = ts_base_sequence s" and le: "ts_state_sequence s \<le> i64_max"
      by simp_all
    with seq have base: "\<not> ts_base_sequence s > i64_max" by simp
    show thesis
    proof (cases "projection vt (ts_scope s)")
      case None
      then have base0: "ts_base_sequence s = 0" using cur by (simp add: current_sequence_def)
      have out: "res = Inr ()" "vt' = vt\<lparr>vt_projections := vt_projections vt @ [state_row env s now now]\<rparr>"
        using assms(2) valid cur le base None by (simp_all add: task_state_compare_and_swap_def)
      have new: "ts_scope s \<notin> pj_scope ` set (vt_projections vt)"
        using None by (auto simp: projection_def find_None_iff)
      have "store_ok vt'"
        using ok new base0 seq le by (simp add: out store_ok_def state_row_def)
      moreover have "projection vt' scope =
          (if scope = ts_scope s then Some (state_row env s now now) else projection vt scope)" for scope
        using None by (auto simp: out projection_def find_append state_row_def split: option.split)
      ultimately show thesis using stored [of now] out valid cur le by simp
    next
      case (Some row)
      have row: "row \<in> set (vt_projections vt)" "pj_scope row = ts_scope s"
        using Some by (auto simp: projection_def dest: find_SomeD)
      with ok have pos: "1 \<le> pj_state_sequence row" by (simp add: store_ok_def list_all_iff)
      then have eq: "pj_state_sequence row = ts_base_sequence s"
        using cur Some by (simp add: current_sequence_def u64_of_def)
      define f where "f = (\<lambda>r. if pj_scope r = ts_scope s \<and> pj_state_sequence r = ts_base_sequence s
          then state_row env s (pj_created_at r) now else r)"
      have out: "res = Inr ()" "vt' = vt\<lparr>vt_projections := map f (vt_projections vt)\<rparr>"
        using assms(2) valid cur le base Some eq
          projection_unique [OF ok Some, of "\<lambda>r. pj_state_sequence r = ts_base_sequence s"]
        by (simp_all add: task_state_compare_and_swap_def f_def Let_def)
      have key: "pj_scope (f r) = pj_scope r" for r by (simp add: f_def state_row_def)
      have "distinct (map pj_scope (map f (vt_projections vt)))"
        using ok by (simp add: key store_ok_def comp_def)
      moreover have "1 \<le> ts_state_sequence s" using seq eq pos by simp
      then have "1 \<le> pj_state_sequence (f r) \<and> pj_state_sequence (f r) \<le> i64_max"
        if "r \<in> set (vt_projections vt)" for r
        using that ok le by (auto simp: store_ok_def list_all_iff f_def state_row_def)
      ultimately have "store_ok vt'" by (simp add: store_ok_def out list_all_iff)
      moreover have "projection vt' scope =
          (if scope = ts_scope s then Some (state_row env s (pj_created_at row) now) else projection vt scope)" for scope
      proof (cases "scope = ts_scope s")
        case True
        then show ?thesis using Some row eq by (simp add: out projection_def find_map_key [of pj_scope f, OF key]) (simp add: f_def)
      next
        case False
        then have "map_option f (find (\<lambda>r. pj_scope r = scope) (vt_projections vt)) =
            find (\<lambda>r. pj_scope r = scope) (vt_projections vt)"
          by (cases "find (\<lambda>r. pj_scope r = scope) (vt_projections vt)") (auto simp: f_def dest!: find_SomeD)
        then show ?thesis using False by (simp add: out projection_def find_map_key [of pj_scope f, OF key])
      qed
      ultimately show thesis using stored [of "pj_created_at row"] out valid cur le by simp
    qed
  qed
qed

definition cas_attempt :: "task_env \<Rightarrow> vault \<Rightarrow> int \<times> task_state \<Rightarrow> bool \<times> vault" where
  "cas_attempt env vt a =
     (let (res, vt') = task_state_compare_and_swap env vt (fst a) (snd a) in (is_ok res, vt'))"

lemma cas_attempt_True:
  assumes "store_ok vt" and "cas_attempt env vt a = (True, vt')"
  shows "store_ok vt' \<and> current_sequence vt (ts_scope (snd a)) = ts_base_sequence (snd a) \<and>
    current_sequence vt' scope =
      (if scope = ts_scope (snd a) then ts_base_sequence (snd a) + 1 else current_sequence vt scope)"
proof -
  obtain res where r: "task_state_compare_and_swap env vt (fst a) (snd a) = (res, vt')" "is_ok res"
    using assms(2) by (auto simp: cas_attempt_def split: prod.splits)
  from assms(1) r(1) show ?thesis
  proof (cases rule: cas_cases)
    case (stored created)
    note seq = state_validate_sequence [OF stored(2)]
    have "0 \<le> ts_base_sequence (snd a)"
      using stored(3) by (auto simp: current_sequence_def u64_of_def u64_max_def split: option.splits if_splits)
    then show ?thesis
      using stored(3,5,8) seq by (auto simp: current_sequence_def state_row_def u64_of_def)
  qed (use r(2) in \<open>simp add: is_ok_def\<close>)
qed

interpretation task_store: versioned_store store_ok current_sequence "cas_attempt env"
    "\<lambda>a. ts_scope (snd a)" "\<lambda>a. ts_base_sequence (snd a)" for env
proof
  fix vt a vt'
  assume "cas_attempt env vt a = (False, vt')"
  then show "vt' = vt"
    by (auto simp: cas_attempt_def task_state_compare_and_swap_def is_ok_def Let_def
        split: prod.splits sum.splits if_splits option.splits)
qed (use cas_attempt_True in blast)+

section \<open>Facts on the serving path\<close>

lemma resolve_references_Inr:
  "resolve_references env vt now scope anchor refs sources = Inr (rs, ss) \<Longrightarrow>
   rs = refs \<and> (\<forall>ref \<in> set refs. \<exists>s. resolve_reference env vt now scope anchor ref = Inr s)"
  by (induction refs arbitrary: sources rs ss) (auto simp: bind_r_Inr split: prod.splits)

lemma from_request_Inr:
  assumes "from_request env r accepted rejected missing sd ed outcome = Inr s"
  shows "state_validate env s = Inr ()" and "ts_scope s = request_scope r"
    and "ts_task_digest s = rq_task_digest r \<and> ts_route s = rq_route r \<and> ts_objective s = rq_objective r \<and>
      ts_temporal_anchor s = rq_temporal_anchor r \<and> ts_constraints s = rq_constraints r"
    and "ts_accepted s = accepted" "ts_rejected s = rejected" "ts_missing s = missing"
      "ts_unresolved s = rq_unresolved r" "ts_conflicts s = rq_conflicts r"
      "ts_base_sequence s = rq_base_sequence r" "ts_source_digest s = sd" "ts_evidence_digest s = ed"
      "ts_outcome s = outcome"
  using assms by (auto simp: from_request_def state_seal_def Let_def bind_r_Inr split: option.splits)

lemma request_validate_identity:
  "request_validate env r query ws requester = Inr () \<Longrightarrow>
   scope_validate (request_scope r) = Inr () \<and> ws = Some (rq_workspace_hash r) \<and>
   rq_principal_id r = requester \<and> rq_agent_id r = requester"
  unfolding request_validate_def check_all_Inr list.pred_inject
  by (elim conjE) (simp add: guard_r_Inr)

lemma scope_validate_tenant:
  "scope_validate s = Inr () \<Longrightarrow> sc_tenant_id s = sc_workspace_hash s \<and> sc_principal_id s = sc_agent_id s"
  unfolding scope_validate_def check_all_Inr list.pred_inject by (elim conjE) (simp add: guard_r_Inr)

section \<open>What a recall writes\<close>

text \<open>A recall adds journal events on sealed records and embeddings of stored records, nothing else.\<close>

definition tamper_row :: "vault \<Rightarrow> int \<Rightarrow> journal_row \<Rightarrow> bool" where
  "tamper_row vt now j \<longleftrightarrow> je_event_type j = ''tamper_evidence'' \<and> je_created_at j = now \<and>
     (\<exists>x \<in> set (vt_seals vt). sa_scope x = ''entity'' \<and> sa_target_id x = je_entity_id j)"

definition recalled :: "int \<Rightarrow> vault \<Rightarrow> vault \<Rightarrow> bool" where
  "recalled now vt vt' \<longleftrightarrow> vt_providers vt' = vt_providers vt \<and> vt_projections vt' = vt_projections vt \<and> vt_seals vt' = vt_seals vt \<and>
     (\<exists>js. vt_audit vt' = (vt_audit vt)\<lparr>au_journal := au_journal (vt_audit vt) @ js\<rparr> \<and> list_all (tamper_row vt now) js) \<and>
     set (vt_embedded vt) \<subseteq> set (vt_embedded vt') \<and>
     set (vt_embedded vt') \<subseteq> set (vt_embedded vt) \<union> row_id ` set (gd_entities (vt_gate vt))"

lemma recalled_refl [simp]: "recalled now vt vt"
  by (simp add: recalled_def) (rule exI [of _ "[]"], simp)

lemma recalled_same:
  assumes "recalled now vt vt'"
  shows "vt_gate vt' = vt_gate vt" "vt_providers vt' = vt_providers vt" "vt_seals vt' = vt_seals vt" "projection vt' = projection vt"
    "current_sequence vt' = current_sequence vt" "task_state_get env vt' = task_state_get env vt" "store_ok vt' = store_ok vt"
  using assms by (auto simp: recalled_def vt_gate_def projection_def current_sequence_def task_state_get_def store_ok_def fun_eq_iff)

lemma recalled_trans: "recalled now vt vt1 \<Longrightarrow> recalled now vt1 vt2 \<Longrightarrow> recalled now vt vt2"
proof -
  assume a: "recalled now vt vt1" and b: "recalled now vt1 vt2"
  from a obtain js where js: "vt_audit vt1 = (vt_audit vt)\<lparr>au_journal := au_journal (vt_audit vt) @ js\<rparr>" "list_all (tamper_row vt now) js"
    by (auto simp: recalled_def)
  from b obtain ks where ks: "vt_audit vt2 = (vt_audit vt1)\<lparr>au_journal := au_journal (vt_audit vt1) @ ks\<rparr>" "list_all (tamper_row vt1 now) ks"
    by (auto simp: recalled_def)
  have "tamper_row vt1 now = tamper_row vt now" using recalled_same(3) [OF a] by (auto simp: tamper_row_def fun_eq_iff)
  with js ks have "vt_audit vt2 = (vt_audit vt)\<lparr>au_journal := au_journal (vt_audit vt) @ (js @ ks)\<rparr> \<and> list_all (tamper_row vt now) (js @ ks)"
    by simp
  with a b recalled_same(1) [OF a] show ?thesis unfolding recalled_def by auto
qed

lemma filter_direct_readable_mem:
  assumes "filter_direct_readable env db now es = Inr kept"
  shows "set kept \<subseteq> set es"
  using assms by (auto simp: filter_direct_readable_def Let_def dest: filter_suppressed_mem split: if_splits)

lemma get_entity_stored:
  assumes "get_entity env db now cat k = Inr (Some e)"
  shows "en_id e \<in> row_id ` set (gd_entities db)"
proof -
  let ?rows = "sort_key (\<lambda>r. (or_else (row_workspace r) [], row_id r)) (filter (\<lambda>r. row_category r = cat \<and> row_key r = k) (gd_entities db))"
  from assms obtain r rs raw kept where r: "?rows = r # rs" "entity_from_row env r = Inr raw"
      "filter_direct_readable env db now [raw] = Inr kept" "kept \<noteq> []" "e = last kept"
    unfolding get_entity_def by (cases ?rows) (auto simp: bind_r_Inr split: if_splits)
  from r(1) have "r \<in> set ?rows" by simp
  then have "r \<in> set (gd_entities db)" by simp
  moreover have "e \<in> set kept" using r(4,5) by simp
  with filter_direct_readable_mem [OF r(3)] have "e = raw" by auto
  moreover have "en_id raw = row_id r" using r(2) by (auto simp: entity_from_row_def bind_r_Inr)
  ultimately show ?thesis by simp
qed

lemma embed_entity_recalled: "recalled now vt (embed_entity env embeds t cat k vt)"
proof (cases "get_entity (te_gate env) (vt_gate vt) t cat k")
  case (Inr found)
  then show ?thesis
    using get_entity_stored [of "te_gate env" "vt_gate vt" t cat k]
    by (cases found) (auto simp: embed_entity_def store_embedding_def recalled_def intro: exI [of _ "[]"])
qed (simp add: embed_entity_def)

lemma settle_recalled: "recalled now vt (settle_dense_candidates env embeds t cap vt)"
proof -
  have "recalled now vt (fold (\<lambda>r. embed_entity env embeds t (row_category r) (row_key r)) rows vt)" for rows :: "entity_row list"
  proof (induction rows arbitrary: vt)
    case (Cons r rows)
    from recalled_trans [OF embed_entity_recalled Cons] show ?case by simp
  qed simp
  then show ?thesis by (simp add: settle_dense_candidates_def)
qed

lemma newest_row_in: "newest_row t rows = Some r \<Longrightarrow> r \<in> set rows"
proof -
  assume "newest_row t rows = Some r"
  then have "sort_key t rows \<noteq> []" "r = last (sort_key t rows)" by (auto simp: newest_row_def split: list.splits)
  then show ?thesis using last_in_set [of "sort_key t rows"] by simp
qed

lemma journal_tamper_recalled:
  assumes "journal_tamper_evidence env vt now event_id sm = Inr vt'"
    and "x \<in> set (vt_seals vt)" and "sa_scope x = ''entity''" and "sa_target_id x = sm_target_id sm"
  shows "recalled now vt vt'"
proof (cases "vt' = vt")
  case False
  let ?e = "tamper_event (te_digest env) now event_id sm"
  let ?row = "journal_row_of (te_digest env) (vt_audit vt) (te_writ env) ?e"
  from False assms(1) have "vt' = vt\<lparr>vt_audit := (vt_audit vt)\<lparr>au_journal := au_journal (vt_audit vt) @ [?row]\<rparr>\<rparr>"
    by (auto simp: journal_tamper_evidence_def journal_with_conn_def bind_r_Inr Let_def split: if_splits)
  moreover have "tamper_row vt now ?row"
    using assms(2-4) by (auto simp: tamper_row_def tamper_event_def journal_row_of_def journal_event.defs journal_row.defs Let_def)
  ultimately show ?thesis by (auto simp: recalled_def)
qed simp

lemma seal_check_recalled: "recalled now vt (seal_check env now event_id e vt)"
proof (cases "newest_row sa_created_at (filter (\<lambda>x. sa_scope x = ''entity'' \<and> sa_target_id x = en_id e) (vt_seals vt))")
  case (Some latest)
  from newest_row_in [OF this] have "latest \<in> set (vt_seals vt)" "sa_scope latest = ''entity''" "sa_target_id latest = en_id e" by auto
  with Some show ?thesis by (auto simp: seal_check_def Let_def intro: journal_tamper_recalled split: sum.splits)
qed (simp add: seal_check_def)

lemma seal_loop_recalled: "recalled now vt (seal_loop env now ids n es vt)"
proof (induction es arbitrary: n vt)
  case (Cons e es)
  from recalled_trans [OF seal_check_recalled Cons] show ?case by simp
qed simp

lemma vault_recall_recalled: "recalled now vt (snd (vault_recall env vt now call mode limit))"
proof -
  define vt1 where "vt1 = (if rc_settles call mode then settle_dense_candidates env (rc_embeds call) now 128 vt else vt)"
  have "recalled now vt vt1" by (simp add: vt1_def settle_recalled)
  moreover have "recalled now vt1 (recall_seal_compare env now ids es vt1)" for ids es
    by (simp add: recall_seal_compare_def seal_loop_recalled)
  ultimately show ?thesis
    by (auto simp: vault_recall_def Let_def vt1_def [symmetric] intro: recalled_trans split: sum.splits)
qed

lemma recall_candidates_recalled:
  "recall_candidates env vt now health call mode limit who = (x, vt1) \<Longrightarrow> recalled now vt vt1"
  using vault_recall_recalled [of now vt env call mode "max 1 (min (int MAX_EVIDENCE_REFS) limit)"]
  by (auto simp: recall_candidates_def Let_def split: prod.splits)

section \<open>The prepared state\<close>

text \<open>Resolving depends on the records and the sources only.\<close>

lemma resolve_references_same:
  assumes "vt_gate vt' = vt_gate vt" and "vt_providers vt' = vt_providers vt"
  shows "resolve_references env vt' now scope anchor refs sources = resolve_references env vt now scope anchor refs sources"
proof -
  have "resolve_provider_source env vt' scope e ref = resolve_provider_source env vt scope e ref" for e ref
    unfolding resolve_provider_source_def assms ..
  then have "resolve_reference env vt' now scope anchor ref = resolve_reference env vt now scope anchor ref" for ref
    unfolding resolve_reference_def assms by presburger
  then show ?thesis by (induction refs arbitrary: sources) simp_all
qed

text \<open>What holds of a state that was prepared: the gates passed on the vault as it was found, the rest on
  what the recall left of it.\<close>

definition task_prepared ::
    "task_env \<Rightarrow> vault \<Rightarrow> int \<Rightarrow> task_state_request \<Rightarrow> string \<Rightarrow> string \<Rightarrow> string option \<Rightarrow> task_state \<Rightarrow> canonical_source list \<Rightarrow> bool" where
  "task_prepared env vt now r query requester ws s sources \<longleftrightarrow>
     (\<exists>mode vt1 candidates outcome. task_gates env vt r query requester ws = Inr mode \<and> recalled now vt vt1 \<and>
        assemble_task_state env vt1 now r candidates outcome = Inr (s, sources))"

lemma task_prepared_facts:
  assumes "task_prepared env vt now r query requester ws s sources"
  obtains previous sources1 where
    "request_validate (te_digest env) r query ws requester = Inr ()"
    "state_validate (te_digest env) s = Inr ()" "ts_scope s = request_scope r"
    "ts_base_sequence s = rq_base_sequence r"
    "(if rq_base_sequence r > 0 then task_state_get env vt (ts_scope s) else Inr None) = Inr previous"
    "\<And>p. previous = Some p \<Longrightarrow> ensure_immutable_spec p r = Inr ()"
    "ts_task_digest s = rq_task_digest r" "ts_route s = rq_route r" "ts_objective s = rq_objective r"
    "ts_temporal_anchor s = rq_temporal_anchor r" "ts_constraints s = rq_constraints r"
    "resolve_references env vt now (ts_scope s) (ts_temporal_anchor s) (ts_accepted s) [] = Inr (ts_accepted s, sources1)"
    "resolve_references env vt now (ts_scope s) (ts_temporal_anchor s) (ts_rejected s) sources1 = Inr (ts_rejected s, sources)"
    "ts_source_digest s = digest_sources (te_digest env) sources"
    "ts_evidence_digest s = digest_references (te_digest env) (ts_accepted s) (ts_rejected s)"
    "\<exists>ro. ts_outcome s = derive_outcome (length (ts_accepted s)) (length (ts_rejected s)) (length (ts_unresolved s))
       (length (ts_conflicts s)) (length (ts_missing s)) ro"
proof -
  from assms obtain mode vt1 candidates outcome where g: "task_gates env vt r query requester ws = Inr mode"
    and same: "recalled now vt vt1" and p: "assemble_task_state env vt1 now r candidates outcome = Inr (s, sources)"
    by (auto simp: task_prepared_def)
  note res = resolve_references_same [OF recalled_same(1,2) [OF same]]
  from g obtain u1 u2 previous where
    a0: "request_validate (te_digest env) r query ws requester = Inr u1"
      "(if rq_base_sequence r > 0 then task_state_get env vt (request_scope r) else Inr None) = Inr previous"
      "(case previous of None \<Rightarrow> Inr () | Some p \<Rightarrow> ensure_immutable_spec p r) = Inr u2"
    unfolding task_gates_def by (auto simp only: bind_r_Inr)
  from p obtain accepted sources1 rejected missing where
    a1: "resolve_references env vt now (request_scope r) (rq_temporal_anchor r)
         (if rq_accepted r = [] \<and> rq_rejected r = [] then map (canonical_reference (te_digest env)) candidates
          else rq_accepted r) [] = Inr (accepted, sources1)"
      "resolve_references env vt now (request_scope r) (rq_temporal_anchor r) (rq_rejected r) sources1 = Inr (rejected, sources)"
    and f: "from_request (te_digest env) r accepted rejected missing (digest_sources (te_digest env) sources)
         (digest_references (te_digest env) accepted rejected)
         (derive_outcome (length accepted) (length rejected) (length (rq_unresolved r)) (length (rq_conflicts r))
           (length missing) (if rq_accepted r = [] \<and> rq_rejected r = [] then Some outcome else None)) = Inr s"
    unfolding assemble_task_state_def Let_def res
    by (auto simp only: bind_r_Inr split_paired_Ex prod.case sum.inject prod.inject simp_thms)
  note a = a0 a1
  note fr = from_request_Inr [OF f]
  note r1 = resolve_references_Inr [OF a(4)] and r2 = resolve_references_Inr [OF a(5)]
  define input where "input = (if rq_accepted r = [] \<and> rq_rejected r = []
     then map (canonical_reference (te_digest env)) candidates else rq_accepted r)"
  have out: "\<exists>ro. ts_outcome s = derive_outcome (length (ts_accepted s)) (length (ts_rejected s))
      (length (ts_unresolved s)) (length (ts_conflicts s)) (length (ts_missing s)) ro"
    unfolding fr by blast
  show thesis
    by (rule that [of previous sources1, OF _ _ _ _ _ _ _ _ _ _ _ _ _ _ _ out])
      (use a fr r1 r2 in \<open>auto simp: input_def [symmetric] split: option.splits if_splits\<close>)
qed

lemma serve_Inr:
  assumes "serve_project_task env vt now health recall r query limit requester ws = (Inr resp, vt')"
  obtains sources vt1 where
    "task_prepared env vt now r query requester ws (sv_task_state resp) sources" "recalled now vt vt1"
    "task_state_compare_and_swap env vt1 now (sv_task_state resp) = (Inr (), vt')"
    "sv_outcome resp = ts_outcome (sv_task_state resp)"
    "sv_recalled_evidence resp = ts_accepted (sv_task_state resp)"
    "sv_rejected_evidence resp = ts_rejected (sv_task_state resp)"
    "sv_fallback resp = fallback_for (ts_outcome (sv_task_state resp))"
proof -
  from assms obtain mode where g: "task_gates env vt r query requester ws = Inr mode"
    by (auto simp: serve_project_task_def split: sum.splits)
  obtain candidates outcome vt1 where
    c: "recall_candidates env vt now health recall mode limit (sc_principal_id (request_scope r)) = ((candidates, outcome), vt1)"
    by (metis prod.exhaust)
  from assms g c obtain s sources where p: "assemble_task_state env vt1 now r candidates outcome = Inr (s, sources)"
    and cas: "task_state_compare_and_swap env vt1 now s = (Inr (), vt')" and s: "sv_task_state resp = s"
    by (auto simp: serve_project_task_def split: sum.splits prod.splits)
  note same = recall_candidates_recalled [OF c]
  have "task_prepared env vt now r query requester ws s sources" using g same p by (auto simp: task_prepared_def)
  with assms g c p cas same show thesis
    by (intro that [of sources vt1]) (auto simp: serve_project_task_def)
qed

section \<open>Evidence\<close>

text \<open>What binds a reference to the record it names: the digest of the body, or an active
  provider source of that record with the digest and the revision of the reference.\<close>

definition evidence_bound :: "task_env \<Rightarrow> vault \<Rightarrow> entity \<Rightarrow> task_evidence_reference \<Rightarrow> bool" where
  "evidence_bound env vt e ref \<longleftrightarrow>
     (if er_source_id ref = ''entity:'' @ en_id e
      then er_source_digest ref = sha256_hex (te_digest env) (en_body_json e) \<and>
        er_evidence_digest ref = er_source_digest ref \<and> er_revision ref = ''entity-v1:'' @ er_source_digest ref
      else \<exists>p \<in> set (vt_providers vt). pv_source_id p = er_source_id ref \<and> pv_state p = ''active'' \<and>
        pv_deleted_at p = None \<and> pv_entity_id p = Some (en_id e) \<and>
        pv_content_sha256 p = Some (er_source_digest ref) \<and> pv_revision p = er_revision ref)"

lemma entity_reference_bound:
  "entity_reference_source (te_digest env) e ref = Inr src \<Longrightarrow> er_source_id ref = ''entity:'' @ en_id e \<Longrightarrow>
   evidence_bound env vt e ref"
  by (auto simp: entity_reference_source_def evidence_bound_def Let_def split: if_splits)

lemma provider_source_bound:
  "resolve_provider_source env vt scope e ref = Inr src \<Longrightarrow> er_source_id ref \<noteq> ''entity:'' @ en_id e \<Longrightarrow>
   evidence_bound env vt e ref"
  by (auto simp: resolve_provider_source_def evidence_bound_def bind_r_Inr split: option.splits if_splits
      dest!: find_SomeD)

lemma lookup_raw:
  assumes "get_entity_by_id_raw env db eid = Inr (Some raw)"
    and "get_entity_by_id_for_requester env db now eid req = Inr (Some e)"
  shows "e = raw"
proof -
  from assms obtain t where "filter_for_requester env db now [raw] req = Inr (e # t)"
    by (auto simp: get_entity_by_id_for_requester_def bind_r_Inr first_kept)
  with filter_for_requester_mem [of env db now "[raw]" req "e # t" e] show ?thesis by simp
qed

lemma resolve_reference_Inr:
  assumes "resolve_reference env vt now scope anchor ref = Inr src"
  shows "\<exists>e r. get_entity_by_id_for_requester (te_gate env) (vt_gate vt) now (er_entity_id ref)
        (Some (sc_principal_id scope)) = Inr (Some e) \<and>
      (en_workspace_hash e = sc_workspace_hash scope \<or> en_workspace_hash e = []) \<and>
      find (\<lambda>r. row_id r = er_entity_id ref) (gd_entities (vt_gate vt)) = Some r \<and>
      \<not> outside_validity r (or_else anchor now) \<and> evidence_bound env vt e ref"
proof -
  from assms obtain raw r e where
    raw: "get_entity_by_id_raw (te_gate env) (vt_gate vt) (er_entity_id ref) = Inr (Some raw)"
    and ws: "en_workspace_hash raw = sc_workspace_hash scope \<or> en_workspace_hash raw = []"
    and row: "find (\<lambda>r. row_id r = en_id raw) (gd_entities (vt_gate vt)) = Some r"
      "\<not> outside_validity r (or_else anchor now)"
    and e: "get_entity_by_id_for_requester (te_gate env) (vt_gate vt) now (er_entity_id ref)
      (Some (sc_principal_id scope)) = Inr (Some e)"
    and src: "(if er_source_id ref = ''entity:'' @ en_id e then entity_reference_source (te_digest env) e ref
      else resolve_provider_source env vt scope e ref) = Inr src"
    unfolding resolve_reference_def Let_def
    by (auto simp only: bind_r_Inr map_err_Inr if_Inl_Inr case_option_Inl_Inr de_Morgan_conj not_not)
  from raw have "en_id raw = er_entity_id ref" by (rule raw_id)
  moreover have "evidence_bound env vt e ref"
    using src entity_reference_bound provider_source_bound by (auto split: if_splits)
  moreover note lookup_raw [OF raw e]
  ultimately show ?thesis using e ws row by auto
qed

lemma derive_outcome_complete:
  assumes "derive_outcome acc rej unres conf miss recall = out"
  shows "(out = Complete \<longrightarrow> acc > 0 \<and> rej = 0 \<and> unres = 0 \<and> conf = 0 \<and> miss = 0) \<and>
    (acc = 0 \<longrightarrow> out \<in> {Abstained, Degraded, Unavailable})"
  using assms
  by (auto simp: derive_outcome_def Let_def split: if_splits option.splits recall_status.splits)

lemma stored_state_get:
  assumes "store_ok vt" and "task_state_compare_and_swap env vt now s = (Inr (), vt')"
    and "te_decode env (json_text (te_digest env) (task_state_json s)) = Some s"
  shows "task_state_get env vt' (ts_scope s) = Inr (Some s)"
  using assms(1,2)
proof (cases rule: cas_cases)
  case (stored created)
  note seq = state_validate_sequence [OF stored(2)]
  have "0 \<le> ts_base_sequence s"
    using stored(3) by (auto simp: current_sequence_def u64_of_def u64_max_def split: option.splits if_splits)
  then show ?thesis
    using assms(3) stored(2,8) seq by (simp add: task_state_get_def state_row_def u64_of_def)
qed simp

section \<open>A sample run\<close>

definition plain :: "string \<Rightarrow> bool" where
  "plain v \<longleftrightarrow> v \<noteq> [] \<and> list_all (\<lambda>c. 33 \<le> (of_char c :: nat) \<and> of_char c \<le> (126 :: nat)) v"

lemma plain_append: "plain u \<Longrightarrow> plain v \<Longrightarrow> plain (u @ v)"
  by (simp add: plain_def)

lemma plain_hex: "lower_hex64 v \<Longrightarrow> plain v"
  by (auto simp: plain_def lower_hex64_def list_all_iff is_ascii_hexdigit_def is_ascii_digit_def)

lemma validate_text_plain:
  assumes "plain v" and "length v \<le> n"
  shows "validate_text label v n = Inr ()"
proof -
  have ascii: "is_ascii v" using assms(1) by (auto simp: plain_def is_ascii_def list_all_iff)
  have "\<not> is_whitespace (of_char c)" "\<not> is_control (of_char c)" if "c \<in> set v" for c
    using that assms(1) by (auto simp: plain_def list_all_iff is_whitespace_def is_control_def)
  with assms ascii show ?thesis
    by (simp add: validate_text_def ensure_text_without_control_def trim_ascii char_count_ascii chars_ascii
        plain_def list_ex_iff)
qed

definition sample_reference :: task_evidence_reference where
  "sample_reference = canonical_reference sample_env sample_entity"

definition sample_scope :: task_state_scope where
  "sample_scope = \<lparr>sc_tenant_id = ''w'', sc_workspace_hash = ''w'', sc_principal_id = ''a1'', sc_agent_id = ''a1'',
     sc_task_id = ''t''\<rparr>"

definition sample_task_request :: "int \<Rightarrow> task_state_request" where
  "sample_task_request n = \<lparr>rq_schema_version = TASK_STATE_SCHEMA_VERSION, rq_task_id = ''t'', rq_tenant_id = ''w'',
     rq_workspace_hash = ''w'', rq_principal_id = ''a1'', rq_agent_id = ''a1'',
     rq_task_digest = sha256_hex sample_env ''q'', rq_route = ''fts5'', rq_objective = ''ship'',
     rq_temporal_anchor = None, rq_constraints = [], rq_base_sequence = n,
     rq_observed_input_digest = sha256_hex sample_env ''i'', rq_source_digest = None, rq_evidence_digest = None,
     rq_accepted = [sample_reference], rq_rejected = [], rq_unresolved = [], rq_conflicts = [], rq_missing = [],
     rq_next_step = \<lparr>ns_kind = ''none'', ns_reason = ''none''\<rparr>\<rparr>"

definition sample_source :: canonical_source where
  "sample_source = entity_source sample_entity ''entity:e1'' (er_revision sample_reference) (er_source_digest sample_reference)"

definition unsealed_task_state :: "int \<Rightarrow> task_state" where
  "unsealed_task_state n = \<lparr>ts_schema_version = TASK_STATE_SCHEMA_VERSION, ts_scope = sample_scope,
     ts_task_digest = sha256_hex sample_env ''q'', ts_route = ''fts5'', ts_objective = ''ship'',
     ts_temporal_anchor = None, ts_constraints = [], ts_accepted = [sample_reference], ts_rejected = [],
     ts_unresolved = [], ts_conflicts = [], ts_missing = [],
     ts_next_step = \<lparr>ns_kind = ''none'', ns_reason = ''none''\<rparr>, ts_state_sequence = n + 1, ts_base_sequence = n,
     ts_observed_input_digest = sha256_hex sample_env ''i'', ts_source_digest = digest_sources sample_env [sample_source],
     ts_evidence_digest = digest_references sample_env [sample_reference] [], ts_outcome = Complete, ts_state_digest = []\<rparr>"

definition sample_task_state :: "int \<Rightarrow> task_state" where
  "sample_task_state n = (unsealed_task_state n)\<lparr>ts_state_digest := compute_state_digest sample_env (unsealed_task_state n)\<rparr>"

definition sample_task_env :: task_env where
  "sample_task_env = \<lparr>te_gate = sample_gate_env, te_decode = (\<lambda>_. Some (sample_task_state 0)), te_writ = []\<rparr>"

text \<open>The vault without a task state, and with the first one.\<close>

definition sample_vault :: "projection_row list \<Rightarrow> vault" where
  "sample_vault rows = \<lparr>vt_audit = \<lparr>au_journal = [], au_chain = None, au_key = None,
       au_store = sample_store\<lparr>td_live := [sample_version\<lparr>row_created_at := 1\<rparr>]\<rparr>\<rparr>, vt_providers = [],
     vt_projections = rows, vt_seals = [], vt_embedded = []\<rparr>"

lemma sample_vault_gate: "vt_gate (sample_vault rows) = sample_gate_db"
  by (simp add: vt_gate_def sample_vault_def gate_of_def sample_store_def sample_version_def sample_gate_db_def sample_row_def
      entity_row.truncate_def)

text \<open>A recall that finds nothing.\<close>

definition sample_recall_call :: recall_call where
  "sample_recall_call = \<lparr>rc_settles = (\<lambda>_. False), rc_embeds = (\<lambda>_. False), rc_hits = (\<lambda>_ _. Inr []), rc_event_id = (\<lambda>_. ''1'')\<rparr>"

lemma sample_recall_call: "\<exists>x. recall_candidates env vt now health sample_recall_call mode limit who = (x, vt)"
  by (simp add: recall_candidates_def vault_recall_def sample_recall_call_def recall_seal_compare_def Let_def)

definition first_row :: projection_row where
  "first_row = state_row sample_task_env (sample_task_state 0) 5 5"

lemma te_digest_sample [simp]: "te_digest sample_task_env = sample_env" "te_gate sample_task_env = sample_gate_env"
  by (simp_all add: te_digest_def sample_task_env_def sample_gate_env_def)

lemma sample_reference_valid: "reference_validate label sample_reference = Inr ()"
proof -
  have hex: "lower_hex64 (sha256_hex sample_env ''b'')" by (simp add: sha256_32_sample_env)
  then have "plain (''entity-v1:'' @ sha256_hex sample_env ''b'')"
    by (intro plain_append [OF _ plain_hex]) (simp_all add: plain_def)
  moreover have "length (sha256_hex sample_env ''b'') = 64" using hex by (simp add: lower_hex64_def)
  ultimately show ?thesis
    using hex unfolding reference_validate_def check_all_Inr
    by (simp add: sample_reference_def canonical_reference_def sample_entity_def validate_text_plain plain_def
        MAX_ID_CHARS_def Task_State.validate_sha256_def Let_def)
qed

lemma sample_scope_valid: "scope_validate sample_scope = Inr ()"
  unfolding scope_validate_def check_all_Inr
  by (simp add: sample_scope_def validate_text_plain plain_def MAX_ID_CHARS_def MAX_TASK_ID_CHARS_def)

lemma request_scope_sample [simp]: "request_scope (sample_task_request n) = sample_scope"
  by (simp add: request_scope_def sample_task_request_def sample_scope_def)

lemma sample_lists_valid:
  "validate_reference_lists [sample_reference] [] = Inr ()" "validate_slots label [] = Inr ()"
  "no_duplicates check key dup [] = Inr ()"
  by (simp_all add: validate_reference_lists_def MAX_EVIDENCE_REFS_def sample_reference_valid validate_slots_def
      no_duplicates_def)

lemma sample_request_ok:
  "request_validate sample_env (sample_task_request n) ''q'' (Some ''w'') ''a1'' = Inr ()"
proof -
  have "scope_validate (request_scope (sample_task_request n)) = Inr ()"
    by (simp add: sample_scope_valid)
  then show ?thesis
    unfolding request_validate_def check_all_Inr
    by (simp add: sample_task_request_def sample_lists_valid Task_State.validate_sha256_def sha256_32_sample_env
        validate_optional_digest_def validate_text_plain plain_def MAX_ROUTE_CHARS_def MAX_OBJECTIVE_CHARS_def
        MAX_NEXT_STEP_REASON_CHARS_def next_step_validate_def task_search_mode_def)
qed

lemma sample_state_ok:
  assumes "0 \<le> n" "n < 100"
  shows "state_validate sample_env (sample_task_state n) = Inr ()"
proof -
  have "compute_state_digest sample_env (sample_task_state n) = ts_state_digest (sample_task_state n)"
    by (simp add: sample_task_state_def compute_state_digest_def state_members_def)
  then show ?thesis
    using assms unfolding state_validate_def check_all_Inr
    by (simp add: sample_task_state_def unsealed_task_state_def sample_scope_valid checked_add_u64_def u64_max_def
        sample_lists_valid Task_State.validate_sha256_def sha256_32_sample_env digest_sources_def digest_references_def
        domain_digest_def validate_text_plain plain_def MAX_ROUTE_CHARS_def MAX_OBJECTIVE_CHARS_def
        MAX_NEXT_STEP_REASON_CHARS_def next_step_validate_def parse_outcome_def)
qed

lemma sample_from_request:
  assumes "0 \<le> n" "n < 100"
  shows "from_request sample_env (sample_task_request n) [sample_reference] [] [] (digest_sources sample_env [sample_source])
    (digest_references sample_env [sample_reference] []) Complete = Inr (sample_task_state n)"
proof -
  have "checked_add_u64 n 1 = Some (n + 1)" using assms by (simp add: checked_add_u64_def u64_max_def)
  then have "from_request sample_env (sample_task_request n) [sample_reference] [] [] (digest_sources sample_env [sample_source])
    (digest_references sample_env [sample_reference] []) Complete = state_seal sample_env (unsealed_task_state n)"
    by (simp add: from_request_def unsealed_task_state_def sample_task_request_def request_scope_def sample_scope_def)
  then show ?thesis
    using sample_state_ok [OF assms] by (simp add: state_seal_def sample_task_state_def [symmetric])
qed

lemma sample_resolve:
  "resolve_reference sample_task_env (sample_vault rows) 5 sample_scope None sample_reference = Inr sample_source"
proof -
  have row: "find (\<lambda>r. row_id r = ''e1'') (gd_entities sample_gate_db) = Some sample_row"
    by (simp add: sample_gate_db_def sample_row_def)
  have can: "requester_can_read sample_gate_db (Some ''a1'') ''private'' ''a1''"
    by (simp add: requester_can_read_def can_read_def lower_text_statuses)
  have ref: "er_entity_id sample_reference = ''e1''" "er_source_id sample_reference = ''entity:e1''"
    by (simp_all add: sample_reference_def canonical_reference_def sample_entity_def Let_def)
  have ent: "en_id sample_entity = ''e1''" "en_workspace_hash sample_entity = ''w''" "en_visibility sample_entity = ''private''"
    "en_agent_id sample_entity = ''a1''" "\<not> en_archived sample_entity" "en_status sample_entity = ''active''"
    by (simp_all add: sample_entity_def)
  have times: "\<not> outside_validity sample_row (or_else None 5)" "entity_expiry_ms sample_gate_env b = None" for b
    by (simp_all add: outside_validity_def sample_row_def or_else_def entity_expiry_ms_def sample_gate_env_def)
  have src: "entity_reference_source sample_env sample_entity sample_reference = Inr sample_source"
    by (simp add: entity_reference_source_def sample_source_def sample_reference_def canonical_reference_def ent Let_def)
  have sc: "sc_workspace_hash sample_scope = ''w''" "sc_principal_id sample_scope = ''a1''"
    "vt_gate (sample_vault rows) = sample_gate_db"
    by (simp_all add: sample_scope_def sample_vault_gate)
  show ?thesis
    by (simp add: resolve_reference_def Let_def sample_reference_valid ref sc sample_raw map_err_def ent can row
        check_status_def times sample_lookup src)
qed

lemma sample_gates:
  assumes "(if n > 0 then task_state_get sample_task_env (sample_vault rows) sample_scope else Inr None) = Inr previous"
    and "previous = None \<or> previous = Some (sample_task_state 0)"
  shows "task_gates sample_task_env (sample_vault rows) (sample_task_request n) ''q'' ''a1'' (Some ''w'') = Inr Fts5"
proof -
  have spec: "ensure_immutable_spec (sample_task_state 0) (sample_task_request n) = Inr ()"
    by (simp add: ensure_immutable_spec_def guard_r_Inr)
      (simp add: sample_task_state_def unsealed_task_state_def sample_task_request_def)
  have r: "rq_base_sequence (sample_task_request n) = n" "rq_route (sample_task_request n) = ''fts5''"
    by (simp_all add: sample_task_request_def)
  show ?thesis using assms by (auto simp: task_gates_def r sample_request_ok spec task_search_mode_def)
qed

lemma sample_assemble:
  assumes "0 \<le> n" "n < 100"
  shows "assemble_task_state sample_task_env (sample_vault rows) 5 (sample_task_request n) candidates outcome =
    Inr (sample_task_state n, [sample_source])"
proof -
  have r: "rq_accepted (sample_task_request n) = [sample_reference]"
    "rq_rejected (sample_task_request n) = []" "rq_unresolved (sample_task_request n) = []"
    "rq_missing (sample_task_request n) = []" "rq_conflicts (sample_task_request n) = []"
    "rq_temporal_anchor (sample_task_request n) = None" "rq_source_digest (sample_task_request n) = None"
    "rq_evidence_digest (sample_task_request n) = None"
    by (simp_all add: sample_task_request_def)
  show ?thesis
    using sample_from_request [OF assms]
    by (simp add: assemble_task_state_def Let_def r sample_resolve sample_lists_valid derive_outcome_def)
qed

definition sample_response :: "int \<Rightarrow> task_serving_response" where
  "sample_response n = \<lparr>sv_schema_version = TASK_STATE_SCHEMA_VERSION, sv_outcome = Complete,
     sv_task_state = sample_task_state n, sv_canonical_sources = [sample_source], sv_recalled_evidence = [sample_reference],
     sv_rejected_evidence = [], sv_unresolved_evidence = [], sv_missing_evidence = [], sv_fallback = None\<rparr>"

lemma sample_state_fields [simp]:
  "ts_outcome (sample_task_state n) = Complete" "ts_accepted (sample_task_state n) = [sample_reference]"
  "ts_rejected (sample_task_state n) = []" "ts_unresolved (sample_task_state n) = []"
  "ts_missing (sample_task_state n) = []" "ts_scope (sample_task_state n) = sample_scope"
  "ts_base_sequence (sample_task_state n) = n" "ts_state_sequence (sample_task_state n) = n + 1"
  by (simp_all add: sample_task_state_def unsealed_task_state_def)

lemma sample_cas:
  "task_state_compare_and_swap sample_task_env (sample_vault []) 5 (sample_task_state 0) = (Inr (), sample_vault [first_row])"
  by (simp add: task_state_compare_and_swap_def sample_state_ok current_sequence_def projection_def sample_vault_def
      i64_max_def first_row_def)

lemma sample_cas_next:
  "task_state_compare_and_swap sample_task_env (sample_vault [first_row]) 5 (sample_task_state 1) =
     (Inr (), sample_vault [state_row sample_task_env (sample_task_state 1) 5 5])"
  by (simp add: task_state_compare_and_swap_def sample_state_ok current_sequence_def projection_def sample_vault_def
      i64_max_def first_row_def state_row_def u64_of_def)

lemma sample_get: "task_state_get sample_task_env (sample_vault [first_row]) sample_scope = Inr (Some (sample_task_state 0))"
  by (simp add: task_state_get_def projection_def sample_vault_def first_row_def state_row_def sample_state_ok u64_of_def)
    (simp add: sample_task_env_def sample_state_ok)

lemma sc_principal_sample: "sc_principal_id sample_scope = ''a1''"
  by (simp add: sample_scope_def)

lemma sample_serve:
  "serve_project_task sample_task_env (sample_vault []) 5 sample_health sample_recall_call (sample_task_request 0)
     ''q'' 10 ''a1'' (Some ''w'') = (Inr (sample_response 0), sample_vault [first_row])"
  using sample_gates [of 0 "[]" None] sample_recall_call [of sample_task_env "sample_vault []" 5 sample_health Fts5 10 "''a1''"]
    sample_assemble [of 0 "[]"] sc_principal_sample
  by (auto simp: serve_project_task_def sample_cas sample_response_def)

lemma sample_serve_next:
  "serve_project_task sample_task_env (sample_vault [first_row]) 5 sample_health sample_recall_call (sample_task_request 1)
     ''q'' 10 ''a1'' (Some ''w'') =
     (Inr (sample_response 1), sample_vault [state_row sample_task_env (sample_task_state 1) 5 5])"
  using sample_gates [of 1 "[first_row]" "Some (sample_task_state 0)"] sample_get
    sample_recall_call [of sample_task_env "sample_vault [first_row]" 5 sample_health Fts5 10 "''a1''"]
    sample_assemble [of 1 "[first_row]"] sc_principal_sample
  by (auto simp: serve_project_task_def sample_cas_next sample_response_def)

text \<open>What serving does to the vault, whatever it answers.\<close>

lemma serve_effect:
  assumes "store_ok vt" and "serve_project_task env vt now health recall r query limit requester ws = (res, vt')"
  obtains vt1 where "recalled now vt vt1" "vt_audit vt' = vt_audit vt1" "vt_providers vt' = vt_providers vt1"
    "vt_seals vt' = vt_seals vt1" "vt_embedded vt' = vt_embedded vt1" "store_ok vt'"
    "projection vt' scope \<noteq> projection vt1 scope \<Longrightarrow> is_ok res \<and> sc_principal_id scope = requester \<and>
      sc_agent_id scope = requester \<and> ws = Some (sc_workspace_hash scope) \<and> sc_tenant_id scope = sc_workspace_hash scope"
proof (cases res)
  case (Inl e)
  show thesis
  proof (cases "task_gates env vt r query requester ws")
    case (Inl e')
    with assms show thesis by (intro that [of vt]) (simp_all add: serve_project_task_def)
  next
    case (Inr mode)
    obtain candidates outcome vt1 where
      c: "recall_candidates env vt now health recall mode limit (sc_principal_id (request_scope r)) = ((candidates, outcome), vt1)"
      by (metis prod.exhaust)
    note same = recall_candidates_recalled [OF c]
    have ok: "store_ok vt1" using assms(1) recalled_same(7) [OF same] by simp
    have "vt' = vt1"
    proof (cases "assemble_task_state env vt1 now r candidates outcome")
      case p: (Inr x)
      obtain s sources where "x = (s, sources)" by fastforce
      then obtain res1 where "task_state_compare_and_swap env vt1 now s = (res1, vt')" "res1 = Inl e"
        using assms(2) Inl Inr c p
        by (cases "task_state_compare_and_swap env vt1 now s") (auto simp: serve_project_task_def split: sum.splits)
      with ok show ?thesis by (cases rule: cas_cases) simp_all
    qed (use assms(2) Inr c in \<open>auto simp: serve_project_task_def\<close>)
    with same ok show thesis by (intro that [of vt1]) simp_all
  qed
next
  case (Inr resp)
  with assms(2) obtain sources vt1 where p: "task_prepared env vt now r query requester ws (sv_task_state resp) sources"
    and same: "recalled now vt vt1" and c: "task_state_compare_and_swap env vt1 now (sv_task_state resp) = (Inr (), vt')"
    using serve_Inr by metis
  have "request_validate (te_digest env) r query ws requester = Inr ()"
    and scope: "ts_scope (sv_task_state resp) = request_scope r"
    using p by (auto elim: task_prepared_facts)
  note ident = request_validate_identity [OF this(1)]
  have "store_ok vt1" using assms(1) recalled_same(7) [OF same] by simp
  from this c show thesis
  proof (cases rule: cas_cases)
    case (stored created)
    have "is_ok res" by (simp add: Inr is_ok_def)
    moreover have "sc_principal_id sc = requester \<and> sc_agent_id sc = requester \<and> ws = Some (sc_workspace_hash sc) \<and>
        sc_tenant_id sc = sc_workspace_hash sc" if "projection vt' sc \<noteq> projection vt1 sc" for sc
    proof -
      from that stored(8) scope have "sc = request_scope r" by (auto split: if_splits)
      with ident scope_validate_tenant [OF conjunct1 [OF ident]] show ?thesis by (simp add: request_scope_def)
    qed
    ultimately show thesis using same stored(5-7,9,10) by (intro that [of vt1]) simp_all
  qed simp
qed

section \<open>Properties\<close>

text \<open>
  C1. No update of a task state is lost: over any sequence of compare-and-swap attempts, by
  whatever callers and at whatever times, the sequence number of a scope grows by exactly the
  number of attempts on it that succeeded, and of two that succeeded the later one was based
  on a later sequence number, so it had seen the earlier one.
\<close>

theorem no_lost_task_update:
  assumes "store_ok vt" and "swap_all (cas_attempt env) vt attempts = (oks, vt')"
  shows "store_ok vt' \<and>
    current_sequence vt' scope = current_sequence vt scope +
      int (length (filter (\<lambda>(ok, a). ok \<and> ts_scope (snd a) = scope) (zip oks attempts))) \<and>
    (\<forall>i j. i < j \<and> j < length attempts \<and> oks ! i \<and> oks ! j \<and>
       ts_scope (snd (attempts ! i)) = ts_scope (snd (attempts ! j)) \<longrightarrow>
       ts_base_sequence (snd (attempts ! i)) < ts_base_sequence (snd (attempts ! j)))"
  using task_store.versions_count [OF assms] task_store.no_lost_update [OF assms] by simp

theorem no_lost_task_update_witness:
  "current_sequence (sample_vault [state_row sample_task_env (sample_task_state 1) 5 5]) sample_scope = 2"
proof -
  have ok: "store_ok (sample_vault [])" by (simp add: store_ok_def sample_vault_def)
  have "cas_attempt sample_task_env (sample_vault [first_row]) (5, sample_task_state 0) = (False, sample_vault [first_row])"
    by (simp add: cas_attempt_def task_state_compare_and_swap_def sample_state_ok current_sequence_def projection_def
        sample_vault_def first_row_def state_row_def u64_of_def is_ok_def)
  then have "swap_all (cas_attempt sample_task_env) (sample_vault [])
      [(5, sample_task_state 0), (5, sample_task_state 0), (5, sample_task_state 1)] =
      ([True, False, True], sample_vault [state_row sample_task_env (sample_task_state 1) 5 5])"
    by (simp add: cas_attempt_def sample_cas sample_cas_next is_ok_def split: prod.splits)
  from no_lost_task_update [OF ok this, of sample_scope] show ?thesis
    by (simp add: current_sequence_def projection_def sample_vault_def)
qed

text \<open>
  A stored state is read back as it was, the states of all other scopes read as before,
  and the same state cannot be stored a second time. The JSON decoder is assumed to read the
  text that was written for this state.
\<close>

theorem stored_state_reads_back:
  assumes "store_ok vt" and "task_state_compare_and_swap env vt now s = (Inr (), vt')"
    and "te_decode env (json_text (te_digest env) (task_state_json s)) = Some s"
  shows "task_state_get env vt' (ts_scope s) = Inr (Some s) \<and>
    (\<forall>scope. scope \<noteq> ts_scope s \<longrightarrow> task_state_get env vt' scope = task_state_get env vt scope) \<and>
    \<not> is_ok (fst (task_state_compare_and_swap env vt' later s))"
  using assms(1,2)
proof (cases rule: cas_cases)
  case (stored created)
  note seq = state_validate_sequence [OF stored(2)]
  have nonneg: "0 \<le> ts_base_sequence s"
    using stored(3) by (auto simp: current_sequence_def u64_of_def u64_max_def split: option.splits if_splits)
  note stored_state_get [OF assms]
  moreover have "task_state_get env vt' scope = task_state_get env vt scope" if "scope \<noteq> ts_scope s" for scope
    using stored(8) that by (simp add: task_state_get_def)
  moreover have "current_sequence vt' (ts_scope s) \<noteq> ts_base_sequence s"
    using stored(8) seq nonneg by (simp add: current_sequence_def state_row_def u64_of_def)
  then have "\<not> is_ok (fst (task_state_compare_and_swap env vt' later s))"
    using stored(2) by (simp add: task_state_compare_and_swap_def is_ok_def)
  ultimately show ?thesis by blast
qed simp

theorem stored_state_reads_back_witness:
  "task_state_get sample_task_env (sample_vault [first_row]) sample_scope = Inr (Some (sample_task_state 0)) \<and>
   \<not> is_ok (fst (task_state_compare_and_swap sample_task_env (sample_vault [first_row]) 9 (sample_task_state 0)))"
proof -
  have ok: "store_ok (sample_vault [])" by (simp add: store_ok_def sample_vault_def)
  have d: "te_decode sample_task_env (json_text (te_digest sample_task_env) (task_state_json (sample_task_state 0))) =
      Some (sample_task_state 0)"
    by (simp add: sample_task_env_def)
  from stored_state_reads_back [OF ok sample_cas d, of 9] show ?thesis by simp
qed

text \<open>
  C2. Evidence is governed: every reference a served state accepts or rejects names a record
  that a governed lookup gives the caller at that moment, that belongs to the caller's
  workspace or to none, was valid at the temporal anchor, and is bound to the reference by
  the digest of its body or by an active provider source of it.
\<close>

theorem served_evidence_is_governed:
  assumes "serve_project_task env vt now health recall r query limit requester ws = (Inr resp, vt')"
    and "ref \<in> set (sv_recalled_evidence resp) \<union> set (sv_rejected_evidence resp)"
  shows "\<exists>e row. get_entity_by_id_for_requester (te_gate env) (vt_gate vt) now (er_entity_id ref) (Some requester) =
        Inr (Some e) \<and>
      (ws = Some (en_workspace_hash e) \<or> en_workspace_hash e = []) \<and>
      find (\<lambda>row. row_id row = er_entity_id ref) (gd_entities (vt_gate vt)) = Some row \<and>
      \<not> outside_validity row (or_else (rq_temporal_anchor r) now) \<and> evidence_bound env vt e ref"
proof -
  obtain sources where
    p: "task_prepared env vt now r query requester ws (sv_task_state resp) sources"
    and ev: "sv_recalled_evidence resp = ts_accepted (sv_task_state resp)"
      "sv_rejected_evidence resp = ts_rejected (sv_task_state resp)"
    using assms(1) by (rule serve_Inr)
  from p show ?thesis
  proof (rule task_prepared_facts, goal_cases)
    case (1 previous sources1)
    have "\<exists>src. resolve_reference env vt now (request_scope r) (rq_temporal_anchor r) ref = Inr src"
      using assms(2) resolve_references_Inr [OF 1(12)] resolve_references_Inr [OF 1(13)] 1(3,10) by (auto simp: ev)
    moreover note request_validate_identity [OF 1(1)]
    ultimately show ?case
      using resolve_reference_Inr by (fastforce simp: request_scope_def)
  qed
qed

theorem served_evidence_is_governed_witness:
  "evidence_bound sample_task_env (sample_vault []) sample_entity sample_reference"
proof -
  have "sample_reference \<in> set (sv_recalled_evidence (sample_response 0)) \<union> set (sv_rejected_evidence (sample_response 0))"
    by (simp add: sample_response_def)
  from served_evidence_is_governed [OF sample_serve this] show ?thesis
    using sample_lookup
    by (auto simp: sample_vault_gate sample_reference_def canonical_reference_def Let_def)
      (simp_all add: sample_entity_def)
qed

text \<open>
  C29. What serving a task writes is confined. Whether it succeeds or fails, it leaves the records, the
  provider sources and the seals alone. The recall it makes may journal evidence of tampering, on records
  that have a seal, and store embeddings of stored records; it changes nothing that is in the journal already
  and removes no embedding. If serving changes the state of a scope at all then it succeeded, the scope's
  principal and agent are the caller, and its tenant and workspace are the requested ones.
\<close>

theorem serving_is_confined:
  assumes "store_ok vt"
    and "serve_project_task env vt now health recall r query limit requester ws = (res, vt')"
  shows "au_store (vt_audit vt') = au_store (vt_audit vt) \<and> vt_providers vt' = vt_providers vt \<and> vt_seals vt' = vt_seals vt \<and>
    store_ok vt' \<and>
    (\<exists>js. au_journal (vt_audit vt') = au_journal (vt_audit vt) @ js \<and>
       (\<forall>j \<in> set js. je_event_type j = ''tamper_evidence'' \<and> je_created_at j = now \<and>
          (\<exists>x \<in> set (vt_seals vt). sa_scope x = ''entity'' \<and> sa_target_id x = je_entity_id j))) \<and>
    set (vt_embedded vt) \<subseteq> set (vt_embedded vt') \<and>
    set (vt_embedded vt') - set (vt_embedded vt) \<subseteq> row_id ` set (gd_entities (vt_gate vt)) \<and>
    (projection vt' scope \<noteq> projection vt scope \<longrightarrow>
       is_ok res \<and> sc_principal_id scope = requester \<and> sc_agent_id scope = requester \<and>
       ws = Some (sc_workspace_hash scope) \<and> sc_tenant_id scope = sc_workspace_hash scope)"
proof -
  obtain vt1 where same: "recalled now vt vt1" and tables: "vt_audit vt' = vt_audit vt1" "vt_providers vt' = vt_providers vt1"
      "vt_seals vt' = vt_seals vt1" "vt_embedded vt' = vt_embedded vt1" and ok: "store_ok vt'"
    and state: "projection vt' scope \<noteq> projection vt1 scope \<Longrightarrow> is_ok res \<and> sc_principal_id scope = requester \<and>
      sc_agent_id scope = requester \<and> ws = Some (sc_workspace_hash scope) \<and> sc_tenant_id scope = sc_workspace_hash scope"
    using assms by (rule serve_effect [where scope = scope]) (rule that)
  from same obtain js where js: "au_journal (vt_audit vt1) = au_journal (vt_audit vt) @ js" "list_all (tamper_row vt now) js"
      "au_store (vt_audit vt1) = au_store (vt_audit vt)" by (auto simp: recalled_def)
  moreover have "set (vt_embedded vt) \<subseteq> set (vt_embedded vt1)"
    "set (vt_embedded vt1) - set (vt_embedded vt) \<subseteq> row_id ` set (gd_entities (vt_gate vt))" using same by (auto simp: recalled_def)
  ultimately show ?thesis
    using tables ok state recalled_same(2-4) [OF same] by (auto simp: list_all_iff tamper_row_def)
qed

theorem serving_is_confined_witness:
  "projection (sample_vault [first_row]) (sample_scope\<lparr>sc_principal_id := ''a2'', sc_agent_id := ''a2''\<rparr>) =
   projection (sample_vault []) (sample_scope\<lparr>sc_principal_id := ''a2'', sc_agent_id := ''a2''\<rparr>)"
proof -
  have ok: "store_ok (sample_vault [])" by (simp add: store_ok_def sample_vault_def)
  from serving_is_confined [OF ok sample_serve, of "sample_scope\<lparr>sc_principal_id := ''a2'', sc_agent_id := ''a2''\<rparr>"]
  show ?thesis by auto
qed

text \<open>
  The specification of a task never changes: whenever a later state of a task is served,
  the state stored before it can be read, has the same query digest, route, objective,
  temporal anchor and constraints, and the sequence number just below.
\<close>

theorem specification_is_immutable:
  assumes "store_ok vt" and "rq_base_sequence r > 0"
    and "serve_project_task env vt now health recall r query limit requester ws = (Inr resp, vt')"
  shows "\<exists>p. task_state_get env vt (request_scope r) = Inr (Some p) \<and>
    (let s = sv_task_state resp in
       ts_scope s = ts_scope p \<and> ts_task_digest s = ts_task_digest p \<and> ts_route s = ts_route p \<and>
       ts_objective s = ts_objective p \<and> ts_temporal_anchor s = ts_temporal_anchor p \<and>
       ts_constraints s = ts_constraints p \<and> ts_state_sequence s = ts_state_sequence p + 1)"
proof -
  obtain sources vt1 where
    p: "task_prepared env vt now r query requester ws (sv_task_state resp) sources" and same: "recalled now vt vt1"
    and c: "task_state_compare_and_swap env vt1 now (sv_task_state resp) = (Inr (), vt')"
    using assms(3) by (rule serve_Inr)
  have ok: "store_ok vt1" using assms(1) recalled_same(7) [OF same] by simp
  from p show ?thesis
  proof (rule task_prepared_facts, goal_cases)
    case (1 previous sources1)
    from 1(3,5) assms(2) have get: "task_state_get env vt (request_scope r) = Inr previous" by simp
    from ok c have "current_sequence vt1 (request_scope r) = rq_base_sequence r"
      by (cases rule: cas_cases) (simp_all add: 1(3,4))
    then have cur: "current_sequence vt (request_scope r) = rq_base_sequence r" using recalled_same(5) [OF same] by simp
    then obtain row where row: "projection vt (request_scope r) = Some row"
      using assms(2) by (cases "projection vt (request_scope r)") (auto simp: current_sequence_def)
    from get row obtain q where q: "previous = Some q"
      and seq: "ts_state_sequence q = u64_of (pj_state_sequence row) 0"
      by (auto simp: task_state_get_def bind_r_Inr split: if_splits)
    have "1 \<le> pj_state_sequence row"
      using row assms(1) by (auto simp: projection_def store_ok_def list_all_iff dest!: find_SomeD)
    then have "ts_state_sequence q = rq_base_sequence r"
      using cur row seq by (simp add: current_sequence_def u64_of_def)
    moreover have "ts_state_sequence (sv_task_state resp) = rq_base_sequence r + 1"
      using state_validate_sequence [OF 1(2)] 1(4) by simp
    moreover have "ensure_immutable_spec q r = Inr ()" using 1(6) q by simp
    ultimately show ?case
      using get q 1(3,7-11) by (auto simp: ensure_immutable_spec_def guard_r_Inr Let_def)
  qed
qed

theorem specification_is_immutable_witness:
  "\<exists>p. task_state_get sample_task_env (sample_vault [first_row]) sample_scope = Inr (Some p) \<and>
     ts_objective (sample_task_state 1) = ts_objective p"
proof -
  have ok: "store_ok (sample_vault [first_row])"
    by (simp add: store_ok_def sample_vault_def first_row_def state_row_def i64_max_def)
  have base: "rq_base_sequence (sample_task_request 1) > 0" by (simp add: sample_task_request_def)
  from specification_is_immutable [OF ok base sample_serve_next] show ?thesis
    by (auto simp: Let_def sample_response_def)
qed

text \<open>
  C30. A state that was just served can be rebuilt from the evidence, and the rebuild gives the
  same state: the references resolve again and both digests are the ones recorded. The JSON
  decoder is assumed to read the text that was written for this state.
\<close>

theorem served_state_rebuilds:
  assumes "store_ok vt"
    and "serve_project_task env vt now health recall r query limit requester ws = (Inr resp, vt')"
    and "te_decode env (json_text (te_digest env) (task_state_json (sv_task_state resp))) = Some (sv_task_state resp)"
  shows "rebuild_task_state env vt' now (request_scope r) = Inr (sv_task_state resp)"
proof -
  obtain sources vt1 where
    p: "task_prepared env vt now r query requester ws (sv_task_state resp) sources" and rec: "recalled now vt vt1"
    and c: "task_state_compare_and_swap env vt1 now (sv_task_state resp) = (Inr (), vt')"
    using assms(2) by (rule serve_Inr)
  have ok: "store_ok vt1" using assms(1) recalled_same(7) [OF rec] by simp
  from ok c have "vt_audit vt' = vt_audit vt1" "vt_providers vt' = vt_providers vt1"
    by (cases rule: cas_cases; simp)+
  then have same: "vt_gate vt' = vt_gate vt" "vt_providers vt' = vt_providers vt"
    using recalled_same(1,2) [OF rec] by (simp_all add: vt_gate_def)
  from p show ?thesis
  proof (rule task_prepared_facts, goal_cases)
    case (1 previous sources1)
    have "task_state_get env vt' (request_scope r) = Inr (Some (sv_task_state resp))"
      using stored_state_get [OF ok c assms(3)] 1(3) by simp
    moreover have "scope_validate (request_scope r) = Inr ()"
      using request_validate_identity [OF 1(1)] by simp
    ultimately show ?case
      using 1(2,3,12-15) by (simp add: rebuild_task_state_def resolve_references_same [OF same])
  qed
qed

theorem served_state_rebuilds_witness:
  "rebuild_task_state sample_task_env (sample_vault [first_row]) 5 sample_scope = Inr (sample_task_state 0)"
proof -
  have ok: "store_ok (sample_vault [])" by (simp add: store_ok_def sample_vault_def)
  have d: "te_decode sample_task_env (json_text (te_digest sample_task_env) (task_state_json (sv_task_state (sample_response 0)))) =
      Some (sv_task_state (sample_response 0))"
    by (simp add: sample_task_env_def sample_response_def)
  from served_state_rebuilds [OF ok sample_serve d] show ?thesis by (simp add: sample_response_def)
qed

text \<open>
  An answer is called complete only when it is: a served state with outcome complete has
  accepted evidence, and no rejected, unresolved, missing or conflicting evidence; every other
  outcome carries a fallback with a reason, and an answer without accepted evidence is never
  complete or partial.
\<close>

theorem complete_means_complete:
  assumes "serve_project_task env vt now health recall r query limit requester ws = (Inr resp, vt')"
  shows "(sv_outcome resp = Complete \<longrightarrow> sv_recalled_evidence resp \<noteq> [] \<and> sv_rejected_evidence resp = [] \<and>
      ts_unresolved (sv_task_state resp) = [] \<and> ts_missing (sv_task_state resp) = [] \<and>
      ts_conflicts (sv_task_state resp) = []) \<and>
    (sv_fallback resp = None \<longleftrightarrow> sv_outcome resp = Complete) \<and>
    (sv_recalled_evidence resp = [] \<longrightarrow> sv_outcome resp \<in> {Abstained, Degraded, Unavailable})"
proof -
  obtain sources where
    p: "task_prepared env vt now r query requester ws (sv_task_state resp) sources"
    and f: "sv_outcome resp = ts_outcome (sv_task_state resp)"
      "sv_recalled_evidence resp = ts_accepted (sv_task_state resp)"
      "sv_rejected_evidence resp = ts_rejected (sv_task_state resp)"
      "sv_fallback resp = fallback_for (ts_outcome (sv_task_state resp))"
    using assms by (rule serve_Inr)
  obtain ro where "ts_outcome (sv_task_state resp) = derive_outcome (length (ts_accepted (sv_task_state resp)))
      (length (ts_rejected (sv_task_state resp))) (length (ts_unresolved (sv_task_state resp)))
      (length (ts_conflicts (sv_task_state resp))) (length (ts_missing (sv_task_state resp))) ro"
    using p by (auto elim: task_prepared_facts)
  note outcome = derive_outcome_complete [OF this [symmetric]]
  show ?thesis unfolding f using outcome
    by (cases "ts_outcome (sv_task_state resp)") simp_all
qed

theorem complete_means_complete_witness:
  "sv_fallback (sample_response 0) = None \<and> sv_recalled_evidence (sample_response 0) \<noteq> []"
  using complete_means_complete [OF sample_serve] by (simp add: sample_response_def)

end
