(* ===== verification/Evidence_Sufficiency.thy ===== *)
theory Evidence_Sufficiency
  imports Temporal_Store Recall_Outcome
begin

text \<open>
  The contract of \<open>src/src/evidence_sufficiency.rs\<close>: a task declares the evidence it needs, the
  server looks every declared record up through the governed reads, and the evaluator turns
  coverage, staleness, conflicts and the verdict on the recall into one outcome with counts,
  reasons and a receipt. Sets of ids are lists; a \<open>BTreeSet\<close> or \<open>BTreeMap\<close> is read in the order
  of its keys. Names that another component also uses carry the prefix \<open>suff\<close>.
\<close>

section \<open>Requirements\<close>

definition EVIDENCE_SUFFICIENCY_SCHEMA_VERSION :: string where
  "EVIDENCE_SUFFICIENCY_SCHEMA_VERSION = ''perseus-vault-evidence-sufficiency/v1''"

definition MAX_REQUIRED_EVIDENCE :: nat where "MAX_REQUIRED_EVIDENCE = 256"
definition MAX_SOURCE_GROUPS :: nat where "MAX_SOURCE_GROUPS = 128"
definition suff_MAX_CONFLICTS :: nat where "suff_MAX_CONFLICTS = 128"
definition MAX_IDENTIFIER_CHARS :: nat where "MAX_IDENTIFIER_CHARS = 128"

datatype sufficiency_outcome = SComplete | SPartial | SDegraded | SAbstained | SUnavailable

fun sufficiency_str :: "sufficiency_outcome \<Rightarrow> string" where
  "sufficiency_str SComplete = ''complete''"
| "sufficiency_str SPartial = ''partial''"
| "sufficiency_str SDegraded = ''degraded''"
| "sufficiency_str SAbstained = ''abstained''"
| "sufficiency_str SUnavailable = ''unavailable''"

datatype fallback_policy = PAbstain | PCanonicalRetrieval

fun policy_str :: "fallback_policy \<Rightarrow> string" where
  "policy_str PAbstain = ''abstain''"
| "policy_str PCanonicalRetrieval = ''canonical_retrieval''"

record source_group =
  sg_group_id :: string
  sg_evidence_ids :: "string list"

record conflict_requirement =
  cr_conflict_id :: string
  cr_evidence_ids :: "string list"

record requirement_set =
  rs_schema_version :: string
  rs_required :: "string list"
  rs_latest :: "string list"
  rs_temporal :: "string list"
  rs_groups :: "source_group list"
  rs_conflicts :: "conflict_requirement list"
  rs_anchor :: "int option"
  rs_policy :: fallback_policy

definition opaque_byte :: "char \<Rightarrow> bool" where
  "opaque_byte c \<longleftrightarrow> is_ascii_alphanumeric (of_char c) \<or> c \<in> set ''._:/-''"

definition opaque_id :: "string \<Rightarrow> bool" where
  "opaque_id v \<longleftrightarrow> v \<noteq> [] \<and> length v \<le> MAX_IDENTIFIER_CHARS \<and>
     is_ascii_alphanumeric (of_char (hd v)) \<and> list_all opaque_byte (tl v)"

definition suff_validate_identifier :: "string \<Rightarrow> string \<Rightarrow> unit result" where
  "suff_validate_identifier label v =
     (if opaque_id v then Inr () else Inl (label @ '' must be a bounded opaque identifier''))"

definition validate_unique_ids :: "string \<Rightarrow> string list \<Rightarrow> string list result" where
  "validate_unique_ids label ids =
     unique_loop (\<lambda>i v. suff_validate_identifier (index_label label i) v) (\<lambda>v. v)
       (\<lambda>v. label @ '' contains duplicate ID '' @ quoted v) 0 [] ids"

definition validate_subset :: "string \<Rightarrow> string list \<Rightarrow> string list \<Rightarrow> unit result" where
  "validate_subset label ids parent =
     bind_r (validate_unique_ids label ids) (\<lambda>seen.
       case find (\<lambda>v. v \<notin> set parent) (sort seen) of
         Some v \<Rightarrow> Inl (label @ '' contains ID outside required_evidence: '' @ quoted v)
       | None \<Rightarrow> Inr ())"

text \<open>The two loops check their entries after the id was found new.\<close>

fun group_loop :: "string list \<Rightarrow> nat \<Rightarrow> string list \<Rightarrow> source_group list \<Rightarrow> unit result" where
  "group_loop required i seen [] = Inr ()"
| "group_loop required i seen (g # gs) =
     bind_r (suff_validate_identifier (index_label ''required_source_groups'' i @ ''.group_id'') (sg_group_id g)) (\<lambda>_.
     bind_r (guard_r (sg_group_id g \<in> set seen)
       (''required_source_groups contains duplicate group_id '' @ quoted (sg_group_id g))) (\<lambda>_.
     bind_r (guard_r (sg_evidence_ids g = [])
       (index_label ''required_source_groups'' i @ ''.evidence_ids must not be empty'')) (\<lambda>_.
     bind_r (validate_subset (index_label ''required_source_groups'' i @ ''.evidence_ids'') (sg_evidence_ids g) required) (\<lambda>_.
       group_loop required (Suc i) (sg_group_id g # seen) gs))))"

fun conflict_loop :: "string list \<Rightarrow> nat \<Rightarrow> string list \<Rightarrow> conflict_requirement list \<Rightarrow> unit result" where
  "conflict_loop required i seen [] = Inr ()"
| "conflict_loop required i seen (c # cs) =
     bind_r (suff_validate_identifier (index_label ''conflicts'' i @ ''.conflict_id'') (cr_conflict_id c)) (\<lambda>_.
     bind_r (guard_r (cr_conflict_id c \<in> set seen)
       (''conflicts contains duplicate conflict_id '' @ quoted (cr_conflict_id c))) (\<lambda>_.
     bind_r (guard_r (length (cr_evidence_ids c) < 2)
       (index_label ''conflicts'' i @ ''.evidence_ids must contain at least two IDs'')) (\<lambda>_.
     bind_r (validate_subset (index_label ''conflicts'' i @ ''.evidence_ids'') (cr_evidence_ids c) required) (\<lambda>_.
       conflict_loop required (Suc i) (cr_conflict_id c # seen) cs))))"

definition requirements_validate :: "requirement_set \<Rightarrow> unit result" where
  "requirements_validate rs =
     bind_r (guard_r (rs_schema_version rs \<noteq> EVIDENCE_SUFFICIENCY_SCHEMA_VERSION)
       (''unsupported evidence sufficiency schema_version '' @ quoted (rs_schema_version rs) @ ''; expected '' @
        EVIDENCE_SUFFICIENCY_SCHEMA_VERSION)) (\<lambda>_.
     bind_r (guard_r (rs_required rs = []) ''required_evidence must contain at least one evidence ID'') (\<lambda>_.
     bind_r (guard_r (length (rs_required rs) > MAX_REQUIRED_EVIDENCE)
       (''required_evidence may contain at most '' @ show_nat MAX_REQUIRED_EVIDENCE @ '' entries'')) (\<lambda>_.
     bind_r (validate_unique_ids ''required_evidence'' (rs_required rs)) (\<lambda>required.
     bind_r (validate_subset ''latest_evidence'' (rs_latest rs) required) (\<lambda>_.
     bind_r (validate_subset ''temporal_anchors'' (rs_temporal rs) required) (\<lambda>_.
     bind_r (guard_r (case rs_anchor rs of None \<Rightarrow> False | Some a \<Rightarrow> a < 0)
       ''temporal_anchor_unix_ms must be non-negative'') (\<lambda>_.
     bind_r (guard_r (length (rs_groups rs) > MAX_SOURCE_GROUPS)
       (''required_source_groups may contain at most '' @ show_nat MAX_SOURCE_GROUPS @ '' entries'')) (\<lambda>_.
     bind_r (group_loop required 0 [] (rs_groups rs)) (\<lambda>_.
     bind_r (guard_r (length (rs_conflicts rs) > suff_MAX_CONFLICTS)
       (''conflicts may contain at most '' @ show_nat suff_MAX_CONFLICTS @ '' entries'')) (\<lambda>_.
       conflict_loop required 0 [] (rs_conflicts rs)))))))))))"

definition str_array :: "string list \<Rightarrow> json" where
  "str_array xs = JArr (map JStr xs)"

definition requirements_json :: "requirement_set \<Rightarrow> json" where
  "requirements_json rs = JObj
     [(''schema_version'', JStr (rs_schema_version rs)), (''required_evidence'', str_array (rs_required rs)),
      (''latest_evidence'', str_array (rs_latest rs)), (''temporal_anchors'', str_array (rs_temporal rs)),
      (''required_source_groups'', JArr (map (\<lambda>g. JObj [(''group_id'', JStr (sg_group_id g)),
         (''evidence_ids'', str_array (sg_evidence_ids g))]) (rs_groups rs))),
      (''conflicts'', JArr (map (\<lambda>c. JObj [(''conflict_id'', JStr (cr_conflict_id c)),
         (''evidence_ids'', str_array (cr_evidence_ids c))]) (rs_conflicts rs))),
      (''temporal_anchor_unix_ms'', (case rs_anchor rs of None \<Rightarrow> JNull | Some a \<Rightarrow> JInt a)),
      (''fallback_policy'', JStr (policy_str (rs_policy rs)))]"

definition canonical_json :: "digest_env \<Rightarrow> json \<Rightarrow> string" where
  "canonical_json env v = json_text env (canonical_value v)"

definition requirements_digest :: "digest_env \<Rightarrow> requirement_set \<Rightarrow> string result" where
  "requirements_digest env rs =
     bind_r (requirements_validate rs) (\<lambda>_. Inr (sha256_hex env (canonical_json env (requirements_json rs))))"

section \<open>Reports\<close>

record evidence_candidate =
  ec_id :: string
  ec_selected :: bool
  ec_available :: bool
  ec_stale :: bool
  ec_temporal_valid :: bool
  ec_budget_omitted :: bool

record coverage_counts =
  cv_required :: nat
  cv_selected :: nat
  cv_missing :: nat

record sufficiency_counts =
  ct_required :: nat
  ct_selected :: nat
  ct_omitted :: nat
  ct_stale :: nat
  ct_conflicting :: nat
  ct_unavailable :: nat
  ct_red_herring :: nat

text \<open>A reason with its count is a pair.\<close>

record sufficiency_conflict =
  sx_conflict_id_sha256 :: string
  sx_reference_count :: nat
  sx_reference_digests :: "string list"
  sx_references_sha256 :: string
  sx_reason :: string

record sufficiency_receipt =
  rc_schema_version :: string
  rc_query_sha256 :: string
  rc_requirement_sha256 :: string
  rc_candidate_set_sha256 :: "string option"
  rc_selected_set_sha256 :: "string option"
  rc_omitted_set_sha256 :: "string option"
  rc_reasons :: "(string \<times> nat) list"
  rc_digest :: string

record sufficiency_report =
  rp_schema_version :: string
  rp_outcome :: sufficiency_outcome
  rp_counts :: sufficiency_counts
  rp_latest :: coverage_counts
  rp_temporal :: coverage_counts
  rp_groups :: coverage_counts
  rp_recall_status :: string
  rp_policy :: fallback_policy
  rp_reason_codes :: "string list"
  rp_fallback :: "(string \<times> string) option"
  rp_excluded :: "(string \<times> nat) list"
  rp_conflicts :: "sufficiency_conflict list"
  rp_receipt :: sufficiency_receipt

text \<open>\<open>is_sha256\<close> compares with \<open>to_ascii_lowercase\<close>, which changes no digit exactly when none is
  an upper-case letter.\<close>

definition is_sha256 :: "string \<Rightarrow> bool" where
  "is_sha256 v \<longleftrightarrow> lower_hex64 v"

definition opt_str :: "string option \<Rightarrow> json" where
  "opt_str x = (case x of None \<Rightarrow> JNull | Some s \<Rightarrow> JStr s)"

definition receipt_digest :: "digest_env \<Rightarrow> sufficiency_receipt \<Rightarrow> string" where
  "receipt_digest env r = sha256_hex env (canonical_json env (JObj
     [(''schema_version'', JStr (rc_schema_version r)), (''query_sha256'', JStr (rc_query_sha256 r)),
      (''requirement_sha256'', JStr (rc_requirement_sha256 r)),
      (''candidate_set_sha256'', opt_str (rc_candidate_set_sha256 r)),
      (''selected_set_sha256'', opt_str (rc_selected_set_sha256 r)),
      (''omitted_set_sha256'', opt_str (rc_omitted_set_sha256 r)),
      (''reasons'', JArr (map (\<lambda>(r, n). JObj [(''reason'', JStr r), (''count'', JInt (int n))]) (rc_reasons r)))]))"

definition receipt_verify :: "digest_env \<Rightarrow> sufficiency_receipt \<Rightarrow> bool" where
  "receipt_verify env r \<longleftrightarrow> is_sha256 (rc_digest r) \<and> rc_digest r = receipt_digest env r"

definition coverage_ok :: "coverage_counts \<Rightarrow> bool" where
  "coverage_ok c \<longleftrightarrow> cv_selected c \<le> cv_required c \<and> cv_missing c = cv_required c - cv_selected c"

definition conflict_ok :: "sufficiency_conflict \<Rightarrow> bool" where
  "conflict_ok c \<longleftrightarrow> is_sha256 (sx_conflict_id_sha256 c) \<and> is_sha256 (sx_references_sha256 c) \<and>
     sx_reference_count c \<ge> 2 \<and> length (sx_reference_digests c) = sx_reference_count c \<and>
     list_all is_sha256 (sx_reference_digests c) \<and> sx_reason c \<noteq> []"

fun exclusion_loop :: "(string \<times> nat) list \<Rightarrow> unit result" where
  "exclusion_loop [] = Inr ()"
| "exclusion_loop ((reason, n) # xs) =
     (if reason = [] \<or> length reason > MAX_IDENTIFIER_CHARS then Inl ''sufficiency exclusion reason is invalid''
      else if n = 0 then Inl ''sufficiency exclusion count must be positive''
      else exclusion_loop xs)"

definition report_validate :: "digest_env \<Rightarrow> sufficiency_report \<Rightarrow> unit result" where
  "report_validate env r = check_all
     [guard_r (rp_schema_version r \<noteq> EVIDENCE_SUFFICIENCY_SCHEMA_VERSION)
        ''unsupported evidence sufficiency report schema_version'',
      guard_r (ct_selected (rp_counts r) > ct_required (rp_counts r))
        ''sufficiency selected count exceeds required count'',
      guard_r (ct_omitted (rp_counts r) \<noteq> ct_required (rp_counts r) - ct_selected (rp_counts r))
        ''sufficiency omitted count does not match required coverage'',
      guard_r (\<not> list_all coverage_ok [rp_latest r, rp_temporal r, rp_groups r])
        ''sufficiency coverage counts are inconsistent'',
      guard_r (\<not> receipt_verify env (rp_receipt r)) ''sufficiency receipt digest is invalid'',
      exclusion_loop (rp_excluded r),
      guard_r (\<not> list_all conflict_ok (rp_conflicts r)) ''sufficiency conflict metadata is invalid'']"

section \<open>Evaluation\<close>

definition coverage :: "string list \<Rightarrow> (string \<Rightarrow> bool) \<Rightarrow> coverage_counts" where
  "coverage ids selected =
     (let n = length (filter selected ids)
      in \<lparr>cv_required = length ids, cv_selected = n, cv_missing = length ids - n\<rparr>)"

definition hash_optional_set :: "digest_env \<Rightarrow> string list \<Rightarrow> string option" where
  "hash_optional_set env ids = (if ids = [] then None else Some (sha256_hex env (canonical_json env (str_array ids))))"

definition make_receipt ::
    "digest_env \<Rightarrow> string \<Rightarrow> requirement_set \<Rightarrow> string list \<Rightarrow> string list \<Rightarrow> string list \<Rightarrow> (string \<times> nat) list \<Rightarrow>
      sufficiency_receipt result" where
  "make_receipt env query rs candidates selected omitted reasons =
     bind_r (requirements_digest env rs) (\<lambda>digest.
       let r = \<lparr>rc_schema_version = EVIDENCE_SUFFICIENCY_SCHEMA_VERSION, rc_query_sha256 = sha256_hex env query,
             rc_requirement_sha256 = digest, rc_candidate_set_sha256 = hash_optional_set env (sort candidates),
             rc_selected_set_sha256 = hash_optional_set env (sort selected),
             rc_omitted_set_sha256 = hash_optional_set env (sort omitted), rc_reasons = reasons, rc_digest = []\<rparr>
       in Inr (r\<lparr>rc_digest := receipt_digest env r\<rparr>))"

definition suff_conflict_summary :: "digest_env \<Rightarrow> conflict_requirement \<Rightarrow> sufficiency_conflict" where
  "suff_conflict_summary env c =
     (let references = dedup_adj (sort (cr_evidence_ids c))
      in \<lparr>sx_conflict_id_sha256 = sha256_hex env (cr_conflict_id c), sx_reference_count = length references,
          sx_reference_digests = map (sha256_hex env) references,
          sx_references_sha256 = sha256_hex env (canonical_json env (str_array references)),
          sx_reason = ''unresolved_conflict''\<rparr>)"

definition candidate_for :: "evidence_candidate list \<Rightarrow> string \<Rightarrow> evidence_candidate option" where
  "candidate_for cs i = find (\<lambda>c. ec_id c = i) cs"

definition has :: "evidence_candidate list \<Rightarrow> string \<Rightarrow> (evidence_candidate \<Rightarrow> bool) \<Rightarrow> bool" where
  "has cs i P = (case candidate_for cs i of None \<Rightarrow> False | Some c \<Rightarrow> P c)"

definition selected_for :: "evidence_candidate list \<Rightarrow> string \<Rightarrow> bool" where
  "selected_for cs i = has cs i (\<lambda>c. ec_selected c \<and> ec_available c \<and> \<not> ec_stale c)"

fun recall_str :: "recall_status \<Rightarrow> string" where
  "recall_str RFresh = ''fresh''"
| "recall_str RPartial = ''partial''"
| "recall_str RTimeout = ''timeout''"
| "recall_str RUnavailable = ''unavailable''"
| "recall_str REmpty = ''empty''"
| "recall_str RStale = ''stale''"

text \<open>The counts of the evaluator, in the order the code takes them.\<close>

definition count_required :: "requirement_set \<Rightarrow> (string \<Rightarrow> bool) \<Rightarrow> nat" where
  "count_required rs P = length (filter P (rs_required rs))"

definition stale_count :: "requirement_set \<Rightarrow> evidence_candidate list \<Rightarrow> nat" where
  "stale_count rs cs = count_required rs (\<lambda>i. has cs i ec_stale)"

definition unavailable_count :: "requirement_set \<Rightarrow> evidence_candidate list \<Rightarrow> nat" where
  "unavailable_count rs cs =
     count_required rs (\<lambda>i. case candidate_for cs i of None \<Rightarrow> True | Some c \<Rightarrow> \<not> ec_available c)"

definition budget_drops :: "requirement_set \<Rightarrow> evidence_candidate list \<Rightarrow> nat" where
  "budget_drops rs cs = count_required rs (\<lambda>i. has cs i (\<lambda>c.
     ec_budget_omitted c \<and> ec_available c \<and> \<not> ec_stale c \<and> \<not> selected_for cs i))"

definition coverage_drops :: "requirement_set \<Rightarrow> evidence_candidate list \<Rightarrow> nat" where
  "coverage_drops rs cs = count_required rs (\<lambda>i. has cs i (\<lambda>c.
     ec_available c \<and> \<not> ec_stale c \<and> \<not> ec_budget_omitted c \<and> \<not> selected_for cs i))"

definition red_herrings :: "requirement_set \<Rightarrow> evidence_candidate list \<Rightarrow> nat" where
  "red_herrings rs cs = length (filter (\<lambda>c. ec_selected c \<and> ec_id c \<notin> set (rs_required rs)) cs)"

definition latest_coverage :: "requirement_set \<Rightarrow> evidence_candidate list \<Rightarrow> coverage_counts" where
  "latest_coverage rs cs = coverage (rs_latest rs) (selected_for cs)"

definition temporal_coverage :: "requirement_set \<Rightarrow> evidence_candidate list \<Rightarrow> coverage_counts" where
  "temporal_coverage rs cs =
     coverage (rs_temporal rs) (\<lambda>i. has cs i (\<lambda>c. selected_for cs i \<and> ec_temporal_valid c))"

definition group_coverage :: "requirement_set \<Rightarrow> evidence_candidate list \<Rightarrow> coverage_counts" where
  "group_coverage rs cs = coverage (map sg_group_id (rs_groups rs)) (\<lambda>g.
     case find (\<lambda>x. sg_group_id x = g) (rs_groups rs) of
       None \<Rightarrow> False
     | Some x \<Rightarrow> list_ex (selected_for cs) (sg_evidence_ids x))"

definition active_conflicts :: "requirement_set \<Rightarrow> evidence_candidate list \<Rightarrow> conflict_requirement list" where
  "active_conflicts rs cs = filter (\<lambda>c. list_ex (selected_for cs) (cr_evidence_ids c)) (rs_conflicts rs)"

text \<open>An entry is made only for a positive count; the map of the reasons is read by key.\<close>

definition entry :: "string \<Rightarrow> nat \<Rightarrow> (string \<times> nat) list" where
  "entry reason n = (if n > 0 then [(reason, n)] else [])"

fun recall_reason :: "recall_status \<Rightarrow> (string \<times> nat) list" where
  "recall_reason RPartial = [(''recall_partial'', 1)]"
| "recall_reason RTimeout = [(''recall_timeout'', 1)]"
| "recall_reason RStale = [(''recall_stale'', 1)]"
| "recall_reason RUnavailable = [(''recall_unavailable'', 1)]"
| "recall_reason RFresh = []"
| "recall_reason REmpty = []"

definition reason_counts :: "requirement_set \<Rightarrow> evidence_candidate list \<Rightarrow> recall_status \<Rightarrow> (string \<times> nat) list" where
  "reason_counts rs cs status = sort_key fst (
     entry ''missing_required'' (count_required rs (\<lambda>i. \<not> selected_for cs i)) @
     entry ''missing_latest_version'' (cv_missing (latest_coverage rs cs)) @
     entry (if rs_anchor rs = None then ''missing_temporal_anchor'' else ''missing_temporal_evidence'')
       (cv_missing (temporal_coverage rs cs)) @
     entry ''missing_source_group'' (cv_missing (group_coverage rs cs)) @
     entry ''stale_evidence'' (stale_count rs cs) @
     entry ''unavailable_evidence'' (unavailable_count rs cs) @
     entry ''conflicting_evidence'' (length (active_conflicts rs cs)) @
     entry ''dropped_budget'' (budget_drops rs cs) @
     entry ''dropped_coverage'' (coverage_drops rs cs) @
     entry ''red_herring_ignored'' (red_herrings rs cs) @
     recall_reason status)"

definition coverage_gap :: "requirement_set \<Rightarrow> evidence_candidate list \<Rightarrow> bool" where
  "coverage_gap rs cs \<longleftrightarrow> count_required rs (\<lambda>i. \<not> selected_for cs i) \<noteq> 0 \<or>
     cv_missing (latest_coverage rs cs) \<noteq> 0 \<or> cv_missing (temporal_coverage rs cs) \<noteq> 0 \<or>
     cv_missing (group_coverage rs cs) \<noteq> 0"

definition decide_outcome :: "requirement_set \<Rightarrow> evidence_candidate list \<Rightarrow> recall_status \<Rightarrow> sufficiency_outcome" where
  "decide_outcome rs cs status =
     (if length (active_conflicts rs cs) > 0 then SAbstained
      else if unavailable_count rs cs > 0 \<or> status = RUnavailable then SUnavailable
      else if coverage_gap rs cs then (case rs_policy rs of PAbstain \<Rightarrow> SAbstained | PCanonicalRetrieval \<Rightarrow> SPartial)
      else if status = RPartial \<or> status = RTimeout \<or> status = RStale then SDegraded
      else SComplete)"

fun join_comma :: "string list \<Rightarrow> string" where
  "join_comma [] = []"
| "join_comma [s] = s"
| "join_comma (s # t # ss) = s @ '','' @ join_comma (t # ss)"

definition suff_fallback :: "fallback_policy \<Rightarrow> sufficiency_outcome \<Rightarrow> string list \<Rightarrow> (string \<times> string) option" where
  "suff_fallback policy outcome reason_codes =
     (if outcome \<noteq> SComplete
      then Some (policy_str policy, if reason_codes = [] then sufficiency_str outcome else join_comma reason_codes)
      else None)"

definition build_report ::
    "digest_env \<Rightarrow> requirement_set \<Rightarrow> evidence_candidate list \<Rightarrow> recall_status \<Rightarrow> sufficiency_receipt \<Rightarrow> sufficiency_report" where
  "build_report env rs cs status receipt =
     \<lparr>rp_schema_version = EVIDENCE_SUFFICIENCY_SCHEMA_VERSION, rp_outcome = decide_outcome rs cs status,
      rp_counts = \<lparr>ct_required = length (rs_required rs), ct_selected = count_required rs (selected_for cs),
        ct_omitted = count_required rs (\<lambda>i. \<not> selected_for cs i), ct_stale = stale_count rs cs,
        ct_conflicting = length (active_conflicts rs cs), ct_unavailable = unavailable_count rs cs,
        ct_red_herring = red_herrings rs cs\<rparr>,
      rp_latest = latest_coverage rs cs, rp_temporal = temporal_coverage rs cs, rp_groups = group_coverage rs cs,
      rp_recall_status = recall_str status, rp_policy = rs_policy rs,
      rp_reason_codes = map fst (reason_counts rs cs status),
      rp_fallback = suff_fallback (rs_policy rs) (decide_outcome rs cs status) (map fst (reason_counts rs cs status)),
      rp_excluded = reason_counts rs cs status,
      rp_conflicts = map (suff_conflict_summary env) (active_conflicts rs cs), rp_receipt = receipt\<rparr>"

definition sufficiency_evaluate ::
    "digest_env \<Rightarrow> requirement_set \<Rightarrow> evidence_candidate list \<Rightarrow> recall_outcome \<Rightarrow> string \<Rightarrow> sufficiency_report result" where
  "sufficiency_evaluate env rs cs recall query =
     bind_r (requirements_validate rs) (\<lambda>_.
     bind_r (unique_loop (\<lambda>_ c. suff_validate_identifier ''candidate evidence_id'' (ec_id c)) ec_id
       (\<lambda>c. ''candidate evidence_id '' @ quoted (ec_id c) @ '' appears more than once'') 0 [] cs) (\<lambda>by_id.
     bind_r (make_receipt env query rs by_id (filter (selected_for cs) (rs_required rs))
       (filter (\<lambda>i. \<not> selected_for cs i) (rs_required rs)) (reason_counts rs cs (ro_status recall))) (\<lambda>receipt.
     let report = build_report env rs cs (ro_status recall) receipt
     in bind_r (report_validate env report) (\<lambda>_. Inr report))))"

section \<open>Against the store\<close>

definition scope_allows :: "string \<Rightarrow> string option \<Rightarrow> bool" where
  "scope_allows source_workspace requested =
     (case requested of
        None \<Rightarrow> True
      | Some w \<Rightarrow> if w = [] then source_workspace = [] else source_workspace = [] \<or> source_workspace = w)"

definition expired_by :: "gate_env \<Rightarrow> string \<Rightarrow> int \<Rightarrow> bool" where
  "expired_by env body t = (case entity_expiry_ms env body of None \<Rightarrow> False | Some x \<Rightarrow> x \<le> t)"

definition temporal_ok ::
    "gate_env \<Rightarrow> temporal_db \<Rightarrow> int \<Rightarrow> entity \<Rightarrow> int option \<Rightarrow> string option \<Rightarrow> string option \<Rightarrow> bool result" where
  "temporal_ok env td now e anchor workspace who =
     (case anchor of
        None \<Rightarrow> Inr False
      | Some a \<Rightarrow>
          (case resolve_temporal_versions env td now [e] (Some a) None of
             Inl err \<Rightarrow> Inl (''sufficiency temporal lookup failed: '' @ gate_error_text err)
           | Inr [] \<Rightarrow> Inr False
           | Inr (v # _) \<Rightarrow> Inr (scope_allows (en_workspace_hash v) workspace \<and>
               requester_can_read (gate_of td) who (en_visibility v) (en_agent_id v) \<and> \<not> en_archived v \<and>
               en_status v \<notin> set [''deprecated'', ''expired'', ''redacted'', ''quarantined'', ''compacted''] \<and>
               \<not> expired_by env (en_body_json v) a)))"

text \<open>Availability, staleness and temporal validity of one declared record.\<close>

definition requirement_state ::
    "gate_env \<Rightarrow> temporal_db \<Rightarrow> int \<Rightarrow> requirement_set \<Rightarrow> string option \<Rightarrow> string option \<Rightarrow> string \<Rightarrow> (bool \<times> bool \<times> bool) result" where
  "requirement_state env td now rs workspace who i =
     (case get_entity_by_id_raw env (gate_of td) i of
        Inl err \<Rightarrow> Inl (''sufficiency evidence lookup failed: '' @ gate_error_text err)
      | Inr None \<Rightarrow> Inr (False, False, False)
      | Inr (Some e) \<Rightarrow>
          let in_scope = scope_allows (en_workspace_hash e) workspace;
              allowed = requester_can_read (gate_of td) who (en_visibility e) (en_agent_id e);
              terminal = (en_status e = ''deprecated'' \<or> en_status e = ''expired'')
          in (case get_entity_by_id_for_requester env (gate_of td) now i who of
                Inl err \<Rightarrow> Inl (''sufficiency visibility lookup failed: '' @ gate_error_text err)
              | Inr served \<Rightarrow>
                  if in_scope \<and> allowed \<and> (served \<noteq> None \<or> terminal) then
                    let (available, stale) =
                      (if en_status e = ''redacted'' \<or> en_status e = ''quarantined'' \<or> en_status e = ''compacted''
                       then (False, False)
                       else if en_archived e then (False, False)
                       else if terminal then (True, True)
                       else (True, expired_by env (en_body_json e) now))
                    in bind_r (temporal_ok env td now e (rs_anchor rs) workspace who) (\<lambda>valid.
                         Inr (available, stale, valid))
                  else Inr (False, False, False)))"

definition required_candidate :: "string list \<Rightarrow> string list \<Rightarrow> string \<Rightarrow> bool \<times> bool \<times> bool \<Rightarrow> evidence_candidate" where
  "required_candidate candidate_ids delivered_ids i st =
     (case st of (available, stale, valid) \<Rightarrow>
        \<lparr>ec_id = i, ec_selected = (available \<and> \<not> stale \<and> i \<in> set delivered_ids), ec_available = available,
         ec_stale = stale, ec_temporal_valid = valid,
         ec_budget_omitted = (available \<and> \<not> stale \<and> i \<in> set candidate_ids \<and> i \<notin> set delivered_ids)\<rparr>)"

definition extra_candidate :: "string list \<Rightarrow> string \<Rightarrow> evidence_candidate" where
  "extra_candidate delivered_ids i = \<lparr>ec_id = i, ec_selected = (i \<in> set delivered_ids), ec_available = True,
     ec_stale = False, ec_temporal_valid = False, ec_budget_omitted = False\<rparr>"

definition evaluate_context_requirements ::
    "gate_env \<Rightarrow> temporal_db \<Rightarrow> int \<Rightarrow> requirement_set \<Rightarrow> string list \<Rightarrow> string list \<Rightarrow> string \<Rightarrow> string option \<Rightarrow>
      string option \<Rightarrow> recall_outcome \<Rightarrow> sufficiency_report result" where
  "evaluate_context_requirements env td now rs candidate_ids delivered_ids query workspace who recall =
     bind_r (requirements_validate rs) (\<lambda>_.
     bind_r (map_r (requirement_state env td now rs workspace who) (rs_required rs)) (\<lambda>states.
       let declared = map2 (required_candidate candidate_ids delivered_ids) (rs_required rs) states;
           extra = map (extra_candidate delivered_ids)
             (filter (\<lambda>i. i \<notin> set (rs_required rs)) (sort (remdups candidate_ids)))
       in sufficiency_evaluate (ge_digest env) rs (declared @ extra) recall query))"

end
