(* ===== verification/Sufficiency_Guarantees.thy ===== *)
theory Sufficiency_Guarantees
  imports Evidence_Sufficiency Temporal_Guarantees
begin

text \<open>
  What the sufficiency contract promises: which requirement sets and candidate lists the evaluator
  accepts, that it never rejects a report it built itself, the exact condition for the outcome
  \<open>complete\<close>, and, with the governed reads underneath, what a complete report says of the store.
\<close>

section \<open>What validation accepts\<close>

lemma suff_validate_identifier_Inr [result_simps]: "suff_validate_identifier label v = Inr u \<longleftrightarrow> opaque_id v"
  by (simp add: suff_validate_identifier_def)

lemma validate_unique_ids_Inr [result_simps]:
  "validate_unique_ids label ids = Inr ks \<longleftrightarrow> list_all opaque_id ids \<and> distinct ids \<and> ks = rev ids"
  by (auto simp: validate_unique_ids_def unique_loop_Inr suff_validate_identifier_Inr list_all_length)

lemma validate_subset_Inr [result_simps]:
  "validate_subset label ids parent = Inr u \<longleftrightarrow> list_all opaque_id ids \<and> distinct ids \<and> set ids \<subseteq> set parent"
  by (auto simp: validate_subset_def result_simps find_None_iff split: option.splits dest!: find_SomeD)

definition group_ok :: "string list \<Rightarrow> source_group \<Rightarrow> bool" where
  "group_ok required g \<longleftrightarrow> opaque_id (sg_group_id g) \<and> sg_evidence_ids g \<noteq> [] \<and>
     list_all opaque_id (sg_evidence_ids g) \<and> distinct (sg_evidence_ids g) \<and> set (sg_evidence_ids g) \<subseteq> set required"

definition conflict_req_ok :: "string list \<Rightarrow> conflict_requirement \<Rightarrow> bool" where
  "conflict_req_ok required c \<longleftrightarrow> opaque_id (cr_conflict_id c) \<and> 2 \<le> length (cr_evidence_ids c) \<and>
     list_all opaque_id (cr_evidence_ids c) \<and> distinct (cr_evidence_ids c) \<and> set (cr_evidence_ids c) \<subseteq> set required"

lemma group_loop_Inr:
  "group_loop required i seen gs = Inr u \<longleftrightarrow>
     list_all (group_ok required) gs \<and> distinct (map sg_group_id gs) \<and> set (map sg_group_id gs) \<inter> set seen = {}"
  by (induction gs arbitrary: i seen) (auto simp: result_simps group_ok_def)

lemma conflict_loop_Inr:
  "conflict_loop required i seen cs = Inr u \<longleftrightarrow>
     list_all (conflict_req_ok required) cs \<and> distinct (map cr_conflict_id cs) \<and> set (map cr_conflict_id cs) \<inter> set seen = {}"
  by (induction cs arbitrary: i seen) (auto simp: result_simps conflict_req_ok_def not_less)

text \<open>The accepted requirement sets, as one condition.\<close>

definition requirements_ok :: "requirement_set \<Rightarrow> bool" where
  "requirements_ok rs \<longleftrightarrow>
     rs_schema_version rs = EVIDENCE_SUFFICIENCY_SCHEMA_VERSION \<and>
     rs_required rs \<noteq> [] \<and> length (rs_required rs) \<le> MAX_REQUIRED_EVIDENCE \<and>
     list_all opaque_id (rs_required rs) \<and> distinct (rs_required rs) \<and>
     list_all opaque_id (rs_latest rs) \<and> distinct (rs_latest rs) \<and> set (rs_latest rs) \<subseteq> set (rs_required rs) \<and>
     list_all opaque_id (rs_temporal rs) \<and> distinct (rs_temporal rs) \<and> set (rs_temporal rs) \<subseteq> set (rs_required rs) \<and>
     (case rs_anchor rs of None \<Rightarrow> True | Some a \<Rightarrow> 0 \<le> a) \<and>
     length (rs_groups rs) \<le> MAX_SOURCE_GROUPS \<and> list_all (group_ok (rs_required rs)) (rs_groups rs) \<and>
     distinct (map sg_group_id (rs_groups rs)) \<and>
     length (rs_conflicts rs) \<le> suff_MAX_CONFLICTS \<and> list_all (conflict_req_ok (rs_required rs)) (rs_conflicts rs) \<and>
     distinct (map cr_conflict_id (rs_conflicts rs))"

lemma group_ok_rev: "group_ok (rev xs) = group_ok xs" "conflict_req_ok (rev xs) = conflict_req_ok xs"
  by (auto simp: group_ok_def conflict_req_ok_def)

lemma requirements_validate_Inr [result_simps]: "requirements_validate rs = Inr u \<longleftrightarrow> requirements_ok rs"
  by (auto simp: requirements_validate_def requirements_ok_def result_simps group_loop_Inr conflict_loop_Inr
        group_ok_rev not_less split: option.splits)

lemma requirements_validate_unit: "requirements_ok rs \<Longrightarrow> requirements_validate rs = Inr ()"
  by (simp add: requirements_validate_Inr)

section \<open>The evaluator accepts its own report\<close>

lemma count_split: "count_required rs (\<lambda>i. \<not> P i) = length (rs_required rs) - count_required rs P"
  using sum_length_filter_compl [of P "rs_required rs"] by (simp add: count_required_def)

lemma count_le: "count_required rs P \<le> length (rs_required rs)"
  by (simp add: count_required_def)

lemma coverage_ok_coverage: "coverage_ok (coverage ids P)"
  by (simp add: coverage_ok_def coverage_def Let_def)

lemma exclusion_loop_Inr:
  "exclusion_loop xs = Inr u \<longleftrightarrow> list_all (\<lambda>(r, n). r \<noteq> [] \<and> length r \<le> MAX_IDENTIFIER_CHARS \<and> 0 < n) xs"
  by (induction xs rule: exclusion_loop.induct) auto

definition SUFFICIENCY_REASONS :: "string list" where
  "SUFFICIENCY_REASONS = [''missing_required'', ''missing_latest_version'', ''missing_temporal_anchor'',
     ''missing_temporal_evidence'', ''missing_source_group'', ''stale_evidence'', ''unavailable_evidence'',
     ''conflicting_evidence'', ''dropped_budget'', ''dropped_coverage'', ''red_herring_ignored'',
     ''recall_partial'', ''recall_timeout'', ''recall_stale'', ''recall_unavailable'']"

abbreviation proper_reason :: "string \<times> nat \<Rightarrow> bool" where
  "proper_reason p \<equiv> fst p \<in> set SUFFICIENCY_REASONS \<and> 0 < snd p"

lemma entry_proper: "reason \<in> set SUFFICIENCY_REASONS \<Longrightarrow> \<forall>p\<in>set (entry reason m). proper_reason p"
  by (simp add: entry_def)

lemma recall_reason_proper: "\<forall>p\<in>set (recall_reason status). proper_reason p"
  by (cases status) (simp_all add: SUFFICIENCY_REASONS_def)

lemma ball_append: "(\<forall>p\<in>set (xs @ ys). P p) \<longleftrightarrow> (\<forall>p\<in>set xs. P p) \<and> (\<forall>p\<in>set ys. P p)"
  by auto

lemma reason_counts_proper: "\<forall>p\<in>set (reason_counts rs cs status). proper_reason p"
  unfolding reason_counts_def set_sort ball_append
  by (intro conjI entry_proper recall_reason_proper) (simp_all add: SUFFICIENCY_REASONS_def)

lemma sufficiency_reasons_bounded: "r \<in> set SUFFICIENCY_REASONS \<Longrightarrow> r \<noteq> [] \<and> length r \<le> MAX_IDENTIFIER_CHARS"
  by (auto simp: SUFFICIENCY_REASONS_def MAX_IDENTIFIER_CHARS_def)

lemma reasons_pass: "exclusion_loop (reason_counts rs cs status) = Inr ()"
  using reason_counts_proper [of rs cs status]
  by (auto simp: exclusion_loop_Inr list_all_iff dest!: bspec dest: sufficiency_reasons_bounded)

lemma conflict_ok_summary:
  assumes "sha256_32 env" and "conflict_req_ok required c"
  shows "conflict_ok (suff_conflict_summary env c)"
proof -
  have "dedup_adj (sort (cr_evidence_ids c)) = sort (cr_evidence_ids c)"
    using assms(2) by (intro dedup_adj_distinct) (simp add: conflict_req_ok_def)
  with assms show ?thesis
    by (simp add: conflict_ok_def suff_conflict_summary_def Let_def is_sha256_def conflict_req_ok_def list_all_iff)
qed

lemma make_receipt_Inr:
  "requirements_ok rs \<Longrightarrow> sha256_32 env \<Longrightarrow>
     \<exists>r. make_receipt env query rs a b c reasons = Inr r \<and> receipt_verify env r"
  by (simp add: make_receipt_def Let_def requirements_digest_def requirements_validate_unit
      receipt_verify_def is_sha256_def receipt_digest_def)

lemma active_conflicts_pass:
  assumes "requirements_ok rs" and "sha256_32 env"
  shows "list_all conflict_ok (map (suff_conflict_summary env) (active_conflicts rs cs))"
  using assms by (auto simp: list_all_iff active_conflicts_def requirements_ok_def intro: conflict_ok_summary)

lemma report_validate_build:
  assumes "requirements_ok rs" and "sha256_32 env" and "receipt_verify env receipt"
  shows "report_validate env (build_report env rs cs status receipt) = Inr ()"
  using assms active_conflicts_pass [OF assms(1,2), of cs] count_le [of rs "selected_for cs"] reasons_pass [of rs cs status]
  unfolding report_validate_def check_all_Inr list.pred_inject guard_r_Inr
  by (simp add: build_report_def count_split not_less coverage_ok_coverage latest_coverage_def temporal_coverage_def
      group_coverage_def)

text \<open>The result of an evaluation, in one equation.\<close>

lemma sufficiency_evaluate_Inr:
  assumes "sha256_32 env"
  shows "sufficiency_evaluate env rs cs recall query = Inr report \<longleftrightarrow>
     requirements_ok rs \<and> list_all opaque_id (map ec_id cs) \<and> distinct (map ec_id cs) \<and>
     (\<exists>receipt. make_receipt env query rs (rev (map ec_id cs)) (filter (selected_for cs) (rs_required rs))
        (filter (\<lambda>i. \<not> selected_for cs i) (rs_required rs)) (reason_counts rs cs (ro_status recall)) = Inr receipt \<and>
        report = build_report env rs cs (ro_status recall) receipt)"
  (is "?L \<longleftrightarrow> ?R")
proof
  assume ?L
  then show ?R
    by (auto simp: sufficiency_evaluate_def bind_r_Inr requirements_validate_Inr unique_loop_Inr
        suff_validate_identifier_Inr list_all_length Let_def)
next
  assume R: ?R
  then obtain receipt where "requirements_ok rs" "list_all opaque_id (map ec_id cs)" "distinct (map ec_id cs)"
    and rc: "make_receipt env query rs (rev (map ec_id cs)) (filter (selected_for cs) (rs_required rs))
        (filter (\<lambda>i. \<not> selected_for cs i) (rs_required rs)) (reason_counts rs cs (ro_status recall)) = Inr receipt"
    and "report = build_report env rs cs (ro_status recall) receipt"
    by blast
  moreover from rc make_receipt_Inr [OF \<open>requirements_ok rs\<close> assms] have "receipt_verify env receipt"
    by (metis sum.inject(2))
  ultimately show ?L using assms
    by (auto simp: sufficiency_evaluate_def bind_r_Inr requirements_validate_Inr unique_loop_Inr
        suff_validate_identifier_Inr list_all_length Let_def report_validate_build)
qed

text \<open>C32.
  The evaluator answers with a report exactly when the requirement set satisfies the written
  bounds (version, 1 to 256 distinct opaque ids, every other list a duplicate-free part of the
  required ids, at most 128 non-empty groups and 128 conflicts of two or more records, an anchor that
  is not negative) and the candidates carry distinct opaque ids. The validation it runs on its own
  report, receipt digest included, never turns a well-formed request into an error.
\<close>

theorem evaluation_fails_only_on_bad_input:
  assumes "sha256_32 env"
  shows "is_ok (sufficiency_evaluate env rs cs recall query) \<longleftrightarrow>
     requirements_ok rs \<and> list_all opaque_id (map ec_id cs) \<and> distinct (map ec_id cs)"
proof -
  have "is_ok r \<longleftrightarrow> (\<exists>x. r = Inr x)" for r :: "sufficiency_report result"
    by (cases r) (simp_all add: is_ok_def)
  then show ?thesis
    using make_receipt_Inr [OF _ assms] by (simp add: sufficiency_evaluate_Inr [OF assms]) blast
qed

section \<open>When the outcome is complete\<close>

lemma count_zero: "count_required rs P = 0 \<longleftrightarrow> (\<forall>i\<in>set (rs_required rs). \<not> P i)"
  by (auto simp: count_required_def filter_empty_conv)

lemma coverage_none_missing: "cv_missing (coverage ids P) = 0 \<longleftrightarrow> (\<forall>i\<in>set ids. P i)"
proof -
  have "length ids - length (filter P ids) = length (filter (\<lambda>i. \<not> P i) ids)"
    using sum_length_filter_compl [of P ids] by simp
  then show ?thesis by (simp add: coverage_def Let_def filter_empty_conv)
qed

lemma selected_available: "selected_for cs i \<Longrightarrow> case candidate_for cs i of None \<Rightarrow> False | Some c \<Rightarrow> ec_available c"
  by (simp add: selected_for_def has_def split: option.splits)

lemma groups_covered:
  assumes "requirements_ok rs" and "\<forall>i\<in>set (rs_required rs). selected_for cs i"
  shows "cv_missing (group_coverage rs cs) = 0"
proof -
  have "list_ex (selected_for cs) (sg_evidence_ids x)" if "x \<in> set (rs_groups rs)" for x
  proof -
    have "sg_evidence_ids x \<noteq> []" "set (sg_evidence_ids x) \<subseteq> set (rs_required rs)"
      using assms(1) that by (auto simp: requirements_ok_def list_all_iff group_ok_def)
    with assms(2) show ?thesis by (cases "sg_evidence_ids x") (auto simp: list_ex_iff)
  qed
  then show ?thesis
    by (auto simp: group_coverage_def coverage_none_missing find_None_iff split: option.splits dest!: find_SomeD)
qed

lemma conflicts_active:
  assumes "requirements_ok rs" and "\<forall>i\<in>set (rs_required rs). selected_for cs i"
  shows "active_conflicts rs cs = rs_conflicts rs"
proof -
  have "list_ex (selected_for cs) (cr_evidence_ids c)" if "c \<in> set (rs_conflicts rs)" for c
  proof -
    have "2 \<le> length (cr_evidence_ids c)" "set (cr_evidence_ids c) \<subseteq> set (rs_required rs)"
      using assms(1) that by (auto simp: requirements_ok_def list_all_iff conflict_req_ok_def)
    with assms(2) show ?thesis by (cases "cr_evidence_ids c") (auto simp: list_ex_iff)
  qed
  then show ?thesis by (simp add: active_conflicts_def filter_id_conv)
qed

lemma decide_complete:
  assumes ok: "requirements_ok rs"
  shows "decide_outcome rs cs status = SComplete \<longleftrightarrow>
    (\<forall>i\<in>set (rs_required rs). selected_for cs i) \<and> (\<forall>i\<in>set (rs_temporal rs). has cs i ec_temporal_valid) \<and>
    rs_conflicts rs = [] \<and> (status = RFresh \<or> status = REmpty)"
proof (cases "\<forall>i\<in>set (rs_required rs). selected_for cs i")
  case False
  then have "coverage_gap rs cs" by (simp add: coverage_gap_def count_zero)
  with False show ?thesis by (simp add: decide_outcome_def split: fallback_policy.splits)
next
  case True
  have sub: "set (rs_latest rs) \<subseteq> set (rs_required rs)" "set (rs_temporal rs) \<subseteq> set (rs_required rs)"
    using ok by (simp_all add: requirements_ok_def)
  have "unavailable_count rs cs = 0"
    using True selected_available by (fastforce simp: unavailable_count_def count_zero split: option.splits)
  moreover have "coverage_gap rs cs \<longleftrightarrow> \<not> (\<forall>i\<in>set (rs_temporal rs). has cs i ec_temporal_valid)"
    using True sub groups_covered [OF ok True]
    by (fastforce simp: coverage_gap_def count_zero latest_coverage_def temporal_coverage_def coverage_none_missing
        has_def split: option.splits)
  ultimately show ?thesis
    using True conflicts_active [OF ok True]
    by (cases status) (simp_all add: decide_outcome_def split: fallback_policy.splits)
qed

section \<open>A sample task\<close>

definition sample_requirements :: requirement_set where
  "sample_requirements = \<lparr>rs_schema_version = EVIDENCE_SUFFICIENCY_SCHEMA_VERSION, rs_required = [''e1''], rs_latest = [''e1''],
     rs_temporal = [], rs_groups = [\<lparr>sg_group_id = ''g'', sg_evidence_ids = [''e1'']\<rparr>], rs_conflicts = [],
     rs_anchor = None, rs_policy = PAbstain\<rparr>"

definition sample_candidate :: evidence_candidate where
  "sample_candidate = \<lparr>ec_id = ''e1'', ec_selected = True, ec_available = True, ec_stale = False,
     ec_temporal_valid = False, ec_budget_omitted = False\<rparr>"

definition sample_recall :: recall_outcome where
  "sample_recall = \<lparr>ro_status = RFresh, ro_abstained = False, ro_reason = [], ro_deadline_elapsed = False,
     ro_backend_health = None, ro_completeness = None\<rparr>"

lemma sample_requirements_ok: "requirements_ok sample_requirements"
  by (simp add: requirements_ok_def sample_requirements_def group_ok_def opaque_id_def opaque_byte_def
      is_ascii_alphanumeric_def is_ascii_digit_def is_ascii_uppercase_def MAX_IDENTIFIER_CHARS_def
      MAX_REQUIRED_EVIDENCE_def MAX_SOURCE_GROUPS_def suff_MAX_CONFLICTS_def)

lemma sample_ids: "list_all opaque_id (map ec_id [sample_candidate])" "distinct (map ec_id [sample_candidate])"
  using sample_requirements_ok by (simp_all add: requirements_ok_def sample_requirements_def sample_candidate_def)

lemma sample_evaluation:
  obtains report where "sufficiency_evaluate sample_env sample_requirements [sample_candidate] sample_recall ''q'' = Inr report"
proof -
  obtain r where "make_receipt sample_env ''q'' sample_requirements (rev (map ec_id [sample_candidate]))
      (filter (selected_for [sample_candidate]) (rs_required sample_requirements))
      (filter (\<lambda>i. \<not> selected_for [sample_candidate] i) (rs_required sample_requirements))
      (reason_counts sample_requirements [sample_candidate] (ro_status sample_recall)) = Inr r"
    using make_receipt_Inr [OF sample_requirements_ok sha256_32_sample_env] by blast
  with sample_requirements_ok sample_ids that show ?thesis
    by (simp only: sufficiency_evaluate_Inr [OF sha256_32_sample_env]) blast
qed

lemma sample_decides: "decide_outcome sample_requirements [sample_candidate] RFresh = SComplete"
  unfolding decide_complete [OF sample_requirements_ok]
  by (simp add: sample_requirements_def selected_for_def has_def candidate_for_def sample_candidate_def)

theorem evaluation_fails_only_on_bad_input_witness:
  "is_ok (sufficiency_evaluate sample_env sample_requirements [sample_candidate] sample_recall ''q'')"
  using evaluation_fails_only_on_bad_input [OF sha256_32_sample_env] sample_requirements_ok sample_ids by blast

section \<open>The condition for completeness\<close>

text \<open>C31.
  The outcome is complete exactly when every required record was selected, available and not stale,
  every temporal anchor among them was valid, the task declared no unresolved conflict at all, and the
  recall was fresh or empty. Latest records and source groups add nothing to the condition, because
  validation keeps them within the required records; and a declared conflict always blocks it.
\<close>

theorem complete_exactly_when_covered:
  assumes "sha256_32 env" and "sufficiency_evaluate env rs cs recall query = Inr report"
  shows "rp_outcome report = SComplete \<longleftrightarrow>
    (\<forall>i\<in>set (rs_required rs). selected_for cs i) \<and> (\<forall>i\<in>set (rs_temporal rs). has cs i ec_temporal_valid) \<and>
    rs_conflicts rs = [] \<and> (ro_status recall = RFresh \<or> ro_status recall = REmpty)"
  using assms by (auto simp: sufficiency_evaluate_Inr build_report_def decide_complete)

theorem complete_exactly_when_covered_witness:
  "\<exists>report. sufficiency_evaluate sample_env sample_requirements [sample_candidate] sample_recall ''q'' = Inr report \<and>
     rp_outcome report = SComplete"
proof -
  obtain report where r: "sufficiency_evaluate sample_env sample_requirements [sample_candidate] sample_recall ''q'' = Inr report"
    by (rule sample_evaluation)
  from complete_exactly_when_covered [OF sha256_32_sample_env r] sample_decides r show ?thesis
    by (simp add: decide_complete [OF sample_requirements_ok] sample_recall_def)
qed

section \<open>What a complete report says of the store\<close>

lemma map_r_zip: "map_r f xs = Inr ys \<Longrightarrow> length ys = length xs \<and> (\<forall>(x, y)\<in>set (zip xs ys). f x = Inr y)"
  by (induction xs arbitrary: ys) (fastforce simp: bind_r_Inr)+

lemma required_candidate_sel [simp]: "ec_id (required_candidate cand deliv i st) = i"
  by (cases st) (simp add: required_candidate_def)

lemma declared_candidate:
  assumes "length ids = length sts" and "i \<in> set ids"
  shows "\<exists>st. (i, st) \<in> set (zip ids sts) \<and>
    candidate_for (map2 (required_candidate cand deliv) ids sts @ rest) i = Some (required_candidate cand deliv i st)"
  using assms
proof (induction ids sts rule: list_induct2)
  case (Cons x xs y ys)
  then show ?case by (cases "x = i") (auto simp: candidate_for_def simp del: split_paired_Ex)
qed simp

lemma read_back:
  assumes "get_entity_by_id_for_requester env db now i who = Inr (Some e')" and "get_entity_by_id_raw env db i = Inr (Some e)"
  shows "e' = e"
proof -
  from assms obtain kept where "filter_for_requester env db now [e] who = Inr kept" "e' \<in> set kept"
    by (auto simp: get_entity_by_id_for_requester_def bind_r_Inr first_kept)
  from filter_for_requester_mem [OF this] show ?thesis by simp
qed

text \<open>A declared record counts as selected only when it was delivered and the governed read serves it.\<close>

lemma selected_state:
  assumes "requirement_state env td now rs workspace who i = Inr (True, False, valid)"
  shows "\<exists>e. get_entity_by_id_for_requester env (gate_of td) now i who = Inr (Some e) \<and>
    scope_allows (en_workspace_hash e) workspace \<and> \<not> expired_by env (en_body_json e) now \<and>
    temporal_ok env td now e (rs_anchor rs) workspace who = Inr valid"
proof -
  from assms obtain e where raw: "get_entity_by_id_raw env (gate_of td) i = Inr (Some e)"
    by (simp add: requirement_state_def split: sum.splits option.splits)
  with assms obtain served where served: "get_entity_by_id_for_requester env (gate_of td) now i who = Inr served"
    by (simp add: requirement_state_def Let_def split: sum.splits)
  have st: "en_status e \<noteq> ''deprecated'' \<and> en_status e \<noteq> ''expired'' \<and> scope_allows (en_workspace_hash e) workspace \<and>
      served \<noteq> None \<and> \<not> expired_by env (en_body_json e) now \<and>
      temporal_ok env td now e (rs_anchor rs) workspace who = Inr valid"
    using assms by (auto simp: requirement_state_def raw served Let_def bind_r_Inr split: if_splits)
  then obtain e' where e': "served = Some e'" by blast
  with served raw have "e' = e" by (auto dest: read_back)
  with st served e' show ?thesis by blast
qed

lemma selected_declared:
  assumes states: "map_r (requirement_state env td now rs workspace who) (rs_required rs) = Inr states"
    and i: "i \<in> set (rs_required rs)"
    and sel: "selected_for (map2 (required_candidate cand deliv) (rs_required rs) states @ rest) i"
  shows "\<exists>valid. requirement_state env td now rs workspace who i = Inr (True, False, valid) \<and> i \<in> set deliv \<and>
    (has (map2 (required_candidate cand deliv) (rs_required rs) states @ rest) i ec_temporal_valid \<longrightarrow> valid)"
proof -
  note z = map_r_zip [OF states]
  then obtain st where "(i, st) \<in> set (zip (rs_required rs) states)"
      and c: "candidate_for (map2 (required_candidate cand deliv) (rs_required rs) states @ rest) i =
        Some (required_candidate cand deliv i st)"
    using declared_candidate [OF _ i] by metis
  with z have "requirement_state env td now rs workspace who i = Inr st" by blast
  with sel c show ?thesis
    by (cases st) (auto simp: selected_for_def has_def required_candidate_def)
qed

text \<open>
  A complete report is backed by the store: every record the task required was delivered and is served
  to this requester by the governed lookup at the time of the evaluation, lies in the workspace the
  context was built for and has not expired; and for every temporal anchor the version that held at
  the declared time is readable and was in force.
\<close>

lemma complete_report_is_backed_by_reads:
  assumes "sha256_32 (ge_digest env)"
    and "evaluate_context_requirements env td now rs candidate_ids delivered_ids query workspace who recall = Inr report"
    and "rp_outcome report = SComplete" and "i \<in> set (rs_required rs)"
  shows "i \<in> set delivered_ids \<and> (\<exists>e. get_entity_by_id_for_requester env (gate_of td) now i who = Inr (Some e) \<and>
    scope_allows (en_workspace_hash e) workspace \<and> \<not> expired_by env (en_body_json e) now \<and>
    (i \<in> set (rs_temporal rs) \<longrightarrow> temporal_ok env td now e (rs_anchor rs) workspace who = Inr True))"
proof -
  from assms(2) obtain states rest where
      st: "map_r (requirement_state env td now rs workspace who) (rs_required rs) = Inr states" and
      ev: "sufficiency_evaluate (ge_digest env) rs
        (map2 (required_candidate candidate_ids delivered_ids) (rs_required rs) states @ rest) recall query = Inr report"
    by (auto simp: evaluate_context_requirements_def bind_r_Inr Let_def)
  let ?cs = "map2 (required_candidate candidate_ids delivered_ids) (rs_required rs) states @ rest"
  have "decide_outcome rs ?cs (ro_status recall) = SComplete" "requirements_ok rs"
    using ev assms(1,3) by (auto simp: sufficiency_evaluate_Inr build_report_def)
  with assms(4) have sel: "selected_for ?cs i" and tv: "i \<in> set (rs_temporal rs) \<longrightarrow> has ?cs i ec_temporal_valid"
    by (simp_all add: decide_complete)
  from selected_declared [OF st assms(4) sel] tv obtain valid where
      v: "requirement_state env td now rs workspace who i = Inr (True, False, valid)" and
      "i \<in> set delivered_ids" "i \<in> set (rs_temporal rs) \<longrightarrow> valid"
    by blast
  with selected_state [OF v] show ?thesis by auto
qed

definition backed_store :: temporal_db where
  "backed_store = sample_store\<lparr>td_live := [sample_version\<lparr>row_created_at := 1\<rparr>]\<rparr>"

lemma gate_of_backed_store: "gate_of backed_store = sample_gate_db"
  by (simp add: gate_of_def backed_store_def sample_store_def sample_version_def sample_gate_db_def sample_row_def
      entity_row.truncate_def)

lemma sample_state:
  "requirement_state sample_gate_env backed_store 5 sample_requirements None (Some ''a1'') ''e1'' = Inr (True, False, False)"
proof -
  have "requester_can_read sample_gate_db (Some ''a1'') (en_visibility sample_entity) (en_agent_id sample_entity)"
    by (simp add: requester_can_read_def lower_text_statuses can_read_def sample_entity_def)
  moreover have "\<not> expired_by sample_gate_env (en_body_json sample_entity) 5"
    by (simp add: expired_by_def entity_expiry_ms_def sample_gate_env_def)
  moreover have "en_status sample_entity = ''active''" "\<not> en_archived sample_entity" "rs_anchor sample_requirements = None"
    by (simp_all add: sample_entity_def sample_requirements_def)
  ultimately show ?thesis
    by (simp add: requirement_state_def gate_of_backed_store sample_raw sample_lookup scope_allows_def temporal_ok_def)
qed

lemma sample_context:
  "evaluate_context_requirements sample_gate_env backed_store 5 sample_requirements [''e1''] [''e1''] ''q'' None (Some ''a1'')
     sample_recall = sufficiency_evaluate sample_env sample_requirements [sample_candidate] sample_recall ''q''"
proof -
  have "rs_required sample_requirements = [''e1'']" "ge_digest sample_gate_env = sample_env"
    by (simp_all add: sample_requirements_def sample_gate_env_def)
  then show ?thesis
    by (simp add: evaluate_context_requirements_def requirements_validate_unit [OF sample_requirements_ok] sample_state
        required_candidate_def sample_candidate_def)
qed

lemma sample_complete:
  assumes "sufficiency_evaluate sample_env sample_requirements [sample_candidate] sample_recall ''q'' = Inr report"
  shows "rp_outcome report = SComplete"
  using assms sample_decides
  by (auto simp: sufficiency_evaluate_Inr [OF sha256_32_sample_env] build_report_def sample_recall_def)

end
