(* ===== verification/Safe_Outcome.thy ===== *)
theory Safe_Outcome
  imports Evidence_Sufficiency Task_Serve
begin

text \<open>
  The answer-facing outcomes of \<open>src/src/safe_outcome.rs\<close>: the closed vocabulary of statuses and
  reasons, the builders that translate a context, a sufficiency report, a recall, a task state or
  a failure into an answer, and the batch aggregation of \<open>src/src/tools.rs\<close>. A reason with its
  count is a pair. Of an evidence projection only its items and its exclusions are read here, so
  the type of its items stays open.
\<close>

section \<open>Vocabulary\<close>

definition SAFE_OUTCOME_SCHEMA_VERSION :: string where
  "SAFE_OUTCOME_SCHEMA_VERSION = ''perseus-vault-answer-outcome/v1''"

definition SAFE_OUTCOME_STATUSES :: "string list" where
  "SAFE_OUTCOME_STATUSES = [''complete'', ''partial'', ''degraded'', ''abstained'', ''unavailable'']"

definition KNOWN_REASONS :: "string list" where
  "KNOWN_REASONS =
     [''abstained'', ''backend_unavailable'', ''budget_exhausted'', ''context assembled'', ''context_truncated'',
      ''context_unavailable'', ''conflicting_evidence'', ''db_unhealthy'', ''deadline_elapsed'', ''degraded'',
      ''dropped_budget'', ''dropped_coverage'', ''empty_store'', ''excluded_evidence'', ''expired'',
      ''incomplete_evidence'', ''index_behind'', ''invisible'', ''invalid_evidence'', ''malformed_reference'',
      ''missing_evidence'', ''missing_latest_version'', ''missing_required'', ''missing_source_group'',
      ''missing_temporal_anchor'', ''missing_temporal_evidence'', ''no_evidence'', ''no_match'', ''no_query'',
      ''no_eligible_candidates'', ''out_of_scope'', ''partial'', ''partial_arms'', ''partial_recall'',
      ''pending_embeds'', ''recall_partial'', ''recall_stale'', ''recall_timeout'', ''recall_unavailable'',
      ''red_herring_ignored'', ''rejected_evidence'', ''revoked'', ''selection_projection_unavailable'',
      ''source_missing'', ''stale'', ''stale_evidence'', ''superseded'', ''task_state_complete'',
      ''task_state_degraded'', ''task_state_partial'', ''task_state_unavailable'', ''unavailable'',
      ''unavailable_evidence'', ''unknown_chain_identity'', ''unresolved_conflict'', ''unresolved_evidence'',
      ''unsupported_lane'', ''wrong_chain_identity'']"

definition reason_delims :: "char set" where
  "reason_delims = set [CHR '':'', CHR 0x0A, CHR 0x0D, CHR '','', CHR '';'', CHR ''|'']"

definition safe_reason :: "string \<Rightarrow> string" where
  "safe_reason v =
     (let lower = lower_text (trim v);
          first = trim (takeWhile (\<lambda>c. c \<notin> reason_delims) lower)
      in if first \<in> set KNOWN_REASONS then first
         else if contains lower ''unavailable'' \<or> contains lower ''database'' \<or> contains lower ''lookup failed'' \<or>
                 contains lower ''serialization failed'' then ''unavailable''
         else if contains lower ''conflict'' then ''unresolved_conflict''
         else if contains lower ''supersed'' then ''superseded''
         else if contains lower ''expire'' then ''expired''
         else if contains lower ''stale'' then ''stale_evidence''
         else if contains lower ''scope'' \<or> contains lower ''invisible'' then ''out_of_scope''
         else ''unspecified'')"

definition safe_fallback_mode :: "string \<Rightarrow> string" where
  "safe_fallback_mode v = (if v = ''abstain'' \<or> v = ''canonical_retrieval'' then v else ''canonical_retrieval'')"

definition RECALL_STATUSES :: "string list" where
  "RECALL_STATUSES = [''fresh'', ''partial'', ''timeout'', ''unavailable'', ''empty'', ''stale'']"

definition safe_recall_status :: "string \<Rightarrow> string" where
  "safe_recall_status v = (if v \<in> set RECALL_STATUSES then v else ''unavailable'')"

text \<open>The loop stops as soon as the sixteenth code is in.\<close>

fun merge_loop :: "string list \<Rightarrow> string list \<Rightarrow> string list" where
  "merge_loop result [] = result"
| "merge_loop result (v # vs) =
     (let result' = (if safe_reason v \<in> set result then result else result @ [safe_reason v])
      in if length result' \<ge> 16 then result' else merge_loop result' vs)"

definition merge_reason_codes :: "string \<Rightarrow> string list \<Rightarrow> string list" where
  "merge_reason_codes primary additional = merge_loop [] (primary # additional)"

section \<open>Answers\<close>

record safe_fallback =
  sf_mode :: string
  sf_reason :: string

record conflict_summary_data =
  cs_reason :: string
  cs_reference_count :: nat
  cs_references_sha256 :: string

record answer_outcome =
  ao_schema_version :: string
  ao_status :: string
  ao_recall_status :: string
  ao_reason :: string
  ao_reason_codes :: "string list"
  ao_abstained :: bool
  ao_answerable :: bool
  ao_fallback :: "safe_fallback option"
  ao_exclusions :: "(string \<times> nat) list"
  ao_conflicts :: "conflict_summary_data list"

definition answer_new ::
    "string \<Rightarrow> string \<Rightarrow> string \<Rightarrow> bool \<Rightarrow> bool \<Rightarrow> safe_fallback option \<Rightarrow> answer_outcome" where
  "answer_new status recall_status reason abstained answerable fallback =
     \<lparr>ao_schema_version = SAFE_OUTCOME_SCHEMA_VERSION, ao_status = status,
      ao_recall_status = safe_recall_status recall_status, ao_reason = safe_reason reason,
      ao_reason_codes = [safe_reason reason], ao_abstained = abstained, ao_answerable = answerable,
      ao_fallback = map_option (\<lambda>f. \<lparr>sf_mode = safe_fallback_mode (sf_mode f), sf_reason = safe_reason (sf_reason f)\<rparr>) fallback,
      ao_exclusions = [], ao_conflicts = []\<rparr>"

definition answer_validate :: "answer_outcome \<Rightarrow> unit result" where
  "answer_validate a = check_all
     [guard_r (ao_schema_version a \<noteq> SAFE_OUTCOME_SCHEMA_VERSION) ''unsupported answer outcome schema_version'',
      guard_r (ao_status a \<notin> set SAFE_OUTCOME_STATUSES)
        (''unsupported answer outcome status '' @ quoted (ao_status a) @ '':''),
      guard_r (ao_reason a = [] \<or> length (ao_reason a) > 256) ''answer outcome reason must be bounded and non-empty'',
      guard_r (ao_reason_codes a = [] \<or> length (ao_reason_codes a) > 16 \<or>
          list_ex (\<lambda>r. r = [] \<or> length r > 256 \<or> r \<noteq> safe_reason r) (ao_reason_codes a) \<or>
          ao_reason a \<notin> set (ao_reason_codes a))
        ''answer outcome reason_codes are invalid'',
      guard_r (ao_status a = ''complete'' \<and> (\<not> ao_answerable a \<or> ao_abstained a))
        ''complete answer outcome must be answerable and non-abstained'',
      guard_r ((ao_status a = ''abstained'' \<or> ao_status a = ''unavailable'') \<and> (\<not> ao_abstained a \<or> ao_answerable a))
        ''abstained/unavailable outcome has inconsistent answerability'',
      guard_r (ao_status a \<noteq> ''complete'' \<and> ao_fallback a = None) ''incomplete answer outcome requires a safe fallback'']"

definition canonical_fallback :: "string \<Rightarrow> safe_fallback option" where
  "canonical_fallback reason = Some \<lparr>sf_mode = ''canonical_retrieval'', sf_reason = reason\<rparr>"

section \<open>Builders\<close>

definition for_context :: "string option \<Rightarrow> int \<Rightarrow> bool \<Rightarrow> answer_outcome" where
  "for_context query injected truncated =
     (let has_query = (case query of None \<Rightarrow> False | Some v \<Rightarrow> \<not> blank v)
      in if has_query \<and> injected > 0 \<and> \<not> truncated
         then answer_new ''complete'' ''fresh'' ''context assembled'' False True None
         else if has_query \<and> injected > 0 \<and> truncated
         then answer_new ''partial'' ''partial'' ''context_truncated'' False True (canonical_fallback ''context_truncated'')
         else let reason = (if has_query then ''no_match'' else ''no_query'')
              in answer_new ''abstained'' ''empty'' reason True False (canonical_fallback reason))"

definition for_sufficiency :: "sufficiency_report \<Rightarrow> answer_outcome" where
  "for_sufficiency report =
     (let status = sufficiency_str (rp_outcome report);
          reason = (case rp_fallback report of
                      Some (_, r) \<Rightarrow> r
                    | None \<Rightarrow> (case rp_reason_codes report of r # _ \<Rightarrow> r | [] \<Rightarrow> status));
          fallback = map_option (\<lambda>(mode, r). \<lparr>sf_mode = mode, sf_reason = safe_reason r\<rparr>) (rp_fallback report);
          answer = answer_new status (rp_recall_status report) reason
            (status = ''abstained'' \<or> status = ''unavailable'') (status = ''complete'') fallback;
          exclusions = map (\<lambda>(r, n). (safe_reason r, n)) (rp_excluded report)
      in answer\<lparr>ao_exclusions := exclusions,
           ao_conflicts := map (\<lambda>c. \<lparr>cs_reason = safe_reason (sx_reason c), cs_reference_count = sx_reference_count c,
             cs_references_sha256 = sx_references_sha256 c\<rparr>) (rp_conflicts report),
           ao_reason_codes := merge_reason_codes (ao_reason answer) (rp_reason_codes report @ map fst exclusions)\<rparr>)"

definition with_context_delivery :: "answer_outcome \<Rightarrow> bool \<Rightarrow> answer_outcome" where
  "with_context_delivery base truncated =
     (if truncated \<and> ao_status base = ''complete''
      then base\<lparr>ao_status := ''partial'', ao_reason := ''context_truncated'', ao_reason_codes := [''context_truncated''],
             ao_abstained := False, ao_answerable := True, ao_fallback := canonical_fallback ''context_truncated''\<rparr>
      else base)"

text \<open>\<open>handle_context\<close> (\<open>src/src/tools.rs\<close>) puts the three together.\<close>

definition context_answer :: "sufficiency_report option \<Rightarrow> string option \<Rightarrow> int \<Rightarrow> bool \<Rightarrow> answer_outcome" where
  "context_answer sufficiency query injected truncated = with_context_delivery
     (case sufficiency of Some report \<Rightarrow> for_sufficiency report | None \<Rightarrow> for_context query injected truncated) truncated"

fun default_recall_reason :: "recall_status \<Rightarrow> nat \<Rightarrow> string" where
  "default_recall_reason RUnavailable hits = ''unavailable''"
| "default_recall_reason RStale hits = ''stale_evidence''"
| "default_recall_reason RTimeout hits = ''deadline_elapsed''"
| "default_recall_reason RPartial hits = ''partial_recall''"
| "default_recall_reason RFresh hits = ''no_match''"
| "default_recall_reason REmpty hits = ''no_match''"

definition recall_verdict :: "recall_outcome \<Rightarrow> nat \<Rightarrow> string \<times> bool \<times> bool" where
  "recall_verdict recall hits =
     (if ro_abstained recall
      then (if ro_status recall = RUnavailable then (''unavailable'', True, False) else (''abstained'', True, False))
      else case ro_status recall of
             RFresh \<Rightarrow> if hits > 0 then (''complete'', False, True) else (''abstained'', True, False)
           | REmpty \<Rightarrow> (''abstained'', True, False)
           | RPartial \<Rightarrow> if hits > 0 then (''partial'', False, True) else (''degraded'', True, False)
           | RTimeout \<Rightarrow> if hits > 0 then (''partial'', False, True) else (''degraded'', True, False)
           | RStale \<Rightarrow> if hits > 0 then (''degraded'', False, True) else (''degraded'', True, False)
           | RUnavailable \<Rightarrow> (''unavailable'', True, False))"

definition for_recall :: "recall_outcome \<Rightarrow> nat \<Rightarrow> answer_outcome" where
  "for_recall recall hits =
     (let reason = (if ro_reason recall = [] then default_recall_reason (ro_status recall) hits
                    else safe_reason (ro_reason recall));
          (status, abstained, answerable) = recall_verdict recall hits
      in answer_new status (recall_str (ro_status recall)) reason abstained answerable
           (if status \<noteq> ''complete'' then canonical_fallback reason else None))"

definition conflict_preimage :: "string list \<Rightarrow> string" where
  "conflict_preimage references = concat (map (\<lambda>r. show_nat (length r) @ [CHR 0x00] @ r @ [CHR 0x00]) references)"

definition conflict_summary :: "digest_env \<Rightarrow> string \<Rightarrow> string list \<Rightarrow> conflict_summary_data" where
  "conflict_summary env reason references =
     (let normalized = dedup_adj (sort references)
      in \<lparr>cs_reason = safe_reason reason, cs_reference_count = length normalized,
          cs_references_sha256 = sha256_hex env (conflict_preimage normalized)\<rparr>)"

fun task_recall_status :: "task_state_outcome \<Rightarrow> string" where
  "task_recall_status Complete = ''fresh''"
| "task_recall_status Partial = ''partial''"
| "task_recall_status Degraded = ''partial''"
| "task_recall_status Abstained = ''empty''"
| "task_recall_status Unavailable = ''unavailable''"

fun task_reason :: "task_state_outcome \<Rightarrow> nat \<Rightarrow> nat \<Rightarrow> active_conflict list \<Rightarrow> string" where
  "task_reason Complete unresolved missing conflicts = ''task_state_complete''"
| "task_reason Partial unresolved missing conflicts = ''task_state_partial''"
| "task_reason Degraded unresolved missing conflicts = ''task_state_degraded''"
| "task_reason Abstained unresolved missing conflicts =
     (if conflicts \<noteq> [] then ''unresolved_conflict''
      else if unresolved > 0 \<or> missing > 0 then ''missing_evidence''
      else ''no_evidence'')"
| "task_reason Unavailable unresolved missing conflicts = ''task_state_unavailable''"

definition task_exclusions :: "nat \<Rightarrow> nat \<Rightarrow> nat \<Rightarrow> (string \<times> nat) list" where
  "task_exclusions rejected unresolved missing =
     (if rejected > 0 then [(''rejected_evidence'', rejected)] else []) @
     (if unresolved > 0 then [(''unresolved_evidence'', unresolved)] else []) @
     (if missing > 0 then [(''missing_evidence'', missing)] else [])"

definition for_task ::
    "digest_env \<Rightarrow> task_state_outcome \<Rightarrow> task_fallback option \<Rightarrow> nat \<Rightarrow> nat \<Rightarrow> nat \<Rightarrow> nat \<Rightarrow> active_conflict list \<Rightarrow> answer_outcome" where
  "for_task env outcome fallback accepted rejected unresolved missing conflicts =
     (let status = outcome_str outcome;
          reason = task_reason outcome unresolved missing conflicts;
          answer = answer_new status (task_recall_status outcome) reason
            (outcome = Abstained \<or> outcome = Unavailable)
            (outcome = Complete \<or> (outcome = Partial \<or> outcome = Degraded) \<and> accepted > 0)
            (case fallback of
               Some f \<Rightarrow> Some \<lparr>sf_mode = fb_mode f, sf_reason = safe_reason (fb_reason f)\<rparr>
             | None \<Rightarrow> if status \<noteq> ''complete'' then canonical_fallback reason else None);
          exclusions = task_exclusions rejected unresolved missing
      in answer\<lparr>ao_exclusions := exclusions,
           ao_conflicts := map (\<lambda>c. conflict_summary env (cf_reason c) (cf_evidence_ids c)) conflicts,
           ao_reason_codes := merge_reason_codes (ao_reason answer) (map fst exclusions)\<rparr>)"

definition failure_reason :: "string \<Rightarrow> string" where
  "failure_reason error =
     (let lower = lower_text error
      in if contains lower ''superseded'' then ''superseded''
         else if contains lower ''expired'' then ''expired''
         else if contains lower ''revoked'' \<or> contains lower ''tombstoned'' then ''revoked''
         else if contains lower ''stale source'' \<or> contains lower ''stale evidence'' then ''stale''
         else if contains lower ''workspace scope'' \<or> contains lower ''scope mismatch'' then ''out_of_scope''
         else if contains lower ''invisible'' \<or> contains lower ''requester'' \<or> contains lower ''suppressed'' then ''invisible''
         else if contains lower ''digest'' \<or> contains lower ''malformed'' then ''invalid_evidence''
         else if contains lower ''unavailable'' \<or> contains lower ''database'' \<or> contains lower ''lookup failed''
              then ''unavailable_evidence''
         else ''invalid_evidence'')"

definition for_task_failure :: "string \<Rightarrow> answer_outcome" where
  "for_task_failure error =
     (let reason = failure_reason error;
          unavailable = (reason = ''unavailable_evidence'' \<or> reason = ''backend_unavailable'');
          answer = answer_new (if unavailable then ''unavailable'' else ''abstained'')
            (if unavailable then ''unavailable'' else ''stale'') reason True False (canonical_fallback reason)
      in answer\<lparr>ao_exclusions := [(reason, 1)]\<rparr>)"

definition unavailable_answer :: "string \<Rightarrow> answer_outcome" where
  "unavailable_answer reason =
     answer_new ''unavailable'' ''unavailable'' (safe_reason reason) True False (canonical_fallback (safe_reason reason))"

section \<open>Evidence lanes\<close>

record 'i evidence_projection =
  ep_items :: "'i list"
  ep_excluded :: "(string \<times> nat) list"

definition usize_max :: nat where
  "usize_max = 2 ^ 64 - 1"

definition saturating_add :: "nat \<Rightarrow> nat \<Rightarrow> nat" where
  "saturating_add a b = min usize_max (a + b)"

text \<open>The result is kept with its last entry first.\<close>

fun count_loop :: "(string \<times> nat) list \<Rightarrow> (string \<times> nat) list \<Rightarrow> (string \<times> nat) list" where
  "count_loop result [] = rev result"
| "count_loop [] ((s, m) # xs) = count_loop [(safe_reason s, m)] xs"
| "count_loop ((r, n) # result) ((s, m) # xs) =
     (if r = s then count_loop ((r, saturating_add n m) # result) xs
      else count_loop ((safe_reason s, m) # (r, n) # result) xs)"

definition reason_only_counts :: "(string \<times> nat) list \<Rightarrow> (string \<times> nat) list" where
  "reason_only_counts exclusions = count_loop [] (sort_key fst exclusions)"

definition evidence_verdict :: "answer_outcome \<Rightarrow> 'i evidence_projection \<Rightarrow> answer_outcome" where
  "evidence_verdict base evidence =
     (if ep_items evidence = [] then
        let reason = (case ep_excluded evidence of
                        (r, _) # _ \<Rightarrow> safe_reason r
                      | [] \<Rightarrow> if ao_status base = ''unavailable'' then ao_reason base else ''no_evidence'');
            unavailable = (ao_status base = ''unavailable'' \<or> ao_recall_status base = ''unavailable'' \<or>
              reason = ''unavailable'' \<or> reason = ''unavailable_evidence'')
        in base\<lparr>ao_status := (if unavailable then ''unavailable'' else ''abstained''),
             ao_recall_status := (if unavailable then ''unavailable'' else ao_recall_status base),
             ao_reason := reason, ao_abstained := True, ao_answerable := False, ao_fallback := canonical_fallback reason\<rparr>
      else if ep_excluded evidence \<noteq> [] \<and> ao_status base = ''complete'' then
        base\<lparr>ao_status := ''partial'', ao_reason := ''excluded_evidence'', ao_fallback := canonical_fallback ''excluded_evidence''\<rparr>
      else base)"

definition with_evidence :: "answer_outcome \<Rightarrow> 'i evidence_projection \<Rightarrow> answer_outcome" where
  "with_evidence base evidence =
     (let verdict = evidence_verdict (base\<lparr>ao_exclusions := reason_only_counts (ep_excluded evidence)\<rparr>) evidence;
          reason = safe_reason (ao_reason verdict)
      in verdict\<lparr>ao_reason := reason,
           ao_reason_codes := merge_reason_codes reason (map fst (ao_exclusions verdict))\<rparr>)"

section \<open>Outcome objects and batches\<close>

definition outcome_object :: "string \<Rightarrow> string \<Rightarrow> string \<Rightarrow> bool \<Rightarrow> json" where
  "outcome_object status0 recall_status reason0 answerable0 =
     (let status = (if status0 \<in> set SAFE_OUTCOME_STATUSES then status0 else ''unavailable'');
          abstained = (status = ''abstained'' \<or> status = ''unavailable'' \<or> \<not> answerable0);
          answerable = (answerable0 \<and> \<not> abstained);
          reason = safe_reason reason0
      in JObj ([(''schema_version'', JStr SAFE_OUTCOME_SCHEMA_VERSION), (''status'', JStr status),
          (''recall_status'', JStr (safe_recall_status recall_status)), (''reason'', JStr reason),
          (''reason_codes'', JArr [JStr reason]), (''abstained'', JBool abstained), (''answerable'', JBool answerable)] @
          (if status \<noteq> ''complete''
           then [(''fallback'', JObj [(''mode'', JStr ''canonical_retrieval''), (''reason'', JStr reason)])] else [])))"

definition json_member :: "json \<Rightarrow> string \<Rightarrow> json" where
  "json_member v k = (case v of JObj ms \<Rightarrow> (case map_of ms k of None \<Rightarrow> JNull | Some x \<Rightarrow> x) | _ \<Rightarrow> JNull)"

definition some_status :: "json list \<Rightarrow> string \<Rightarrow> bool" where
  "some_status outcomes s = list_ex (\<lambda>v. json_member v ''status'' = JStr s) outcomes"

definition aggregate_batch_answer_outcome :: "json list \<Rightarrow> nat \<Rightarrow> json" where
  "aggregate_batch_answer_outcome outcomes delivered =
     (if some_status outcomes ''unavailable'' then
        (if delivered > 0 then outcome_object ''partial'' ''partial'' ''partial_recall'' True
         else outcome_object ''unavailable'' ''unavailable'' ''backend_unavailable'' False)
      else if some_status outcomes ''partial'' then
        (if delivered > 0 then outcome_object ''partial'' ''partial'' ''partial_recall'' True
         else outcome_object ''degraded'' ''stale'' ''degraded'' False)
      else if some_status outcomes ''degraded'' then outcome_object ''degraded'' ''stale'' ''degraded'' (delivered > 0)
      else if some_status outcomes ''abstained'' \<or> delivered = 0 then outcome_object ''abstained'' ''empty'' ''no_match'' False
      else outcome_object ''complete'' ''fresh'' [] True)"

end
