(* ===== verification/Answer_Guarantees.thy ===== *)
theory Answer_Guarantees
  imports Safe_Outcome Sufficiency_Guarantees
begin

text \<open>
  What the answer boundary promises: the vocabulary of reasons is closed, every builder produces an
  outcome that validates and carries reasons of the vocabulary only, and the outcome \<open>complete\<close>
  reaches the caller only when the layers underneath were complete.
\<close>

section \<open>Closed vocabularies\<close>

text \<open>
  What the boundary asks of each of its three sanitisers (reasons, recall statuses, fallback modes):
  every result lies in a fixed vocabulary and the words of the vocabulary pass unchanged.
\<close>

locale closed_vocabulary =
  fixes norm :: "'a \<Rightarrow> 'a" and vocab :: "'a set"
  assumes norm_mem: "norm v \<in> vocab"
    and norm_fixed: "v \<in> vocab \<Longrightarrow> norm v = v"
begin

lemma norm_idem: "norm (norm v) = norm v"
  by (simp add: norm_fixed norm_mem)

lemma fixed_iff: "norm v = v \<longleftrightarrow> v \<in> vocab"
  using norm_mem [of v] norm_fixed [of v] by auto

lemma range_norm: "range norm = vocab"
  using norm_mem by (auto intro: norm_fixed [symmetric])

end

interpretation recall_vocab: closed_vocabulary safe_recall_status "set RECALL_STATUSES"
  by unfold_locales (auto simp: safe_recall_status_def RECALL_STATUSES_def)

interpretation mode_vocab: closed_vocabulary safe_fallback_mode "{''abstain'', ''canonical_retrieval''}"
  by unfold_locales (auto simp: safe_fallback_mode_def)

section \<open>The vocabulary of reasons\<close>

definition SAFE_REASONS :: "string list" where
  "SAFE_REASONS = KNOWN_REASONS @ [''unspecified'']"

definition plain_reason :: "string \<Rightarrow> bool" where
  "plain_reason r \<longleftrightarrow> r \<noteq> [] \<and> length r \<le> 256 \<and>
     list_all (\<lambda>c. of_char c < (128::nat) \<and> \<not> is_ascii_uppercase (of_char c) \<and> c \<notin> reason_delims) r \<and>
     \<not> is_whitespace (of_char (hd r)) \<and> \<not> is_whitespace (of_char (last r))"

lemma plain_reasons: "list_all plain_reason SAFE_REASONS"
  by (simp add: SAFE_REASONS_def KNOWN_REASONS_def plain_reason_def is_ascii_uppercase_def is_whitespace_def reason_delims_def)

lemma safe_reason_bounded: "r \<in> set SAFE_REASONS \<Longrightarrow> r \<noteq> [] \<and> length r \<le> 256"
  using plain_reasons by (auto simp: list_all_iff plain_reason_def)

lemma plain_reason_lower:
  assumes "plain_reason r"
  shows "lower_text (trim r) = r" and "trim (takeWhile (\<lambda>c. c \<notin> reason_delims) r) = r"
proof -
  have t: "trim r = r"
    using assms by (intro trim_ascii) (auto simp: plain_reason_def is_ascii_def list_all_iff)
  moreover have "lower_text r = r"
    using assms by (intro lower_text_ascii) (auto simp: plain_reason_def is_ascii_def list_all_iff)
  ultimately show "lower_text (trim r) = r" by simp
  have "takeWhile (\<lambda>c. c \<notin> reason_delims) r = r"
    using assms by (simp add: plain_reason_def list_all_iff takeWhile_eq_all_conv)
  with t show "trim (takeWhile (\<lambda>c. c \<notin> reason_delims) r) = r" by (simp only:)
qed

lemma safe_reason_closed [simp]: "safe_reason v \<in> set SAFE_REASONS"
proof -
  have "{''unavailable'', ''unresolved_conflict'', ''superseded'', ''expired'', ''stale_evidence'', ''out_of_scope'',
      ''unspecified''} \<subseteq> set SAFE_REASONS"
    by (simp add: SAFE_REASONS_def KNOWN_REASONS_def)
  moreover have "set KNOWN_REASONS \<subseteq> set SAFE_REASONS" by (auto simp: SAFE_REASONS_def)
  ultimately show ?thesis unfolding safe_reason_def Let_def by (auto simp only: insert_subset split: if_splits)
qed

lemma unspecified_contains:
  "\<not> contains ''unspecified'' ''unavailable''" "\<not> contains ''unspecified'' ''database''"
  "\<not> contains ''unspecified'' ''lookup failed''" "\<not> contains ''unspecified'' ''serialization failed''"
  "\<not> contains ''unspecified'' ''conflict''" "\<not> contains ''unspecified'' ''supersed''"
  "\<not> contains ''unspecified'' ''expire''" "\<not> contains ''unspecified'' ''stale''"
  "\<not> contains ''unspecified'' ''scope''" "\<not> contains ''unspecified'' ''invisible''"
  by simp_all

lemma safe_reason_fixed [simp]: "r \<in> set SAFE_REASONS \<Longrightarrow> safe_reason r = r"
proof -
  assume r: "r \<in> set SAFE_REASONS"
  then have p: "plain_reason r" using plain_reasons by (simp add: list_all_iff)
  show ?thesis
  proof (cases "r \<in> set KNOWN_REASONS")
    case True
    then show ?thesis by (simp add: safe_reason_def Let_def plain_reason_lower [OF p])
  next
    case False
    with r have "r = ''unspecified''" by (simp add: SAFE_REASONS_def)
    with False p show ?thesis
      by (simp only: safe_reason_def Let_def plain_reason_lower unspecified_contains if_False simp_thms)
  qed
qed

interpretation reason_vocab: closed_vocabulary safe_reason "set SAFE_REASONS"
  by unfold_locales simp_all

lemma literal_reasons:
  "set [''context assembled'', ''context_truncated'', ''no_match'', ''no_query'', ''unavailable'', ''stale_evidence'',
     ''deadline_elapsed'', ''partial_recall'', ''task_state_complete'', ''task_state_partial'', ''task_state_degraded'',
     ''unresolved_conflict'', ''missing_evidence'', ''no_evidence'', ''task_state_unavailable'', ''rejected_evidence'',
     ''unresolved_evidence'', ''superseded'', ''expired'', ''revoked'', ''stale'', ''out_of_scope'', ''invisible'',
     ''invalid_evidence'', ''unavailable_evidence'', ''excluded_evidence''] \<subseteq> set SAFE_REASONS"
  by (simp add: SAFE_REASONS_def KNOWN_REASONS_def)

lemmas literal_reason [simp] = literal_reasons [unfolded list.set insert_subset, THEN conjunct1]
  literal_reasons [unfolded list.set insert_subset]

section \<open>Merging codes and counts\<close>

lemma merge_loop_ok:
  assumes "set result \<subseteq> set SAFE_REASONS" and "distinct result" and "length result < 16"
  shows "set (merge_loop result vs) \<subseteq> set SAFE_REASONS \<and> distinct (merge_loop result vs) \<and>
    length (merge_loop result vs) \<le> 16 \<and> set result \<subseteq> set (merge_loop result vs)"
  using assms
proof (induction vs arbitrary: result)
  case (Cons v vs)
  let ?r = "if safe_reason v \<in> set result then result else result @ [safe_reason v]"
  show ?case
  proof (cases "length ?r \<ge> 16")
    case True
    with Cons.prems show ?thesis by (auto simp: Let_def)
  next
    case False
    have "set ?r \<subseteq> set SAFE_REASONS" "distinct ?r" "length ?r < 16" "set result \<subseteq> set ?r"
      using Cons.prems False by auto
    from Cons.IH [OF this(1-3)] this(4) False show ?thesis by (auto simp: Let_def)
  qed
qed simp

lemma merge_reason_codes_ok:
  assumes "r \<in> set SAFE_REASONS"
  shows "set (merge_reason_codes r vs) \<subseteq> set SAFE_REASONS \<and> distinct (merge_reason_codes r vs) \<and>
    length (merge_reason_codes r vs) \<le> 16 \<and> r \<in> set (merge_reason_codes r vs)"
  using merge_loop_ok [of "[r]" vs] assms by (simp add: merge_reason_codes_def Let_def)

lemma count_loop_safe:
  "fst ` set result \<subseteq> set SAFE_REASONS \<Longrightarrow> fst ` set (count_loop result xs) \<subseteq> set SAFE_REASONS"
  by (induction result xs rule: count_loop.induct) auto

lemma reason_only_counts_safe: "fst ` set (reason_only_counts exclusions) \<subseteq> set SAFE_REASONS"
  by (simp add: reason_only_counts_def count_loop_safe)

section \<open>The contract of an answer\<close>

definition fallback_ok :: "safe_fallback \<Rightarrow> bool" where
  "fallback_ok f \<longleftrightarrow> sf_mode f \<in> {''abstain'', ''canonical_retrieval''} \<and> sf_reason f \<in> set SAFE_REASONS"

definition codes_ok :: "answer_outcome \<Rightarrow> bool" where
  "codes_ok a \<longleftrightarrow> set (ao_reason_codes a) \<subseteq> set SAFE_REASONS \<and> distinct (ao_reason_codes a) \<and>
     length (ao_reason_codes a) \<le> 16 \<and> ao_reason a \<in> set (ao_reason_codes a)"

text \<open>Status and answerability agree, and an answer that is not complete names a fallback.\<close>

definition status_ok :: "answer_outcome \<Rightarrow> bool" where
  "status_ok a \<longleftrightarrow> ao_status a \<in> set SAFE_OUTCOME_STATUSES \<and>
     (ao_status a = ''complete'' \<longrightarrow> ao_answerable a \<and> \<not> ao_abstained a) \<and>
     (ao_status a \<in> {''abstained'', ''unavailable''} \<longrightarrow> ao_abstained a \<and> \<not> ao_answerable a) \<and>
     (ao_status a \<noteq> ''complete'' \<longrightarrow> ao_fallback a \<noteq> None)"

text \<open>Nothing but words of the vocabularies, counts and digests.\<close>

definition reason_only :: "answer_outcome \<Rightarrow> bool" where
  "reason_only a \<longleftrightarrow> ao_recall_status a \<in> set RECALL_STATUSES \<and> fst ` set (ao_exclusions a) \<subseteq> set SAFE_REASONS \<and>
     (\<forall>f\<in>set_option (ao_fallback a). fallback_ok f) \<and>
     (\<forall>c\<in>set (ao_conflicts a). cs_reason c \<in> set SAFE_REASONS \<and> lower_hex64 (cs_references_sha256 c))"

definition answer_ok :: "answer_outcome \<Rightarrow> bool" where
  "answer_ok a \<longleftrightarrow> ao_schema_version a = SAFE_OUTCOME_SCHEMA_VERSION \<and> status_ok a \<and> codes_ok a \<and> reason_only a"

lemma answer_ok_validates:
  assumes "answer_ok a"
  shows "answer_validate a = Inr ()"
proof -
  have "ao_reason a \<in> set SAFE_REASONS" using assms by (auto simp: answer_ok_def codes_ok_def)
  moreover have "\<not> list_ex (\<lambda>r. r = [] \<or> length r > 256 \<or> r \<noteq> safe_reason r) (ao_reason_codes a)"
    using assms safe_reason_bounded by (fastforce simp: answer_ok_def codes_ok_def list_ex_iff)
  ultimately show ?thesis
    using assms safe_reason_bounded [of "ao_reason a"]
    unfolding answer_validate_def check_all_Inr list.pred_inject guard_r_Inr
    by (auto simp: answer_ok_def status_ok_def codes_ok_def)
qed

section \<open>Every builder keeps the contract\<close>

lemma canonical_fallback_ok: "canonical_fallback r = Some f \<Longrightarrow> r \<in> set SAFE_REASONS \<Longrightarrow> fallback_ok f"
  by (auto simp: canonical_fallback_def fallback_ok_def)

lemma answer_new_ok:
  assumes "status \<in> set SAFE_OUTCOME_STATUSES"
    and "status = ''complete'' \<longrightarrow> answerable \<and> \<not> abstained"
    and "status \<in> {''abstained'', ''unavailable''} \<longrightarrow> abstained \<and> \<not> answerable"
    and "status \<noteq> ''complete'' \<longrightarrow> fallback \<noteq> None"
  shows "answer_ok (answer_new status recall_status reason abstained answerable fallback)"
  (is "answer_ok ?a")
proof -
  have "status_ok ?a"
    using assms by (cases fallback) (simp_all add: status_ok_def answer_new_def)
  moreover have "codes_ok ?a" by (simp add: codes_ok_def answer_new_def)
  moreover have "fallback_ok \<lparr>sf_mode = safe_fallback_mode m, sf_reason = safe_reason r\<rparr>" for m r
    using mode_vocab.norm_mem [of m] by (simp add: fallback_ok_def)
  then have "reason_only ?a"
    using recall_vocab.norm_mem [of recall_status] by (cases fallback) (simp_all add: reason_only_def answer_new_def)
  ultimately show ?thesis by (simp add: answer_ok_def answer_new_def)
qed

text \<open>Replacing exclusions, conflicts and codes keeps the rest of the contract.\<close>

lemma answer_ok_detail:
  assumes "answer_ok a" and "fst ` set exclusions \<subseteq> set SAFE_REASONS"
    and "\<forall>c\<in>set conflicts. cs_reason c \<in> set SAFE_REASONS \<and> lower_hex64 (cs_references_sha256 c)"
  shows "answer_ok (a\<lparr>ao_exclusions := exclusions, ao_conflicts := conflicts,
    ao_reason_codes := merge_reason_codes (ao_reason a) vs\<rparr>)"
proof -
  have "ao_reason a \<in> set SAFE_REASONS" using assms(1) by (auto simp: answer_ok_def codes_ok_def)
  from merge_reason_codes_ok [OF this, of vs] assms show ?thesis
    by (simp add: answer_ok_def status_ok_def codes_ok_def reason_only_def)
qed

lemma statuses [simp]:
  "''complete'' \<in> set SAFE_OUTCOME_STATUSES" "''partial'' \<in> set SAFE_OUTCOME_STATUSES"
  "''degraded'' \<in> set SAFE_OUTCOME_STATUSES" "''abstained'' \<in> set SAFE_OUTCOME_STATUSES"
  "''unavailable'' \<in> set SAFE_OUTCOME_STATUSES"
  by (simp_all add: SAFE_OUTCOME_STATUSES_def)

lemma canonical_fallback_not_None [simp]: "canonical_fallback r \<noteq> None"
  by (simp add: canonical_fallback_def)

lemma for_context_ok: "answer_ok (for_context query injected truncated)"
  unfolding for_context_def Let_def
  by (cases query; cases "injected > 0"; cases truncated) (auto intro!: answer_new_ok)

lemma for_recall_ok: "answer_ok (for_recall recall hits)"
  by (cases "ro_status recall")
    (auto simp: for_recall_def recall_verdict_def Let_def intro!: answer_new_ok)

lemma unavailable_answer_ok: "answer_ok (unavailable_answer reason)"
  by (auto simp: unavailable_answer_def intro!: answer_new_ok)

lemma with_context_delivery_ok: "answer_ok a \<Longrightarrow> answer_ok (with_context_delivery a truncated)"
  by (auto simp: with_context_delivery_def answer_ok_def status_ok_def codes_ok_def reason_only_def canonical_fallback_def
      fallback_ok_def)

lemma failure_reason_safe [simp]: "failure_reason error \<in> set SAFE_REASONS"
  by (simp add: failure_reason_def Let_def)

lemma for_task_failure_ok: "answer_ok (for_task_failure error)"
proof -
  define a where "a = answer_new
    (if failure_reason error = ''unavailable_evidence'' \<or> failure_reason error = ''backend_unavailable''
     then ''unavailable'' else ''abstained'')
    (if failure_reason error = ''unavailable_evidence'' \<or> failure_reason error = ''backend_unavailable''
     then ''unavailable'' else ''stale'') (failure_reason error) True False (canonical_fallback (failure_reason error))"
  have "answer_ok a" unfolding a_def by (rule answer_new_ok) auto
  moreover have "for_task_failure error = a\<lparr>ao_exclusions := [(failure_reason error, 1)]\<rparr>"
    by (simp add: for_task_failure_def a_def Let_def)
  ultimately show ?thesis
    by (simp add: answer_ok_def status_ok_def codes_ok_def reason_only_def)
qed

lemma for_task_ok:
  assumes "sha256_32 env"
  shows "answer_ok (for_task env outcome fallback accepted rejected unresolved missing conflicts)"
  unfolding for_task_def Let_def
proof (rule answer_ok_detail, goal_cases)
  case 1
  show ?case by (rule answer_new_ok) (cases outcome; cases fallback; simp)+
qed (use assms in \<open>auto simp: task_exclusions_def conflict_summary_def Let_def split: if_splits\<close>)

lemma for_sufficiency_ok:
  assumes "sha256_32 env" and "sufficiency_evaluate env rs cs recall query = Inr report"
  shows "answer_ok (for_sufficiency report)"
  unfolding for_sufficiency_def Let_def
proof (rule answer_ok_detail, goal_cases)
  case 1
  have "rp_outcome report \<noteq> SComplete \<Longrightarrow> rp_fallback report \<noteq> None"
    using assms by (auto simp: sufficiency_evaluate_Inr build_report_def suff_fallback_def)
  then show ?case by (intro answer_new_ok) (cases "rp_outcome report"; simp)+
next
  case 3
  show ?case
    using assms by (auto simp: sufficiency_evaluate_Inr build_report_def suff_conflict_summary_def Let_def)
qed auto

lemma withheld_ok:
  assumes "answer_ok a" and "reason \<in> set SAFE_REASONS"
    and "status \<in> {''abstained'', ''unavailable''}" and "recall \<in> set RECALL_STATUSES"
  shows "answer_ok (a\<lparr>ao_status := status, ao_recall_status := recall, ao_abstained := True, ao_answerable := False,
    ao_fallback := canonical_fallback reason, ao_reason := reason, ao_reason_codes := merge_reason_codes reason vs\<rparr>)"
  using assms merge_reason_codes_ok [OF assms(2), of vs]
  by (auto simp: answer_ok_def status_ok_def codes_ok_def reason_only_def canonical_fallback_def fallback_ok_def)

lemma evidence_verdict_ok:
  assumes "answer_ok a"
  shows "answer_ok (evidence_verdict a ev\<lparr>ao_reason := safe_reason (ao_reason (evidence_verdict a ev)),
    ao_reason_codes := merge_reason_codes (safe_reason (ao_reason (evidence_verdict a ev))) vs\<rparr>)"
proof -
  have r: "ao_reason a \<in> set SAFE_REASONS" using assms by (auto simp: answer_ok_def codes_ok_def)
  have recall: "ao_recall_status a \<in> set RECALL_STATUSES" using assms by (simp add: answer_ok_def reason_only_def)
  show ?thesis
  proof (cases "ep_items ev")
    case Nil
    define reason where "reason = (case ep_excluded ev of (r, _) # _ \<Rightarrow> safe_reason r
      | [] \<Rightarrow> if ao_status a = ''unavailable'' then ao_reason a else ''no_evidence'')"
    define u where "u \<longleftrightarrow> ao_status a = ''unavailable'' \<or> ao_recall_status a = ''unavailable'' \<or>
      reason = ''unavailable'' \<or> reason = ''unavailable_evidence''"
    have m: "reason \<in> set SAFE_REASONS" using r by (auto simp: reason_def split: list.splits)
    have v: "evidence_verdict a ev = a\<lparr>ao_status := if u then ''unavailable'' else ''abstained'',
        ao_recall_status := if u then ''unavailable'' else ao_recall_status a, ao_reason := reason, ao_abstained := True,
        ao_answerable := False, ao_fallback := canonical_fallback reason\<rparr>"
      unfolding evidence_verdict_def u_def reason_def by (simp add: Nil Let_def)
    show ?thesis
      using withheld_ok [OF assms m, of "if u then ''unavailable'' else ''abstained''"
          "if u then ''unavailable'' else ao_recall_status a" vs] recall m
      by (simp add: v RECALL_STATUSES_def)
  next
    case Cons
    have "answer_ok (a\<lparr>ao_reason_codes := merge_reason_codes (ao_reason a) vs\<rparr>)"
      using assms merge_reason_codes_ok [OF r, of vs]
      by (simp add: answer_ok_def status_ok_def codes_ok_def reason_only_def)
    moreover have "answer_ok (a\<lparr>ao_status := ''partial'', ao_reason := ''excluded_evidence'',
        ao_fallback := canonical_fallback ''excluded_evidence'',
        ao_reason_codes := merge_reason_codes ''excluded_evidence'' vs\<rparr>)"
      using assms merge_reason_codes_ok [of "''excluded_evidence''" vs]
      by (auto simp: answer_ok_def status_ok_def codes_ok_def reason_only_def canonical_fallback_def fallback_ok_def)
    ultimately show ?thesis using r by (auto simp: evidence_verdict_def Cons)
  qed
qed

lemma with_evidence_ok: "answer_ok a \<Longrightarrow> answer_ok (with_evidence a ev)"
proof -
  assume "answer_ok a"
  then have "answer_ok (a\<lparr>ao_exclusions := reason_only_counts (ep_excluded ev)\<rparr>)"
    using reason_only_counts_safe by (simp add: answer_ok_def status_ok_def codes_ok_def reason_only_def)
  then show ?thesis unfolding with_evidence_def Let_def by (rule evidence_verdict_ok)
qed

section \<open>The answers the server gives\<close>

text \<open>Every way the handlers build an answer; the items of a projection are JSON values.\<close>

inductive served_answer :: "digest_env \<Rightarrow> answer_outcome \<Rightarrow> bool" for env where
  plain_context: "served_answer env (for_context query injected truncated)"
| sufficiency: "sufficiency_evaluate env rs cs recall query = Inr report \<Longrightarrow> served_answer env (for_sufficiency report)"
| delivery: "served_answer env a \<Longrightarrow> served_answer env (with_context_delivery a truncated)"
| recall: "served_answer env (for_recall recall hits)"
| task: "served_answer env (for_task env outcome fallback accepted rejected unresolved missing conflicts)"
| failure: "served_answer env (for_task_failure error)"
| unavailable: "served_answer env (unavailable_answer reason)"
| evidence: "served_answer env a \<Longrightarrow> served_answer env (with_evidence a (ev :: json evidence_projection))"

lemma served_answer_ok: "served_answer env a \<Longrightarrow> sha256_32 env \<Longrightarrow> answer_ok a"
  by (induction rule: served_answer.induct)
    (auto intro: for_context_ok for_sufficiency_ok with_context_delivery_ok for_recall_ok for_task_ok for_task_failure_ok
      unavailable_answer_ok with_evidence_ok)

text \<open>C20.
  Whatever chain of builders an answer comes from, it passes its own validation: the status is one of
  the five, complete answers are answerable, abstained and unavailable ones are not, and an answer that
  is not complete names a fallback. And it discloses nothing but words of the fixed vocabularies, counts
  and digests: at most sixteen distinct reason codes, every reason of a code, an exclusion, a conflict or
  the fallback one of the 59 known words, and a commitment of 64 hexadecimal digits for each conflict,
  whatever text the error, the recall or the evidence carried.
\<close>

theorem answers_validate_and_disclose_reasons_only:
  assumes "sha256_32 env" and "served_answer env a"
  shows "answer_validate a = Inr () \<and> codes_ok a \<and> reason_only a"
  using served_answer_ok [OF assms(2,1)] answer_ok_validates [of a] by (simp add: answer_ok_def)

theorem answers_validate_and_disclose_reasons_only_witness:
  "answer_validate (with_evidence (for_task_failure ''lookup failed: secret'')
     (\<lparr>ep_items = [], ep_excluded = [(''secret path'', 1)]\<rparr> :: json evidence_projection)) = Inr ()"
  using answers_validate_and_disclose_reasons_only [OF sha256_32_sample_env
      served_answer.evidence [OF served_answer.failure, of _ "''lookup failed: secret''" "\<lparr>ep_items = [], ep_excluded = [(''secret path'', 1)]\<rparr>"]]
  by simp

section \<open>Complete answers\<close>

lemma sufficiency_str_complete: "sufficiency_str x = ''complete'' \<longleftrightarrow> x = SComplete"
  by (cases x) simp_all

lemma context_answer_complete:
  "ao_status (context_answer (Some report) query injected truncated) = ''complete'' \<longleftrightarrow>
     rp_outcome report = SComplete \<and> \<not> truncated"
  by (auto simp: context_answer_def with_context_delivery_def for_sufficiency_def Let_def answer_new_def
      sufficiency_str_complete)

text \<open>C19.
  A context answer is complete only over evidence that was really there. When a task declared its
  requirements, the answer is complete exactly when the rendered block was not cut, and every
  requirement is met; and then each required record was delivered, is served to this requester by the
  governed lookup, lies in the workspace of the request, has not expired, and each temporal anchor is
  readable and in force at the declared time.
\<close>

theorem complete_context_answer_is_backed:
  assumes "sha256_32 (ge_digest env)"
    and "evaluate_context_requirements env td now rs candidate_ids delivered_ids query workspace who recall = Inr report"
    and "ao_status (context_answer (Some report) (Some query) injected truncated) = ''complete''"
  shows "\<not> truncated \<and> rs_conflicts rs = [] \<and>
    (\<forall>i\<in>set (rs_required rs). i \<in> set delivered_ids \<and>
      (\<exists>e. get_entity_by_id_for_requester env (gate_of td) now i who = Inr (Some e) \<and>
        scope_allows (en_workspace_hash e) workspace \<and> \<not> expired_by env (en_body_json e) now \<and>
        (i \<in> set (rs_temporal rs) \<longrightarrow> temporal_ok env td now e (rs_anchor rs) workspace who = Inr True)))"
proof -
  have c: "rp_outcome report = SComplete" "\<not> truncated"
    using assms(3) by (simp_all add: context_answer_complete)
  have "rs_conflicts rs = []"
    using assms(1,2) c(1)
    by (auto simp: evaluate_context_requirements_def bind_r_Inr Let_def sufficiency_evaluate_Inr build_report_def decide_complete)
  with c complete_report_is_backed_by_reads [OF assms(1,2) c(1)] show ?thesis by blast
qed

theorem complete_context_answer_is_backed_witness:
  "\<exists>e. get_entity_by_id_for_requester sample_gate_env (gate_of backed_store) 5 ''e1'' (Some ''a1'') = Inr (Some e) \<and>
     \<not> expired_by sample_gate_env (en_body_json e) 5"
proof -
  obtain report where r: "sufficiency_evaluate sample_env sample_requirements [sample_candidate] sample_recall ''q'' = Inr report"
    by (rule sample_evaluation)
  then have c: "evaluate_context_requirements sample_gate_env backed_store 5 sample_requirements [''e1''] [''e1''] ''q'' None
      (Some ''a1'') sample_recall = Inr report"
    by (simp add: sample_context)
  have h: "sha256_32 (ge_digest sample_gate_env)" using sha256_32_sample_env by (simp add: sample_gate_env_def)
  have "ao_status (context_answer (Some report) (Some ''q'') 1 False) = ''complete''"
    using sample_complete [OF r] by (simp add: context_answer_complete)
  from complete_context_answer_is_backed [OF h c this] show ?thesis
    by (auto simp: sample_requirements_def)
qed

lemma for_recall_sel:
  "ao_status (for_recall r n) = fst (recall_verdict r n)"
  "ao_abstained (for_recall r n) = fst (snd (recall_verdict r n))"
  "ao_answerable (for_recall r n) = snd (snd (recall_verdict r n))"
  "ao_reason (for_recall r n) = safe_reason (if ro_reason r = [] then default_recall_reason (ro_status r) n else ro_reason r)"
  by (simp_all add: for_recall_def Let_def answer_new_def split: prod.splits)

lemma recall_verdict_complete:
  "fst (recall_verdict r n) = ''complete'' \<longleftrightarrow> \<not> ro_abstained r \<and> ro_status r = RFresh \<and> n > 0"
  by (cases "ro_status r") (simp_all add: recall_verdict_def)

lemma recall_verdict_answerable:
  "snd (snd (recall_verdict r n)) \<longleftrightarrow> \<not> ro_abstained r \<and> n > 0 \<and> ro_status r \<notin> {REmpty, RUnavailable}"
  by (cases "ro_status r") (simp_all add: recall_verdict_def)

text \<open>
  The answer to a recall, from the health of the server on. It is complete exactly when records were
  found and delivered, no error stopped the recall, the deadline held, and the requested arms served
  with no embedding job waiting; and it is answerable at all only when something was delivered and
  no error stopped the recall.
\<close>

theorem recall_answer_complete_iff_healthy:
  "let a = for_recall (apply_recall_deadline (recall_outcome h mode q hits err) elapsed) delivered in
     (ao_status a = ''complete'' \<longleftrightarrow> hits > 0 \<and> delivered > 0 \<and> err = None \<and> \<not> elapsed \<and>
        (mode = Fts5 \<or> q \<and> rh_pending h \<le> 0)) \<and>
     (ao_answerable a \<longleftrightarrow> hits > 0 \<and> delivered > 0 \<and> err = None \<and>
        (mode = Fts5 \<or> mode = Fused \<or> q \<or> snd (snd (readiness h)) \<noteq> 0))"
  unfolding Let_def for_recall_sel recall_verdict_complete recall_verdict_answerable
  by (cases err; cases mode)
    (auto simp: recall_outcome_def recall_outcome_inner_def plain_outcome_def apply_recall_deadline_def Let_def
      split: prod.splits if_splits)

theorem recall_answer_complete_iff_healthy_witness:
  "ao_status (for_recall (apply_recall_deadline (recall_outcome sample_health Fts5 True 2 None) False) 2) = ''complete''"
  using recall_answer_complete_iff_healthy [of sample_health Fts5 True 2 None False 2] by (simp add: Let_def)

lemma fresh_reason: "ro_status (recall_outcome h mode q hits err) = RFresh \<Longrightarrow> ro_reason (recall_outcome h mode q hits err) = []"
  by (cases err; cases "readiness h"; cases mode)
    (auto simp: recall_outcome_def recall_outcome_inner_def plain_outcome_def Let_def split: if_splits)

text \<open>
  A healthy recall has no reason of its own, so its complete answer carries the default of the fresh
  status, and says that nothing matched.
\<close>

theorem complete_recall_says_no_match:
  assumes "ao_status (for_recall (apply_recall_deadline (recall_outcome h mode q hits err) elapsed) delivered) = ''complete''"
  shows "ao_reason (for_recall (apply_recall_deadline (recall_outcome h mode q hits err) elapsed) delivered) = ''no_match''"
proof -
  let ?r = "apply_recall_deadline (recall_outcome h mode q hits err) elapsed"
  have r: "ro_status ?r = RFresh" using assms by (simp only: for_recall_sel recall_verdict_complete)
  then have "ro_status (recall_outcome h mode q hits err) = RFresh" and eq: "?r = recall_outcome h mode q hits err"
    by (auto simp: apply_recall_deadline_def split: if_splits)
  then have "ro_reason (recall_outcome h mode q hits err) = []" by (intro fresh_reason)
  with r eq show ?thesis by (simp add: for_recall_sel)
qed

section \<open>Batches\<close>

lemma object_status:
  "s \<in> set SAFE_OUTCOME_STATUSES \<Longrightarrow> json_member (outcome_object s recall reason ok) ''status'' = JStr s"
  by (simp add: outcome_object_def json_member_def Let_def)

text \<open>
  A batch is complete only when something was delivered and every query of it was.
\<close>

theorem batch_complete_iff:
  assumes "\<forall>v\<in>set outcomes. \<exists>s\<in>set SAFE_OUTCOME_STATUSES. json_member v ''status'' = JStr s"
  shows "json_member (aggregate_batch_answer_outcome outcomes delivered) ''status'' = JStr ''complete'' \<longleftrightarrow>
    delivered > 0 \<and> (\<forall>v\<in>set outcomes. json_member v ''status'' = JStr ''complete'')"
proof -
  have "(\<forall>v\<in>set outcomes. json_member v ''status'' = JStr ''complete'') \<longleftrightarrow>
      \<not> some_status outcomes ''unavailable'' \<and> \<not> some_status outcomes ''partial'' \<and>
      \<not> some_status outcomes ''degraded'' \<and> \<not> some_status outcomes ''abstained''"
    using assms by (fastforce simp: some_status_def list_ex_iff SAFE_OUTCOME_STATUSES_def)
  then show ?thesis
    by (simp add: aggregate_batch_answer_outcome_def object_status)
qed

end
