(* ===== verification/Lineage_Policy.thy ===== *)
theory Lineage_Policy
  imports Json
begin

text \<open>
  The action lineages of \<open>src/src/task_lineage.rs\<close>: requests and continuation references, the
  cumulative state of a lineage, the policy read from the constraints of an authority manifest,
  receipts and their digests, and the decision on one action. Reading JSON text and decoding a stored
  state are functions of the environment; a request that is written out and read back for its
  validation is the same request.
\<close>

definition LINEAGE_SCHEMA_VERSION :: int where "LINEAGE_SCHEMA_VERSION = 1"
definition DEFAULT_BUDGET_LIMIT :: int where "DEFAULT_BUDGET_LIMIT = 100"
definition DEFAULT_IMPACT_LIMIT :: int where "DEFAULT_IMPACT_LIMIT = 100"
definition MAX_POLICY_LIMIT :: int where "MAX_POLICY_LIMIT = 1000000"
definition MAX_HISTORY :: nat where "MAX_HISTORY = 64"

section \<open>Requests\<close>

record continuation_reference =
  lr_schema_version :: int
  lr_lineage_id :: string
  lr_parent_head_digest :: string
  lr_state_digest :: string
  lr_workspace_hash :: string
  lr_agent_id :: string
  lr_manifest_version :: int
  lr_policy_version :: string

record lineage_request =
  lq_schema_version :: int
  lq_transition :: string
  lq_action_class :: string
  lq_budget_cost :: int
  lq_impact_units :: int
  lq_continuation :: "continuation_reference option"

definition ACTION_CLASSES :: "string list" where
  "ACTION_CLASSES = [''read'', ''external_send'', ''write'', ''delete'', ''other'']"

definition within :: "int \<Rightarrow> int \<Rightarrow> bool" where
  "within limit n \<longleftrightarrow> 0 \<le> n \<and> n \<le> limit"

definition validate_reference :: "continuation_reference \<Rightarrow> unit result" where
  "validate_reference r = guard_r
     (lr_schema_version r \<noteq> LINEAGE_SCHEMA_VERSION \<or> lr_manifest_version r < 1 \<or>
      lr_lineage_id r = [] \<or> length (lr_lineage_id r) > 128 \<or>
      lr_workspace_hash r = [] \<or> length (lr_workspace_hash r) > 256 \<or>
      lr_agent_id r = [] \<or> length (lr_agent_id r) > 256 \<or>
      \<not> lower_hex64 (lr_parent_head_digest r) \<or> \<not> lower_hex64 (lr_state_digest r) \<or> \<not> lower_hex64 (lr_policy_version r))
     ''lineage request malformed''"

text \<open>The checks of \<open>parse_request\<close> after the decoding, which \<open>validate_request\<close> runs again.\<close>

definition validate_lineage_request :: "lineage_request \<Rightarrow> unit result" where
  "validate_lineage_request q = check_all
     [guard_r (lq_schema_version q \<noteq> LINEAGE_SCHEMA_VERSION) ''lineage request malformed'',
      guard_r (lq_transition q \<noteq> ''continue'' \<and> lq_transition q \<noteq> ''new_authorization'') ''lineage request malformed'',
      guard_r (lq_action_class q = [] \<or> length (lq_action_class q) > 32) ''lineage request malformed'',
      guard_r (lq_action_class q \<notin> set ACTION_CLASSES) ''lineage request malformed'',
      guard_r (\<not> within 1000000 (lq_budget_cost q) \<or> \<not> within 1000000 (lq_impact_units q)) ''lineage request malformed'',
      (case lq_continuation q of
         Some r \<Rightarrow> validate_reference r
       | None \<Rightarrow> guard_r (lq_transition q = ''continue'') ''lineage request malformed'')]"

section \<open>State and policy\<close>

record lineage_state =
  ls_schema_version :: int
  ls_action_classes :: "string list"
  ls_automaton_state :: string
  ls_budget_spent :: int
  ls_impact_units :: int
  ls_last_action_digest :: string

record lineage_env =
  le_digest :: digest_env
  le_parse_json :: "string \<Rightarrow> json option"
  le_decode_state :: "string \<Rightarrow> lineage_state option"

definition initial_state :: lineage_state where
  "initial_state = \<lparr>ls_schema_version = LINEAGE_SCHEMA_VERSION, ls_action_classes = [], ls_automaton_state = ''empty'',
     ls_budget_spent = 0, ls_impact_units = 0, ls_last_action_digest = []\<rparr>"

record lineage_policy =
  lp_budget_limit :: int
  lp_impact_limit :: int
  lp_deny_read_then_external_send :: bool

definition FORBIDDEN_KEYS :: "string list" where
  "FORBIDDEN_KEYS =
     [''raw_arguments'', ''tool_arguments'', ''credentials'', ''prompt'', ''prompts'', ''token'', ''tokens'', ''secret'',
      ''secrets'', ''provider_response'', ''api_key'', ''access_token'', ''authorization'', ''password'', ''private_key'',
      ''body'', ''body_json'', ''memory_body'', ''tool_payload'', ''sensitive_output'']"

definition lower_bytes :: "string \<Rightarrow> string" where
  "lower_bytes s = map (\<lambda>c. char_of (to_ascii_lowercase (of_char c))) s"

fun contains_forbidden_key :: "json \<Rightarrow> bool" where
  "contains_forbidden_key (JObj ms) \<longleftrightarrow>
     (\<exists>m\<in>set ms. lower_bytes (fst m) \<in> set FORBIDDEN_KEYS \<or> contains_forbidden_key (snd m))"
| "contains_forbidden_key (JArr vs) \<longleftrightarrow> (\<exists>v\<in>set vs. contains_forbidden_key v)"
| "contains_forbidden_key v \<longleftrightarrow> False"

definition policy_malformed :: "'a result" where
  "policy_malformed = Inl ''lineage policy malformed''"

definition policy_limit :: "json \<Rightarrow> int result" where
  "policy_limit v = (case v of
     JInt n \<Rightarrow> if in_i64 n \<and> within MAX_POLICY_LIMIT n then Inr n else policy_malformed
   | _ \<Rightarrow> policy_malformed)"

definition config_field :: "(string \<times> json) list \<Rightarrow> string \<Rightarrow> (json \<Rightarrow> 'a result) \<Rightarrow> 'a \<Rightarrow> 'a result" where
  "config_field ms key f d = (case map_of ms key of None \<Rightarrow> Inr d | Some v \<Rightarrow> f v)"

definition as_bool :: "json \<Rightarrow> bool result" where
  "as_bool v = (case v of JBool b \<Rightarrow> Inr b | _ \<Rightarrow> policy_malformed)"

definition policy_config :: "(string \<times> json) list \<Rightarrow> lineage_policy result" where
  "policy_config ms = (case map_of ms ''__aar_lineage__'' of
     None \<Rightarrow> Inr \<lparr>lp_budget_limit = DEFAULT_BUDGET_LIMIT, lp_impact_limit = DEFAULT_IMPACT_LIMIT,
               lp_deny_read_then_external_send = True\<rparr>
   | Some (JObj cs) \<Rightarrow>
       if set (map fst cs) \<subseteq> {''budget_limit'', ''impact_limit'', ''deny_read_then_external_send''}
       then bind_r (config_field cs ''budget_limit'' policy_limit DEFAULT_BUDGET_LIMIT) (\<lambda>budget.
            bind_r (config_field cs ''impact_limit'' policy_limit DEFAULT_IMPACT_LIMIT) (\<lambda>impact.
            bind_r (config_field cs ''deny_read_then_external_send'' as_bool True) (\<lambda>deny.
              Inr \<lparr>lp_budget_limit = budget, lp_impact_limit = impact, lp_deny_read_then_external_send = deny\<rparr>)))
       else policy_malformed
   | Some _ \<Rightarrow> policy_malformed)"

definition lineage_canonical :: "digest_env \<Rightarrow> json \<Rightarrow> string" where
  "lineage_canonical env v = json_text env (canonical_value v)"

definition policy_for_constraints :: "lineage_env \<Rightarrow> string \<Rightarrow> (string \<times> lineage_policy) result" where
  "policy_for_constraints env raw =
     (case le_parse_json env raw of
        Some (JObj ms) \<Rightarrow>
          if contains_forbidden_key (JObj ms) then Inl ''lineage policy contains forbidden fields''
          else bind_r (policy_config ms) (\<lambda>policy.
            Inr (sha256_hex (le_digest env)
              (''perseus-vault/action-lineage-policy/v1|'' @ lineage_canonical (le_digest env) (JObj ms)), policy))
      | _ \<Rightarrow> policy_malformed)"

section \<open>Digests and receipts\<close>

record lineage_receipt =
  lt_schema_version :: int
  lt_transition_id :: string
  lt_action_id :: string
  lt_lineage_id :: string
  lt_parent_lineage_id :: string
  lt_parent_head_digest :: string
  lt_head_digest :: string
  lt_state_digest :: string
  lt_workspace_hash :: string
  lt_agent_id :: string
  lt_manifest_id :: string
  lt_manifest_version :: int
  lt_policy_version :: string
  lt_outcome :: string
  lt_reason_code :: string
  lt_budget_spent :: int
  lt_impact_units :: int
  lt_budget_limit :: int
  lt_impact_limit :: int
  lt_expires_at :: "int option"
  lt_revoked_at :: "int option"

definition compute_head_digest ::
    "digest_env \<Rightarrow> string \<Rightarrow> string \<Rightarrow> string \<Rightarrow> string \<Rightarrow> string \<Rightarrow> string \<Rightarrow> int \<Rightarrow> string \<Rightarrow> string \<Rightarrow> string" where
  "compute_head_digest env lineage parent parent_head workspace agent manifest version policy state =
     sha256_hex env (''perseus-vault/action-lineage-head/v1|'' @ lineage_canonical env (JObj
       [(''lineage_id'', JStr lineage), (''parent_lineage_id'', JStr parent), (''parent_head_digest'', JStr parent_head),
        (''workspace_hash'', JStr workspace), (''agent_id'', JStr agent), (''authority_manifest_id'', JStr manifest),
        (''authority_manifest_version'', JInt version), (''policy_version'', JStr policy), (''state_digest'', JStr state)]))"

definition OUTCOME_CODES :: "(string \<times> string list) list" where
  "OUTCOME_CODES =
     [(''continued'', [''admitted'']), (''new_authorization'', [''new_authorization'']),
      (''denied'', [''resource_denied'', ''composition_denied'', ''budget_denied'', ''impact_denied'']),
      (''stale'', [''stale'', ''policy_mismatch'', ''authority_mismatch'', ''expired'']),
      (''revoked'', [''revoked'']), (''abstain'', [''abstain''])]"

definition RECEIPT_REASONS :: "string list" where
  "RECEIPT_REASONS =
     [''admitted'', ''new_authorization'', ''resource_denied'', ''composition_denied'', ''budget_denied'', ''impact_denied'',
      ''stale'', ''revoked'', ''abstain'', ''policy_mismatch'', ''authority_mismatch'', ''expired'']"

definition receipt_malformed :: "lineage_receipt \<Rightarrow> bool" where
  "receipt_malformed r \<longleftrightarrow>
     lt_schema_version r \<noteq> LINEAGE_SCHEMA_VERSION \<or>
     lt_action_id r = [] \<or> length (lt_action_id r) > 128 \<or>
     lt_transition_id r = [] \<or> length (lt_transition_id r) > 128 \<or>
     lt_lineage_id r = [] \<or> length (lt_lineage_id r) > 128 \<or>
     (lt_parent_lineage_id r \<noteq> [] \<and> length (lt_parent_lineage_id r) > 128) \<or>
     (lt_parent_lineage_id r = []) \<noteq> (lt_parent_head_digest r = []) \<or>
     (lt_parent_head_digest r \<noteq> [] \<and> \<not> lower_hex64 (lt_parent_head_digest r)) \<or>
     \<not> lower_hex64 (lt_head_digest r) \<or> \<not> lower_hex64 (lt_state_digest r) \<or> \<not> lower_hex64 (lt_policy_version r) \<or>
     lt_workspace_hash r = [] \<or> length (lt_workspace_hash r) > 256 \<or>
     lt_agent_id r = [] \<or> length (lt_agent_id r) > 256 \<or>
     lt_manifest_id r = [] \<or> length (lt_manifest_id r) > 128 \<or> lt_manifest_version r < 1 \<or>
     \<not> within MAX_POLICY_LIMIT (lt_budget_limit r) \<or> \<not> within MAX_POLICY_LIMIT (lt_impact_limit r) \<or>
     \<not> within (lt_budget_limit r) (lt_budget_spent r) \<or> \<not> within (lt_impact_limit r) (lt_impact_units r) \<or>
     lt_outcome r \<notin> set (map fst OUTCOME_CODES) \<or> lt_reason_code r \<notin> set RECEIPT_REASONS"

definition receipt_head :: "digest_env \<Rightarrow> lineage_receipt \<Rightarrow> string" where
  "receipt_head env r = compute_head_digest env (lt_lineage_id r) (lt_parent_lineage_id r) (lt_parent_head_digest r)
     (lt_workspace_hash r) (lt_agent_id r) (lt_manifest_id r) (lt_manifest_version r) (lt_policy_version r) (lt_state_digest r)"

definition validate_receipt :: "digest_env \<Rightarrow> lineage_receipt \<Rightarrow> unit result" where
  "validate_receipt env r = check_all
     [guard_r (receipt_malformed r) ''lineage receipt malformed'',
      guard_r (case map_of OUTCOME_CODES (lt_outcome r) of None \<Rightarrow> True | Some codes \<Rightarrow> lt_reason_code r \<notin> set codes)
        ''lineage receipt outcome/reason mismatch'',
      guard_r (receipt_head env r \<noteq> lt_head_digest r) ''lineage receipt head digest mismatch'']"

definition lineage_reference_json :: "continuation_reference \<Rightarrow> json" where
  "lineage_reference_json r = JObj
     [(''schema_version'', JInt (lr_schema_version r)), (''lineage_id'', JStr (lr_lineage_id r)),
      (''parent_head_digest'', JStr (lr_parent_head_digest r)), (''continuation_state_digest'', JStr (lr_state_digest r)),
      (''workspace_hash'', JStr (lr_workspace_hash r)), (''agent_id'', JStr (lr_agent_id r)),
      (''authority_manifest_version'', JInt (lr_manifest_version r)), (''policy_version'', JStr (lr_policy_version r))]"

definition lineage_request_json :: "lineage_request \<Rightarrow> json" where
  "lineage_request_json q = JObj
     [(''schema_version'', JInt (lq_schema_version q)), (''transition'', JStr (lq_transition q)),
      (''action_class'', JStr (lq_action_class q)), (''budget_cost'', JInt (lq_budget_cost q)),
      (''impact_units'', JInt (lq_impact_units q)),
      (''continuation'', (case lq_continuation q of None \<Rightarrow> JNull | Some r \<Rightarrow> lineage_reference_json r))]"

definition lineage_request_digest :: "digest_env \<Rightarrow> string \<Rightarrow> string \<Rightarrow> string \<Rightarrow> json \<Rightarrow> lineage_request \<Rightarrow> string result" where
  "lineage_request_digest env action_key capability intent_hash binding q =
     bind_r (validate_lineage_request q) (\<lambda>_.
       Inr (sha256_hex env (''perseus-vault/action-lineage-request/v1|'' @ lineage_canonical env (JObj
         [(''action_key_digest'', JStr (sha256_hex env action_key)), (''capability'', JStr capability),
          (''intent_hash'', JStr intent_hash), (''admission_binding'', binding), (''lineage'', lineage_request_json q)]))))"

definition idempotency_key_digest :: "digest_env \<Rightarrow> string \<Rightarrow> string" where
  "idempotency_key_digest env action_key =
     sha256_hex env (''perseus-vault/action-lineage-idempotency/v1|'' @ action_key)"

section \<open>States\<close>

definition automaton_of :: "string list \<Rightarrow> string" where
  "automaton_of classes =
     (if classes = [] then ''empty''
      else if ''read'' \<in> set classes then ''read_seen''
      else if ''external_send'' \<in> set classes then ''external_send_seen''
      else ''other_seen'')"

definition validate_state :: "lineage_state \<Rightarrow> unit result" where
  "validate_state s = check_all
     [guard_r (ls_schema_version s \<noteq> LINEAGE_SCHEMA_VERSION \<or> length (ls_action_classes s) > MAX_HISTORY \<or>
        ls_budget_spent s < 0 \<or> ls_impact_units s < 0 \<or>
        ls_budget_spent s > MAX_POLICY_LIMIT \<or> ls_impact_units s > MAX_POLICY_LIMIT \<or>
        (ls_last_action_digest s \<noteq> [] \<and> \<not> lower_hex64 (ls_last_action_digest s)) \<or>
        ls_automaton_state s \<notin> set [''empty'', ''read_seen'', ''other_seen'', ''external_send_seen''])
        ''lineage state malformed'',
      guard_r (\<not> list_all (\<lambda>c. c \<in> set ACTION_CLASSES) (ls_action_classes s)) ''lineage state malformed'',
      guard_r (ls_action_classes s = [] \<and> ls_automaton_state s \<noteq> ''empty'') ''lineage state malformed'',
      guard_r (ls_action_classes s = [] \<and> ls_last_action_digest s \<noteq> []) ''lineage state malformed'',
      guard_r (ls_action_classes s \<noteq> [] \<and> ls_last_action_digest s = []) ''lineage state malformed'',
      guard_r (ls_automaton_state s \<noteq> automaton_of (ls_action_classes s)) ''lineage state malformed'']"

definition lineage_state_json :: "lineage_state \<Rightarrow> json" where
  "lineage_state_json s = JObj
     [(''schema_version'', JInt (ls_schema_version s)), (''action_classes'', JArr (map JStr (ls_action_classes s))),
      (''automaton_state'', JStr (ls_automaton_state s)), (''budget_spent'', JInt (ls_budget_spent s)),
      (''impact_units'', JInt (ls_impact_units s)), (''last_action_digest'', JStr (ls_last_action_digest s))]"

definition lineage_state_digest :: "digest_env \<Rightarrow> lineage_state \<Rightarrow> string result" where
  "lineage_state_digest env s = bind_r (validate_state s) (\<lambda>_.
     Inr (sha256_hex env (''perseus-vault/action-lineage-state/v1|'' @ lineage_canonical env (lineage_state_json s))))"

section \<open>Decisions\<close>

definition CAPABILITY_CLASSES :: "(string \<times> string) list" where
  "CAPABILITY_CLASSES =
     [(''read'', ''read''), (''memory.read'', ''read''), (''memory_read'', ''read''),
      (''external_send'', ''external_send''), (''external.send'', ''external_send''), (''send'', ''external_send''),
      (''git_push'', ''external_send''), (''git push'', ''external_send''),
      (''github_pull_request_creation'', ''external_send''), (''github pull request creation'', ''external_send''),
      (''github_pull_request_merge'', ''external_send''), (''github pull request merge'', ''external_send''),
      (''github_issue_closure'', ''external_send''), (''github issue closure'', ''external_send''),
      (''issue_closure'', ''external_send''), (''pr_merge'', ''external_send''), (''deploy'', ''external_send''),
      (''write'', ''write''), (''memory.write'', ''write''), (''memory_write'', ''write''),
      (''delete'', ''delete''), (''memory.delete'', ''delete''), (''memory_delete'', ''delete'')]"

definition validate_capability_action_class :: "string \<Rightarrow> string \<Rightarrow> unit result" where
  "validate_capability_action_class capability action_class =
     (if capability = [] then Inl ''lineage action class does not match capability''
      else case map_of CAPABILITY_CLASSES capability of
             None \<Rightarrow> Inl ''lineage capability is not classified by the trusted taxonomy''
           | Some expected \<Rightarrow> guard_r (expected \<noteq> action_class) ''lineage action class does not match capability'')"

record transition_decision =
  td_state :: lineage_state
  td_outcome :: string
  td_reason :: string

definition denied :: "lineage_state \<Rightarrow> string \<Rightarrow> transition_decision" where
  "denied s reason = \<lparr>td_state = s, td_outcome = ''denied'', td_reason = reason\<rparr>"

definition checked_add_i64 :: "int \<Rightarrow> int \<Rightarrow> int option" where
  "checked_add_i64 a b = (if in_i64 (a + b) then Some (a + b) else None)"

definition admit :: "lineage_state \<Rightarrow> string \<Rightarrow> int \<Rightarrow> int \<Rightarrow> string \<Rightarrow> lineage_state" where
  "admit s action_class budget impact intent_hash =
     s\<lparr>ls_action_classes := ls_action_classes s @ [action_class],
       ls_automaton_state := automaton_of (ls_action_classes s @ [action_class]),
       ls_budget_spent := budget, ls_impact_units := impact, ls_last_action_digest := intent_hash\<rparr>"

definition apply_action :: "lineage_state \<Rightarrow> lineage_request \<Rightarrow> lineage_policy \<Rightarrow> string \<Rightarrow> transition_decision result" where
  "apply_action current q policy intent_hash =
     bind_r (validate_state current) (\<lambda>_.
     bind_r (guard_r (lq_action_class q = [] \<or> lq_action_class q \<notin> set ACTION_CLASSES \<or>
         \<not> within 1000000 (lq_budget_cost q) \<or> \<not> within 1000000 (lq_impact_units q) \<or> \<not> lower_hex64 intent_hash)
       ''lineage transition malformed'') (\<lambda>_.
     if lp_deny_read_then_external_send policy \<and> lq_action_class q = ''external_send'' \<and>
        ''read'' \<in> set (ls_action_classes current)
     then Inr (denied current ''composition_denied'')
     else case checked_add_i64 (ls_budget_spent current) (lq_budget_cost q) of
            None \<Rightarrow> Inr (denied current ''budget_denied'')
          | Some budget \<Rightarrow>
              (case checked_add_i64 (ls_impact_units current) (lq_impact_units q) of
                 None \<Rightarrow> Inr (denied current ''impact_denied'')
               | Some impact \<Rightarrow>
                   if budget > lp_budget_limit policy then Inr (denied current ''budget_denied'')
                   else if impact > lp_impact_limit policy then Inr (denied current ''impact_denied'')
                   else if length (ls_action_classes current) \<ge> MAX_HISTORY
                   then Inl ''lineage transition exceeds history bound''
                   else Inr \<lparr>td_state = admit current (lq_action_class q) budget impact intent_hash,
                          td_outcome = ''continued'', td_reason = ''admitted''\<rparr>)))"

end
