(* ===== verification/Lineage_Store.thy ===== *)
theory Lineage_Store
  imports Lineage_Policy
begin

text \<open>
  The store of action lineages in \<open>src/src/db.rs\<close>: the tables \<open>action_lineages\<close>,
  \<open>action_lineage_transitions\<close>, \<open>authorized_actions\<close> and \<open>authority_manifests\<close> as lists of rows,
  the transaction that admits, denies or refuses one action of a lineage, the projection of a
  receipt onto an action, and the revocation of a manifest. The ids that the code draws at random
  and the clock are arguments. The audit event that the code appends to its journal after the
  transaction is another component; it writes none of these tables.
\<close>

record stored_lineage =
  ln_lineage_id :: string
  ln_parent_lineage_id :: string
  ln_parent_head_digest :: string
  ln_workspace_hash :: string
  ln_agent_id :: string
  ln_manifest_id :: string
  ln_manifest_version :: int
  ln_policy_version :: string
  ln_state_json :: string
  ln_state_digest :: string
  ln_head_digest :: string
  ln_budget_limit :: int
  ln_impact_limit :: int
  ln_budget_spent :: int
  ln_impact_units :: int
  ln_expires_at :: "int option"
  ln_revoked_at :: "int option"
  ln_created_at :: int
  ln_updated_at :: int

record transition_row =
  tx_transition_id :: string
  tx_lineage_id :: string
  tx_parent_lineage_id :: string
  tx_action_id :: string
  tx_idempotency_key_digest :: string
  tx_request_digest :: string
  tx_parent_head_digest :: string
  tx_head_digest :: string
  tx_state_json :: string
  tx_state_digest :: string
  tx_workspace_hash :: string
  tx_agent_id :: string
  tx_manifest_id :: string
  tx_manifest_version :: int
  tx_policy_version :: string
  tx_outcome :: string
  tx_reason_code :: string
  tx_budget_cost :: int
  tx_impact_units :: int
  tx_budget_limit :: int
  tx_impact_limit :: int
  tx_budget_spent :: int
  tx_impact_spent :: int
  tx_expires_at :: "int option"
  tx_revoked_at :: "int option"
  tx_created_at :: int

record authorized_action =
  aa_id :: string
  aa_manifest_id :: string
  aa_manifest_version :: int
  aa_agent_id :: string
  aa_workspace_hash :: string
  aa_scope_anchor :: string
  aa_external_ref :: string
  aa_capability :: string
  aa_action_key :: string
  aa_intent_hash :: string
  aa_outcome_hash :: string
  aa_status :: string
  aa_approval_required :: bool
  aa_approval_ref :: string
  aa_created_at :: int
  aa_updated_at :: int
  aa_resource_constraints_json :: string
  aa_resource_constraints_hash :: string
  aa_justification_entity_ids :: "string list"
  aa_compensates_for :: string
  aa_finding_ref :: string
  aa_superseding_head :: string
  aa_handoff_receipt_ref :: string
  aa_lineage_id :: string
  aa_lineage_transition_id :: string
  aa_lineage_outcome :: string
  aa_lineage_continuation :: "continuation_reference option"
  aa_lineage_receipt :: "lineage_receipt option"

record authority_manifest =
  am_id :: string
  am_agent_id :: string
  am_workspace_hash :: string
  am_version :: int
  am_allowed_capabilities :: "string list"
  am_approval_required_capabilities :: "string list"
  am_scope_anchors :: "string list"
  am_approver_principals :: "string list"
  am_allowed_inbound_principals :: "string list"
  am_permitted_external_ref_prefixes :: "string list"
  am_max_parallel_actions :: int
  am_mode :: string
  am_expires_at :: "int option"
  am_revoked_at :: "int option"
  am_created_at :: int
  am_capability_constraints_json :: string

record lineage_db =
  ld_lineages :: "stored_lineage list"
  ld_transitions :: "transition_row list"
  ld_actions :: "authorized_action list"
  ld_manifests :: "authority_manifest list"

text \<open>The arguments of an intent besides the manifest and the lineage request.\<close>

record intent_args =
  ia_agent_id :: string
  ia_workspace_hash :: string
  ia_scope_anchor :: string
  ia_external_ref :: string
  ia_capability :: string
  ia_action_key :: string
  ia_intent_hash :: string
  ia_resource_constraints_json :: string
  ia_justification_json :: string
  ia_justification_entity_ids :: "string list"
  ia_compensates_for :: string
  ia_finding_ref :: string
  ia_superseding_head :: string
  ia_handoff_receipt_ref :: string
  ia_resource_permitted :: bool

text \<open>The three ids drawn for a call.\<close>

record fresh_ids =
  fi_action :: string
  fi_transition :: string
  fi_lineage :: string

section \<open>Rows\<close>

definition task_lineage_get :: "lineage_db \<Rightarrow> string \<Rightarrow> stored_lineage option" where
  "task_lineage_get db lid = find (\<lambda>r. ln_lineage_id r = lid) (ld_lineages db)"

definition reference_mismatch :: "stored_lineage \<Rightarrow> continuation_reference \<Rightarrow> bool" where
  "reference_mismatch row r \<longleftrightarrow> lr_lineage_id r \<noteq> ln_lineage_id row \<or> lr_parent_head_digest r \<noteq> ln_head_digest row \<or>
     lr_state_digest r \<noteq> ln_state_digest row \<or> lr_workspace_hash r \<noteq> ln_workspace_hash row \<or>
     lr_agent_id r \<noteq> ln_agent_id row \<or> lr_manifest_version r \<noteq> ln_manifest_version row \<or>
     lr_policy_version r \<noteq> ln_policy_version row"

definition row_head :: "digest_env \<Rightarrow> stored_lineage \<Rightarrow> string" where
  "row_head env row = compute_head_digest env (ln_lineage_id row) (ln_parent_lineage_id row) (ln_parent_head_digest row)
     (ln_workspace_hash row) (ln_agent_id row) (ln_manifest_id row) (ln_manifest_version row) (ln_policy_version row)
     (ln_state_digest row)"

definition expired_at :: "int option \<Rightarrow> int \<Rightarrow> bool" where
  "expired_at expires now \<longleftrightarrow> (case expires of None \<Rightarrow> False | Some t \<Rightarrow> t \<le> now)"

definition expect :: "'a option \<Rightarrow> 'a \<Rightarrow> string \<Rightarrow> unit result" where
  "expect expected actual m = guard_r (case expected of None \<Rightarrow> False | Some x \<Rightarrow> actual \<noteq> x) m"

definition validate_task_lineage_row ::
    "lineage_env \<Rightarrow> stored_lineage \<Rightarrow> string \<Rightarrow> string \<Rightarrow> continuation_reference option \<Rightarrow> string option \<Rightarrow> int option \<Rightarrow>
      string option \<Rightarrow> bool \<Rightarrow> int \<Rightarrow> lineage_state result" where
  "validate_task_lineage_row env row workspace agent reference manifest_id manifest_version policy_version require_active now =
     bind_r (check_all
       [guard_r (ln_workspace_hash row \<noteq> workspace \<or> ln_agent_id row \<noteq> agent) ''lineage scope or agent mismatch'',
        expect manifest_id (ln_manifest_id row) ''lineage authority mismatch'',
        expect manifest_version (ln_manifest_version row) ''lineage authority version mismatch'',
        expect policy_version (ln_policy_version row) ''lineage policy version mismatch'',
        guard_r (case reference of None \<Rightarrow> False | Some r \<Rightarrow> reference_mismatch row r)
          ''lineage continuation reference mismatch'',
        guard_r (require_active \<and> ln_revoked_at row \<noteq> None) ''lineage continuation revoked'',
        guard_r (require_active \<and> expired_at (ln_expires_at row) now) ''lineage continuation expired'']) (\<lambda>_.
     bind_r (ok_or (le_decode_state env (ln_state_json row)) ''lineage state malformed'') (\<lambda>state.
     case lineage_state_digest (le_digest env) state of
       Inl _ \<Rightarrow> Inl ''lineage state malformed''
     | Inr digest \<Rightarrow>
         bind_r (check_all
           [guard_r (digest \<noteq> ln_state_digest row) ''lineage state digest mismatch'',
            guard_r (ln_budget_spent row < 0 \<or> ln_impact_units row < 0 \<or> ln_budget_spent row > ln_budget_limit row \<or>
              ln_impact_units row > ln_impact_limit row) ''lineage budget state malformed'',
            guard_r (row_head (le_digest env) row \<noteq> ln_head_digest row) ''lineage head digest mismatch'']) (\<lambda>_. Inr state)))"

section \<open>Receipts\<close>

definition receipt_of :: "transition_row \<Rightarrow> lineage_receipt" where
  "receipt_of t = \<lparr>lt_schema_version = LINEAGE_SCHEMA_VERSION, lt_transition_id = tx_transition_id t,
     lt_action_id = tx_action_id t, lt_lineage_id = tx_lineage_id t, lt_parent_lineage_id = tx_parent_lineage_id t,
     lt_parent_head_digest = tx_parent_head_digest t, lt_head_digest = tx_head_digest t, lt_state_digest = tx_state_digest t,
     lt_workspace_hash = tx_workspace_hash t, lt_agent_id = tx_agent_id t, lt_manifest_id = tx_manifest_id t,
     lt_manifest_version = tx_manifest_version t, lt_policy_version = tx_policy_version t, lt_outcome = tx_outcome t,
     lt_reason_code = tx_reason_code t, lt_budget_spent = tx_budget_spent t, lt_impact_units = tx_impact_spent t,
     lt_budget_limit = tx_budget_limit t, lt_impact_limit = tx_impact_limit t, lt_expires_at = tx_expires_at t,
     lt_revoked_at = tx_revoked_at t\<rparr>"

text \<open>The checks that follow \<open>validate_receipt\<close> repeat its conditions.\<close>

definition task_lineage_receipt_get :: "lineage_env \<Rightarrow> lineage_db \<Rightarrow> string \<Rightarrow> lineage_receipt result" where
  "task_lineage_receipt_get env db tid =
     bind_r (ok_or (find (\<lambda>t. tx_transition_id t = tid) (ld_transitions db)) ''Query returned no rows'') (\<lambda>t.
     bind_r (ok_or (le_decode_state env (tx_state_json t)) ''lineage receipt state malformed'') (\<lambda>state.
     case lineage_state_digest (le_digest env) state of
       Inl _ \<Rightarrow> Inl ''lineage receipt state malformed''
     | Inr digest \<Rightarrow>
         let r = receipt_of t in
         bind_r (guard_r (digest \<noteq> lt_state_digest r) ''lineage receipt state digest mismatch'') (\<lambda>_.
         bind_r (validate_receipt (le_digest env) r) (\<lambda>_.
         bind_r (guard_r (lt_schema_version r \<noteq> LINEAGE_SCHEMA_VERSION \<or> lt_outcome r \<notin> set (map fst OUTCOME_CODES) \<or>
             lt_reason_code r \<notin> set RECEIPT_REASONS \<or> lt_budget_spent r < 0 \<or> lt_impact_units r < 0 \<or>
             lt_budget_spent r > lt_budget_limit r \<or> lt_impact_units r > lt_impact_limit r) ''lineage receipt malformed'') (\<lambda>_.
         bind_r (guard_r (receipt_head (le_digest env) r \<noteq> lt_head_digest r) ''lineage receipt head digest mismatch'') (\<lambda>_.
           Inr r))))))"

definition continuation_of :: "lineage_receipt \<Rightarrow> continuation_reference" where
  "continuation_of r = \<lparr>lr_schema_version = lt_schema_version r, lr_lineage_id = lt_lineage_id r,
     lr_parent_head_digest = lt_head_digest r, lr_state_digest = lt_state_digest r, lr_workspace_hash = lt_workspace_hash r,
     lr_agent_id = lt_agent_id r, lr_manifest_version = lt_manifest_version r, lr_policy_version = lt_policy_version r\<rparr>"

definition DENIAL_CODES :: "string list" where
  "DENIAL_CODES = [''resource_denied'', ''composition_denied'', ''budget_denied'', ''impact_denied'']"

definition attach_task_lineage_projection ::
    "lineage_env \<Rightarrow> lineage_db \<Rightarrow> authorized_action \<Rightarrow> authorized_action result" where
  "attach_task_lineage_projection env db a =
     (if aa_lineage_id a = [] \<and> aa_lineage_transition_id a = [] \<and> aa_lineage_outcome a = [] then Inr a
      else if aa_lineage_id a = [] \<or> aa_lineage_transition_id a = []
      then Inl ''authorized action has incomplete lineage reference''
      else bind_r (task_lineage_receipt_get env db (aa_lineage_transition_id a)) (\<lambda>r.
        let binding_mismatch = (lt_manifest_id r \<noteq> aa_manifest_id a \<or> lt_manifest_version r \<noteq> aa_manifest_version a);
            outcome_allowed = (lt_outcome r = ''stale'' \<or> lt_outcome r = ''revoked'')
        in bind_r (guard_r (lt_action_id r \<noteq> aa_id a \<or> lt_lineage_id r \<noteq> aa_lineage_id a \<or>
               lt_outcome r \<noteq> aa_lineage_outcome a \<or> lt_workspace_hash r \<noteq> aa_workspace_hash a \<or>
               lt_agent_id r \<noteq> aa_agent_id a \<or> binding_mismatch \<and> \<not> outcome_allowed)
             ''authorized action lineage reference mismatch'') (\<lambda>_.
           Inr (a\<lparr>aa_lineage_receipt := Some r,
             aa_lineage_continuation :=
               (if lt_outcome r = ''continued'' \<or> lt_outcome r = ''new_authorization'' \<or>
                   lt_outcome r = ''denied'' \<and> lt_reason_code r \<in> set DENIAL_CODES
                then Some (continuation_of r) else aa_lineage_continuation a)\<rparr>))))"

section \<open>One action\<close>

definition admission_binding :: "authority_manifest \<Rightarrow> intent_args \<Rightarrow> string \<Rightarrow> json" where
  "admission_binding m a policy_version = JObj
     [(''agent_id'', JStr (ia_agent_id a)), (''workspace_hash'', JStr (ia_workspace_hash a)),
      (''scope_anchor'', JStr (ia_scope_anchor a)), (''external_ref'', JStr (ia_external_ref a)),
      (''authority_manifest_id'', JStr (am_id m)), (''authority_manifest_version'', JInt (am_version m)),
      (''policy_version'', JStr policy_version), (''resource_constraints_json'', JStr (ia_resource_constraints_json a)),
      (''justification_json'', JStr (ia_justification_json a)), (''compensates_for'', JStr (ia_compensates_for a)),
      (''finding_ref'', JStr (ia_finding_ref a)), (''superseding_head'', JStr (ia_superseding_head a)),
      (''handoff_receipt_ref'', JStr (ia_handoff_receipt_ref a))]"

definition existing_transition :: "lineage_db \<Rightarrow> string \<Rightarrow> string \<Rightarrow> string \<Rightarrow> transition_row option" where
  "existing_transition db workspace agent key =
     (case sort_key tx_created_at (filter (\<lambda>t. tx_workspace_hash t = workspace \<and> tx_agent_id t = agent \<and>
         tx_idempotency_key_digest t = key) (ld_transitions db)) of
        [] \<Rightarrow> None
      | t # ts \<Rightarrow> Some (last (t # ts)))"

definition continue_refusal ::
    "continuation_reference \<Rightarrow> stored_lineage \<Rightarrow> authority_manifest \<Rightarrow> string \<Rightarrow> lineage_policy \<Rightarrow> int \<Rightarrow>
      (string \<times> string) option" where
  "continue_refusal r row m policy_version policy now =
     (if \<not> (lr_parent_head_digest r = ln_head_digest row \<and> lr_state_digest r = ln_state_digest row \<and>
            lr_workspace_hash r = ln_workspace_hash row \<and> lr_agent_id r = ln_agent_id row \<and>
            lr_manifest_version r = ln_manifest_version row \<and> lr_policy_version r = ln_policy_version row)
      then Some (''stale'', ''stale'')
      else if ln_revoked_at row \<noteq> None then Some (''revoked'', ''revoked'')
      else if expired_at (ln_expires_at row) now then Some (''stale'', ''expired'')
      else if ln_manifest_id row \<noteq> am_id m \<or> ln_manifest_version row \<noteq> am_version m then Some (''stale'', ''authority_mismatch'')
      else if ln_policy_version row \<noteq> policy_version \<or> ln_budget_limit row \<noteq> lp_budget_limit policy \<or>
              ln_impact_limit row \<noteq> lp_impact_limit policy
      then Some (''stale'', ''policy_mismatch'')
      else None)"

text \<open>What an action starts from: the parent, the lineage it continues and its state, and a refusal.\<close>

record lineage_start =
  st_parent_id :: string
  st_parent_head :: string
  st_current :: "stored_lineage option"
  st_state :: lineage_state
  st_refusal :: "(string \<times> string) option"

definition start_of ::
    "lineage_env \<Rightarrow> lineage_db \<Rightarrow> int \<Rightarrow> authority_manifest \<Rightarrow> intent_args \<Rightarrow> lineage_request \<Rightarrow> string \<Rightarrow> lineage_policy \<Rightarrow>
      lineage_start result" where
  "start_of env db now m a q policy_version policy =
     (if lq_transition q = ''continue'' then
        bind_r (ok_or (lq_continuation q) ''lineage continuation reference is required'') (\<lambda>r.
        bind_r (ok_or (task_lineage_get db (lr_lineage_id r)) ''lineage continuation missing state'') (\<lambda>row.
        bind_r (validate_task_lineage_row env row (ia_workspace_hash a) (ia_agent_id a) None None None None False now) (\<lambda>state.
          Inr \<lparr>st_parent_id = ln_lineage_id row, st_parent_head = ln_head_digest row, st_current = Some row,
            st_state = state, st_refusal = continue_refusal r row m policy_version policy now\<rparr>)))
      else case lq_continuation q of
             None \<Rightarrow> Inr \<lparr>st_parent_id = [], st_parent_head = [], st_current = None, st_state = initial_state, st_refusal = None\<rparr>
           | Some r \<Rightarrow>
               bind_r (ok_or (task_lineage_get db (lr_lineage_id r)) ''lineage successor parent state missing'') (\<lambda>row.
               bind_r (validate_task_lineage_row env row (ia_workspace_hash a) (ia_agent_id a) (Some r) None None None False now) (\<lambda>_.
                 Inr \<lparr>st_parent_id = ln_lineage_id row, st_parent_head = ln_head_digest row, st_current = None,
                   st_state = initial_state, st_refusal = None\<rparr>)))"

definition decide_action :: "lineage_start \<Rightarrow> lineage_request \<Rightarrow> lineage_policy \<Rightarrow> intent_args \<Rightarrow> transition_decision result" where
  "decide_action st q policy a =
     bind_r
       (case st_refusal st of
          Some (outcome, reason) \<Rightarrow> Inr \<lparr>td_state = st_state st, td_outcome = outcome, td_reason = reason\<rparr>
        | None \<Rightarrow>
            if \<not> ia_resource_permitted a then Inr (denied (st_state st) ''resource_denied'')
            else map_err (\<lambda>reason. ''lineage transition rejected: '' @ reason)
              (apply_action (st_state st) q policy (ia_intent_hash a)))
       (\<lambda>d. Inr (if lq_transition q \<noteq> ''continue'' \<and> td_outcome d = ''continued''
                 then d\<lparr>td_outcome := ''new_authorization'', td_reason := ''new_authorization''\<rparr> else d))"

text \<open>The guarded update of a continued lineage; the number of rows it finds is checked.\<close>

definition row_current :: "stored_lineage \<Rightarrow> int \<Rightarrow> stored_lineage \<Rightarrow> bool" where
  "row_current row now r \<longleftrightarrow> ln_lineage_id r = ln_lineage_id row \<and> ln_head_digest r = ln_head_digest row \<and>
     ln_state_digest r = ln_state_digest row \<and> ln_revoked_at r = None \<and> \<not> expired_at (ln_expires_at r) now"

definition advance_row ::
    "lineage_db \<Rightarrow> int \<Rightarrow> lineage_start \<Rightarrow> stored_lineage \<Rightarrow> lineage_state \<Rightarrow> string \<Rightarrow> string \<Rightarrow> string \<Rightarrow> lineage_db result" where
  "advance_row db now st row state state_json state_digest head =
     bind_r (guard_r (length (filter (row_current row now) (ld_lineages db)) \<noteq> 1) ''lineage continuation stale'') (\<lambda>_.
       Inr (db\<lparr>ld_lineages := map (\<lambda>r. if row_current row now r then
           r\<lparr>ln_parent_lineage_id := st_parent_id st, ln_parent_head_digest := st_parent_head st, ln_state_json := state_json,
             ln_state_digest := state_digest, ln_head_digest := head, ln_budget_spent := ls_budget_spent state,
             ln_impact_units := ls_impact_units state, ln_updated_at := now\<rparr> else r) (ld_lineages db)\<rparr>))"

definition new_row ::
    "int \<Rightarrow> string \<Rightarrow> lineage_start \<Rightarrow> authority_manifest \<Rightarrow> intent_args \<Rightarrow> string \<Rightarrow> lineage_policy \<Rightarrow> lineage_state \<Rightarrow> string \<Rightarrow>
      string \<Rightarrow> string \<Rightarrow> stored_lineage" where
  "new_row now lid st m a policy_version policy state state_json state_digest head =
     \<lparr>ln_lineage_id = lid, ln_parent_lineage_id = st_parent_id st, ln_parent_head_digest = st_parent_head st,
      ln_workspace_hash = ia_workspace_hash a, ln_agent_id = ia_agent_id a, ln_manifest_id = am_id m,
      ln_manifest_version = am_version m, ln_policy_version = policy_version, ln_state_json = state_json,
      ln_state_digest = state_digest, ln_head_digest = head, ln_budget_limit = lp_budget_limit policy,
      ln_impact_limit = lp_impact_limit policy, ln_budget_spent = ls_budget_spent state, ln_impact_units = ls_impact_units state,
      ln_expires_at = am_expires_at m, ln_revoked_at = None, ln_created_at = now, ln_updated_at = now\<rparr>"

definition insert_lineage :: "lineage_db \<Rightarrow> stored_lineage \<Rightarrow> lineage_db result" where
  "insert_lineage db row =
     bind_r (guard_r (ln_lineage_id row \<in> set (map ln_lineage_id (ld_lineages db)))
       ''UNIQUE constraint failed: action_lineages.lineage_id'') (\<lambda>_.
       Inr (db\<lparr>ld_lineages := ld_lineages db @ [row]\<rparr>))"

definition insert_action :: "lineage_db \<Rightarrow> authorized_action \<Rightarrow> lineage_db result" where
  "insert_action db a =
     bind_r (guard_r (aa_id a \<in> set (map aa_id (ld_actions db))) ''UNIQUE constraint failed: authorized_actions.id'') (\<lambda>_.
       Inr (db\<lparr>ld_actions := ld_actions db @ [a]\<rparr>))"

definition insert_transition :: "lineage_db \<Rightarrow> transition_row \<Rightarrow> lineage_db result" where
  "insert_transition db t =
     bind_r (guard_r (tx_transition_id t \<in> set (map tx_transition_id (ld_transitions db)))
       ''UNIQUE constraint failed: action_lineage_transitions.transition_id'') (\<lambda>_.
     bind_r (guard_r (list_ex (\<lambda>u. tx_lineage_id u = tx_lineage_id t \<and>
         tx_idempotency_key_digest u = tx_idempotency_key_digest t) (ld_transitions db))
       ''UNIQUE constraint failed: action_lineage_transitions.lineage_id, action_lineage_transitions.idempotency_key_digest'') (\<lambda>_.
       Inr (db\<lparr>ld_transitions := ld_transitions db @ [t]\<rparr>)))"

definition blocked :: "string \<Rightarrow> bool" where
  "blocked outcome \<longleftrightarrow> outcome = ''denied'' \<or> outcome = ''stale'' \<or> outcome = ''revoked''"

definition action_of ::
    "lineage_env \<Rightarrow> int \<Rightarrow> fresh_ids \<Rightarrow> string \<Rightarrow> authority_manifest \<Rightarrow> intent_args \<Rightarrow> transition_decision \<Rightarrow> string \<Rightarrow> authorized_action" where
  "action_of env now ids lid m a d state_digest =
     (let approval_required = (ia_capability a \<in> set (am_approval_required_capabilities m))
      in \<lparr>aa_id = fi_action ids, aa_manifest_id = am_id m, aa_manifest_version = am_version m, aa_agent_id = ia_agent_id a,
       aa_workspace_hash = ia_workspace_hash a, aa_scope_anchor = ia_scope_anchor a, aa_external_ref = ia_external_ref a,
       aa_capability = ia_capability a, aa_action_key = ia_action_key a, aa_intent_hash = ia_intent_hash a,
       aa_outcome_hash = (if blocked (td_outcome d) then state_digest else []),
       aa_status = (if blocked (td_outcome d) then ''denied'' else if approval_required then ''approval_requested'' else ''intent''),
       aa_approval_required = approval_required, aa_approval_ref = [], aa_created_at = now, aa_updated_at = now,
       aa_resource_constraints_json = ia_resource_constraints_json a,
       aa_resource_constraints_hash = sha256_hex (le_digest env) (ia_resource_constraints_json a),
       aa_justification_entity_ids = ia_justification_entity_ids a, aa_compensates_for = ia_compensates_for a,
       aa_finding_ref = ia_finding_ref a, aa_superseding_head = ia_superseding_head a,
       aa_handoff_receipt_ref = ia_handoff_receipt_ref a, aa_lineage_id = lid,
       aa_lineage_transition_id = fi_transition ids, aa_lineage_outcome = td_outcome d,
       aa_lineage_continuation = None, aa_lineage_receipt = None\<rparr>)"

definition transition_of ::
    "int \<Rightarrow> fresh_ids \<Rightarrow> string \<Rightarrow> string \<Rightarrow> string \<Rightarrow> lineage_start \<Rightarrow> authority_manifest \<Rightarrow> intent_args \<Rightarrow> lineage_request \<Rightarrow> string \<Rightarrow>
      lineage_policy \<Rightarrow> transition_decision \<Rightarrow> string \<Rightarrow> string \<Rightarrow> string \<Rightarrow> transition_row" where
  "transition_of now ids lid key digest st m a q policy_version policy d state_json state_digest head =
     (let bound = (case st_current st of
            Some row \<Rightarrow> (ln_manifest_id row, ln_manifest_version row, ln_policy_version row, ln_expires_at row, ln_revoked_at row)
          | None \<Rightarrow> (am_id m, am_version m, policy_version, am_expires_at m, None));
          parent = (case (st_refusal st, st_current st) of
            (Some _, Some row) \<Rightarrow> (ln_parent_lineage_id row, ln_parent_head_digest row)
          | _ \<Rightarrow> (st_parent_id st, st_parent_head st))
      in case bound of (mid, mversion, pversion, expires, revoked) \<Rightarrow>
      \<lparr>tx_transition_id = fi_transition ids, tx_lineage_id = lid, tx_parent_lineage_id = fst parent, tx_action_id = fi_action ids,
       tx_idempotency_key_digest = key, tx_request_digest = digest, tx_parent_head_digest = snd parent, tx_head_digest = head,
       tx_state_json = state_json, tx_state_digest = state_digest, tx_workspace_hash = ia_workspace_hash a,
       tx_agent_id = ia_agent_id a, tx_manifest_id = mid, tx_manifest_version = mversion, tx_policy_version = pversion,
       tx_outcome = td_outcome d, tx_reason_code = td_reason d, tx_budget_cost = lq_budget_cost q,
       tx_impact_units = lq_impact_units q, tx_budget_limit = lp_budget_limit policy, tx_impact_limit = lp_impact_limit policy,
       tx_budget_spent = ls_budget_spent (td_state d), tx_impact_spent = ls_impact_units (td_state d),
       tx_expires_at = expires, tx_revoked_at = revoked, tx_created_at = now\<rparr>)"

text \<open>A refusal keeps the head and the lineage; else the lineage advances or begins.\<close>

definition head_of ::
    "digest_env \<Rightarrow> string \<Rightarrow> lineage_start \<Rightarrow> authority_manifest \<Rightarrow> intent_args \<Rightarrow> string \<Rightarrow> string \<Rightarrow> string" where
  "head_of env lid st m a policy_version state_digest =
     (case (st_refusal st, st_current st) of
        (Some _, Some row) \<Rightarrow> ln_head_digest row
      | _ \<Rightarrow> compute_head_digest env lid (st_parent_id st) (st_parent_head st) (ia_workspace_hash a) (ia_agent_id a)
               (am_id m) (am_version m) policy_version state_digest)"

definition store_lineage ::
    "lineage_db \<Rightarrow> int \<Rightarrow> string \<Rightarrow> lineage_start \<Rightarrow> authority_manifest \<Rightarrow> intent_args \<Rightarrow> string \<Rightarrow> lineage_policy \<Rightarrow> lineage_state \<Rightarrow>
      string \<Rightarrow> string \<Rightarrow> string \<Rightarrow> lineage_db result" where
  "store_lineage db now lid st m a policy_version policy state state_json state_digest head =
     (if st_refusal st \<noteq> None then Inr db
      else case st_current st of
             Some row \<Rightarrow> advance_row db now st row state state_json state_digest head
           | None \<Rightarrow> insert_lineage db (new_row now lid st m a policy_version policy state state_json state_digest head))"

text \<open>The body of the transaction once the key was found new.\<close>

definition admit_new ::
    "lineage_env \<Rightarrow> lineage_db \<Rightarrow> int \<Rightarrow> fresh_ids \<Rightarrow> string \<Rightarrow> string \<Rightarrow> string \<Rightarrow> authority_manifest \<Rightarrow> intent_args \<Rightarrow>
      lineage_request \<Rightarrow> string \<Rightarrow> lineage_policy \<Rightarrow> (authorized_action \<times> lineage_db) result" where
  "admit_new env db now ids lid key digest m a q policy_version policy =
     bind_r (start_of env db now m a q policy_version policy) (\<lambda>st.
     bind_r (decide_action st q policy a) (\<lambda>d.
     bind_r (map_err (\<lambda>reason. ''lineage state rejected: '' @ reason)
       (lineage_state_digest (le_digest env) (td_state d))) (\<lambda>state_digest.
     let state_json = json_text (le_digest env) (lineage_state_json (td_state d));
         head = head_of (le_digest env) lid st m a policy_version state_digest;
         action = action_of env now ids lid m a d state_digest in
     bind_r (store_lineage db now lid st m a policy_version policy (td_state d) state_json state_digest head) (\<lambda>db1.
     bind_r (insert_action db1 action) (\<lambda>db2.
     bind_r (insert_transition db2
         (transition_of now ids lid key digest st m a q policy_version policy d state_json state_digest head)) (\<lambda>db3.
       Inr (action, db3)))))))"

text \<open>What is computed before the transaction: the policy with its version, the digest of the request
  and the lineage.\<close>

definition prepare_lineage ::
    "lineage_env \<Rightarrow> fresh_ids \<Rightarrow> authority_manifest \<Rightarrow> intent_args \<Rightarrow> lineage_request \<Rightarrow>
      ((string \<times> lineage_policy) \<times> string \<times> string) result" where
  "prepare_lineage env ids m a q =
     bind_r (map_err (\<lambda>reason. ''lineage request rejected: '' @ reason) (validate_lineage_request q)) (\<lambda>_.
     bind_r (map_err (\<lambda>reason. ''lineage request rejected: '' @ reason)
       (validate_capability_action_class (ia_capability a) (lq_action_class q))) (\<lambda>_.
     bind_r (guard_r (\<not> lower_hex64 (ia_intent_hash a)) ''lineage intent_hash must be a lowercase SHA-256 hex digest'') (\<lambda>_.
     bind_r (map_err (\<lambda>reason. ''lineage policy rejected: '' @ reason)
       (policy_for_constraints env (am_capability_constraints_json m))) (\<lambda>vp.
     bind_r (map_err (\<lambda>reason. ''lineage request rejected: '' @ reason)
       (lineage_request_digest (le_digest env) (ia_action_key a) (ia_capability a) (ia_intent_hash a)
         (admission_binding m a (fst vp)) q)) (\<lambda>digest.
     bind_r (if lq_transition q = ''continue''
             then ok_or (map_option lr_lineage_id (lq_continuation q)) ''lineage continuation reference is required''
             else Inr (fi_lineage ids)) (\<lambda>lid.
       Inr (vp, digest, lid)))))))"

definition replay :: "lineage_db \<Rightarrow> transition_row \<Rightarrow> string \<Rightarrow> authorized_action result" where
  "replay db t digest =
     bind_r (guard_r (tx_request_digest t \<noteq> digest) ''lineage idempotency key conflict'') (\<lambda>_.
       ok_or (find (\<lambda>x. aa_id x = tx_action_id t) (ld_actions db)) ''Query returned no rows'')"

definition lineage_tx ::
    "lineage_env \<Rightarrow> lineage_db \<Rightarrow> int \<Rightarrow> fresh_ids \<Rightarrow> authority_manifest \<Rightarrow> intent_args \<Rightarrow> lineage_request \<Rightarrow>
      (authorized_action \<times> lineage_db) result" where
  "lineage_tx env db now ids m a q =
     bind_r (prepare_lineage env ids m a q) (\<lambda>(vp, digest, lid).
       let key = idempotency_key_digest (le_digest env) (ia_action_key a)
       in case existing_transition db (ia_workspace_hash a) (ia_agent_id a) key of
            Some t \<Rightarrow> bind_r (replay db t digest) (\<lambda>x. Inr (x, db))
          | None \<Rightarrow> admit_new env db now ids lid key digest m a q (fst vp) (snd vp))"

text \<open>An error rolls the transaction back; the projection is attached after the commit.\<close>

definition action_intent_lineage_path ::
    "lineage_env \<Rightarrow> lineage_db \<Rightarrow> int \<Rightarrow> fresh_ids \<Rightarrow> authority_manifest \<Rightarrow> intent_args \<Rightarrow> lineage_request \<Rightarrow>
      authorized_action result \<times> lineage_db" where
  "action_intent_lineage_path env db now ids m a q =
     (case lineage_tx env db now ids m a q of
        Inl e \<Rightarrow> (Inl e, db)
      | Inr (x, db') \<Rightarrow> (attach_task_lineage_projection env db' x, db'))"

section \<open>Revocation\<close>

definition authority_revoke :: "lineage_db \<Rightarrow> int \<Rightarrow> string \<Rightarrow> unit result \<times> lineage_db" where
  "authority_revoke db now mid =
     (case find (\<lambda>m. am_id m = mid) (ld_manifests db) of
        None \<Rightarrow> (Inl ''Query returned no rows'', db)
      | Some m \<Rightarrow>
          if am_revoked_at m \<noteq> None then (Inl ''authority manifest is already revoked'', db)
          else (Inr (), db\<lparr>ld_manifests := map (\<lambda>m. if am_id m = mid then m\<lparr>am_revoked_at := Some now\<rparr> else m) (ld_manifests db),
                 ld_lineages := map (\<lambda>r. if ln_manifest_id r = mid \<and> ln_revoked_at r = None
                   then r\<lparr>ln_revoked_at := Some now\<rparr> else r) (ld_lineages db)\<rparr>))"

end
