(* ===== verification/Lineage_Guarantees.thy ===== *)
theory Lineage_Guarantees
  imports Lineage_Store "HOL-Library.Countable"
begin

text \<open>
  What the action lineages promise over any sequence of calls: the budget and the impact of a lineage
  are those of its admitted actions and stay within its limits, a lineage whose policy forbids it never
  admits a send after a read, only the current head of a live lineage advances it, and a repeated
  call returns what the first one stored.
\<close>

section \<open>Decisions\<close>

definition admitted_outcome :: "string \<Rightarrow> bool" where
  "admitted_outcome o' \<longleftrightarrow> o' = ''continued'' \<or> o' = ''new_authorization''"

lemma apply_action_Inr:
  assumes "apply_action s q policy h = Inr d"
  shows "(td_outcome d = ''denied'' \<and> td_state d = s) \<or>
    (td_outcome d = ''continued'' \<and>
     td_state d = admit s (lq_action_class q) (ls_budget_spent s + lq_budget_cost q) (ls_impact_units s + lq_impact_units q) h \<and>
     ls_budget_spent s + lq_budget_cost q \<le> lp_budget_limit policy \<and>
     ls_impact_units s + lq_impact_units q \<le> lp_impact_limit policy \<and>
     (lp_deny_read_then_external_send policy \<and> lq_action_class q = ''external_send'' \<longrightarrow> ''read'' \<notin> set (ls_action_classes s)))"
  using assms
  by (auto simp: apply_action_def result_simps denied_def checked_add_i64_def split: if_splits option.splits)

lemma refusal_outcome: "continue_refusal r row m v p now = Some (o', c) \<Longrightarrow> o' = ''stale'' \<or> o' = ''revoked''"
  by (auto simp: continue_refusal_def split: if_splits)

lemma start_refusal:
  assumes "start_of env db now m a q v p = Inr st" and "st_refusal st = Some (o', c)"
  shows "o' = ''stale'' \<or> o' = ''revoked''"
  using assms
  by (auto simp: start_of_def bind_r_Inr ok_or_Inr dest: refusal_outcome split: if_splits option.splits)

text \<open>A decision either leaves the state alone or admits the action within the limits.\<close>

lemma decide_action_Inr:
  assumes st: "start_of env db now m a q v p = Inr st" and d: "decide_action st q p a = Inr d"
  shows "(\<not> admitted_outcome (td_outcome d) \<and> td_state d = st_state st) \<or>
    (admitted_outcome (td_outcome d) \<and> st_refusal st = None \<and>
     td_state d = admit (st_state st) (lq_action_class q) (ls_budget_spent (st_state st) + lq_budget_cost q)
       (ls_impact_units (st_state st) + lq_impact_units q) (ia_intent_hash a) \<and>
     ls_budget_spent (st_state st) + lq_budget_cost q \<le> lp_budget_limit p \<and>
     ls_impact_units (st_state st) + lq_impact_units q \<le> lp_impact_limit p \<and>
     (lp_deny_read_then_external_send p \<and> lq_action_class q = ''external_send'' \<longrightarrow>
        ''read'' \<notin> set (ls_action_classes (st_state st))))"
proof (cases "st_refusal st")
  case (Some oc)
  then obtain o' c where oc: "st_refusal st = Some (o', c)" by (cases oc) simp
  from start_refusal [OF st oc] d oc show ?thesis
    by (auto simp: decide_action_def admitted_outcome_def)
next
  case None
  show ?thesis
  proof (cases "ia_resource_permitted a")
    case False
    with d None show ?thesis by (auto simp: decide_action_def denied_def admitted_outcome_def)
  next
    case True
    with d None obtain d0 where d0: "apply_action (st_state st) q p (ia_intent_hash a) = Inr d0"
      and eq: "d = (if lq_transition q \<noteq> ''continue'' \<and> td_outcome d0 = ''continued''
        then d0\<lparr>td_outcome := ''new_authorization'', td_reason := ''new_authorization''\<rparr> else d0)"
      by (auto simp: decide_action_def bind_r_Inr map_err_Inr)
    from apply_action_Inr [OF d0] show ?thesis
      by (rule disjE) (auto simp: eq admitted_outcome_def None)
  qed
qed

lemma policy_limits:
  assumes "policy_for_constraints env raw = Inr (v, p)"
  shows "within MAX_POLICY_LIMIT (lp_budget_limit p) \<and> within MAX_POLICY_LIMIT (lp_impact_limit p)"
proof -
  have lim: "within MAX_POLICY_LIMIT n" if "config_field cs k policy_limit 100 = Inr n" for cs k n
    using that by (auto simp: config_field_def policy_limit_def policy_malformed_def within_def MAX_POLICY_LIMIT_def
        split: option.splits json.splits if_splits)
  show ?thesis
    using assms lim unfolding policy_for_constraints_def policy_config_def policy_malformed_def
    by (auto simp: bind_r_Inr within_def MAX_POLICY_LIMIT_def DEFAULT_BUDGET_LIMIT_def DEFAULT_IMPACT_LIMIT_def
        split: option.splits json.splits if_splits)
qed

section \<open>The effect of one call\<close>

lemma insert_action_Inr [result_simps]:
  "insert_action db x = Inr db' \<longleftrightarrow> aa_id x \<notin> aa_id ` set (ld_actions db) \<and> db' = db\<lparr>ld_actions := ld_actions db @ [x]\<rparr>"
  by (auto simp: insert_action_def bind_r_Inr guard_r_Inr)

lemma insert_transition_Inr:
  "insert_transition db t = Inr db' \<Longrightarrow> db' = db\<lparr>ld_transitions := ld_transitions db @ [t]\<rparr>"
  by (auto simp: insert_transition_def bind_r_Inr guard_r_Inr)

lemma insert_lineage_Inr [result_simps]:
  "insert_lineage db r = Inr db' \<longleftrightarrow>
     ln_lineage_id r \<notin> ln_lineage_id ` set (ld_lineages db) \<and> db' = db\<lparr>ld_lineages := ld_lineages db @ [r]\<rparr>"
  by (auto simp: insert_lineage_def bind_r_Inr guard_r_Inr)

text \<open>The rows of the lineages after a call.\<close>

definition advanced :: "int \<Rightarrow> lineage_start \<Rightarrow> lineage_state \<Rightarrow> string \<Rightarrow> string \<Rightarrow> string \<Rightarrow> stored_lineage \<Rightarrow> stored_lineage" where
  "advanced now st state js digest head r = r\<lparr>ln_parent_lineage_id := st_parent_id st, ln_parent_head_digest := st_parent_head st,
     ln_state_json := js, ln_state_digest := digest, ln_head_digest := head, ln_budget_spent := ls_budget_spent state,
     ln_impact_units := ls_impact_units state, ln_updated_at := now\<rparr>"

lemma store_lineage_tables:
  assumes "store_lineage db now lid st m a v p s js sd head = Inr db'"
  shows "ld_transitions db' = ld_transitions db" "ld_actions db' = ld_actions db" "ld_manifests db' = ld_manifests db"
    and "db' = db\<lparr>ld_lineages := ld_lineages db'\<rparr>"
  using assms
  by (auto simp: store_lineage_def advance_row_def insert_lineage_def bind_r_Inr split: if_splits option.splits)

lemma store_lineage_rows:
  assumes "store_lineage db now lid st m a v p s js sd head = Inr db'"
  shows "ld_lineages db' =
    (if st_refusal st \<noteq> None then ld_lineages db
     else case st_current st of
       Some row \<Rightarrow> map (\<lambda>r. if row_current row now r then advanced now st s js sd head r else r) (ld_lineages db)
     | None \<Rightarrow> ld_lineages db @ [new_row now lid st m a v p s js sd head])"
    and "st_refusal st = None \<Longrightarrow> st_current st = None \<Longrightarrow> lid \<notin> ln_lineage_id ` set (ld_lineages db)"
  using assms
  by (auto simp: store_lineage_def advance_row_def insert_lineage_def advanced_def new_row_def bind_r_Inr guard_r_Inr
      split: if_splits option.splits)

text \<open>Everything a later argument needs of an admitted, denied or refused action.\<close>

lemma admit_new_effect:
  assumes "admit_new env db now ids lid key digest m a q v p = Inr (x, db')"
  obtains st d sd head t db1 where "start_of env db now m a q v p = Inr st" and "decide_action st q p a = Inr d"
    and "lineage_state_digest (le_digest env) (td_state d) = Inr sd"
    and "head = head_of (le_digest env) lid st m a v sd"
    and "store_lineage db now lid st m a v p (td_state d) (json_text (le_digest env) (lineage_state_json (td_state d))) sd head = Inr db1"
    and "x = action_of env now ids lid m a d sd" and "aa_id x \<notin> aa_id ` set (ld_actions db)"
    and "t = transition_of now ids lid key digest st m a q v p d (json_text (le_digest env) (lineage_state_json (td_state d))) sd head"
    and "db' = db1\<lparr>ld_actions := ld_actions db @ [x], ld_transitions := ld_transitions db @ [t]\<rparr>"
proof -
  from assms obtain st where st: "start_of env db now m a q v p = Inr st"
    unfolding admit_new_def bind_r_Inr by blast
  from assms obtain d where d: "decide_action st q p a = Inr d"
    unfolding admit_new_def st bind_r_simps bind_r_Inr by blast
  from assms obtain sd where sd: "lineage_state_digest (le_digest env) (td_state d) = Inr sd"
    unfolding admit_new_def st d bind_r_simps bind_r_Inr map_err_Inr by blast
  define js head where "js = json_text (le_digest env) (lineage_state_json (td_state d))"
    and "head = head_of (le_digest env) lid st m a v sd"
  from assms obtain db1 db2 where db1: "store_lineage db now lid st m a v p (td_state d) js sd head = Inr db1"
    and db2: "insert_action db1 (action_of env now ids lid m a d sd) = Inr db2"
    and db3: "insert_transition db2 (transition_of now ids lid key digest st m a q v p d js sd head) = Inr db'"
    and x: "x = action_of env now ids lid m a d sd"
    unfolding admit_new_def st d sd map_err_simps bind_r_simps Let_def bind_r_Inr js_def [symmetric] head_def [symmetric]
    by blast
  note tables = store_lineage_tables [OF db1]
  have eq: "db' = db1\<lparr>ld_actions := ld_actions db @ [x],
      ld_transitions := ld_transitions db @ [transition_of now ids lid key digest st m a q v p d js sd head]\<rparr>"
    and fresh: "aa_id x \<notin> aa_id ` set (ld_actions db)"
    using insert_transition_Inr [OF db3] db2 tables by (simp_all add: insert_action_Inr x)
  show ?thesis
    by (rule that [OF st d sd refl db1 [unfolded js_def head_def] x fresh refl]) (simp add: eq js_def head_def)
qed

lemma transition_of_sel:
  "tx_lineage_id (transition_of now ids lid key digest st m a q v p d js sd head) = lid"
  "tx_outcome (transition_of now ids lid key digest st m a q v p d js sd head) = td_outcome d"
  "tx_budget_cost (transition_of now ids lid key digest st m a q v p d js sd head) = lq_budget_cost q"
  "tx_impact_units (transition_of now ids lid key digest st m a q v p d js sd head) = lq_impact_units q"
  "tx_workspace_hash (transition_of now ids lid key digest st m a q v p d js sd head) = ia_workspace_hash a"
  "tx_agent_id (transition_of now ids lid key digest st m a q v p d js sd head) = ia_agent_id a"
  "tx_idempotency_key_digest (transition_of now ids lid key digest st m a q v p d js sd head) = key"
  "tx_request_digest (transition_of now ids lid key digest st m a q v p d js sd head) = digest"
  "tx_action_id (transition_of now ids lid key digest st m a q v p d js sd head) = fi_action ids"
  "tx_transition_id (transition_of now ids lid key digest st m a q v p d js sd head) = fi_transition ids"
  by (simp_all add: transition_of_def Let_def split: option.splits)

lemma action_of_sel [simp]: "aa_id (action_of env now ids lid m a d sd) = fi_action ids"
  "aa_lineage_transition_id (action_of env now ids lid m a d sd) = fi_transition ids"
  by (simp_all add: action_of_def Let_def)

section \<open>The ledger\<close>

definition admitted_of :: "lineage_db \<Rightarrow> string \<Rightarrow> transition_row list" where
  "admitted_of db lid = filter (\<lambda>t. tx_lineage_id t = lid \<and> admitted_outcome (tx_outcome t)) (ld_transitions db)"

text \<open>No send after a read.\<close>

definition composition_safe :: "string list \<Rightarrow> bool" where
  "composition_safe classes \<longleftrightarrow> sorted_wrt (\<lambda>x y. \<not> (x = ''read'' \<and> y = ''external_send'')) classes"

text \<open>A version of a policy names one policy, as long as no two constraint texts collide in SHA-256; a state
  that was written out is read back, which serde promises.\<close>

definition versions_unique :: "lineage_env \<Rightarrow> bool" where
  "versions_unique env \<longleftrightarrow> (\<forall>raw raw' v p p'. policy_for_constraints env raw = Inr (v, p) \<longrightarrow>
     policy_for_constraints env raw' = Inr (v, p') \<longrightarrow> p = p')"

definition state_codec :: "lineage_env \<Rightarrow> bool" where
  "state_codec env \<longleftrightarrow> (\<forall>s. validate_state s = Inr () \<longrightarrow>
     le_decode_state env (json_text (le_digest env) (lineage_state_json s)) = Some s)"

text \<open>The state of a lineage is that of its admitted transitions.\<close>

definition state_fits :: "lineage_env \<Rightarrow> string \<Rightarrow> lineage_state \<Rightarrow> transition_row list \<Rightarrow> bool" where
  "state_fits env version s ts \<longleftrightarrow>
     ls_budget_spent s = sum_list (map tx_budget_cost ts) \<and> ls_impact_units s = sum_list (map tx_impact_units ts) \<and>
     length (ls_action_classes s) = length ts \<and>
     (\<forall>raw p. policy_for_constraints env raw = Inr (version, p) \<and> lp_deny_read_then_external_send p \<longrightarrow>
        composition_safe (ls_action_classes s))"

definition row_ok :: "lineage_env \<Rightarrow> lineage_db \<Rightarrow> stored_lineage \<Rightarrow> bool" where
  "row_ok env db row \<longleftrightarrow> (\<exists>s. le_decode_state env (ln_state_json row) = Some s \<and> validate_state s = Inr () \<and>
     ls_budget_spent s = ln_budget_spent row \<and> ls_impact_units s = ln_impact_units row \<and>
     ln_budget_spent row \<le> ln_budget_limit row \<and> ln_impact_units row \<le> ln_impact_limit row \<and>
     state_fits env (ln_policy_version row) s (admitted_of db (ln_lineage_id row)))"

definition ledger_ok :: "lineage_env \<Rightarrow> lineage_db \<Rightarrow> bool" where
  "ledger_ok env db \<longleftrightarrow> distinct (map ln_lineage_id (ld_lineages db)) \<and>
     (\<forall>t\<in>set (ld_transitions db). tx_lineage_id t \<in> ln_lineage_id ` set (ld_lineages db)) \<and>
     (\<forall>row\<in>set (ld_lineages db). row_ok env db row)"

lemma state_fits_step:
  assumes "state_fits env v (st_state st) ts"
    and "start_of env db now m a q v p = Inr st" and "decide_action st q p a = Inr d"
    and "policy_for_constraints env raw = Inr (v, p)" and "versions_unique env"
    and "tx_budget_cost t = lq_budget_cost q" and "tx_impact_units t = lq_impact_units q"
  shows "state_fits env v (td_state d) (ts @ (if admitted_outcome (td_outcome d) then [t] else []))"
  using decide_action_Inr [OF assms(2,3)]
proof (elim disjE conjE)
  assume "\<not> admitted_outcome (td_outcome d)" "td_state d = st_state st"
  with assms(1) show ?thesis by simp
next
  assume ad: "admitted_outcome (td_outcome d)" and s: "td_state d = admit (st_state st) (lq_action_class q)
      (ls_budget_spent (st_state st) + lq_budget_cost q) (ls_impact_units (st_state st) + lq_impact_units q) (ia_intent_hash a)"
    and deny: "lp_deny_read_then_external_send p \<and> lq_action_class q = ''external_send'' \<longrightarrow>
      ''read'' \<notin> set (ls_action_classes (st_state st))"
  have "composition_safe (ls_action_classes (st_state st) @ [lq_action_class q])"
    if "policy_for_constraints env raw' = Inr (v, p')" "lp_deny_read_then_external_send p'" for raw' p'
  proof -
    have "p' = p" using assms(4,5) that(1) by (auto simp: versions_unique_def)
    moreover have "composition_safe (ls_action_classes (st_state st))"
      using assms(1) that by (auto simp: state_fits_def)
    ultimately show ?thesis using deny that(2) by (auto simp: composition_safe_def sorted_wrt_append)
  qed
  then show ?thesis using assms(1,6,7) ad by (auto simp: state_fits_def s admit_def)
qed

lemma state_digest_valid: "lineage_state_digest env s = Inr sd \<Longrightarrow> validate_state s = Inr ()"
  by (auto simp: lineage_state_digest_def bind_r_Inr)

text \<open>Within the limits before, within the limits after.\<close>

lemma decision_within:
  assumes "start_of env db now m a q v p = Inr st" and "decide_action st q p a = Inr d"
    and "ls_budget_spent (st_state st) \<le> lp_budget_limit p" and "ls_impact_units (st_state st) \<le> lp_impact_limit p"
  shows "ls_budget_spent (td_state d) \<le> lp_budget_limit p \<and> ls_impact_units (td_state d) \<le> lp_impact_limit p"
  using decide_action_Inr [OF assms(1,2)] assms(3,4) by (auto simp: admit_def)

lemma admitted_append:
  "ld_transitions db' = ld_transitions db @ [t] \<Longrightarrow> admitted_of db' lid =
     admitted_of db lid @ (if tx_lineage_id t = lid \<and> admitted_outcome (tx_outcome t) then [t] else [])"
  by (simp add: admitted_of_def)

lemma start_continue:
  assumes "start_of env db now m a q v p = Inr st" and "st_current st = Some row"
  obtains r where "lq_transition q = ''continue''" "lq_continuation q = Some r" "task_lineage_get db (lr_lineage_id r) = Some row"
    "validate_task_lineage_row env row (ia_workspace_hash a) (ia_agent_id a) None None None None False now = Inr (st_state st)"
    "st_refusal st = continue_refusal r row m v p now" "st_parent_id st = ln_lineage_id row" "st_parent_head st = ln_head_digest row"
  using assms by (auto simp: start_of_def bind_r_Inr ok_or_Inr split: if_splits option.splits)

lemma start_new:
  assumes "start_of env db now m a q v p = Inr st" and "st_current st = None"
  shows "lq_transition q \<noteq> ''continue'' \<and> st_state st = initial_state \<and> st_refusal st = None"
  using assms by (auto simp: start_of_def bind_r_Inr ok_or_Inr split: if_splits option.splits)

lemma get_row: "task_lineage_get db lid = Some row \<Longrightarrow> row \<in> set (ld_lineages db) \<and> ln_lineage_id row = lid"
  by (auto simp: task_lineage_get_def dest: find_SomeD)

lemma case_sum_Inl_Inr: "(case r of Inl _ \<Rightarrow> Inl e | Inr x \<Rightarrow> f x) = Inr y \<longleftrightarrow> (\<exists>x. r = Inr x \<and> f x = Inr y)"
  by (cases r) simp_all

lemma validated_state:
  "validate_task_lineage_row env row w ag r i n v b now = Inr s \<Longrightarrow> le_decode_state env (ln_state_json row) = Some s"
  unfolding validate_task_lineage_row_def bind_r_Inr ok_or_Inr case_sum_Inl_Inr by blast

lemma refusal_None:
  assumes "continue_refusal r row m v p now = None"
  shows "lr_parent_head_digest r = ln_head_digest row \<and> lr_state_digest r = ln_state_digest row \<and>
    lr_workspace_hash r = ln_workspace_hash row \<and> lr_agent_id r = ln_agent_id row \<and>
    lr_manifest_version r = ln_manifest_version row \<and> lr_policy_version r = ln_policy_version row \<and>
    ln_revoked_at row = None \<and> \<not> expired_at (ln_expires_at row) now \<and> ln_manifest_id row = am_id m \<and>
    ln_manifest_version row = am_version m \<and> ln_policy_version row = v \<and> ln_budget_limit row = lp_budget_limit p \<and>
    ln_impact_limit row = lp_impact_limit p"
  using assms by (auto simp: continue_refusal_def split: if_splits)

lemma unique_row:
  "distinct (map ln_lineage_id (ld_lineages db)) \<Longrightarrow> r \<in> set (ld_lineages db) \<Longrightarrow> r' \<in> set (ld_lineages db) \<Longrightarrow>
   ln_lineage_id r = ln_lineage_id r' \<Longrightarrow> r = r'"
  by (auto simp: distinct_map dest: inj_onD)

lemma row_current_id: "row_current row now r \<Longrightarrow> ln_lineage_id r = ln_lineage_id row"
  by (simp add: row_current_def)

lemma advanced_sel [simp]:
  "ln_lineage_id (advanced now st s js sd head r) = ln_lineage_id r"
  "ln_state_json (advanced now st s js sd head r) = js"
  "ln_policy_version (advanced now st s js sd head r) = ln_policy_version r"
  "ln_budget_spent (advanced now st s js sd head r) = ls_budget_spent s"
  "ln_impact_units (advanced now st s js sd head r) = ls_impact_units s"
  "ln_budget_limit (advanced now st s js sd head r) = ln_budget_limit r"
  "ln_impact_limit (advanced now st s js sd head r) = ln_impact_limit r"
  by (simp_all add: advanced_def)

lemma row_ok_same:
  "row_ok env db row \<Longrightarrow> admitted_of db' (ln_lineage_id row) = admitted_of db (ln_lineage_id row) \<Longrightarrow> row_ok env db' row"
  by (simp add: row_ok_def)

text \<open>The row a call has advanced or begun.\<close>

lemma row_ok_next:
  assumes codec: "state_codec env" and valid: "validate_state (td_state d) = Inr ()"
    and fits: "state_fits env (ln_policy_version r) (td_state d) (admitted_of db' (ln_lineage_id r))"
    and js: "ln_state_json r = json_text (le_digest env) (lineage_state_json (td_state d))"
    and "ln_budget_spent r = ls_budget_spent (td_state d)" "ln_impact_units r = ls_impact_units (td_state d)"
    and "ls_budget_spent (td_state d) \<le> ln_budget_limit r \<and> ls_impact_units (td_state d) \<le> ln_impact_limit r"
  shows "row_ok env db' r"
  unfolding row_ok_def js using codec valid fits assms(5,6,7) by (auto simp: state_codec_def)

text \<open>The effect of a call on the ledger, as the proofs use it.\<close>

definition call_effect ::
    "lineage_env \<Rightarrow> lineage_db \<Rightarrow> lineage_db \<Rightarrow> int \<Rightarrow> string \<Rightarrow> authority_manifest \<Rightarrow> intent_args \<Rightarrow> lineage_request \<Rightarrow> string \<Rightarrow>
      lineage_policy \<Rightarrow> lineage_start \<Rightarrow> transition_decision \<Rightarrow> string \<Rightarrow> string \<Rightarrow> transition_row \<Rightarrow> bool" where
  "call_effect env db db' now lid m a q v p st d sd head t \<longleftrightarrow>
     start_of env db now m a q v p = Inr st \<and> decide_action st q p a = Inr d \<and> validate_state (td_state d) = Inr () \<and>
     ld_lineages db' =
       (if st_refusal st \<noteq> None then ld_lineages db
        else case st_current st of
          Some row \<Rightarrow> map (\<lambda>r. if row_current row now r then advanced now st (td_state d)
            (json_text (le_digest env) (lineage_state_json (td_state d))) sd head r else r) (ld_lineages db)
        | None \<Rightarrow> ld_lineages db @ [new_row now lid st m a v p (td_state d)
            (json_text (le_digest env) (lineage_state_json (td_state d))) sd head]) \<and>
     (st_current st = None \<longrightarrow> lid \<notin> ln_lineage_id ` set (ld_lineages db)) \<and>
     ld_transitions db' = ld_transitions db @ [t] \<and> tx_lineage_id t = lid \<and> tx_outcome t = td_outcome d \<and>
     tx_budget_cost t = lq_budget_cost q \<and> tx_impact_units t = lq_impact_units q"

lemma admit_new_call_effect:
  assumes "admit_new env db now ids lid key digest m a q v p = Inr (x, db')"
  obtains st d sd head t where "call_effect env db db' now lid m a q v p st d sd head t"
proof -
  from assms obtain st d sd head t db1 where st: "start_of env db now m a q v p = Inr st"
    and d: "decide_action st q p a = Inr d" and sd: "lineage_state_digest (le_digest env) (td_state d) = Inr sd"
    and db1: "store_lineage db now lid st m a v p (td_state d) (json_text (le_digest env) (lineage_state_json (td_state d))) sd head = Inr db1"
    and t: "t = transition_of now ids lid key digest st m a q v p d (json_text (le_digest env) (lineage_state_json (td_state d))) sd head"
    and db': "db' = db1\<lparr>ld_actions := ld_actions db @ [x], ld_transitions := ld_transitions db @ [t]\<rparr>"
    by (rule admit_new_effect) blast
  have "call_effect env db db' now lid m a q v p st d sd head t"
    unfolding call_effect_def using st d state_digest_valid [OF sd] store_lineage_rows [OF db1] start_new [OF st]
    by (auto simp: db' t transition_of_sel)
  then show ?thesis by (rule that)
qed

lemma ledger_begins:
  assumes ok: "ledger_ok env db" and codec: "state_codec env" and unique: "versions_unique env"
    and policy: "policy_for_constraints env raw = Inr (v, p)"
    and eff: "call_effect env db db' now lid m a q v p st d sd head t" and none: "st_current st = None"
  shows "ledger_ok env db'"
proof -
  have st: "start_of env db now m a q v p = Inr st" and d: "decide_action st q p a = Inr d"
    and valid: "validate_state (td_state d) = Inr ()" and trans: "ld_transitions db' = ld_transitions db @ [t]"
    and tx: "tx_lineage_id t = lid" "tx_outcome t = td_outcome d" "tx_budget_cost t = lq_budget_cost q"
      "tx_impact_units t = lq_impact_units q" and fresh: "lid \<notin> ln_lineage_id ` set (ld_lineages db)"
    using eff none by (simp_all add: call_effect_def)
  note n = start_new [OF st none] and adm = admitted_append [OF trans]
  have lin: "ld_lineages db' = ld_lineages db @ [new_row now lid st m a v p (td_state d)
      (json_text (le_digest env) (lineage_state_json (td_state d))) sd head]" (is "_ = _ @ [?r]")
    using eff none n by (simp add: call_effect_def)
  have refs: "\<And>u. u \<in> set (ld_transitions db) \<Longrightarrow> tx_lineage_id u \<in> ln_lineage_id ` set (ld_lineages db)"
    using ok by (simp add: ledger_ok_def)
  then have "admitted_of db lid = []" using fresh by (auto simp: admitted_of_def filter_empty_conv)
  then have "state_fits env v (st_state st) (admitted_of db lid)"
    using n by (simp add: state_fits_def initial_state_def composition_safe_def)
  from state_fits_step [OF this st d policy unique tx(3,4)]
  have fits: "state_fits env v (td_state d) (admitted_of db' lid)" by (simp add: adm tx)
  have "ls_budget_spent (td_state d) \<le> lp_budget_limit p \<and> ls_impact_units (td_state d) \<le> lp_impact_limit p"
    using policy_limits [OF policy] n by (intro decision_within [OF st d]) (simp_all add: initial_state_def within_def)
  then have "row_ok env db' ?r"
    using fits by (intro row_ok_next [OF codec valid]) (simp_all add: new_row_def)
  moreover have "row_ok env db' r" if "r \<in> set (ld_lineages db)" for r
  proof (rule row_ok_same)
    show "row_ok env db r" using ok that by (simp add: ledger_ok_def)
    have "ln_lineage_id r \<noteq> lid" using that fresh by auto
    then show "admitted_of db' (ln_lineage_id r) = admitted_of db (ln_lineage_id r)" by (simp add: adm tx)
  qed
  ultimately show ?thesis
    using ok refs fresh tx(1) by (auto simp: ledger_ok_def lin trans new_row_def)
qed

lemma ledger_refuses:
  assumes ok: "ledger_ok env db" and eff: "call_effect env db db' now lid m a q v p st d sd head t"
    and refused: "st_refusal st \<noteq> None" and lid: "lid \<in> ln_lineage_id ` set (ld_lineages db)"
  shows "ledger_ok env db'"
proof -
  have "\<not> admitted_outcome (td_outcome d)"
    using decide_action_Inr [of env db now m a q v p st d] eff refused by (auto simp: call_effect_def)
  then have "admitted_of db' l = admitted_of db l" for l
    using eff by (simp add: call_effect_def admitted_append [of db' db t])
  with ok eff refused lid show ?thesis
    by (auto simp: ledger_ok_def call_effect_def intro: row_ok_same)
qed

lemma ledger_advances:
  assumes ok: "ledger_ok env db" and codec: "state_codec env" and unique: "versions_unique env"
    and policy: "policy_for_constraints env raw = Inr (v, p)"
    and eff: "call_effect env db db' now lid m a q v p st d sd head t"
    and row: "row \<in> set (ld_lineages db)" "ln_lineage_id row = lid" and cur: "st_current st = Some row"
    and none: "st_refusal st = None" and c: "continue_refusal r row m v p now = None"
    and dec: "le_decode_state env (ln_state_json row) = Some (st_state st)"
  shows "ledger_ok env db'"
proof -
  have st: "start_of env db now m a q v p = Inr st" and d: "decide_action st q p a = Inr d"
    and valid: "validate_state (td_state d) = Inr ()" and trans: "ld_transitions db' = ld_transitions db @ [t]"
    and tx: "tx_lineage_id t = lid" "tx_outcome t = td_outcome d" "tx_budget_cost t = lq_budget_cost q"
      "tx_impact_units t = lq_impact_units q"
    using eff by (simp_all add: call_effect_def)
  let ?js = "json_text (le_digest env) (lineage_state_json (td_state d))"
  have lin: "ld_lineages db' = map (\<lambda>r. if row_current row now r then advanced now st (td_state d) ?js sd head r else r) (ld_lineages db)"
    using eff cur none by (simp add: call_effect_def)
  note c = refusal_None [OF c] and adm = admitted_append [OF trans]
  have dist: "distinct (map ln_lineage_id (ld_lineages db))" and rok: "\<And>r. r \<in> set (ld_lineages db) \<Longrightarrow> row_ok env db r"
    using ok by (auto simp: ledger_ok_def)
  from rok [OF row(1)] dec have fits: "state_fits env v (st_state st) (admitted_of db lid)"
    and lim: "ls_budget_spent (st_state st) \<le> lp_budget_limit p" "ls_impact_units (st_state st) \<le> lp_impact_limit p"
    using c by (auto simp: row_ok_def row(2))
  have "row_ok env db' (if row_current row now r then advanced now st (td_state d) ?js sd head r else r)"
    if r: "r \<in> set (ld_lineages db)" for r
  proof (cases "ln_lineage_id r = lid")
    case True
    then have "r = row" using row r by (intro unique_row [OF dist]) auto
    moreover have "row_current row now row" using c by (simp add: row_current_def)
    ultimately show ?thesis
      using state_fits_step [OF fits st d policy unique tx(3,4)] decision_within [OF st d lim] c row(2)
      by (auto simp: adm tx intro!: row_ok_next [OF codec valid])
  next
    case False
    then have "\<not> row_current row now r" using row(2) by (auto simp: row_current_def)
    with False rok [OF r] show ?thesis by (auto simp: adm tx intro: row_ok_same)
  qed
  then have rows: "\<forall>r\<in>set (ld_lineages db'). row_ok env db' r" unfolding lin set_map by blast
  have ids: "map ln_lineage_id (ld_lineages db') = map ln_lineage_id (ld_lineages db)" by (simp add: lin)
  then have "ln_lineage_id ` set (ld_lineages db') = ln_lineage_id ` set (ld_lineages db)" by (metis set_map)
  moreover have "lid \<in> ln_lineage_id ` set (ld_lineages db)" using row by blast
  ultimately show ?thesis
    using rows ids ok tx(1) unfolding ledger_ok_def trans by simp
qed

lemma admit_new_ledger:
  assumes ok: "ledger_ok env db" and codec: "state_codec env" and unique: "versions_unique env"
    and policy: "policy_for_constraints env raw = Inr (v, p)"
    and lid: "lq_transition q = ''continue'' \<longrightarrow> (\<exists>r. lq_continuation q = Some r \<and> lid = lr_lineage_id r)"
    and new: "admit_new env db now ids lid key digest m a q v p = Inr (x, db')"
  shows "ledger_ok env db'"
proof -
  obtain st d sd head t where eff: "call_effect env db db' now lid m a q v p st d sd head t"
    by (rule admit_new_call_effect [OF new])
  then have st: "start_of env db now m a q v p = Inr st" by (simp add: call_effect_def)
  show ?thesis
  proof (cases "st_current st")
    case None
    with ok codec unique policy eff show ?thesis by (rule ledger_begins)
  next
    case (Some row)
    then obtain r where r: "lq_transition q = ''continue''" "lq_continuation q = Some r"
        "task_lineage_get db (lr_lineage_id r) = Some row"
      and val: "validate_task_lineage_row env row (ia_workspace_hash a) (ia_agent_id a) None None None None False now = Inr (st_state st)"
      and ref: "st_refusal st = continue_refusal r row m v p now"
      by (rule start_continue [OF st])
    have row: "row \<in> set (ld_lineages db)" "ln_lineage_id row = lid" using get_row [OF r(3)] lid r(1,2) by auto
    show ?thesis
    proof (cases "st_refusal st = None")
      case True
      then have "continue_refusal r row m v p now = None" using ref by simp
      then show ?thesis by (rule ledger_advances [OF ok codec unique policy eff row Some True _ validated_state [OF val]])
    next
      case False
      with ledger_refuses [OF ok eff] row show ?thesis by blast
    qed
  qed
qed

section \<open>Histories\<close>

text \<open>Calls with any arguments, revocations, and grants of manifests, in any order.\<close>

inductive lineage_step :: "lineage_env \<Rightarrow> lineage_db \<Rightarrow> lineage_db \<Rightarrow> bool" for env where
  act: "action_intent_lineage_path env db now ids m a q = (r, db') \<Longrightarrow> lineage_step env db db'"
| revoke: "authority_revoke db now mid = (r, db') \<Longrightarrow> lineage_step env db db'"
| grant: "lineage_step env db (db\<lparr>ld_manifests := ms\<rparr>)"

definition empty_ledger :: lineage_db where
  "empty_ledger = \<lparr>ld_lineages = [], ld_transitions = [], ld_actions = [], ld_manifests = []\<rparr>"

lemma prepare_Inr:
  assumes "prepare_lineage env ids m a q = Inr (vp, digest, lid)"
  shows "policy_for_constraints env (am_capability_constraints_json m) = Inr vp \<and>
    (lq_transition q = ''continue'' \<longrightarrow> (\<exists>r. lq_continuation q = Some r \<and> lid = lr_lineage_id r))"
  using assms by (auto simp: prepare_lineage_def bind_r_Inr map_err_Inr ok_or_Inr split: if_splits)

lemma lineage_tx_cases:
  assumes "lineage_tx env db now ids m a q = Inr (x, db')"
  obtains (stored) "db' = db"
  | (new) v p digest lid where "policy_for_constraints env (am_capability_constraints_json m) = Inr (v, p)"
      "lq_transition q = ''continue'' \<longrightarrow> (\<exists>r. lq_continuation q = Some r \<and> lid = lr_lineage_id r)"
      "admit_new env db now ids lid (idempotency_key_digest (le_digest env) (ia_action_key a)) digest m a q v p = Inr (x, db')"
proof -
  from assms obtain z where "prepare_lineage env ids m a q = Inr z"
    by (auto simp only: lineage_tx_def bind_r_Inr)
  moreover obtain v p digest lid where "z = ((v, p), digest, lid)" by (cases z) auto
  ultimately have pr: "prepare_lineage env ids m a q = Inr ((v, p), digest, lid)" by simp
  show ?thesis
  proof (cases "existing_transition db (ia_workspace_hash a) (ia_agent_id a) (idempotency_key_digest (le_digest env) (ia_action_key a))")
    case None
    with assms have "admit_new env db now ids lid (idempotency_key_digest (le_digest env) (ia_action_key a)) digest m a q v p = Inr (x, db')"
      by (simp add: lineage_tx_def pr)
    with prepare_Inr [OF pr] show ?thesis by (intro new) auto
  next
    case (Some t)
    with assms show ?thesis by (intro stored) (auto simp: lineage_tx_def pr bind_r_Inr)
  qed
qed

lemma path_db:
  assumes "action_intent_lineage_path env db now ids m a q = (r, db')" and "db' \<noteq> db"
  obtains x where "lineage_tx env db now ids m a q = Inr (x, db')"
  using assms by (auto simp: action_intent_lineage_path_def split: sum.splits)

lemma revoke_ledger:
  assumes "ledger_ok env db" and "authority_revoke db now mid = (r, db')"
  shows "ledger_ok env db'"
proof -
  let ?f = "\<lambda>r. if ln_manifest_id r = mid \<and> ln_revoked_at r = None then r\<lparr>ln_revoked_at := Some now\<rparr> else r"
  have same: "row_ok env db'' (?f r) = row_ok env db'' r" "ln_lineage_id (?f r) = ln_lineage_id r" for db'' r
    by (simp_all add: row_ok_def)
  have "db' = db \<or> ld_lineages db' = map ?f (ld_lineages db) \<and> ld_transitions db' = ld_transitions db"
    using assms(2) by (auto simp: authority_revoke_def split: option.splits if_splits)
  then show ?thesis
  proof (elim disjE conjE)
    assume l: "ld_lineages db' = map ?f (ld_lineages db)" and t: "ld_transitions db' = ld_transitions db"
    have "row_ok env db' (?f r)" if "r \<in> set (ld_lineages db)" for r
      unfolding same using assms(1) that by (auto simp: ledger_ok_def row_ok_def admitted_of_def t)
    then have rows: "\<forall>r\<in>set (ld_lineages db'). row_ok env db' r" unfolding l set_map by blast
    have ids: "map ln_lineage_id (ld_lineages db') = map ln_lineage_id (ld_lineages db)" by (simp add: l)
    then have "ln_lineage_id ` set (ld_lineages db') = ln_lineage_id ` set (ld_lineages db)" by (metis set_map)
    with rows ids assms(1) show ?thesis unfolding ledger_ok_def t by simp
  qed (use assms in simp)
qed

lemma step_ledger:
  assumes "lineage_step env db db'" and "ledger_ok env db" and "state_codec env" and "versions_unique env"
  shows "ledger_ok env db'"
  using assms(1)
proof cases
  case (act now ids m a q r)
  show ?thesis
  proof (cases "db' = db")
    case False
    from act False obtain x where "lineage_tx env db now ids m a q = Inr (x, db')" by (rule path_db)
    then show ?thesis
      by (cases rule: lineage_tx_cases) (use assms admit_new_ledger in blast)+
  qed (use assms in simp)
next
  case (revoke now mid r)
  with assms(2) show ?thesis by (rule revoke_ledger)
next
  case (grant ms)
  with assms(2) show ?thesis by (simp add: ledger_ok_def row_ok_def admitted_of_def)
qed

lemma history_ledger:
  assumes "(lineage_step env)\<^sup>*\<^sup>* empty_ledger db" and "state_codec env" and "versions_unique env"
  shows "ledger_ok env db"
  using assms(1)
proof (induction rule: rtranclp_induct)
  case base
  show ?case by (simp add: ledger_ok_def empty_ledger_def)
next
  case (step db db')
  from step.hyps(2) step.IH assms(2,3) show ?case by (rule step_ledger)
qed

text \<open>C12.
  Budgets are cumulative and cannot be exceeded. After any sequence of calls, revocations and grants,
  from an empty store, what a lineage has spent is exactly the sum of the costs of its admitted
  transitions, and that is within the limit it was created with; the same holds of its impact, and it
  has admitted at most 64 actions. Denied, stale and revoked attempts never count.
\<close>

theorem lineage_budgets_hold:
  assumes "state_codec env" and "versions_unique env" and "(lineage_step env)\<^sup>*\<^sup>* empty_ledger db"
    and "row \<in> set (ld_lineages db)"
  shows "ln_budget_spent row = sum_list (map tx_budget_cost (admitted_of db (ln_lineage_id row))) \<and>
    ln_impact_units row = sum_list (map tx_impact_units (admitted_of db (ln_lineage_id row))) \<and>
    ln_budget_spent row \<le> ln_budget_limit row \<and> ln_impact_units row \<le> ln_impact_limit row \<and>
    length (admitted_of db (ln_lineage_id row)) \<le> 64"
proof -
  have "row_ok env db row" using history_ledger [OF assms(3,1,2)] assms(4) by (simp add: ledger_ok_def)
  then obtain s where "validate_state s = Inr ()" "ls_budget_spent s = ln_budget_spent row" "ls_impact_units s = ln_impact_units row"
      "ln_budget_spent row \<le> ln_budget_limit row" "ln_impact_units row \<le> ln_impact_limit row"
      "state_fits env (ln_policy_version row) s (admitted_of db (ln_lineage_id row))"
    by (auto simp: row_ok_def)
  moreover from this(1) have "length (ls_action_classes s) \<le> 64"
    unfolding validate_state_def check_all_Inr list.pred_inject guard_r_Inr by (simp add: MAX_HISTORY_def)
  ultimately show ?thesis by (simp add: state_fits_def)
qed

text \<open>C13.
  Read, then send, is never composed. In every reachable store the state of a lineage whose policy forbids
  it decodes to a history of action classes in which no external send follows a read; sessions and
  retries do not matter, because the history travels with the lineage.
\<close>

theorem send_never_follows_read:
  assumes "state_codec env" and "versions_unique env" and "(lineage_step env)\<^sup>*\<^sup>* empty_ledger db"
    and "row \<in> set (ld_lineages db)"
    and "policy_for_constraints env raw = Inr (ln_policy_version row, p)" and "lp_deny_read_then_external_send p"
  shows "\<exists>s. le_decode_state env (ln_state_json row) = Some s \<and>
    (\<forall>i j. i < j \<and> j < length (ls_action_classes s) \<and> ls_action_classes s ! i = ''read'' \<longrightarrow>
      ls_action_classes s ! j \<noteq> ''external_send'')"
proof -
  have "row_ok env db row" using history_ledger [OF assms(3,1,2)] assms(4) by (simp add: ledger_ok_def)
  with assms(5,6) obtain s where "le_decode_state env (ln_state_json row) = Some s" "composition_safe (ls_action_classes s)"
    by (auto simp: row_ok_def state_fits_def)
  then show ?thesis by (auto simp: composition_safe_def sorted_wrt_iff_nth_less)
qed

section \<open>Heads and retries\<close>

lemma validated_scope:
  "validate_task_lineage_row env row w ag r i n v b now = Inr s \<Longrightarrow> ln_workspace_hash row = w \<and> ln_agent_id row = ag"
  unfolding validate_task_lineage_row_def bind_r_Inr check_all_Inr list.pred_inject guard_r_Inr by blast

text \<open>C17.
  Only the holder of the current head advances a lineage. A call changes a stored lineage only when it
  is a continuation by the same agent in the same workspace whose reference names that lineage with its
  present head, state, authority and policy, and the lineage is neither revoked nor expired and
  belongs to the manifest of the call. A reference to an earlier head changes nothing, and a revoked
  lineage stays as it is.
\<close>

theorem only_the_current_head_advances:
  assumes "action_intent_lineage_path env db now ids m a q = (reply, db')"
    and "distinct (map ln_lineage_id (ld_lineages db))"
    and "row \<in> set (ld_lineages db)" and "row \<notin> set (ld_lineages db')"
  shows "\<exists>r. lq_transition q = ''continue'' \<and> lq_continuation q = Some r \<and> \<not> reference_mismatch row r \<and>
    ln_revoked_at row = None \<and> \<not> expired_at (ln_expires_at row) now \<and>
    ln_manifest_id row = am_id m \<and> ln_manifest_version row = am_version m \<and>
    ln_workspace_hash row = ia_workspace_hash a \<and> ln_agent_id row = ia_agent_id a"
proof -
  from assms(1) obtain x where tx: "lineage_tx env db now ids m a q = Inr (x, db')"
    by (rule path_db) (use assms(3,4) in auto)
  from tx obtain v p digest lid where
      new: "admit_new env db now ids lid (idempotency_key_digest (le_digest env) (ia_action_key a)) digest m a q v p = Inr (x, db')"
    by (cases rule: lineage_tx_cases) (use assms(3,4) in auto)
  obtain st d sd head t where eff: "call_effect env db db' now lid m a q v p st d sd head t"
    by (rule admit_new_call_effect [OF new])
  then have st: "start_of env db now m a q v p = Inr st" by (simp add: call_effect_def)
  have "st_refusal st \<noteq> None \<Longrightarrow> ld_lineages db' = ld_lineages db" using eff by (simp add: call_effect_def)
  with assms(3,4) have none: "st_refusal st = None" by metis
  have "st_current st = None \<Longrightarrow> set (ld_lineages db) \<subseteq> set (ld_lineages db')" using eff none by (auto simp: call_effect_def)
  with assms(3,4) obtain row0 where cur: "st_current st = Some row0" by (cases "st_current st") auto
  then obtain r where r: "lq_transition q = ''continue''" "lq_continuation q = Some r"
      "task_lineage_get db (lr_lineage_id r) = Some row0" and ref: "st_refusal st = continue_refusal r row0 m v p now"
    and val: "validate_task_lineage_row env row0 (ia_workspace_hash a) (ia_agent_id a) None None None None False now = Inr (st_state st)"
    by (rule start_continue [OF st])
  have "row_current row0 now row"
  proof (rule ccontr)
    assume "\<not> row_current row0 now row"
    then have "row \<in> set (ld_lineages db')" using eff none cur assms(3) by (auto simp: call_effect_def)
    with assms(4) show False by contradiction
  qed
  then have "row = row0"
    using get_row [OF r(3)] assms(3) by (intro unique_row [OF assms(2)]) (auto simp: row_current_def)
  with refusal_None [of r row0 m v p now] none ref r get_row [OF r(3)] validated_scope [OF val] show ?thesis
    by (auto simp: reference_mismatch_def)
qed

lemma prepare_ids:
  assumes "prepare_lineage env ids m a q = Inr (vp, digest, lid)"
  shows "\<exists>lid'. prepare_lineage env ids' m a q = Inr (vp, digest, lid')"
  using assms by (auto simp: prepare_lineage_def bind_r_Inr split: if_splits)

lemma sort_key_Nil: "sort_key f xs = [] \<longleftrightarrow> xs = []"
  by (metis set_empty set_sort)

lemma newest_None: "(case sort_key f ts of [] \<Rightarrow> None | t # us \<Rightarrow> Some (last (t # us))) = None \<longleftrightarrow> ts = []"
  unfolding sort_key_Nil [of f ts, symmetric] by (cases "sort_key f ts") simp_all

lemma existing_None: "existing_transition db w ag key = None \<longleftrightarrow>
    filter (\<lambda>t. tx_workspace_hash t = w \<and> tx_agent_id t = ag \<and> tx_idempotency_key_digest t = key) (ld_transitions db) = []"
  unfolding existing_transition_def by (rule newest_None)

lemma existing_append:
  assumes "existing_transition db w ag key = None" and "ld_transitions db' = ld_transitions db @ [t]"
    and "tx_workspace_hash t = w" "tx_agent_id t = ag" "tx_idempotency_key_digest t = key"
  shows "existing_transition db' w ag key = Some t"
  using assms(1) [unfolded existing_None] assms(2-5) by (simp add: existing_transition_def)

text \<open>The transaction of a retry gives what the first one stored.\<close>

lemma lineage_tx_again:
  assumes "lineage_tx env db now ids m a q = Inr (x, db')"
  shows "lineage_tx env db' now' ids' m a q = Inr (x, db')"
proof -
  let ?key = "idempotency_key_digest (le_digest env) (ia_action_key a)"
  from assms obtain z where "prepare_lineage env ids m a q = Inr z"
    by (auto simp only: lineage_tx_def bind_r_Inr)
  moreover obtain vp digest lid where "z = (vp, digest, lid)" by (cases z) auto
  ultimately have pr: "prepare_lineage env ids m a q = Inr (vp, digest, lid)" by simp
  then obtain lid' where pr': "prepare_lineage env ids' m a q = Inr (vp, digest, lid')" using prepare_ids by blast
  show ?thesis
  proof (cases "existing_transition db (ia_workspace_hash a) (ia_agent_id a) ?key")
    case (Some t)
    with assms have "db' = db" "replay db t digest = Inr x" by (auto simp: lineage_tx_def pr bind_r_Inr)
    with Some show ?thesis by (simp add: lineage_tx_def pr')
  next
    case None
    with assms have new: "admit_new env db now ids lid ?key digest m a q (fst vp) (snd vp) = Inr (x, db')"
      by (simp add: lineage_tx_def pr)
    obtain t where t: "tx_request_digest t = digest" "tx_action_id t = aa_id x" "tx_workspace_hash t = ia_workspace_hash a"
        "tx_agent_id t = ia_agent_id a" "tx_idempotency_key_digest t = ?key" "ld_transitions db' = ld_transitions db @ [t]"
        "ld_actions db' = ld_actions db @ [x]" "aa_id x \<notin> aa_id ` set (ld_actions db)"
      by (rule admit_new_effect [OF new], rule that) (simp_all add: transition_of_sel)
    have "find (\<lambda>y. aa_id y = aa_id x) (ld_actions db) = None" using t(8) unfolding find_None_iff by (metis image_eqI)
    then have "replay db' t digest = Inr x" by (simp add: replay_def t find_append)
    moreover have "existing_transition db' (ia_workspace_hash a) (ia_agent_id a) ?key = Some t"
      by (rule existing_append [OF None t(6,3,4,5)])
    ultimately show ?thesis by (simp add: lineage_tx_def pr')
  qed
qed

text \<open>C18.
  A retry is harmless. When a call succeeded, the same call with the same key, at any later time and with
  any new ids, returns the same action with the same receipt and leaves the store as it is: no second
  action, no second charge.
\<close>

theorem retry_returns_the_stored_action:
  assumes "action_intent_lineage_path env db now ids m a q = (Inr x, db')"
  shows "action_intent_lineage_path env db' now' ids' m a q = (Inr x, db')"
proof -
  from assms obtain x0 where tx: "lineage_tx env db now ids m a q = Inr (x0, db')"
      and at: "attach_task_lineage_projection env db' x0 = Inr x"
    by (auto simp: action_intent_lineage_path_def split: sum.splits)
  show ?thesis by (simp add: action_intent_lineage_path_def lineage_tx_again [OF tx] at)
qed

text \<open>
  A refusal stores the limits of the policy now in force beside the spending of the lineage. When the
  new limit is below what was spent, the stored receipt is malformed: the transaction is committed
  and the call still reports an error.
\<close>

lemma refusal_below_spending_has_no_reply:
  assumes call: "admit_new env db now ids lid key digest m a q v p = Inr (x, db')"
    and st: "start_of env db now m a q v p = Inr st" "st_refusal st \<noteq> None"
    and limit: "lp_budget_limit p < ls_budget_spent (st_state st)"
    and fresh: "fi_transition ids \<notin> tx_transition_id ` set (ld_transitions db)" "fi_transition ids \<noteq> []"
  shows "\<exists>e. attach_task_lineage_projection env db' x = Inl e" and "length (ld_transitions db') = length (ld_transitions db) + 1"
proof -
  obtain st' d sd head t db1 where e: "start_of env db now m a q v p = Inr st'" "decide_action st' q p a = Inr d"
      "x = action_of env now ids lid m a d sd"
      "t = transition_of now ids lid key digest st' m a q v p d (json_text (le_digest env) (lineage_state_json (td_state d))) sd head"
      "db' = db1\<lparr>ld_actions := ld_actions db @ [x], ld_transitions := ld_transitions db @ [t]\<rparr>"
    by (rule admit_new_effect [OF call]) blast
  have "td_state d = st_state st" using e(1,2) st by (auto simp: decide_action_def bind_r_Inr split: if_splits)
  then have bad: "receipt_malformed (receipt_of t)"
    using limit by (simp add: e(4) receipt_malformed_def receipt_of_def transition_of_def within_def split: option.splits)
  have "find (\<lambda>u. tx_transition_id u = fi_transition ids) (ld_transitions db) = None"
    using fresh(1) by (auto simp: find_None_iff intro: rev_image_eqI)
  moreover have "tx_transition_id t = fi_transition ids" by (simp add: e(4) transition_of_sel)
  ultimately have "find (\<lambda>u. tx_transition_id u = fi_transition ids) (ld_transitions db') = Some t"
    by (simp add: e(5) find_append)
  then have "task_lineage_receipt_get env db' (fi_transition ids) \<noteq> Inr r" for r
    using bad by (auto simp: task_lineage_receipt_get_def bind_r_Inr validate_receipt_def check_all_Inr guard_r_Inr Let_def
        split: sum.splits)
  then show "\<exists>e. attach_task_lineage_projection env db' x = Inl e"
    using fresh(2) by (cases "attach_task_lineage_projection env db' x")
      (auto simp: attach_task_lineage_projection_def bind_r_Inr e(3) action_of_def Let_def split: if_splits)
  show "length (ld_transitions db') = length (ld_transitions db) + 1" by (simp add: e(5))
qed

section \<open>A sample ledger\<close>

text \<open>JSON values are countable, so an injective rendering exists; it stands for the renderer in the witnesses.\<close>

instance json :: countable
  by countable_datatype

fun state_of_json :: "json \<Rightarrow> lineage_state option" where
  "state_of_json (JObj [(_, JInt n), (_, JArr cs), (_, JStr au), (_, JInt b), (_, JInt i), (_, JStr l)]) =
     Some \<lparr>ls_schema_version = n, ls_action_classes = map (\<lambda>c. case c of JStr s \<Rightarrow> s | _ \<Rightarrow> []) cs,
       ls_automaton_state = au, ls_budget_spent = b, ls_impact_units = i, ls_last_action_digest = l\<rparr>"
| "state_of_json v = None"

definition sample_lineage_env :: lineage_env where
  "sample_lineage_env = \<lparr>le_digest = \<lparr>sha256 = (\<lambda>_. replicate 32 (CHR ''a'')), json_text = (\<lambda>v. replicate (to_nat v) (CHR ''x''))\<rparr>,
     le_parse_json = (\<lambda>raw. if raw = ''{}'' then Some (JObj []) else None),
     le_decode_state = (\<lambda>t. state_of_json (from_nat (length t)))\<rparr>"

lemma sample_codec: "state_codec sample_lineage_env"
  by (simp add: state_codec_def sample_lineage_env_def lineage_state_json_def comp_def)

lemma sample_sha: "sha256_32 (le_digest sample_lineage_env)"
  by (simp add: sha256_32_def sample_lineage_env_def)

definition sample_digest :: string where
  "sample_digest = sha256_hex (le_digest sample_lineage_env) []"

lemma sample_digests: "sha256_hex (le_digest sample_lineage_env) s = sample_digest"
  by (simp add: sample_digest_def sha256_hex_def sample_lineage_env_def)

lemma sample_digest_hex: "lower_hex64 sample_digest" "sample_digest \<noteq> []"
  using sample_sha lower_hex64_not_Nil by (auto simp: sample_digest_def)

definition sample_policy :: lineage_policy where
  "sample_policy = \<lparr>lp_budget_limit = 100, lp_impact_limit = 100, lp_deny_read_then_external_send = True\<rparr>"

lemma sample_policy_for:
  "policy_for_constraints sample_lineage_env raw = Inr (v, p) \<longleftrightarrow> raw = ''{}'' \<and> v = sample_digest \<and> p = sample_policy"
proof -
  have "le_parse_json sample_lineage_env raw = (if raw = ''{}'' then Some (JObj []) else None)"
    by (simp add: sample_lineage_env_def)
  then show ?thesis
    by (auto simp: policy_for_constraints_def policy_config_def policy_malformed_def sample_digests sample_policy_def
        DEFAULT_BUDGET_LIMIT_def DEFAULT_IMPACT_LIMIT_def)
qed

lemma sample_versions: "versions_unique sample_lineage_env"
  by (simp add: versions_unique_def sample_policy_for)

definition sample_manifest :: authority_manifest where
  "sample_manifest = \<lparr>am_id = ''m1'', am_agent_id = ''a1'', am_workspace_hash = ''w'', am_version = 1,
     am_allowed_capabilities = [''read'', ''write''], am_approval_required_capabilities = [], am_scope_anchors = [],
     am_approver_principals = [], am_allowed_inbound_principals = [], am_permitted_external_ref_prefixes = [],
     am_max_parallel_actions = 1, am_mode = ''enforce'', am_expires_at = None, am_revoked_at = None, am_created_at = 1,
     am_capability_constraints_json = ''{}''\<rparr>"

definition sample_intent :: intent_args where
  "sample_intent = \<lparr>ia_agent_id = ''a1'', ia_workspace_hash = ''w'', ia_scope_anchor = [], ia_external_ref = [],
     ia_capability = ''read'', ia_action_key = ''k'', ia_intent_hash = sample_digest, ia_resource_constraints_json = ''{}'',
     ia_justification_json = ''[]'', ia_justification_entity_ids = [], ia_compensates_for = [], ia_finding_ref = [],
     ia_superseding_head = [], ia_handoff_receipt_ref = [], ia_resource_permitted = True\<rparr>"

definition sample_ids :: fresh_ids where
  "sample_ids = \<lparr>fi_action = ''act-1'', fi_transition = ''lin-tx-1'', fi_lineage = ''lin-1''\<rparr>"

definition begin_request :: lineage_request where
  "begin_request = \<lparr>lq_schema_version = 1, lq_transition = ''new_authorization'', lq_action_class = ''read'',
     lq_budget_cost = 5, lq_impact_units = 1, lq_continuation = None\<rparr>"

lemma begin_request_valid: "validate_lineage_request begin_request = Inr ()"
  by (simp add: validate_lineage_request_def begin_request_def LINEAGE_SCHEMA_VERSION_def ACTION_CLASSES_def within_def)

lemma begin_prepared:
  "prepare_lineage sample_lineage_env sample_ids sample_manifest sample_intent begin_request =
     Inr ((sample_digest, sample_policy), sample_digest, ''lin-1'')"
proof -
  have "validate_capability_action_class ''read'' ''read'' = Inr ()"
    by (simp add: validate_capability_action_class_def CAPABILITY_CLASSES_def)
  moreover have "policy_for_constraints sample_lineage_env ''{}'' = Inr (sample_digest, sample_policy)"
    by (simp add: sample_policy_for)
  moreover have "ia_capability sample_intent = ''read''" "ia_intent_hash sample_intent = sample_digest"
      "am_capability_constraints_json sample_manifest = ''{}''" "lq_action_class begin_request = ''read''"
      "lq_transition begin_request = ''new_authorization''" "fi_lineage sample_ids = ''lin-1''"
    by (simp_all add: sample_intent_def sample_manifest_def begin_request_def sample_ids_def)
  ultimately show ?thesis
    by (simp add: prepare_lineage_def begin_request_valid lineage_request_digest_def sample_digests sample_digest_hex)
qed

definition begun_state :: lineage_state where
  "begun_state = \<lparr>ls_schema_version = 1, ls_action_classes = [''read''], ls_automaton_state = ''read_seen'',
     ls_budget_spent = 5, ls_impact_units = 1, ls_last_action_digest = sample_digest\<rparr>"

lemma begun_state_valid: "validate_state begun_state = Inr ()" "validate_state initial_state = Inr ()"
  by (simp_all add: validate_state_def begun_state_def initial_state_def sample_digest_hex LINEAGE_SCHEMA_VERSION_def MAX_HISTORY_def
      MAX_POLICY_LIMIT_def ACTION_CLASSES_def automaton_of_def)

definition begin_start :: lineage_start where
  "begin_start = \<lparr>st_parent_id = [], st_parent_head = [], st_current = None, st_state = initial_state, st_refusal = None\<rparr>"

definition begin_decision :: transition_decision where
  "begin_decision = \<lparr>td_state = begun_state, td_outcome = ''new_authorization'', td_reason = ''new_authorization''\<rparr>"

lemma begin_decided: "decide_action begin_start begin_request sample_policy sample_intent = Inr begin_decision"
proof -
  have "apply_action initial_state begin_request sample_policy sample_digest =
      Inr \<lparr>td_state = begun_state, td_outcome = ''continued'', td_reason = ''admitted''\<rparr>"
    by (simp add: apply_action_def begun_state_valid)
      (simp add: initial_state_def begin_request_def sample_policy_def ACTION_CLASSES_def within_def sample_digest_hex checked_add_i64_def
        in_i64_def i64_min_def i64_max_def MAX_HISTORY_def admit_def begun_state_def automaton_of_def LINEAGE_SCHEMA_VERSION_def)
  then show ?thesis
    by (simp add: decide_action_def begin_start_def sample_intent_def begin_request_def begin_decision_def)
qed

lemma begin_started:
  "start_of sample_lineage_env db now m a begin_request v p = Inr begin_start"
  by (simp add: start_of_def begin_request_def begin_start_def)

definition begun_row :: stored_lineage where
  "begun_row = new_row 10 ''lin-1'' begin_start sample_manifest sample_intent sample_digest sample_policy begun_state
     (json_text (le_digest sample_lineage_env) (lineage_state_json begun_state)) sample_digest sample_digest"

definition begun_action :: authorized_action where
  "begun_action = action_of sample_lineage_env 10 sample_ids ''lin-1'' sample_manifest sample_intent begin_decision sample_digest"

definition begun_transition :: transition_row where
  "begun_transition = transition_of 10 sample_ids ''lin-1'' sample_digest sample_digest begin_start sample_manifest sample_intent
     begin_request sample_digest sample_policy begin_decision
     (json_text (le_digest sample_lineage_env) (lineage_state_json begun_state)) sample_digest sample_digest"

definition begun_ledger :: lineage_db where
  "begun_ledger = empty_ledger\<lparr>ld_lineages := [begun_row], ld_actions := [begun_action], ld_transitions := [begun_transition]\<rparr>"

lemma begin_tx:
  "lineage_tx sample_lineage_env empty_ledger 10 sample_ids sample_manifest sample_intent begin_request = Inr (begun_action, begun_ledger)"
proof -
  have "existing_transition empty_ledger w ag key = None" for w ag key by (simp add: existing_None empty_ledger_def)
  moreover have "lineage_state_digest (le_digest sample_lineage_env) (td_state begin_decision) = Inr sample_digest"
    by (simp add: lineage_state_digest_def begin_decision_def begun_state_valid sample_digests)
  moreover have "idempotency_key_digest (le_digest sample_lineage_env) k = sample_digest" for k
    by (simp add: idempotency_key_digest_def sample_digests)
  moreover have "head_of (le_digest sample_lineage_env) ''lin-1'' begin_start sample_manifest sample_intent sample_digest sample_digest = sample_digest"
    by (simp add: head_of_def begin_start_def compute_head_digest_def sample_digests)
  moreover have "store_lineage empty_ledger 10 ''lin-1'' begin_start sample_manifest sample_intent sample_digest sample_policy
      (td_state begin_decision) (json_text (le_digest sample_lineage_env) (lineage_state_json (td_state begin_decision))) sample_digest sample_digest
      = Inr (empty_ledger\<lparr>ld_lineages := [begun_row]\<rparr>)"
    by (simp add: store_lineage_def insert_lineage_Inr begun_row_def begin_decision_def) (simp add: begin_start_def empty_ledger_def insert_lineage_def)
  ultimately show ?thesis
    by (simp add: lineage_tx_def begin_prepared admit_new_def begin_started begin_decided Let_def insert_action_def insert_transition_def)
      (simp add: begun_ledger_def empty_ledger_def begun_action_def begun_transition_def begin_decision_def)
qed

lemma begun_transition_sel:
  "tx_transition_id begun_transition = ''lin-tx-1''" "tx_action_id begun_transition = ''act-1''" "tx_lineage_id begun_transition = ''lin-1''"
  "tx_outcome begun_transition = ''new_authorization''" "tx_reason_code begun_transition = ''new_authorization''"
  "tx_workspace_hash begun_transition = ''w''" "tx_agent_id begun_transition = ''a1''" "tx_manifest_id begun_transition = ''m1''"
  "tx_manifest_version begun_transition = 1" "tx_policy_version begun_transition = sample_digest"
  "tx_state_digest begun_transition = sample_digest" "tx_head_digest begun_transition = sample_digest"
  "tx_parent_lineage_id begun_transition = []" "tx_parent_head_digest begun_transition = []"
  "tx_budget_limit begun_transition = 100" "tx_impact_limit begun_transition = 100" "tx_budget_spent begun_transition = 5"
  "tx_impact_spent begun_transition = 1" "tx_budget_cost begun_transition = 5"
  "tx_state_json begun_transition = json_text (le_digest sample_lineage_env) (lineage_state_json begun_state)"
  by (simp_all add: begun_transition_def transition_of_def begin_start_def begin_decision_def begin_request_def sample_ids_def
      sample_intent_def sample_manifest_def sample_policy_def begun_state_def)

lemma begun_receipt:
  "task_lineage_receipt_get sample_lineage_env begun_ledger ''lin-tx-1'' = Inr (receipt_of begun_transition)"
proof -
  have "le_decode_state sample_lineage_env (json_text (le_digest sample_lineage_env) (lineage_state_json begun_state)) = Some begun_state"
    using sample_codec begun_state_valid by (simp add: state_codec_def)
  moreover have "receipt_head (le_digest sample_lineage_env) r = sample_digest" for r
    by (simp add: receipt_head_def compute_head_digest_def sample_digests)
  moreover have "\<not> receipt_malformed (receipt_of begun_transition)"
    by (simp add: receipt_malformed_def receipt_of_def begun_transition_sel LINEAGE_SCHEMA_VERSION_def sample_digest_hex within_def
        MAX_POLICY_LIMIT_def OUTCOME_CODES_def RECEIPT_REASONS_def)
  ultimately show ?thesis
    by (simp add: task_lineage_receipt_get_def begun_ledger_def begun_transition_sel lineage_state_digest_def begun_state_valid
        sample_digests validate_receipt_def Let_def)
      (simp add: receipt_of_def begun_transition_sel LINEAGE_SCHEMA_VERSION_def OUTCOME_CODES_def RECEIPT_REASONS_def)
qed

lemma begun_attached: "\<exists>x. attach_task_lineage_projection sample_lineage_env begun_ledger begun_action = Inr x"
proof -
  have "aa_lineage_transition_id begun_action = ''lin-tx-1''" "aa_lineage_id begun_action = ''lin-1''" "aa_id begun_action = ''act-1''"
      "aa_lineage_outcome begun_action = ''new_authorization''" "aa_workspace_hash begun_action = ''w''" "aa_agent_id begun_action = ''a1''"
      "aa_manifest_id begun_action = ''m1''" "aa_manifest_version begun_action = 1"
    by (simp_all add: begun_action_def action_of_def Let_def sample_ids_def begin_decision_def sample_intent_def sample_manifest_def)
  then show ?thesis
    by (simp add: attach_task_lineage_projection_def begun_receipt Let_def) (simp add: receipt_of_def begun_transition_sel)
qed

lemma begin_path:
  obtains x where "action_intent_lineage_path sample_lineage_env empty_ledger 10 sample_ids sample_manifest sample_intent begin_request =
    (Inr x, begun_ledger)"
  using begun_attached by (auto simp: action_intent_lineage_path_def begin_tx)

lemma begun_reachable: "(lineage_step sample_lineage_env)\<^sup>*\<^sup>* empty_ledger begun_ledger"
  by (rule begin_path) (blast intro: lineage_step.act)

lemma begun_row_sel: "begun_row \<in> set (ld_lineages begun_ledger)" "ln_policy_version begun_row = sample_digest"
  "ln_budget_spent begun_row = 5" "ln_lineage_id begun_row = ''lin-1''"
  by (simp_all add: begun_ledger_def begun_row_def new_row_def begun_state_def)

theorem lineage_budgets_hold_witness:
  "ln_budget_spent begun_row = sum_list (map tx_budget_cost (admitted_of begun_ledger ''lin-1'')) \<and>
   ln_budget_spent begun_row = 5 \<and> 5 \<le> ln_budget_limit begun_row"
  using lineage_budgets_hold [OF sample_codec sample_versions begun_reachable begun_row_sel(1)]
  by (simp add: begun_row_sel)

theorem send_never_follows_read_witness:
  "\<exists>s. le_decode_state sample_lineage_env (ln_state_json begun_row) = Some s \<and>
    (\<forall>i j. i < j \<and> j < length (ls_action_classes s) \<and> ls_action_classes s ! i = ''read'' \<longrightarrow>
      ls_action_classes s ! j \<noteq> ''external_send'')"
  by (rule send_never_follows_read [OF sample_codec sample_versions begun_reachable begun_row_sel(1), of "''{}''" sample_policy])
    (simp_all add: sample_policy_for begun_row_sel sample_policy_def)

theorem retry_returns_the_stored_action_witness:
  "\<exists>x. action_intent_lineage_path sample_lineage_env begun_ledger 99 (sample_ids\<lparr>fi_action := ''act-2''\<rparr>) sample_manifest sample_intent
     begin_request = (Inr x, begun_ledger)"
  by (rule begin_path) (blast intro: retry_returns_the_stored_action)

text \<open>A continuation of the sample lineage.\<close>

definition idle_ledger :: lineage_db where
  "idle_ledger = empty_ledger\<lparr>ld_lineages := [begun_row]\<rparr>"

definition head_reference :: continuation_reference where
  "head_reference = \<lparr>lr_schema_version = 1, lr_lineage_id = ''lin-1'', lr_parent_head_digest = sample_digest,
     lr_state_digest = sample_digest, lr_workspace_hash = ''w'', lr_agent_id = ''a1'', lr_manifest_version = 1,
     lr_policy_version = sample_digest\<rparr>"

definition continue_request :: lineage_request where
  "continue_request = \<lparr>lq_schema_version = 1, lq_transition = ''continue'', lq_action_class = ''write'',
     lq_budget_cost = 2, lq_impact_units = 1, lq_continuation = Some head_reference\<rparr>"

definition write_intent :: intent_args where
  "write_intent = sample_intent\<lparr>ia_capability := ''write''\<rparr>"

lemma write_intent_sel: "ia_capability write_intent = ''write''" "ia_intent_hash write_intent = sample_digest"
  "ia_workspace_hash write_intent = ''w''" "ia_agent_id write_intent = ''a1''" "ia_resource_permitted write_intent"
  by (simp_all add: write_intent_def sample_intent_def)

lemma continue_request_sel: "lq_action_class continue_request = ''write''" "lq_transition continue_request = ''continue''"
  "lq_continuation continue_request = Some head_reference" "lr_lineage_id head_reference = ''lin-1''"
  "lq_budget_cost continue_request = 2" "lq_impact_units continue_request = 1"
  by (simp_all add: continue_request_def head_reference_def)

lemma continue_prepared:
  "prepare_lineage sample_lineage_env sample_ids sample_manifest write_intent continue_request =
     Inr ((sample_digest, sample_policy), sample_digest, ''lin-1'')"
proof -
  have "validate_capability_action_class ''write'' ''write'' = Inr ()"
    by (simp add: validate_capability_action_class_def CAPABILITY_CLASSES_def)
  moreover have "policy_for_constraints sample_lineage_env ''{}'' = Inr (sample_digest, sample_policy)"
    by (simp add: sample_policy_for)
  moreover have "am_capability_constraints_json sample_manifest = ''{}''" by (simp add: sample_manifest_def)
  moreover have "validate_lineage_request continue_request = Inr ()"
    by (simp add: validate_lineage_request_def continue_request_def LINEAGE_SCHEMA_VERSION_def ACTION_CLASSES_def within_def
        validate_reference_def head_reference_def sample_digest_hex)
  ultimately show ?thesis
    by (simp add: prepare_lineage_def write_intent_sel continue_request_sel lineage_request_digest_def sample_digests sample_digest_hex)
qed

definition continued_state :: lineage_state where
  "continued_state = \<lparr>ls_schema_version = 1, ls_action_classes = [''read'', ''write''], ls_automaton_state = ''read_seen'',
     ls_budget_spent = 7, ls_impact_units = 2, ls_last_action_digest = sample_digest\<rparr>"

lemma continued_state_valid: "validate_state continued_state = Inr ()"
  by (simp add: validate_state_def continued_state_def sample_digest_hex LINEAGE_SCHEMA_VERSION_def MAX_HISTORY_def
      MAX_POLICY_LIMIT_def ACTION_CLASSES_def automaton_of_def)

definition continue_start :: lineage_start where
  "continue_start = \<lparr>st_parent_id = ''lin-1'', st_parent_head = sample_digest, st_current = Some begun_row,
     st_state = begun_state, st_refusal = None\<rparr>"

lemma begun_row_all:
  "ln_state_json begun_row = json_text (le_digest sample_lineage_env) (lineage_state_json begun_state)"
  "ln_state_digest begun_row = sample_digest" "ln_head_digest begun_row = sample_digest" "ln_workspace_hash begun_row = ''w''"
  "ln_agent_id begun_row = ''a1''" "ln_manifest_id begun_row = ''m1''" "ln_manifest_version begun_row = 1"
  "ln_budget_limit begun_row = 100" "ln_impact_limit begun_row = 100" "ln_impact_units begun_row = 1"
  "ln_expires_at begun_row = None" "ln_revoked_at begun_row = None"
  by (simp_all add: begun_row_def new_row_def sample_intent_def sample_manifest_def sample_policy_def begun_state_def)

lemma continue_started:
  "start_of sample_lineage_env idle_ledger 20 sample_manifest write_intent continue_request sample_digest sample_policy = Inr continue_start"
proof -
  have "le_decode_state sample_lineage_env (json_text (le_digest sample_lineage_env) (lineage_state_json begun_state)) = Some begun_state"
    using sample_codec begun_state_valid by (simp add: state_codec_def)
  then have "validate_task_lineage_row sample_lineage_env begun_row ''w'' ''a1'' None None None None False 20 = Inr begun_state"
    by (simp add: validate_task_lineage_row_def expect_def begun_row_all begun_row_sel lineage_state_digest_def begun_state_valid
        sample_digests row_head_def compute_head_digest_def)
  moreover have "continue_refusal head_reference begun_row sample_manifest sample_digest sample_policy 20 = None"
    by (simp add: continue_refusal_def begun_row_all begun_row_sel expired_at_def head_reference_def sample_manifest_def sample_policy_def)
  ultimately show ?thesis
    by (simp add: start_of_def continue_request_sel task_lineage_get_def idle_ledger_def begun_row_sel write_intent_sel begun_row_all
        continue_start_def)
qed

lemma continue_decided:
  "decide_action continue_start continue_request sample_policy write_intent =
     Inr \<lparr>td_state = continued_state, td_outcome = ''continued'', td_reason = ''admitted''\<rparr>"
proof -
  have "apply_action begun_state continue_request sample_policy sample_digest =
      Inr \<lparr>td_state = continued_state, td_outcome = ''continued'', td_reason = ''admitted''\<rparr>"
    by (simp add: apply_action_def begun_state_valid continue_request_sel)
      (simp add: begun_state_def sample_policy_def ACTION_CLASSES_def within_def sample_digest_hex checked_add_i64_def
        continue_request_sel in_i64_def i64_min_def i64_max_def MAX_HISTORY_def admit_def continued_state_def automaton_of_def LINEAGE_SCHEMA_VERSION_def)
  then show ?thesis
    by (simp add: decide_action_def continue_start_def write_intent_sel continue_request_sel)
qed

lemma continue_path:
  obtains reply db' where "action_intent_lineage_path sample_lineage_env idle_ledger 20 sample_ids sample_manifest write_intent continue_request =
    (reply, db')" and "begun_row \<notin> set (ld_lineages db')"
proof -
  have none: "existing_transition idle_ledger w ag key = None" for w ag key
    by (simp add: existing_None idle_ledger_def empty_ledger_def)
  have dig: "lineage_state_digest (le_digest sample_lineage_env) continued_state = Inr sample_digest"
    by (simp add: lineage_state_digest_def continued_state_valid sample_digests)
  have head: "head_of (le_digest sample_lineage_env) ''lin-1'' continue_start sample_manifest write_intent sample_digest sample_digest = sample_digest"
    by (simp add: head_of_def continue_start_def compute_head_digest_def sample_digests)
  let ?js = "json_text (le_digest sample_lineage_env) (lineage_state_json continued_state)"
  have cur: "row_current begun_row 20 begun_row" by (simp add: row_current_def begun_row_all expired_at_def)
  have store: "store_lineage idle_ledger 20 ''lin-1'' continue_start sample_manifest write_intent sample_digest sample_policy continued_state
      ?js sample_digest sample_digest =
      Inr (idle_ledger\<lparr>ld_lineages := [advanced 20 continue_start continued_state ?js sample_digest sample_digest begun_row]\<rparr>)"
    using cur by (simp add: store_lineage_def continue_start_def advance_row_def idle_ledger_def advanced_def)
  have tables: "ld_actions idle_ledger = []" "ld_transitions idle_ledger = []" by (simp_all add: idle_ledger_def empty_ledger_def)
  obtain x db' where tx: "lineage_tx sample_lineage_env idle_ledger 20 sample_ids sample_manifest write_intent continue_request = Inr (x, db')"
      and l: "ld_lineages db' = [advanced 20 continue_start continued_state ?js sample_digest sample_digest begun_row]"
    by (simp add: lineage_tx_def continue_prepared none admit_new_def continue_started continue_decided dig head store Let_def
        insert_action_def insert_transition_def tables)
  have "ln_budget_spent (advanced 20 continue_start continued_state ?js sample_digest sample_digest begun_row) = 7"
    by (simp add: continued_state_def)
  with begun_row_sel(3) have "advanced 20 continue_start continued_state ?js sample_digest sample_digest begun_row \<noteq> begun_row"
    by (auto dest: arg_cong [where f = ln_budget_spent])
  then have "begun_row \<notin> set (ld_lineages db')" unfolding l set_simps singleton_iff by (rule not_sym)
  with tx that show ?thesis by (auto simp: action_intent_lineage_path_def)
qed

theorem only_the_current_head_advances_witness:
  "\<exists>r. lq_continuation continue_request = Some r \<and> \<not> reference_mismatch begun_row r \<and> ln_revoked_at begun_row = None"
proof -
  obtain reply db' where p: "action_intent_lineage_path sample_lineage_env idle_ledger 20 sample_ids sample_manifest write_intent
      continue_request = (reply, db')" "begun_row \<notin> set (ld_lineages db')"
    by (rule continue_path)
  have "distinct (map ln_lineage_id (ld_lineages idle_ledger))" "begun_row \<in> set (ld_lineages idle_ledger)"
    by (simp_all add: idle_ledger_def)
  from only_the_current_head_advances [OF p(1) this p(2)] show ?thesis by blast
qed

end
