(* ===== verification/Authority_Store.thy ===== *)
theory Authority_Store
  imports Lineage_Store Read_Gate
begin

text \<open>
  The control plane of authorized actions in \<open>src/src/db.rs\<close>: authority manifests, the ledger of
  revoked principals, impact findings, intents with their compensation linkage, approvals,
  completions, timeouts and execution leases. The tables of manifests and actions are those of
  \<open>Lineage_Store\<close>; an intent with a lineage request runs its transaction. An operation that
  reads in one statement and writes in a later one is a check, which gives what it will write, and a
  write, so that other operations can run between the two. Errors are values of a datatype with
  what their messages report. The events that the code appends to its journal after an operation
  are another component and write none of these tables.
\<close>

record revocation =
  rv_id :: string
  rv_principal :: string
  rv_workspace_hash :: string
  rv_at :: int
  rv_reinstated_at :: "int option"
  rv_reason :: string
  rv_recorded_at :: int

record action_lease =
  al_id :: string
  al_action_id :: string
  al_workspace_hash :: string
  al_action_key :: string
  al_holder_id :: string
  al_expires_at :: int
  al_released_at :: "int option"
  al_created_at :: int

record impact_finding =
  if_id :: string
  if_finding_ref :: string
  if_workspace_hash :: string
  if_agent_id :: string
  if_category :: string
  if_key :: string
  if_entity_id :: string
  if_cited_head :: string
  if_covers :: "string list"
  if_basis :: string
  if_status :: string
  if_archived :: bool
  if_created_at :: int

record compensation_linkage =
  cl_compensates_for :: string
  cl_finding_ref :: string
  cl_superseding_head :: string
  cl_handoff_receipt_ref :: string

record control_db =
  cd_ledger :: lineage_db
  cd_revocations :: "revocation list"
  cd_leases :: "action_lease list"
  cd_findings :: "impact_finding list"
  cd_gate :: gate_db

text \<open>\<open>ce_json_error\<close> is the message of the JSON parser on a text it refuses.\<close>

record control_env =
  ce_lineage :: lineage_env
  ce_gate :: gate_env
  ce_json_error :: "string \<Rightarrow> string"

datatype control_error =
    EmptyAgent | EmptyWorkspace | BadMode | NoCapabilities | UnregisteredAgent | BadParallelism
  | Malformed string | ConstraintsNotObject | ForbiddenConstraintField | CapabilityConstraintNotObject
  | StoreError string | NoActiveAuthority | ManifestRevoked | ManifestExpired | AgentRevoked
  | CapabilityDenied string "string list" | AnchorDenied string "string list" | ExternalRefDenied string "string list"
  | BadIntentHash | TooManyJustifications | JustificationNotFound string | GateFailure gate_error
  | RequiresFindingLinkage | OriginalEffectNotFound string | FindingUnauthenticated string | FindingArchived string
  | FindingDoesNotCover string string | HeadMismatch string string | RequiresReceiptedHandoff
  | HandoffNotFound string | HandoffNotReceipted string string string | HandoffBeneficiaryMismatch string string
  | HandoffDoesNotCover string string
  | LineageFailure string
  | EmptyFindingRef | EmptyCitedHead | UntargetedFinding | TooManyCovers | CoveredEffectNotFound string
  | BadDecision | ActionNotFound | NotAwaitingApproval | PinnedMismatch | PinnedRevoked | PinnedExpired
  | ApproverDenied | PinnedAnchorDenied | PinnedChanged
  | BadOutcome | BadOutcomeHash | NotOwner | NotApprovalDenied | LacksApproval | NotCompletable
  | BadLease | CannotLeaseDenied | ApprovalRequired | LeaseHeld | LeaseNotFound
  | BadTimeout | WindowOpen

section \<open>Constraints\<close>

definition hex64 :: "string \<Rightarrow> bool" where
  "hex64 s \<longleftrightarrow> length s = 64 \<and> list_all (\<lambda>c. is_ascii_hexdigit (of_char c)) s"

definition FORBIDDEN_CONSTRAINTS :: "string list" where
  "FORBIDDEN_CONSTRAINTS = [''raw_arguments'', ''credentials'', ''prompt'', ''card_number'', ''token'', ''secret'']"

definition parse_text :: "control_env \<Rightarrow> string \<Rightarrow> control_error + json" where
  "parse_text env s = ok_or (le_parse_json (ce_lineage env) s) (Malformed (ce_json_error env s))"

definition canonical_constraint_json :: "control_env \<Rightarrow> string \<Rightarrow> control_error + string" where
  "canonical_constraint_json env raw =
     bind_r (parse_text env (if blank raw then ''{}'' else raw)) (\<lambda>v.
     case v of
       JObj ms \<Rightarrow>
         if list_ex (\<lambda>m. fst m \<in> set FORBIDDEN_CONSTRAINTS) ms then Inl ForbiddenConstraintField
         else Inr (json_text (le_digest (ce_lineage env)) (JObj (sort_key fst ms)))
     | _ \<Rightarrow> Inl ConstraintsNotObject)"

fun json_get :: "json \<Rightarrow> string \<Rightarrow> json option" where
  "json_get (JObj ms) k = map_of ms k"
| "json_get _ k = None"

fun json_as_i64 :: "json \<Rightarrow> int option" where
  "json_as_i64 (JInt n) = (if in_i64 n then Some n else None)"
| "json_as_i64 _ = None"

fun json_as_str :: "json \<Rightarrow> string option" where
  "json_as_str (JStr s) = Some s"
| "json_as_str _ = None"

definition PINNED_KEYS :: "string list" where
  "PINNED_KEYS = [''resource_ref'', ''environment'', ''destination'', ''merchant_ref'', ''currency'', ''tool'', ''argv_canonical'']"

text \<open>A bound on a member: a proposal without the member, or beyond the bound, is not permitted.\<close>

definition within_bound :: "('a::linorder) option \<Rightarrow> 'a option \<Rightarrow> bool" where
  "within_bound bound proposed \<longleftrightarrow> (case bound of None \<Rightarrow> True
     | Some b \<Rightarrow> (case proposed of None \<Rightarrow> False | Some p \<Rightarrow> \<not> p > b))"

definition constraints_within :: "json \<Rightarrow> json \<Rightarrow> bool" where
  "constraints_within bound proposed \<longleftrightarrow>
     list_all (\<lambda>k. case json_get bound k of None \<Rightarrow> True | Some expected \<Rightarrow> json_get proposed k = Some expected) PINNED_KEYS \<and>
     within_bound (Option.bind (json_get bound ''amount_minor'') json_as_i64)
       (Option.bind (json_get proposed ''amount_minor'') json_as_i64) \<and>
     within_bound (Option.bind (json_get bound ''expires_at'') json_as_str)
       (Option.bind (json_get proposed ''expires_at'') json_as_str)"

fun is_object :: "json \<Rightarrow> bool" where
  "is_object (JObj _) = True"
| "is_object _ = False"

definition resource_constraints_permit :: "control_env \<Rightarrow> string \<Rightarrow> string \<Rightarrow> string \<Rightarrow> control_error + bool" where
  "resource_constraints_permit env manifest_json capability proposed_json =
     bind_r (parse_text env manifest_json) (\<lambda>manifest.
     bind_r (parse_text env proposed_json) (\<lambda>proposed.
     case json_get manifest capability of
       None \<Rightarrow> Inr True
     | Some bound \<Rightarrow>
         if \<not> is_object bound then Inl CapabilityConstraintNotObject
         else if \<not> is_object proposed then Inl ConstraintsNotObject
         else Inr (constraints_within bound proposed)))"

section \<open>Manifests and revocations\<close>

definition manifests :: "control_db \<Rightarrow> authority_manifest list" where
  "manifests db = ld_manifests (cd_ledger db)"

definition actions :: "control_db \<Rightarrow> authorized_action list" where
  "actions db = ld_actions (cd_ledger db)"

text \<open>\<open>ORDER BY key DESC LIMIT 1\<close>; of equal keys the later row.\<close>

definition newest_by :: "('a \<Rightarrow> int) \<Rightarrow> 'a list \<Rightarrow> 'a option" where
  "newest_by k xs = (case sort_key k xs of [] \<Rightarrow> None | t # ts \<Rightarrow> Some (last (t # ts)))"

record manifest_input =
  mi_agent_id :: string
  mi_workspace_hash :: string
  mi_allowed_capabilities :: "string list"
  mi_approval_required_capabilities :: "string list"
  mi_scope_anchors :: "string list"
  mi_approver_principals :: "string list"
  mi_allowed_inbound_principals :: "string list"
  mi_permitted_external_ref_prefixes :: "string list"
  mi_max_parallel_actions :: int
  mi_mode :: string
  mi_expires_at :: "int option"
  mi_capability_constraints_json :: string

definition next_version :: "control_db \<Rightarrow> string \<Rightarrow> string \<Rightarrow> int" where
  "next_version db agent ws =
     (case newest_by am_version (filter (\<lambda>m. am_agent_id m = agent \<and> am_workspace_hash m = ws) (manifests db)) of
        None \<Rightarrow> 1 | Some m \<Rightarrow> am_version m + 1)"

definition authority_set :: "control_env \<Rightarrow> control_db \<Rightarrow> int \<Rightarrow> string \<Rightarrow> manifest_input \<Rightarrow>
    (control_error + authority_manifest) \<times> control_db" where
  "authority_set env db now mid i =
     (case bind_r (check_all
        [guard_r (blank (mi_agent_id i)) EmptyAgent,
         guard_r (blank (mi_workspace_hash i)) EmptyWorkspace,
         guard_r (mi_mode i \<noteq> ''shadow'' \<and> mi_mode i \<noteq> ''enforce'') BadMode,
         guard_r (mi_allowed_capabilities i = [] \<or> mi_scope_anchors i = []) NoCapabilities,
         guard_r (agent_get (cd_gate db) (mi_agent_id i) = None) UnregisteredAgent,
         guard_r (mi_max_parallel_actions i < 1) BadParallelism]) (\<lambda>_.
       bind_r (canonical_constraint_json env (mi_capability_constraints_json i)) (\<lambda>constraints.
       bind_r (guard_r (mid \<in> set (map am_id (manifests db))) (StoreError ''UNIQUE constraint failed: authority_manifests.id'')) (\<lambda>_.
         Inr constraints))) of
        Inl e \<Rightarrow> (Inl e, db)
      | Inr constraints \<Rightarrow>
          let m = \<lparr>am_id = mid, am_agent_id = mi_agent_id i, am_workspace_hash = mi_workspace_hash i,
                am_version = next_version db (mi_agent_id i) (mi_workspace_hash i),
                am_allowed_capabilities = mi_allowed_capabilities i,
                am_approval_required_capabilities = mi_approval_required_capabilities i,
                am_scope_anchors = mi_scope_anchors i, am_approver_principals = mi_approver_principals i,
                am_allowed_inbound_principals = mi_allowed_inbound_principals i,
                am_permitted_external_ref_prefixes = mi_permitted_external_ref_prefixes i,
                am_max_parallel_actions = mi_max_parallel_actions i, am_mode = mi_mode i, am_expires_at = mi_expires_at i,
                am_revoked_at = None, am_created_at = now, am_capability_constraints_json = constraints\<rparr>
          in (Inr m, db\<lparr>cd_ledger := (cd_ledger db)\<lparr>ld_manifests := manifests db @ [m]\<rparr>\<rparr>))"

text \<open>A revocation counts against a manifest when it is global, or made at or after the manifest.\<close>

definition bites :: "revocation \<Rightarrow> string \<Rightarrow> int \<Rightarrow> bool" where
  "bites rv ws minted \<longleftrightarrow> rv_reinstated_at rv = None \<and>
     (rv_workspace_hash rv = ws \<or> rv_workspace_hash rv = []) \<and> (rv_workspace_hash rv = [] \<or> rv_at rv \<ge> minted)"

definition dropped_principals :: "control_db \<Rightarrow> authority_manifest \<Rightarrow> string list" where
  "dropped_principals db m =
     map rv_principal (filter (\<lambda>rv. bites rv (am_workspace_hash m) (am_created_at m)) (cd_revocations db))"

definition subtract_revoked_principals :: "control_db \<Rightarrow> authority_manifest \<Rightarrow> authority_manifest option" where
  "subtract_revoked_principals db m =
     (let dropped = dropped_principals db m; keep = filter (\<lambda>p. p \<notin> set dropped)
      in if am_agent_id m \<in> set dropped then None
         else Some (m\<lparr>am_scope_anchors := keep (am_scope_anchors m), am_approver_principals := keep (am_approver_principals m),
           am_allowed_inbound_principals := keep (am_allowed_inbound_principals m)\<rparr>))"

definition authority_get :: "control_db \<Rightarrow> int \<Rightarrow> string \<Rightarrow> string \<Rightarrow> bool \<Rightarrow> authority_manifest option" where
  "authority_get db now agent ws include_revoked =
     (let rows = filter (\<lambda>m. am_agent_id m = agent \<and> am_workspace_hash m = ws \<and> (include_revoked \<or> am_revoked_at m = None))
            (manifests db);
          result = newest_by am_version rows
      in if include_revoked then result
         else case result of
           None \<Rightarrow> None
         | Some m \<Rightarrow> if expired_at (am_expires_at m) now then None else subtract_revoked_principals db m)"

definition active_authority :: "control_db \<Rightarrow> int \<Rightarrow> string \<Rightarrow> string \<Rightarrow> control_error + authority_manifest" where
  "active_authority db now agent ws = ok_or (authority_get db now agent ws False) NoActiveAuthority"

text \<open>\<open>Inr True\<close> is permitted, \<open>Inr False\<close> no policy at all.\<close>

definition require_memory_capability :: "control_db \<Rightarrow> int \<Rightarrow> string \<Rightarrow> string \<Rightarrow> string \<Rightarrow> control_error + bool" where
  "require_memory_capability db now agent ws capability =
     (if blank agent then Inr False
      else case authority_get db now agent ws True of
        None \<Rightarrow> Inr False
      | Some stored \<Rightarrow>
          bind_r (ok_or (subtract_revoked_principals db stored) AgentRevoked) (\<lambda>m.
          bind_r (check_all
            [guard_r (am_revoked_at m \<noteq> None) ManifestRevoked,
             guard_r (expired_at (am_expires_at m) now) ManifestExpired,
             guard_r (capability \<notin> set (am_allowed_capabilities m)) (CapabilityDenied capability (am_allowed_capabilities m))]) (\<lambda>_.
            Inr True)))"

text \<open>\<open>INSERT OR IGNORE\<close>: a row with the same identity stays.\<close>

definition record_revocation :: "control_db \<Rightarrow> int \<Rightarrow> string \<Rightarrow> string \<Rightarrow> string \<Rightarrow> string \<Rightarrow> control_db" where
  "record_revocation db now rid p ws reason =
     (if list_ex (\<lambda>rv. rv_id rv = rid \<or> rv_principal rv = p \<and> rv_workspace_hash rv = ws \<and> rv_at rv = now) (cd_revocations db)
      then db
      else db\<lparr>cd_revocations := cd_revocations db @
        [\<lparr>rv_id = rid, rv_principal = p, rv_workspace_hash = ws, rv_at = now, rv_reinstated_at = None, rv_reason = reason,
          rv_recorded_at = now\<rparr>]\<rparr>)"

definition reinstate_revocation :: "control_db \<Rightarrow> int \<Rightarrow> string \<Rightarrow> string \<Rightarrow> control_db" where
  "reinstate_revocation db now p ws =
     db\<lparr>cd_revocations := map (\<lambda>rv. if rv_principal rv = p \<and> rv_workspace_hash rv = ws \<and> rv_reinstated_at rv = None
       then rv\<lparr>rv_reinstated_at := Some now\<rparr> else rv) (cd_revocations db)\<rparr>"

definition revoke_manifest :: "control_db \<Rightarrow> int \<Rightarrow> string \<Rightarrow> (control_error + unit) \<times> control_db" where
  "revoke_manifest db now mid =
     (case authority_revoke (cd_ledger db) now mid of
        (r, ledger) \<Rightarrow> (map_err StoreError r, db\<lparr>cd_ledger := ledger\<rparr>))"

end
