(* ===== verification/Authority_Actions.thy ===== *)
theory Authority_Actions
  imports Authority_Store
begin

text \<open>
  The life of an authorized action in \<open>src/src/db.rs\<close>: findings, the intent with its gates, the
  approval, the execution lease, the completion and the timeout of an approval.
\<close>

section \<open>Receipts and findings\<close>

definition action_receipt_get :: "control_env \<Rightarrow> control_db \<Rightarrow> string \<Rightarrow> control_error + authorized_action option" where
  "action_receipt_get env db aid =
     (case find (\<lambda>a. aa_id a = aid) (actions db) of
        None \<Rightarrow> Inr None
      | Some a \<Rightarrow> bind_r (map_err LineageFailure (attach_task_lineage_projection (ce_lineage env) (cd_ledger db) a)) (\<lambda>x. Inr (Some x)))"

definition load_action :: "control_env \<Rightarrow> control_db \<Rightarrow> string \<Rightarrow> control_error \<Rightarrow> control_error + authorized_action" where
  "load_action env db aid missing = bind_r (action_receipt_get env db aid) (\<lambda>r. ok_or r missing)"

definition finding_get :: "control_db \<Rightarrow> string \<Rightarrow> string \<Rightarrow> impact_finding option" where
  "finding_get db ws ref = find (\<lambda>f. if_workspace_hash f = ws \<and> if_finding_ref f = ref) (cd_findings db)"

fun check_covers :: "control_env \<Rightarrow> control_db \<Rightarrow> string list \<Rightarrow> control_error + unit" where
  "check_covers env db [] = Inr ()"
| "check_covers env db (effect # effects) =
     bind_r (load_action env db effect (CoveredEffectNotFound effect)) (\<lambda>_. check_covers env db effects)"

definition finding_record :: "control_env \<Rightarrow> control_db \<Rightarrow> int \<Rightarrow> string \<Rightarrow> impact_finding \<Rightarrow>
    (control_error + impact_finding) \<times> control_db" where
  "finding_record env db now fid f =
     (case check_all
        [guard_r (blank (if_finding_ref f)) EmptyFindingRef,
         guard_r (blank (if_cited_head f)) EmptyCitedHead,
         guard_r (if_category f = [] \<and> if_key f = [] \<and> if_entity_id f = []) UntargetedFinding,
         guard_r (length (if_covers f) > 64) TooManyCovers,
         check_covers env db (if_covers f),
         guard_r (fid \<in> set (map if_id (cd_findings db))) (StoreError ''UNIQUE constraint failed: impact_findings.id''),
         guard_r (finding_get db (if_workspace_hash f) (if_finding_ref f) \<noteq> None)
           (StoreError ''UNIQUE constraint failed: impact_findings.workspace_hash, impact_findings.finding_ref'')] of
        Inl e \<Rightarrow> (Inl e, db)
      | Inr _ \<Rightarrow> let g = f\<lparr>if_id := fid, if_status := ''open'', if_archived := False, if_created_at := now\<rparr>
               in (Inr g, db\<lparr>cd_findings := cd_findings db @ [g]\<rparr>))"

section \<open>Intents\<close>

text \<open>The handoff of a remediation, which is needed when the authority behind the effect was revoked.\<close>

definition handoff_member :: "control_env \<Rightarrow> authorized_action \<Rightarrow> string \<Rightarrow> json option" where
  "handoff_member env h k = Option.bind (le_parse_json (ce_lineage env) (aa_resource_constraints_json h)) (\<lambda>v. json_get v k)"

definition handoff_covers :: "control_env \<Rightarrow> authorized_action \<Rightarrow> string \<Rightarrow> bool" where
  "handoff_covers env h effect \<longleftrightarrow>
     (case handoff_member env h ''original_effects'' of
        Some (JArr vs) \<Rightarrow> list_ex (\<lambda>v. json_as_str v = Some effect) vs
      | _ \<Rightarrow> False)"

definition handoff_beneficiary :: "control_env \<Rightarrow> authorized_action \<Rightarrow> string" where
  "handoff_beneficiary env h = or_else (Option.bind (handoff_member env h ''beneficiary_agent_id'') json_as_str) []"

definition validate_handoff :: "control_env \<Rightarrow> control_db \<Rightarrow> string \<Rightarrow> compensation_linkage \<Rightarrow> control_error + unit" where
  "validate_handoff env db agent link =
     (let ref = cl_handoff_receipt_ref link in
      bind_r (guard_r (blank ref) RequiresReceiptedHandoff) (\<lambda>_.
      bind_r (load_action env db ref (HandoffNotFound ref)) (\<lambda>h.
      check_all
        [guard_r (aa_status h \<noteq> ''action_executed'' \<or> aa_capability h \<noteq> ''remediation_handoff'')
           (HandoffNotReceipted ref (aa_status h) (aa_capability h)),
         guard_r (handoff_beneficiary env h \<noteq> agent) (HandoffBeneficiaryMismatch ref (handoff_beneficiary env h)),
         guard_r (\<not> handoff_covers env h (cl_compensates_for link)) (HandoffDoesNotCover ref (cl_compensates_for link))])))"

definition validate_compensation_linkage ::
    "control_env \<Rightarrow> control_db \<Rightarrow> string \<Rightarrow> string \<Rightarrow> compensation_linkage \<Rightarrow> control_error + unit" where
  "validate_compensation_linkage env db agent ws link =
     bind_r (guard_r (blank (cl_finding_ref link) \<or> blank (cl_superseding_head link)) RequiresFindingLinkage) (\<lambda>_.
     bind_r (load_action env db (cl_compensates_for link) (OriginalEffectNotFound (cl_compensates_for link))) (\<lambda>original.
     bind_r (ok_or (finding_get db ws (cl_finding_ref link)) (FindingUnauthenticated (cl_finding_ref link))) (\<lambda>f.
     bind_r (check_all
       [guard_r (if_archived f) (FindingArchived (cl_finding_ref link)),
        guard_r (cl_compensates_for link \<notin> set (if_covers f)) (FindingDoesNotCover (cl_finding_ref link) (cl_compensates_for link)),
        guard_r (cl_superseding_head link \<noteq> if_cited_head f) (HeadMismatch (cl_superseding_head link) (if_cited_head f))]) (\<lambda>_.
     bind_r (ok_or (find (\<lambda>m. am_id m = aa_manifest_id original) (manifests db)) (StoreError ''Query returned no rows'')) (\<lambda>m.
       if am_revoked_at m \<noteq> None then validate_handoff env db agent link else Inr ())))))"

record intent_call =
  ic_agent_id :: string
  ic_workspace_hash :: string
  ic_scope_anchor :: string
  ic_external_ref :: string
  ic_capability :: string
  ic_action_key :: string
  ic_intent_hash :: string
  ic_resource_constraints_json :: "string option"
  ic_justification_entity_ids :: "string list"
  ic_compensation :: "compensation_linkage option"
  ic_lineage :: "lineage_request option"

definition starts_with :: "string \<Rightarrow> string \<Rightarrow> bool" where
  "starts_with p s \<longleftrightarrow> take (length p) s = p"

definition ref_permitted :: "string \<Rightarrow> string list \<Rightarrow> bool" where
  "ref_permitted ref prefixes \<longleftrightarrow> list_ex (\<lambda>v. ref = v \<or> starts_with (v @ ''/'') ref) prefixes"

fun check_justifications :: "control_env \<Rightarrow> control_db \<Rightarrow> int \<Rightarrow> string list \<Rightarrow> control_error + unit" where
  "check_justifications env db now [] = Inr ()"
| "check_justifications env db now (i # is) =
     bind_r (map_err GateFailure (get_entity_by_id (ce_gate env) (cd_gate db) now i)) (\<lambda>e.
     bind_r (ok_or e (JustificationNotFound i)) (\<lambda>_. check_justifications env db now is))"

definition no_linkage :: compensation_linkage where
  "no_linkage = \<lparr>cl_compensates_for = [], cl_finding_ref = [], cl_superseding_head = [], cl_handoff_receipt_ref = []\<rparr>"

text \<open>The action a call without a lineage records.\<close>

definition plain_action ::
    "control_env \<Rightarrow> int \<Rightarrow> string \<Rightarrow> authority_manifest \<Rightarrow> intent_call \<Rightarrow> compensation_linkage \<Rightarrow> string \<Rightarrow> bool \<Rightarrow> authorized_action" where
  "plain_action env now aid m c link constraints permitted =
     (let hash = sha256_hex (le_digest (ce_lineage env)) constraints;
          approval = (permitted \<and> ic_capability c \<in> set (am_approval_required_capabilities m))
      in \<lparr>aa_id = aid, aa_manifest_id = am_id m, aa_manifest_version = am_version m, aa_agent_id = ic_agent_id c,
       aa_workspace_hash = ic_workspace_hash c, aa_scope_anchor = ic_scope_anchor c, aa_external_ref = ic_external_ref c,
       aa_capability = ic_capability c, aa_action_key = ic_action_key c, aa_intent_hash = lower_bytes (ic_intent_hash c),
       aa_outcome_hash = (if permitted then [] else hash),
       aa_status = (if \<not> permitted then ''denied'' else if approval then ''approval_requested'' else ''intent''),
       aa_approval_required = approval, aa_approval_ref = [], aa_created_at = now, aa_updated_at = now,
       aa_resource_constraints_json = constraints, aa_resource_constraints_hash = hash,
       aa_justification_entity_ids = ic_justification_entity_ids c, aa_compensates_for = cl_compensates_for link,
       aa_finding_ref = cl_finding_ref link, aa_superseding_head = cl_superseding_head link,
       aa_handoff_receipt_ref = cl_handoff_receipt_ref link, aa_lineage_id = [], aa_lineage_transition_id = [],
       aa_lineage_outcome = [], aa_lineage_continuation = None, aa_lineage_receipt = None\<rparr>)"

definition lineage_args :: "control_env \<Rightarrow> intent_call \<Rightarrow> compensation_linkage \<Rightarrow> string \<Rightarrow> bool \<Rightarrow> intent_args" where
  "lineage_args env c link constraints permitted =
     \<lparr>ia_agent_id = ic_agent_id c, ia_workspace_hash = ic_workspace_hash c, ia_scope_anchor = ic_scope_anchor c,
      ia_external_ref = ic_external_ref c, ia_capability = ic_capability c, ia_action_key = ic_action_key c,
      ia_intent_hash = ic_intent_hash c, ia_resource_constraints_json = constraints,
      ia_justification_json = json_text (le_digest (ce_lineage env)) (JArr (map JStr (ic_justification_entity_ids c))),
      ia_justification_entity_ids = ic_justification_entity_ids c, ia_compensates_for = cl_compensates_for link,
      ia_finding_ref = cl_finding_ref link, ia_superseding_head = cl_superseding_head link,
      ia_handoff_receipt_ref = cl_handoff_receipt_ref link, ia_resource_permitted = permitted\<rparr>"

text \<open>What the gates leave to be written: one action, or a call of the lineage path.\<close>

datatype intent_plan =
    PlainIntent authorized_action
  | LineageIntent authority_manifest intent_args lineage_request

definition intent_check :: "control_env \<Rightarrow> control_db \<Rightarrow> int \<Rightarrow> string \<Rightarrow> intent_call \<Rightarrow> control_error + intent_plan" where
  "intent_check env db now aid c =
     bind_r (active_authority db now (ic_agent_id c) (ic_workspace_hash c)) (\<lambda>m.
     bind_r (check_all
       [guard_r (ic_capability c \<notin> set (am_allowed_capabilities m)) (CapabilityDenied (ic_capability c) (am_allowed_capabilities m)),
        guard_r (ic_scope_anchor c \<notin> set (am_scope_anchors m)) (AnchorDenied (ic_scope_anchor c) (am_scope_anchors m)),
        guard_r (\<not> ref_permitted (ic_external_ref c) (am_permitted_external_ref_prefixes m))
          (ExternalRefDenied (ic_external_ref c) (am_permitted_external_ref_prefixes m)),
        guard_r (\<not> hex64 (ic_intent_hash c)) BadIntentHash,
        guard_r (length (ic_justification_entity_ids c) > 64) TooManyJustifications,
        check_justifications env db now (ic_justification_entity_ids c),
        (case ic_compensation c of
           None \<Rightarrow> Inr ()
         | Some link \<Rightarrow> validate_compensation_linkage env db (ic_agent_id c) (ic_workspace_hash c) link)]) (\<lambda>_.
     let link = or_else (ic_compensation c) no_linkage in
     bind_r (canonical_constraint_json env (or_else (ic_resource_constraints_json c) ''{}'')) (\<lambda>constraints.
     bind_r (resource_constraints_permit env (am_capability_constraints_json m) (ic_capability c) constraints) (\<lambda>permitted.
       Inr (case ic_lineage c of
              Some q \<Rightarrow> LineageIntent m (lineage_args env c link constraints permitted) q
            | None \<Rightarrow> PlainIntent (plain_action env now aid m c link constraints permitted))))))"

fun intent_write :: "control_env \<Rightarrow> control_db \<Rightarrow> int \<Rightarrow> fresh_ids \<Rightarrow> intent_plan \<Rightarrow> (control_error + authorized_action) \<times> control_db" where
  "intent_write env db now ids (PlainIntent a) =
     (case insert_action (cd_ledger db) a of
        Inl e \<Rightarrow> (Inl (StoreError e), db)
      | Inr ledger \<Rightarrow> (Inr a, db\<lparr>cd_ledger := ledger\<rparr>))"
| "intent_write env db now ids (LineageIntent m a q) =
     (case action_intent_lineage_path (ce_lineage env) (cd_ledger db) now ids m a q of
        (r, ledger) \<Rightarrow> (map_err LineageFailure r, db\<lparr>cd_ledger := ledger\<rparr>))"

definition action_intent :: "control_env \<Rightarrow> control_db \<Rightarrow> int \<Rightarrow> fresh_ids \<Rightarrow> intent_call \<Rightarrow>
    (control_error + authorized_action) \<times> control_db" where
  "action_intent env db now ids c =
     (case intent_check env db now (fi_action ids) c of
        Inl e \<Rightarrow> (Inl e, db)
      | Inr plan \<Rightarrow> intent_write env db now ids plan)"

section \<open>Pinned authority\<close>

text \<open>The manifest an action is pinned to, as approval and lease check it first.\<close>

definition pinned_manifest :: "control_db \<Rightarrow> int \<Rightarrow> authorized_action \<Rightarrow> control_error + authority_manifest" where
  "pinned_manifest db now a =
     bind_r (ok_or (find (\<lambda>m. am_id m = aa_manifest_id a) (manifests db)) (StoreError ''Query returned no rows'')) (\<lambda>stored.
     bind_r (ok_or (subtract_revoked_principals db stored) AgentRevoked) (\<lambda>m.
     bind_r (check_all
       [guard_r (am_id m \<noteq> aa_manifest_id a \<or> am_version m \<noteq> aa_manifest_version a \<or> am_agent_id m \<noteq> aa_agent_id a \<or>
          am_workspace_hash m \<noteq> aa_workspace_hash a) PinnedMismatch,
        guard_r (am_revoked_at m \<noteq> None) PinnedRevoked,
        guard_r (expired_at (am_expires_at m) now) PinnedExpired]) (\<lambda>_. Inr m)))"

text \<open>The subquery that approval and lease evaluate again in their transaction, with the principals it
  must find unrevoked.\<close>

definition live_authority :: "control_db \<Rightarrow> int \<Rightarrow> string \<Rightarrow> authorized_action \<Rightarrow> string list \<Rightarrow> bool" where
  "live_authority db now mid a principals \<longleftrightarrow>
     list_ex (\<lambda>m. am_id m = mid \<and> am_agent_id m = aa_agent_id a \<and> am_workspace_hash m = aa_workspace_hash a \<and>
       am_version m = aa_manifest_version a \<and> am_revoked_at m = None \<and> \<not> expired_at (am_expires_at m) now \<and>
       \<not> list_ex (\<lambda>rv. rv_principal rv \<in> set principals \<and> bites rv (aa_workspace_hash a) (am_created_at m)) (cd_revocations db))
     (manifests db)"

definition set_action :: "control_db \<Rightarrow> (authorized_action \<Rightarrow> bool) \<Rightarrow> (authorized_action \<Rightarrow> authorized_action) \<Rightarrow> control_db" where
  "set_action db P f = db\<lparr>cd_ledger := (cd_ledger db)\<lparr>ld_actions := map (\<lambda>x. if P x then f x else x) (actions db)\<rparr>\<rparr>"

section \<open>Approval\<close>

definition approve_check :: "control_env \<Rightarrow> control_db \<Rightarrow> int \<Rightarrow> string \<Rightarrow> string \<Rightarrow> string \<Rightarrow>
    control_error + (authorized_action \<times> authority_manifest)" where
  "approve_check env db now aid approver decision =
     bind_r (guard_r (decision \<noteq> ''granted'' \<and> decision \<noteq> ''denied'') BadDecision) (\<lambda>_.
     bind_r (load_action env db aid ActionNotFound) (\<lambda>a.
     bind_r (guard_r (aa_status a \<noteq> ''approval_requested'') NotAwaitingApproval) (\<lambda>_.
     bind_r (pinned_manifest db now a) (\<lambda>m.
     bind_r (check_all
       [guard_r (approver \<notin> set (am_approver_principals m) \<or> approver \<notin> set (am_allowed_inbound_principals m)) ApproverDenied,
        guard_r (aa_scope_anchor a \<notin> set (am_scope_anchors m)) PinnedAnchorDenied]) (\<lambda>_. Inr (a, m))))))"

definition approvable :: "control_db \<Rightarrow> int \<Rightarrow> string \<Rightarrow> authorized_action \<Rightarrow> string \<Rightarrow> authorized_action \<Rightarrow> bool" where
  "approvable db now mid a approver x \<longleftrightarrow> aa_id x = aa_id a \<and> aa_status x = ''approval_requested'' \<and>
     live_authority db now mid a [aa_agent_id a, approver, aa_scope_anchor a]"

definition approve_write :: "control_db \<Rightarrow> int \<Rightarrow> string \<Rightarrow> authorized_action \<Rightarrow> authority_manifest \<Rightarrow> string \<Rightarrow> string \<Rightarrow>
    (control_error + authorized_action) \<times> control_db" where
  "approve_write db now ref a m approver decision =
     (let stamp = (\<lambda>x. x\<lparr>aa_status := ''approval_'' @ decision, aa_approval_ref := ref, aa_updated_at := now\<rparr>)
      in if length (filter (approvable db now (am_id m) a approver) (actions db)) \<noteq> 1 then (Inl PinnedChanged, db)
         else (Inr (stamp a), set_action db (approvable db now (am_id m) a approver) stamp))"

definition action_approve :: "control_env \<Rightarrow> control_db \<Rightarrow> int \<Rightarrow> string \<Rightarrow> string \<Rightarrow> string \<Rightarrow> string \<Rightarrow>
    (control_error + authorized_action) \<times> control_db" where
  "action_approve env db now ref aid approver decision =
     (case approve_check env db now aid approver decision of
        Inl e \<Rightarrow> (Inl e, db)
      | Inr (a, m) \<Rightarrow> approve_write db now ref a m approver decision)"

section \<open>Completion and timeout\<close>

definition complete_check :: "control_env \<Rightarrow> control_db \<Rightarrow> string \<Rightarrow> string \<Rightarrow> string \<Rightarrow> string \<Rightarrow> control_error + authorized_action" where
  "complete_check env db aid actor outcome outcome_hash =
     bind_r (check_all
       [guard_r (outcome \<notin> {''executed'', ''failed'', ''cancelled'', ''denied''}) BadOutcome,
        guard_r (\<not> hex64 outcome_hash) BadOutcomeHash]) (\<lambda>_.
     bind_r (load_action env db aid ActionNotFound) (\<lambda>a.
     bind_r (check_all
       [guard_r (actor \<noteq> aa_agent_id a) NotOwner,
        (if aa_approval_required a
         then if outcome = ''denied'' then guard_r (aa_status a \<noteq> ''approval_denied'') NotApprovalDenied
              else guard_r (aa_status a \<noteq> ''approval_granted'') LacksApproval
         else guard_r (aa_status a \<noteq> ''intent'') NotCompletable)]) (\<lambda>_. Inr a)))"

definition complete_write :: "control_db \<Rightarrow> int \<Rightarrow> authorized_action \<Rightarrow> string \<Rightarrow> string \<Rightarrow> authorized_action \<times> control_db" where
  "complete_write db now a outcome outcome_hash =
     (let stamp = (\<lambda>x. x\<lparr>aa_status := ''action_'' @ outcome, aa_outcome_hash := lower_bytes outcome_hash, aa_updated_at := now\<rparr>)
      in (stamp a, set_action db (\<lambda>x. aa_id x = aa_id a) stamp))"

definition action_complete :: "control_env \<Rightarrow> control_db \<Rightarrow> int \<Rightarrow> string \<Rightarrow> string \<Rightarrow> string \<Rightarrow> string \<Rightarrow>
    (control_error + authorized_action) \<times> control_db" where
  "action_complete env db now aid actor outcome outcome_hash =
     (case complete_check env db aid actor outcome outcome_hash of
        Inl e \<Rightarrow> (Inl e, db)
      | Inr a \<Rightarrow> (case complete_write db now a outcome outcome_hash of (x, db') \<Rightarrow> (Inr x, db')))"

definition timeout_check :: "control_env \<Rightarrow> control_db \<Rightarrow> int \<Rightarrow> string \<Rightarrow> int \<Rightarrow> control_error + authorized_action" where
  "timeout_check env db now aid window =
     bind_r (guard_r (window < 0) BadTimeout) (\<lambda>_.
     bind_r (load_action env db aid ActionNotFound) (\<lambda>a.
     bind_r (check_all
       [guard_r (aa_status a \<noteq> ''approval_requested'') NotAwaitingApproval,
        guard_r (wrap64 (now - aa_created_at a) < window) WindowOpen]) (\<lambda>_. Inr a)))"

definition timeout_write :: "control_db \<Rightarrow> int \<Rightarrow> authorized_action \<Rightarrow> int \<Rightarrow> authorized_action \<times> control_db" where
  "timeout_write db now a window =
     (let stamp = (\<lambda>x. x\<lparr>aa_status := ''approval_denied'', aa_approval_ref := ''timeout:'' @ show_int window, aa_updated_at := now\<rparr>)
      in (stamp a, set_action db (\<lambda>x. aa_id x = aa_id a) stamp))"

definition action_resolve_timeout :: "control_env \<Rightarrow> control_db \<Rightarrow> int \<Rightarrow> string \<Rightarrow> int \<Rightarrow>
    (control_error + authorized_action) \<times> control_db" where
  "action_resolve_timeout env db now aid window =
     (case timeout_check env db now aid window of
        Inl e \<Rightarrow> (Inl e, db)
      | Inr a \<Rightarrow> (case timeout_write db now a window of (x, db') \<Rightarrow> (Inr x, db')))"

section \<open>Leases\<close>

definition lease_check :: "control_env \<Rightarrow> control_db \<Rightarrow> int \<Rightarrow> string \<Rightarrow> string \<Rightarrow> int \<Rightarrow>
    control_error + (authorized_action \<times> authority_manifest)" where
  "lease_check env db now aid holder ttl =
     bind_r (guard_r (blank holder \<or> ttl < 1) BadLease) (\<lambda>_.
     bind_r (load_action env db aid ActionNotFound) (\<lambda>a.
     bind_r (check_all
       [guard_r (aa_status a = ''denied'' \<or> starts_with ''approval_denied'' (aa_status a) \<or> starts_with ''action_denied'' (aa_status a))
          CannotLeaseDenied,
        guard_r (aa_approval_required a \<and> aa_status a \<noteq> ''approval_granted'' \<and>
          aa_status a \<notin> {''action_executed'', ''action_failed'', ''action_cancelled''}) ApprovalRequired]) (\<lambda>_.
     bind_r (pinned_manifest db now a) (\<lambda>m.
     bind_r (guard_r (aa_scope_anchor a \<notin> set (am_scope_anchors m)) PinnedAnchorDenied) (\<lambda>_. Inr (a, m))))))"

definition saturating_mul_1000 :: "int \<Rightarrow> int" where
  "saturating_mul_1000 n = max i64_min (min i64_max (n * 1000))"

definition same_slot :: "authorized_action \<Rightarrow> action_lease \<Rightarrow> bool" where
  "same_slot a l \<longleftrightarrow> al_workspace_hash l = aa_workspace_hash a \<and> al_action_key l = aa_action_key a"

definition expire_leases :: "int \<Rightarrow> authorized_action \<Rightarrow> action_lease list \<Rightarrow> action_lease list" where
  "expire_leases now a ls = map (\<lambda>l. if same_slot a l \<and> al_released_at l = None \<and> al_expires_at l \<le> now
     then l\<lparr>al_released_at := Some now\<rparr> else l) ls"

definition slot_busy :: "int \<Rightarrow> authorized_action \<Rightarrow> action_lease list \<Rightarrow> bool" where
  "slot_busy now a ls \<longleftrightarrow> list_ex (\<lambda>l. same_slot a l \<and> al_released_at l = None \<and> al_expires_at l > now) ls"

text \<open>The transaction of the lease; an error rolls it back.\<close>

definition lease_write :: "control_db \<Rightarrow> int \<Rightarrow> string \<Rightarrow> authorized_action \<Rightarrow> authority_manifest \<Rightarrow> string \<Rightarrow> int \<Rightarrow>
    (control_error + action_lease) \<times> control_db" where
  "lease_write db now lid a m holder ttl =
     (if \<not> live_authority db now (am_id m) a [aa_agent_id a, aa_scope_anchor a] then (Inl PinnedChanged, db)
      else if slot_busy now a (expire_leases now a (cd_leases db)) then (Inl LeaseHeld, db)
      else if lid \<in> set (map al_id (cd_leases db))
      then (Inl (StoreError ''UNIQUE constraint failed: authorized_action_leases.id''), db)
      else let l = \<lparr>al_id = lid, al_action_id = aa_id a, al_workspace_hash = aa_workspace_hash a,
               al_action_key = aa_action_key a, al_holder_id = holder, al_expires_at = wrap64 (now + saturating_mul_1000 ttl),
               al_released_at = None, al_created_at = now\<rparr>
      in (Inr l, db\<lparr>cd_leases := expire_leases now a (cd_leases db) @ [l]\<rparr>))"

definition action_lease_acquire :: "control_env \<Rightarrow> control_db \<Rightarrow> int \<Rightarrow> string \<Rightarrow> string \<Rightarrow> string \<Rightarrow> int \<Rightarrow>
    (control_error + action_lease) \<times> control_db" where
  "action_lease_acquire env db now lid aid holder ttl =
     (case lease_check env db now aid holder ttl of
        Inl e \<Rightarrow> (Inl e, db)
      | Inr (a, m) \<Rightarrow> lease_write db now lid a m holder ttl)"

definition releasable :: "string \<Rightarrow> string \<Rightarrow> action_lease \<Rightarrow> bool" where
  "releasable lid holder l \<longleftrightarrow> al_id l = lid \<and> al_holder_id l = holder \<and> al_released_at l = None"

definition action_lease_release :: "control_db \<Rightarrow> int \<Rightarrow> string \<Rightarrow> string \<Rightarrow> (control_error + unit) \<times> control_db" where
  "action_lease_release db now lid holder =
     (if length (filter (releasable lid holder) (cd_leases db)) \<noteq> 1 then (Inl LeaseNotFound, db)
      else (Inr (), db\<lparr>cd_leases := map (\<lambda>l. if releasable lid holder l then l\<lparr>al_released_at := Some now\<rparr> else l) (cd_leases db)\<rparr>))"

end
