(* ===== verification/Authority_Guarantees.thy ===== *)
theory Authority_Guarantees
  imports Authority_Actions Lineage_Guarantees
begin

text \<open>
  What the control plane of authorized actions guarantees. The operations of several callers are
  interleaved: between the reads of one operation and its write any other operation may run. Every
  state of such a history keeps its ids unique and its leases exclusive; an action that needs an
  approval is executed only after a listed approver approved it under live authority, in the very history
  that executed it; a revoked principal begins nothing new, and no approval or lease for it that was
  already under way is written.
\<close>

section \<open>The effect of the writes\<close>

text \<open>What no operation changes of an action once it is recorded.\<close>

definition core :: "authorized_action \<Rightarrow> authorized_action" where
  "core a = a\<lparr>aa_status := [], aa_outcome_hash := [], aa_approval_ref := [], aa_updated_at := 0,
     aa_lineage_continuation := None, aa_lineage_receipt := None\<rparr>"

lemma core_stamp [simp]:
  "core (a\<lparr>aa_status := s\<rparr>) = core a" "core (a\<lparr>aa_outcome_hash := h\<rparr>) = core a"
  "core (a\<lparr>aa_approval_ref := r\<rparr>) = core a" "core (a\<lparr>aa_updated_at := t\<rparr>) = core a"
  "core (a\<lparr>aa_lineage_continuation := c\<rparr>) = core a" "core (a\<lparr>aa_lineage_receipt := l\<rparr>) = core a"
  by (simp_all add: core_def)

lemma core_eqD:
  assumes "core a = core b"
  shows "aa_id a = aa_id b" "aa_agent_id a = aa_agent_id b" "aa_workspace_hash a = aa_workspace_hash b"
    "aa_manifest_id a = aa_manifest_id b" "aa_manifest_version a = aa_manifest_version b"
    "aa_scope_anchor a = aa_scope_anchor b" "aa_approval_required a = aa_approval_required b"
  using arg_cong [OF assms, of aa_id] arg_cong [OF assms, of aa_agent_id] arg_cong [OF assms, of aa_workspace_hash] arg_cong [OF assms, of aa_manifest_id]
    arg_cong [OF assms, of aa_manifest_version] arg_cong [OF assms, of aa_scope_anchor] arg_cong [OF assms, of aa_approval_required]
  by (simp_all add: core_def)

lemma core_attach:
  assumes "attach_task_lineage_projection env db a = Inr x"
  shows "core x = core a \<and> aa_status x = aa_status a"
proof -
  let ?none = "aa_lineage_id a = [] \<and> aa_lineage_transition_id a = [] \<and> aa_lineage_outcome a = []"
  let ?part = "aa_lineage_id a = [] \<or> aa_lineage_transition_id a = []"
  consider "?none" | "\<not> ?none" "\<not> ?part" | "\<not> ?none" "?part" by blast
  then show ?thesis
  proof cases
    case 1
    with assms show ?thesis by (simp add: attach_task_lineage_projection_def)
  next
    case 2
    from assms obtain r c where "x = a\<lparr>aa_lineage_receipt := Some r, aa_lineage_continuation := c\<rparr>"
      unfolding attach_task_lineage_projection_def if_not_P [OF 2(1)] if_not_P [OF 2(2)] Let_def bind_r_Inr Inr_inject
      by (elim exE conjE) (drule sum.inject(2) [THEN iffD1], rule that, erule sym)
    then show ?thesis by simp
  next
    case 3
    from assms show ?thesis unfolding attach_task_lineage_projection_def if_not_P [OF 3(1)] if_P [OF 3(2)] by simp
  qed
qed

lemma load_action_Inr:
  assumes "load_action env db aid e = Inr a"
  obtains x where "x \<in> set (actions db)" "aa_id x = aid" "core a = core x" "aa_status a = aa_status x"
  using assms
  by (auto simp: load_action_def action_receipt_get_def bind_r_Inr map_err_Inr ok_or_Inr dest!: core_attach find_SomeD
      split: option.splits)

text \<open>The tables after each write.\<close>

lemma set_action_sel [simp]:
  "manifests (set_action db P f) = manifests db" "cd_revocations (set_action db P f) = cd_revocations db"
  "cd_leases (set_action db P f) = cd_leases db" "actions (set_action db P f) = map (\<lambda>x. if P x then f x else x) (actions db)"
  by (simp_all add: set_action_def manifests_def actions_def)

lemma lineage_path_actions:
  assumes "action_intent_lineage_path env db now ids m a q = (r, db')"
  shows "ld_manifests db' = ld_manifests db \<and>
    (ld_actions db' = ld_actions db \<or>
     (\<exists>x. ld_actions db' = ld_actions db @ [x] \<and> aa_id x \<notin> aa_id ` set (ld_actions db) \<and>
       aa_status x \<in> {''denied'', ''approval_requested'', ''intent''}))"
proof (cases "db' = db")
  case False
  with assms obtain x where "lineage_tx env db now ids m a q = Inr (x, db')" by (rule path_db)
  then show ?thesis
  proof (cases rule: lineage_tx_cases)
    case (new v p digest lid)
    then obtain d sd db1 t st head where x: "x = action_of env now ids lid m a d sd" "aa_id x \<notin> aa_id ` set (ld_actions db)"
      "db' = db1\<lparr>ld_actions := ld_actions db @ [x], ld_transitions := ld_transitions db @ [t]\<rparr>"
      and db1: "store_lineage db now lid st m a v p (td_state d) (json_text (le_digest env) (lineage_state_json (td_state d))) sd head = Inr db1"
      by (elim admit_new_effect) blast
    have "aa_status x \<in> {''denied'', ''approval_requested'', ''intent''}" by (simp add: x(1) action_of_def Let_def)
    with x store_lineage_tables [OF db1] show ?thesis by auto
  qed (use False in simp)
qed simp

section \<open>Histories\<close>

text \<open>An operation between its reads and its write.\<close>

datatype pending =
    WIntent intent_plan
  | WApprove authorized_action authority_manifest string string
  | WComplete authorized_action string string
  | WTimeout authorized_action int
  | WLease authorized_action authority_manifest string int

inductive prepared :: "control_env \<Rightarrow> control_db \<Rightarrow> int \<Rightarrow> pending \<Rightarrow> bool" for env db now where
  intent: "intent_check env db now aid c = Inr plan \<Longrightarrow> prepared env db now (WIntent plan)"
| approve: "approve_check env db now aid approver decision = Inr (a, m) \<Longrightarrow> prepared env db now (WApprove a m approver decision)"
| complete: "complete_check env db aid actor outcome h = Inr a \<Longrightarrow> prepared env db now (WComplete a outcome h)"
| timeout: "timeout_check env db now aid window = Inr a \<Longrightarrow> prepared env db now (WTimeout a window)"
| lease: "lease_check env db now aid holder ttl = Inr (a, m) \<Longrightarrow> prepared env db now (WLease a m holder ttl)"

fun perform :: "control_env \<Rightarrow> control_db \<Rightarrow> int \<Rightarrow> fresh_ids \<Rightarrow> string \<Rightarrow> pending \<Rightarrow> control_db" where
  "perform env db now ids ref (WIntent plan) = snd (intent_write env db now ids plan)"
| "perform env db now ids ref (WApprove a m approver decision) = snd (approve_write db now ref a m approver decision)"
| "perform env db now ids ref (WComplete a outcome h) = snd (complete_write db now a outcome h)"
| "perform env db now ids ref (WTimeout a window) = snd (timeout_write db now a window)"
| "perform env db now ids ref (WLease a m holder ttl) = snd (lease_write db now ref a m holder ttl)"

text \<open>The operations that write in one statement; the entities are written by other components.\<close>

inductive admin_step :: "control_env \<Rightarrow> control_db \<Rightarrow> control_db \<Rightarrow> bool" for env where
  grant: "authority_set env db now mid i = (r, db') \<Longrightarrow> admin_step env db db'"
| revoke: "revoke_manifest db now mid = (r, db') \<Longrightarrow> admin_step env db db'"
| record_rev: "admin_step env db (record_revocation db now rid p ws reason)"
| reinstate: "admin_step env db (reinstate_revocation db now p ws)"
| finding: "finding_record env db now fid f = (r, db') \<Longrightarrow> admin_step env db db'"
| release: "action_lease_release db now lid holder = (r, db') \<Longrightarrow> admin_step env db db'"
| entities: "admin_step env db (db\<lparr>cd_gate := g\<rparr>)"

record world =
  wo_db :: control_db
  wo_pending :: "pending list"

inductive world_step :: "control_env \<Rightarrow> world \<Rightarrow> world \<Rightarrow> bool" for env where
  start: "prepared env (wo_db w) now p \<Longrightarrow> world_step env w (w\<lparr>wo_pending := p # wo_pending w\<rparr>)"
| finish: "p \<in> set (wo_pending w) \<Longrightarrow>
    world_step env w \<lparr>wo_db = perform env (wo_db w) now ids ref p, wo_pending = remove1 p (wo_pending w)\<rparr>"
| admin: "admin_step env (wo_db w) db' \<Longrightarrow> world_step env w (w\<lparr>wo_db := db'\<rparr>)"

inductive_cases prepared_ApproveE: "prepared env db now (WApprove a m approver decision)"
inductive_cases prepared_CompleteE: "prepared env db now (WComplete a outcome h)"

definition empty_world :: "gate_db \<Rightarrow> world" where
  "empty_world g = \<lparr>wo_db = \<lparr>cd_ledger = empty_ledger, cd_revocations = [], cd_leases = [], cd_findings = [], cd_gate = g\<rparr>,
     wo_pending = []\<rparr>"

section \<open>Leases\<close>

definition open_leases :: "control_db \<Rightarrow> action_lease list" where
  "open_leases db = filter (\<lambda>l. al_released_at l = None) (cd_leases db)"

definition slot :: "action_lease \<Rightarrow> string \<times> string" where
  "slot l = (al_workspace_hash l, al_action_key l)"

definition leases_ok :: "control_db \<Rightarrow> bool" where
  "leases_ok db \<longleftrightarrow> distinct (map slot (open_leases db))"

lemma distinct_map_filter_map:
  assumes "distinct (map f (filter P xs))" and "\<And>x. P (g x) \<Longrightarrow> P x \<and> g x = x"
  shows "distinct (map f (filter P (map g xs)))"
proof -
  have "filter P (map g xs) = filter (\<lambda>x. P (g x)) xs"
    by (induction xs) (use assms(2) in \<open>auto\<close>)
  moreover have "filter (\<lambda>x. P (g x)) xs = filter (\<lambda>x. P (g x)) (filter P xs)"
    using assms(2) by (auto intro!: filter_cong)
  ultimately show ?thesis using assms(1) by (simp only: distinct_map_filter)
qed

lemma expire_leases_open:
  "l \<in> set (expire_leases now a ls) \<Longrightarrow> al_released_at l = None \<Longrightarrow> l \<in> set ls \<and> (same_slot a l \<longrightarrow> al_expires_at l > now)"
  by (auto simp: expire_leases_def split: if_splits)

lemma expire_leases_kept: "l \<in> set ls \<Longrightarrow> now < al_expires_at l \<Longrightarrow> l \<in> set (expire_leases now a ls)"
  by (auto simp: expire_leases_def intro!: image_eqI [of _ _ l])

lemma expire_leases_distinct:
  "distinct (map slot (filter (\<lambda>l. al_released_at l = None) ls)) \<Longrightarrow>
   distinct (map slot (filter (\<lambda>l. al_released_at l = None) (expire_leases now a ls)))"
  unfolding expire_leases_def by (rule distinct_map_filter_map) (auto split: if_splits)

lemma idle_slot:
  "\<not> slot_busy now a (expire_leases now a ls) \<Longrightarrow>
   (aa_workspace_hash a, aa_action_key a) \<notin> slot ` set (filter (\<lambda>l. al_released_at l = None) (expire_leases now a ls))"
  by (fastforce simp: slot_busy_def list_ex_iff slot_def same_slot_def dest: expire_leases_open [unfolded same_slot_def])

lemma lease_write_ok: "leases_ok db \<Longrightarrow> leases_ok (snd (lease_write db now lid a m holder ttl))"
  using expire_leases_distinct [of "cd_leases db" now a] idle_slot [of now a "cd_leases db"]
  by (auto simp: lease_write_def Let_def leases_ok_def open_leases_def slot_def image_iff)

lemma intent_write_tables:
  assumes "intent_write env db now ids plan = (r, db')"
  shows "manifests db' = manifests db \<and> cd_revocations db' = cd_revocations db \<and> cd_leases db' = cd_leases db \<and>
    (actions db' = actions db \<or>
     (\<exists>x. actions db' = actions db @ [x] \<and> aa_id x \<notin> aa_id ` set (actions db) \<and>
       (plan = PlainIntent x \<or> aa_status x \<in> {''denied'', ''approval_requested'', ''intent''})))"
proof (cases plan)
  case (PlainIntent a)
  with assms show ?thesis by (auto simp: insert_action_Inr manifests_def actions_def split: sum.splits)
next
  case (LineageIntent m a q)
  then obtain r' ledger where "action_intent_lineage_path (ce_lineage env) (cd_ledger db) now ids m a q = (r', ledger)"
    and "db' = db\<lparr>cd_ledger := ledger\<rparr>" using assms by (auto split: prod.splits)
  with lineage_path_actions [OF this(1)] show ?thesis by (auto simp: manifests_def actions_def)
qed

text \<open>Only the transaction of a lease and its release write leases.\<close>

lemma perform_leases: "leases_ok db \<Longrightarrow> leases_ok (perform env db now ids ref p)"
proof (cases p)
  case (WIntent plan)
  assume "leases_ok db"
  moreover obtain r db' where "intent_write env db now ids plan = (r, db')" by (cases "intent_write env db now ids plan")
  ultimately show ?thesis using intent_write_tables WIntent by (auto simp: leases_ok_def open_leases_def)
next
  case (WLease a m holder ttl)
  assume "leases_ok db"
  with WLease show ?thesis by (simp add: lease_write_ok)
qed (auto simp: approve_write_def complete_write_def timeout_write_def Let_def leases_ok_def open_leases_def)

lemma admin_leases:
  assumes "admin_step env db db'" and "leases_ok db"
  shows "leases_ok db'"
  using assms(1)
proof cases
  case (release now lid holder r)
  have "distinct (map slot (filter (\<lambda>l. al_released_at l = None)
      (map (\<lambda>l. if releasable lid holder l then l\<lparr>al_released_at := Some now\<rparr> else l) (cd_leases db))))"
    by (rule distinct_map_filter_map) (use assms(2) in \<open>auto simp: leases_ok_def open_leases_def split: if_splits\<close>)
  with release assms(2) show ?thesis
    by (auto simp: action_lease_release_def leases_ok_def open_leases_def split: if_splits)
qed (use assms(2) in \<open>auto simp: authority_set_def revoke_manifest_def record_revocation_def reinstate_revocation_def
    finding_record_def leases_ok_def open_leases_def Let_def split: sum.splits prod.splits\<close>)

lemma world_leases:
  assumes "(world_step env)\<^sup>*\<^sup>* (empty_world g) w"
  shows "leases_ok (wo_db w)"
  using assms
proof (induction rule: rtranclp_induct)
  case base
  show ?case by (simp add: empty_world_def leases_ok_def open_leases_def)
next
  case (step w w')
  from step.hyps(2) step.IH show ?case by cases (auto simp: perform_leases admin_leases)
qed

text \<open>C9.
  Execution is exclusive. However the calls of several agents interleave, there is at most one open
  lease for an action key in a workspace, and as long as it has not expired every other attempt to
  acquire that slot, for any action, with any checks made before, fails and writes nothing.
\<close>

theorem leases_are_exclusive:
  assumes "(world_step env)\<^sup>*\<^sup>* (empty_world g) w"
    and "l \<in> set (cd_leases (wo_db w))" and "al_released_at l = None"
  shows "(\<forall>l' \<in> set (cd_leases (wo_db w)). al_released_at l' = None \<and> al_workspace_hash l' = al_workspace_hash l \<and>
      al_action_key l' = al_action_key l \<longrightarrow> l' = l) \<and>
    (now < al_expires_at l \<and> aa_workspace_hash a = al_workspace_hash l \<and> aa_action_key a = al_action_key l \<longrightarrow>
      (\<exists>e. lease_write (wo_db w) now lid a m holder ttl = (Inl e, wo_db w)))"
proof (intro conjI impI ballI)
  fix l' assume "l' \<in> set (cd_leases (wo_db w))" and "al_released_at l' = None \<and> al_workspace_hash l' = al_workspace_hash l \<and>
      al_action_key l' = al_action_key l"
  moreover have "inj_on slot (set (open_leases (wo_db w)))"
    using world_leases [OF assms(1)] by (simp add: leases_ok_def distinct_map)
  ultimately show "l' = l" using assms(2,3) by (intro inj_onD [of slot "set (open_leases (wo_db w))"]) (auto simp: open_leases_def slot_def)
next
  assume held: "now < al_expires_at l \<and> aa_workspace_hash a = al_workspace_hash l \<and> aa_action_key a = al_action_key l"
  with assms(2,3) have "slot_busy now a (expire_leases now a (cd_leases (wo_db w)))"
    by (auto simp: slot_busy_def list_ex_iff same_slot_def intro!: bexI [of _ l] expire_leases_kept)
  then show "\<exists>e. lease_write (wo_db w) now lid a m holder ttl = (Inl e, wo_db w)"
    by (simp add: lease_write_def Let_def)
qed

text \<open>The expiry of a lease is computed with wrap-around: a lifetime that does not fit gives a lease that is
  expired when it is granted, so that the slot is free for the next caller.\<close>

lemma oversized_lease_is_expired:
  assumes "0 < now" and "in_i64 now" and "i64_max < ttl * 1000"
    and "lease_write db now lid a m holder ttl = (Inr l, db')"
  shows "al_expires_at l < now"
proof -
  have "al_expires_at l = wrap64 (now + i64_max)"
    using assms(3,4) by (auto simp: lease_write_def Let_def saturating_mul_1000_def i64_min_def i64_max_def split: if_splits)
  also have "\<dots> = now + i64_max - 2 ^ 64"
  proof -
    have "(now + i64_max + 2 ^ 63) mod 2 ^ 64 = now - 1"
    proof -
      have "now + i64_max + 2 ^ 63 = (now - 1) + 2 ^ 64" by (simp add: i64_max_def)
      then have "(now + i64_max + 2 ^ 63) mod 2 ^ 64 = (now - 1) mod 2 ^ 64" by (simp only: mod_add_self2)
      also have "\<dots> = now - 1" using assms(1,2) by (simp add: in_i64_def i64_max_def)
      finally show ?thesis .
    qed
    then show ?thesis by (simp add: wrap64_def i64_max_def)
  qed
  finally show ?thesis using assms(1) by (simp add: i64_max_def)
qed

section \<open>Approvals\<close>

definition ids_ok :: "control_db \<Rightarrow> bool" where
  "ids_ok db \<longleftrightarrow> distinct (map aa_id (actions db)) \<and> distinct (map am_id (manifests db))"

lemma ids_ok_action: "ids_ok db \<Longrightarrow> x \<in> set (actions db) \<Longrightarrow> y \<in> set (actions db) \<Longrightarrow> aa_id x = aa_id y \<Longrightarrow> x = y"
  by (simp add: ids_ok_def distinct_map inj_on_def)

lemma ids_ok_manifest:
  "ids_ok db \<Longrightarrow> m \<in> set (manifests db) \<Longrightarrow> n \<in> set (manifests db) \<Longrightarrow> am_id m = am_id n \<Longrightarrow> m = n"
  by (simp add: ids_ok_def distinct_map inj_on_def)

text \<open>What every step keeps: the unchangeable part of each action, and each manifest but its revocation.\<close>

definition kept :: "control_db \<Rightarrow> control_db \<Rightarrow> bool" where
  "kept db db' \<longleftrightarrow> (\<forall>x \<in> set (actions db). \<exists>y \<in> set (actions db'). core y = core x) \<and>
     (\<forall>m \<in> set (manifests db). \<exists>n \<in> set (manifests db'). am_id n = am_id m \<and>
        am_approver_principals n = am_approver_principals m \<and> am_allowed_inbound_principals n = am_allowed_inbound_principals m)"

lemma kept_refl [simp]: "kept db db"
  by (auto simp: kept_def)

lemma kept_same: "actions db' = actions db \<Longrightarrow> manifests db' = manifests db \<Longrightarrow> kept db db'"
  by (auto simp: kept_def)

lemma core_id: "core x = core y \<Longrightarrow> aa_id x = aa_id y"
  by (rule core_eqD)

lemma set_action_ok:
  assumes "\<And>x. core (f x) = core x" and "ids_ok db"
  shows "ids_ok (set_action db P f)" and "kept db (set_action db P f)"
proof -
  have "aa_id (f x) = aa_id x" for x using assms(1) by (rule core_id)
  then have "map aa_id (map (\<lambda>x. if P x then f x else x) (actions db)) = map aa_id (actions db)" by simp
  with assms(2) show "ids_ok (set_action db P f)" by (simp add: ids_ok_def del: map_map)
  have "core (if P x then f x else x) = core x" for x using assms(1) by simp
  then show "kept db (set_action db P f)" unfolding kept_def set_action_sel set_map by blast
qed

lemma lease_write_tables:
  "actions (snd (lease_write db now lid a m holder ttl)) = actions db"
  "manifests (snd (lease_write db now lid a m holder ttl)) = manifests db"
  by (simp_all add: lease_write_def Let_def actions_def manifests_def)

lemma perform_ok:
  assumes "ids_ok db"
  shows "ids_ok (perform env db now ids ref p) \<and> kept db (perform env db now ids ref p)"
proof (cases p)
  case (WIntent plan)
  obtain r db' where "intent_write env db now ids plan = (r, db')" by (cases "intent_write env db now ids plan")
  with intent_write_tables [OF this] assms WIntent show ?thesis by (auto simp: ids_ok_def kept_def)
next
  case (WLease a m holder ttl)
  with assms show ?thesis by (simp add: ids_ok_def lease_write_tables kept_same)
qed (use assms in \<open>simp_all add: approve_write_def complete_write_def timeout_write_def Let_def set_action_ok\<close>)

lemma kept_manifests:
  assumes "actions db' = actions db" and "manifests db' = map f (manifests db)"
    and "\<And>m. am_id (f m) = am_id m \<and> am_approver_principals (f m) = am_approver_principals m \<and>
      am_allowed_inbound_principals (f m) = am_allowed_inbound_principals m"
  shows "kept db db'"
  unfolding kept_def assms(1,2) set_map using assms(3) by blast

lemma revoke_manifest_tables:
  assumes "revoke_manifest db now mid = (r, db')"
  shows "actions db' = actions db" and "map am_id (manifests db') = map am_id (manifests db)" and "kept db db'"
proof -
  let ?f = "\<lambda>m. if am_id m = mid then m\<lparr>am_revoked_at := Some now\<rparr> else m"
  have "db' = db \<or> actions db' = actions db \<and> manifests db' = map ?f (manifests db)"
    using assms by (auto simp: revoke_manifest_def authority_revoke_def actions_def manifests_def split: option.splits if_splits)
  then show "actions db' = actions db" "map am_id (manifests db') = map am_id (manifests db)" "kept db db'"
    using kept_manifests [of db' db ?f] by auto
qed

lemma admin_ok:
  assumes "admin_step env db db'" and "ids_ok db"
  shows "ids_ok db' \<and> kept db db' \<and> actions db' = actions db"
  using assms(1)
proof cases
  case (revoke now mid r)
  with assms(2) revoke_manifest_tables [OF this] show ?thesis by (simp add: ids_ok_def)
next
  case (grant now mid i r)
  then have "db' = db \<or> (\<exists>m. actions db' = actions db \<and> manifests db' = manifests db @ [m] \<and> am_id m \<notin> set (map am_id (manifests db)))"
    by (auto simp: authority_set_def Let_def bind_r_Inr guard_r_Inr actions_def manifests_def split: sum.splits)
  with assms(2) show ?thesis by (auto simp: ids_ok_def kept_def)
qed (use assms(2) in \<open>auto simp: record_revocation_def reinstate_revocation_def finding_record_def action_lease_release_def
    ids_ok_def actions_def manifests_def Let_def intro!: kept_same split: sum.splits if_splits\<close>)

text \<open>Of an operation under way that writes an action: the action is recorded, and for an approval the manifest
  lists the approver.\<close>

fun pending_ok :: "control_db \<Rightarrow> pending \<Rightarrow> bool" where
  "pending_ok db (WApprove a m approver decision) \<longleftrightarrow>
     (\<exists>x \<in> set (actions db). core x = core a) \<and>
     (\<exists>n \<in> set (manifests db). am_id n = am_id m \<and> am_id n = aa_manifest_id a \<and> approver \<in> set (am_approver_principals n) \<and>
        approver \<in> set (am_allowed_inbound_principals n))"
| "pending_ok db (WComplete a outcome h) \<longleftrightarrow> (\<exists>x \<in> set (actions db). core x = core a)"
| "pending_ok db (WIntent (PlainIntent a)) \<longleftrightarrow> aa_status a \<in> {''denied'', ''approval_requested'', ''intent''}"
| "pending_ok db _ \<longleftrightarrow> True"

lemma pending_ok_kept: "kept db db' \<Longrightarrow> pending_ok db p \<Longrightarrow> pending_ok db' p"
  by (cases "(db, p)" rule: pending_ok.cases) (auto simp: kept_def, metis+)

lemma intent_check_Inr:
  assumes "intent_check env db now aid c = Inr plan"
  obtains m constraints permitted where "active_authority db now (ic_agent_id c) (ic_workspace_hash c) = Inr m"
    and "ic_capability c \<in> set (am_allowed_capabilities m)" and "ic_scope_anchor c \<in> set (am_scope_anchors m)"
    and "ref_permitted (ic_external_ref c) (am_permitted_external_ref_prefixes m)" and "hex64 (ic_intent_hash c)"
    and "\<And>link. ic_compensation c = Some link \<Longrightarrow>
      validate_compensation_linkage env db (ic_agent_id c) (ic_workspace_hash c) link = Inr ()"
    and "canonical_constraint_json env (or_else (ic_resource_constraints_json c) ''{}'') = Inr constraints"
    and "resource_constraints_permit env (am_capability_constraints_json m) (ic_capability c) constraints = Inr permitted"
    and "plan = (case ic_lineage c of
       Some q \<Rightarrow> LineageIntent m (lineage_args env c (or_else (ic_compensation c) no_linkage) constraints permitted) q
     | None \<Rightarrow> PlainIntent (plain_action env now aid m c (or_else (ic_compensation c) no_linkage) constraints permitted))"
proof -
  from assms obtain m constraints permitted where *: "active_authority db now (ic_agent_id c) (ic_workspace_hash c) = Inr m"
    "ic_capability c \<in> set (am_allowed_capabilities m)" "ic_scope_anchor c \<in> set (am_scope_anchors m)"
    "ref_permitted (ic_external_ref c) (am_permitted_external_ref_prefixes m)" "hex64 (ic_intent_hash c)"
    "(case ic_compensation c of None \<Rightarrow> Inr ()
      | Some link \<Rightarrow> validate_compensation_linkage env db (ic_agent_id c) (ic_workspace_hash c) link) = Inr ()"
    "canonical_constraint_json env (or_else (ic_resource_constraints_json c) ''{}'') = Inr constraints"
    "resource_constraints_permit env (am_capability_constraints_json m) (ic_capability c) constraints = Inr permitted"
    "Inr (case ic_lineage c of
       Some q \<Rightarrow> LineageIntent m (lineage_args env c (or_else (ic_compensation c) no_linkage) constraints permitted) q
     | None \<Rightarrow> PlainIntent (plain_action env now aid m c (or_else (ic_compensation c) no_linkage) constraints permitted)) =
     (Inr plan :: control_error + intent_plan)"
    unfolding intent_check_def bind_r_Inr Let_def check_all_Inr list.pred_inject guard_r_Inr not_not by blast
  show ?thesis by (rule that [OF *(1-5) _ *(7,8)]) (use *(6,9) in auto)
qed

lemma plain_action_status: "aa_status (plain_action env now aid m c link constraints permitted) \<in>
    {''denied'', ''approval_requested'', ''intent''}"
  by (simp add: plain_action_def Let_def)

lemma prepared_ok: "prepared env db now p \<Longrightarrow> pending_ok db p"
proof (induction rule: prepared.induct)
  case (intent aid c plan)
  then show ?case
    by (rule intent_check_Inr) (use plain_action_status in \<open>auto split: option.splits\<close>)
next
  case (approve aid approver decision a m)
  then obtain x where x: "x \<in> set (actions db)" "core a = core x"
    by (auto simp: approve_check_def bind_r_Inr elim: load_action_Inr)
  from approve have "pinned_manifest db now a = Inr m"
    and ap: "approver \<in> set (am_approver_principals m)" "approver \<in> set (am_allowed_inbound_principals m)"
    unfolding approve_check_def bind_r_Inr check_all_Inr list.pred_inject guard_r_Inr by auto
  then obtain n where "n \<in> set (manifests db)" "am_id n = aa_manifest_id a" "subtract_revoked_principals db n = Some m"
    by (auto simp: pinned_manifest_def bind_r_Inr ok_or_Inr dest!: find_SomeD)
  moreover from this(3) have "am_id m = am_id n" "set (am_approver_principals m) \<subseteq> set (am_approver_principals n)"
      "set (am_allowed_inbound_principals m) \<subseteq> set (am_allowed_inbound_principals n)"
    by (auto simp: subtract_revoked_principals_def Let_def split: if_splits)
  ultimately show ?case using x ap by auto
next
  case (complete aid actor outcome h a)
  then show ?case by (auto simp: complete_check_def bind_r_Inr elim!: load_action_Inr)
qed simp_all

text \<open>How the write of an operation changes the status of a recorded action.\<close>

fun caused :: "control_db \<Rightarrow> int \<Rightarrow> pending \<Rightarrow> authorized_action \<Rightarrow> string \<Rightarrow> bool" where
  "caused db now (WApprove a m approver decision) x s \<longleftrightarrow>
     approvable db now (am_id m) a approver x \<and> s = ''approval_'' @ decision"
| "caused db now (WComplete a outcome h) x s \<longleftrightarrow> aa_id x = aa_id a \<and> s = ''action_'' @ outcome"
| "caused db now (WTimeout a window) x s \<longleftrightarrow> aa_id x = aa_id a \<and> s = ''approval_denied''"
| "caused db now _ x s \<longleftrightarrow> False"

lemma set_action_status:
  assumes "y \<in> set (actions (set_action db P f))" and "\<And>x. core (f x) = core x"
  obtains x where "x \<in> set (actions db)" "core y = core x" "aa_status y = aa_status x \<or> P x \<and> y = f x"
  using assms by (auto split: if_splits)

lemma perform_status:
  assumes "y \<in> set (actions (perform env db now ids ref p))" and "pending_ok db p"
  shows "aa_status y \<in> {''denied'', ''approval_requested'', ''intent''} \<or>
    (\<exists>x \<in> set (actions db). core y = core x \<and> (aa_status y = aa_status x \<or> caused db now p x (aa_status y)))"
proof (cases p)
  case (WIntent plan)
  obtain r db' where "intent_write env db now ids plan = (r, db')" by (cases "intent_write env db now ids plan")
  with intent_write_tables [OF this] assms WIntent show ?thesis by auto
next
  case (WApprove a m approver decision)
  show ?thesis
  proof (cases "length (filter (approvable db now (am_id m) a approver) (actions db)) = 1")
    case True
    with assms(1) WApprove have "y \<in> set (actions (set_action db (approvable db now (am_id m) a approver)
        (\<lambda>x. x\<lparr>aa_status := ''approval_'' @ decision, aa_approval_ref := ref, aa_updated_at := now\<rparr>)))"
      by (simp add: approve_write_def Let_def del: set_action_sel append.simps)
    then obtain x where "x \<in> set (actions db)" "core y = core x"
        "aa_status y = aa_status x \<or> approvable db now (am_id m) a approver x \<and>
          y = x\<lparr>aa_status := ''approval_'' @ decision, aa_approval_ref := ref, aa_updated_at := now\<rparr>"
      by (rule set_action_status) simp_all
    with WApprove show ?thesis by auto
  qed (use assms(1) WApprove in \<open>auto simp: approve_write_def Let_def\<close>)
next
  case (WComplete a outcome h)
  with assms(1) have "y \<in> set (actions (set_action db (\<lambda>x. aa_id x = aa_id a)
      (\<lambda>x. x\<lparr>aa_status := ''action_'' @ outcome, aa_outcome_hash := lower_bytes h, aa_updated_at := now\<rparr>)))"
    by (simp add: complete_write_def Let_def del: set_action_sel append.simps)
  then obtain x where "x \<in> set (actions db)" "core y = core x" "aa_status y = aa_status x \<or> aa_id x = aa_id a \<and>
      y = x\<lparr>aa_status := ''action_'' @ outcome, aa_outcome_hash := lower_bytes h, aa_updated_at := now\<rparr>"
    by (rule set_action_status) simp_all
  with WComplete show ?thesis by auto
next
  case (WTimeout a window)
  with assms(1) have "y \<in> set (actions (set_action db (\<lambda>x. aa_id x = aa_id a)
      (\<lambda>x. x\<lparr>aa_status := ''approval_denied'', aa_approval_ref := ''timeout:'' @ show_int window, aa_updated_at := now\<rparr>)))"
    by (simp add: timeout_write_def Let_def del: set_action_sel append.simps)
  then obtain x where "x \<in> set (actions db)" "core y = core x" "aa_status y = aa_status x \<or> aa_id x = aa_id a \<and>
      y = x\<lparr>aa_status := ''approval_denied'', aa_approval_ref := ''timeout:'' @ show_int window, aa_updated_at := now\<rparr>"
    by (rule set_action_status) simp_all
  with WTimeout show ?thesis by auto
next
  case (WLease a m holder ttl)
  with assms(1) show ?thesis by (auto simp: lease_write_tables)
qed

text \<open>The action awaits its approval, and the approver is listed in its manifest, at a moment at which the
  manifest is neither revoked nor expired and no revocation counts against the agent, the approver or the anchor.\<close>

definition approval_ready :: "control_db \<Rightarrow> int \<Rightarrow> string \<Rightarrow> string \<Rightarrow> bool" where
  "approval_ready db now aid approver \<longleftrightarrow>
     (\<exists>x \<in> set (actions db). \<exists>m \<in> set (manifests db).
        aa_id x = aid \<and> aa_status x = ''approval_requested'' \<and>
        am_id m = aa_manifest_id x \<and> am_version m = aa_manifest_version x \<and> am_agent_id m = aa_agent_id x \<and>
        am_workspace_hash m = aa_workspace_hash x \<and> am_revoked_at m = None \<and> \<not> expired_at (am_expires_at m) now \<and>
        approver \<in> set (am_approver_principals m) \<and> approver \<in> set (am_allowed_inbound_principals m) \<and>
        (\<forall>rv \<in> set (cd_revocations db). bites rv (am_workspace_hash m) (am_created_at m) \<longrightarrow>
           rv_principal rv \<notin> {aa_agent_id x, approver, aa_scope_anchor x}))"

lemma approvable_ready:
  assumes "approvable db now (am_id m) a approver x" and "pending_ok db (WApprove a m approver decision)"
    and "ids_ok db" and "x \<in> set (actions db)"
  shows "approval_ready db now (aa_id x) approver"
proof -
  from assms(2) obtain z n where z: "z \<in> set (actions db)" "core z = core a" and n: "n \<in> set (manifests db)" "am_id n = am_id m"
      "am_id n = aa_manifest_id a" "approver \<in> set (am_approver_principals n)" "approver \<in> set (am_allowed_inbound_principals n)"
    by auto
  have "aa_id z = aa_id x" using assms(1) core_id [OF z(2)] by (simp add: approvable_def)
  with z(1) assms(3,4) have "z = x" by (metis ids_ok_action)
  with z(2) have same: "core x = core a" by simp
  from assms(1) obtain n' where n': "n' \<in> set (manifests db)" "am_id n' = am_id m" "am_agent_id n' = aa_agent_id a"
      "am_workspace_hash n' = aa_workspace_hash a" "am_version n' = aa_manifest_version a" "am_revoked_at n' = None"
      "\<not> expired_at (am_expires_at n') now"
      "\<forall>rv \<in> set (cd_revocations db). \<not> (rv_principal rv \<in> {aa_agent_id a, approver, aa_scope_anchor a} \<and>
         bites rv (aa_workspace_hash a) (am_created_at n'))"
    by (auto simp: approvable_def live_authority_def list_ex_iff)
  have "n' = n" using n(1,2) n'(1,2) assms(3) by (metis ids_ok_manifest)
  with n n' core_eqD [OF same] assms(1,4) show ?thesis
    unfolding approval_ready_def by (intro bexI [of _ x] bexI [of _ n]) (auto simp: approvable_def)
qed

text \<open>The histories themselves: the events that happened, newest first, each with the world it happened in.\<close>

datatype happening =
    Started int pending
  | Finished int fresh_ids string pending
  | Administered

inductive history :: "control_env \<Rightarrow> gate_db \<Rightarrow> (world \<times> happening) list \<Rightarrow> world \<Rightarrow> bool" for env g where
  nothing: "history env g [] (empty_world g)"
| started: "history env g es w \<Longrightarrow> prepared env (wo_db w) now p \<Longrightarrow>
    history env g ((w, Started now p) # es) (w\<lparr>wo_pending := p # wo_pending w\<rparr>)"
| finished: "history env g es w \<Longrightarrow> p \<in> set (wo_pending w) \<Longrightarrow>
    history env g ((w, Finished now ids ref p) # es)
      \<lparr>wo_db = perform env (wo_db w) now ids ref p, wo_pending = remove1 p (wo_pending w)\<rparr>"
| administered: "history env g es w \<Longrightarrow> admin_step env (wo_db w) db' \<Longrightarrow>
    history env g ((w, Administered) # es) (w\<lparr>wo_db := db'\<rparr>)"

lemma history_reaches: "(world_step env)\<^sup>*\<^sup>* (empty_world g) w \<longleftrightarrow> (\<exists>es. history env g es w)"
proof
  assume "(world_step env)\<^sup>*\<^sup>* (empty_world g) w"
  then show "\<exists>es. history env g es w"
  proof (induction rule: rtranclp_induct)
    case (step w w')
    from step.IH obtain es where "history env g es w" ..
    with step.hyps(2) show ?case by cases (blast intro: history.intros)+
  qed (blast intro: history.nothing)
next
  assume "\<exists>es. history env g es w"
  then obtain es where "history env g es w" ..
  then show "(world_step env)\<^sup>*\<^sup>* (empty_world g) w"
    by induction (blast intro: world_step.intros rtranclp.rtrancl_into_rtrancl)+
qed

text \<open>A grant for the action was written at a moment at which it was ready for that approver; and afterwards its
  completion was written.\<close>

fun grants :: "string \<Rightarrow> world \<times> happening \<Rightarrow> bool" where
  "grants aid (u, Finished now ids ref (WApprove a m approver decision)) \<longleftrightarrow>
     decision = ''granted'' \<and> aa_id a = aid \<and> approval_ready (wo_db u) now aid approver"
| "grants aid _ \<longleftrightarrow> False"

fun completes :: "string \<Rightarrow> world \<times> happening \<Rightarrow> bool" where
  "completes aid (u, Finished now ids ref (WComplete a outcome h)) \<longleftrightarrow> aa_id a = aid"
| "completes aid _ \<longleftrightarrow> False"

lemma grantsE:
  assumes "grants aid e"
  obtains u now ids ref a m approver where "e = (u, Finished now ids ref (WApprove a m approver ''granted''))" "aa_id a = aid"
    "approval_ready (wo_db u) now aid approver"
  using assms by (cases "(aid, e)" rule: grants.cases) auto

lemma completesE:
  assumes "completes aid e"
  obtains u now ids ref a outcome h where "e = (u, Finished now ids ref (WComplete a outcome h))" "aa_id a = aid"
  using assms by (cases "(aid, e)" rule: completes.cases) auto

definition granted_in :: "(world \<times> happening) list \<Rightarrow> string \<Rightarrow> bool" where
  "granted_in es aid \<longleftrightarrow> list_ex (grants aid) es"

definition completed_in :: "(world \<times> happening) list \<Rightarrow> string \<Rightarrow> bool" where
  "completed_in es aid \<longleftrightarrow> list_ex (completes aid) es"

definition completed_after_grant :: "(world \<times> happening) list \<Rightarrow> string \<Rightarrow> bool" where
  "completed_after_grant es aid \<longleftrightarrow> (\<exists>later earlier. es = later @ earlier \<and> completed_in later aid \<and> granted_in earlier aid)"

definition DONE :: "string list" where
  "DONE = [''action_executed'', ''action_failed'', ''action_cancelled'']"

text \<open>What a status of an action that needs an approval tells of its history.\<close>

definition approved :: "(world \<times> happening) list \<Rightarrow> string \<Rightarrow> string \<Rightarrow> bool" where
  "approved es aid s \<longleftrightarrow> (s = ''approval_granted'' \<longrightarrow> granted_in es aid) \<and> (s \<in> set DONE \<longrightarrow> completed_after_grant es aid)"

lemma granted_in_Cons: "granted_in es aid \<Longrightarrow> granted_in (e # es) aid"
  by (auto simp: granted_in_def)

lemma completed_after_grant_Cons: "completed_after_grant es aid \<Longrightarrow> completed_after_grant (e # es) aid"
proof -
  assume "completed_after_grant es aid"
  then obtain later earlier where "es = later @ earlier" "completed_in later aid" "granted_in earlier aid"
    by (auto simp: completed_after_grant_def)
  moreover from this(2) have "completed_in (e # later) aid" by (auto simp: completed_in_def)
  ultimately show ?thesis unfolding completed_after_grant_def by (metis append_Cons)
qed

lemma approved_Cons: "approved es aid s \<Longrightarrow> approved (e # es) aid s"
  by (auto simp: approved_def intro: granted_in_Cons completed_after_grant_Cons)

lemma approved_new: "s \<in> {''denied'', ''approval_requested'', ''intent''} \<Longrightarrow> approved es aid s"
  by (auto simp: approved_def DONE_def)

fun completion_approved :: "(world \<times> happening) list \<Rightarrow> pending \<Rightarrow> bool" where
  "completion_approved es (WComplete a outcome h) \<longleftrightarrow> (aa_approval_required a \<and> outcome \<noteq> ''denied'' \<longrightarrow> granted_in es (aa_id a))"
| "completion_approved es _ \<longleftrightarrow> True"

lemma completion_approved_Cons: "completion_approved es p \<Longrightarrow> completion_approved (e # es) p"
  by (cases p) (auto intro: granted_in_Cons)

definition approvals_ok :: "(world \<times> happening) list \<Rightarrow> world \<Rightarrow> bool" where
  "approvals_ok es w \<longleftrightarrow> ids_ok (wo_db w) \<and>
     (\<forall>p \<in> set (wo_pending w). pending_ok (wo_db w) p \<and> completion_approved es p) \<and>
     (\<forall>x \<in> set (actions (wo_db w)). aa_approval_required x \<longrightarrow> approved es (aa_id x) (aa_status x))"

lemma complete_check_granted:
  assumes "complete_check env db aid actor outcome h = Inr a" and "aa_approval_required a" and "outcome \<noteq> ''denied''"
  obtains x where "x \<in> set (actions db)" "core a = core x" "aa_status x = ''approval_granted''"
proof -
  from assms(1) have l: "load_action env db aid ActionNotFound = Inr a" and "aa_status a = ''approval_granted''"
    using assms(2,3) unfolding complete_check_def bind_r_Inr check_all_Inr list.pred_inject guard_r_Inr by auto
  with l that show ?thesis by (metis load_action_Inr)
qed

lemma start_approvals:
  assumes "approvals_ok es w" and "prepared env (wo_db w) now p"
  shows "approvals_ok (e # es) (w\<lparr>wo_pending := p # wo_pending w\<rparr>)"
proof -
  have "completion_approved es p"
  proof (cases p)
    case (WComplete a outcome h)
    have "granted_in es (aa_id a)" if "aa_approval_required a" "outcome \<noteq> ''denied''"
    proof -
      from assms(2) that WComplete obtain x where "x \<in> set (actions (wo_db w))" "core a = core x"
          "aa_status x = ''approval_granted''"
        by (auto elim!: prepared_CompleteE complete_check_granted)
      with assms(1) that(1) core_eqD [of a x] show ?thesis by (auto simp: approvals_ok_def approved_def)
    qed
    with WComplete show ?thesis by simp
  qed simp_all
  with assms prepared_ok [OF assms(2)] show ?thesis
    by (auto simp: approvals_ok_def intro: completion_approved_Cons approved_Cons)
qed

lemma caused_approved:
  assumes "caused (wo_db w) now p x s" and "pending_ok (wo_db w) p" and "ids_ok (wo_db w)" and "x \<in> set (actions (wo_db w))"
    and "completion_approved es p" and "aa_approval_required x"
  shows "approved ((w, Finished now ids ref p) # es) (aa_id x) s"
proof (cases p)
  case (WApprove a m approver decision)
  with assms(1) have x: "approvable (wo_db w) now (am_id m) a approver x" and s: "s = ''approval_'' @ decision" by simp_all
  from x have "aa_id a = aa_id x" by (simp add: approvable_def)
  moreover have "approval_ready (wo_db w) now (aa_id x) approver"
    by (rule approvable_ready [OF x assms(2) [unfolded WApprove] assms(3,4)])
  ultimately show ?thesis using s WApprove by (auto simp: approved_def granted_in_def DONE_def)
next
  case (WComplete a outcome h)
  with assms(1) have x: "aa_id x = aa_id a" and s: "s = ''action_'' @ outcome" by auto
  from assms(2) WComplete obtain z where "z \<in> set (actions (wo_db w))" "core z = core a" by auto
  with x assms(3,4) core_id [of z a] have "core x = core a" by (metis ids_ok_action)
  with core_eqD [OF this] assms(5,6) WComplete have "outcome \<noteq> ''denied'' \<longrightarrow> granted_in es (aa_id x)" by auto
  moreover have "completed_in [(w, Finished now ids ref p)] (aa_id x)" using WComplete x by (auto simp: completed_in_def)
  ultimately have "outcome \<noteq> ''denied'' \<longrightarrow> completed_after_grant ((w, Finished now ids ref p) # es) (aa_id x)"
    unfolding completed_after_grant_def by (metis append_Cons append_Nil)
  with s show ?thesis by (auto simp: approved_def DONE_def)
qed (use assms(1) in \<open>auto simp: approved_def DONE_def\<close>)

lemma finish_approvals:
  assumes ok: "approvals_ok es w" and p: "p \<in> set (wo_pending w)"
  shows "approvals_ok ((w, Finished now ids ref p) # es)
    \<lparr>wo_db = perform env (wo_db w) now ids ref p, wo_pending = remove1 p (wo_pending w)\<rparr>"
    (is "approvals_ok ?es ?w")
proof -
  have pk: "pending_ok (wo_db w) p" "completion_approved es p" "ids_ok (wo_db w)" using ok p by (auto simp: approvals_ok_def)
  note kept = perform_ok [OF pk(3), of env now ids ref p]
  have "approved ?es (aa_id y) (aa_status y)" if y: "y \<in> set (actions (wo_db ?w))" "aa_approval_required y" for y
  proof -
    from perform_status [of y env "wo_db w" now ids ref p] pk(1) y(1)
    consider "aa_status y \<in> {''denied'', ''approval_requested'', ''intent''}"
      | x where "x \<in> set (actions (wo_db w))" "core y = core x" "aa_status y = aa_status x \<or> caused (wo_db w) now p x (aa_status y)"
      by auto
    then show ?thesis
    proof cases
      case 1
      then show ?thesis by (rule approved_new)
    next
      case (2 x)
      note same = core_eqD [OF 2(2)]
      from 2(3) have "approved ?es (aa_id x) (aa_status y)"
      proof
        assume "aa_status y = aa_status x"
        with ok 2(1) y(2) same(7) show ?thesis by (auto simp: approvals_ok_def intro: approved_Cons)
      next
        assume "caused (wo_db w) now p x (aa_status y)"
        from caused_approved [OF this pk(1,3) 2(1) pk(2)] y(2) same(7) show ?thesis by simp
      qed
      with same(1) show ?thesis by simp
    qed
  qed
  moreover have "pending_ok (wo_db ?w) q \<and> completion_approved ?es q" if "q \<in> set (wo_pending ?w)" for q
    using ok that kept set_remove1_subset [of p "wo_pending w"]
    by (auto simp: approvals_ok_def intro: pending_ok_kept completion_approved_Cons)
  ultimately show ?thesis using kept by (auto simp: approvals_ok_def)
qed

lemma admin_approvals:
  assumes ok: "approvals_ok es w" and adm: "admin_step env (wo_db w) db'"
  shows "approvals_ok (e # es) (w\<lparr>wo_db := db'\<rparr>)"
proof -
  from admin_ok [OF adm] ok have "ids_ok db'" "kept (wo_db w) db'" "actions db' = actions (wo_db w)"
    by (auto simp: approvals_ok_def)
  with ok show ?thesis
    by (auto simp: approvals_ok_def intro: pending_ok_kept completion_approved_Cons approved_Cons)
qed

lemma history_approvals: "history env g es w \<Longrightarrow> approvals_ok es w"
proof (induction rule: history.induct)
  case nothing
  show ?case by (simp add: approvals_ok_def ids_ok_def empty_world_def empty_ledger_def actions_def manifests_def)
qed (auto intro: start_approvals finish_approvals admin_approvals)

text \<open>C7.
  Nothing that needs an approval is executed without one. In every history of interleaved operations, given as the
  list of what happened with the newest event first, an action that requires approval and is reported as
  executed, failed or cancelled was granted in that history, and its completion was written later in it: some
  approver's grant was written at a moment when the action awaited approval, the manifest it is pinned to
  listed that approver and was neither revoked nor expired, and neither the agent, nor the approver, nor the
  scope anchor was revoked.
\<close>

theorem executed_only_with_approval:
  assumes "history env g es w" and "a \<in> set (actions (wo_db w))"
    and "aa_approval_required a" and "aa_status a \<in> {''action_executed'', ''action_failed'', ''action_cancelled''}"
  shows "\<exists>later u now ids ref b m approver earlier.
    es = later @ (u, Finished now ids ref (WApprove b m approver ''granted'')) # earlier \<and> aa_id b = aa_id a \<and>
    approval_ready (wo_db u) now (aa_id a) approver \<and>
    (\<exists>v now' ids' ref' c outcome h. (v, Finished now' ids' ref' (WComplete c outcome h)) \<in> set later \<and> aa_id c = aa_id a)"
proof -
  from history_approvals [OF assms(1)] assms(2-4) have "completed_after_grant es (aa_id a)"
    by (auto simp: approvals_ok_def approved_def DONE_def)
  then obtain later earlier where es: "es = later @ earlier" and c: "completed_in later (aa_id a)" and g: "granted_in earlier (aa_id a)"
    by (auto simp: completed_after_grant_def)
  from g obtain e where e: "e \<in> set earlier" "grants (aa_id a) e" by (auto simp: granted_in_def list_ex_iff)
  from e(2) obtain u now ids ref b m approver where b: "e = (u, Finished now ids ref (WApprove b m approver ''granted''))"
      "aa_id b = aa_id a" "approval_ready (wo_db u) now (aa_id a) approver" by (rule grantsE)
  from split_list [OF e(1)] obtain xs ys where "earlier = xs @ e # ys" by blast
  then have "es = (later @ xs) @ (u, Finished now ids ref (WApprove b m approver ''granted'')) # ys" using es b(1) by simp
  moreover from c obtain f where f: "f \<in> set later" "completes (aa_id a) f" by (auto simp: completed_in_def list_ex_iff)
  from f(2) obtain v now' ids' ref' d outcome h where "f = (v, Finished now' ids' ref' (WComplete d outcome h))" "aa_id d = aa_id a"
    by (rule completesE)
  with f(1) have "(v, Finished now' ids' ref' (WComplete d outcome h)) \<in> set (later @ xs) \<and> aa_id d = aa_id a" by simp
  then have "\<exists>v now' ids' ref' c outcome h.
      (v, Finished now' ids' ref' (WComplete c outcome h)) \<in> set (later @ xs) \<and> aa_id c = aa_id a" by blast
  ultimately have "es = (later @ xs) @ (u, Finished now ids ref (WApprove b m approver ''granted'')) # ys \<and> aa_id b = aa_id a \<and>
      approval_ready (wo_db u) now (aa_id a) approver \<and> (\<exists>v now' ids' ref' c outcome h.
        (v, Finished now' ids' ref' (WComplete c outcome h)) \<in> set (later @ xs) \<and> aa_id c = aa_id a)"
    using b(2,3) by (intro conjI)
  then show ?thesis by (intro exI)
qed

section \<open>Revoked principals\<close>

definition deprovisioned :: "control_db \<Rightarrow> string \<Rightarrow> bool" where
  "deprovisioned db p \<longleftrightarrow>
     (\<exists>rv \<in> set (cd_revocations db). rv_principal rv = p \<and> rv_workspace_hash rv = [] \<and> rv_reinstated_at rv = None)"

lemma deprovisioned_bites: "deprovisioned db p \<Longrightarrow> \<exists>rv \<in> set (cd_revocations db). rv_principal rv = p \<and> bites rv ws minted"
  by (auto simp: deprovisioned_def bites_def)

lemma deprovisioned_dropped: "deprovisioned db p \<Longrightarrow> p \<in> set (dropped_principals db m)"
  using deprovisioned_bites [of db p "am_workspace_hash m" "am_created_at m"] by (auto simp: dropped_principals_def)

lemma deprovisioned_subtract:
  assumes "deprovisioned db p" and "subtract_revoked_principals db m = Some n"
  shows "am_agent_id n = am_agent_id m \<and> am_agent_id m \<noteq> p \<and> p \<notin> set (am_scope_anchors n) \<and> p \<notin> set (am_approver_principals n)"
  using assms(2) deprovisioned_dropped [OF assms(1), of m]
  by (auto simp: subtract_revoked_principals_def Let_def split: if_splits)

lemma deprovisioned_not_live: "deprovisioned db p \<Longrightarrow> p \<in> set principals \<Longrightarrow> \<not> live_authority db now mid a principals"
  using deprovisioned_bites by (fastforce simp: live_authority_def list_ex_iff)

lemma newest_by_in: "newest_by k xs = Some x \<Longrightarrow> x \<in> set xs"
proof -
  assume "newest_by k xs = Some x"
  then have "sort_key k xs \<noteq> []" "x = last (sort_key k xs)" by (auto simp: newest_by_def split: list.splits)
  then have "x \<in> set (sort_key k xs)" by (metis last_in_set)
  then show ?thesis by simp
qed

lemma deprovisioned_authority:
  assumes "deprovisioned db p" and "active_authority db now agent ws = Inr m"
  shows "agent \<noteq> p \<and> p \<notin> set (am_scope_anchors m)"
proof -
  from assms(2) obtain n where "n \<in> set (manifests db)" "am_agent_id n = agent" "subtract_revoked_principals db n = Some m"
    by (auto simp: active_authority_def ok_or_Inr authority_get_def Let_def dest!: newest_by_in split: option.splits if_splits)
  with deprovisioned_subtract [OF assms(1)] show ?thesis by blast
qed

lemma deprovisioned_intent:
  assumes "deprovisioned db p" and "ic_agent_id c = p \<or> ic_scope_anchor c = p"
  shows "\<exists>e. intent_check env db now aid c = Inl e"
proof (cases "intent_check env db now aid c")
  case (Inr plan)
  then obtain m where "active_authority db now (ic_agent_id c) (ic_workspace_hash c) = Inr m" "ic_scope_anchor c \<in> set (am_scope_anchors m)"
    by (rule intent_check_Inr)
  with deprovisioned_authority [OF assms(1)] assms(2) show ?thesis by blast
qed simp

lemma deprovisioned_memory:
  assumes "deprovisioned db p" and "authority_get db now p ws True = Some n" and "\<not> blank p"
  shows "require_memory_capability db now p ws cap = Inl AgentRevoked"
proof -
  from assms(2) have "am_agent_id n = p" by (auto simp: authority_get_def Let_def dest!: newest_by_in)
  with deprovisioned_subtract [OF assms(1), of n] have "subtract_revoked_principals db n = None"
    by (cases "subtract_revoked_principals db n") auto
  with assms(2,3) show ?thesis by (simp add: require_memory_capability_def ok_or_def)
qed

lemma deprovisioned_step:
  assumes "world_step env w w'" and "deprovisioned (wo_db w) p"
  shows "deprovisioned (wo_db w') p \<or> (\<exists>now. wo_db w' = reinstate_revocation (wo_db w) now p [])"
  using assms(1)
proof cases
  case (finish q now ids ref)
  have "cd_revocations (perform env (wo_db w) now ids ref q) = cd_revocations (wo_db w)"
  proof (cases q)
    case (WIntent plan)
    obtain r db' where "intent_write env (wo_db w) now ids plan = (r, db')" by (cases "intent_write env (wo_db w) now ids plan")
    with intent_write_tables [OF this] WIntent show ?thesis by simp
  qed (simp_all add: approve_write_def complete_write_def timeout_write_def lease_write_def Let_def)
  with assms(2) finish show ?thesis by (simp add: deprovisioned_def)
next
  case (admin db')
  from admin(2) show ?thesis
  proof cases
    case (reinstate now q ws)
    show ?thesis
    proof (cases "q = p \<and> ws = []")
      case False
      from assms(2) obtain rv where rv: "rv \<in> set (cd_revocations (wo_db w))" "rv_principal rv = p" "rv_workspace_hash rv = []"
        "rv_reinstated_at rv = None" by (auto simp: deprovisioned_def)
      with False have "rv \<in> set (cd_revocations db')" unfolding reinstate reinstate_revocation_def by (auto intro!: image_eqI [of _ _ rv])
      with rv show ?thesis unfolding admin by (auto simp: deprovisioned_def)
    qed (use admin reinstate in auto)
  next
    case (record_rev now rid q ws reason)
    with assms(2) admin show ?thesis by (auto simp: record_revocation_def deprovisioned_def)
  qed (use assms(2) admin in \<open>auto simp: authority_set_def revoke_manifest_def finding_record_def action_lease_release_def deprovisioned_def
      Let_def split: sum.splits prod.splits if_splits\<close>)
qed (use assms(2) in simp)

text \<open>C8.
  A revoked principal is stopped. From the moment a global revocation of a principal is recorded until it is
  reinstated, no call that begins then records an intent by that agent or under that anchor; no approval by or
  for it is written and no lease for it is granted, not even by an operation whose checks passed before the
  revocation; and where a policy for the agent is stored, every check of a memory capability fails because the
  agent is revoked. An intent whose checks passed before the revocation can still be written
  (\<open>intent_under_way_is_recorded\<close>), and an agent without any stored policy has the open access of a vault
  without policies, revoked or not.
\<close>

theorem revocation_stops_everything:
  "((\<forall>rv \<in> set (cd_revocations db). rv_id rv \<noteq> rid \<and> \<not> (rv_principal rv = p \<and> rv_workspace_hash rv = [] \<and> rv_at rv = now)) \<longrightarrow>
     deprovisioned (record_revocation db now rid p [] reason) p) \<and>
   (world_step env w w' \<and> deprovisioned (wo_db w) p \<longrightarrow>
     deprovisioned (wo_db w') p \<or> (\<exists>t. wo_db w' = reinstate_revocation (wo_db w) t p [])) \<and>
   (deprovisioned db p \<longrightarrow>
     (ic_agent_id c = p \<or> ic_scope_anchor c = p \<longrightarrow> (\<exists>e. action_intent cenv db t ids c = (Inl e, db))) \<and>
     (p \<in> {aa_agent_id a, approver, aa_scope_anchor a} \<longrightarrow> approve_write db t ref a m approver decision = (Inl PinnedChanged, db)) \<and>
     (p \<in> {aa_agent_id a, aa_scope_anchor a} \<longrightarrow> lease_write db t lid a m holder ttl = (Inl PinnedChanged, db)) \<and>
     (\<not> blank p \<and> authority_get db t p ws True \<noteq> None \<longrightarrow> require_memory_capability db t p ws cap = Inl AgentRevoked))"
proof (intro conjI impI)
  assume "\<forall>rv \<in> set (cd_revocations db). rv_id rv \<noteq> rid \<and> \<not> (rv_principal rv = p \<and> rv_workspace_hash rv = [] \<and> rv_at rv = now)"
  then show "deprovisioned (record_revocation db now rid p [] reason) p"
    by (auto simp: record_revocation_def deprovisioned_def list_ex_iff)
next
  assume "deprovisioned db p" and "ic_agent_id c = p \<or> ic_scope_anchor c = p"
  then show "\<exists>e. action_intent cenv db t ids c = (Inl e, db)"
    using deprovisioned_intent [of db p c cenv t "fi_action ids"] by (auto simp: action_intent_def)
next
  assume "deprovisioned db p" and "p \<in> {aa_agent_id a, approver, aa_scope_anchor a}"
  then have "\<not> approvable db t (am_id m) a approver x" for x
    using deprovisioned_not_live [of db p "[aa_agent_id a, approver, aa_scope_anchor a]"] by (auto simp: approvable_def)
  then show "approve_write db t ref a m approver decision = (Inl PinnedChanged, db)" by (simp add: approve_write_def Let_def)
next
  assume "deprovisioned db p" and "p \<in> {aa_agent_id a, aa_scope_anchor a}"
  then have "\<not> live_authority db t (am_id m) a [aa_agent_id a, aa_scope_anchor a]"
    using deprovisioned_not_live [of db p "[aa_agent_id a, aa_scope_anchor a]"] by auto
  then show "lease_write db t lid a m holder ttl = (Inl PinnedChanged, db)" by (simp add: lease_write_def)
next
  assume "deprovisioned db p" and "\<not> blank p \<and> authority_get db t p ws True \<noteq> None"
  then show "require_memory_capability db t p ws cap = Inl AgentRevoked" using deprovisioned_memory by blast
qed (use deprovisioned_step in blast)

text \<open>The write of an intent evaluates nothing again: an intent whose checks passed before the revocation of its agent is
  recorded after it.\<close>

lemma intent_under_way_is_recorded:
  assumes "aa_id a \<notin> aa_id ` set (actions db)"
  shows "a \<in> set (actions (perform env (record_revocation db now rid (aa_agent_id a) [] reason) now' ids ref (WIntent (PlainIntent a))))"
proof -
  let ?db = "record_revocation db now rid (aa_agent_id a) [] reason"
  have "cd_ledger ?db = cd_ledger db" by (simp add: record_revocation_def)
  with assms have "insert_action (cd_ledger ?db) a = Inr ((cd_ledger ?db)\<lparr>ld_actions := ld_actions (cd_ledger ?db) @ [a]\<rparr>)"
    by (simp add: insert_action_Inr actions_def)
  then show ?thesis by (simp add: actions_def)
qed

text \<open>A principal that is reinstated and revoked again within one millisecond keeps its reinstatement: the
  second revocation has the identity of the first and is ignored.\<close>

lemma same_instant_revocation_is_lost:
  assumes "rv \<in> set (cd_revocations db)" and "rv_principal rv = p" and "rv_workspace_hash rv = ws" and "rv_at rv = now"
  shows "record_revocation (reinstate_revocation db t p ws) now rid p ws reason = reinstate_revocation db t p ws"
proof -
  let ?f = "\<lambda>rv. if rv_principal rv = p \<and> rv_workspace_hash rv = ws \<and> rv_reinstated_at rv = None
    then rv\<lparr>rv_reinstated_at := Some t\<rparr> else rv"
  have "?f rv \<in> set (cd_revocations (reinstate_revocation db t p ws))"
    using assms(1) unfolding reinstate_revocation_def by simp
  moreover have "rv_principal (?f rv) = p \<and> rv_workspace_hash (?f rv) = ws \<and> rv_at (?f rv) = now" using assms by simp
  ultimately have "\<exists>rv \<in> set (cd_revocations (reinstate_revocation db t p ws)).
      rv_principal rv = p \<and> rv_workspace_hash rv = ws \<and> rv_at rv = now" by blast
  then show ?thesis unfolding record_revocation_def list_ex_iff by auto
qed

section \<open>One call after the other\<close>

text \<open>Whole calls, each finished before another begins.\<close>

inductive call_step :: "control_env \<Rightarrow> control_db \<Rightarrow> control_db \<Rightarrow> bool" for env where
  intent: "action_intent env db now ids c = (r, db') \<Longrightarrow> call_step env db db'"
| approve: "action_approve env db now ref aid approver decision = (r, db') \<Longrightarrow> call_step env db db'"
| complete: "action_complete env db now aid actor outcome h = (r, db') \<Longrightarrow> call_step env db db'"
| timeout: "action_resolve_timeout env db now aid window = (r, db') \<Longrightarrow> call_step env db db'"
| lease: "action_lease_acquire env db now lid aid holder ttl = (r', db') \<Longrightarrow> call_step env db db'"
| admin: "admin_step env db db' \<Longrightarrow> call_step env db db'"

definition status_of :: "control_db \<Rightarrow> string \<Rightarrow> string option" where
  "status_of db aid = map_option aa_status (find (\<lambda>x. aa_id x = aid) (actions db))"

text \<open>The published life of an action.\<close>

definition ACTION_EDGES :: "(string \<times> string) list" where
  "ACTION_EDGES =
     [(''approval_requested'', ''approval_granted''), (''approval_requested'', ''approval_denied''),
      (''approval_granted'', ''action_executed''), (''approval_granted'', ''action_failed''),
      (''approval_granted'', ''action_cancelled''), (''approval_denied'', ''action_denied''),
      (''intent'', ''action_executed''), (''intent'', ''action_failed''), (''intent'', ''action_cancelled''),
      (''intent'', ''action_denied'')]"

fun action_edge :: "string option \<Rightarrow> string option \<Rightarrow> bool" where
  "action_edge None (Some s) \<longleftrightarrow> s \<in> {''denied'', ''approval_requested'', ''intent''}"
| "action_edge (Some s) (Some t) \<longleftrightarrow> (s, t) \<in> set ACTION_EDGES"
| "action_edge _ None \<longleftrightarrow> False"

lemma find_map: "find P (map g xs) = map_option g (find (\<lambda>x. P (g x)) xs)"
  by (induction xs) auto

lemma status_set_action:
  assumes "\<And>x. core (f x) = core x"
  shows "status_of (set_action db P f) aid =
    map_option (\<lambda>x. aa_status (if P x then f x else x)) (find (\<lambda>x. aa_id x = aid) (actions db))"
proof -
  have "aa_id (if P x then f x else x) = aa_id x" for x using core_id [OF assms] by simp
  then show ?thesis by (simp add: status_of_def find_map option.map_comp comp_def)
qed

lemma load_action_find:
  assumes "load_action env db aid e = Inr a"
  obtains x where "find (\<lambda>x. aa_id x = aid) (actions db) = Some x" "core a = core x" "aa_status a = aa_status x" "aa_id a = aid"
proof -
  from assms obtain x where x: "find (\<lambda>x. aa_id x = aid) (actions db) = Some x" "core a = core x" "aa_status a = aa_status x"
    by (auto simp: load_action_def action_receipt_get_def bind_r_Inr map_err_Inr ok_or_Inr dest!: core_attach split: option.splits)
  with core_id [OF x(2)] find_SomeD [OF x(1)] show ?thesis by (auto intro: that)
qed

lemma status_append:
  assumes "actions db' = actions db @ [x]" and "aa_id x \<notin> aa_id ` set (actions db)"
  shows "status_of db' aid = (if aa_id x = aid then Some (aa_status x) else status_of db aid)"
proof -
  have "find (\<lambda>y. aa_id y = aa_id x) (actions db) = None" using assms(2) by (auto simp: find_None_iff image_iff)
  with assms(1) show ?thesis by (auto simp: status_of_def find_append split: option.splits)
qed

definition follows :: "control_db \<Rightarrow> control_db \<Rightarrow> string \<Rightarrow> bool" where
  "follows db db' aid \<longleftrightarrow> status_of db' aid = status_of db aid \<or> action_edge (status_of db aid) (status_of db' aid)"

lemma follows_same: "actions db' = actions db \<Longrightarrow> follows db db' aid"
  by (simp add: follows_def status_of_def)

lemma follows_set_action:
  assumes "\<And>x. core (f x) = core x" and "\<And>x. P x \<Longrightarrow> aa_id x = aid' \<and> aa_status (f x) = t"
    and "status_of db aid' = Some s" and "(s, t) \<in> set ACTION_EDGES"
  shows "follows db (set_action db P f) aid"
proof (cases "find (\<lambda>x. aa_id x = aid) (actions db)")
  case None
  then show ?thesis unfolding follows_def status_set_action [OF assms(1)] by (simp add: status_of_def)
next
  case (Some x)
  with find_SomeD [OF Some] assms(2-4) show ?thesis
    unfolding follows_def status_set_action [OF assms(1)] by (auto simp: status_of_def)
qed

lemma intent_follows:
  assumes "action_intent env db now ids c = (r, db')"
  shows "follows db db' aid"
proof (cases "intent_check env db now (fi_action ids) c")
  case (Inl e)
  with assms show ?thesis by (simp add: action_intent_def follows_same)
next
  case (Inr plan)
  then have "pending_ok db (WIntent plan)" by (intro prepared_ok prepared.intent)
  moreover from Inr assms have "intent_write env db now ids plan = (r, db')" by (simp add: action_intent_def)
  note intent_write_tables [OF this]
  ultimately consider "actions db' = actions db" | x where "actions db' = actions db @ [x]" "aa_id x \<notin> aa_id ` set (actions db)"
      "aa_status x \<in> {''denied'', ''approval_requested'', ''intent''}" by auto
  then show ?thesis
  proof cases
    case 2
    then have "status_of db (aa_id x) = None" by (auto simp: status_of_def find_None_iff image_iff)
    with 2 show ?thesis by (auto simp: follows_def status_append [OF 2(1,2)])
  qed (rule follows_same)
qed

lemma approve_follows:
  assumes "action_approve env db now ref aid' approver decision = (r, db')"
  shows "follows db db' aid"
proof (cases "approve_check env db now aid' approver decision")
  case (Inr z)
  obtain a m where z: "z = (a, m)" by (cases z)
  from Inr z obtain x where "find (\<lambda>x. aa_id x = aid') (actions db) = Some x" "aa_status a = aa_status x" "aa_id a = aid'"
      "aa_status a = ''approval_requested''" "decision = ''granted'' \<or> decision = ''denied''"
    unfolding approve_check_def bind_r_Inr check_all_Inr guard_r_Inr by (auto elim: load_action_find)
  then have st: "status_of db aid' = Some ''approval_requested''" "aa_id a = aid'" and d: "decision = ''granted'' \<or> decision = ''denied''"
    by (auto simp: status_of_def)
  let ?stamp = "\<lambda>x. x\<lparr>aa_status := ''approval_'' @ decision, aa_approval_ref := ref, aa_updated_at := now\<rparr>"
  from assms Inr z have "db' = db \<or> db' = set_action db (approvable db now (am_id m) a approver) ?stamp"
    by (auto simp: action_approve_def approve_write_def Let_def split: if_splits)
  moreover have "follows db (set_action db (approvable db now (am_id m) a approver) ?stamp) aid"
    by (rule follows_set_action [OF _ _ st(1), of _ _ "''approval_'' @ decision"])
      (use d st(2) in \<open>auto simp: approvable_def ACTION_EDGES_def\<close>)
  ultimately show ?thesis by (auto simp: follows_same)
qed (use assms in \<open>simp add: action_approve_def follows_same\<close>)

lemma complete_follows:
  assumes "action_complete env db now aid' actor outcome h = (r, db')"
  shows "follows db db' aid"
proof (cases "complete_check env db aid' actor outcome h")
  case (Inr a)
  then obtain x where "find (\<lambda>x. aa_id x = aid') (actions db) = Some x" "aa_status a = aa_status x" and a: "aa_id a = aid'"
      and o: "outcome \<in> {''executed'', ''failed'', ''cancelled'', ''denied''}"
      and req: "if aa_approval_required a then if outcome = ''denied'' then aa_status a = ''approval_denied''
        else aa_status a = ''approval_granted'' else aa_status a = ''intent''"
    unfolding complete_check_def bind_r_Inr check_all_Inr list.pred_inject guard_r_Inr
    by (auto elim!: load_action_find simp: guard_r_Inr split: if_splits)
  then have "status_of db aid' = Some (aa_status a)" by (simp add: status_of_def)
  then have "follows db (set_action db (\<lambda>x. aa_id x = aa_id a)
      (\<lambda>x. x\<lparr>aa_status := ''action_'' @ outcome, aa_outcome_hash := lower_bytes h, aa_updated_at := now\<rparr>)) aid"
    by (rule follows_set_action [where t = "''action_'' @ outcome", rotated 2])
      (use o req a in \<open>auto simp: ACTION_EDGES_def split: if_splits\<close>)
  with assms Inr show ?thesis by (simp add: action_complete_def complete_write_def Let_def)
qed (use assms in \<open>simp add: action_complete_def follows_same\<close>)

lemma timeout_follows:
  assumes "action_resolve_timeout env db now aid' window = (r, db')"
  shows "follows db db' aid"
proof (cases "timeout_check env db now aid' window")
  case (Inr a)
  then obtain x where "find (\<lambda>x. aa_id x = aid') (actions db) = Some x" "aa_status a = aa_status x" and a: "aa_id a = aid'"
      and "aa_status a = ''approval_requested''"
    unfolding timeout_check_def bind_r_Inr check_all_Inr list.pred_inject guard_r_Inr by (auto elim!: load_action_find)
  then have "status_of db aid' = Some ''approval_requested''" by (simp add: status_of_def)
  then have "follows db (set_action db (\<lambda>x. aa_id x = aa_id a)
      (\<lambda>x. x\<lparr>aa_status := ''approval_denied'', aa_approval_ref := ''timeout:'' @ show_int window, aa_updated_at := now\<rparr>)) aid"
    by (rule follows_set_action [where t = "''approval_denied''", rotated 2]) (use a in \<open>auto simp: ACTION_EDGES_def\<close>)
  with assms Inr show ?thesis by (simp add: action_resolve_timeout_def timeout_write_def Let_def)
qed (use assms in \<open>simp add: action_resolve_timeout_def follows_same\<close>)

text \<open>A whole call is its checks followed at once by its write.\<close>

lemma call_step_perform:
  assumes "call_step env db db'"
  shows "db' = db \<or> admin_step env db db' \<or> (\<exists>now ids ref p. db' = perform env db now ids ref p)"
  using assms
proof cases
  case (intent now ids c r)
  then have "db' = db \<or> (\<exists>plan. db' = perform env db now ids [] (WIntent plan))"
    by (auto simp: action_intent_def split: sum.splits) (metis snd_conv)+
  then show ?thesis by blast
next
  case (approve now ref aid approver decision r)
  then have "db' = db \<or> (\<exists>a m ids. db' = perform env db now ids ref (WApprove a m approver decision))"
    by (auto simp: action_approve_def split: sum.splits) (metis snd_conv)+
  then show ?thesis by blast
next
  case (complete now aid actor outcome h r)
  then have "db' = db \<or> (\<exists>a ids. db' = perform env db now ids [] (WComplete a outcome h))"
    by (auto simp: action_complete_def complete_write_def Let_def split: sum.splits)
  then show ?thesis by blast
next
  case (timeout now aid window r)
  then have "db' = db \<or> (\<exists>a ids. db' = perform env db now ids [] (WTimeout a window))"
    by (auto simp: action_resolve_timeout_def timeout_write_def Let_def split: sum.splits)
  then show ?thesis by blast
next
  case (lease now lid aid holder ttl r)
  then have "db' = db \<or> (\<exists>a m ids. db' = perform env db now ids lid (WLease a m holder ttl))"
    by (auto simp: action_lease_acquire_def split: sum.splits) (metis snd_conv)+
  then show ?thesis by blast
qed blast

lemma call_step_ids: "ids_ok db \<Longrightarrow> call_step env db db' \<Longrightarrow> ids_ok db'"
  using call_step_perform [of env db db'] perform_ok admin_ok by blast

lemma lease_actions: "action_lease_acquire env db now lid aid holder ttl = (r, db') \<Longrightarrow> actions db' = actions db"
  using lease_write_tables(1) by (auto simp: action_lease_acquire_def split: sum.splits) (metis snd_conv)

lemma call_step_follows:
  assumes "ids_ok db" and "call_step env db db'"
  shows "follows db db' aid"
  using assms(2)
proof cases
  case (lease now lid aid holder ttl r)
  then show ?thesis by (intro follows_same lease_actions)
next
  case admin
  with assms(1) admin_ok show ?thesis by (blast intro: follows_same)
qed (rule intent_follows approve_follows complete_follows timeout_follows, assumption)+

interpretation act: lifecycle ids_ok "call_step env" "\<lambda>db. status_of db aid" action_edge for env aid
  using call_step_ids call_step_follows by unfold_locales (auto simp: follows_def)

text \<open>C11.
  Finished actions stay finished, and a denial is final. When calls do not overlap, no sequence of calls
  changes the status of an action that was denied, executed, failed or cancelled; an action whose approval
  was denied or timed out can only be completed as denied, and neither it nor a denied action is ever leased.
\<close>

theorem finished_actions_stay:
  assumes "(call_step env)\<^sup>*\<^sup>* db db'" and "ids_ok db" and "status_of db aid = Some s"
  shows "(s \<in> {''denied'', ''action_executed'', ''action_failed'', ''action_cancelled'', ''action_denied''} \<longrightarrow>
      status_of db' aid = Some s) \<and>
    (s \<in> {''denied'', ''approval_denied'', ''action_denied''} \<longrightarrow>
      status_of db' aid \<in> {Some ''denied'', Some ''approval_denied'', Some ''action_denied''} \<and>
      (\<exists>e. action_lease_acquire env db' now lid aid holder ttl = (Inl e, db')))"
proof (intro conjI impI)
  assume "s \<in> {''denied'', ''action_executed'', ''action_failed'', ''action_cancelled'', ''action_denied''}"
  then have "\<not> action_edge (status_of db aid) c" for c using assms(3) by (cases c) (auto simp: ACTION_EDGES_def)
  from act.absorbing [OF assms(1,2) this] assms(3) show "status_of db' aid = Some s" by simp
next
  let ?denied = "\<lambda>c. c \<in> {Some ''denied'', Some ''approval_denied'', Some ''action_denied''}"
  assume "s \<in> {''denied'', ''approval_denied'', ''action_denied''}"
  moreover have "?denied d" if "?denied c" "action_edge c d" for c d
    using that by (cases d) (auto simp: ACTION_EDGES_def)
  ultimately have den: "?denied (status_of db' aid)"
    using act.closed_region [OF assms(1,2), where aid = aid and P = ?denied] assms(3) by blast
  then show "status_of db' aid \<in> {Some ''denied'', Some ''approval_denied'', Some ''action_denied''}" .
  have "\<exists>e. lease_check env db' now aid holder ttl = Inl e"
  proof (cases "lease_check env db' now aid holder ttl")
    case (Inr z)
    then obtain a where a: "load_action env db' aid ActionNotFound = Inr a"
        "\<not> (aa_status a = ''denied'' \<or> starts_with ''approval_denied'' (aa_status a) \<or> starts_with ''action_denied'' (aa_status a))"
      unfolding lease_check_def bind_r_Inr check_all_Inr list.pred_inject guard_r_Inr by blast
    from a(1) obtain x where "find (\<lambda>x. aa_id x = aid) (actions db') = Some x" "aa_status a = aa_status x"
      by (rule load_action_find)
    with den have "aa_status a \<in> {''denied'', ''approval_denied'', ''action_denied''}" by (auto simp: status_of_def)
    with a(2) show ?thesis by (auto simp: starts_with_def)
  qed simp
  then show "\<exists>e. action_lease_acquire env db' now lid aid holder ttl = (Inl e, db')"
    by (auto simp: action_lease_acquire_def)
qed

text \<open>When calls overlap this fails: the timeout checks the status and then writes without checking it again, so
  that a timeout under way undoes a grant, or the execution that followed it.\<close>

lemma late_timeout_undoes_execution:
  assumes "WTimeout a window \<in> set (wo_pending w)" and "x \<in> set (actions (wo_db w))" and "aa_id x = aa_id a"
  shows "\<exists>w' y. world_step env w w' \<and> y \<in> set (actions (wo_db w')) \<and> aa_id y = aa_id a \<and> aa_status y = ''approval_denied''"
proof -
  let ?w = "\<lparr>wo_db = perform env (wo_db w) now ids ref (WTimeout a window), wo_pending = remove1 (WTimeout a window) (wo_pending w)\<rparr>"
  let ?y = "x\<lparr>aa_status := ''approval_denied'', aa_approval_ref := ''timeout:'' @ show_int window, aa_updated_at := now\<rparr>"
  have "world_step env w ?w" using assms(1) by (rule world_step.finish)
  moreover have "?y \<in> set (actions (wo_db ?w))"
    using assms(2,3) by (auto simp: timeout_write_def Let_def intro!: image_eqI [of _ _ x])
  ultimately show ?thesis using assms(3) by (intro exI [of _ ?w] exI [of _ ?y]) simp
qed

end
