(* ===== verification/Authority_Intents.thy ===== *)
theory Authority_Intents
  imports Authority_Guarantees
begin

text \<open>
  What an agent may intend: a recorded intent stays within the authority its agent holds at that
  moment. A history of calls on a small installation shows that the hypotheses of the guarantees of
  authorized actions can hold.
\<close>

section \<open>Intents\<close>

lemma newest_by_max: "newest_by k xs = Some x \<Longrightarrow> y \<in> set xs \<Longrightarrow> k y \<le> k x"
proof -
  assume new: "newest_by k xs = Some x" and y: "y \<in> set xs"
  let ?ys = "sort_key k xs"
  from new have x: "?ys \<noteq> []" "x = last ?ys" by (auto simp: newest_by_def split: list.splits)
  from y obtain i where i: "i < length ?ys" "?ys ! i = y" by (metis in_set_conv_nth set_sort)
  have "map k ?ys ! i \<le> map k ?ys ! (length ?ys - 1)" by (rule sorted_nth_mono) (use i(1) in auto)
  moreover have "length ?ys - 1 < length ?ys" using i(1) by linarith
  ultimately show ?thesis using i x by (simp add: last_conv_nth)
qed

lemma active_authority_Inr:
  assumes "active_authority db now agent ws = Inr m'"
  obtains m where "m \<in> set (manifests db)" "am_agent_id m = agent" "am_workspace_hash m = ws" "am_revoked_at m = None"
    "\<not> expired_at (am_expires_at m) now" "subtract_revoked_principals db m = Some m'"
    "\<forall>n \<in> set (manifests db). am_agent_id n = agent \<and> am_workspace_hash n = ws \<and> am_revoked_at n = None \<longrightarrow>
      am_version n \<le> am_version m"
proof -
  let ?rows = "filter (\<lambda>m. am_agent_id m = agent \<and> am_workspace_hash m = ws \<and> am_revoked_at m = None) (manifests db)"
  from assms obtain m where m: "newest_by am_version ?rows = Some m" "\<not> expired_at (am_expires_at m) now"
      "subtract_revoked_principals db m = Some m'"
    by (auto simp: active_authority_def ok_or_Inr authority_get_def Let_def split: option.splits if_splits)
  from newest_by_in [OF m(1)] newest_by_max [OF m(1)] m(2,3) show ?thesis by (intro that [of m]) auto
qed

lemma subtract_sel:
  assumes "subtract_revoked_principals db m = Some m'"
  shows "am_allowed_capabilities m' = am_allowed_capabilities m" "am_approval_required_capabilities m' = am_approval_required_capabilities m"
    "am_permitted_external_ref_prefixes m' = am_permitted_external_ref_prefixes m" "am_id m' = am_id m" "am_version m' = am_version m"
    "am_capability_constraints_json m' = am_capability_constraints_json m"
    "set (am_scope_anchors m') = set (am_scope_anchors m) - set (dropped_principals db m)"
    "am_agent_id m \<notin> set (dropped_principals db m)"
  using assms by (auto simp: subtract_revoked_principals_def Let_def split: if_splits)

lemma undropped:
  "rv \<in> set (cd_revocations db) \<Longrightarrow> bites rv (am_workspace_hash m) (am_created_at m) \<Longrightarrow> p \<notin> set (dropped_principals db m) \<Longrightarrow>
   rv_principal rv \<noteq> p"
  by (auto simp: dropped_principals_def)

lemma plain_action_sel:
  "aa_status (plain_action env now i m c link constraints permitted) =
     (if permitted then if ic_capability c \<in> set (am_approval_required_capabilities m) then ''approval_requested'' else ''intent''
      else ''denied'')"
  "aa_manifest_id (plain_action env now i m c link constraints permitted) = am_id m"
  "aa_manifest_version (plain_action env now i m c link constraints permitted) = am_version m"
  "aa_capability (plain_action env now i m c link constraints permitted) = ic_capability c"
  "aa_scope_anchor (plain_action env now i m c link constraints permitted) = ic_scope_anchor c"
  "aa_resource_constraints_json (plain_action env now i m c link constraints permitted) = constraints"
  by (simp_all add: plain_action_def Let_def)

lemma plain_intent_recorded:
  assumes "intent_write env db now ids (PlainIntent x) = (r, db')" and "(\<exists>a. r = Inr a) \<or> actions db' \<noteq> actions db"
  shows "\<exists>a. r = Inr a \<and> actions db' = actions db @ [a] \<and> a \<notin> set (actions db)"
  using assms by (auto simp: insert_action_Inr actions_def split: sum.splits)

text \<open>An action written along a lineage: pinned like a plain one, and denied also when the lineage refuses it.\<close>

lemma unpermitted_blocked:
  assumes "start_of env db now m a q v p = Inr st" and "decide_action st q p a = Inr d" and "\<not> ia_resource_permitted a"
  shows "blocked (td_outcome d)"
proof (cases "st_refusal st")
  case None
  with assms(2,3) show ?thesis by (auto simp: decide_action_def denied_def blocked_def)
next
  case (Some oc)
  then obtain outcome reason where oc: "st_refusal st = Some (outcome, reason)" by (cases oc) simp
  from start_refusal [OF assms(1) oc] assms(2) oc show ?thesis by (auto simp: decide_action_def blocked_def)
qed

lemma lineage_action_new:
  assumes "action_intent_lineage_path env db now ids m a q = (r, db')" and "x \<in> set (ld_actions db')" and "x \<notin> set (ld_actions db)"
  shows "aa_manifest_id x = am_id m \<and> aa_manifest_version x = am_version m \<and> aa_capability x = ia_capability a \<and>
    aa_scope_anchor x = ia_scope_anchor a \<and> aa_resource_constraints_json x = ia_resource_constraints_json a \<and>
    aa_status x = (if \<not> ia_resource_permitted a \<or> blocked (aa_lineage_outcome x) then ''denied''
      else if ia_capability a \<in> set (am_approval_required_capabilities m) then ''approval_requested'' else ''intent'')"
proof -
  from assms have "db' \<noteq> db" by blast
  with assms(1) obtain y where "lineage_tx env db now ids m a q = Inr (y, db')" by (rule path_db)
  then show ?thesis
  proof (cases rule: lineage_tx_cases)
    case (new v p digest lid)
    then obtain d sd db1 t st where st: "start_of env db now m a q v p = Inr st" "decide_action st q p a = Inr d"
      and y: "y = action_of env now ids lid m a d sd"
      and db': "db' = db1\<lparr>ld_actions := ld_actions db @ [y], ld_transitions := ld_transitions db @ [t]\<rparr>"
      by (elim admit_new_effect) blast
    have "x = y" using assms(2,3) db' by auto
    moreover have "blocked (td_outcome d)" if "\<not> ia_resource_permitted a" using unpermitted_blocked st that by blast
    ultimately show ?thesis by (auto simp: y action_of_def Let_def)
  qed (use \<open>db' \<noteq> db\<close> in simp)
qed

text \<open>Both kinds of plan at once, in the terms of the call.\<close>

lemma intent_action_new:
  assumes "intent_write env db now ids (case ic_lineage c of
       Some q \<Rightarrow> LineageIntent m (lineage_args env c link constraints permitted) q
     | None \<Rightarrow> PlainIntent (plain_action env now i m c link constraints permitted)) = (r, db')"
    and "x \<in> set (actions db')" and "x \<notin> set (actions db)"
  shows "aa_manifest_id x = am_id m \<and> aa_manifest_version x = am_version m \<and> aa_capability x = ic_capability c \<and>
    aa_scope_anchor x = ic_scope_anchor c \<and> aa_resource_constraints_json x = constraints \<and>
    aa_status x = (if \<not> permitted \<or> ic_lineage c \<noteq> None \<and> blocked (aa_lineage_outcome x) then ''denied''
      else if ic_capability c \<in> set (am_approval_required_capabilities m) then ''approval_requested'' else ''intent'')"
proof (cases "ic_lineage c")
  case None
  with assms have "x = plain_action env now i m c link constraints permitted"
    by (auto simp: insert_action_Inr actions_def split: sum.splits)
  with None show ?thesis by (simp add: plain_action_sel)
next
  case (Some q)
  with assms(1) obtain r' ledger where
      path: "action_intent_lineage_path (ce_lineage env) (cd_ledger db) now ids m (lineage_args env c link constraints permitted) q = (r', ledger)"
    and db': "db' = db\<lparr>cd_ledger := ledger\<rparr>" by (auto split: prod.splits)
  from lineage_action_new [OF path, of x] assms(2,3) Some show ?thesis by (simp add: db' actions_def lineage_args_def)
qed

text \<open>C10.
  An intent stays within the authority of its agent. A call that answers with an action, or records one, finds a
  manifest of that agent in that workspace which is the newest of those not revoked and has not expired; its
  capability, its scope anchor and its external reference are among those the manifest permits, and neither agent
  nor anchor is revoked. Without a lineage the call records the action it answers with. Every action it records is
  pinned to that manifest; it is denied exactly when the constraints of the capability do not permit its resource
  or, for an intent along a lineage, when the lineage blocked it (denied, stale or revoked), and otherwise it is
  held for approval exactly when the manifest demands one.
\<close>

theorem intents_stay_within_authority:
  assumes "action_intent env db now ids c = (r, db')" and "(\<exists>a. r = Inr a) \<or> actions db' \<noteq> actions db"
  shows "\<exists>m \<in> set (manifests db). am_agent_id m = ic_agent_id c \<and> am_workspace_hash m = ic_workspace_hash c \<and>
    am_revoked_at m = None \<and> \<not> expired_at (am_expires_at m) now \<and>
    (\<forall>n \<in> set (manifests db). am_agent_id n = ic_agent_id c \<and> am_workspace_hash n = ic_workspace_hash c \<and> am_revoked_at n = None \<longrightarrow>
       am_version n \<le> am_version m) \<and>
    ic_capability c \<in> set (am_allowed_capabilities m) \<and> ic_scope_anchor c \<in> set (am_scope_anchors m) \<and>
    ref_permitted (ic_external_ref c) (am_permitted_external_ref_prefixes m) \<and>
    (\<forall>rv \<in> set (cd_revocations db). bites rv (am_workspace_hash m) (am_created_at m) \<longrightarrow>
       rv_principal rv \<noteq> ic_agent_id c \<and> rv_principal rv \<noteq> ic_scope_anchor c) \<and>
    (ic_lineage c = None \<longrightarrow> (\<exists>a. r = Inr a \<and> actions db' = actions db @ [a] \<and> a \<notin> set (actions db))) \<and>
    (\<forall>x \<in> set (actions db') - set (actions db).
       aa_manifest_id x = am_id m \<and> aa_manifest_version x = am_version m \<and> aa_capability x = ic_capability c \<and>
       aa_scope_anchor x = ic_scope_anchor c \<and>
       (\<exists>permitted. resource_constraints_permit env (am_capability_constraints_json m) (ic_capability c)
            (aa_resource_constraints_json x) = Inr permitted \<and>
          aa_status x = (if \<not> permitted \<or> ic_lineage c \<noteq> None \<and> blocked (aa_lineage_outcome x) then ''denied''
            else if ic_capability c \<in> set (am_approval_required_capabilities m) then ''approval_requested'' else ''intent'')))"
proof -
  from assms obtain plan where plan: "intent_check env db now (fi_action ids) c = Inr plan"
      and w: "intent_write env db now ids plan = (r, db')"
    by (auto simp: action_intent_def split: sum.splits)
  from plan obtain m' constraints permitted where m': "active_authority db now (ic_agent_id c) (ic_workspace_hash c) = Inr m'"
    and within: "ic_capability c \<in> set (am_allowed_capabilities m')" "ic_scope_anchor c \<in> set (am_scope_anchors m')"
      "ref_permitted (ic_external_ref c) (am_permitted_external_ref_prefixes m')"
    and perm: "resource_constraints_permit env (am_capability_constraints_json m') (ic_capability c) constraints = Inr permitted"
    and pl: "plan = (case ic_lineage c of
       Some q \<Rightarrow> LineageIntent m' (lineage_args env c (or_else (ic_compensation c) no_linkage) constraints permitted) q
     | None \<Rightarrow> PlainIntent (plain_action env now (fi_action ids) m' c (or_else (ic_compensation c) no_linkage) constraints permitted))"
    by (rule intent_check_Inr)
  from m' obtain m where m: "m \<in> set (manifests db)" "am_agent_id m = ic_agent_id c" "am_workspace_hash m = ic_workspace_hash c"
      "am_revoked_at m = None" "\<not> expired_at (am_expires_at m) now" "subtract_revoked_principals db m = Some m'"
      "\<forall>n \<in> set (manifests db). am_agent_id n = ic_agent_id c \<and> am_workspace_hash n = ic_workspace_hash c \<and> am_revoked_at n = None \<longrightarrow>
        am_version n \<le> am_version m"
    by (rule active_authority_Inr)
  note sub = subtract_sel [OF m(6)]
  have rv: "rv_principal rv \<noteq> ic_agent_id c \<and> rv_principal rv \<noteq> ic_scope_anchor c"
    if "rv \<in> set (cd_revocations db)" "bites rv (am_workspace_hash m) (am_created_at m)" for rv
    using undropped [OF that sub(8)] undropped [OF that, of "ic_scope_anchor c"] sub(7) within(2) m(2) by (metis Diff_iff)
  have plain: "\<exists>a. r = Inr a \<and> actions db' = actions db @ [a] \<and> a \<notin> set (actions db)" if "ic_lineage c = None"
    using w assms(2) unfolding pl that option.case by (rule plain_intent_recorded)
  have new: "aa_manifest_id x = am_id m \<and> aa_manifest_version x = am_version m \<and> aa_capability x = ic_capability c \<and>
      aa_scope_anchor x = ic_scope_anchor c \<and> (\<exists>permitted. resource_constraints_permit env (am_capability_constraints_json m)
        (ic_capability c) (aa_resource_constraints_json x) = Inr permitted \<and>
        aa_status x = (if \<not> permitted \<or> ic_lineage c \<noteq> None \<and> blocked (aa_lineage_outcome x) then ''denied''
          else if ic_capability c \<in> set (am_approval_required_capabilities m) then ''approval_requested'' else ''intent''))"
    if "x \<in> set (actions db') - set (actions db)" for x
    using intent_action_new [OF w [unfolded pl], of x] that perm sub by (intro conjI exI [of _ permitted]) simp_all
  show ?thesis using m rv plain new within sub by (intro bexI [of _ m] conjI ballI) simp_all
qed

section \<open>A sample installation\<close>

text \<open>One agent, one manifest whose capability \<open>deploy\<close> needs an approval, and the calls that carry an
  action through intent, approval, lease and completion, each split into its checks and its write.\<close>

definition sample_control_env :: control_env where
  "sample_control_env =
     \<lparr>ce_lineage = \<lparr>le_digest = \<lparr>sha256 = (\<lambda>_. replicate 32 (CHR ''a'')), json_text = (\<lambda>_. ''{}'')\<rparr>,
        le_parse_json = (\<lambda>raw. if raw = ''{}'' then Some (JObj []) else None), le_decode_state = (\<lambda>_. None)\<rparr>,
      ce_gate = \<lparr>ge_digest = \<lparr>sha256 = (\<lambda>_. replicate 32 (CHR ''a'')), json_text = (\<lambda>_. ''{}'')\<rparr>, ge_parse_json = (\<lambda>_. None),
        ge_parse_links = (\<lambda>_. None), ge_decrypt = None, ge_lower = (\<lambda>s. s)\<rparr>,
      ce_json_error = (\<lambda>_. ''expected value'')\<rparr>"

definition sample_control_gate :: gate_db where
  "sample_control_gate = \<lparr>gd_entities = [], gd_tombstones = [], gd_overlay = Absent,
     gd_agents = [\<lparr>ag_id = ''a1'', ag_trust_tier = 2, ag_fleet_id = []\<rparr>]\<rparr>"

definition sample_input :: manifest_input where
  "sample_input = \<lparr>mi_agent_id = ''a1'', mi_workspace_hash = ''w'', mi_allowed_capabilities = [''deploy''],
     mi_approval_required_capabilities = [''deploy''], mi_scope_anchors = [''s''], mi_approver_principals = [''boss''],
     mi_allowed_inbound_principals = [''boss''], mi_permitted_external_ref_prefixes = [''pr''], mi_max_parallel_actions = 1,
     mi_mode = ''enforce'', mi_expires_at = None, mi_capability_constraints_json = ''{}''\<rparr>"

definition sample_call :: intent_call where
  "sample_call = \<lparr>ic_agent_id = ''a1'', ic_workspace_hash = ''w'', ic_scope_anchor = ''s'', ic_external_ref = ''pr/7'',
     ic_capability = ''deploy'', ic_action_key = ''k'', ic_intent_hash = replicate 64 (CHR ''0''),
     ic_resource_constraints_json = None, ic_justification_entity_ids = [], ic_compensation = None, ic_lineage = None\<rparr>"

definition sample_control_ids :: fresh_ids where
  "sample_control_ids = \<lparr>fi_action = ''act-1'', fi_transition = ''t'', fi_lineage = ''l''\<rparr>"

definition sample_grant :: authority_manifest where
  "sample_grant = \<lparr>am_id = ''m1'', am_agent_id = ''a1'', am_workspace_hash = ''w'', am_version = 1,
     am_allowed_capabilities = [''deploy''], am_approval_required_capabilities = [''deploy''], am_scope_anchors = [''s''],
     am_approver_principals = [''boss''], am_allowed_inbound_principals = [''boss''],
     am_permitted_external_ref_prefixes = [''pr''], am_max_parallel_actions = 1, am_mode = ''enforce'', am_expires_at = None,
     am_revoked_at = None, am_created_at = 5, am_capability_constraints_json = ''{}''\<rparr>"

definition sample_action :: authorized_action where
  "sample_action = plain_action sample_control_env 6 ''act-1'' sample_grant sample_call no_linkage ''{}'' True"

text \<open>The action with a status, and the installation with the action and some leases.\<close>

definition sample_in :: "string \<Rightarrow> string \<Rightarrow> string \<Rightarrow> int \<Rightarrow> authorized_action" where
  "sample_in st ref h t = sample_action\<lparr>aa_status := st, aa_outcome_hash := h, aa_approval_ref := ref, aa_updated_at := t\<rparr>"

definition sample_control :: "authorized_action list \<Rightarrow> action_lease list \<Rightarrow> control_db" where
  "sample_control acts ls = \<lparr>cd_ledger = empty_ledger\<lparr>ld_manifests := [sample_grant], ld_actions := acts\<rparr>, cd_revocations = [],
     cd_leases = ls, cd_findings = [], cd_gate = sample_control_gate\<rparr>"

definition sample_lease :: action_lease where
  "sample_lease = \<lparr>al_id = ''lease-1'', al_action_id = ''act-1'', al_workspace_hash = ''w'', al_action_key = ''k'', al_holder_id = ''h'',
     al_expires_at = 60008, al_released_at = None, al_created_at = 8\<rparr>"

abbreviation requested :: authorized_action where "requested \<equiv> sample_in ''approval_requested'' [] [] 6"
abbreviation granted :: authorized_action where "granted \<equiv> sample_in ''approval_granted'' ''ref'' [] 7"
abbreviation executed :: authorized_action where
  "executed \<equiv> sample_in ''action_executed'' ''ref'' (replicate 64 (CHR ''1'')) 9"

lemma sample_sel [simp]:
  "aa_id (sample_in st ref h t) = ''act-1''" "aa_manifest_id (sample_in st ref h t) = ''m1''" "aa_manifest_version (sample_in st ref h t) = 1"
  "aa_agent_id (sample_in st ref h t) = ''a1''" "aa_workspace_hash (sample_in st ref h t) = ''w''" "aa_scope_anchor (sample_in st ref h t) = ''s''"
  "aa_action_key (sample_in st ref h t) = ''k''" "aa_status (sample_in st ref h t) = st" "aa_approval_required (sample_in st ref h t)"
  "aa_lineage_id (sample_in st ref h t) = []" "aa_lineage_transition_id (sample_in st ref h t) = []" "aa_lineage_outcome (sample_in st ref h t) = []"
  by (simp_all add: sample_in_def sample_action_def plain_action_def sample_grant_def sample_call_def Let_def)

lemma sample_tables [simp]:
  "actions (sample_control acts ls) = acts" "manifests (sample_control acts ls) = [sample_grant]"
  "cd_revocations (sample_control acts ls) = []" "cd_leases (sample_control acts ls) = ls"
  by (simp_all add: sample_control_def actions_def manifests_def)

lemma sample_not_blank [simp]: "\<not> blank ''w''" "\<not> blank ''a1''" "\<not> blank ''h''" "\<not> blank ''{}''"
  by (simp_all add: blank_def trim_ascii is_ascii_def is_whitespace_def)

lemma sample_granted:
  "authority_set sample_control_env (wo_db (empty_world sample_control_gate)) 5 ''m1'' sample_input = (Inr sample_grant, sample_control [] [])"
  by (simp add: authority_set_def sample_input_def empty_world_def sample_control_gate_def agent_get_def next_version_def newest_by_def
      manifests_def empty_ledger_def sample_grant_def sample_control_def canonical_constraint_json_def parse_text_def sample_control_env_def
      ok_or_def guard_r_def Let_def)

lemma sample_subtract [simp]: "subtract_revoked_principals (sample_control acts ls) m = Some m"
  by (simp add: subtract_revoked_principals_def dropped_principals_def Let_def)

lemma sample_load [simp]: "load_action sample_control_env (sample_control [sample_in st ref h t] ls) ''act-1'' e = Inr (sample_in st ref h t)"
  by (simp add: load_action_def action_receipt_get_def attach_task_lineage_projection_def ok_or_def)

lemma sample_constraints [simp]:
  "canonical_constraint_json sample_control_env ''{}'' = Inr ''{}''"
  "resource_constraints_permit sample_control_env ''{}'' cap ''{}'' = Inr True"
  by (simp_all add: canonical_constraint_json_def resource_constraints_permit_def parse_text_def sample_control_env_def ok_or_def)

lemma sample_hash: "hex64 (ic_intent_hash sample_call)" "hex64 (replicate 64 (CHR ''1''))"
  by (simp_all add: hex64_def sample_call_def list_all_iff is_ascii_hexdigit_def is_ascii_digit_def)

lemma sample_intended:
  "intent_check sample_control_env (sample_control [] []) 6 ''act-1'' sample_call = Inr (PlainIntent requested)"
proof -
  have "active_authority (sample_control [] ls) 6 ''a1'' ''w'' = Inr sample_grant" for ls
    by (simp add: active_authority_def authority_get_def newest_by_def ok_or_def expired_at_def Let_def) (simp add: sample_grant_def)
  moreover have "ref_permitted ''pr/7'' [''pr'']" by (simp add: ref_permitted_def starts_with_def)
  moreover have "sample_action = requested" by (simp add: sample_in_def sample_action_def plain_action_def Let_def sample_call_def sample_grant_def)
  ultimately show ?thesis
    using sample_hash(1) unfolding intent_check_def sample_action_def
    by (simp add: sample_call_def guard_r_def Let_def or_else_def) (simp add: sample_grant_def)
qed

lemma sample_pinned [simp]: "pinned_manifest (sample_control acts ls) now (sample_in st ref h t) = Inr sample_grant"
  by (simp add: pinned_manifest_def sample_grant_def ok_or_def guard_r_def expired_at_def)

lemma sample_requested: "intent_write env (sample_control [] []) 6 ids (PlainIntent requested) = (Inr requested, sample_control [requested] [])"
  by (simp add: insert_action_def guard_r_def sample_control_def empty_ledger_def)

lemma sample_approving:
  "approve_check sample_control_env (sample_control [requested] []) 7 ''act-1'' ''boss'' ''granted'' = Inr (requested, sample_grant)"
  by (simp add: approve_check_def guard_r_def) (simp add: sample_grant_def)

lemma sample_live [simp]: "live_authority (sample_control acts ls) now ''m1'' (sample_in st ref h t) ps"
  by (simp add: live_authority_def sample_grant_def expired_at_def)

lemma sample_approved:
  "approve_write (sample_control [requested] []) 7 ''ref'' requested sample_grant ''boss'' ''granted'' = (Inr granted, sample_control [granted] [])"
proof -
  have "am_id sample_grant = ''m1''" by (simp add: sample_grant_def)
  moreover have "requested\<lparr>aa_status := ''approval_granted'', aa_approval_ref := ''ref'', aa_updated_at := 7\<rparr> = granted"
    by (simp add: sample_in_def)
  ultimately show ?thesis
    by (simp add: approve_write_def approvable_def Let_def set_action_def) (simp add: sample_control_def empty_ledger_def)
qed

lemma sample_leasing: "lease_check sample_control_env (sample_control [granted] []) 8 ''act-1'' ''h'' 60 = Inr (granted, sample_grant)"
  by (simp add: lease_check_def guard_r_def starts_with_def) (simp add: sample_grant_def)

lemma sample_leased:
  "lease_write (sample_control [granted] []) 8 ''lease-1'' granted sample_grant ''h'' 60 = (Inr sample_lease, sample_control [granted] [sample_lease])"
proof -
  have "am_id sample_grant = ''m1''" by (simp add: sample_grant_def)
  moreover have "wrap64 (8 + saturating_mul_1000 60) = 60008" by code_simp
  ultimately show ?thesis
    by (simp add: lease_write_def slot_busy_def expire_leases_def Let_def sample_lease_def) (simp add: sample_control_def)
qed

lemma sample_completing:
  "complete_check sample_control_env (sample_control [granted] [sample_lease]) ''act-1'' ''a1'' ''executed'' (replicate 64 (CHR ''1'')) = Inr granted"
  using sample_hash(2) by (simp add: complete_check_def guard_r_def)

lemma sample_completed:
  "complete_write (sample_control [granted] [sample_lease]) 9 granted ''executed'' (replicate 64 (CHR ''1'')) = (executed, sample_control [executed] [sample_lease])"
proof -
  have "lower_bytes (replicate 64 (CHR ''1'')) = replicate 64 (CHR ''1'')"
    by (simp add: lower_bytes_def to_ascii_lowercase_def is_ascii_uppercase_def del: of_char_Char)
      (simp add: of_char_Char)
  moreover have "granted\<lparr>aa_status := ''action_executed'', aa_outcome_hash := h, aa_updated_at := 9\<rparr> = sample_in ''action_executed'' ''ref'' h 9" for h
    by (simp add: sample_in_def)
  ultimately show ?thesis
    by (simp add: complete_write_def Let_def set_action_def) (simp add: sample_control_def empty_ledger_def)
qed

text \<open>The history: grant, intent, approval, lease, completion.\<close>

definition sample_world :: "control_db \<Rightarrow> world" where
  "sample_world db = \<lparr>wo_db = db, wo_pending = []\<rparr>"

lemma start_finish:
  assumes "prepared env db now p" and "perform env db now' ids ref p = db'"
  shows "(world_step env)\<^sup>*\<^sup>* (sample_world db) (sample_world db')"
proof -
  have "world_step env (sample_world db) \<lparr>wo_db = db, wo_pending = [p]\<rparr>"
    using world_step.start [of env "sample_world db" now p] assms(1) by (simp add: sample_world_def)
  moreover have "world_step env \<lparr>wo_db = db, wo_pending = [p]\<rparr> (sample_world db')"
    using world_step.finish [of p "\<lparr>wo_db = db, wo_pending = [p]\<rparr>" env now' ids ref] assms(2) by (simp add: sample_world_def)
  ultimately show ?thesis by simp
qed

lemma sample_history:
  "(world_step sample_control_env)\<^sup>*\<^sup>* (empty_world sample_control_gate) (sample_world (sample_control [] []))"
  "(world_step sample_control_env)\<^sup>*\<^sup>* (sample_world (sample_control [] [])) (sample_world (sample_control [requested] []))"
  "(world_step sample_control_env)\<^sup>*\<^sup>* (sample_world (sample_control [requested] [])) (sample_world (sample_control [granted] []))"
  "(world_step sample_control_env)\<^sup>*\<^sup>* (sample_world (sample_control [granted] [])) (sample_world (sample_control [granted] [sample_lease]))"
  "(world_step sample_control_env)\<^sup>*\<^sup>* (sample_world (sample_control [granted] [sample_lease]))
     (sample_world (sample_control [executed] [sample_lease]))"
proof -
  have "admin_step sample_control_env (wo_db (empty_world sample_control_gate)) (sample_control [] [])"
    using sample_granted by (rule admin_step.grant)
  then have "world_step sample_control_env (empty_world sample_control_gate) ((empty_world sample_control_gate)\<lparr>wo_db := sample_control [] []\<rparr>)"
    by (rule world_step.admin)
  then show "(world_step sample_control_env)\<^sup>*\<^sup>* (empty_world sample_control_gate) (sample_world (sample_control [] []))"
    by (simp add: empty_world_def sample_world_def)
next
  show "(world_step sample_control_env)\<^sup>*\<^sup>* (sample_world (sample_control [] [])) (sample_world (sample_control [requested] []))"
    by (rule start_finish [OF prepared.intent [OF sample_intended], where now' = 6]) (simp only: perform.simps sample_requested snd_conv)
next
  show "(world_step sample_control_env)\<^sup>*\<^sup>* (sample_world (sample_control [requested] [])) (sample_world (sample_control [granted] []))"
    by (rule start_finish [OF prepared.approve [OF sample_approving], where now' = 7 and ref = "''ref''"])
      (simp only: perform.simps sample_approved snd_conv)
next
  show "(world_step sample_control_env)\<^sup>*\<^sup>* (sample_world (sample_control [granted] [])) (sample_world (sample_control [granted] [sample_lease]))"
    by (rule start_finish [OF prepared.lease [OF sample_leasing], where now' = 8 and ref = "''lease-1''"])
      (simp only: perform.simps sample_leased snd_conv)
next
  show "(world_step sample_control_env)\<^sup>*\<^sup>* (sample_world (sample_control [granted] [sample_lease]))
     (sample_world (sample_control [executed] [sample_lease]))"
    by (rule start_finish [OF prepared.complete [OF sample_completing, of 9], where now' = 9])
      (simp only: perform.simps sample_completed snd_conv)
qed

lemma sample_executed:
  "(world_step sample_control_env)\<^sup>*\<^sup>* (empty_world sample_control_gate) (sample_world (sample_control [executed] [sample_lease]))"
  using sample_history by (meson rtranclp_trans)

theorem leases_are_exclusive_witness:
  "\<exists>e. lease_write (sample_control [executed] [sample_lease]) 100 ''lease-2'' granted sample_grant ''other'' 60 =
     (Inl e, sample_control [executed] [sample_lease])"
proof -
  have l: "sample_lease \<in> set (cd_leases (wo_db (sample_world (sample_control [executed] [sample_lease]))))" "al_released_at sample_lease = None"
    by (simp_all add: sample_world_def sample_lease_def)
  have "100 < al_expires_at sample_lease \<and> aa_workspace_hash granted = al_workspace_hash sample_lease \<and>
      aa_action_key granted = al_action_key sample_lease" by (simp add: sample_lease_def)
  with leases_are_exclusive [OF sample_executed l, of 100 granted "''lease-2''" sample_grant "''other''" 60] show ?thesis
    by (simp only: sample_world_def world.simps simp_thms)
qed

theorem executed_only_with_approval_witness:
  "\<exists>es later u now ids ref b m approver earlier.
     history sample_control_env sample_control_gate es (sample_world (sample_control [executed] [sample_lease])) \<and>
     es = later @ (u, Finished now ids ref (WApprove b m approver ''granted'')) # earlier \<and>
     approval_ready (wo_db u) now ''act-1'' approver"
proof -
  from history_reaches [THEN iffD1, OF sample_executed] obtain es where
    es: "history sample_control_env sample_control_gate es (sample_world (sample_control [executed] [sample_lease]))" ..
  have a: "executed \<in> set (actions (wo_db (sample_world (sample_control [executed] [sample_lease]))))" by (simp add: sample_world_def)
  have "aa_approval_required executed" and "aa_status executed \<in> {''action_executed'', ''action_failed'', ''action_cancelled''}"
    by simp_all
  from executed_only_with_approval [OF es a this] obtain later u now ids ref b m approver earlier where
    "es = later @ (u, Finished now ids ref (WApprove b m approver ''granted'')) # earlier"
    "approval_ready (wo_db u) now (aa_id executed) approver" by (elim exE conjE) (rule that)
  with es have "history sample_control_env sample_control_gate es (sample_world (sample_control [executed] [sample_lease])) \<and>
     es = later @ (u, Finished now ids ref (WApprove b m approver ''granted'')) # earlier \<and>
     approval_ready (wo_db u) now ''act-1'' approver" by (simp only: sample_sel simp_thms)
  then show ?thesis by (intro exI)
qed

theorem revocation_stops_everything_witness:
  "\<exists>e. action_intent sample_control_env (record_revocation (sample_control [] []) 6 ''r1'' ''a1'' [] ''left'') 7 sample_control_ids sample_call =
     (Inl e, record_revocation (sample_control [] []) 6 ''r1'' ''a1'' [] ''left'')"
proof -
  let ?db = "record_revocation (sample_control [] []) 6 ''r1'' ''a1'' [] ''left''"
  have "deprovisioned ?db ''a1''"
    using revocation_stops_everything [of "sample_control [] []" "''r1''" "''a1''" 6] by simp
  moreover have "ic_agent_id sample_call = ''a1''" by (simp add: sample_call_def)
  ultimately show ?thesis
    using revocation_stops_everything [where db = ?db and p = "''a1''" and c = sample_call and cenv = sample_control_env and t = 7
        and ids = sample_control_ids]
    by simp
qed

theorem finished_actions_stay_witness:
  "status_of (snd (action_complete sample_control_env (sample_control [executed] []) 20 ''act-1'' ''a1'' ''failed'' (replicate 64 (CHR ''1''))))
     ''act-1'' = Some ''action_executed''"
proof -
  let ?db = "sample_control [executed] []"
  have "(call_step sample_control_env)\<^sup>*\<^sup>* ?db
      (snd (action_complete sample_control_env ?db 20 ''act-1'' ''a1'' ''failed'' (replicate 64 (CHR ''1''))))"
    by (intro r_into_rtranclp call_step.complete) (rule prod.collapse [symmetric])
  moreover have "ids_ok ?db" by (simp add: ids_ok_def)
  moreover have "status_of ?db ''act-1'' = Some ''action_executed''" by (simp add: status_of_def)
  ultimately show ?thesis using finished_actions_stay by blast
qed

theorem intents_stay_within_authority_witness:
  "\<exists>m \<in> set (manifests (sample_control [] [])). ic_capability sample_call \<in> set (am_allowed_capabilities m) \<and>
     aa_manifest_id requested = am_id m"
proof -
  have "action_intent sample_control_env (sample_control [] []) 6 sample_control_ids sample_call = (Inr requested, sample_control [requested] [])"
    by (simp add: action_intent_def sample_control_ids_def sample_intended sample_requested del: intent_write.simps)
  from intents_stay_within_authority [OF this] have "\<exists>m \<in> set (manifests (sample_control [] [])).
      ic_capability sample_call \<in> set (am_allowed_capabilities m) \<and>
      (\<forall>x \<in> set (actions (sample_control [requested] [])) - set (actions (sample_control [] [])). aa_manifest_id x = am_id m)"
    by blast
  then show ?thesis by simp
qed

end
