(* ===== verification/Audit_Guarantees.thy ===== *)
theory Audit_Guarantees
  imports Audit_Chain
begin

text \<open>
  What the audit chain guarantees. The pass that recomputes the chain and the pass that verifies it
  agree, appends in the order of time and redactions keep it intact over every history of keys,
  and the hash of its last row commits to every row before it.
\<close>

section \<open>Links\<close>

text \<open>A chain from a hash: every row that is not redacted matches its commitment, and the hash of each row is the
  link over the one before.\<close>

definition row_mac :: "digest_env \<Rightarrow> string option \<Rightarrow> string \<Rightarrow> journal_row \<Rightarrow> string" where
  "row_mac env key prev r =
     audit_chain_mac env key prev (je_id r) (je_created_at r) (je_workspace_hash r) (jr_payload_commitment r)"

definition committed :: "digest_env \<Rightarrow> journal_row \<Rightarrow> bool" where
  "committed env r \<longleftrightarrow> je_event_type r = ''redacted'' \<or> audit_payload_commitment env r = jr_payload_commitment r"

fun links :: "digest_env \<Rightarrow> string option \<Rightarrow> string \<Rightarrow> journal_row list \<Rightarrow> bool" where
  "links env key prev [] \<longleftrightarrow> True"
| "links env key prev (r # rs) \<longleftrightarrow> committed env r \<and> row_mac env key prev r = jr_audit_hash r \<and> links env key (jr_audit_hash r) rs"

fun head_hash :: "string \<Rightarrow> journal_row list \<Rightarrow> string" where
  "head_hash prev [] = prev"
| "head_hash prev (r # rs) = head_hash (jr_audit_hash r) rs"

lemma head_hash_append [simp]: "head_hash prev (rs @ [r]) = jr_audit_hash r"
  by (induction rs arbitrary: prev) simp_all

lemma links_append [simp]:
  "links env key prev (rs @ [r]) \<longleftrightarrow> links env key prev rs \<and> committed env r \<and> row_mac env key (head_hash prev rs) r = jr_audit_hash r"
  by (induction rs arbitrary: prev) auto

text \<open>The verifier counts exactly the rows of an intact chain.\<close>

lemma verify_loop_Cons:
  "verify_loop env key prev n (r # rs) =
     (if \<not> committed env r then Inl (ContentAltered (je_id r))
      else if row_mac env key prev r \<noteq> jr_audit_hash r then Inl (LinkMismatch (je_id r) (key \<noteq> None))
      else verify_loop env key (jr_audit_hash r) (n + 1) rs)"
  unfolding verify_loop.simps committed_def row_mac_def by (simp only: de_Morgan_disj)

lemma verify_loop_Inr: "verify_loop env key prev n rs = Inr m \<longleftrightarrow> links env key prev rs \<and> m = n + int (length rs)"
  by (induction rs arbitrary: prev n) (auto simp: verify_loop_Cons simp del: verify_loop.simps(2))

lemma verify_Inr:
  "verify_audit_chain env db = Inr m \<longleftrightarrow>
   \<not> (map_option fst (au_chain db) = Some KEYED_SCHEME \<and> au_key db = None) \<and>
   links env (au_key db) genesis (chain_rows (au_journal db)) \<and> m = int (length (chain_rows (au_journal db)))"
  by (auto simp: verify_audit_chain_def verify_loop_Inr)

section \<open>Hashes have 64 characters\<close>

lemma length_hmac: "sha256_32 env \<Longrightarrow> length (hmac_sha256 env k m) = 32"
  by (simp add: hmac_sha256_def sha256_32_def Let_def)

lemma length_mac: "sha256_32 env \<Longrightarrow> length (audit_chain_mac env key prev eid ts ws c) = 64"
  using length_hmac by (auto simp: audit_chain_mac_def length_hex_text sha256_32_def Let_def split: option.splits)

lemma mac_not_Nil: "sha256_32 env \<Longrightarrow> audit_chain_mac env key prev eid ts ws c \<noteq> []"
  using length_mac [of env key prev eid ts ws c] by auto

lemma commitment_not_Nil: "sha256_32 env \<Longrightarrow> audit_payload_commitment env e \<noteq> []"
  using length_hex_text [of "sha256 env (payload_text e)"] by (auto simp: audit_payload_commitment_def sha256_32_def)

section \<open>The order of the rows\<close>

lemma insort_key_map: "f (g a) = f a \<Longrightarrow> \<forall>x \<in> set xs. f (g x) = f x \<Longrightarrow> insort_key f (g a) (map g xs) = map g (insort_key f a xs)"
  by (induction xs) auto

lemma sort_key_map: "\<forall>x \<in> set xs. f (g x) = f x \<Longrightarrow> sort_key f (map g xs) = map g (sort_key f xs)"
  by (induction xs) (simp_all add: insort_key_map)

lemma insort_key_snoc: "f a \<le> f x \<Longrightarrow> insort_key f a (ys @ [x]) = insort_key f a ys @ [x]"
  by (induction ys) auto

lemma sort_key_snoc: "\<forall>y \<in> set xs. f y \<le> f x \<Longrightarrow> sort_key f (xs @ [x]) = sort_key f xs @ [x]"
  by (induction xs) (simp_all add: insort_key_snoc)

lemma filter_map_same: "\<forall>x \<in> set xs. P (g x) \<longleftrightarrow> P x \<Longrightarrow> filter P (map g xs) = map g (filter P xs)"
  by (induction xs) auto

text \<open>A change of rows that keeps the time and does not make a hash appear or vanish keeps the order.\<close>

lemma chain_rows_map:
  "\<forall>r \<in> set rows. je_created_at (g r) = je_created_at r \<and> (jr_audit_hash (g r) = [] \<longleftrightarrow> jr_audit_hash r = []) \<Longrightarrow>
   chain_rows (map g rows) = map g (chain_rows rows)"
  unfolding chain_rows_def by (subst filter_map_same) (auto intro!: sort_key_map)

lemma chain_rows_snoc:
  "\<forall>r \<in> set rows. je_created_at r \<le> je_created_at x \<Longrightarrow> jr_audit_hash x \<noteq> [] \<Longrightarrow> chain_rows (rows @ [x]) = chain_rows rows @ [x]"
  by (simp add: chain_rows_def sort_key_snoc)

lemma set_chain_rows: "set (chain_rows rows) = {r \<in> set rows. jr_audit_hash r \<noteq> []}"
  by (simp add: chain_rows_def)

section \<open>Recomputing\<close>

definition rowids_ok :: "journal_row list \<Rightarrow> bool" where
  "rowids_ok rows \<longleftrightarrow> distinct (map jr_rowid rows)"

lemma distinct_chain_rows: "rowids_ok rows \<Longrightarrow> distinct (map jr_rowid (chain_rows rows))"
  by (simp add: rowids_ok_def chain_rows_def distinct_map distinct_sort)
    (auto intro: inj_on_subset)

lemma rehash_loop_links: "sha256_32 env \<Longrightarrow> links env key prev (rehash_loop env key prev rs)"
  by (induction rs arbitrary: prev) (auto simp: Let_def committed_def row_mac_def audit_payload_commitment_def payload_text_def)

lemma rehash_loop_rowids [simp]: "map jr_rowid (rehash_loop env key prev rs) = map jr_rowid rs"
  by (induction rs arbitrary: prev) (simp_all add: Let_def)

lemma rehash_loop_hash: "sha256_32 env \<Longrightarrow> u \<in> set (rehash_loop env key prev rs) \<Longrightarrow> jr_audit_hash u \<noteq> []"
  by (induction rs arbitrary: prev) (auto simp: Let_def mac_not_Nil)

lemma length_rehash_loop [simp]: "length (rehash_loop env key prev rs) = length rs"
  using rehash_loop_rowids by (metis length_map)

lemma write_back_loop:
  "distinct (map jr_rowid rs) \<Longrightarrow> map (write_back (rehash_loop env key prev rs)) rs = rehash_loop env key prev rs"
proof (induction rs arbitrary: prev)
  case (Cons r rs)
  obtain u us where u: "rehash_loop env key prev (r # rs) = u # us" "us = rehash_loop env key (jr_audit_hash u) rs"
      "jr_rowid u = jr_rowid r" "r\<lparr>jr_audit_hash := jr_audit_hash u, jr_payload_commitment := jr_payload_commitment u\<rparr> = u"
    by (simp add: Let_def)
  have "write_back (u # us) x = write_back us x" if "x \<in> set rs" for x
    using that Cons.prems u(3) by (auto simp: write_back_def)
  then have "map (write_back (u # us)) rs = map (write_back us) rs" by simp
  also have "\<dots> = us" using Cons.IH Cons.prems u(2) by simp
  finally have "map (write_back (u # us)) rs = us" .
  moreover have "write_back (u # us) r = u" using u(3,4) by (simp add: write_back_def)
  ultimately show ?case unfolding u(1) by simp
qed simp

lemma find_rowid: "find (\<lambda>u. jr_rowid u = i) us = None \<longleftrightarrow> i \<notin> set (map jr_rowid us)"
  by (induction us) auto

lemma write_back_keeps:
  fixes key prev
  assumes "sha256_32 env" and "rowids_ok rows" and "r \<in> set rows"
  defines "us \<equiv> rehash_loop env key prev (chain_rows rows)"
  shows "je_created_at (write_back us r) = je_created_at r" and "jr_audit_hash (write_back us r) = [] \<longleftrightarrow> jr_audit_hash r = []"
proof -
  show "je_created_at (write_back us r) = je_created_at r" by (simp add: write_back_def split: option.splits)
  have ids: "set (map jr_rowid us) = jr_rowid ` {x \<in> set rows. jr_audit_hash x \<noteq> []}"
    unfolding us_def rehash_loop_rowids set_map set_chain_rows ..
  show "jr_audit_hash (write_back us r) = [] \<longleftrightarrow> jr_audit_hash r = []"
  proof (cases "jr_audit_hash r = []")
    case True
    have "jr_rowid r \<notin> jr_rowid ` {x \<in> set rows. jr_audit_hash x \<noteq> []}"
      using True assms(2,3) by (auto simp: rowids_ok_def distinct_map dest: inj_onD)
    then have "find (\<lambda>u. jr_rowid u = jr_rowid r) us = None" unfolding find_rowid ids .
    with True show ?thesis by (simp add: write_back_def)
  next
    case False
    with assms(3) have "jr_rowid r \<in> set (map jr_rowid us)" unfolding ids by blast
    then obtain u where u: "find (\<lambda>u. jr_rowid u = jr_rowid r) us = Some u" using find_rowid by fastforce
    then have "u \<in> set us" by (auto dest: find_SomeD)
    with False u rehash_loop_hash [OF assms(1)] show ?thesis by (auto simp: write_back_def us_def)
  qed
qed

lemma rehash_chain_rows:
  assumes "sha256_32 env" and "rowids_ok rows"
  shows "chain_rows (snd (rehash_audit_chain_keyed env key rows)) = rehash_loop env key genesis (chain_rows rows)"
proof -
  let ?us = "rehash_loop env key genesis (chain_rows rows)"
  have "chain_rows (map (write_back ?us) rows) = map (write_back ?us) (chain_rows rows)"
    using write_back_keeps [OF assms] by (intro chain_rows_map) blast
  with write_back_loop [OF distinct_chain_rows [OF assms(2)]] show ?thesis by (simp add: rehash_audit_chain_keyed_def Let_def)
qed

lemma rehash_rowids: "map jr_rowid (snd (rehash_audit_chain_keyed env key rows)) = map jr_rowid rows"
  by (simp add: rehash_audit_chain_keyed_def Let_def write_back_def comp_def split: option.splits cong: map_cong)

lemma rehash_loop_fixed: "links env key prev rs \<Longrightarrow> \<forall>r \<in> set rs. jr_payload_commitment r \<noteq> [] \<Longrightarrow> rehash_loop env key prev rs = rs"
  by (induction rs arbitrary: prev) (auto simp: Let_def committed_def row_mac_def)

lemma rehash_loop_commitment: "sha256_32 env \<Longrightarrow> u \<in> set (rehash_loop env key prev rs) \<Longrightarrow> jr_payload_commitment u \<noteq> []"
  by (induction rs arbitrary: prev) (auto simp: Let_def commitment_not_Nil split: if_splits)

text \<open>C16.
  Recomputing the chain repairs it for the given key, whatever the journal held: afterwards every row that had
  a hash verifies, in the same order and with its payload, time, workspace and id untouched, and recomputing
  once more changes nothing.
\<close>

theorem rehash_then_verify:
  assumes "sha256_32 env" and "rowids_ok (au_journal db)" and "rehash_audit_chain_keyed env (au_key db) (au_journal db) = (n, rows)"
    and "au_key db = None \<longrightarrow> au_chain db = None"
  shows "verify_audit_chain env (db\<lparr>au_journal := rows\<rparr>) = Inr n \<and>
    n = int (length (filter (\<lambda>r. jr_audit_hash r \<noteq> []) (au_journal db))) \<and>
    map journal_event.truncate rows = map journal_event.truncate (au_journal db) \<and>
    rehash_audit_chain_keyed env (au_key db) rows = (n, rows)"
proof -
  let ?key = "au_key db" and ?old = "au_journal db"
  let ?us = "rehash_loop env ?key genesis (chain_rows ?old)"
  from assms(3) have n: "n = int (length (chain_rows ?old))" and rows: "rows = map (write_back ?us) ?old"
    by (auto simp: rehash_audit_chain_keyed_def Let_def)
  have chain: "chain_rows rows = ?us" using rehash_chain_rows [OF assms(1,2), of ?key] assms(3) by simp
  have ids: "rowids_ok rows" using rehash_rowids [of env ?key ?old] assms(2,3) by (simp add: rowids_ok_def)
  have "verify_audit_chain env (db\<lparr>au_journal := rows\<rparr>) = Inr n"
    using assms(4) by (auto simp: verify_Inr chain n rehash_loop_links [OF assms(1)])
  moreover have "n = int (length (filter (\<lambda>r. jr_audit_hash r \<noteq> []) ?old))" by (simp add: n chain_rows_def)
  moreover have "map journal_event.truncate rows = map journal_event.truncate ?old"
    by (auto simp: rows write_back_def journal_event.defs split: option.splits)
  moreover have "rehash_loop env ?key genesis ?us = ?us"
    using rehash_loop_links [OF assms(1)] rehash_loop_commitment [OF assms(1)] by (intro rehash_loop_fixed) auto
  then have "rehash_audit_chain_keyed env ?key rows = (n, map (write_back ?us) rows)"
    by (simp add: rehash_audit_chain_keyed_def chain n Let_def)
  moreover have "map (write_back ?us) rows = rows"
    by (auto simp: rows write_back_def split: option.splits)
  ultimately show ?thesis by simp
qed

section \<open>Histories\<close>

lemma head_hash_rev: "head_hash prev rs = (case rev rs of [] \<Rightarrow> prev | r # _ \<Rightarrow> jr_audit_hash r)"
  by (cases rs rule: rev_cases) simp_all

text \<open>What an update of rows must keep for the chain to stay intact.\<close>

definition keeps_link :: "digest_env \<Rightarrow> (journal_row \<Rightarrow> journal_row) \<Rightarrow> journal_row \<Rightarrow> bool" where
  "keeps_link env g r \<longleftrightarrow> je_id (g r) = je_id r \<and> je_created_at (g r) = je_created_at r \<and> je_workspace_hash (g r) = je_workspace_hash r \<and>
     jr_payload_commitment (g r) = jr_payload_commitment r \<and> jr_audit_hash (g r) = jr_audit_hash r \<and> jr_rowid (g r) = jr_rowid r \<and>
     (committed env r \<longrightarrow> committed env (g r))"

lemma links_map: "\<forall>r \<in> set rs. keeps_link env g r \<Longrightarrow> links env key prev rs \<Longrightarrow> links env key prev (map g rs)"
  by (induction rs arbitrary: prev) (auto simp: keeps_link_def row_mac_def)

lemma chain_rows_keeps: "\<forall>r \<in> set rows. keeps_link env g r \<Longrightarrow> chain_rows (map g rows) = map g (chain_rows rows)"
  by (rule chain_rows_map) (auto simp: keeps_link_def)

lemma links_keeps:
  assumes "\<forall>r \<in> set rows. keeps_link env g r" and "links env key genesis (chain_rows rows)"
  shows "links env key genesis (chain_rows (map g rows))"
  unfolding chain_rows_keeps [OF assms(1)] using assms by (intro links_map) (auto simp: set_chain_rows)

lemma redact_keeps: "keeps_link env (\<lambda>r. if redact_match eid cat k ws r then redact_row r else r) r"
  by (simp add: keeps_link_def redact_row_def committed_def)

lemma journal_row_of_sel:
  "je_id (journal_row_of env db writ e) = je_id e" "je_created_at (journal_row_of env db writ e) = je_created_at e"
  "jr_rowid (journal_row_of env db writ e) = length (au_journal db)"
  "jr_audit_hash (journal_row_of env db writ e) = row_mac env (au_key db) (newest_hash (au_journal db)) (journal_row_of env db writ e)"
  "committed env (journal_row_of env db writ e)"
  by (simp_all add: journal_row_of_def Let_def row_mac_def committed_def audit_payload_commitment_def payload_text_def
      journal_event.defs journal_row.defs)

text \<open>The journal of a store that always had its key: every row is in the chain, the chain is intact
  under the key of the process, and the recorded canary is that of this key.\<close>

definition key_recorded :: "digest_env \<Rightarrow> string set \<Rightarrow> string option \<Rightarrow> (string \<times> string) option \<Rightarrow> bool" where
  "key_recorded env K key chain \<longleftrightarrow>
     (case key of None \<Rightarrow> chain = None | Some k \<Rightarrow> k \<in> K \<and> chain = Some (KEYED_SCHEME, audit_key_canary env k))"

definition audit_ok :: "digest_env \<Rightarrow> string set \<Rightarrow> audit_db \<Rightarrow> bool" where
  "audit_ok env K db \<longleftrightarrow> map jr_rowid (au_journal db) = [0..<length (au_journal db)] \<and>
     (\<forall>r \<in> set (au_journal db). jr_audit_hash r \<noteq> []) \<and>
     links env (au_key db) genesis (chain_rows (au_journal db)) \<and>
     key_recorded env K (au_key db) (au_chain db)"

lemma audit_ok_rows: "audit_ok env K db \<Longrightarrow> chain_rows (au_journal db) = sort_key je_created_at (au_journal db)"
  by (simp add: audit_ok_def chain_rows_def)

lemma audit_ok_verifies: "audit_ok env K db \<Longrightarrow> verify_audit_chain env db = Inr (int (length (au_journal db)))"
  using audit_ok_rows [of env K db] by (auto simp: audit_ok_def key_recorded_def verify_Inr split: option.splits)

lemma append_ok:
  assumes "sha256_32 env" and "audit_ok env K db" and "\<forall>r \<in> set (au_journal db). je_created_at r \<le> je_created_at e"
  shows "audit_ok env K (db\<lparr>au_journal := au_journal db @ [journal_row_of env db writ e]\<rparr>)"
proof -
  let ?x = "journal_row_of env db writ e"
  have hash: "jr_audit_hash ?x \<noteq> []" using mac_not_Nil [OF assms(1)] by (simp add: journal_row_of_sel row_mac_def)
  have "chain_rows (au_journal db @ [?x]) = chain_rows (au_journal db) @ [?x]"
    using assms(3) hash by (intro chain_rows_snoc) (simp_all add: journal_row_of_sel)
  moreover have "newest_hash (au_journal db) = head_hash genesis (chain_rows (au_journal db))"
    by (simp add: newest_hash_def head_hash_rev audit_ok_rows [OF assms(2)])
  ultimately show ?thesis using assms(2) hash by (simp add: audit_ok_def journal_row_of_sel)
qed

lemma rehash_ok:
  assumes "sha256_32 env" and "audit_ok env K db" and "k \<in> K"
  shows "audit_ok env K (db\<lparr>au_journal := snd (rehash_audit_chain_keyed env (Some k) (au_journal db)),
    au_chain := Some (KEYED_SCHEME, audit_key_canary env k), au_key := Some k\<rparr>)"
proof -
  let ?rows = "snd (rehash_audit_chain_keyed env (Some k) (au_journal db))"
  have "rowids_ok (au_journal db)" using assms(2) by (simp add: audit_ok_def rowids_ok_def)
  note chain = rehash_chain_rows [OF assms(1) this, of "Some k"] and keep = write_back_keeps(2) [OF assms(1) this]
  have "map jr_rowid ?rows = [0..<length ?rows]"
    using assms(2) rehash_rowids [of env "Some k" "au_journal db"] by (metis audit_ok_def length_map)
  moreover have "\<forall>r \<in> set ?rows. jr_audit_hash r \<noteq> []"
    using assms(2) keep by (auto simp: rehash_audit_chain_keyed_def Let_def audit_ok_def)
  ultimately show ?thesis using assms(3) by (simp add: audit_ok_def key_recorded_def chain rehash_loop_links [OF assms(1)])
qed

lemma redact_ok: "audit_ok env K db \<Longrightarrow> audit_ok env K (redact_journal db eid cat k ws)"
proof -
  assume ok: "audit_ok env K db"
  let ?g = "\<lambda>r. if redact_match eid cat k ws r then redact_row r else r"
  have keep: "keeps_link env ?g r" for r by (rule redact_keeps)
  then have "links env (au_key db) genesis (chain_rows (map ?g (au_journal db)))"
    using ok by (intro links_keeps) (auto simp: audit_ok_def)
  moreover have same: "jr_rowid (?g r) = jr_rowid r" "jr_audit_hash (?g r) = jr_audit_hash r" for r by (simp_all add: redact_row_def)
  have "map jr_rowid (map ?g (au_journal db)) = map jr_rowid (au_journal db)" unfolding map_map comp_def same ..
  moreover have "\<forall>r \<in> set (map ?g (au_journal db)). jr_audit_hash r \<noteq> []"
    using ok unfolding set_map ball_simps same audit_ok_def by blast
  ultimately show ?thesis using ok unfolding audit_ok_def redact_journal_def by simp
qed

text \<open>A history of a store: events in the order of their time, redactions, keys of the set given.\<close>

inductive audit_step :: "digest_env \<Rightarrow> string set \<Rightarrow> audit_db \<Rightarrow> audit_db \<Rightarrow> bool" for env K where
  append: "journal env db writ e = Inr db' \<Longrightarrow> \<forall>r \<in> set (au_journal db). je_created_at r \<le> je_created_at e \<Longrightarrow> audit_step env K db db'"
| admit: "journal_authenticated_admission_source env parse db writ e = Inr db' \<Longrightarrow>
    \<forall>r \<in> set (au_journal db). je_created_at r \<le> je_created_at e \<Longrightarrow> audit_step env K db db'"
| redact: "audit_step env K db (redact_journal db eid cat k ws)"
| enable: "k \<in> K \<Longrightarrow> audit_step env K db (set_encryption_chain env db k)"
| rotate: "k \<in> K \<Longrightarrow> audit_step env K db (rotate_chain env db k)"
| store: "audit_step env K db (db\<lparr>au_store := td\<rparr>)"

definition empty_journal :: "temporal_db \<Rightarrow> audit_db" where
  "empty_journal td = \<lparr>au_journal = [], au_chain = None, au_key = None, au_store = td\<rparr>"

lemma audit_step_ok:
  assumes "sha256_32 env" and "inj_on (audit_key_canary env) K" and "audit_step env K db db'" and ok: "audit_ok env K db"
  shows "audit_ok env K db'"
  using assms(3)
proof cases
  case (append writ e)
  then show ?thesis using append_ok [OF assms(1) ok, of e writ] by (auto simp: journal_def journal_with_conn_def split: if_splits)
next
  case (admit parse writ e)
  then show ?thesis using append_ok [OF assms(1) ok, of e writ]
    by (auto simp: journal_authenticated_admission_source_def journal_with_conn_def split: if_splits sum.splits option.splits)
next
  case (enable k)
  show ?thesis
  proof (cases "map_option snd (au_chain db) = Some (audit_key_canary env k)")
    case True
    with ok obtain k' where "au_key db = Some k'" "k' \<in> K" "audit_key_canary env k' = audit_key_canary env k"
      by (auto simp: audit_ok_def key_recorded_def split: option.splits)
    with assms(2) enable(2) have "au_key db = Some k" by (auto dest: inj_onD)
    then have "db' = db" using True enable(1) by (simp add: set_encryption_chain_def)
    with ok show ?thesis by simp
  next
    case False
    with enable rehash_ok [OF assms(1) ok enable(2)] show ?thesis by (simp add: set_encryption_chain_def Let_def)
  qed
next
  case (rotate k)
  with rehash_ok [OF assms(1) ok] show ?thesis by (simp add: rotate_chain_def)
next
  case store
  with ok show ?thesis by (simp add: audit_ok_def)
qed (use ok redact_ok in blast)

text \<open>C14.
  The journal always verifies. After every history of events appended in the order of their time, of
  redactions, of changes of the records and of encryption enabled or its key rotated, the verification of the chain succeeds
  under the key of the process and counts every event ever appended, provided that SHA-256 gives 32 bytes and
  no two of the keys used have the same canary.
\<close>

theorem journal_always_verifies:
  assumes "sha256_32 env" and "inj_on (audit_key_canary env) K" and "(audit_step env K)\<^sup>*\<^sup>* (empty_journal td) db"
  shows "verify_audit_chain env db = Inr (int (length (au_journal db)))"
proof -
  from assms(3) have "audit_ok env K db"
  proof (induction rule: rtranclp_induct)
    case base
    show ?case by (simp add: audit_ok_def key_recorded_def empty_journal_def chain_rows_def)
  qed (rule audit_step_ok [OF assms(1,2)])
  then show ?thesis by (rule audit_ok_verifies)
qed

section \<open>Framing\<close>

text \<open>The bytes of a 64-bit integer determine it, and the frame of a field determines the field.\<close>

lemma bytes_determine:
  "(\<And>i. i < k \<Longrightarrow> n div 256 ^ i mod 256 = m div 256 ^ i mod (256::int)) \<Longrightarrow> n mod 256 ^ k = m mod 256 ^ k"
proof (induction k)
  case (Suc k)
  have split: "x mod 256 ^ Suc k = 256 ^ k * (x div 256 ^ k mod 256) + x mod 256 ^ k" for x :: int
    using zmod_zmult2_eq [of 256 x "256 ^ k"] by (simp add: mult.commute)
  show ?case unfolding split using Suc.IH Suc.prems by simp
qed simp

lemma le_bytes64_mod: "le_bytes64 n = le_bytes64 m \<Longrightarrow> n mod 2 ^ 64 = m mod 2 ^ 64"
proof -
  assume eq: "le_bytes64 n = le_bytes64 m"
  have "n div 256 ^ i mod 256 = m div 256 ^ i mod 256" if "i < 8" for i :: nat
  proof -
    from that have "[0..<8] ! i = i" "i < length [0..<8]" by simp_all
    with arg_cong [OF eq, of "\<lambda>bs. bs ! i"] have "char_of (nat (n div 256 ^ i mod 256)) = (char_of (nat (m div 256 ^ i mod 256)) :: char)"
      unfolding le_bytes64_def by (simp only: nth_map)
    then have "nat (n div 256 ^ i mod 256) mod 256 = nat (m div 256 ^ i mod 256) mod 256"
      using arg_cong [of _ _ "of_char :: char \<Rightarrow> nat"] by fastforce
    then show ?thesis by (simp add: nat_mod_distrib nat_eq_iff2)
  qed
  from bytes_determine [of 8, OF this] show ?thesis by simp
qed

lemma le_bytes64_inj: "le_bytes64 n = le_bytes64 m \<Longrightarrow> in_i64 n \<Longrightarrow> in_i64 m \<Longrightarrow> n = m"
proof -
  assume eq: "le_bytes64 n = le_bytes64 m" and fit: "in_i64 n" "in_i64 m"
  have "(n + 2 ^ 63) mod 2 ^ 64 = (m + 2 ^ 63) mod 2 ^ 64" by (rule mod_add_cong [OF le_bytes64_mod [OF eq] refl])
  then have "wrap64 n = wrap64 m" by (simp only: wrap64_def)
  with fit show ?thesis by (simp add: wrap64_id)
qed

lemma length_le_bytes64 [simp]: "length (le_bytes64 n) = 8"
  by (simp add: le_bytes64_def)

lemma audit_feed_inj:
  assumes "audit_feed a @ x = audit_feed b @ y" and "length a < 2 ^ 64" and "length b < 2 ^ 64"
  shows "a = b \<and> x = y"
proof -
  from assms(1) have "le_bytes64 (int (length a)) = le_bytes64 (int (length b)) \<and> a @ x = b @ y" by (simp add: audit_feed_def)
  moreover then have "int (length a) = int (length b)" using le_bytes64_mod [of "int (length a)" "int (length b)"] assms(2,3) by simp
  ultimately show ?thesis by simp
qed

lemma frames_inj:
  assumes "list_all2 (\<lambda>a b. length a < 2 ^ 64 \<and> length b < 2 ^ 64) as bs" and "concat (map audit_feed as) = concat (map audit_feed bs)"
  shows "as = bs"
  using assms
proof (induction rule: list_all2_induct)
  case (Cons a as b bs)
  then show ?case using audit_feed_inj [of a "concat (map audit_feed as)" b "concat (map audit_feed bs)"] by simp
qed simp

lemma hex_digit_inj: "a < 16 \<Longrightarrow> b < 16 \<Longrightarrow> hex_digit a = hex_digit b \<Longrightarrow> a = b"
proof -
  assume "a < 16" "b < 16" and eq: "hex_digit a = hex_digit b"
  moreover from eq have "(of_char (hex_digit a) :: nat) = of_char (hex_digit b)" by simp
  ultimately show ?thesis by (auto simp: hex_digit_def split: if_splits)
qed

lemma hex_text_inj: "hex_text as = hex_text bs \<Longrightarrow> as = bs"
proof (induction as arbitrary: bs)
  case Nil
  then show ?case by (cases bs) (simp_all add: hex_text_def)
next
  case (Cons a as)
  from Cons.prems obtain b bs' where bs: "bs = b # bs'" by (cases bs) (simp_all add: hex_text_def)
  with Cons.prems have digits: "hex_digit (of_char a div 16) = hex_digit (of_char b div 16)" "hex_digit (of_char a mod 16) = hex_digit (of_char b mod 16)"
    and rest: "hex_text as = hex_text bs'" by (simp_all add: hex_text_def)
  have "(of_char c :: nat) div 16 < 16" "(of_char c :: nat) mod 16 < 16" for c :: char
    using nat_of_char_less_256 [of c] by (simp_all add: less_mult_imp_div_less)
  then have "(of_char a :: nat) div 16 = of_char b div 16" "(of_char a :: nat) mod 16 = of_char b mod 16"
    using digits hex_digit_inj by blast+
  then have "(of_char a :: nat) = of_char b" by (metis div_mult_mod_eq)
  then show ?case using Cons.IH [OF rest] bs by simp
qed

section \<open>The head commits to the chain\<close>

text \<open>The texts that verification hashes.\<close>

definition mac_texts :: "digest_env \<Rightarrow> string option \<Rightarrow> string \<Rightarrow> string set" where
  "mac_texts env key text =
     insert text (case key of None \<Rightarrow> {}
       | Some k \<Rightarrow>
           let framed = sha256 env text; inner = map (xor_byte 0x36) (key_block env k) @ framed
           in {inner, map (xor_byte 0x5c) (key_block env k) @ sha256 env inner})"

definition row_text :: "string \<Rightarrow> journal_row \<Rightarrow> string" where
  "row_text prev r = link_text prev (je_id r) (je_created_at r) (je_workspace_hash r) (jr_payload_commitment r)"

definition row_texts :: "digest_env \<Rightarrow> string option \<Rightarrow> string \<Rightarrow> journal_row \<Rightarrow> string set" where
  "row_texts env key prev r = mac_texts env key (row_text prev r) \<union> (if je_event_type r = ''redacted'' then {} else {payload_text r})"

fun chain_texts :: "digest_env \<Rightarrow> string option \<Rightarrow> string \<Rightarrow> journal_row list \<Rightarrow> string set" where
  "chain_texts env key prev [] = {}"
| "chain_texts env key prev (r # rs) = row_texts env key prev r \<union> chain_texts env key (jr_audit_hash r) rs"

lemma chain_texts_append [simp]:
  "chain_texts env key prev (rs @ [r]) = chain_texts env key prev rs \<union> row_texts env key (head_hash prev rs) r"
  by (induction rs arbitrary: prev) auto

text \<open>Every column fits a 64-bit length, and the time is a 64-bit integer.\<close>

definition payload_fields :: "journal_row \<Rightarrow> string list" where
  "payload_fields r =
     [je_event_type r, je_evaluated_json r, je_acted_json r, je_forward_json r, je_category r, je_key r, je_entity_id r, je_agent_id r]"

definition row_fits :: "journal_row \<Rightarrow> bool" where
  "row_fits r \<longleftrightarrow> in_i64 (je_created_at r) \<and>
     list_all (\<lambda>s. length s < 2 ^ 64) ([je_id r, je_workspace_hash r, jr_payload_commitment r, jr_audit_hash r] @ payload_fields r)"

lemma mac_inj:
  assumes "inj_on (sha256 env) (mac_texts env key (row_text p r) \<union> mac_texts env key (row_text p' r'))"
    and "row_mac env key p r = row_mac env key p' r'"
  shows "row_text p r = row_text p' r'"
proof (cases key)
  case None
  with assms(2) have "hex_text (sha256 env (row_text p r)) = hex_text (sha256 env (row_text p' r'))"
    by (simp add: row_mac_def row_text_def audit_chain_mac_def)
  then have "sha256 env (row_text p r) = sha256 env (row_text p' r')" by (rule hex_text_inj)
  then show ?thesis by (rule inj_onD [OF assms(1)]) (simp_all add: mac_texts_def)
next
  case (Some k)
  let ?i = "\<lambda>t. map (xor_byte 0x36) (key_block env k) @ sha256 env t"
  let ?o = "\<lambda>t. map (xor_byte 0x5c) (key_block env k) @ sha256 env (?i t)"
  let ?T = "mac_texts env key (row_text p r) \<union> mac_texts env key (row_text p' r')"
  have T: "row_text p r \<in> ?T" "row_text p' r' \<in> ?T" "?i (row_text p r) \<in> ?T" "?i (row_text p' r') \<in> ?T"
      "?o (row_text p r) \<in> ?T" "?o (row_text p' r') \<in> ?T"
    by (simp_all add: mac_texts_def Some Let_def)
  from assms(2) Some have "hex_text (sha256 env (?o (row_text p r))) = hex_text (sha256 env (?o (row_text p' r')))"
    by (simp add: row_mac_def row_text_def audit_chain_mac_def hmac_sha256_def Let_def)
  then have "?o (row_text p r) = ?o (row_text p' r')" using hex_text_inj inj_onD [OF assms(1) _ T(5,6)] by blast
  then have "?i (row_text p r) = ?i (row_text p' r')" using inj_onD [OF assms(1) _ T(3,4)] by simp
  then show ?thesis using inj_onD [OF assms(1) _ T(1,2)] by simp
qed

lemma row_text_inj:
  assumes "row_text p r = row_text p' r'" and "row_fits r" "row_fits r'" and "length p < 2 ^ 64" "length p' < 2 ^ 64"
  shows "p = p' \<and> je_id r = je_id r' \<and> je_created_at r = je_created_at r' \<and> je_workspace_hash r = je_workspace_hash r' \<and>
    jr_payload_commitment r = jr_payload_commitment r'"
proof -
  have "[p, je_id r, le_bytes64 (je_created_at r), je_workspace_hash r, jr_payload_commitment r] =
      [p', je_id r', le_bytes64 (je_created_at r'), je_workspace_hash r', jr_payload_commitment r']"
    using assms by (intro frames_inj) (simp_all add: row_text_def link_text_def row_fits_def)
  moreover then have "je_created_at r = je_created_at r'"
    using assms(2,3) by (intro le_bytes64_inj) (simp_all add: row_fits_def)
  ultimately show ?thesis by simp
qed

lemma payload_inj:
  assumes "payload_text r = payload_text r'" and "row_fits r" "row_fits r'"
  shows "payload_fields r = payload_fields r'"
  using assms by (intro frames_inj) (auto simp: payload_text_def payload_fields_def row_fits_def)

definition same_event :: "journal_row \<Rightarrow> journal_row \<Rightarrow> bool" where
  "same_event r r' \<longleftrightarrow> je_id r = je_id r' \<and> je_created_at r = je_created_at r' \<and> je_workspace_hash r = je_workspace_hash r' \<and>
     jr_payload_commitment r = jr_payload_commitment r' \<and> jr_audit_hash r = jr_audit_hash r' \<and>
     (je_event_type r = ''redacted'' \<or> je_event_type r' = ''redacted'' \<or> payload_fields r = payload_fields r')"

lemma head_fits: "\<forall>r \<in> set rs. row_fits r \<Longrightarrow> length (head_hash genesis rs) < 2 ^ 64"
  by (cases rs rule: rev_cases) (simp_all add: row_fits_def genesis_def)

lemma same_last:
  assumes "row_mac env key p r = jr_audit_hash r" "row_mac env key p' r' = jr_audit_hash r'" and "jr_audit_hash r = jr_audit_hash r'"
    and "committed env r" "committed env r'" and "row_fits r" "row_fits r'" and "length p < 2 ^ 64" "length p' < 2 ^ 64"
    and inj: "inj_on (sha256 env) (row_texts env key p r \<union> row_texts env key p' r')"
  shows "p = p' \<and> same_event r r'"
proof -
  have "row_text p r = row_text p' r'"
    by (rule mac_inj [OF inj_on_subset [OF inj]]) (use assms(1-3) in \<open>auto simp: row_texts_def\<close>)
  from row_text_inj [OF this assms(6-9)] have eq: "p = p'" "je_id r = je_id r'" "je_created_at r = je_created_at r'"
    "je_workspace_hash r = je_workspace_hash r'" "jr_payload_commitment r = jr_payload_commitment r'" by simp_all
  have "payload_fields r = payload_fields r'" if "je_event_type r \<noteq> ''redacted''" "je_event_type r' \<noteq> ''redacted''"
  proof -
    from that assms(4,5) have c: "audit_payload_commitment env r = jr_payload_commitment r"
      "audit_payload_commitment env r' = jr_payload_commitment r'" by (simp_all add: committed_def)
    have "audit_payload_commitment env r = audit_payload_commitment env r'" unfolding c eq(5) ..
    then have "sha256 env (payload_text r) = sha256 env (payload_text r')"
      unfolding audit_payload_commitment_def by (rule hex_text_inj)
    then have "payload_text r = payload_text r'" by (rule inj_onD [OF inj]) (use that in \<open>simp_all add: row_texts_def\<close>)
    with assms(6,7) show ?thesis by (intro payload_inj)
  qed
  with eq assms(3) show ?thesis by (auto simp: same_event_def)
qed

lemma links_head:
  assumes "sha256_32 env" and "links env key genesis rs"
  shows "head_hash genesis rs = genesis \<longleftrightarrow> rs = []"
proof (cases rs rule: rev_cases)
  case (snoc xs r)
  with assms(2) have "jr_audit_hash r = row_mac env key (head_hash genesis xs) r" by simp
  then have "length (jr_audit_hash r) = 64" using length_mac [OF assms(1)] by (simp add: row_mac_def)
  then have "jr_audit_hash r \<noteq> genesis" by (auto simp: genesis_def)
  with snoc show ?thesis by simp
qed simp

lemma links_same:
  assumes sha: "sha256_32 env" and "links env key genesis rs" and "links env key genesis rs'"
    and "head_hash genesis rs = head_hash genesis rs'" and "\<forall>r \<in> set rs \<union> set rs'. row_fits r"
    and "inj_on (sha256 env) (chain_texts env key genesis rs \<union> chain_texts env key genesis rs')"
  shows "list_all2 same_event rs rs'"
  using assms(2-)
proof (induction rs arbitrary: rs' rule: rev_induct)
  case Nil
  then show ?case using links_head [OF sha, of key rs'] by simp
next
  case (snoc r rs)
  show ?case
  proof (cases rs' rule: rev_cases)
    case Nil
    with snoc.prems links_head [OF sha, of key "rs @ [r]"] show ?thesis by simp
  next
    case (snoc rs1 r1)
    note prems = snoc.prems [unfolded snoc, simplified]
    have "head_hash genesis rs = head_hash genesis rs1 \<and> same_event r r1"
      by (rule same_last [of env key]) (use prems head_fits in \<open>auto elim: inj_on_subset\<close>)
    moreover have "list_all2 same_event rs rs1"
      by (rule snoc.IH) (use prems calculation in \<open>auto elim: inj_on_subset\<close>)
    ultimately show ?thesis unfolding snoc by (simp add: list_all2_appendI)
  qed
qed

text \<open>C15.
  The last hash commits to the whole journal. Two journals that verify under the same key and whose chains end
  in the same hash have the same events in the same order: the same ids, times, workspaces and commitments, and
  the same content wherever neither is redacted. So whoever keeps the last hash detects every event that was
  changed, moved, inserted or removed. The hypothesis on SHA-256 is that it does not collide on the texts
  hashed in verifying the two journals; every column fits a 64-bit length.
\<close>

theorem last_hash_commits_to_journal:
  assumes "sha256_32 env" and "au_key db' = au_key db"
    and "inj_on (sha256 env) (chain_texts env (au_key db) genesis (chain_rows (au_journal db)) \<union>
      chain_texts env (au_key db) genesis (chain_rows (au_journal db')))"
    and "\<forall>r \<in> set (au_journal db) \<union> set (au_journal db'). row_fits r"
    and "verify_audit_chain env db = Inr n" and "verify_audit_chain env db' = Inr n'"
    and "head_hash genesis (chain_rows (au_journal db)) = head_hash genesis (chain_rows (au_journal db'))"
  shows "n = n' \<and> list_all2 same_event (chain_rows (au_journal db)) (chain_rows (au_journal db'))"
proof -
  have "list_all2 same_event (chain_rows (au_journal db)) (chain_rows (au_journal db'))"
    using assms by (intro links_same [OF assms(1)]) (auto simp: verify_Inr set_chain_rows)
  moreover then have "length (chain_rows (au_journal db)) = length (chain_rows (au_journal db'))" by (rule list_all2_lengthD)
  ultimately show ?thesis using assms(5,6) by (simp add: verify_Inr)
qed

section \<open>What the chain does not catch\<close>

text \<open>A row marked as redacted is not compared with its commitment: any content can be put into a row of the
  journal together with that mark, and the chain still verifies.\<close>

lemma forged_redaction_verifies:
  assumes "verify_audit_chain env db = Inr n"
  shows "verify_audit_chain env (db\<lparr>au_journal := map (\<lambda>r. if je_id r = i then r\<lparr>je_event_type := ''redacted'', je_evaluated_json := ev,
    je_acted_json := ac, je_forward_json := fw, je_category := cat, je_key := k, je_entity_id := eid, je_agent_id := ag\<rparr> else r)
      (au_journal db)\<rparr>) = Inr n"
proof -
  let ?g = "\<lambda>r. if je_id r = i then r\<lparr>je_event_type := ''redacted'', je_evaluated_json := ev,
    je_acted_json := ac, je_forward_json := fw, je_category := cat, je_key := k, je_entity_id := eid, je_agent_id := ag\<rparr> else r"
  have keep: "\<forall>r \<in> set (au_journal db). keeps_link env ?g r" by (simp add: keeps_link_def committed_def)
  from links_keeps [OF keep] chain_rows_keeps [OF keep] assms show ?thesis by (auto simp: verify_Inr)
qed

lemma sort_key_oldest: "\<forall>y \<in> set xs. f x < f y \<Longrightarrow> sort_key f (xs @ [x]) = x # sort_key f xs"
  by (induction xs) auto

text \<open>An event that is appended with a time before that of the events already there, for example because a
  concurrent call took its time earlier and wrote later, is linked to the newest event but read first: from then
  on the chain does not verify, unless its two possible links collide.\<close>

lemma late_event_breaks_chain:
  assumes "sha256_32 env" and "verify_audit_chain env db = Inr n" and "journal env db writ e = Inr db'"
    and "\<forall>r \<in> set (au_journal db). je_created_at e < je_created_at r"
    and "row_mac env (au_key db) genesis (journal_row_of env db writ e) \<noteq> jr_audit_hash (journal_row_of env db writ e)"
  shows "verify_audit_chain env db' = Inl (LinkMismatch (je_id e) (au_key db \<noteq> None))"
proof -
  let ?x = "journal_row_of env db writ e"
  from assms(3) have db': "db' = db\<lparr>au_journal := au_journal db @ [?x]\<rparr>"
    by (auto simp: journal_def journal_with_conn_def split: if_splits)
  have "jr_audit_hash ?x \<noteq> []" using mac_not_Nil [OF assms(1)] by (simp add: journal_row_of_sel row_mac_def)
  then have "chain_rows (au_journal db @ [?x]) = ?x # chain_rows (au_journal db)"
    using assms(4) sort_key_oldest [of "filter (\<lambda>r. jr_audit_hash r \<noteq> []) (au_journal db)" je_created_at ?x]
    by (simp add: chain_rows_def journal_row_of_sel(2))
  moreover have "\<not> (map_option fst (au_chain db) = Some KEYED_SCHEME \<and> au_key db = None)" using assms(2) by (simp add: verify_Inr)
  ultimately show ?thesis
    using assms(5) by (simp add: db' verify_audit_chain_def verify_loop_Cons journal_row_of_sel(1,5) del: verify_loop.simps(2))
qed

section \<open>A sample journal\<close>

definition chain_env :: digest_env where
  "chain_env = \<lparr>sha256 = (\<lambda>s. le_bytes64 (int (length s)) @ replicate 24 (CHR ''x'')), json_text = (\<lambda>_. ''{}'')\<rparr>"

definition sample_event :: journal_event where
  "sample_event = \<lparr>je_id = ''j1'', je_event_type = ''decision'', je_evaluated_json = [], je_acted_json = [], je_forward_json = [],
     je_category = [], je_key = [], je_entity_id = [], je_agent_id = [], je_workspace_hash = [], je_created_at = 10\<rparr>"

definition no_records :: temporal_db where
  "no_records = \<lparr>td_live = [], td_history = [], td_tombstones = [], td_overlay = Absent, td_agents = []\<rparr>"

definition sample_row :: journal_row where
  "sample_row = journal_row_of chain_env (empty_journal no_records) [] sample_event"

definition sample_journal :: audit_db where
  "sample_journal = (empty_journal no_records)\<lparr>au_journal := [sample_row]\<rparr>"

lemma chain_env_32: "sha256_32 chain_env"
  by (simp add: sha256_32_def chain_env_def)

lemma sample_appended: "journal chain_env (empty_journal no_records) [] sample_event = Inr sample_journal"
  by (simp add: journal_def journal_with_conn_def sample_journal_def sample_row_def empty_journal_def sample_event_def)

lemma sample_steps:
  "audit_step chain_env {''k''} (empty_journal no_records) sample_journal"
  "audit_step chain_env {''k''} sample_journal (rotate_chain chain_env sample_journal ''k'')"
  using audit_step.append [OF sample_appended] by (simp_all add: empty_journal_def audit_step.rotate)

theorem rehash_then_verify_witness:
  "verify_audit_chain chain_env (sample_journal\<lparr>au_journal := snd (rehash_audit_chain_keyed chain_env None [sample_row\<lparr>jr_audit_hash := ''x''\<rparr>])\<rparr>) = Inr 1"
proof -
  let ?db = "sample_journal\<lparr>au_journal := [sample_row\<lparr>jr_audit_hash := ''x''\<rparr>]\<rparr>"
  have "rowids_ok (au_journal ?db)" "au_key ?db = None \<longrightarrow> au_chain ?db = None" "au_key ?db = None"
    by (simp_all add: rowids_ok_def sample_journal_def empty_journal_def)
  note db = this
  obtain n rows where nr: "rehash_audit_chain_keyed chain_env None (au_journal ?db) = (n, rows)" by fastforce
  with db have "rehash_audit_chain_keyed chain_env (au_key ?db) (au_journal ?db) = (n, rows)" by simp
  from rehash_then_verify [OF chain_env_32 db(1) this db(2)] nr show ?thesis by simp
qed

theorem journal_always_verifies_witness:
  "verify_audit_chain chain_env (rotate_chain chain_env sample_journal ''k'') = Inr 1"
proof -
  have "(audit_step chain_env {''k''})\<^sup>*\<^sup>* (empty_journal no_records) (rotate_chain chain_env sample_journal ''k'')"
    using sample_steps by (meson rtranclp.rtrancl_into_rtrancl rtranclp.rtrancl_refl)
  from journal_always_verifies [OF chain_env_32 _ this] show ?thesis
    by (simp add: rotate_chain_def rehash_audit_chain_keyed_def sample_journal_def)
qed

lemma sample_row_sel:
  "je_id sample_row = ''j1''" "je_created_at sample_row = 10" "je_workspace_hash sample_row = []" "payload_fields sample_row = [''decision'', [], [], [], [], [], [], []]"
  "jr_payload_commitment sample_row = audit_payload_commitment chain_env sample_event" "je_event_type sample_row = ''decision''"
  by (simp_all add: sample_row_def journal_row_of_def Let_def event_workspace_def sample_event_def payload_fields_def journal_event.defs journal_row.defs)

lemma sample_row_lengths: "length (jr_payload_commitment sample_row) = 64" "length (jr_audit_hash sample_row) = 64"
  using length_mac [OF chain_env_32] chain_env_32
  by (simp_all add: sample_row_sel audit_payload_commitment_def length_hex_text sha256_32_def) (simp add: sample_row_def journal_row_of_sel row_mac_def)

lemma sample_chain: "chain_rows [sample_row] = [sample_row]"
  using sample_row_lengths(2) by (auto simp: chain_rows_def)

lemma sample_texts_inj: "inj_on (sha256 chain_env) (chain_texts chain_env None genesis [sample_row])"
proof -
  have "length (row_text genesis sample_row) = 121" "length (payload_text sample_row) = 72"
    using sample_row_lengths(1) sample_row_sel(4)
    by (simp_all add: row_text_def link_text_def audit_feed_def sample_row_sel(1-3) genesis_def payload_text_def payload_fields_def)
  then have "sha256 chain_env (row_text genesis sample_row) \<noteq> sha256 chain_env (payload_text sample_row)"
    using le_bytes64_mod [of 121 72] by (auto simp: chain_env_def)
  then show ?thesis by (auto simp: row_texts_def mac_texts_def sample_row_sel(6))
qed

theorem last_hash_commits_to_journal_witness:
  "list_all2 same_event (chain_rows (au_journal sample_journal)) (chain_rows (au_journal sample_journal))"
proof -
  have j: "au_journal sample_journal = [sample_row]" "au_key sample_journal = None"
    by (simp_all add: sample_journal_def empty_journal_def)
  have v: "verify_audit_chain chain_env sample_journal = Inr 1"
    using audit_ok_verifies [OF audit_step_ok [OF chain_env_32 _ sample_steps(1)]]
    by (simp add: audit_ok_def key_recorded_def empty_journal_def chain_rows_def sample_journal_def)
  have "row_fits sample_row"
    using sample_row_lengths by (simp add: row_fits_def sample_row_sel(1-4) in_i64_def i64_min_def i64_max_def)
  with last_hash_commits_to_journal [OF chain_env_32 refl _ _ v v refl] sample_texts_inj show ?thesis
    by (simp add: j sample_chain)
qed

end
