(* ===== verification/Write_Gates.thy ===== *)
theory Write_Gates
  imports Audit_Chain
begin

text \<open>
  The gates a durable write of \<open>src/src/db.rs\<close> passes before it may change a record: the trust a
  writer may claim, the evidence of an admission or of a review, the visibility of a derived
  record, the tombstones of rejected values, the repair of a record with extraction losses
  (\<open>src/src/extraction_loss.rs\<close>) and the interference gate (\<open>src/src/interference.rs\<close>) with its
  quarantine. A step may fail and leaves the store as it was at that point, because these
  statements are not in one transaction. Outside the model, as functions of the record
  \<open>write_env\<close>, are the parsers of links and of evidence, the measurement of the interference
  score and of the activation of a link (floating-point numbers, embeddings and the text
  index), the search for near-duplicates and the environment variables. The clock is read
  once for each write.
\<close>

section \<open>Records\<close>

text \<open>The weight of a link is its decimal text.\<close>

record memory_link =
  ml_target_id :: string
  ml_relationship :: string
  ml_weight :: string
  ml_source :: "string option"
  ml_kind :: "string option"
  ml_asserted_at :: "int option"

text \<open>The struct a writer passes, without the two floating-point numbers and the fields that this path
  does not store.\<close>

record memory =
  me_id :: string
  me_category :: string
  me_key :: string
  me_body_json :: string
  me_status :: string
  me_type :: string
  me_tags :: "string list"
  me_retrieval_count :: int
  me_layer :: string
  me_topic_path :: string
  me_archived :: bool
  me_archive_reason :: string
  me_links :: "memory_link list"
  me_verified :: bool
  me_source :: string
  me_always_on :: bool
  me_workspace_hash :: string
  me_agent_id :: string
  me_visibility :: string
  me_created_at :: int
  me_last_accessed :: int
  me_epistemic_state :: string
  me_hints :: "string list"
  me_memory_type :: string

record residual_span =
  rs_entity_id :: string
  rs_text :: string
  rs_status :: string
  rs_created_ms :: int

record quarantine_row =
  qr_id :: string
  qr_category :: string
  qr_key :: string
  qr_body_json :: string
  qr_links :: string
  qr_tags :: string
  qr_status :: string
  qr_entity_type :: string
  qr_visibility :: string
  qr_topic_path :: string
  qr_always_on :: int
  qr_agent_id :: string
  qr_workspace_hash :: string
  qr_valid_from :: "int option"
  qr_valid_to :: "int option"
  qr_interference_json :: string
  qr_reason :: string
  qr_created_at :: int

text \<open>\<open>md_lossy_units\<close> pairs an entity id with its status.\<close>

record memory_db =
  md_audit :: audit_db
  md_lossy_units :: "(string \<times> string) list"
  md_residual_spans :: "residual_span list"
  md_quarantine :: "quarantine_row list"

abbreviation md_store :: "memory_db \<Rightarrow> temporal_db" where
  "md_store db \<equiv> au_store (md_audit db)"

definition set_store :: "temporal_db \<Rightarrow> memory_db \<Rightarrow> memory_db" where
  "set_store td db = db\<lparr>md_audit := (md_audit db)\<lparr>au_store := td\<rparr>\<rparr>"

datatype interference_mode = Quarantine | Refuse | Off

datatype interference_decision = Allow | Hold | Deny

text \<open>The measured overlap: whether the score is above the bound, the two numbers with three decimals, and
  the serialised report for a mode and a decision.\<close>

record measurement =
  ms_exceeds :: bool
  ms_score :: string
  ms_bound :: string
  ms_report :: "string \<Rightarrow> string \<Rightarrow> string"

record gate_options =
  go_sparse_update :: bool
  go_mode_override :: "interference_mode option"
  go_bound_override :: "string option"
  go_exclude_ids :: "string list"

definition no_options :: gate_options where
  "no_options = \<lparr>go_sparse_update = False, go_mode_override = None, go_bound_override = None, go_exclude_ids = []\<rparr>"

datatype write_error =
    Refused string
  | ParseRefused string
  | JournalFailed journal_error
  | ReadFailed gate_error

text \<open>\<open>we_below_activation hits n\<close> is \<open>hits as f64 / n as f64 < sparse_activation\<close>.\<close>

record write_env =
  we_store :: store_env
  we_writ :: string
  we_parse_links :: "string \<Rightarrow> memory_link list option"
  we_links_text :: "memory_link list \<Rightarrow> string"
  we_parse_evidence :: "json \<Rightarrow> admission_evidence option"
  we_hmac_key :: "string option"
  we_mode :: interference_mode
  we_measure :: "temporal_db \<Rightarrow> memory \<Rightarrow> string list \<Rightarrow> string option \<Rightarrow> measurement result"
  we_near_duplicate :: "temporal_db \<Rightarrow> string \<Rightarrow> string \<Rightarrow> string \<Rightarrow> string option"
  we_below_activation :: "nat \<Rightarrow> nat \<Rightarrow> bool"

abbreviation we_gate :: "write_env \<Rightarrow> gate_env" where
  "we_gate env \<equiv> se_gate (we_store env)"

abbreviation we_digest :: "write_env \<Rightarrow> digest_env" where
  "we_digest env \<equiv> ge_digest (we_gate env)"

text \<open>The random ids of one write.\<close>

record write_ids =
  wi_journal :: string
  wi_scored :: string
  wi_verdict :: string
  wi_sparse :: string
  wi_history :: string
  wi_quarantine :: string

section \<open>Steps that may fail\<close>

type_synonym 'a write_step = "memory_db \<Rightarrow> (write_error + 'a) \<times> memory_db"

definition return_w :: "'a \<Rightarrow> 'a write_step" where
  "return_w x = (\<lambda>db. (Inr x, db))"

definition fail_w :: "write_error \<Rightarrow> 'a write_step" where
  "fail_w e = (\<lambda>db. (Inl e, db))"

definition bind_w :: "'a write_step \<Rightarrow> ('a \<Rightarrow> 'b write_step) \<Rightarrow> 'b write_step" where
  "bind_w f g = (\<lambda>db. case f db of (Inl e, db1) \<Rightarrow> (Inl e, db1) | (Inr x, db1) \<Rightarrow> g x db1)"

definition try_w :: "(write_error + 'a) \<Rightarrow> 'a write_step" where
  "try_w r = (\<lambda>db. (r, db))"

definition read_w :: "(memory_db \<Rightarrow> write_error + 'a) \<Rightarrow> 'a write_step" where
  "read_w f = (\<lambda>db. (f db, db))"

definition modify_w :: "(memory_db \<Rightarrow> memory_db) \<Rightarrow> unit write_step" where
  "modify_w f = (\<lambda>db. (Inr (), f db))"

text \<open>A transaction on the records: an error leaves them as they were.\<close>

definition transact_w :: "(temporal_db \<Rightarrow> write_error + 'a \<times> temporal_db) \<Rightarrow> 'a write_step" where
  "transact_w f = (\<lambda>db. case f (md_store db) of Inl e \<Rightarrow> (Inl e, db) | Inr (x, td) \<Rightarrow> (Inr x, set_store td db))"

definition journal_conn_w :: "write_env \<Rightarrow> journal_event \<Rightarrow> unit write_step" where
  "journal_conn_w env e = (\<lambda>db. case journal_with_conn (we_digest env) (md_audit db) (we_writ env) e of
     Inl err \<Rightarrow> (Inl (JournalFailed err), db) | Inr a \<Rightarrow> (Inr (), db\<lparr>md_audit := a\<rparr>))"

definition journal_w :: "write_env \<Rightarrow> journal_event \<Rightarrow> unit write_step" where
  "journal_w env e = (\<lambda>db. case journal (we_digest env) (md_audit db) (we_writ env) e of
     Inl err \<Rightarrow> (Inl (JournalFailed err), db) | Inr a \<Rightarrow> (Inr (), db\<lparr>md_audit := a\<rparr>))"

definition write_event :: "string \<Rightarrow> string \<Rightarrow> string \<Rightarrow> string \<Rightarrow> string \<Rightarrow> string \<Rightarrow> memory \<Rightarrow> int \<Rightarrow> journal_event" where
  "write_event jid ty evaluated acted forward eid m now = \<lparr>je_id = jid, je_event_type = ty, je_evaluated_json = evaluated,
     je_acted_json = acted, je_forward_json = forward, je_category = me_category m, je_key = me_key m,
     je_entity_id = eid, je_agent_id = me_agent_id m, je_workspace_hash = me_workspace_hash m, je_created_at = now\<rparr>"

section \<open>Trust\<close>

datatype durable_write_authority =
    Unverified
  | InternalTrusted string
  | Admission admission_evidence
  | ReviewTransition admission_evidence

definition EPISTEMIC_STATES :: "string list" where
  "EPISTEMIC_STATES = [''candidate'', ''verified'', ''corroborated'', ''rejected'', ''defensively_recalled'']"

text \<open>The branch of the test build is left out.\<close>

definition elevate :: "memory \<Rightarrow> memory" where
  "elevate m =
     (let m1 = (if me_epistemic_state m \<notin> set EPISTEMIC_STATES then m\<lparr>me_epistemic_state := ''candidate''\<rparr> else m)
      in if me_epistemic_state m1 = ''candidate'' then m1\<lparr>me_epistemic_state := ''verified''\<rparr> else m1)"

fun ensure_durable_write_provenance :: "memory \<Rightarrow> durable_write_authority \<Rightarrow> memory" where
  "ensure_durable_write_provenance m (Admission _) = elevate m"
| "ensure_durable_write_provenance m (InternalTrusted _) = elevate m"
| "ensure_durable_write_provenance m (ReviewTransition _) = m"
| "ensure_durable_write_provenance m Unverified =
     (let m1 = (if me_status m = ''active'' then m\<lparr>me_status := ''proposed'', me_always_on := False\<rparr> else m)
      in if me_epistemic_state m1 \<noteq> ''rejected'' \<and> me_epistemic_state m1 \<noteq> ''defensively_recalled''
         then m1\<lparr>me_epistemic_state := ''candidate''\<rparr> else m1)"

text \<open>The column on insert and on update.\<close>

definition stored_epistemic_state :: "memory \<Rightarrow> string" where
  "stored_epistemic_state m =
     (if me_epistemic_state m \<in> set EPISTEMIC_STATES then me_epistemic_state m else ''candidate'')"

section \<open>Evidence\<close>

definition without_members :: "string list \<Rightarrow> (string \<times> json) list \<Rightarrow> (string \<times> json) list" where
  "without_members ks ms = filter (\<lambda>m. fst m \<notin> set ks) ms"

text \<open>The check both validations make: the body carries the evidence, and its digest without the envelopes is
  the one the evidence names. The texts are in the order of the checks; \<open>mismatch\<close> is the last one, for the
  digest that was found.\<close>

definition check_stored_evidence ::
    "write_env \<Rightarrow> string list \<Rightarrow> (string \<Rightarrow> string) \<Rightarrow> memory \<Rightarrow> admission_evidence \<Rightarrow> write_error + unit" where
  "check_stored_evidence env texts mismatch m ev =
     (case ge_parse_json (we_gate env) (me_body_json m) of
        None \<Rightarrow> Inl (ParseRefused (texts ! 0))
      | Some (JObj ms) \<Rightarrow>
          (case map_of ms ''admission'' of
             None \<Rightarrow> Inl (Refused (texts ! 2))
           | Some v \<Rightarrow>
               (case we_parse_evidence env v of
                  None \<Rightarrow> Inl (ParseRefused (texts ! 3))
                | Some stored \<Rightarrow>
                    if stored \<noteq> ev then Inl (Refused (texts ! 4))
                    else let body_digest = digest_text (we_digest env) (json_text (we_digest env)
                        (JObj (without_members [''admission'', ''provenance''] ms)))
                      in guard_r (body_digest \<noteq> ae_record_digest ev) (Refused (mismatch body_digest))))
      | Some _ \<Rightarrow> Inl (Refused (texts ! 1)))"

definition admission_texts :: "string list" where
  "admission_texts = [''admission body is not valid JSON: '', ''admission body must be a JSON object'',
     ''durable admission write requires body.admission evidence'', ''stored admission evidence is invalid: '',
     ''stored admission evidence does not match the commit authority'']"

definition review_texts :: "string list" where
  "review_texts = [''review body is not valid JSON: '', ''review body must be a JSON object'',
     ''review transition requires body.admission evidence'', ''stored review evidence is invalid: '',
     ''stored review evidence does not match the transition authority'']"

definition present :: "string option \<Rightarrow> string \<Rightarrow> write_error + string" where
  "present x text = (case x of Some v \<Rightarrow> if blank v then Inl (Refused text) else Inr v | None \<Rightarrow> Inl (Refused text))"

definition evidence_binding :: "admission_evidence \<Rightarrow> string \<Rightarrow> string \<Rightarrow> json" where
  "evidence_binding ev actor_kind actor_identity = JObj
     [(''actor_identity'', JStr actor_identity), (''actor_kind'', JStr actor_kind),
      (''record_digest'', JStr (ae_record_digest ev)), (''source_identity'', JStr (ae_source_identity ev)),
      (''workspace_hash'', JStr (ae_workspace_hash ev))]"

text \<open>\<open>evaluated["redacted"] == true\<close> and \<open>evaluated["sha256"]\<close> is the digest of the binding.\<close>

definition receipt_matches :: "json \<Rightarrow> string \<Rightarrow> bool" where
  "receipt_matches j digest = (case j of
     JObj ms \<Rightarrow> map_of ms ''redacted'' = Some (JBool True) \<and> map_of ms ''sha256'' = Some (JStr digest)
   | _ \<Rightarrow> False)"

definition check_attestation :: "write_env \<Rightarrow> journal_row \<Rightarrow> json \<Rightarrow> write_error + unit" where
  "check_attestation env src binding =
     (case ge_parse_json (we_gate env) (je_acted_json src) of
        None \<Rightarrow> Inl (ParseRefused ''admission source attestation receipt is invalid: '')
      | Some acted \<Rightarrow>
          (case attestation_member acted of
             None \<Rightarrow> Inl (Refused ''admission source receipt lacks attestation proof'')
           | Some proof_text \<Rightarrow>
               if length proof_text \<noteq> 64 \<or> \<not> list_all is_ascii_hexdigit (chars proof_text)
               then Inl (Refused ''admission source receipt lacks attestation proof'')
               else bind_r (map_err (\<lambda>e. Refused (''admission source HMAC validation failed: '' @ e))
                   (admission_source_attestation_digest (we_digest env) (we_hmac_key env) binding (je_agent_id src)))
                 (\<lambda>expected. guard_r (proof_text \<noteq> expected)
                   (Refused ''admission source HMAC proof does not match transport-bound evidence''))))"

definition check_source_event :: "write_env \<Rightarrow> memory_db \<Rightarrow> admission_evidence \<Rightarrow> write_error + unit" where
  "check_source_event env db ev =
     bind_r (present (ae_source_event_id ev) ''authoritative admission requires source_event_id'') (\<lambda>sid.
       case find (\<lambda>r. je_id r = sid) (au_journal (md_audit db)) of
         None \<Rightarrow> Inl (Refused ''authoritative admission source_event_id is not present in journal'')
       | Some src \<Rightarrow>
           if je_event_type src \<noteq> ''admission_source'' \<or> je_workspace_hash src \<noteq> ae_workspace_hash ev \<or> blank (je_agent_id src)
           then Inl (Refused ''admission source event is not bound to workspace/transport identity'')
           else bind_r (present (ae_actor_kind ev) ''authoritative admission requires actor_kind'') (\<lambda>actor_kind.
             bind_r (present (ae_actor_identity ev) ''authoritative admission requires actor_identity'') (\<lambda>actor_identity.
               let binding = evidence_binding ev actor_kind actor_identity in
               case ge_parse_json (we_gate env) (je_evaluated_json src) of
                 None \<Rightarrow> Inl (ParseRefused ''admission source receipt is invalid: '')
               | Some evaluated \<Rightarrow>
                   if \<not> receipt_matches evaluated (digest_text (we_digest env) (json_text (we_digest env) binding))
                   then Inl (Refused ''admission source receipt does not match evidence binding'')
                   else check_attestation env src binding)))"

definition validate_admission_write :: "write_env \<Rightarrow> memory_db \<Rightarrow> memory \<Rightarrow> admission_evidence \<Rightarrow> write_error + unit" where
  "validate_admission_write env db m ev = check_all
     [map_err (\<lambda>e. Refused (''admission evidence rejected at durable boundary: '' @ e)) (evidence_validate (we_digest env) ev),
      guard_r (ae_outcome ev \<noteq> ''admitted'' \<or> \<not> ae_authoritative ev \<or> \<not> ae_durable ev)
        (Refused ''only durable authoritative admitted evidence may activate a row''),
      check_stored_evidence env admission_texts (\<lambda>d. ''admission record_digest does not match canonical entity body: expected '' @
        ae_record_digest ev @ '', got '' @ d) m ev,
      check_source_event env db ev]"

definition validate_review_transition :: "write_env \<Rightarrow> memory \<Rightarrow> admission_evidence \<Rightarrow> write_error + unit" where
  "validate_review_transition env m ev = check_all
     [map_err (\<lambda>e. Refused (''review evidence rejected at durable boundary: '' @ e)) (evidence_validate (we_digest env) ev),
      guard_r (ae_outcome ev = ''admitted'' \<or> ae_authoritative ev \<or> ae_durable ev)
        (Refused ''review transition requires non-authoritative non-durable evidence''),
      guard_r (me_status m = ''active'' \<and> \<not> me_archived m)
        (Refused ''non-admitted review transition cannot leave an active row''),
      check_stored_evidence env review_texts
        (\<lambda>d. ''review transition record_digest does not match canonical entity body'') m ev]"

text \<open>The \<open>match\<close> on the authority, which occurs twice.\<close>

fun validate_authority :: "write_env \<Rightarrow> memory_db \<Rightarrow> memory \<Rightarrow> durable_write_authority \<Rightarrow> write_error + unit" where
  "validate_authority env db m (Admission ev) = validate_admission_write env db m ev"
| "validate_authority env db m (ReviewTransition ev) = validate_review_transition env m ev"
| "validate_authority env db m _ = Inr ()"

section \<open>Derived visibility\<close>

definition visibility_rank :: "string \<Rightarrow> nat" where
  "visibility_rank v =
     (if v = ''private'' then 0 else if v = ''fleet'' then 1 else if v = ''workspace'' \<or> v = ''tenant'' then 2 else 3)"

definition more_restrictive_visibility :: "string \<Rightarrow> string \<Rightarrow> string" where
  "more_restrictive_visibility a b = (if visibility_rank a \<le> visibility_rank b then a else b)"

definition derived_targets :: "memory \<Rightarrow> string list" where
  "derived_targets m = map ml_target_id (filter (\<lambda>l. ml_relationship l = ''derived_from'') (me_links m))"

fun restrict_loop :: "gate_env \<Rightarrow> gate_db \<Rightarrow> int \<Rightarrow> string \<Rightarrow> string list \<Rightarrow> string option \<Rightarrow> write_error + string option" where
  "restrict_loop env db now writer [] restricted = Inr restricted"
| "restrict_loop env db now writer (tid # ids) restricted =
     bind_r (map_err ReadFailed (get_entity_by_id env db now tid)) (\<lambda>found. case found of
         None \<Rightarrow> Inl (Refused (''write rejected: derived_from target not found: '' @ tid @
           '' (lineage must reference existing rows)''))
       | Some target \<Rightarrow>
           if \<not> can_read db writer (en_visibility target) (en_agent_id target)
           then Inl (Refused (''write rejected: derived_from input '' @ tid @ '' ('' @ en_category target @ '':'' @
             en_key target @ '') is not visible to the writing agent ('' @ writer @
             ''); agents may only derive from inputs they can read''))
           else restrict_loop env db now writer ids (Some (case restricted of
               None \<Rightarrow> en_visibility target
             | Some cur \<Rightarrow> more_restrictive_visibility cur (en_visibility target))))"

definition apply_derived_visibility :: "gate_env \<Rightarrow> gate_db \<Rightarrow> int \<Rightarrow> memory \<Rightarrow> write_error + memory" where
  "apply_derived_visibility env db now m =
     (if derived_targets m = [] then Inr m
      else bind_r (restrict_loop env db now (me_agent_id m) (derived_targets m) None) (\<lambda>restricted.
        Inr (case restricted of
            None \<Rightarrow> m
          | Some most \<Rightarrow> m\<lparr>me_visibility := more_restrictive_visibility (me_visibility m) most\<rparr>)))"

section \<open>Rejected values\<close>

definition is_value_erased :: "write_env \<Rightarrow> string \<Rightarrow> string \<Rightarrow> string \<Rightarrow> bool write_step" where
  "is_value_erased env ws predicate v = read_w (\<lambda>db.
     bind_r (map_err ReadFailed (open_overlay (gate_of (md_store db)))) (\<lambda>sidecar.
       Inr (case sidecar of None \<Rightarrow> False
         | Some t \<Rightarrow> mandate_hit t None ws predicate (rejected_value_digest (we_gate env) v))))"

text \<open>The cleanup of expired tombstones is a statement of its own.\<close>

definition unexpired_tombstones :: "int \<Rightarrow> mandate list \<Rightarrow> mandate list" where
  "unexpired_tombstones now ts = filter (\<lambda>m. case m_expires_at m of None \<Rightarrow> True | Some x \<Rightarrow> x > now) ts"

definition is_value_rejected :: "write_env \<Rightarrow> int \<Rightarrow> string \<Rightarrow> string \<Rightarrow> string \<Rightarrow> bool write_step" where
  "is_value_rejected env now ws predicate v =
     bind_w (modify_w (\<lambda>db. set_store ((md_store db)\<lparr>td_tombstones := unexpired_tombstones now (td_tombstones (md_store db))\<rparr>) db))
       (\<lambda>_. read_w (\<lambda>db. Inr (mandate_hit (td_tombstones (md_store db)) None ws predicate (rejected_value_digest (we_gate env) v))))"

definition is_value_suppressed :: "write_env \<Rightarrow> int \<Rightarrow> string \<Rightarrow> string \<Rightarrow> string \<Rightarrow> bool write_step" where
  "is_value_suppressed env now ws predicate v =
     bind_w (is_value_erased env ws predicate v) (\<lambda>erased.
       if erased then return_w True else is_value_rejected env now ws predicate v)"

definition reject_json :: "write_env \<Rightarrow> memory \<Rightarrow> (string \<times> json) list \<Rightarrow> string" where
  "reject_json env m extra = json_text (we_digest env) (JObj (extra @
     [(''predicate'', JStr (me_category m)), (''subject'', JStr (me_key m)),
      (''value_sha256'', JStr (rejected_value_digest (we_gate env) (me_body_json m)))]))"

definition refuse_rejected :: "write_env \<Rightarrow> int \<Rightarrow> write_ids \<Rightarrow> memory \<Rightarrow> unit write_step" where
  "refuse_rejected env now ids m =
     bind_w (is_value_suppressed env now (me_workspace_hash m) (me_category m) (me_body_json m)) (\<lambda>hit.
       if \<not> hit then return_w ()
       else bind_w (journal_w env (write_event (wi_journal ids) ''rejected_write'' (reject_json env m [])
           ''{\"stored\":false,\"reason\":\"rejected-value tombstone\"}''
           ''{\"override\":\"re-remember with allow_rejected=true\"}'' (me_id m) m now)) (\<lambda>_.
         fail_w (Refused (''write rejected: a tombstone marks this value as rejected (subject='' @ me_key m @
           '', predicate='' @ me_category m @ '', value_sha256='' @ rejected_value_digest (we_gate env) (me_body_json m) @
           ''); re-remember with allow_rejected=true only if this is a deliberate trusted override''))))"

definition note_override :: "write_env \<Rightarrow> int \<Rightarrow> write_ids \<Rightarrow> memory \<Rightarrow> unit write_step" where
  "note_override env now ids m =
     bind_w (is_value_rejected env now (me_workspace_hash m) (me_category m) (me_body_json m)) (\<lambda>hit.
       if \<not> hit then return_w ()
       else journal_w env (write_event (wi_journal ids) ''rejected_write_override''
           (reject_json env m [(''override'', JBool True)])
           ''{\"stored\":true,\"reason\":\"deliberate trusted override\"}''
           ''{\"note\":\"tombstone left in place; future non-override writes stay blocked\"}'' (me_id m) m now))"

definition rejected_value_gate :: "write_env \<Rightarrow> int \<Rightarrow> write_ids \<Rightarrow> bool \<Rightarrow> memory \<Rightarrow> unit write_step" where
  "rejected_value_gate env now ids allow_rejected m =
     (if allow_rejected then note_override env now ids m else refuse_rejected env now ids m)"

section \<open>Repair of extraction losses\<close>

definition repair_appendix :: "string \<Rightarrow> string list \<Rightarrow> string" where
  "repair_appendix body spans = [CHR 0x0A, CHR 0x0A] @ ''## Residual spans (lossy repair)'' @ [CHR 0x0A] @
     concat (map (\<lambda>s. ''- '' @ s @ [CHR 0x0A]) (filter (\<lambda>s. \<not> contains body s) spans))"

text \<open>The appendix goes into the member \<open>text\<close> of an object, otherwise after the body.\<close>

definition append_to_body :: "gate_env \<Rightarrow> string \<Rightarrow> string \<Rightarrow> string" where
  "append_to_body env body appendix =
     (case ge_parse_json env body of
        Some (JObj ms) \<Rightarrow>
          (case map_of ms ''text'' of
             Some (JStr t) \<Rightarrow> json_text (ge_digest env)
               (JObj (map (\<lambda>m. if fst m = ''text'' then (''text'', JStr (t @ appendix)) else m) ms))
           | _ \<Rightarrow> body @ appendix)
      | _ \<Rightarrow> body @ appendix)"

definition repair_target :: "temporal_db \<Rightarrow> string \<Rightarrow> string \<Rightarrow> string option" where
  "repair_target td category key = map_option row_id
     (find (\<lambda>r. row_category r = category \<and> row_key r = key \<and> row_archived r = 0) (td_live td))"

definition open_spans :: "memory_db \<Rightarrow> string \<Rightarrow> string list" where
  "open_spans db eid = map rs_text (sort_key rs_created_ms
     (filter (\<lambda>s. rs_entity_id s = eid \<and> (rs_status s = ''confirmed'' \<or> rs_status s = ''active'')) (md_residual_spans db)))"

definition repair_lossy_body :: "write_env \<Rightarrow> string \<Rightarrow> string \<Rightarrow> string \<Rightarrow> string write_step" where
  "repair_lossy_body env category key body = (\<lambda>db.
     case repair_target (md_store db) category key of
       None \<Rightarrow> (Inr body, db)
     | Some eid \<Rightarrow>
         if (eid, ''lossy'') \<notin> set (md_lossy_units db) then (Inr body, db)
         else if filter (\<lambda>s. \<not> contains body s) (open_spans db eid) = [] then (Inr body, db)
         else (Inr (append_to_body (we_gate env) body (repair_appendix body (open_spans db eid))),
               db\<lparr>md_lossy_units := map (\<lambda>u. if fst u = eid then (eid, ''repaired'') else u) (md_lossy_units db)\<rparr>))"

section \<open>The interference gate\<close>

definition evaluate_interference :: "interference_mode \<Rightarrow> bool \<Rightarrow> interference_decision" where
  "evaluate_interference mode exceeds =
     (case mode of Off \<Rightarrow> Allow
      | Quarantine \<Rightarrow> if exceeds then Hold else Allow
      | Refuse \<Rightarrow> if exceeds then Deny else Allow)"

fun mode_text :: "interference_mode \<Rightarrow> string" where
  "mode_text Quarantine = ''quarantine''"
| "mode_text Refuse = ''refuse''"
| "mode_text Off = ''off''"

definition report_text :: "measurement \<Rightarrow> interference_mode \<Rightarrow> string" where
  "report_text ms mode = ms_report ms (mode_text mode)
     (if mode = Off then ''off'' else if ms_exceeds ms then mode_text mode else ''allowed'')"

datatype gate_verdict = Proceed | Quarantined string string | GateRefused

text \<open>The body at rest.\<close>

definition seal_body :: "write_env \<Rightarrow> string \<Rightarrow> string \<Rightarrow> string \<Rightarrow> string \<Rightarrow> write_error + string" where
  "seal_body env what category key plain =
     (case ge_decrypt (we_gate env) of
        None \<Rightarrow> Inr plain
      | Some _ \<Rightarrow> map_err (\<lambda>e. Refused (''Encryption error in '' @ what @ '': '' @ e))
          (se_encrypt (we_store env) plain category key))"

definition tags_text :: "write_env \<Rightarrow> string list \<Rightarrow> string" where
  "tags_text env ts = json_text (we_digest env) (JArr (map JStr ts))"

definition quarantine_write ::
    "write_env \<Rightarrow> int \<Rightarrow> string \<Rightarrow> memory \<Rightarrow> string \<Rightarrow> int option \<Rightarrow> int option \<Rightarrow> unit write_step" where
  "quarantine_write env now qid m report valid_from valid_to =
     bind_w (try_w (seal_body env ''write quarantine'' (me_category m) (me_key m) (me_body_json m))) (\<lambda>body.
     bind_w (read_w (\<lambda>db. guard_r (qid \<in> set (map qr_id (md_quarantine db)))
       (Refused ''UNIQUE constraint failed: write_quarantine.id''))) (\<lambda>_.
       modify_w (\<lambda>db. db\<lparr>md_quarantine := md_quarantine db @ [\<lparr>qr_id = qid, qr_category = me_category m, qr_key = me_key m,
         qr_body_json = body, qr_links = we_links_text env (me_links m), qr_tags = tags_text env (me_tags m),
         qr_status = me_status m, qr_entity_type = me_type m, qr_visibility = me_visibility m,
         qr_topic_path = me_topic_path m, qr_always_on = (if me_always_on m then 1 else 0), qr_agent_id = me_agent_id m,
         qr_workspace_hash = me_workspace_hash m, qr_valid_from = valid_from, qr_valid_to = valid_to,
         qr_interference_json = report, qr_reason = ''interference'', qr_created_at = now\<rparr>]\<rparr>)))"

fun decision_json :: "interference_decision \<Rightarrow> json" where
  "decision_json Allow = JObj [(''decision'', JStr ''allowed''), (''stored'', JBool True)]"
| "decision_json Hold = JObj [(''decision'', JStr ''quarantined''), (''stored'', JBool False), (''surface'', JStr ''write_quarantine'')]"
| "decision_json Deny = JObj [(''decision'', JStr ''refused''), (''stored'', JBool False)]"

definition hold_hint :: "measurement \<Rightarrow> string" where
  "hold_hint ms = ''interference score '' @ ms_score ms @ '' exceeded bound '' @ ms_bound ms @
     ''; write staged in write_quarantine '' @ em_dash @ '' release or delete via perseus_vault_write_quarantine''"

definition hold_action :: "measurement \<Rightarrow> string" where
  "hold_action ms = ''quarantined (interference score '' @ ms_score ms @ '' > bound '' @ ms_bound ms @ '')''"

definition run_interference_gate ::
    "write_env \<Rightarrow> int \<Rightarrow> write_ids \<Rightarrow> memory \<Rightarrow> string list \<Rightarrow> int option \<Rightarrow> int option \<Rightarrow> gate_options \<Rightarrow> gate_verdict write_step" where
  "run_interference_gate env now ids m exclude valid_from valid_to opts =
     bind_w (read_w (\<lambda>db. map_err Refused (we_measure env (md_store db) m exclude (go_bound_override opts)))) (\<lambda>ms.
       let mode = or_else (go_mode_override opts) (we_mode env);
           decision = evaluate_interference mode (ms_exceeds ms);
           report = report_text ms mode
       in bind_w (journal_conn_w env (write_event (wi_scored ids) ''interference_scored'' report
             (json_text (we_digest env) (decision_json decision))
             ''{\"note\":\"per-write interference score; drift observable via timeline\"}'' (me_id m) m now)) (\<lambda>_.
          case decision of
            Allow \<Rightarrow> return_w Proceed
          | Hold \<Rightarrow>
              bind_w (quarantine_write env now (wi_quarantine ids) m report valid_from valid_to) (\<lambda>_.
              bind_w (journal_conn_w env (write_event (wi_verdict ids) ''interference_quarantined'' report
                (json_text (we_digest env) (JObj [(''hint'', JStr (hold_hint ms)),
                  (''quarantine_id'', JStr (wi_quarantine ids)), (''stored'', JBool False)]))
                ''{\"note\":\"quarantined writes are never served; operator review required\"}'' (wi_quarantine ids) m now)) (\<lambda>_.
                return_w (Quarantined (wi_quarantine ids) (hold_action ms))))
          | Deny \<Rightarrow>
              bind_w (journal_conn_w env (write_event (wi_verdict ids) ''interference_refused'' report
                ''{\"stored\":false,\"reason\":\"interference bound exceeded\"}''
                ''{\"note\":\"raise PERSEUS_VAULT_INTERFERENCE_BOUND or set mode=quarantine to stage instead\"}'' (me_id m) m now))
              (\<lambda>_. return_w GateRefused)))"

text \<open>The \<open>match\<close> on the verdict: a held write ends with the id of its quarantine row.\<close>

definition gate_refusal :: "memory \<Rightarrow> write_error" where
  "gate_refusal m = Refused (''write refused: interference score exceeds the configured bound (subject='' @ me_key m @
     '', predicate='' @ me_category m @ '')'')"

definition on_verdict :: "memory \<Rightarrow> (string \<times> string) write_step \<Rightarrow> gate_verdict \<Rightarrow> (string \<times> string) write_step" where
  "on_verdict m go_on verdict =
     (case verdict of
        Proceed \<Rightarrow> go_on
      | Quarantined qid action \<Rightarrow> return_w (qid, action)
      | GateRefused \<Rightarrow> fail_w (gate_refusal m))"

end
