(* ===== verification/Remember.thy ===== *)
theory Remember
  imports Write_Gates
begin

text \<open>
  The durable writer of \<open>src/src/db.rs\<close>, \<open>remember_impl_with_authority\<close>: the gates, the update of the
  record with the same category, key and workspace or the insertion of a new one, and the
  release and the deletion of a quarantined write. The update is one transaction on the
  records. Not modelled are the text index, the signatures for near-duplicates, the
  embeddings and their queue, the fingerprint and the marker on derived projections: they are
  derived from the rows and no function here reads them.
\<close>

section \<open>Tokens\<close>

text \<open>\<open>split\<close> on the characters that are not ASCII letters or digits, with the empty pieces.\<close>

fun split_alnum :: "rchar list \<Rightarrow> rchar list \<Rightarrow> rchar list list" where
  "split_alnum acc [] = [rev acc]"
| "split_alnum acc (c # cs) =
     (if is_ascii_alphanumeric c then split_alnum (c # acc) cs else rev acc # split_alnum [] cs)"

text \<open>Keeps the first of equal elements.\<close>

fun first_seen :: "'a list \<Rightarrow> 'a list" where
  "first_seen [] = []"
| "first_seen (x # xs) = x # filter (\<lambda>y. y \<noteq> x) (first_seen xs)"

definition tokenize :: "gate_env \<Rightarrow> string \<Rightarrow> string list" where
  "tokenize env s = first_seen (map of_chars (filter (\<lambda>w. length w \<ge> 2 \<or> (w \<noteq> [] \<and> list_all is_ascii_digit w))
     (split_alnum [] (chars (ge_lower env s)))))"

fun collect_strings :: "gate_env \<Rightarrow> json \<Rightarrow> string list" where
  "collect_strings env (JStr s) = tokenize env s"
| "collect_strings env (JArr items) = concat (map (collect_strings env) items)"
| "collect_strings env (JObj ms) = concat (map (\<lambda>m. collect_strings env (snd m)) ms)"
| "collect_strings env _ = []"

definition body_tokens :: "gate_env \<Rightarrow> string \<Rightarrow> string list" where
  "body_tokens env body = first_seen (case ge_parse_json env body of
     Some j \<Rightarrow> collect_strings env j
   | None \<Rightarrow> tokenize env body)"

section \<open>The plan of a write\<close>

text \<open>The text of a body as a record stores it, read back; \<open>what\<close> begins the message.\<close>

definition plain_body :: "write_env \<Rightarrow> string \<Rightarrow> version_row \<Rightarrow> write_error + string" where
  "plain_body env what r =
     (case ge_decrypt (we_gate env) of
        None \<Rightarrow> Inr (row_body_json r)
      | Some _ \<Rightarrow> map_err (\<lambda>e. Refused (what @ e))
          (se_legacy_decrypt (we_store env) (row_body_json r) (row_category r) (row_key r)))"

definition envelope_key :: "string \<Rightarrow> string" where
  "envelope_key k = CHR 0x22 # k @ [CHR 0x22]"

definition semantic_body_text :: "gate_env \<Rightarrow> string \<Rightarrow> string" where
  "semantic_body_text env body =
     (let keys = [''admission'', ''provenance'', ''source_chain''] in
      if \<not> list_ex (\<lambda>k. contains body (envelope_key k)) keys then body
      else case ge_parse_json env body of
        Some (JObj ms) \<Rightarrow> if list_ex (\<lambda>m. fst m \<in> set keys) ms
          then json_text (ge_digest env) (JObj (without_members keys ms)) else body
      | _ \<Rightarrow> body)"

definition stamp_link_sources :: "string \<Rightarrow> memory_link list \<Rightarrow> memory_link list" where
  "stamp_link_sources eid links =
     map (\<lambda>l. if ml_source l = None then l\<lparr>ml_source := Some eid\<rparr> else l) links"

text \<open>What both branches store: the body as it was repaired, the same at rest, and the hints.\<close>

record sealed =
  sl_effective :: string
  sl_body :: string
  sl_hints :: string

definition dedup_body :: "write_env \<Rightarrow> sealed \<Rightarrow> string" where
  "dedup_body env s =
     (case ge_decrypt (we_gate env) of Some _ \<Rightarrow> sl_body s | None \<Rightarrow> semantic_body_text (we_gate env) (sl_effective s))"

definition identity_row :: "temporal_db \<Rightarrow> memory \<Rightarrow> version_row option" where
  "identity_row td m = find (\<lambda>r. row_category r = me_category m \<and> row_key r = me_key m \<and>
     row_workspace r = Some (me_workspace_hash m)) (td_live td)"

section \<open>The update of an existing record\<close>

definition compute_layer :: "int \<Rightarrow> string" where
  "compute_layer n = (if n \<ge> 20 then ''core'' else if n \<ge> 5 then ''working'' else ''buffer'')"

text \<open>Caller links are added to the stored ones; a sparse update keeps only links whose target the new body
  activates. The targets that were dropped come second.\<close>

definition link_activated :: "write_env \<Rightarrow> temporal_db \<Rightarrow> string list \<Rightarrow> string \<Rightarrow> write_error + bool" where
  "link_activated env td tokens target =
     bind_r (case live_row td target of
         None \<Rightarrow> Inr []
       | Some r \<Rightarrow> bind_r (plain_body env (''sparse-link target '' @ row_category r @ '':'' @ row_key r @
             '' failed body authentication: '') r) (\<lambda>plain. Inr (body_tokens (we_gate env) plain))) (\<lambda>target_tokens.
       Inr (\<not> we_below_activation env (length (filter (\<lambda>t. t \<in> set target_tokens) tokens)) (length tokens)))"

fun merge_links ::
    "write_env \<Rightarrow> temporal_db \<Rightarrow> bool \<Rightarrow> string list \<Rightarrow> string \<Rightarrow> memory_link list \<Rightarrow> memory_link list \<Rightarrow>
     write_error + memory_link list \<times> string list"
where
  "merge_links env td sparse tokens eid merged [] = Inr (merged, [])"
| "merge_links env td sparse tokens eid merged (l # ls) =
     (if list_ex (\<lambda>x. ml_target_id x = ml_target_id l) merged then merge_links env td sparse tokens eid merged ls
      else bind_r (if sparse \<and> tokens \<noteq> [] then link_activated env td tokens (ml_target_id l) else Inr True) (\<lambda>admit.
        if admit then merge_links env td sparse tokens eid (merged @ stamp_link_sources eid [l]) ls
        else bind_r (merge_links env td sparse tokens eid merged ls) (\<lambda>(links, dropped).
          Inr (links, ml_target_id l # dropped))))"

text \<open>Whether a re-assertion of the same body moves the bounds of a closed period, and then the old
  start.\<close>

definition audit_reassert_from :: "bool \<Rightarrow> int option \<Rightarrow> int option \<Rightarrow> version_row \<Rightarrow> int option" where
  "audit_reassert_from changed valid_from valid_to r =
     (if \<not> changed \<and> (valid_from \<noteq> None \<or> valid_to \<noteq> None) then
        let new_from = or_else valid_from (valid_start r);
            new_to = (case valid_to of None \<Rightarrow> row_valid_to r | Some t \<Rightarrow> Some t)
        in if row_valid_to r \<noteq> None \<and> (new_from \<noteq> valid_start r \<or> new_to \<noteq> row_valid_to r)
           then Some (valid_start r) else None
      else None)"

definition to_refusal :: "int \<Rightarrow> int \<Rightarrow> write_error" where
  "to_refusal vt eff_from = Refused (''valid_to_unix_ms ('' @ show_int vt @ '') must be greater than the fact'' @ [CHR 0x27] @
     ''s effective valid_from ('' @ show_int eff_from @ '') '' @ em_dash @ '' refusing to invert the valid period'')"

definition from_refusal :: "int \<Rightarrow> int \<Rightarrow> write_error" where
  "from_refusal vf et = Refused (''valid_from_unix_ms ('' @ show_int vf @ '') must be less than the fact'' @ [CHR 0x27] @
     ''s effective valid_to ('' @ show_int et @ '') '' @ em_dash @ '' refusing to invert the valid period'')"

definition check_period :: "bool \<Rightarrow> int \<Rightarrow> int option \<Rightarrow> int option \<Rightarrow> version_row \<Rightarrow> write_error + unit" where
  "check_period changed now valid_from valid_to r =
     (case valid_to of
        Some vt \<Rightarrow>
          let eff_from = (case valid_from of Some vf \<Rightarrow> vf | None \<Rightarrow> if changed then now else valid_start r)
          in guard_r (vt \<le> eff_from) (to_refusal vt eff_from)
      | None \<Rightarrow>
          (case valid_from of
             None \<Rightarrow> Inr ()
           | Some vf \<Rightarrow>
               (case row_valid_to r of
                  Some et \<Rightarrow> guard_r (\<not> changed \<and> vf \<ge> et) (from_refusal vf et)
                | None \<Rightarrow> Inr ())))"

definition update_columns ::
    "write_env \<Rightarrow> memory \<Rightarrow> sealed \<Rightarrow> bool \<Rightarrow> string \<Rightarrow> int \<Rightarrow> int option \<Rightarrow> int option \<Rightarrow> version_row \<Rightarrow> version_row" where
  "update_columns env m s sparse links now valid_from valid_to r = r\<lparr>
     row_body_json := sl_body s, row_status := me_status m, vr_type := me_type m, vr_tags := tags_text env (me_tags m),
     vr_layer := compute_layer (wrap64 (vr_retrieval_count r + 1)), vr_topic_path := me_topic_path m,
     row_archived := (if me_archived m then 1 else 0), vr_archive_reason := me_archive_reason m, row_links := links,
     vr_verified := (if me_verified m then 1 else 0), vr_source := me_source m, vr_last_accessed := now,
     vr_always_on := (if me_always_on m then 1 else 0), row_workspace := Some (me_workspace_hash m),
     row_agent := Some (me_agent_id m), row_visibility := Some (me_visibility m),
     vr_epistemic_state := stored_epistemic_state m,
     row_valid_from := (case valid_from of Some v \<Rightarrow> Some v | None \<Rightarrow> row_valid_from r),
     row_valid_to := (case valid_to of Some v \<Rightarrow> Some v | None \<Rightarrow> row_valid_to r),
     vr_expires_at := entity_expiry_ms (we_gate env) (me_body_json m),
     vr_retrieval_count := vr_retrieval_count r + (if sparse then 0 else 1), vr_hints := sl_hints s\<rparr>"

text \<open>The second statement after a change of content.\<close>

definition stamp_changed :: "int \<Rightarrow> string \<Rightarrow> int option \<Rightarrow> int option \<Rightarrow> version_row \<Rightarrow> version_row" where
  "stamp_changed now hid valid_from valid_to r = r\<lparr>vr_recorded_at := Some now, vr_supersedes := hid,
     row_valid_from := Some (or_else valid_from now), row_valid_to := valid_to\<rparr>"

definition rewrite_row ::
    "write_env \<Rightarrow> memory \<Rightarrow> sealed \<Rightarrow> bool \<Rightarrow> string \<Rightarrow> bool \<Rightarrow> int option \<Rightarrow> int \<Rightarrow> string \<Rightarrow> int option \<Rightarrow> int option \<Rightarrow>
     version_row \<Rightarrow> version_row" where
  "rewrite_row env m s sparse links changed reassert now hid valid_from valid_to r =
     (let r1 = update_columns env m s sparse links now valid_from valid_to r
      in if changed then stamp_changed now hid valid_from valid_to r1
         else case reassert of Some old_from \<Rightarrow> restamp now hid old_from r1 | None \<Rightarrow> r1)"

definition update_tx ::
    "write_env \<Rightarrow> int \<Rightarrow> string \<Rightarrow> memory \<Rightarrow> sealed \<Rightarrow> bool \<Rightarrow> string \<Rightarrow> int option \<Rightarrow> int option \<Rightarrow> temporal_db \<Rightarrow>
     write_error + string list \<times> temporal_db" where
  "update_tx env clock hid m s sparse eid valid_from valid_to td =
     bind_r (ok_or (live_row td eid) (Refused no_rows)) (\<lambda>r.
     bind_r (plain_body env (''cannot update existing body for '' @ eid @ '': authentication failed: '') r) (\<lambda>old.
       let changed = (old \<noteq> me_body_json m);
           reassert = audit_reassert_from changed valid_from valid_to r;
           retire = (changed \<or> reassert \<noteq> None);
           now = (if retire then max clock (wrap64 (recorded r + 1)) else clock)
       in bind_r (check_period changed now valid_from valid_to r) (\<lambda>_.
          bind_r (if retire then map_err Refused (snapshot_live_row_to_history (we_store env) td hid now eid) else Inr td) (\<lambda>td1.
          bind_r (merge_links env td1 sparse (body_tokens (we_gate env) (me_body_json m)) eid
              (or_else (we_parse_links env (row_links r)) []) (me_links m)) (\<lambda>(links, dropped).
            Inr (dropped, update_live td1 eid (rewrite_row env m s sparse (we_links_text env links) changed reassert now hid
              valid_from valid_to)))))))"

definition sparse_event :: "write_env \<Rightarrow> int \<Rightarrow> string \<Rightarrow> memory \<Rightarrow> string \<Rightarrow> string list \<Rightarrow> journal_event" where
  "sparse_event env clock jid m eid dropped = write_event jid ''sparse_update_applied''
     (json_text (we_digest env) (JObj [(''dropped_links'', JArr (map JStr dropped)), (''entity_id'', JStr eid)]))
     ''{\"stored\":true,\"mode\":\"sparse\"}''
     ''{\"note\":\"non-activated caller links were not stored; re-link via perseus_vault_link or use a dense update\"}''
     eid m clock"

text \<open>The transaction, and afterwards the event of a sparse update that dropped links.\<close>

definition commit_update ::
    "write_env \<Rightarrow> int \<Rightarrow> write_ids \<Rightarrow> memory \<Rightarrow> sealed \<Rightarrow> string \<Rightarrow> int option \<Rightarrow> int option \<Rightarrow> gate_options \<Rightarrow>
     (string \<times> string) write_step" where
  "commit_update env clock ids m s eid valid_from valid_to opts =
     bind_w (transact_w (update_tx env clock (wi_history ids) m s (go_sparse_update opts) eid valid_from valid_to)) (\<lambda>dropped.
     bind_w (if go_sparse_update opts \<and> dropped \<noteq> []
         then journal_conn_w env (sparse_event env clock (wi_sparse ids) m eid dropped)
         else return_w ()) (\<lambda>_.
       return_w (eid, ''updated'')))"

definition remember_update ::
    "write_env \<Rightarrow> int \<Rightarrow> write_ids \<Rightarrow> memory \<Rightarrow> sealed \<Rightarrow> version_row \<Rightarrow> int option \<Rightarrow> int option \<Rightarrow> gate_options \<Rightarrow>
     (string \<times> string) write_step" where
  "remember_update env clock ids m s existing valid_from valid_to opts =
     bind_w (try_w (plain_body env (''cannot compare existing body for '' @ row_id existing @ '': authentication failed: '') existing)) (\<lambda>old.
     bind_w (if old \<noteq> me_body_json m
         then run_interference_gate env clock ids m (row_id existing # go_exclude_ids opts) valid_from valid_to opts
         else return_w Proceed)
       (on_verdict m (commit_update env clock ids m s (row_id existing) valid_from valid_to opts)))"

section \<open>The insertion of a new record\<close>

definition insert_row :: "write_env \<Rightarrow> memory \<Rightarrow> sealed \<Rightarrow> int option \<Rightarrow> int option \<Rightarrow> version_row" where
  "insert_row env m s valid_from valid_to = \<lparr>
     row_id = me_id m, row_category = me_category m, row_key = me_key m, row_body_json = sl_body s,
     row_status = me_status m, row_archived = (if me_archived m then 1 else 0),
     row_links = we_links_text env (stamp_link_sources (me_id m) (me_links m)),
     row_workspace = Some (me_workspace_hash m), row_agent = Some (me_agent_id m),
     row_visibility = Some (me_visibility m), row_created_at = me_created_at m,
     row_valid_from = Some (or_else valid_from (me_created_at m)), row_valid_to = valid_to, row_invalidated_at = None,
     vr_recorded_at = Some (me_created_at m), vr_supersedes = [], vr_superseded_by = [],
     vr_archive_reason = me_archive_reason m, vr_last_accessed = me_last_accessed m, vr_type = me_type m,
     vr_tags = tags_text env (me_tags m), vr_retrieval_count = me_retrieval_count m, vr_layer = me_layer m,
     vr_topic_path = me_topic_path m, vr_verified = (if me_verified m then 1 else 0), vr_source = me_source m,
     vr_always_on = (if me_always_on m then 1 else 0), vr_epistemic_state = stored_epistemic_state m,
     vr_expires_at = entity_expiry_ms (we_gate env) (me_body_json m), vr_hints = sl_hints s,
     vr_memory_type = me_memory_type m\<rparr>"

text \<open>The unique index on category, key and workspace is met where this is called: the branch is taken without such a
  row, and the statements before it add none.\<close>

definition insert_tx :: "version_row \<Rightarrow> temporal_db \<Rightarrow> write_error + unit \<times> temporal_db" where
  "insert_tx r td =
     (if row_id r \<in> set (map row_id (td_live td)) then Inl (Refused ''UNIQUE constraint failed: entities.id'')
      else Inr ((), td\<lparr>td_live := td_live td @ [r]\<rparr>))"

text \<open>A near-duplicate is counted as a retrieval of the record that has the content.\<close>

definition bump_duplicate :: "int \<Rightarrow> version_row \<Rightarrow> version_row" where
  "bump_duplicate now r = r\<lparr>vr_retrieval_count := vr_retrieval_count r + 1, vr_last_accessed := now\<rparr>"

definition check_new_period :: "int \<Rightarrow> int option \<Rightarrow> int option \<Rightarrow> write_error + unit" where
  "check_new_period created_at valid_from valid_to =
     (case valid_to of
        None \<Rightarrow> Inr ()
      | Some vt \<Rightarrow> let eff_from = or_else valid_from created_at in guard_r (vt \<le> eff_from) (to_refusal vt eff_from))"

definition commit_insert :: "write_env \<Rightarrow> memory \<Rightarrow> sealed \<Rightarrow> int option \<Rightarrow> int option \<Rightarrow> (string \<times> string) write_step" where
  "commit_insert env m s valid_from valid_to =
     bind_w (transact_w (insert_tx (insert_row env m s valid_from valid_to))) (\<lambda>_. return_w (me_id m, ''created''))"

definition remember_insert ::
    "write_env \<Rightarrow> int \<Rightarrow> write_ids \<Rightarrow> memory \<Rightarrow> sealed \<Rightarrow> bool \<Rightarrow> int option \<Rightarrow> int option \<Rightarrow> gate_options \<Rightarrow>
     (string \<times> string) write_step" where
  "remember_insert env clock ids m s skip_dedup valid_from valid_to opts =
     bind_w (try_w (check_new_period (me_created_at m) valid_from valid_to)) (\<lambda>_.
     bind_w (read_w (\<lambda>db. Inr (if \<not> skip_dedup \<and> \<not> go_sparse_update opts \<and> me_status m \<noteq> ''proposed''
         then we_near_duplicate env (md_store db) (me_category m) (me_workspace_hash m) (dedup_body env s) else None))) (\<lambda>dup.
       case dup of
         Some dup_id \<Rightarrow>
           bind_w (modify_w (\<lambda>db. set_store (update_live (md_store db) dup_id (bump_duplicate clock)) db)) (\<lambda>_.
             return_w (dup_id, ''deduped (new key not created)''))
       | None \<Rightarrow>
           bind_w (if me_status m = ''proposed'' then return_w Proceed
             else run_interference_gate env clock ids m (go_exclude_ids opts) valid_from valid_to opts)
             (on_verdict m (commit_insert env m s valid_from valid_to))))"

section \<open>The write\<close>

text \<open>The record after the checks that change nothing: the canonical status, the trust of the authority and
  the visibility of its sources.\<close>

definition enrich :: "write_env \<Rightarrow> int \<Rightarrow> durable_write_authority \<Rightarrow> memory \<Rightarrow> memory_db \<Rightarrow> write_error + memory" where
  "enrich env clock authority entity db =
     bind_r (map_err Refused (writable_status (me_status entity))) (\<lambda>status.
       let normalized = entity\<lparr>me_status := status\<rparr> in
       bind_r (validate_authority env db normalized authority) (\<lambda>_.
         apply_derived_visibility (we_gate env) (gate_of (md_store db)) clock
           (ensure_durable_write_provenance normalized authority)))"

text \<open>The repair, the second check of the bytes that will be stored, and the encryption.\<close>

definition seal_write :: "write_env \<Rightarrow> durable_write_authority \<Rightarrow> memory \<Rightarrow> sealed write_step" where
  "seal_write env authority m =
     bind_w (repair_lossy_body env (me_category m) (me_key m) (me_body_json m)) (\<lambda>effective.
     bind_w (read_w (\<lambda>db. validate_authority env db (m\<lparr>me_body_json := effective\<rparr>) authority)) (\<lambda>_.
     bind_w (try_w (seal_body env ''remember'' (me_category m) (me_key m) effective)) (\<lambda>body.
     bind_w (try_w (seal_body env ''remember (hints)'' (me_category m) (me_key m) (tags_text env (me_hints m)))) (\<lambda>hints.
       return_w \<lparr>sl_effective = effective, sl_body = body, sl_hints = hints\<rparr>))))"

definition remember_impl_with_authority ::
    "write_env \<Rightarrow> int \<Rightarrow> write_ids \<Rightarrow> memory \<Rightarrow> bool \<Rightarrow> int option \<Rightarrow> int option \<Rightarrow> bool \<Rightarrow> durable_write_authority \<Rightarrow>
     gate_options \<Rightarrow> (string \<times> string) write_step" where
  "remember_impl_with_authority env clock ids entity skip_dedup valid_from valid_to allow_rejected authority opts =
     bind_w (try_w (map_err Refused (require_key (we_store env)))) (\<lambda>_.
     bind_w (read_w (enrich env clock authority entity)) (\<lambda>m.
     bind_w (rejected_value_gate env clock ids allow_rejected m) (\<lambda>_.
     bind_w (seal_write env authority m) (\<lambda>s.
     bind_w (read_w (\<lambda>db. Inr (identity_row (md_store db) m))) (\<lambda>existing.
       case existing of
         Some r \<Rightarrow> remember_update env clock ids m s r valid_from valid_to opts
       | None \<Rightarrow> remember_insert env clock ids m s skip_dedup valid_from valid_to opts)))))"

definition remember_impl ::
    "write_env \<Rightarrow> int \<Rightarrow> write_ids \<Rightarrow> memory \<Rightarrow> bool \<Rightarrow> int option \<Rightarrow> int option \<Rightarrow> bool \<Rightarrow> (string \<times> string) write_step" where
  "remember_impl env clock ids entity skip_dedup valid_from valid_to allow_rejected =
     remember_impl_with_authority env clock ids entity skip_dedup valid_from valid_to allow_rejected Unverified no_options"

definition remember_with_write_options ::
    "write_env \<Rightarrow> int \<Rightarrow> write_ids \<Rightarrow> memory \<Rightarrow> bool \<Rightarrow> int option \<Rightarrow> int option \<Rightarrow> bool \<Rightarrow> gate_options \<Rightarrow>
     (string \<times> string) write_step" where
  "remember_with_write_options env clock ids entity skip_dedup valid_from valid_to allow_rejected opts =
     remember_impl_with_authority env clock ids entity skip_dedup valid_from valid_to allow_rejected Unverified opts"

section \<open>The quarantine\<close>

definition quarantined_body :: "write_env \<Rightarrow> quarantine_row \<Rightarrow> write_error + string" where
  "quarantined_body env q =
     (case ge_decrypt (we_gate env) of
        None \<Rightarrow> Inr (qr_body_json q)
      | Some _ \<Rightarrow> map_err (\<lambda>_. Refused ''write_quarantine_show: stored body failed authentication'')
          (se_legacy_decrypt (we_store env) (qr_body_json q) (qr_category q) (qr_key q)))"

definition write_quarantine_show :: "write_env \<Rightarrow> string \<Rightarrow> memory_db \<Rightarrow> write_error + quarantine_row option" where
  "write_quarantine_show env qid db =
     (case find (\<lambda>q. qr_id q = qid) (md_quarantine db) of
        None \<Rightarrow> Inr None
      | Some q \<Rightarrow> bind_r (quarantined_body env q) (\<lambda>body. Inr (Some (q\<lparr>qr_body_json := body\<rparr>))))"

text \<open>The strings of the stored array of tags.\<close>

definition stored_tags :: "write_env \<Rightarrow> string \<Rightarrow> string list" where
  "stored_tags env s = (case ge_parse_json (we_gate env) s of
     Some (JArr items) \<Rightarrow> List.map_filter (\<lambda>i. case i of JStr t \<Rightarrow> Some t | _ \<Rightarrow> None) items
   | _ \<Rightarrow> [])"

definition released_memory :: "write_env \<Rightarrow> int \<Rightarrow> string \<Rightarrow> string \<Rightarrow> quarantine_row \<Rightarrow> memory" where
  "released_memory env now new_id actor q = \<lparr>
     me_id = new_id, me_category = qr_category q, me_key = qr_key q, me_body_json = qr_body_json q,
     me_status = ''active'', me_type = qr_entity_type q, me_tags = stored_tags env (qr_tags q), me_retrieval_count = 0,
     me_layer = ''working'', me_topic_path = qr_topic_path q, me_archived = False, me_archive_reason = [],
     me_links = or_else (we_parse_links env (qr_links q)) [], me_verified = False,
     me_source = ''write_quarantine_release'', me_always_on = (qr_always_on q \<noteq> 0),
     me_workspace_hash = qr_workspace_hash q, me_agent_id = (if qr_agent_id q = [] then actor else qr_agent_id q),
     me_visibility = qr_visibility q, me_created_at = now, me_last_accessed = now,
     me_epistemic_state = ''candidate'', me_hints = [], me_memory_type = []\<rparr>"

definition drop_quarantine :: "string \<Rightarrow> unit write_step" where
  "drop_quarantine qid = modify_w (\<lambda>db. db\<lparr>md_quarantine := filter (\<lambda>q. qr_id q \<noteq> qid) (md_quarantine db)\<rparr>)"

definition release_options :: gate_options where
  "release_options = no_options\<lparr>go_mode_override := Some Off\<rparr>"

definition release_event :: "write_env \<Rightarrow> int \<Rightarrow> string \<Rightarrow> string \<Rightarrow> string \<Rightarrow> memory \<Rightarrow> string \<Rightarrow> string \<Rightarrow> journal_event" where
  "release_event env clock jid qid actor m eid action = (write_event jid ''interference_released''
     (json_text (we_digest env) (JObj [(''action'', JStr action), (''entity_id'', JStr eid),
       (''quarantine_id'', JStr qid), (''released_by'', JStr actor)]))
     ''{\"stored\":true,\"surface\":\"entities\"}''
     ''{\"note\":\"operator-approved materialization; interference gate bypassed for this write\"}''
     eid m clock)\<lparr>je_agent_id := actor\<rparr>"

definition finish_release ::
    "write_env \<Rightarrow> int \<Rightarrow> string \<Rightarrow> string \<Rightarrow> string \<Rightarrow> memory \<Rightarrow> string \<times> string \<Rightarrow> string write_step" where
  "finish_release env clock jid qid actor m written = (case written of (eid, action) \<Rightarrow>
     bind_w (drop_quarantine qid) (\<lambda>_.
     bind_w (journal_w env (release_event env clock jid qid actor m eid action)) (\<lambda>_.
       return_w (''released '' @ qid @ '' as '' @ me_id m @ '' ('' @ action @ '')''))))"

definition refuse_live_identity :: "quarantine_row \<Rightarrow> memory \<Rightarrow> memory_db \<Rightarrow> write_error + unit" where
  "refuse_live_identity q m db =
     (case identity_row (md_store db) m of
        Some r \<Rightarrow> Inl (Refused (''release refused: identity '' @ qr_category q @ ''/'' @ qr_key q @
          '' is already live as '' @ row_id r @ '' '' @ em_dash @
          '' delete the quarantined row instead, or update the live entity''))
      | None \<Rightarrow> Inr ())"

definition release_write_quarantine ::
    "write_env \<Rightarrow> int \<Rightarrow> write_ids \<Rightarrow> string \<Rightarrow> string \<Rightarrow> string \<Rightarrow> string \<Rightarrow> string write_step" where
  "release_write_quarantine env clock ids new_id jid qid actor =
     bind_w (read_w (write_quarantine_show env qid)) (\<lambda>found. case found of
         None \<Rightarrow> fail_w (Refused (''no quarantined write with id '' @ qid))
       | Some q \<Rightarrow>
           let m = released_memory env clock new_id actor q in
           bind_w (read_w (refuse_live_identity q m)) (\<lambda>_.
           bind_w (remember_impl_with_authority env clock ids m True (qr_valid_from q) (qr_valid_to q) False
             (InternalTrusted ''write_quarantine_release'') release_options)
             (finish_release env clock jid qid actor m)))"

definition delete_write_quarantine :: "write_env \<Rightarrow> int \<Rightarrow> string \<Rightarrow> string \<Rightarrow> string \<Rightarrow> string write_step" where
  "delete_write_quarantine env clock jid qid actor =
     bind_w (read_w (\<lambda>db. ok_or (find (\<lambda>q. qr_id q = qid) (md_quarantine db))
         (Refused (''no quarantined write with id '' @ qid)))) (\<lambda>q.
     bind_w (drop_quarantine qid) (\<lambda>_.
     bind_w (journal_w env \<lparr>je_id = jid, je_event_type = ''interference_deleted'',
         je_evaluated_json = json_text (we_digest env) (JObj [(''category'', JStr (qr_category q)),
           (''deleted_by'', JStr actor), (''key'', JStr (qr_key q)), (''quarantine_id'', JStr qid)]),
         je_acted_json = ''{\"stored\":false,\"surface\":\"none\"}'',
         je_forward_json = ''{\"note\":\"quarantined write dropped without materialization\"}'',
         je_category = qr_category q, je_key = qr_key q, je_entity_id = qid, je_agent_id = actor,
         je_workspace_hash = qr_workspace_hash q, je_created_at = clock\<rparr>) (\<lambda>_.
       return_w (''deleted quarantined write '' @ qid))))"

end
