(* ===== verification/Write_Steps.thy ===== *)
theory Write_Steps
  imports Remember Audit_Guarantees
begin

text \<open>
  Rules for the steps of a durable write: what a step that succeeds has done, and relations
  between the store before and after it that every step keeps. A relation is stated once, as
  an instance of a locale, by what it demands of the statements a write is made of; the
  locale gives it for the whole write.
\<close>

section \<open>Results of steps\<close>

lemma return_w_iff [result_simps]: "return_w x db = (res, db') \<longleftrightarrow> res = Inr x \<and> db' = db"
  by (auto simp: return_w_def)

lemma fail_w_iff [result_simps]: "fail_w e db = (res, db') \<longleftrightarrow> res = Inl e \<and> db' = db"
  by (auto simp: fail_w_def)

lemma try_w_iff [result_simps]: "try_w r db = (res, db') \<longleftrightarrow> res = r \<and> db' = db"
  by (auto simp: try_w_def)

lemma read_w_iff [result_simps]: "read_w f db = (res, db') \<longleftrightarrow> res = f db \<and> db' = db"
  by (auto simp: read_w_def)

lemma modify_w_iff [result_simps]: "modify_w f db = (res, db') \<longleftrightarrow> res = Inr () \<and> db' = f db"
  by (auto simp: modify_w_def)

lemma bind_w_iff:
  "bind_w f g db = (res, db') \<longleftrightarrow>
     (\<exists>e. f db = (Inl e, db') \<and> res = Inl e) \<or> (\<exists>x db1. f db = (Inr x, db1) \<and> g x db1 = (res, db'))"
  by (auto simp: bind_w_def split: prod.splits sum.splits)

lemma bind_w_Inr [result_simps]:
  "bind_w f g db = (Inr y, db') \<longleftrightarrow> (\<exists>x db1. f db = (Inr x, db1) \<and> g x db1 = (Inr y, db'))"
  by (auto simp: bind_w_iff)

lemma bind_step:
  "f db = (Inr x, db1) \<Longrightarrow> bind_w f g db = g x db1" "f db = (Inl e, db1) \<Longrightarrow> bind_w f g db = (Inl e, db1)"
  by (simp_all add: bind_w_def)

lemma transact_w_iff [result_simps]:
  "transact_w f db = (res, db') \<longleftrightarrow>
     (\<exists>e. f (md_store db) = Inl e \<and> res = Inl e \<and> db' = db) \<or>
     (\<exists>x td. f (md_store db) = Inr (x, td) \<and> res = Inr x \<and> db' = set_store td db)"
  by (auto simp: transact_w_def split: sum.splits prod.splits)

lemma bind_transact:
  "f (md_store db) = Inr (x, td) \<Longrightarrow> bind_w (transact_w f) g db = g x (set_store td db)"
  "f (md_store db) = Inl e \<Longrightarrow> bind_w (transact_w f) g db = (Inl e, db)"
  by (simp_all add: bind_w_def transact_w_def)

section \<open>Relations that steps keep\<close>

definition keeps :: "(memory_db \<Rightarrow> memory_db \<Rightarrow> bool) \<Rightarrow> 'a write_step \<Rightarrow> bool" where
  "keeps R f \<longleftrightarrow> (\<forall>db. R db (snd (f db)))"

lemma keepsD: "keeps R f \<Longrightarrow> f db = (res, db') \<Longrightarrow> R db db'"
  by (metis keeps_def snd_conv)

text \<open>
  The interface of a relation for the writes at one clock reading: it is reflexive and
  transitive, and the journal, the cleanup of tombstones, the repair of a loss and the
  quarantine may change.
\<close>

locale write_relation =
  fixes R :: "memory_db \<Rightarrow> memory_db \<Rightarrow> bool" and env :: write_env and clock :: int
  assumes refl_step: "R db db"
    and trans_step: "R a b \<Longrightarrow> R b c \<Longrightarrow> R a c"
    and journal_step: "je_event_type e \<noteq> ''admission_source'' \<Longrightarrow> je_created_at e = clock \<Longrightarrow>
      journal_with_conn (we_digest env) (md_audit db) (we_writ env) e = Inr au \<Longrightarrow> R db (db\<lparr>md_audit := au\<rparr>)"
    and tombstone_step: "R db (set_store ((md_store db)\<lparr>td_tombstones := ts\<rparr>) db)"
    and lossy_step: "R db (db\<lparr>md_lossy_units := map (\<lambda>u. if fst u = eid then (eid, ''repaired'') else u) (md_lossy_units db)\<rparr>)"
    and quarantine_step: "R db (db\<lparr>md_quarantine := qs\<rparr>)"
begin

lemma keeps_bind: "keeps R f \<Longrightarrow> (\<And>x. keeps R (g x)) \<Longrightarrow> keeps R (bind_w f g)"
  unfolding keeps_def bind_w_def by (auto split: prod.splits sum.splits intro: trans_step) (metis snd_conv trans_step)+

lemma keeps_pure:
  "keeps R (return_w x)" "keeps R (fail_w e)" "keeps R (try_w r)" "keeps R (read_w f)"
  by (simp_all add: keeps_def return_w_def fail_w_def try_w_def read_w_def refl_step)

lemma keeps_modify: "(\<And>db. R db (f db)) \<Longrightarrow> keeps R (modify_w f)"
  by (simp add: keeps_def modify_w_def)

lemma keeps_transact: "(\<And>db x td. f (md_store db) = Inr (x, td) \<Longrightarrow> R db (set_store td db)) \<Longrightarrow> keeps R (transact_w f)"
  by (auto simp: keeps_def transact_w_def refl_step split: sum.splits)

lemma keeps_journal:
  assumes "je_event_type e \<noteq> ''admission_source''" and "je_created_at e = clock"
  shows "keeps R (journal_conn_w env e)" "keeps R (journal_w env e)"
  using assms by (auto simp: keeps_def journal_conn_w_def journal_w_def journal_def refl_step journal_step split: sum.splits)

lemma keeps_event:
  assumes "ty \<noteq> ''admission_source''"
  shows "keeps R (journal_conn_w env (write_event jid ty ev act fwd eid m clock))"
    "keeps R (journal_w env (write_event jid ty ev act fwd eid m clock))"
  using assms by (simp_all add: keeps_journal write_event_def)

lemma keeps_rejected: "keeps R (is_value_rejected env clock ws p v)"
  unfolding is_value_rejected_def by (intro keeps_bind keeps_modify keeps_pure tombstone_step)

lemma keeps_suppressed: "keeps R (is_value_suppressed env clock ws p v)"
  unfolding is_value_suppressed_def is_value_erased_def by (simp add: keeps_bind keeps_pure keeps_rejected)

lemma keeps_rejected_value_gate: "keeps R (rejected_value_gate env clock ids allow m)"
  unfolding rejected_value_gate_def note_override_def refuse_rejected_def
  by (auto intro!: keeps_bind keeps_pure keeps_rejected keeps_suppressed keeps_event)

lemma keeps_repair: "keeps R (repair_lossy_body env cat key body)"
  by (auto simp: keeps_def repair_lossy_body_def refl_step lossy_step split: option.splits)

lemma keeps_seal_write: "keeps R (seal_write env authority m)"
  unfolding seal_write_def by (intro keeps_bind keeps_repair keeps_pure)

lemma keeps_interference_gate: "keeps R (run_interference_gate env clock ids m ex vf vt opts)"
  unfolding run_interference_gate_def quarantine_write_def Let_def
  by (auto intro!: keeps_bind keeps_pure keeps_event keeps_modify quarantine_step split: interference_decision.split)

lemma keeps_drop_quarantine: "keeps R (drop_quarantine qid)"
  unfolding drop_quarantine_def by (intro keeps_modify quarantine_step)

lemma keeps_finish_release: "keeps R (finish_release env clock jid qid actor m p)"
  unfolding finish_release_def
  by (cases p) (auto intro!: keeps_bind keeps_pure keeps_drop_quarantine keeps_journal simp: release_event_def write_event_def)

lemma keeps_delete_write_quarantine: "keeps R (delete_write_quarantine env clock jid qid actor)"
  unfolding delete_write_quarantine_def by (auto intro!: keeps_bind keeps_pure keeps_drop_quarantine keeps_journal)

end

text \<open>A relation that also allows every change of the records holds for the whole write.\<close>

locale free_write_relation = write_relation +
  assumes store_step: "R db (set_store td db)"
begin

lemma keeps_on_verdict: "keeps R go_on \<Longrightarrow> keeps R (on_verdict m go_on v)"
  by (cases v) (simp_all add: on_verdict_def keeps_pure)

lemma keeps_remember_update: "keeps R (remember_update env clock ids m s r vf vt opts)"
  unfolding remember_update_def commit_update_def sparse_event_def
  by (auto intro!: keeps_bind keeps_pure keeps_interference_gate keeps_on_verdict keeps_transact keeps_event store_step)

lemma keeps_remember_insert: "keeps R (remember_insert env clock ids m s skip vf vt opts)"
  unfolding remember_insert_def commit_insert_def
  by (auto intro!: keeps_bind keeps_pure keeps_interference_gate keeps_on_verdict keeps_transact keeps_modify store_step
      split: option.split)

lemma keeps_remember: "keeps R (remember_impl_with_authority env clock ids e skip vf vt allow authority opts)"
  unfolding remember_impl_with_authority_def
  by (auto intro!: keeps_bind keeps_pure keeps_rejected_value_gate keeps_seal_write keeps_remember_update
      keeps_remember_insert split: option.split)

lemma keeps_release: "keeps R (release_write_quarantine env clock ids new_id jid qid actor)"
  unfolding release_write_quarantine_def Let_def
  by (auto intro!: keeps_bind keeps_pure keeps_remember keeps_finish_release split: option.split)

end

section \<open>The records\<close>

text \<open>The tables of records, agents and permanent erasures are as they were.\<close>

definition same_tables :: "temporal_db \<Rightarrow> temporal_db \<Rightarrow> bool" where
  "same_tables a b \<longleftrightarrow> td_live b = td_live a \<and> td_history b = td_history a \<and> td_agents b = td_agents a \<and>
     td_overlay b = td_overlay a"

abbreviation same_records :: "memory_db \<Rightarrow> memory_db \<Rightarrow> bool" where
  "same_records a b \<equiv> same_tables (md_store a) (md_store b)"

lemma journal_with_conn_store: "journal_with_conn env db writ e = Inr a \<Longrightarrow> au_store a = au_store db"
  by (auto simp: journal_with_conn_def split: if_splits)

interpretation records: write_relation same_records env clock for env clock
  by unfold_locales (auto simp: same_tables_def set_store_def dest: journal_with_conn_store)

section \<open>Marks of losses\<close>

definition no_new_loss :: "memory_db \<Rightarrow> memory_db \<Rightarrow> bool" where
  "no_new_loss a b \<longleftrightarrow> (\<forall>u. (u, ''lossy'') \<in> set (md_lossy_units b) \<longrightarrow> (u, ''lossy'') \<in> set (md_lossy_units a))"

interpretation losses: free_write_relation no_new_loss env clock for env clock
  by unfold_locales (auto simp: no_new_loss_def set_store_def split: if_splits)

section \<open>The journal\<close>

text \<open>Whatever the clock shows, events are only appended.\<close>

definition journal_grows :: "memory_db \<Rightarrow> memory_db \<Rightarrow> bool" where
  "journal_grows a b \<longleftrightarrow> (\<exists>js. au_journal (md_audit b) = au_journal (md_audit a) @ js)"

interpretation appended: free_write_relation journal_grows env clock for env clock
proof
  show "journal_grows a c" if "journal_grows a b" "journal_grows b c" for a b c
    using that unfolding journal_grows_def by (metis append.assoc)
qed (auto simp: journal_grows_def set_store_def journal_with_conn_def split: if_splits)

text \<open>When no event is later than the clock, the journal makes steps of its own.\<close>

definition journal_moves :: "write_env \<Rightarrow> string set \<Rightarrow> int \<Rightarrow> memory_db \<Rightarrow> memory_db \<Rightarrow> bool" where
  "journal_moves env K clock a b \<longleftrightarrow>
     (\<forall>r \<in> set (au_journal (md_audit a)). je_created_at r \<le> clock) \<longrightarrow>
     (\<forall>r \<in> set (au_journal (md_audit b)). je_created_at r \<le> clock) \<and>
     (audit_step (we_digest env) K)\<^sup>*\<^sup>* (md_audit a) (md_audit b) \<and>
     (\<exists>js. au_journal (md_audit b) = au_journal (md_audit a) @ js)"

lemma journal_moves_append:
  assumes "je_event_type e \<noteq> ''admission_source''" and "je_created_at e = clock"
    and "journal_with_conn (we_digest env) (md_audit db) (we_writ env) e = Inr a"
  shows "journal_moves env K clock db (db\<lparr>md_audit := a\<rparr>)"
proof -
  have step: "journal (we_digest env) (md_audit db) (we_writ env) e = Inr a"
    using assms(1,3) by (simp add: journal_def)
  have "je_created_at (journal_row_of (we_digest env) (md_audit db) (we_writ env) e) = clock"
    using assms(2) by (simp add: journal_row_of_def Let_def journal_event.defs journal_row.defs)
  moreover have "au_journal a = au_journal (md_audit db) @ [journal_row_of (we_digest env) (md_audit db) (we_writ env) e]"
    using assms(3) by (auto simp: journal_with_conn_def split: if_splits)
  ultimately show ?thesis
    using audit_step.append [OF step, of K] assms(2) by (auto simp: journal_moves_def)
qed

lemma journal_moves_store: "journal_moves env K clock db (set_store td db)"
  using audit_step.store [of "we_digest env" K "md_audit db" td] by (auto simp: journal_moves_def set_store_def)

interpretation journaled: free_write_relation "journal_moves env K clock" env clock for env K clock
proof
  show "journal_moves env K clock a c" if "journal_moves env K clock a b" "journal_moves env K clock b c" for a b c
    using that unfolding journal_moves_def by (metis append.assoc rtranclp_trans)
qed (rule journal_moves_append journal_moves_store | simp add: journal_moves_def | assumption)+

end
