(* ===== verification/Remember_Effect.thy ===== *)
theory Remember_Effect
  imports Write_Steps Temporal_Guarantees
begin

text \<open>
  What one durable write does to the records: it leaves them as they were, or makes exactly one
  change with the record that passed the gates, an update in one transaction, an insertion, or a
  mark on a near-duplicate. The other theories about the writer build on this.
\<close>

section \<open>The change a write makes\<close>

inductive remember_change ::
    "write_env \<Rightarrow> int \<Rightarrow> string \<Rightarrow> memory \<Rightarrow> sealed \<Rightarrow> int option \<Rightarrow> int option \<Rightarrow> bool \<Rightarrow>
     temporal_db \<Rightarrow> string \<times> string \<Rightarrow> temporal_db \<Rightarrow> bool"
  for env clock hid m s vf vt sparse td
where
  updated: "identity_row td m = Some r \<Longrightarrow> update_tx env clock hid m s sparse (row_id r) vf vt td = Inr (dropped, td') \<Longrightarrow>
    remember_change env clock hid m s vf vt sparse td (row_id r, ''updated'') td'"
| created: "identity_row td m = None \<Longrightarrow> \<forall>t. vt = Some t \<longrightarrow> or_else vf (me_created_at m) < t \<Longrightarrow>
    insert_tx (insert_row env m s vf vt) td = Inr ((), td') \<Longrightarrow>
    remember_change env clock hid m s vf vt sparse td (me_id m, ''created'') td'"
| merged: "identity_row td m = None \<Longrightarrow> me_status m \<noteq> ''proposed'' \<Longrightarrow> \<not> sparse \<Longrightarrow>
    remember_change env clock hid m s vf vt sparse td (dup, ''deduped (new key not created)'')
      (update_live td dup (bump_duplicate clock))"

lemma same_tables_refl [simp]: "same_tables td td"
  by (simp add: same_tables_def)

lemma same_tables_trans: "same_tables a b \<Longrightarrow> same_tables b c \<Longrightarrow> same_tables a c"
  by (simp add: same_tables_def)

lemma set_store_sel [simp]: "md_store (set_store td db) = td"
  by (simp add: set_store_def)

text \<open>A verdict other than to proceed ends the write with the records as they were.\<close>

definition held :: "(write_error + string \<times> string) \<Rightarrow> bool" where
  "held res \<longleftrightarrow> (\<forall>x a. res = Inr (x, a) \<longrightarrow> (\<exists>ms. a = hold_action ms))"

lemma held_Inl [simp]: "held (Inl e)"
  by (simp add: held_def)

lemma gate_verdict_texts:
  assumes "run_interference_gate env clock ids m ex vf vt opts db = (Inr (Quarantined qid a), db')"
  shows "\<exists>ms. a = hold_action ms"
proof -
  have "\<exists>ms db1. (case evaluate_interference (or_else (go_mode_override opts) (we_mode env)) (ms_exceeds ms) of
      Allow \<Rightarrow> return_w Proceed db1 = (Inr (Quarantined qid a), db') | Deny \<Rightarrow> (\<exists>db2. return_w GateRefused db2 = (Inr (Quarantined qid a), db'))
    | Hold \<Rightarrow> (\<exists>db2. return_w (Quarantined (wi_quarantine ids) (hold_action ms)) db2 = (Inr (Quarantined qid a), db')))"
    using assms by (force simp: run_interference_gate_def bind_w_Inr Let_def split: interference_decision.splits)
  then obtain ms db1 where v: "case evaluate_interference (or_else (go_mode_override opts) (we_mode env)) (ms_exceeds ms) of
      Allow \<Rightarrow> return_w Proceed db1 = (Inr (Quarantined qid a), db') | Deny \<Rightarrow> (\<exists>db2. return_w GateRefused db2 = (Inr (Quarantined qid a), db'))
    | Hold \<Rightarrow> (\<exists>db2. return_w (Quarantined (wi_quarantine ids) (hold_action ms)) db2 = (Inr (Quarantined qid a), db'))" by blast
  then show ?thesis
    by (cases "evaluate_interference (or_else (go_mode_override opts) (we_mode env)) (ms_exceeds ms)") (auto simp: return_w_iff)
qed

lemma on_verdict_iff:
  "on_verdict m go_on v db = (res, db') \<longleftrightarrow>
     (case v of Proceed \<Rightarrow> go_on db = (res, db')
      | Quarantined qid a \<Rightarrow> res = Inr (qid, a) \<and> db' = db
      | GateRefused \<Rightarrow> res = Inl (gate_refusal m) \<and> db' = db)"
  by (cases v) (auto simp: on_verdict_def result_simps)

text \<open>The gate, if it is run, then what follows: either nothing is changed, or the gate let the write pass.\<close>

lemma gated_step:
  assumes "bind_w (if b then run_interference_gate env clock ids m ex vf vt opts else return_w Proceed) (on_verdict m go_on) db = (res, db')"
    (is "bind_w ?gate _ db = _")
  shows "same_records db db' \<and> held res \<or> (\<exists>db1. same_records db db1 \<and> go_on db1 = (res, db'))"
proof -
  have keep: "keeps same_records ?gate"
    by (simp add: records.keeps_interference_gate records.keeps_pure)
  from assms consider (err) e where "?gate db = (Inl e, db')" "res = Inl e"
    | (verdict) v db1 where "?gate db = (Inr v, db1)" "on_verdict m go_on v db1 = (res, db')"
    by (auto simp: bind_w_iff)
  then show ?thesis
  proof cases
    case err
    with keepsD [OF keep] show ?thesis by simp
  next
    case verdict
    with keepsD [OF keep verdict(1)] gate_verdict_texts show ?thesis
      by (auto simp: on_verdict_iff held_def return_w_iff split: gate_verdict.splits if_splits)
  qed
qed

lemma journal_conn_w_result:
  "journal_conn_w env e db = (res, db') \<Longrightarrow> same_records db db' \<and> (res = Inr () \<or> (\<exists>j. res = Inl (JournalFailed j)))"
  by (auto simp: journal_conn_w_def same_tables_def split: sum.splits dest: journal_with_conn_store)

lemma commit_update_effect:
  assumes "commit_update env clock ids m s eid vf vt opts db = (res, db')"
  shows "db' = db \<and> held res \<or>
    (\<exists>dropped td'. update_tx env clock (wi_history ids) m s (go_sparse_update opts) eid vf vt (md_store db) = Inr (dropped, td') \<and>
       same_tables td' (md_store db') \<and> (res = Inr (eid, ''updated'') \<or> (\<exists>e. res = Inl (JournalFailed e))))"
proof (cases "update_tx env clock (wi_history ids) m s (go_sparse_update opts) eid vf vt (md_store db)")
  case (Inl e)
  with assms show ?thesis by (auto simp: commit_update_def bind_transact(2))
next
  case (Inr p)
  obtain dropped td' where p: "p = (dropped, td')" by (cases p)
  from assms have "bind_w (if go_sparse_update opts \<and> dropped \<noteq> []
      then journal_conn_w env (sparse_event env clock (wi_sparse ids) m eid dropped) else return_w ())
      (\<lambda>_. return_w (eid, ''updated'')) (set_store td' db) = (res, db')"
    unfolding commit_update_def bind_transact(1) [where f = "update_tx _ _ _ _ _ _ _ _ _", OF Inr [unfolded p]] .
  then have "same_tables td' (md_store db') \<and> (res = Inr (eid, ''updated'') \<or> (\<exists>e. res = Inl (JournalFailed e)))"
    using journal_conn_w_result [of env _ "set_store td' db"] by (fastforce simp: bind_w_iff return_w_iff split: if_splits)
  with Inr p show ?thesis by blast
qed

lemma remember_update_effect:
  assumes "remember_update env clock ids m s r vf vt opts db = (res, db')" and "identity_row (md_store db) m = Some r"
  shows "same_records db db' \<and> held res \<or>
    (\<exists>td out td'. same_tables (md_store db) td \<and>
       remember_change env clock (wi_history ids) m s vf vt (go_sparse_update opts) td out td' \<and> same_tables td' (md_store db') \<and>
       (res = Inr out \<or> (\<exists>e. res = Inl (JournalFailed e))))"
proof -
  let ?go = "commit_update env clock ids m s (row_id r) vf vt opts"
  from assms(1) consider (err) e where "res = Inl e" "db' = db"
    | (gate) old where "bind_w (if old \<noteq> me_body_json m
        then run_interference_gate env clock ids m (row_id r # go_exclude_ids opts) vf vt opts else return_w Proceed)
        (on_verdict m ?go) db = (res, db')"
    unfolding remember_update_def by (auto simp: bind_w_iff [of "try_w _"] try_w_iff)
  then show ?thesis
  proof cases
    case gate
    from gated_step [OF gate] consider (same) "same_records db db' \<and> held res"
      | (go) db1 where "same_records db db1" "?go db1 = (res, db')" by blast
    then show ?thesis
    proof cases
      case go
      then have "identity_row (md_store db1) m = Some r"
        using assms(2) by (simp add: identity_row_def same_tables_def)
      with commit_update_effect [OF go(2)] go(1) show ?thesis
        by (blast intro: remember_change.updated)
    qed simp
  qed simp
qed

lemma check_new_period_Inr: "check_new_period c vf vt = Inr u \<longleftrightarrow> (\<forall>t. vt = Some t \<longrightarrow> or_else vf c < t)"
  by (auto simp: check_new_period_def guard_r_def Let_def split: option.splits)

lemma remember_insert_effect:
  assumes "remember_insert env clock ids m s skip vf vt opts db = (res, db')" and "identity_row (md_store db) m = None"
  shows "same_records db db' \<and> held res \<or>
    (\<exists>td out td'. same_tables (md_store db) td \<and>
       remember_change env clock (wi_history ids) m s vf vt (go_sparse_update opts) td out td' \<and> same_tables td' (md_store db') \<and>
       res = Inr out)"
proof -
  let ?gate = "if me_status m \<noteq> ''proposed'' then run_interference_gate env clock ids m (go_exclude_ids opts) vf vt opts else return_w Proceed"
  have swap: "(if me_status m = ''proposed'' then return_w Proceed else run_interference_gate env clock ids m (go_exclude_ids opts) vf vt opts) = ?gate"
    by simp
  from assms(1) consider (err) e where "res = Inl e" "db' = db"
    | (dup) d where "me_status m \<noteq> ''proposed''" "\<not> go_sparse_update opts"
        "res = Inr (d, ''deduped (new key not created)'')" "db' = set_store (update_live (md_store db) d (bump_duplicate clock)) db"
    | (ins) u where "check_new_period (me_created_at m) vf vt = Inr u"
        "bind_w ?gate (on_verdict m (commit_insert env m s vf vt)) db = (res, db')"
    unfolding remember_insert_def swap
    by (auto simp: bind_w_iff [of "try_w _"] bind_w_iff [of "read_w _"] bind_w_iff [of "modify_w _"] try_w_iff read_w_iff
        modify_w_iff return_w_iff split: option.splits if_splits)
  then show ?thesis
  proof cases
    case dup
    with remember_change.merged [OF assms(2) dup(1,2)] show ?thesis
      by (metis same_tables_refl set_store_sel)
  next
    case ins
    from gated_step [OF ins(2)] consider (same) "same_records db db' \<and> held res"
      | (go) db1 where "same_records db db1" "commit_insert env m s vf vt db1 = (res, db')" by blast
    then show ?thesis
    proof cases
      case go
      have none: "identity_row (md_store db1) m = None"
        using go(1) assms(2) by (simp add: identity_row_def same_tables_def)
      from go(2) consider (err) e where "res = Inl e" "db' = db1"
        | (tx) td' where "insert_tx (insert_row env m s vf vt) (md_store db1) = Inr ((), td')" "db' = set_store td' db1"
            "res = Inr (me_id m, ''created'')"
        by (auto simp: commit_insert_def bind_w_iff result_simps)
      then show ?thesis
      proof cases
        case tx
        with remember_change.created [OF none ins(1) [unfolded check_new_period_Inr] tx(1)] go(1) show ?thesis
          by (metis same_tables_refl set_store_sel)
      qed (use go(1) in simp)
    qed simp
  qed simp
qed

text \<open>A write either leaves the records as they were or makes one change with the record that passed the gates.\<close>

lemma remember_effect:
  assumes "remember_impl_with_authority env clock ids e skip vf vt allow authority opts db = (res, db')"
  obtains (unchanged) "same_records db db'" "held res"
    | (written) m s db1 db2 td out td' where "enrich env clock authority e db = Inr m"
      "rejected_value_gate env clock ids allow m db = (Inr (), db1)" "seal_write env authority m db1 = (Inr s, db2)"
      "same_tables (md_store db) td" "remember_change env clock (wi_history ids) m s vf vt (go_sparse_update opts) td out td'"
      "same_tables td' (md_store db')" "res = Inr out \<or> (\<exists>j. res = Inl (JournalFailed j))"
proof -
  from assms consider (err) x where "res = Inl x" "db' = db"
    | (gate) m x where "enrich env clock authority e db = Inr m" "rejected_value_gate env clock ids allow m db = (Inl x, db')" "res = Inl x"
    | (seal) m db1 x where "enrich env clock authority e db = Inr m" "rejected_value_gate env clock ids allow m db = (Inr (), db1)"
        "seal_write env authority m db1 = (Inl x, db')" "res = Inl x"
    | (go) m db1 s db2 where "enrich env clock authority e db = Inr m" "rejected_value_gate env clock ids allow m db = (Inr (), db1)"
        "seal_write env authority m db1 = (Inr s, db2)"
        "(case identity_row (md_store db2) m of
           Some r \<Rightarrow> remember_update env clock ids m s r vf vt opts
         | None \<Rightarrow> remember_insert env clock ids m s skip vf vt opts) db2 = (res, db')"
    unfolding remember_impl_with_authority_def by (auto simp: bind_w_iff try_w_iff read_w_iff) metis+
  then show thesis
  proof cases
    case gate
    with keepsD [OF records.keeps_rejected_value_gate] unchanged show thesis by fastforce
  next
    case seal
    with keepsD [OF records.keeps_rejected_value_gate] keepsD [OF records.keeps_seal_write] unchanged same_tables_trans
    show thesis by (metis held_Inl)
  next
    case go
    have same: "same_records db db2"
      using keepsD [OF records.keeps_rejected_value_gate go(2)] keepsD [OF records.keeps_seal_write go(3)] same_tables_trans by blast
    have "same_records db2 db' \<and> held res \<or>
      (\<exists>td out td'. same_tables (md_store db2) td \<and>
         remember_change env clock (wi_history ids) m s vf vt (go_sparse_update opts) td out td' \<and> same_tables td' (md_store db') \<and>
         (res = Inr out \<or> (\<exists>j. res = Inl (JournalFailed j))))"
    proof (cases "identity_row (md_store db2) m")
      case None
      with go(4) remember_insert_effect [of env clock ids m s skip vf vt opts db2 res db'] show ?thesis by auto
    next
      case (Some r)
      with go(4) remember_update_effect [of env clock ids m s r vf vt opts db2 res db'] show ?thesis by auto
    qed
    then show thesis
    proof (elim disjE exE conjE)
      assume "same_records db2 db'" "held res"
      with same same_tables_trans unchanged show thesis by blast
    next
      fix td out td'
      assume "same_tables (md_store db2) td" "remember_change env clock (wi_history ids) m s vf vt (go_sparse_update opts) td out td'"
        "same_tables td' (md_store db')" "res = Inr out"
      with same same_tables_trans written [OF go(1-3)] show thesis by blast
    next
      fix td out td' j
      assume "same_tables (md_store db2) td" "remember_change env clock (wi_history ids) m s vf vt (go_sparse_update opts) td out td'"
        "same_tables td' (md_store db')" "res = Inl (JournalFailed j)"
      with same same_tables_trans written [OF go(1-3)] show thesis by blast
    qed
  qed (use unchanged in simp)
qed

lemma remember_written:
  assumes "remember_impl_with_authority env clock ids e skip vf vt allow authority opts db = (Inr (eid, a), db')"
    and "a = ''created'' \<or> a = ''updated''"
  obtains m s db1 db2 td td' where "enrich env clock authority e db = Inr m"
      "rejected_value_gate env clock ids allow m db = (Inr (), db1)" "seal_write env authority m db1 = (Inr s, db2)"
      "same_tables (md_store db) td" "remember_change env clock (wi_history ids) m s vf vt (go_sparse_update opts) td (eid, a) td'"
      "same_tables td' (md_store db')"
  using assms(1)
proof (cases rule: remember_effect)
  case unchanged
  with assms(2) show ?thesis by (auto simp: held_def hold_action_def)
next
  case (written m s db1 db2 td out td')
  then show ?thesis using that by simp
qed

section \<open>The row a write leaves\<close>

lemma live_row_update:
  assumes "live_row td eid = Some r" and "row_id (f r) = row_id r"
  shows "live_row (update_live td eid f) eid = Some (f r)"
proof -
  have "find (\<lambda>x. row_id x = eid) (map (\<lambda>x. if row_id x = eid then f x else x) rs) = Some (f r)"
    if "find (\<lambda>x. row_id x = eid) rs = Some r" for rs
    using that assms(2) find_SomeD [OF that] by (induction rs) (auto split: if_splits)
  then show ?thesis using assms(1) by (simp add: live_row_def update_live_def)
qed

lemma rewrite_row_facts:
  "row_id (rewrite_row env m s sp ls changed reassert now hid vf vt r) = row_id r"
  "row_category (rewrite_row env m s sp ls changed reassert now hid vf vt r) = row_category r"
  "row_key (rewrite_row env m s sp ls changed reassert now hid vf vt r) = row_key r"
  "row_created_at (rewrite_row env m s sp ls changed reassert now hid vf vt r) = row_created_at r"
  "row_workspace (rewrite_row env m s sp ls changed reassert now hid vf vt r) = Some (me_workspace_hash m)"
  "row_body_json (rewrite_row env m s sp ls changed reassert now hid vf vt r) = sl_body s"
  "row_status (rewrite_row env m s sp ls changed reassert now hid vf vt r) = me_status m"
  "row_archived (rewrite_row env m s sp ls changed reassert now hid vf vt r) = (if me_archived m then 1 else 0)"
  "row_agent (rewrite_row env m s sp ls changed reassert now hid vf vt r) = Some (me_agent_id m)"
  "row_visibility (rewrite_row env m s sp ls changed reassert now hid vf vt r) = Some (me_visibility m)"
  "row_links (rewrite_row env m s sp ls changed reassert now hid vf vt r) = ls"
  "vr_epistemic_state (rewrite_row env m s sp ls changed reassert now hid vf vt r) = stored_epistemic_state m"
  by (cases reassert; simp add: rewrite_row_def Let_def update_columns_def stamp_changed_def restamp_def)+

definition retired_if :: "bool \<Rightarrow> write_env \<Rightarrow> temporal_db \<Rightarrow> string \<Rightarrow> int \<Rightarrow> string \<Rightarrow> temporal_db \<Rightarrow> bool" where
  "retired_if b env td hid now eid td1 \<longleftrightarrow>
     (if b then snapshot_live_row_to_history (we_store env) td hid now eid = Inr td1 else td1 = td)"

text \<open>The transaction that updates a record, with the values it works with.\<close>

definition update_plan ::
    "write_env \<Rightarrow> int \<Rightarrow> string \<Rightarrow> memory \<Rightarrow> bool \<Rightarrow> string \<Rightarrow> int option \<Rightarrow> int option \<Rightarrow> temporal_db \<Rightarrow>
     version_row \<Rightarrow> bool \<Rightarrow> int option \<Rightarrow> int \<Rightarrow> temporal_db \<Rightarrow> memory_link list \<Rightarrow> bool" where
  "update_plan env clock hid m sp eid vf vt td r changed reassert now td1 ls \<longleftrightarrow>
     live_row td eid = Some r \<and> (changed \<longleftrightarrow> plain_body env [] r \<noteq> Inr (me_body_json m)) \<and>
     reassert = audit_reassert_from changed vf vt r \<and>
     now = (if changed \<or> reassert \<noteq> None then max clock (wrap64 (recorded r + 1)) else clock) \<and>
     check_period changed now vf vt r = Inr () \<and> retired_if (changed \<or> reassert \<noteq> None) env td hid now eid td1 \<and>
     (\<exists>dropped. merge_links env td1 sp (body_tokens (we_gate env) (me_body_json m)) eid
        (or_else (we_parse_links env (row_links r)) []) (me_links m) = Inr (ls, dropped))"

lemma update_planD:
  assumes "update_plan env clock hid m sp eid vf vt td r changed reassert now td1 ls"
  shows "live_row td eid = Some r" and "changed \<longleftrightarrow> plain_body env [] r \<noteq> Inr (me_body_json m)"
    and "reassert = audit_reassert_from changed vf vt r"
    and "now = (if changed \<or> reassert \<noteq> None then max clock (wrap64 (recorded r + 1)) else clock)"
    and "check_period changed now vf vt r = Inr ()"
    and "retired_if (changed \<or> reassert \<noteq> None) env td hid now eid td1"
    and "\<exists>dropped. merge_links env td1 sp (body_tokens (we_gate env) (me_body_json m)) eid
        (or_else (we_parse_links env (row_links r)) []) (me_links m) = Inr (ls, dropped)"
  using assms unfolding update_plan_def by blast+

lemma plain_body_what: "plain_body env what r = Inr b \<longleftrightarrow> plain_body env [] r = Inr b"
  by (auto simp: plain_body_def map_err_Inr split: option.splits)

lemma update_tx_plan:
  assumes "update_tx env clock hid m s sp eid vf vt td = Inr (dropped, td')"
  obtains r changed reassert now td1 ls where "update_plan env clock hid m sp eid vf vt td r changed reassert now td1 ls"
    "td' = update_live td1 eid (rewrite_row env m s sp (we_links_text env ls) changed reassert now hid vf vt)"
proof -
  from assms obtain r where r: "live_row td eid = Some r" by (auto simp: update_tx_def bind_r_Inr ok_or_Inr)
  from assms obtain old where old: "plain_body env (''cannot update existing body for '' @ eid @ '': authentication failed: '') r = Inr old"
    by (auto simp: update_tx_def bind_r_Inr ok_or_Inr r)
  let ?changed = "old \<noteq> me_body_json m"
  let ?reassert = "audit_reassert_from ?changed vf vt r"
  let ?retire = "?changed \<or> ?reassert \<noteq> None"
  let ?now = "if ?retire then max clock (wrap64 (recorded r + 1)) else clock"
  from assms have "bind_r (check_period ?changed ?now vf vt r) (\<lambda>_.
          bind_r (if ?retire then map_err Refused (snapshot_live_row_to_history (we_store env) td hid ?now eid) else Inr td) (\<lambda>td1.
          bind_r (merge_links env td1 sp (body_tokens (we_gate env) (me_body_json m)) eid
              (or_else (we_parse_links env (row_links r)) []) (me_links m)) (\<lambda>(ls, dropped).
            Inr (dropped, update_live td1 eid (rewrite_row env m s sp (we_links_text env ls) ?changed ?reassert ?now hid
              vf vt))))) = Inr (dropped, td')"
    unfolding update_tx_def r old ok_or_def option.case bind_r_simps Let_def .
  then obtain td1 ls where c: "check_period ?changed ?now vf vt r = Inr ()"
      "(if ?retire then map_err Refused (snapshot_live_row_to_history (we_store env) td hid ?now eid) else Inr td) = Inr td1"
      "merge_links env td1 sp (body_tokens (we_gate env) (me_body_json m)) eid (or_else (we_parse_links env (row_links r)) []) (me_links m) = Inr (ls, dropped)"
      "td' = update_live td1 eid (rewrite_row env m s sp (we_links_text env ls) ?changed ?reassert ?now hid vf vt)"
    unfolding bind_r_Inr by auto
  have ret: "retired_if ?retire env td hid ?now eid td1"
    using c(2) by (auto simp: retired_if_def map_err_Inr split: if_splits)
  have ch: "?changed \<longleftrightarrow> plain_body env [] r \<noteq> Inr (me_body_json m)"
    using plain_body_what [THEN iffD1, OF old] by simp
  have "update_plan env clock hid m sp eid vf vt td r ?changed ?reassert ?now td1 ls"
    unfolding update_plan_def by (intro conjI exI [of _ dropped] r ch c(1,3) ret refl)
  from this c(4) show thesis by (rule that)
qed

lemma snapshot_tables:
  assumes "snapshot_live_row_to_history env td hid now eid = Inr td1"
  shows "td_live td1 = td_live td" "td_agents td1 = td_agents td" "td_overlay td1 = td_overlay td" "td_tombstones td1 = td_tombstones td"
  using assms by (auto simp: snapshot_live_row_to_history_def insert_history_def bind_r_Inr split: option.splits if_splits)

lemma retired_live:
  assumes "retired_if b env td hid now eid td1"
  shows "td_live td1 = td_live td" "td_agents td1 = td_agents td" "live_row td1 eid = live_row td eid"
  using assms snapshot_tables unfolding retired_if_def by (auto simp: live_row_def split: if_splits)

lemma remember_change_agents:
  assumes "remember_change env clock hid m s vf vt sp td out td'"
  shows "td_agents td' = td_agents td"
  using assms
proof cases
  case (updated r dropped)
  from updated(3) obtain r0 changed reassert now td1 ls where
    u: "update_plan env clock hid m sp (row_id r) vf vt td r0 changed reassert now td1 ls"
    and td': "td' = update_live td1 (row_id r) (rewrite_row env m s sp (we_links_text env ls) changed reassert now hid vf vt)"
    by (rule update_tx_plan)
  from td' retired_live(2) [OF update_planD(6) [OF u]] show ?thesis by (simp add: update_live_def)
qed (auto simp: insert_tx_def update_live_def split: if_splits)

lemma insert_row_facts:
  "row_id (insert_row env m s vf vt) = me_id m" "row_category (insert_row env m s vf vt) = me_category m"
  "row_key (insert_row env m s vf vt) = me_key m" "row_workspace (insert_row env m s vf vt) = Some (me_workspace_hash m)"
  "row_body_json (insert_row env m s vf vt) = sl_body s" "row_status (insert_row env m s vf vt) = me_status m"
  "row_archived (insert_row env m s vf vt) = (if me_archived m then 1 else 0)"
  "row_agent (insert_row env m s vf vt) = Some (me_agent_id m)" "row_visibility (insert_row env m s vf vt) = Some (me_visibility m)"
  "row_created_at (insert_row env m s vf vt) = me_created_at m" "vr_recorded_at (insert_row env m s vf vt) = Some (me_created_at m)"
  "row_valid_from (insert_row env m s vf vt) = Some (or_else vf (me_created_at m))" "row_valid_to (insert_row env m s vf vt) = vt"
  "row_invalidated_at (insert_row env m s vf vt) = None"
  "vr_epistemic_state (insert_row env m s vf vt) = stored_epistemic_state m"
  "row_links (insert_row env m s vf vt) = we_links_text env (stamp_link_sources (me_id m) (me_links m))"
  by (simp_all add: insert_row_def)

lemma insert_tx_Inr:
  "insert_tx r td = Inr (u, td') \<longleftrightarrow> row_id r \<notin> row_id ` set (td_live td) \<and> td' = td\<lparr>td_live := td_live td @ [r]\<rparr>"
  by (auto simp: insert_tx_def)

lemma find_append_fresh: "\<forall>x \<in> set xs. \<not> P x \<Longrightarrow> P y \<Longrightarrow> find P (xs @ [y]) = Some y"
  by (induction xs) auto

text \<open>The row after a write that stored the record.\<close>

lemma written_row:
  assumes "remember_change env clock hid m s vf vt sp td (eid, a) td'" and "a = ''created'' \<or> a = ''updated''"
  shows "\<exists>r. live_row td' eid = Some r \<and> row_status r = me_status m \<and> row_archived r = (if me_archived m then 1 else 0) \<and>
    row_agent r = Some (me_agent_id m) \<and> row_visibility r = Some (me_visibility m) \<and> row_body_json r = sl_body s \<and>
    vr_epistemic_state r = stored_epistemic_state m"
  using assms(1)
proof cases
  case (updated r dropped)
  from updated(4) obtain r0 changed reassert now td1 ls where
    u: "update_plan env clock hid m sp (row_id r) vf vt td r0 changed reassert now td1 ls"
    and td': "td' = update_live td1 (row_id r) (rewrite_row env m s sp (we_links_text env ls) changed reassert now hid vf vt)"
    by (rule update_tx_plan)
  have "live_row td' eid = Some (rewrite_row env m s sp (we_links_text env ls) changed reassert now hid vf vt r0)"
    unfolding td' updated(1) by (rule live_row_update) (simp_all add: retired_live(3) [OF update_planD(6) [OF u]] update_planD(1) [OF u] rewrite_row_facts)
  then show ?thesis by (auto simp: rewrite_row_facts)
next
  case created
  let ?new = "insert_row env m s vf vt"
  have new: "\<forall>x \<in> set (td_live td). row_id x \<noteq> eid" "td' = td\<lparr>td_live := td_live td @ [?new]\<rparr>"
    using created(5) unfolding insert_tx_Inr insert_row_facts created(1) [symmetric] by auto
  have "live_row td' eid = Some ?new"
    using find_append_fresh [OF new(1), of ?new] by (simp add: new(2) live_row_def insert_row_facts created(1))
  then show ?thesis by (simp add: insert_row_facts)
qed (use assms(2) in simp)

lemma remember_change_updated:
  assumes "remember_change env clock hid m s vf vt sp td (eid, ''updated'') td'"
  shows "\<exists>dropped. update_tx env clock hid m s sp eid vf vt td = Inr (dropped, td')"
proof -
  have "snd out = ''updated'' \<longrightarrow> (\<exists>dropped. update_tx env clock hid m s sp (fst out) vf vt td = Inr (dropped, td'))"
    if "remember_change env clock hid m s vf vt sp td out td'" for out
    using that by (induction rule: remember_change.induct) simp_all
  from this [OF assms] show ?thesis by simp
qed

end
