(* ===== verification/Remember_Guarantees.thy ===== *)
theory Remember_Guarantees
  imports Remember_Effect
begin

text \<open>
  What the durable writer promises of trust and visibility: who may read a derived record, which
  values reach the store, which authority may leave an active record, what a refused write leaves
  behind, that links are only added and that the journal of the writes verifies.
\<close>

section \<open>What the gates leave of the record\<close>

lemma ensure_fields:
  "me_body_json (ensure_durable_write_provenance m a) = me_body_json m"
  "me_workspace_hash (ensure_durable_write_provenance m a) = me_workspace_hash m"
  "me_category (ensure_durable_write_provenance m a) = me_category m"
  "me_key (ensure_durable_write_provenance m a) = me_key m"
  "me_agent_id (ensure_durable_write_provenance m a) = me_agent_id m"
  "me_links (ensure_durable_write_provenance m a) = me_links m"
  "me_id (ensure_durable_write_provenance m a) = me_id m"
  "me_created_at (ensure_durable_write_provenance m a) = me_created_at m"
  "me_archived (ensure_durable_write_provenance m a) = me_archived m"
  by (cases a; simp add: elevate_def Let_def)+

lemma apply_derived_visibility_fields:
  assumes "apply_derived_visibility env db now m = Inr m'"
  shows "\<exists>v. m' = m\<lparr>me_visibility := v\<rparr>"
  using assms unfolding apply_derived_visibility_def
  by (auto simp: bind_r_Inr split: if_splits option.splits intro: exI [of _ "me_visibility m"])

lemma enrich_Inr:
  "enrich env clock authority e db = Inr m \<longleftrightarrow>
     (\<exists>st. writable_status (me_status e) = Inr st \<and> validate_authority env db (e\<lparr>me_status := st\<rparr>) authority = Inr () \<and>
        apply_derived_visibility (we_gate env) (gate_of (md_store db)) clock
          (ensure_durable_write_provenance (e\<lparr>me_status := st\<rparr>) authority) = Inr m)"
  by (auto simp: enrich_def bind_r_Inr map_err_Inr Let_def)

lemma enrich_fields:
  assumes "enrich env clock authority e db = Inr m"
  shows "me_body_json m = me_body_json e" "me_workspace_hash m = me_workspace_hash e" "me_category m = me_category e"
    "me_key m = me_key e" "me_agent_id m = me_agent_id e" "me_links m = me_links e" "me_id m = me_id e"
    "me_created_at m = me_created_at e" "me_archived m = me_archived e"
proof -
  from assms obtain st v where m: "m = (ensure_durable_write_provenance (e\<lparr>me_status := st\<rparr>) authority)\<lparr>me_visibility := v\<rparr>"
    unfolding enrich_Inr using apply_derived_visibility_fields by blast
  show "me_body_json m = me_body_json e" "me_workspace_hash m = me_workspace_hash e" "me_category m = me_category e"
    "me_key m = me_key e" "me_agent_id m = me_agent_id e" "me_links m = me_links e" "me_id m = me_id e"
    "me_created_at m = me_created_at e" "me_archived m = me_archived e"
    by (simp_all add: m ensure_fields)
qed

section \<open>Derived records\<close>

lemma can_read_agents:
  assumes "gd_agents db' = gd_agents db"
  shows "can_read db' = can_read db"
proof -
  have "agent_get db' = agent_get db" using assms by (simp add: fun_eq_iff agent_get_def)
  then have "agent_trust_tier db' = agent_trust_tier db" "agent_fleet db' = agent_fleet db"
    by (simp_all add: fun_eq_iff agent_trust_tier_def agent_fleet_def)
  then show ?thesis by (simp add: fun_eq_iff can_read_def)
qed

lemma more_restrictive_le:
  "visibility_rank (more_restrictive_visibility a b) \<le> visibility_rank a"
  "visibility_rank (more_restrictive_visibility a b) \<le> visibility_rank b"
  by (auto simp: more_restrictive_visibility_def)

lemma restrict_loop_Inr:
  assumes "restrict_loop env db now writer tids restricted = Inr out"
  shows "(\<forall>v. restricted = Some v \<longrightarrow> (\<exists>w. out = Some w \<and> visibility_rank w \<le> visibility_rank v)) \<and>
    (\<forall>tid \<in> set tids. \<exists>src w. get_entity_by_id env db now tid = Inr (Some src) \<and>
       can_read db writer (en_visibility src) (en_agent_id src) \<and> out = Some w \<and> visibility_rank w \<le> visibility_rank (en_visibility src))"
  using assms
proof (induction tids arbitrary: restricted)
  case Nil
  then show ?case by simp
next
  case (Cons tid tids)
  from Cons.prems obtain src where src: "get_entity_by_id env db now tid = Inr (Some src)"
      "can_read db writer (en_visibility src) (en_agent_id src)"
      "restrict_loop env db now writer tids (Some (case restricted of None \<Rightarrow> en_visibility src
         | Some cur \<Rightarrow> more_restrictive_visibility cur (en_visibility src))) = Inr out"
    by (auto simp: bind_r_Inr map_err_Inr split: option.splits if_splits)
  from Cons.IH [OF src(3)] src(1,2) show ?case
    using more_restrictive_le by (cases restricted) (fastforce intro: order_trans)+
qed

text \<open>A visibility with a rank at most that of a source, and a writer who can read the source.\<close>

lemma reader_of_derived:
  assumes "can_read db writer vis owner" and "visibility_rank w \<le> visibility_rank vis"
    and "agent_trust_tier db writer < 2 \<or> agent_fleet db writer = None" and "can_read db reader w writer"
  shows "can_read db reader vis owner"
  using assms
  by (auto simp: can_read_def visibility_rank_def Let_def TRUST_TIER_UNSCOPED_def split: if_splits option.splits)

lemma derived_sources:
  assumes "apply_derived_visibility env db now m = Inr m'" and "tid \<in> set (derived_targets m)"
  shows "\<exists>src. get_entity_by_id env db now tid = Inr (Some src) \<and> can_read db (me_agent_id m) (en_visibility src) (en_agent_id src) \<and>
    visibility_rank (me_visibility m') \<le> visibility_rank (en_visibility src)"
proof -
  from assms obtain out where out: "restrict_loop env db now (me_agent_id m) (derived_targets m) None = Inr out"
      "m' = (case out of None \<Rightarrow> m | Some most \<Rightarrow> m\<lparr>me_visibility := more_restrictive_visibility (me_visibility m) most\<rparr>)"
    by (auto simp: apply_derived_visibility_def bind_r_Inr split: if_splits)
  from restrict_loop_Inr [OF out(1)] assms(2) obtain src w where "get_entity_by_id env db now tid = Inr (Some src)"
      "can_read db (me_agent_id m) (en_visibility src) (en_agent_id src)" "out = Some w" "visibility_rank w \<le> visibility_rank (en_visibility src)"
    by blast
  with out(2) more_restrictive_le(2) [of "me_visibility m" w] show ?thesis by auto
qed

section \<open>Rejected values\<close>

lemma cleaned_hit:
  "mandate_hit (unexpired_tombstones now ts) None ws cat d \<longleftrightarrow> mandate_hit ts (Some now) ws cat d"
  by (auto simp: mandate_hit_def unexpired_tombstones_def list_ex_iff mandate_matches_def split: option.splits)

text \<open>The gate of the writes refuses exactly the values that the reads suppress.\<close>

lemma is_value_suppressed_iff:
  assumes "open_overlay (gate_of (md_store db)) = Inr sidecar"
  shows "\<exists>db1. is_value_suppressed env now ws cat v db =
    (Inr (value_suppressed (we_gate env) (gate_of (md_store db)) sidecar ws cat v now), db1)"
  using assms
  by (auto simp: is_value_suppressed_def is_value_erased_def is_value_rejected_def bind_w_def read_w_def modify_w_def return_w_def
      map_err_def value_suppressed_def Let_def gate_of_def cleaned_hit set_store_def split: option.splits)

lemma rejected_value_gate_refuses:
  assumes "open_overlay (gate_of (md_store db)) = Inr sidecar"
    and "value_suppressed (we_gate env) (gate_of (md_store db)) sidecar (me_workspace_hash m) (me_category m) (me_body_json m) now"
  shows "\<exists>x db1. rejected_value_gate env now ids False m db = (Inl x, db1)"
proof -
  obtain db1 where "is_value_suppressed env now (me_workspace_hash m) (me_category m) (me_body_json m) db = (Inr True, db1)"
    using is_value_suppressed_iff [OF assms(1)] assms(2) by metis
  then show ?thesis
    by (cases "rejected_value_gate env now ids False m db")
      (auto simp: rejected_value_gate_def refuse_rejected_def bind_w_def fail_w_def split: prod.splits sum.splits)
qed

section \<open>Evidence\<close>

lemma validate_admission_write_Inr:
  "validate_admission_write env db m ev = Inr () \<longleftrightarrow>
     evidence_validate (we_digest env) ev = Inr () \<and> ae_outcome ev = ''admitted'' \<and> ae_authoritative ev \<and> ae_durable ev \<and>
     check_stored_evidence env admission_texts (\<lambda>d. ''admission record_digest does not match canonical entity body: expected '' @
        ae_record_digest ev @ '', got '' @ d) m ev = Inr () \<and> check_source_event env db ev = Inr ()"
  unfolding validate_admission_write_def check_all_Inr list.pred_inject guard_r_Inr map_err_Inr by auto

lemma present_Inr: "present x t = Inr v \<longleftrightarrow> x = Some v \<and> \<not> blank v"
  by (auto simp: present_def split: option.splits)

lemma check_source_event_Inr:
  assumes "check_source_event env db ev = Inr ()"
  shows "\<exists>src \<in> set (au_journal (md_audit db)). ae_source_event_id ev = Some (je_id src) \<and> je_event_type src = ''admission_source'' \<and>
    je_workspace_hash src = ae_workspace_hash ev"
proof -
  from assms obtain sid where sid: "ae_source_event_id ev = Some sid"
      "\<exists>src. find (\<lambda>r. je_id r = sid) (au_journal (md_audit db)) = Some src \<and> je_event_type src = ''admission_source'' \<and>
         je_workspace_hash src = ae_workspace_hash ev"
    unfolding check_source_event_def bind_r_Inr present_Inr by (auto split: option.splits if_splits)
  then show ?thesis by (auto dest!: find_SomeD)
qed

lemma check_stored_evidence_Inr:
  assumes "check_stored_evidence env texts mismatch m ev = Inr ()"
  shows "\<exists>ms. ge_parse_json (we_gate env) (me_body_json m) = Some (JObj ms) \<and>
    digest_text (we_digest env) (json_text (we_digest env) (JObj (without_members [''admission'', ''provenance''] ms))) = ae_record_digest ev"
  using assms unfolding check_stored_evidence_def
  by (auto simp: guard_r_Inr Let_def split: option.splits json.splits if_splits)

lemma seal_write_Inr:
  assumes "seal_write env authority m db = (Inr s, db')"
  shows "\<exists>db1. validate_authority env db1 (m\<lparr>me_body_json := sl_effective s\<rparr>) authority = Inr ()"
    and "seal_body env ''remember'' (me_category m) (me_key m) (sl_effective s) = Inr (sl_body s)"
  using assms unfolding seal_write_def by (auto simp: bind_w_Inr read_w_iff try_w_iff return_w_iff)

lemma review_not_active: "validate_review_transition env m ev = Inr () \<Longrightarrow> me_status m = ''active'' \<Longrightarrow> me_archived m"
  unfolding validate_review_transition_def check_all_Inr list.pred_inject guard_r_Inr by auto

lemma status_of_derived: "apply_derived_visibility env db now m = Inr m' \<Longrightarrow> me_status m' = me_status m"
  using apply_derived_visibility_fields by fastforce

section \<open>Links\<close>

lemma merge_links_Inr:
  "merge_links env td sp tokens eid merged ls = Inr (out, dropped) \<Longrightarrow>
   (\<exists>more. out = merged @ more) \<and> (\<not> sp \<longrightarrow> ml_target_id ` set ls \<subseteq> ml_target_id ` set out)"
proof (induction ls arbitrary: merged out dropped)
  case (Cons l ls)
  show ?case
  proof (cases "list_ex (\<lambda>x. ml_target_id x = ml_target_id l) merged")
    case True
    then have l: "ml_target_id l \<in> ml_target_id ` set merged" by (auto simp: list_ex_iff intro: rev_image_eqI)
    from True Cons.prems have "merge_links env td sp tokens eid merged ls = Inr (out, dropped)" by simp
    from Cons.IH [OF this] l show ?thesis by auto
  next
    case False
    with Cons.prems obtain admit where adm: "(if sp \<and> tokens \<noteq> [] then link_activated env td tokens (ml_target_id l) else Inr True) = Inr admit"
      "(if admit then merge_links env td sp tokens eid (merged @ stamp_link_sources eid [l]) ls
        else bind_r (merge_links env td sp tokens eid merged ls) (\<lambda>(ls, dropped). Inr (ls, ml_target_id l # dropped))) = Inr (out, dropped)"
      by (simp only: merge_links.simps if_False bind_r_Inr) blast
    have admit: "sp \<or> admit" using adm(1) by (cases sp) simp_all
    have l: "ml_target_id ` set (stamp_link_sources eid [l]) = {ml_target_id l}" by (simp add: stamp_link_sources_def)
    show ?thesis
    proof (cases admit)
      case True
      with adm(2) have "merge_links env td sp tokens eid (merged @ stamp_link_sources eid [l]) ls = Inr (out, dropped)" by simp
      from Cons.IH [OF this] l show ?thesis by (auto simp: image_Un)
    next
      case False
      with adm(2) have "\<exists>d. merge_links env td sp tokens eid merged ls = Inr (out, d)" by (auto simp: bind_r_Inr)
      then obtain d where d: "sp" "merge_links env td sp tokens eid merged ls = Inr (out, d)" using False admit by blast
      from Cons.IH [OF d(2)] d(1) show ?thesis by simp
    qed
  qed
qed simp

section \<open>Properties\<close>

text \<open>
  C4. A derived record never shows more than its sources. After a write that stored a record and
  itself names a source in its links as \<open>derived_from\<close>, every agent that may read the stored record may
  read that source, provided the writer has no trust tier that reads the fleet records of all fleets, or is
  in no fleet itself. A source that only links stored earlier name is not covered.
\<close>

theorem derived_records_stay_within_sources:
  assumes "remember_impl_with_authority env clock ids e skip vf vt allow authority opts db = (Inr (eid, a), db')"
    and "a = ''created'' \<or> a = ''updated''"
    and "l \<in> set (me_links e)" "ml_relationship l = ''derived_from''"
    and "agent_trust_tier (gate_of (md_store db)) (me_agent_id e) < 2 \<or> agent_fleet (gate_of (md_store db)) (me_agent_id e) = None"
    and "live_row (md_store db') eid = Some r"
    and "can_read (gate_of (md_store db')) reader (or_else (row_visibility r) ''workspace'') (or_else (row_agent r) [])"
  shows "\<exists>src. get_entity_by_id (we_gate env) (gate_of (md_store db)) clock (ml_target_id l) = Inr (Some src) \<and>
    can_read (gate_of (md_store db')) reader (en_visibility src) (en_agent_id src)"
  using assms(1,2)
proof (rule remember_written)
  fix m s db1 db2 td td'
  assume en: "enrich env clock authority e db = Inr m" and td: "same_tables (md_store db) td"
    and ch: "remember_change env clock (wi_history ids) m s vf vt (go_sparse_update opts) td (eid, a) td'"
    and td': "same_tables td' (md_store db')"
  from en obtain st where st: "apply_derived_visibility (we_gate env) (gate_of (md_store db)) clock
      (ensure_durable_write_provenance (e\<lparr>me_status := st\<rparr>) authority) = Inr m"
    unfolding enrich_Inr by blast
  let ?m = "ensure_durable_write_provenance (e\<lparr>me_status := st\<rparr>) authority"
  have "ml_target_id l \<in> set (derived_targets ?m)" using assms(3,4) by (auto simp: derived_targets_def ensure_fields)
  from derived_sources [OF st this] obtain src where src: "get_entity_by_id (we_gate env) (gate_of (md_store db)) clock (ml_target_id l) = Inr (Some src)"
      "can_read (gate_of (md_store db)) (me_agent_id e) (en_visibility src) (en_agent_id src)"
      "visibility_rank (me_visibility m) \<le> visibility_rank (en_visibility src)"
    by (auto simp: ensure_fields)
  have row: "row_visibility r = Some (me_visibility m)" "row_agent r = Some (me_agent_id e)"
    using written_row [OF ch assms(2)] td' assms(6) enrich_fields(5) [OF en] by (auto simp: live_row_def same_tables_def)
  have "can_read (gate_of (md_store db')) = can_read (gate_of (md_store db))"
    using remember_change_agents [OF ch] td td' by (intro can_read_agents) (simp add: gate_of_def same_tables_def)
  with reader_of_derived [OF src(2,3) assms(5)] assms(7) src(1) row show ?thesis by (auto simp: or_else_def)
qed

text \<open>
  C5. A value that the reads suppress is not written: without the deliberate override, a write of a body
  with a tombstone or an erasure mandate fails, whatever authority it has, and changes no record.
\<close>

theorem suppressed_values_are_not_written:
  assumes "open_overlay (gate_of (md_store db)) = Inr sidecar"
    and "value_suppressed (we_gate env) (gate_of (md_store db)) sidecar (me_workspace_hash e) (me_category e) (me_body_json e) clock"
    and "remember_impl_with_authority env clock ids e skip vf vt False authority opts db = (res, db')"
  shows "(\<exists>x. res = Inl x) \<and> td_live (md_store db') = td_live (md_store db) \<and> td_history (md_store db') = td_history (md_store db)"
proof -
  have no: "\<not> (enrich env clock authority e db = Inr m \<and> rejected_value_gate env clock ids False m db = (Inr (), db1))" for m db1
  proof
    assume en: "enrich env clock authority e db = Inr m \<and> rejected_value_gate env clock ids False m db = (Inr (), db1)"
    from rejected_value_gate_refuses [OF assms(1), of env m clock ids] assms(2) en show False
      by (auto simp: enrich_fields [OF conjunct1 [OF en]])
  qed
  have "\<exists>x. res = Inl x"
    using assms(3) no unfolding remember_impl_with_authority_def bind_w_iff read_w_iff try_w_iff by auto
  moreover from assms(3) have "same_records db db'"
    by (cases rule: remember_effect) (use no in blast)+
  ultimately show ?thesis by (simp add: same_tables_def)
qed

text \<open>
  C6. Only an authority leaves an active record. When the row a write stored is active and not archived, the
  writer was a trusted part of the program, or it presented admission evidence that is valid, admitted,
  authoritative and durable, whose source event is in the journal for the same workspace, and whose
  digest is that of the very text that is stored, without its envelopes.
\<close>

theorem active_records_have_authority:
  assumes "remember_impl_with_authority env clock ids e skip vf vt allow authority opts db = (Inr (eid, a), db')"
    and "a = ''created'' \<or> a = ''updated''"
    and "live_row (md_store db') eid = Some r" and "row_status r = ''active''" and "row_archived r = 0"
  shows "(\<exists>w. authority = InternalTrusted w) \<or>
    (\<exists>ev. authority = Admission ev \<and> evidence_validate (we_digest env) ev = Inr () \<and> ae_outcome ev = ''admitted'' \<and>
       ae_authoritative ev \<and> ae_durable ev \<and>
       (\<exists>src \<in> set (au_journal (md_audit db)). ae_source_event_id ev = Some (je_id src) \<and>
          je_event_type src = ''admission_source'' \<and> je_workspace_hash src = ae_workspace_hash ev) \<and>
       (\<exists>plain ms. seal_body env ''remember'' (me_category e) (me_key e) plain = Inr (row_body_json r) \<and>
          ge_parse_json (we_gate env) plain = Some (JObj ms) \<and>
          digest_text (we_digest env) (json_text (we_digest env) (JObj (without_members [''admission'', ''provenance''] ms))) = ae_record_digest ev))"
  using assms(1,2)
proof (rule remember_written)
  fix m s db1 db2 td td'
  assume en: "enrich env clock authority e db = Inr m" and seal: "seal_write env authority m db1 = (Inr s, db2)"
    and ch: "remember_change env clock (wi_history ids) m s vf vt (go_sparse_update opts) td (eid, a) td'"
    and td': "same_tables td' (md_store db')"
  from en obtain st where st: "validate_authority env db (e\<lparr>me_status := st\<rparr>) authority = Inr ()"
      "apply_derived_visibility (we_gate env) (gate_of (md_store db)) clock (ensure_durable_write_provenance (e\<lparr>me_status := st\<rparr>) authority) = Inr m"
    unfolding enrich_Inr by blast
  have row: "me_status m = ''active''" "\<not> me_archived e" "row_body_json r = sl_body s"
    using written_row [OF ch assms(2)] td' assms(3-5) enrich_fields(9) [OF en]
    by (auto simp: live_row_def same_tables_def split: if_splits)
  have active: "me_status (ensure_durable_write_provenance (e\<lparr>me_status := st\<rparr>) authority) = ''active''"
    using status_of_derived [OF st(2)] row(1) by simp
  obtain dbv where valid: "validate_authority env dbv (m\<lparr>me_body_json := sl_effective s\<rparr>) authority = Inr ()"
    using seal_write_Inr(1) [OF seal] by blast
  have sealed: "seal_body env ''remember'' (me_category e) (me_key e) (sl_effective s) = Inr (row_body_json r)"
    using seal_write_Inr(2) [OF seal] row(3) enrich_fields(3,4) [OF en] by simp
  show ?thesis
  proof (cases authority)
    case Unverified
    with active show ?thesis by (auto simp: Let_def split: if_splits)
  next
    case (ReviewTransition ev)
    with st(1) active row(2) review_not_active show ?thesis by fastforce
  next
    case (Admission ev)
    note ev = st(1) [unfolded Admission, simplified, unfolded validate_admission_write_Inr]
    from valid Admission have "\<exists>ms. ge_parse_json (we_gate env) (sl_effective s) = Some (JObj ms) \<and>
        digest_text (we_digest env) (json_text (we_digest env) (JObj (without_members [''admission'', ''provenance''] ms))) = ae_record_digest ev"
      using check_stored_evidence_Inr [of env _ _ "m\<lparr>me_body_json := sl_effective s\<rparr>"] by (auto simp: validate_admission_write_Inr)
    with ev sealed Admission check_source_event_Inr show ?thesis by blast
  qed simp
qed

text \<open>
  C27. A write that does not succeed changes no record: after an error other than a failure of the journal, and
  after a write that the interference gate put into quarantine, the live records and the history
  are as they were, and no event of the journal was removed.
\<close>

theorem refused_writes_change_no_record:
  assumes "remember_impl_with_authority env clock ids e skip vf vt allow authority opts db = (res, db')"
    and "case res of Inl x \<Rightarrow> \<forall>j. x \<noteq> JournalFailed j
      | Inr p \<Rightarrow> snd p \<notin> {''created'', ''updated'', ''deduped (new key not created)''}"
  shows "td_live (md_store db') = td_live (md_store db) \<and> td_history (md_store db') = td_history (md_store db) \<and>
    (\<exists>js. au_journal (md_audit db') = au_journal (md_audit db) @ js)"
proof -
  have "same_records db db'"
    using assms(1)
  proof (cases rule: remember_effect)
    case (written m s db1 db2 td out td')
    from written(5) have "snd out \<in> {''created'', ''updated'', ''deduped (new key not created)''}" by cases auto
    with written(7) assms(2) show ?thesis by auto
  qed simp
  moreover have "journal_grows db db'"
    using keepsD [OF appended.keeps_remember assms(1)] .
  ultimately show ?thesis by (simp add: same_tables_def journal_grows_def)
qed

text \<open>
  C28. Links are only added. An update keeps every stored link as it was, in its order, and, unless it is sparse,
  the record afterwards has a link to every target the caller named. The serialiser of links
  is assumed to be inverted by its parser.
\<close>

theorem links_are_only_added:
  assumes "\<forall>ls. we_parse_links env (we_links_text env ls) = Some ls"
    and "remember_impl_with_authority env clock ids e skip vf vt allow authority opts db = (Inr (eid, ''updated''), db')"
    and "live_row (md_store db) eid = Some old" and "we_parse_links env (row_links old) = Some ls"
    and "live_row (md_store db') eid = Some r"
  shows "\<exists>more. we_parse_links env (row_links r) = Some (ls @ more) \<and>
    (\<not> go_sparse_update opts \<longrightarrow> ml_target_id ` set (me_links e) \<subseteq> ml_target_id ` set (ls @ more))"
proof -
  have upd: "''updated'' = ''created'' \<or> ''updated'' = ''updated''" by simp
  from assms(2) upd obtain m s db1 db2 td td' where en: "enrich env clock authority e db = Inr m"
      and "rejected_value_gate env clock ids allow m db = (Inr (), db1)" "seal_write env authority m db1 = (Inr s, db2)"
      and td: "same_tables (md_store db) td"
      and ch: "remember_change env clock (wi_history ids) m s vf vt (go_sparse_update opts) td (eid, ''updated'') td'"
      and td': "same_tables td' (md_store db')"
    by (rule remember_written)
  from remember_change_updated [OF ch] obtain dropped where
    "update_tx env clock (wi_history ids) m s (go_sparse_update opts) eid vf vt td = Inr (dropped, td')" ..
  then obtain r0 changed reassert now td1 out where
    u: "update_plan env clock (wi_history ids) m (go_sparse_update opts) eid vf vt td r0 changed reassert now td1 out"
    and new: "td' = update_live td1 eid (rewrite_row env m s (go_sparse_update opts) (we_links_text env out) changed reassert now (wi_history ids) vf vt)"
    by (rule update_tx_plan)
  have r0: "r0 = old" using update_planD(1) [OF u] assms(3) td by (simp add: live_row_def same_tables_def)
  have "live_row td' eid = Some (rewrite_row env m s (go_sparse_update opts) (we_links_text env out) changed reassert now (wi_history ids) vf vt r0)"
    unfolding new by (rule live_row_update) (simp_all add: retired_live(3) [OF update_planD(6) [OF u]] update_planD(1) [OF u] rewrite_row_facts)
  then have "row_links r = we_links_text env out"
    using assms(5) td' by (auto simp: live_row_def same_tables_def rewrite_row_facts)
  moreover obtain d where "merge_links env td1 (go_sparse_update opts) (body_tokens (we_gate env) (me_body_json m)) eid ls (me_links e) = Inr (out, d)"
    using update_planD(7) [OF u] enrich_fields(6) [OF en] assms(4) by (auto simp: r0 or_else_def)
  ultimately show ?thesis using merge_links_Inr assms(1) by metis
qed

end
