(* ===== verification/Remember_Timeline.thy ===== *)
theory Remember_Timeline
  imports Remember_Guarantees
begin

text \<open>
  The durable writer and the two times of the store: no write inverts the valid period of a
  version, the versions of a record keep disjoint windows of transaction time, and the text that
  was believed at an earlier instant is still read for that instant.
\<close>

section \<open>Valid periods\<close>

definition period_ok :: "version_row \<Rightarrow> bool" where
  "period_ok r \<longleftrightarrow> (\<forall>t. row_valid_to r = Some t \<longrightarrow> valid_start r < t)"

definition periods_ok :: "temporal_db \<Rightarrow> bool" where
  "periods_ok td \<longleftrightarrow> distinct (map row_id (td_live td)) \<and> (\<forall>r \<in> set (td_live td). period_ok r) \<and>
     (\<forall>h \<in> set (td_history td). period_ok (snd h))"

lemma period_ok_snapshot [simp]: "period_ok (snapshot_of r body now by_id) = period_ok r"
  by (simp add: period_ok_def snapshot_of_def valid_start_def recorded_def)

lemma period_ok_restamp:
  "\<forall>t. row_valid_to r = Some t \<longrightarrow> or_else (row_valid_from r) eff < t \<Longrightarrow> period_ok (restamp now hid eff r)"
  by (simp add: period_ok_def restamp_def valid_start_def or_else_def)

lemma update_live_periods:
  assumes "periods_ok td" and "live_row td eid = Some r" and "row_id (f r) = row_id r" and "period_ok (f r)"
  shows "periods_ok (update_live td eid f)"
proof -
  have d: "distinct (map row_id (td_live td))" using assms(1) by (simp add: periods_ok_def)
  have r: "r \<in> set (td_live td)" "row_id r = eid" using live_rowD [OF assms(2)] by simp_all
  have same: "x = r" if "x \<in> set (td_live td)" "row_id x = eid" for x
    using that d r by (auto simp: distinct_map inj_on_def)
  have "map row_id (td_live (update_live td eid f)) = map row_id (td_live td)"
    unfolding update_live_def using same assms(3) by (auto intro!: map_cong)
  then have "distinct (map row_id (td_live (update_live td eid f)))" using d by simp
  moreover have "period_ok x" if "x \<in> set (td_live (update_live td eid f))" for x
    using that same assms(1,4) by (auto simp: periods_ok_def update_live_def split: if_splits)
  ultimately show ?thesis using assms(1) by (simp add: periods_ok_def) (simp add: update_live_def)
qed

lemma snapshot_periods:
  assumes "periods_ok td" and "snapshot_live_row_to_history env td hid now eid = Inr td1" and "live_row td eid = Some r"
  shows "periods_ok td1" "live_row td1 eid = Some r"
proof -
  obtain body where td1: "td1 = td\<lparr>td_history := td_history td @ [(hid, snapshot_of r body now eid)]\<rparr>"
    using snapshot_Inr [OF assms(2,3)] by blast
  then show "periods_ok td1" using assms(1) live_rowD [OF assms(3)] by (auto simp: periods_ok_def)
  show "live_row td1 eid = Some r" using assms(3) td1 by (simp add: live_row_def)
qed

lemma set_valid_to_periods:
  assumes "periods_ok td" and "set_valid_to_tx env td clock hid eid vt = Inr (x, td')"
  shows "periods_ok td'"
proof -
  from assms(2) obtain r where r: "live_row td eid = Some r" by (auto simp: set_valid_to_tx_def bind_r_Inr ok_or_Inr)
  let ?now = "max clock (wrap64 (recorded r + 1))"
  from assms(2) consider "td' = td" | td1 where "valid_start r < vt" "snapshot_live_row_to_history env td hid ?now eid = Inr td1"
      "td' = update_live td1 eid (\<lambda>x. restamp ?now hid (valid_start r) (x\<lparr>row_valid_to := Some vt\<rparr>))"
    by (auto simp: set_valid_to_tx_def bind_r_Inr ok_or_Inr r Let_def split: if_splits)
  then show ?thesis
  proof cases
    case 2
    note s = snapshot_periods [OF assms(1) 2(2) r]
    show ?thesis unfolding 2(3)
      by (rule update_live_periods [OF s], simp add: restamp_facts, rule period_ok_restamp)
        (use 2(1) in \<open>auto simp: or_else_def valid_start_def split: option.splits\<close>)
  qed (use assms(1) in simp)
qed

lemma update_status_periods:
  assumes "periods_ok td" and "update_entity_status_tx env td clock hid eid st reason = Inr (x, td')"
  shows "periods_ok td'"
proof -
  from assms(2) obtain r c where r: "live_row td eid = Some r" and c: "writable_status st = Inr c"
    by (auto simp: update_entity_status_tx_def bind_r_Inr ok_or_Inr)
  have pr: "period_ok r" using assms(1) live_rowD [OF r] by (simp add: periods_ok_def)
  let ?now = "max clock (wrap64 (recorded r + 1))"
  from assms(2) consider "td' = update_live td eid (\<lambda>r. r\<lparr>vr_archive_reason := reason, vr_last_accessed := clock\<rparr>)"
    | td1 where "snapshot_live_row_to_history env td hid ?now eid = Inr td1"
      "td' = update_live td1 eid (\<lambda>r'. restamp ?now hid (valid_start r) (r'\<lparr>row_status := c, vr_archive_reason := reason, vr_last_accessed := clock\<rparr>))"
    by (auto simp: update_entity_status_tx_def bind_r_Inr ok_or_Inr r c Let_def split: if_splits)
  then show ?thesis
  proof cases
    case 1
    show ?thesis unfolding 1
      by (rule update_live_periods [OF assms(1) r]) (use pr in \<open>simp_all add: period_ok_def valid_start_def recorded_def\<close>)
  next
    case 2
    note s = snapshot_periods [OF assms(1) 2(1) r]
    show ?thesis unfolding 2(2)
      by (rule update_live_periods [OF s], simp add: restamp_facts, rule period_ok_restamp)
        (use pr in \<open>auto simp: period_ok_def or_else_def valid_start_def split: option.splits\<close>)
  qed
qed

lemma invalidate_periods:
  assumes "periods_ok td" and "invalidate_entity_tx env td clock hid loser winner = Inr (x, td')"
  shows "periods_ok td'"
proof -
  show ?thesis
  proof (cases "find (\<lambda>r. row_id r = loser \<and> row_archived r = 0) (td_live td)")
    case None
    with assms show ?thesis by (simp add: invalidate_entity_tx_def bind_r_Inr)
  next
    case (Some r)
    from assms(2) have "\<exists>body. td_history td' = td_history td @ [(hid, snapshot_of r body (max clock (recorded r + 1)) winner)] \<and>
        td_live td' = filter (\<lambda>r. row_id r \<noteq> loser) (td_live td)"
      by (auto simp: invalidate_entity_tx_def Some bind_r_Inr insert_history_def snapshot_of_def split: if_splits)
    with assms(1) find_SomeD [OF Some] show ?thesis by (auto simp: periods_ok_def distinct_map_filter)
  qed
qed

lemma audited_write_periods: "audited_write env clock td td' \<Longrightarrow> periods_ok td \<Longrightarrow> periods_ok td'"
proof (induction rule: audited_write.induct)
  case (close td hid eid valid_to res td')
  with set_valid_to_periods commit_cases show ?case unfolding set_valid_to_def by metis
next
  case (status td hid eid st reason out td')
  with update_status_periods commit_cases show ?case unfolding update_entity_status_def by metis
next
  case (invalidate td hid loser winner ok td')
  with invalidate_periods commit_cases show ?case unfolding invalidate_entity_def by metis
qed

lemma check_period_Inr:
  "check_period changed now vf vt r = Inr () \<longleftrightarrow>
     (\<forall>t. vt = Some t \<longrightarrow> (case vf of Some v \<Rightarrow> v | None \<Rightarrow> if changed then now else valid_start r) < t) \<and>
     (\<forall>v t. vt = None \<longrightarrow> vf = Some v \<longrightarrow> row_valid_to r = Some t \<longrightarrow> \<not> changed \<longrightarrow> v < t)"
  by (auto simp: check_period_def guard_r_def Let_def split: option.splits if_splits)

lemma rewrite_period:
  assumes "check_period changed now vf vt r = Inr ()" and "reassert = audit_reassert_from changed vf vt r" and "period_ok r"
  shows "period_ok (rewrite_row env m s sp lt changed reassert now hid vf vt r)"
proof (cases changed)
  case True
  with assms(1) show ?thesis unfolding check_period_Inr
    by (auto simp: rewrite_row_def stamp_changed_def update_columns_def period_ok_def valid_start_def or_else_def Let_def split: option.splits)
next
  case False
  have old: "reassert = None \<or> reassert = Some (valid_start r)"
    using assms(2) by (auto simp: audit_reassert_from_def Let_def)
  let ?r = "update_columns env m s sp lt now vf vt r"
  have bound: "\<forall>t. row_valid_to ?r = Some t \<longrightarrow> or_else vf (valid_start r) < t"
    using assms(1,3) False unfolding check_period_Inr by (auto simp: update_columns_def period_ok_def or_else_def split: option.splits)
  have "or_else (row_valid_from ?r) (valid_start r) = or_else vf (valid_start r)" "valid_start ?r = or_else vf (valid_start r)"
    by (auto simp: update_columns_def valid_start_def recorded_def or_else_def split: option.splits)
  then show ?thesis
    using False old bound period_ok_restamp [of ?r "valid_start r"] by (auto simp: rewrite_row_def Let_def period_ok_def)
qed

lemma remember_change_periods:
  assumes "remember_change env clock hid m s vf vt sp td out td'" and "periods_ok td"
  shows "periods_ok td'"
  using assms(1)
proof cases
  case (updated r dropped)
  from updated(3) obtain r0 changed reassert now td1 ls where
    u: "update_plan env clock hid m sp (row_id r) vf vt td r0 changed reassert now td1 ls"
    and td': "td' = update_live td1 (row_id r) (rewrite_row env m s sp (we_links_text env ls) changed reassert now hid vf vt)"
    by (rule update_tx_plan)
  note r0 = update_planD(1) [OF u]
  have td1: "periods_ok td1" "live_row td1 (row_id r) = Some r0"
    using update_planD(6) [OF u] assms(2) r0 snapshot_periods [OF assms(2) _ r0]
    by (cases "changed \<or> reassert \<noteq> None"; simp only: retired_if_def if_True if_False; blast)+
  have "period_ok r0" using assms(2) live_rowD [OF r0] by (simp add: periods_ok_def)
  then show ?thesis unfolding td'
    by (intro update_live_periods [OF td1] rewrite_period update_planD(3,5) [OF u] rewrite_row_facts(1))
next
  case created
  then have "period_ok (insert_row env m s vf vt)"
    by (auto simp: period_ok_def valid_start_def insert_row_facts or_else_def split: option.splits)
  with created(4) assms(2) show ?thesis by (auto simp: insert_tx_Inr periods_ok_def)
next
  case (merged dup)
  have sel: "row_id (bump_duplicate clock r) = row_id r" "period_ok (bump_duplicate clock r) = period_ok r" for r
    by (simp_all add: bump_duplicate_def period_ok_def valid_start_def recorded_def)
  have "map row_id (td_live td') = map row_id (td_live td)"
    unfolding merged(2) update_live_def by (simp add: sel)
  then have "distinct (map row_id (td_live td'))" using assms(2) by (simp only: periods_ok_def)
  moreover have "period_ok x" if "x \<in> set (td_live td')" for x
    using that assms(2) sel by (auto simp: merged(2) periods_ok_def update_live_def split: if_splits)
  ultimately show ?thesis using assms(2) by (simp add: periods_ok_def) (simp add: merged(2) update_live_def)
qed

lemma same_tables_periods: "same_tables a b \<Longrightarrow> periods_ok a = periods_ok b"
  by (simp add: same_tables_def periods_ok_def)

lemma remember_periods:
  assumes "remember_impl_with_authority env clock ids e skip vf vt allow authority opts db = (res, db')" and "periods_ok (md_store db)"
  shows "periods_ok (md_store db')"
  using assms(1)
proof (cases rule: remember_effect)
  case unchanged
  with assms(2) same_tables_periods show ?thesis by blast
next
  case (written m s db1 db2 td out td')
  with assms(2) remember_change_periods same_tables_periods show ?thesis by metis
qed

section \<open>Windows of transaction time\<close>

lemma recorded_rewrite:
  "recorded (rewrite_row env m s sp lt changed reassert now hid vf vt r) = (if changed \<or> reassert \<noteq> None then now else recorded r)"
proof -
  have "recorded (update_columns env m s sp lt now vf vt r) = recorded r" "recorded (stamp_changed now hid vf vt x) = now" for x
    by (simp_all add: recorded_def update_columns_def stamp_changed_def or_else_def)
  then show ?thesis by (cases reassert) (simp_all add: rewrite_row_def Let_def restamp_facts)
qed

lemma identity_rewrite:
  "row_workspace r = Some (me_workspace_hash m) \<Longrightarrow> identity (rewrite_row env m s sp lt changed reassert now hid vf vt r) = identity r"
  by (simp add: identity_def rewrite_row_facts)

lemma identity_rowD:
  "identity_row td m = Some r \<Longrightarrow> r \<in> set (td_live td) \<and> row_category r = me_category m \<and> row_key r = me_key m \<and>
     row_workspace r = Some (me_workspace_hash m)"
  by (auto simp: identity_row_def dest: find_SomeD)

text \<open>A change of a live row in its place.\<close>

definition in_place :: "temporal_db \<Rightarrow> string \<Rightarrow> (version_row \<Rightarrow> version_row) \<Rightarrow> temporal_db \<Rightarrow> bool" where
  "in_place td eid f td' \<longleftrightarrow> td_history td' = td_history td \<and>
     td_live td' = map (\<lambda>x. if row_id x = eid then f x else x) (td_live td) \<and>
     (\<forall>x \<in> set (td_live td). row_id x = eid \<longrightarrow> row_id (f x) = row_id x \<and> identity (f x) = identity x \<and> recorded (f x) = recorded x)"

lemma in_place_timeline:
  assumes "in_place td eid f td'" and "timeline_ok td"
  shows "timeline_ok td'"
proof -
  let ?g = "\<lambda>x. if row_id x = eid then f x else x"
  have live: "td_live td' = map ?g (td_live td)" and hist: "td_history td' = td_history td"
    and g: "\<And>x. x \<in> set (td_live td) \<Longrightarrow> row_id (?g x) = row_id x \<and> identity (?g x) = identity x \<and> recorded (?g x) = recorded x"
    using assms(1) by (auto simp: in_place_def)
  have "map row_id (td_live td') = map row_id (td_live td)" "map identity (td_live td') = map identity (td_live td)"
    unfolding live map_map using g by (auto intro!: map_cong)
  moreover have "the (row_invalidated_at (snd h)) \<le> recorded x"
    if x: "x \<in> set (td_live td')" "h \<in> set (td_history td)" "identity (snd h) = identity x" for x h
  proof -
    from x(1) obtain y where y: "y \<in> set (td_live td)" "x = ?g y" unfolding live by auto
    then have "identity (snd h) = identity y" "recorded x = recorded y" using g [OF y(1)] x(3) by simp_all
    with assms(2) y(1) x(2) show ?thesis unfolding timeline_ok_iff by fastforce
  qed
  ultimately show ?thesis using assms(2) unfolding timeline_ok_iff hist by simp
qed

text \<open>The record to be inserted begins after the retired versions of its identity.\<close>

definition starts_after :: "temporal_db \<Rightarrow> memory \<Rightarrow> bool" where
  "starts_after td m \<longleftrightarrow> (\<forall>h \<in> set (td_history td). identity (snd h) = (me_category m, me_key m, Some (me_workspace_hash m)) \<longrightarrow>
     the (row_invalidated_at (snd h)) \<le> me_created_at m)"

text \<open>What a change is to the timeline: a retirement, a change in place, or a new row.\<close>

lemma remember_change_effect:
  assumes "remember_change env clock hid m s vf vt sp td out td'" and "timeline_ok td" and "time_left td"
  shows "retires (we_store env) td clock td' \<or>
    (\<exists>r. live_row td (row_id r) = Some r \<and> row_category r = me_category m \<and> row_key r = me_key m \<and> plain_body env [] r = Inr (me_body_json m) \<and>
       (\<exists>f. in_place td (row_id r) f td' \<and> row_body_json (f r) = sl_body s)) \<or>
    same_rows td td' \<or>
    identity_row td m = None \<and> td_history td' = td_history td \<and> td_live td' = td_live td @ [insert_row env m s vf vt] \<and>
      me_id m \<notin> row_id ` set (td_live td)"
  using assms(1)
proof cases
  case (updated r dropped)
  from updated(3) obtain r0 changed reassert now td1 ls where
    u: "update_plan env clock hid m sp (row_id r) vf vt td r0 changed reassert now td1 ls"
    and td': "td' = update_live td1 (row_id r) (rewrite_row env m s sp (we_links_text env ls) changed reassert now hid vf vt)"
    by (rule update_tx_plan)
  note id = identity_rowD [OF updated(2)]
  have dist: "distinct (map row_id (td_live td))" using assms(2) by (simp add: timeline_ok_def)
  have r: "live_row td (row_id r) = Some r" using find_unique_id [OF dist] id by (simp add: live_row_def)
  then have r0: "r0 = r" using update_planD(1) [OF u] by simp
  have same: "x = r" if "x \<in> set (td_live td)" "row_id x = row_id r" for x
    using that dist id by (auto simp: distinct_map inj_on_def)
  let ?f = "rewrite_row env m s sp (we_links_text env ls) changed reassert now hid vf vt"
  have f: "row_id (?f r) = row_id r" "identity (?f r) = identity r"
    using id by (simp_all add: rewrite_row_facts identity_rewrite)
  show ?thesis
  proof (cases "changed \<or> reassert \<noteq> None")
    case True
    then have snap: "snapshot_live_row_to_history (we_store env) td hid now (row_id r) = Inr td1"
      and now: "now = max clock (wrap64 (recorded r + 1))"
      using update_planD(4,6) [OF u] by (simp_all only: retired_if_def r0 if_True)
    obtain body where b: "stored_body (we_store env) r = Inr body"
        "td1 = td\<lparr>td_history := td_history td @ [(hid, snapshot_of r body now (row_id r))]\<rparr>"
      using snapshot_Inr [OF snap r] by blast
    have late: "clock \<le> now" "recorded r < now" using next_instant [OF assms(3)] id by (simp_all add: now)
    have "retires (we_store env) td clock td'"
      by (rule retiresI [OF r b(1) late, where by_id = "row_id r" and f = ?f])
        (use True f in \<open>simp_all add: td' b(2) update_live_def recorded_rewrite\<close>)
    then show ?thesis ..
  next
    case False
    then have td1: "td1 = td" using update_planD(6) [OF u] by (simp only: retired_if_def if_False)
    have old: "plain_body env [] r = Inr (me_body_json m)"
      using False update_planD(2) [OF u] unfolding r0 by blast
    have "in_place td (row_id r) ?f td'"
      using same f False by (auto simp: in_place_def td' td1 update_live_def recorded_rewrite)
    with r old id rewrite_row_facts(6) show ?thesis by blast
  qed
next
  case created
  then show ?thesis by (simp add: insert_tx_Inr insert_row_facts)
next
  case (merged dup)
  then have "same_rows td td'" by (simp add: same_rows_def update_live_def bump_duplicate_def entity_row.truncate_def)
  then show ?thesis by blast
qed

lemma inserted_timeline:
  assumes "timeline_ok td" and "identity_row td m = None" and "starts_after td m" and "me_id m \<notin> row_id ` set (td_live td)"
    and "td_history td' = td_history td" and "td_live td' = td_live td @ [insert_row env m s vf vt]"
  shows "timeline_ok td'"
proof -
  let ?new = "insert_row env m s vf vt"
  have new: "identity ?new = (me_category m, me_key m, Some (me_workspace_hash m))" "recorded ?new = me_created_at m" "row_id ?new = me_id m"
    by (simp_all add: identity_def recorded_def insert_row_facts or_else_def)
  have "identity ?new \<notin> identity ` set (td_live td)"
    unfolding new using assms(2) by (auto simp: identity_row_def find_None_iff identity_def)
  with assms show ?thesis unfolding timeline_ok_iff by (auto simp: new starts_after_def)
qed

lemma remember_timeline:
  assumes "remember_impl_with_authority env clock ids e skip vf vt allow authority opts db = (res, db')"
    and "timeline_ok (md_store db)" and "time_left (md_store db)" and "starts_after (md_store db) e"
  shows "timeline_ok (md_store db')"
proof -
  have cong: "same_tables a b \<Longrightarrow> timeline_ok a = timeline_ok b" for a b
    by (simp add: same_tables_def timeline_ok_iff)
  from assms(1) show ?thesis
  proof (cases rule: remember_effect)
    case unchanged
    with cong assms(2) show ?thesis by blast
  next
    case (written m s db1 db2 td out td')
    have td: "timeline_ok td" "time_left td" "starts_after td m"
      using assms(2-4) written(4) cong enrich_fields(2-4,8) [OF written(1)] by (simp_all add: same_tables_def time_left_def starts_after_def timeline_ok_iff)
    have "timeline_ok td'"
      using remember_change_effect [OF written(5) td(1,2)] retires_timeline [OF td(1)] in_place_timeline td(1)
        same_rows_timeline inserted_timeline [OF td(1) _ td(3)] by blast
    with cong written(6) show ?thesis by blast
  qed
qed

section \<open>Texts of the past\<close>

text \<open>The text a read opens.\<close>

definition text_of :: "write_env \<Rightarrow> version_row \<Rightarrow> string option" where
  "text_of env r = open_body (we_gate env) (entity_row.truncate r)"

definition no_pending_loss :: "memory_db \<Rightarrow> bool" where
  "no_pending_loss db \<longleftrightarrow> list_all (\<lambda>u. snd u \<noteq> ''lossy'') (md_lossy_units db)"

lemma text_of_entity:
  "text_of env r = Some x \<longleftrightarrow> (\<exists>e. entity_from_row (we_gate env) (entity_row.truncate r) = Inr e \<and> en_body_json e = x)"
  by (auto simp: text_of_def entity_from_row_def bind_r_Inr ok_or_Inr)

lemma text_of_snapshot:
  assumes "rewrap_ok (we_store env)" and "stored_body (we_store env) r = Inr body" and "text_of env r = Some x"
  shows "text_of env (snapshot_of r body now by_id) = Some x"
  using assms snapshot_reads_same [OF assms(1,2)] unfolding text_of_entity by blast

lemma text_of_resealed:
  assumes "rewrap_ok (we_store env)" and "text_of env r = Some x" and "plain_body env [] r = Inr b"
    and "seal_body env what (row_category r) (row_key r) b = Inr (row_body_json r')"
    and "row_category r' = row_category r" "row_key r' = row_key r"
  shows "text_of env r' = Some x"
proof (cases "ge_decrypt (we_gate env)")
  case None
  with assms show ?thesis by (simp add: text_of_def open_body_def plain_body_def seal_body_def entity_row.truncate_def)
next
  case (Some d)
  have open_x: "d (row_body_json r) (row_category r) (row_key r) = Some x"
    using assms(2) by (simp add: text_of_def open_body_def Some entity_row.truncate_def)
  then have law: "se_legacy_decrypt (we_store env) (row_body_json r) (row_category r) (row_key r) = Inr x \<and>
      (\<forall>y. se_encrypt (we_store env) x (row_category r) (row_key r) = Inr y \<longrightarrow> d y (row_category r) (row_key r) = Some x)"
    using assms(1) unfolding rewrap_ok_def Some option.case by blast
  then have "b = x" using assms(3) by (simp add: plain_body_def Some map_err_def)
  with assms(4) have "se_encrypt (we_store env) x (row_category r) (row_key r) = Inr (row_body_json r')"
    by (simp add: seal_body_def Some map_err_Inr)
  with law assms(5,6) show ?thesis by (simp add: text_of_def open_body_def Some entity_row.truncate_def)
qed

lemma find_map_same:
  "(\<And>x. x \<in> set xs \<Longrightarrow> P (g x) = P x) \<Longrightarrow> find P (map g xs) = map_option g (find P xs)"
  by (induction xs) auto

lemma as_of_in_place:
  assumes "in_place td eid f td'"
  shows "as_of_row td' cat key t = (case first_of (history_hits td cat key t) of Some r \<Rightarrow> Some r
    | None \<Rightarrow> map_option (\<lambda>x. if row_id x = eid then f x else x) (find (\<lambda>r. of_key cat key r \<and> recorded r \<le> t) (td_live td)))"
proof -
  have "find (\<lambda>r. of_key cat key r \<and> recorded r \<le> t) (td_live td') =
      map_option (\<lambda>x. if row_id x = eid then f x else x) (find (\<lambda>r. of_key cat key r \<and> recorded r \<le> t) (td_live td))"
    using assms unfolding in_place_def by (simp, intro find_map_same) (auto simp: identity_def of_key_def)
  moreover have "history_hits td' cat key t = history_hits td cat key t"
    using assms by (simp add: in_place_def history_hits_def)
  ultimately show ?thesis by (simp add: as_of_row_def split: option.splits)
qed

lemma as_of_appended:
  assumes "td_history td' = td_history td" and "td_live td' = td_live td @ rs" and "as_of_row td cat key t = Some r"
  shows "as_of_row td' cat key t = Some r"
proof -
  have app: "find P xs = Some r \<Longrightarrow> find P (xs @ rs) = Some r" for P xs by (induction xs) auto
  have "history_hits td' cat key t = history_hits td cat key t" using assms(1) by (simp add: history_hits_def)
  then show ?thesis
    using assms(2,3) app by (cases "first_of (history_hits td cat key t)") (auto simp: as_of_row_def)
qed

lemma change_keeps_text:
  assumes "remember_change env clock hid m s vf vt sp td out td'" and "timeline_ok td" and "time_left td" and "rewrap_ok (we_store env)"
    and "single_workspace td (cat, key)" "single_workspace td' (cat, key)" and "t < clock"
    and "seal_body env what (me_category m) (me_key m) (me_body_json m) = Inr (sl_body s)"
    and "as_of_row td cat key t = Some r" and "text_of env r = Some x"
  shows "\<exists>r'. as_of_row td' cat key t = Some r' \<and> text_of env r' = Some x"
  using remember_change_effect [OF assms(1-3)]
proof (elim disjE exE conjE)
  assume "retires (we_store env) td clock td'"
  note past = retires_as_of [OF assms(2,5) this assms(7,6)]
  from assms(9) obtain v where v: "as_of_window td (cat, key) t = Some v" "fst v = r"
    by (auto simp: as_of_row_window)
  from past v(1) obtain v' where v': "as_of_window td' (cat, key) t = Some v'"
      "v' = v \<or> (\<exists>body now by_id. stored_body (we_store env) (fst v) = Inr body \<and> fst v' = snapshot_of (fst v) body now by_id)"
    unfolding v(1) option.case by blast
  have "text_of env (fst v') = Some x" using v(2) v'(2) text_of_snapshot [OF assms(4)] assms(10) by metis
  with v'(1) show ?thesis by (simp add: as_of_row_window)
next
  fix r0 f
  assume r0: "live_row td (row_id r0) = Some r0" "row_category r0 = me_category m" "row_key r0 = me_key m"
    "plain_body env [] r0 = Inr (me_body_json m)" and f: "in_place td (row_id r0) f td'" "row_body_json (f r0) = sl_body s"
  have same: "y = r0" if "y \<in> set (td_live td)" "row_id y = row_id r0" for y
    using that live_rowD [OF r0(1)] assms(2) by (auto simp: timeline_ok_def distinct_map inj_on_def)
  have keys: "row_category (f r0) = row_category r0" "row_key (f r0) = row_key r0"
    using f(1) live_rowD [OF r0(1)] by (auto simp: in_place_def identity_def)
  have fx: "text_of env (f r0) = Some y" if "text_of env r0 = Some y" for y
    using text_of_resealed [OF assms(4) that r0(4)] assms(8) keys f(2) r0(2,3) by simp
  show ?thesis
  proof (cases "first_of (history_hits td cat key t)")
    case None
    with assms(9) have find: "find (\<lambda>r. of_key cat key r \<and> recorded r \<le> t) (td_live td) = Some r" by (simp add: as_of_row_def)
    then have "r \<in> set (td_live td)" by (auto dest: find_SomeD)
    with find None as_of_in_place [OF f(1), of cat key t] same fx assms(10) show ?thesis by auto
  next
    case (Some h)
    with assms(9,10) as_of_in_place [OF f(1), of cat key t] show ?thesis by (simp add: as_of_row_def)
  qed
next
  assume "same_rows td td'"
  from same_rows_as_of [OF this, of cat key t] assms(9) obtain r' where "as_of_row td' cat key t = Some r'"
      "entity_row.truncate r' = entity_row.truncate r"
    by (cases "as_of_row td' cat key t") auto
  with assms(10) show ?thesis by (simp add: text_of_def)
next
  assume "td_history td' = td_history td" "td_live td' = td_live td @ [insert_row env m s vf vt]"
  from as_of_appended [OF this assms(9)] assms(10) show ?thesis by blast
qed

lemma unrepaired:
  assumes "seal_write env authority m db = (Inr s, db')" and "no_pending_loss db"
  shows "sl_effective s = me_body_json m"
proof -
  have "(u, ''lossy'') \<notin> set (md_lossy_units db)" for u using assms(2) by (auto simp: no_pending_loss_def list_all_iff)
  then have "repair_lossy_body env (me_category m) (me_key m) (me_body_json m) db = (Inr (me_body_json m), db)"
    by (simp add: repair_lossy_body_def split: option.split)
  with assms(1) show ?thesis by (auto simp: seal_write_def bind_w_Inr read_w_iff try_w_iff return_w_iff)
qed

lemma same_tables_as_of:
  assumes "same_tables a b"
  shows "as_of_row b cat key t = as_of_row a cat key t" "single_workspace b k = single_workspace a k"
proof -
  have l: "td_live b = td_live a" and h: "td_history b = td_history a" using assms by (simp_all add: same_tables_def)
  show "as_of_row b cat key t = as_of_row a cat key t" unfolding as_of_row_def history_hits_def l h ..
  show "single_workspace b k = single_workspace a k" unfolding single_workspace_def key_versions_def all_versions_def l h ..
qed

section \<open>Operations of the store\<close>

inductive memory_op :: "write_env \<Rightarrow> int \<Rightarrow> memory_db \<Rightarrow> memory_db \<Rightarrow> bool" for env clock where
  remember: "remember_impl_with_authority env clock ids e skip vf vt allow authority opts db = (res, db') \<Longrightarrow> memory_op env clock db db'"
| release: "release_write_quarantine env clock ids new_id jid qid actor db = (out, db') \<Longrightarrow> memory_op env clock db db'"
| delete: "delete_write_quarantine env clock jid qid actor db = (out, db') \<Longrightarrow> memory_op env clock db db'"

inductive store_write :: "write_env \<Rightarrow> temporal_db \<Rightarrow> temporal_db \<Rightarrow> bool" for env where
  audited: "audited_write (we_store env) clock td td' \<Longrightarrow> store_write env td td'"
| operation: "memory_op env clock db db' \<Longrightarrow> store_write env (md_store db) (md_store db')"

text \<open>A release is a write, and then statements that do not touch the records.\<close>

lemma release_effect:
  assumes "release_write_quarantine env clock ids new_id jid qid actor db = (out, db')"
  shows "same_records db db' \<or> (\<exists>e skip vf vt allow authority opts res db1.
    remember_impl_with_authority env clock ids e skip vf vt allow authority opts db = (res, db1) \<and> same_records db1 db')"
proof -
  from assms consider (stop) "db' = db"
    | (go) q where "bind_w (remember_impl_with_authority env clock ids (released_memory env clock new_id actor q) True
        (qr_valid_from q) (qr_valid_to q) False (InternalTrusted ''write_quarantine_release'') release_options)
        (finish_release env clock jid qid actor (released_memory env clock new_id actor q)) db = (out, db')"
    unfolding release_write_quarantine_def Let_def bind_w_iff [of "read_w _"] read_w_iff
    by (auto simp: bind_w_iff [of "read_w _"] read_w_iff fail_w_iff split: option.splits)
  then show ?thesis
  proof cases
    case go
    then show ?thesis unfolding bind_w_iff
      using keepsD [OF records.keeps_finish_release] same_tables_refl by blast
  qed simp
qed

lemma memory_op_periods:
  assumes "memory_op env clock db db'" and "periods_ok (md_store db)"
  shows "periods_ok (md_store db')"
  using assms
proof induction
  case (remember ids e skip vf vt allow authority opts db res db')
  then show ?case by (rule remember_periods)
next
  case (release ids new_id jid qid actor db out db')
  from release_effect [OF release(1)] release(2) remember_periods same_tables_periods show ?case by metis
next
  case (delete jid qid actor db out db')
  from keepsD [OF records.keeps_delete_write_quarantine delete(1)] delete(2) same_tables_periods show ?case by blast
qed

lemma store_write_periods: "store_write env td td' \<Longrightarrow> periods_ok td \<Longrightarrow> periods_ok td'"
  by (induction rule: store_write.induct) (auto intro: audited_write_periods memory_op_periods)

lemma memory_op_journal: "memory_op env clock db db' \<Longrightarrow> journal_moves env K clock db db'"
  by (induction rule: memory_op.induct)
    (blast intro: keepsD journaled.keeps_remember journaled.keeps_release journaled.keeps_delete_write_quarantine)+

lemma audit_steps_ok:
  assumes "sha256_32 env" and "inj_on (audit_key_canary env) K" and "(audit_step env K)\<^sup>*\<^sup>* (empty_journal td) db"
  shows "audit_ok env K db"
  using assms(3)
proof (induction rule: rtranclp_induct)
  case base
  show ?case by (simp add: audit_ok_def key_recorded_def empty_journal_def chain_rows_def)
qed (rule audit_step_ok [OF assms(1,2)])

section \<open>Properties\<close>

text \<open>
  C24. No valid period is ever inverted. After every sequence of writes, of the audited writers, of remember with any
  authority and of the release and deletion of quarantined writes, each live or superseded version
  with an end of its valid period begins before it, if this held at the start.
\<close>

theorem periods_are_never_inverted:
  assumes "(store_write env)\<^sup>*\<^sup>* td td'" and "periods_ok td"
    and "r \<in> set (td_live td') \<or> r \<in> snd ` set (td_history td')" and "row_valid_to r = Some t"
  shows "valid_start r < t"
proof -
  from assms(1,2) have "periods_ok td'"
    by (induction rule: rtranclp_induct) (auto intro: store_write_periods)
  with assms(3,4) show ?thesis by (auto simp: periods_ok_def period_ok_def)
qed

text \<open>
  C23. The writer keeps the timeline and the texts of the past: after a write, whether it succeeded or not, the windows
  of transaction time of the versions of a record are still disjoint, and a read as of an instant
  before the write that found a text finds the same text. The encryption package is assumed to open what it encrypted, no
  record has a repair pending, the new record begins after the retired ones, no live record carries the last
  representable instant, and the key is used in one workspace.
\<close>

theorem remember_keeps_timeline_and_past:
  assumes "remember_impl_with_authority env clock ids e skip vf vt allow authority opts db = (res, db')"
    and "timeline_ok (md_store db)" and "time_left (md_store db)" and "starts_after (md_store db) e"
    and "rewrap_ok (we_store env)" and "no_pending_loss db"
    and "single_workspace (md_store db) (cat, key)" "single_workspace (md_store db') (cat, key)"
  shows "timeline_ok (md_store db') \<and>
    (\<forall>t r x. t < clock \<longrightarrow> as_of_row (md_store db) cat key t = Some r \<longrightarrow> text_of env r = Some x \<longrightarrow>
       (\<exists>r'. as_of_row (md_store db') cat key t = Some r' \<and> text_of env r' = Some x))"
proof (intro conjI allI impI)
  show "timeline_ok (md_store db')" by (rule remember_timeline [OF assms(1-4)])
  fix t r x
  assume t: "t < clock" and r: "as_of_row (md_store db) cat key t = Some r" "text_of env r = Some x"
  note cong = same_tables_as_of
  from assms(1) show "\<exists>r'. as_of_row (md_store db') cat key t = Some r' \<and> text_of env r' = Some x"
  proof (cases rule: remember_effect)
    case unchanged
    with r cong(1) [OF unchanged(1)] show ?thesis by simp
  next
    case (written m s db1 db2 td out td')
    have td: "timeline_ok td" "time_left td" "single_workspace td (cat, key)" "single_workspace td' (cat, key)" "as_of_row td cat key t = Some r"
      using assms(2,3,7,8) r(1) written(4) cong [OF written(4)] cong [OF written(6)]
      by (simp_all add: same_tables_def time_left_def timeline_ok_iff)
    have "no_new_loss db db1" using keepsD [OF losses.keeps_rejected_value_gate written(2)] .
    with assms(6) have "no_pending_loss db1" by (auto simp: no_new_loss_def no_pending_loss_def list_all_iff)
    with unrepaired [OF written(3)] seal_write_Inr(2) [OF written(3)]
    have "seal_body env ''remember'' (me_category m) (me_key m) (me_body_json m) = Inr (sl_body s)" by simp
    from change_keeps_text [OF written(5) td(1,2) assms(5) td(3,4) t this td(5) r(2)] cong(1) [OF written(6)] show ?thesis by simp
  qed
qed

text \<open>
  C25. The journal of the writes always verifies. After every write, release and deletion, whether it succeeded or not,
  at a clock reading not before the last event of a journal that its own operations built, the verification of the audit chain succeeds under the key of the
  process and counts every event, and no event was removed.
\<close>

theorem memory_operations_keep_the_journal:
  assumes "sha256_32 (we_digest env)" and "inj_on (audit_key_canary (we_digest env)) K"
    and "(audit_step (we_digest env) K)\<^sup>*\<^sup>* (empty_journal td) (md_audit db)"
    and "\<forall>j \<in> set (au_journal (md_audit db)). je_created_at j \<le> clock" and "memory_op env clock db db'"
  shows "verify_audit_chain (we_digest env) (md_audit db') = Inr (int (length (au_journal (md_audit db')))) \<and>
    (\<exists>js. au_journal (md_audit db') = au_journal (md_audit db) @ js)"
proof -
  from memory_op_journal [OF assms(5), of K] assms(4)
  have m: "(audit_step (we_digest env) K)\<^sup>*\<^sup>* (md_audit db) (md_audit db')" "\<exists>js. au_journal (md_audit db') = au_journal (md_audit db) @ js"
    by (simp_all add: journal_moves_def)
  from audit_steps_ok [OF assms(1,2)] rtranclp_trans [OF assms(3) m(1)] have "audit_ok (we_digest env) K (md_audit db')" by blast
  with audit_ok_verifies m(2) show ?thesis by blast
qed

end
