(* ===== verification/Remember_Samples.thy ===== *)
theory Remember_Samples
  imports Remember_Timeline "HOL-Library.Countable"
begin

text \<open>
  A small installation on which the properties of the durable writer are applied, with a write
  that creates a derived record and one that updates a record.
\<close>

section \<open>An installation\<close>

text \<open>A serialiser of links that its parser inverts.\<close>

definition link_code :: "memory_link \<Rightarrow> nat list \<times> nat list \<times> nat list \<times> nat list option \<times> nat list option \<times> int option" where
  "link_code l = (map of_char (ml_target_id l), map of_char (ml_relationship l), map of_char (ml_weight l),
     map_option (map of_char) (ml_source l), map_option (map of_char) (ml_kind l), ml_asserted_at l)"

definition link_decode :: "nat list \<times> nat list \<times> nat list \<times> nat list option \<times> nat list option \<times> int option \<Rightarrow> memory_link" where
  "link_decode c = (case c of (t, rel, w, src, k, at) \<Rightarrow> \<lparr>ml_target_id = map char_of t, ml_relationship = map char_of rel,
     ml_weight = map char_of w, ml_source = map_option (map char_of) src, ml_kind = map_option (map char_of) k, ml_asserted_at = at\<rparr>)"

definition links_code :: "memory_link list \<Rightarrow> string" where
  "links_code ls = replicate (to_nat (map link_code ls)) (CHR ''x'')"

definition links_decode :: "string \<Rightarrow> memory_link list option" where
  "links_decode s = Some (map link_decode (from_nat (length s)))"

lemma link_decode_code: "link_decode (link_code l) = l"
  by (cases l) (simp add: link_decode_def link_code_def option.map_comp comp_def option.map_ident)

lemma links_decode_code [simp]: "links_decode (links_code ls) = Some ls"
  by (simp add: links_decode_def links_code_def link_decode_code comp_def)

definition sample_measurement :: measurement where
  "sample_measurement = \<lparr>ms_exceeds = False, ms_score = ''0.000'', ms_bound = ''0.900'', ms_report = (\<lambda>_ _. ''{}'')\<rparr>"

definition sample_write_env :: write_env where
  "sample_write_env = \<lparr>we_store = sample_store_env, we_writ = [], we_parse_links = links_decode, we_links_text = links_code,
     we_parse_evidence = (\<lambda>_. None), we_hmac_key = None, we_mode = Quarantine,
     we_measure = (\<lambda>_ _ _ _. Inr sample_measurement), we_near_duplicate = (\<lambda>_ _ _ _. None), we_below_activation = (\<lambda>_ _. False)\<rparr>"

lemma sample_write_env_sel [simp]:
  "we_store sample_write_env = sample_store_env" "we_parse_links sample_write_env = links_decode" "we_links_text sample_write_env = links_code"
  "we_mode sample_write_env = Quarantine" "we_measure sample_write_env td m ex b = Inr sample_measurement"
  "we_near_duplicate sample_write_env td c w body = None" "se_gate sample_store_env = sample_gate_env" "ge_digest sample_gate_env = sample_env"
  "ge_decrypt sample_gate_env = None" "ge_parse_json sample_gate_env x = None" "ge_parse_links sample_gate_env x = None" "json_text sample_env j = ''{}''"
  "se_storage_state sample_store_env = ''plaintext''"
  by (simp_all add: sample_write_env_def sample_store_env_def sample_gate_env_def sample_env_def)

definition sample_ids :: write_ids where
  "sample_ids = \<lparr>wi_journal = ''j1'', wi_scored = ''j2'', wi_verdict = ''j3'', wi_sparse = ''j4'', wi_history = ''h1'', wi_quarantine = ''q1''\<rparr>"

definition sample_link :: "string \<Rightarrow> memory_link" where
  "sample_link target = \<lparr>ml_target_id = target, ml_relationship = ''derived_from'', ml_weight = ''0.5'', ml_source = None, ml_kind = None,
     ml_asserted_at = None\<rparr>"

definition sample_memory :: memory where
  "sample_memory = \<lparr>me_id = ''e2'', me_category = ''note'', me_key = ''k2'', me_body_json = ''b2'', me_status = ''active'', me_type = ''insight'',
     me_tags = [], me_retrieval_count = 0, me_layer = ''buffer'', me_topic_path = [], me_archived = False, me_archive_reason = [],
     me_links = [sample_link ''e1''], me_verified = False, me_source = ''agent'', me_always_on = False, me_workspace_hash = ''w'',
     me_agent_id = ''a1'', me_visibility = ''workspace'', me_created_at = 20, me_last_accessed = 20, me_epistemic_state = ''candidate'',
     me_hints = [], me_memory_type = []\<rparr>"

definition sample_memory_db :: memory_db where
  "sample_memory_db = \<lparr>md_audit = empty_journal sample_store, md_lossy_units = [], md_residual_spans = [], md_quarantine = []\<rparr>"

lemma sample_memory_db_store [simp]: "md_store sample_memory_db = sample_store"
  by (simp add: sample_memory_db_def empty_journal_def)

section \<open>A write that creates a derived record\<close>

lemma writable_active: "writable_status ''active'' = Inr ''active''"
  by (simp add: writable_status_def canonical_entity_status_def lower_text_statuses ENTITY_STATUSES_def ok_or_def)

lemma sample_source: "get_entity_by_id sample_gate_env (gate_of sample_store) 20 ''e1'' = Inr (Some (entity_of sample_version))"
proof -
  let ?e = "entity_of sample_version"
  have raw: "get_entity_by_id_raw sample_gate_env (gate_of sample_store) ''e1'' = Inr (Some ?e)"
    using plain_entity [of sample_version]
    by (simp add: get_entity_by_id_raw_def gate_of_def sample_store_def sample_version_def entity_row.truncate_def)
  have "entity_lifecycle_serveable ?e"
    by (simp add: entity_lifecycle_serveable_def canonical_entity_status_def entity_of_def sample_version_def lower_text_statuses
        ENTITY_STATUSES_def NON_SERVEABLE_STATUSES_def)
  moreover have "lineage_source_ids sample_gate_env ?e = []"
    by (simp add: lineage_source_ids_def lineage_source_ids_from_body_def entity_of_def)
  then have "\<not> derived_lineage_suppressed sample_gate_env (gate_of sample_store) None ?e 20"
    by (simp add: derived_lineage_suppressed_def)
  ultimately have "filter_direct_readable sample_gate_env (gate_of sample_store) 20 [?e] = Inr [?e]"
    by (simp add: filter_direct_readable_def entity_pending_hidden_def filter_suppressed_def open_overlay_def gate_of_def sample_store_def
        mandate_hits_batched_def chunk_hits_def Let_def)
  with raw show ?thesis by (simp add: get_entity_by_id_def)
qed

definition derived_memory :: memory where
  "derived_memory = sample_memory\<lparr>me_epistemic_state := ''verified'', me_visibility := ''private''\<rparr>"

lemma sample_enrich:
  "enrich sample_write_env 20 (InternalTrusted ''test'') sample_memory sample_memory_db = Inr derived_memory"
proof -
  have "can_read (gate_of sample_store) ''a1'' ''private'' ''a1''" by (simp add: can_read_def Let_def)
  then show ?thesis
    using sample_source
    by (simp add: enrich_def sample_memory_def writable_active Let_def elevate_def EPISTEMIC_STATES_def apply_derived_visibility_def
        derived_targets_def sample_link_def map_err_def entity_of_def sample_version_def or_else_def more_restrictive_visibility_def
        visibility_rank_def derived_memory_def)
qed

definition sample_sealed :: "string \<Rightarrow> sealed" where
  "sample_sealed body = \<lparr>sl_effective = body, sl_body = body, sl_hints = ''{}''\<rparr>"

definition created_run :: "(write_error + string \<times> string) \<times> memory_db" where
  "created_run = remember_impl_with_authority sample_write_env 20 sample_ids sample_memory True None None False (InternalTrusted ''test'')
     no_options sample_memory_db"

definition created_row :: version_row where
  "created_row = insert_row sample_write_env derived_memory (sample_sealed ''b2'') None None"

text \<open>In a store without tombstones, the gate of rejected values lets every value pass.\<close>

lemma sample_keyed: "require_key (we_store sample_write_env) = Inr ()"
  by (simp add: require_key_def)

lemma no_tombstones:
  assumes "td_tombstones (md_store db) = []" and "td_overlay (md_store db) = Absent"
  shows "rejected_value_gate env now ids False m db = (Inr (), db)"
proof -
  have "set_store ((md_store db)\<lparr>td_tombstones := []\<rparr>) db = db" using assms(1) by (simp add: set_store_def)
  then show ?thesis using assms
    by (simp add: rejected_value_gate_def refuse_rejected_def is_value_suppressed_def is_value_erased_def is_value_rejected_def bind_w_def read_w_def
        modify_w_def return_w_def gate_of_def open_overlay_def map_err_def unexpired_tombstones_def mandate_hit_def)
qed

lemma sample_seal:
  assumes "no_pending_loss db" and "\<forall>ev. authority \<noteq> Admission ev \<and> authority \<noteq> ReviewTransition ev"
  shows "seal_write sample_write_env authority m db = (Inr (sample_sealed (me_body_json m)), db)"
proof -
  have "(u, ''lossy'') \<notin> set (md_lossy_units db)" for u using assms(1) by (auto simp: no_pending_loss_def list_all_iff)
  then have "repair_lossy_body sample_write_env (me_category m) (me_key m) (me_body_json m) db = (Inr (me_body_json m), db)"
    by (simp add: repair_lossy_body_def split: option.split)
  then show ?thesis using assms(2)
    by (cases authority) (simp_all add: seal_write_def bind_w_def read_w_def try_w_def return_w_def seal_body_def tags_text_def sample_sealed_def)
qed

lemma sample_gate:
  assumes "au_journal (md_audit db) = []"
  shows "\<exists>row. run_interference_gate sample_write_env clock sample_ids m ex vf vt no_options db =
    (Inr Proceed, db\<lparr>md_audit := (md_audit db)\<lparr>au_journal := [row]\<rparr>\<rparr>)"
  using assms
  by (simp add: run_interference_gate_def Let_def bind_w_def read_w_def map_err_def no_options_def or_else_def sample_measurement_def
      evaluate_interference_def journal_conn_w_def journal_with_conn_def return_w_def) blast

lemma remember_run:
  assumes "require_key (we_store env) = Inr ()" and "enrich env clock authority e db = Inr m"
    and "rejected_value_gate env clock ids allow m db = (Inr (), db1)" and "seal_write env authority m db1 = (Inr s, db2)"
  shows "remember_impl_with_authority env clock ids e skip vf vt allow authority opts db =
    (case identity_row (md_store db2) m of
       Some r \<Rightarrow> remember_update env clock ids m s r vf vt opts db2
     | None \<Rightarrow> remember_insert env clock ids m s skip vf vt opts db2)"
  using assms by (simp add: remember_impl_with_authority_def bind_w_def try_w_def read_w_def map_err_def split: option.split)

lemma created_run:
  "fst created_run = Inr (''e2'', ''created'')" "md_store (snd created_run) = sample_store\<lparr>td_live := [sample_version, created_row]\<rparr>"
proof -
  let ?db = "sample_memory_db"
  have gate: "rejected_value_gate sample_write_env 20 sample_ids False derived_memory ?db = (Inr (), ?db)"
    by (rule no_tombstones) (simp_all add: sample_store_def)
  have seal: "seal_write sample_write_env (InternalTrusted ''test'') derived_memory ?db = (Inr (sample_sealed ''b2''), ?db)"
    by (subst sample_seal) (simp_all add: no_pending_loss_def sample_memory_db_def derived_memory_def sample_memory_def)
  have none: "identity_row (md_store ?db) derived_memory = None"
    by (simp add: identity_row_def sample_store_def derived_memory_def sample_memory_def sample_version_def)
  have "au_journal (md_audit ?db) = []" by (simp add: sample_memory_db_def empty_journal_def)
  from sample_gate [OF this] obtain row where row: "run_interference_gate sample_write_env 20 sample_ids derived_memory [] None None no_options ?db =
      (Inr Proceed, ?db\<lparr>md_audit := (md_audit ?db)\<lparr>au_journal := [row]\<rparr>\<rparr>)"
    by blast
  let ?db1 = "?db\<lparr>md_audit := (md_audit ?db)\<lparr>au_journal := [row]\<rparr>\<rparr>"
  have fresh: "insert_tx created_row (md_store ?db1) = Inr ((), sample_store\<lparr>td_live := [sample_version, created_row]\<rparr>)"
    by (simp add: insert_tx_Inr created_row_def insert_row_facts derived_memory_def sample_memory_def sample_store_def sample_version_def)
  have ids: "me_id derived_memory = ''e2''" "me_status derived_memory = ''active''" by (simp_all add: derived_memory_def sample_memory_def)
  have "remember_insert sample_write_env 20 sample_ids derived_memory (sample_sealed ''b2'') True None None no_options ?db =
      (Inr (''e2'', ''created''), set_store (sample_store\<lparr>td_live := [sample_version, created_row]\<rparr>) ?db1)"
    using fresh row unfolding created_row_def
    by (simp add: remember_insert_def check_new_period_def bind_w_def [of "try_w _"] bind_w_def [of "read_w _"] try_w_def read_w_def
        bind_step ids no_options_def on_verdict_def commit_insert_def bind_transact return_w_def)
  then have run: "created_run = (Inr (''e2'', ''created''), set_store (sample_store\<lparr>td_live := [sample_version, created_row]\<rparr>) ?db1)"
    using remember_run [OF sample_keyed sample_enrich gate seal] none by (simp add: created_run_def)
  show "fst created_run = Inr (''e2'', ''created'')" unfolding run by (rule fst_conv)
  show "md_store (snd created_run) = sample_store\<lparr>td_live := [sample_version, created_row]\<rparr>"
    unfolding run snd_conv by (rule set_store_sel)
qed

section \<open>A write that updates a record\<close>

definition linked_row :: version_row where
  "linked_row = sample_version\<lparr>row_links := links_code [sample_link ''e0'']\<rparr>"

definition linked_db :: memory_db where
  "linked_db = set_store (sample_store\<lparr>td_live := [linked_row]\<rparr>) sample_memory_db"

definition reasserted_memory :: memory where
  "reasserted_memory = sample_memory\<lparr>me_id := ''e9'', me_key := ''k'', me_body_json := ''b'',
     me_links := [(sample_link ''e7'')\<lparr>ml_relationship := ''relates_to''\<rparr>]\<rparr>"

definition updated_run :: "(write_error + string \<times> string) \<times> memory_db" where
  "updated_run = remember_impl sample_write_env 20 sample_ids reasserted_memory False None None False linked_db"

definition proposed_memory :: memory where
  "proposed_memory = reasserted_memory\<lparr>me_status := ''proposed''\<rparr>"

lemma linked_db_store [simp]: "md_store linked_db = sample_store\<lparr>td_live := [linked_row]\<rparr>"
  by (simp add: linked_db_def)

lemma updated_enrich: "enrich sample_write_env 20 Unverified reasserted_memory linked_db = Inr proposed_memory"
  by (simp add: enrich_def reasserted_memory_def sample_memory_def sample_link_def writable_active map_err_def Let_def apply_derived_visibility_def
      derived_targets_def proposed_memory_def)

definition updated_row :: version_row where
  "updated_row = rewrite_row sample_write_env proposed_memory (sample_sealed ''b'') False
     (links_code [sample_link ''e0'', (sample_link ''e7'')\<lparr>ml_relationship := ''relates_to'', ml_source := Some ''e1''\<rparr>]) False None 20 ''h1'' None None linked_row"

lemma updated_tx:
  "update_tx sample_write_env 20 ''h1'' proposed_memory (sample_sealed ''b'') False ''e1'' None None (md_store linked_db) =
    Inr ([], sample_store\<lparr>td_live := [updated_row]\<rparr>)"
proof -
  have row: "live_row (md_store linked_db) ''e1'' = Some linked_row" "row_id linked_row = ''e1''"
    by (simp_all add: live_row_def linked_row_def sample_version_def)
  have body: "plain_body sample_write_env w linked_row = Inr ''b''" "me_body_json proposed_memory = ''b''" for w
    by (simp_all add: plain_body_def linked_row_def sample_version_def proposed_memory_def reasserted_memory_def)
  have ls: "me_links proposed_memory = [(sample_link ''e7'')\<lparr>ml_relationship := ''relates_to''\<rparr>]" "row_links linked_row = links_code [sample_link ''e0'']"
    by (simp_all add: proposed_memory_def reasserted_memory_def linked_row_def)
  have merged: "merge_links sample_write_env td False tokens ''e1'' [sample_link ''e0''] [(sample_link ''e7'')\<lparr>ml_relationship := ''relates_to''\<rparr>] =
      Inr ([sample_link ''e0'', (sample_link ''e7'')\<lparr>ml_relationship := ''relates_to'', ml_source := Some ''e1''\<rparr>], [])" for td tokens
    by (simp add: sample_link_def stamp_link_sources_def)
  show ?thesis
    unfolding update_tx_def row ok_or_def option.case bind_r_simps body ls
    by (simp add: audit_reassert_from_def check_period_def or_else_def merged [unfolded stamp_link_sources_def] bind_r_simps updated_row_def
        update_live_def row del: merge_links.simps)
qed

lemma updated_run:
  "updated_run = (Inr (''e1'', ''updated''), set_store (sample_store\<lparr>td_live := [updated_row]\<rparr>) linked_db)"
proof -
  have gate: "rejected_value_gate sample_write_env 20 sample_ids False proposed_memory linked_db = (Inr (), linked_db)"
    by (rule no_tombstones) (simp_all add: sample_store_def)
  have seal: "seal_write sample_write_env Unverified proposed_memory linked_db = (Inr (sample_sealed ''b''), linked_db)"
    by (subst sample_seal)
      (simp_all add: no_pending_loss_def linked_db_def set_store_def sample_memory_db_def proposed_memory_def reasserted_memory_def)
  have row: "identity_row (md_store linked_db) proposed_memory = Some linked_row"
    by (simp add: identity_row_def linked_row_def sample_version_def proposed_memory_def reasserted_memory_def sample_memory_def)
  have same: "plain_body sample_write_env w linked_row = Inr ''b''" "me_body_json proposed_memory = ''b''" "row_id linked_row = ''e1''" for w
    by (simp_all add: plain_body_def linked_row_def sample_version_def proposed_memory_def reasserted_memory_def)
  have "remember_update sample_write_env 20 sample_ids proposed_memory (sample_sealed ''b'') linked_row None None no_options linked_db =
      commit_update sample_write_env 20 sample_ids proposed_memory (sample_sealed ''b'') ''e1'' None None no_options linked_db"
    by (simp add: remember_update_def bind_w_def try_w_def return_w_def same on_verdict_def)
  also have "\<dots> = (Inr (''e1'', ''updated''), set_store (sample_store\<lparr>td_live := [updated_row]\<rparr>) linked_db)"
    unfolding commit_update_def
    by (subst bind_transact(1) [where x = "[]" and td = "sample_store\<lparr>td_live := [updated_row]\<rparr>"])
      (simp_all add: updated_tx [unfolded linked_db_store] sample_ids_def no_options_def bind_w_def return_w_def)
  finally show ?thesis
    using remember_run [OF sample_keyed updated_enrich gate seal] row by (simp add: updated_run_def remember_impl_def)
qed

section \<open>Witnesses\<close>

lemma created_written:
  "remember_impl_with_authority sample_write_env 20 sample_ids sample_memory True None None False (InternalTrusted ''test'')
     no_options sample_memory_db = (Inr (''e2'', ''created''), snd created_run)"
  using created_run(1) by (metis created_run_def prod.collapse)

lemma created_row_live: "live_row (md_store (snd created_run)) ''e2'' = Some created_row"
  by (simp add: created_run live_row_def sample_version_def created_row_def insert_row_facts derived_memory_def sample_memory_def)

theorem derived_records_stay_within_sources_witness:
  "\<exists>src. get_entity_by_id sample_gate_env (gate_of sample_store) 20 ''e1'' = Inr (Some src) \<and>
     can_read (gate_of (md_store (snd created_run))) ''a1'' (en_visibility src) (en_agent_id src)"
proof -
  have "sample_link ''e1'' \<in> set (me_links sample_memory)" "ml_relationship (sample_link ''e1'') = ''derived_from''"
    by (simp_all add: sample_memory_def sample_link_def)
  moreover have "agent_trust_tier (gate_of (md_store sample_memory_db)) (me_agent_id sample_memory) < 2"
    by (simp add: agent_trust_tier_def agent_get_def gate_of_def sample_store_def sample_memory_def or_else_def)
  moreover have "can_read (gate_of (md_store (snd created_run))) ''a1'' (or_else (row_visibility created_row) ''workspace'') (or_else (row_agent created_row) [])"
    by (simp add: created_row_def insert_row_facts derived_memory_def sample_memory_def or_else_def can_read_def Let_def)
  ultimately show ?thesis
    using derived_records_stay_within_sources [OF created_written, of "sample_link ''e1''" created_row "''a1''"] created_row_live
    by (simp add: sample_link_def)
qed

definition tombstoned_db :: memory_db where
  "tombstoned_db = set_store (sample_store\<lparr>td_tombstones := [\<lparr>m_workspace = [], m_predicate = [],
     m_value_sha256 = rejected_value_digest sample_gate_env ''b2'', m_expires_at = None\<rparr>]\<rparr>) sample_memory_db"

theorem suppressed_values_are_not_written_witness:
  "\<exists>x. fst (remember_impl sample_write_env 20 sample_ids sample_memory False None None False tombstoned_db) = Inl x"
proof -
  let ?run = "remember_impl_with_authority sample_write_env 20 sample_ids sample_memory False None None False Unverified no_options tombstoned_db"
  have overlay: "open_overlay (gate_of (md_store tombstoned_db)) = Inr None"
    by (simp add: tombstoned_db_def open_overlay_def gate_of_def sample_store_def)
  have hit: "value_suppressed (we_gate sample_write_env) (gate_of (md_store tombstoned_db)) None (me_workspace_hash sample_memory)
      (me_category sample_memory) (me_body_json sample_memory) 20"
    by (simp add: value_suppressed_def Let_def mandate_hit_def mandate_matches_def tombstoned_db_def gate_of_def sample_memory_def)
  have run: "?run = (fst ?run, snd ?run)" by simp
  from suppressed_values_are_not_written [OF overlay hit run] show ?thesis by (simp add: remember_impl_def)
qed

theorem active_records_have_authority_witness:
  "row_status created_row = ''active'' \<and> (\<exists>w. InternalTrusted ''test'' = InternalTrusted w)"
proof -
  have active: "row_status created_row = ''active''" "row_archived created_row = 0"
    by (simp_all add: created_row_def insert_row_facts derived_memory_def sample_memory_def)
  from active_records_have_authority [OF created_written _ created_row_live active] active show ?thesis by simp
qed

definition locked_env :: write_env where
  "locked_env = sample_write_env\<lparr>we_store := sample_store_env\<lparr>se_storage_state := ''encrypted''\<rparr>\<rparr>"

theorem refused_writes_change_no_record_witness:
  "\<exists>x db'. remember_impl locked_env 20 sample_ids sample_memory False None None False sample_memory_db = (Inl x, db') \<and>
     td_live (md_store db') = [sample_version]"
proof -
  obtain x where key: "require_key (we_store locked_env) = Inl x"
    by (auto simp: require_key_def locked_env_def)
  then have run: "remember_impl_with_authority locked_env 20 sample_ids sample_memory False None None False Unverified no_options sample_memory_db =
      (Inl (Refused x), sample_memory_db)"
    by (simp add: remember_impl_with_authority_def bind_w_def try_w_def map_err_def)
  from refused_writes_change_no_record [OF run] show ?thesis
    unfolding remember_impl_def using run by (auto simp: sample_memory_db_def empty_journal_def sample_store_def)
qed

theorem links_are_only_added_witness:
  "\<exists>more. links_decode (row_links updated_row) = Some (sample_link ''e0'' # more) \<and>
     ml_target_id ` set (me_links reasserted_memory) \<subseteq> ml_target_id ` set (sample_link ''e0'' # more)"
proof -
  have law: "\<forall>ls. we_parse_links sample_write_env (we_links_text sample_write_env ls) = Some ls" by simp
  have old: "live_row (md_store linked_db) ''e1'' = Some linked_row" by (simp add: live_row_def linked_row_def sample_version_def)
  have stored: "we_parse_links sample_write_env (row_links linked_row) = Some [sample_link ''e0'']" by (simp add: linked_row_def)
  have new: "live_row (md_store (set_store (sample_store\<lparr>td_live := [updated_row]\<rparr>) linked_db)) ''e1'' = Some updated_row"
    by (simp add: live_row_def updated_row_def rewrite_row_facts) (simp add: linked_row_def sample_version_def)
  from links_are_only_added [OF law updated_run [unfolded updated_run_def remember_impl_def] old stored new] show ?thesis
    by (simp add: no_options_def)
qed

theorem periods_are_never_inverted_witness: "valid_start (hd (td_live closed_store)) < 100"
proof -
  have step: "(store_write sample_write_env)\<^sup>*\<^sup>* sample_store closed_store"
    using store_write.audited [of sample_write_env 20] sample_write by auto
  have ok: "periods_ok sample_store" by (simp add: periods_ok_def period_ok_def sample_store_def sample_version_def)
  have row: "hd (td_live closed_store) \<in> set (td_live closed_store) \<or> hd (td_live closed_store) \<in> snd ` set (td_history closed_store)"
    "row_valid_to (hd (td_live closed_store)) = Some 100"
    by (simp_all add: closed_store_def)
  from periods_are_never_inverted [OF step ok row] show ?thesis .
qed

theorem remember_keeps_timeline_and_past_witness:
  "timeline_ok (md_store (snd created_run)) \<and>
     (\<exists>r'. as_of_row (md_store (snd created_run)) ''note'' ''k'' 15 = Some r' \<and> text_of sample_write_env r' = Some ''b'')"
proof -
  have pre: "timeline_ok (md_store sample_memory_db)" "time_left (md_store sample_memory_db)" "starts_after (md_store sample_memory_db) sample_memory"
    "rewrap_ok (we_store sample_write_env)" "no_pending_loss sample_memory_db" "single_workspace (md_store sample_memory_db) (''note'', ''k'')"
    using sample_store_facts by (simp_all add: starts_after_def rewrap_ok_def no_pending_loss_def sample_memory_db_def empty_journal_def sample_store_def)
  have ws: "single_workspace (md_store (snd created_run)) (''note'', ''k'')"
    by (simp add: created_run single_workspace_def key_versions_def all_versions_def sample_store_def of_key_def created_row_def insert_row_facts
        derived_memory_def sample_memory_def)
  have row: "as_of_row (md_store sample_memory_db) ''note'' ''k'' 15 = Some sample_version"
    by (simp add: as_of_row_def history_hits_def sample_store_def sample_version_def of_key_def recorded_def or_else_def)
  have "text_of sample_write_env sample_version = Some ''b''"
    by (simp add: text_of_def open_body_def entity_row.truncate_def sample_version_def)
  with remember_keeps_timeline_and_past [OF created_written pre ws] row show ?thesis by force
qed

theorem memory_operations_keep_the_journal_witness:
  "verify_audit_chain sample_env (md_audit (snd created_run)) = Inr (int (length (au_journal (md_audit (snd created_run)))))"
proof -
  have sha: "sha256_32 (we_digest sample_write_env)" by (simp add: sha256_32_sample_env)
  have start: "(audit_step (we_digest sample_write_env) {})\<^sup>*\<^sup>* (empty_journal sample_store) (md_audit sample_memory_db)"
    "\<forall>j \<in> set (au_journal (md_audit sample_memory_db)). je_created_at j \<le> 20"
    by (simp_all add: sample_memory_db_def) (simp add: empty_journal_def)
  have op: "memory_op sample_write_env 20 sample_memory_db (snd created_run)"
    using created_written by (rule memory_op.remember)
  from memory_operations_keep_the_journal [OF sha _ start op] show ?thesis by simp
qed

end
