(* ===== verification/Remember_Findings.thy ===== *)
theory Remember_Findings
  imports Remember_Samples
begin

text \<open>
  Where the durable writer departs from what its comments say: the repair of extraction losses
  clears its mark in writes that are refused and for records of other workspaces, and is kept out of the
  history; a re-assertion without links widens a derived record; a writer of trust tier two
  shows the records of one fleet to another; a sparse update still promotes its record.
\<close>

section \<open>Repairs\<close>

definition lossy_db :: memory_db where
  "lossy_db = sample_memory_db\<lparr>md_lossy_units := [(''e1'', ''lossy'')],
     md_residual_spans := [\<lparr>rs_entity_id = ''e1'', rs_text = ''s'', rs_status = ''active'', rs_created_ms = 1\<rparr>]\<rparr>"

definition repaired_db :: memory_db where
  "repaired_db = lossy_db\<lparr>md_lossy_units := [(''e1'', ''repaired'')]\<rparr>"

definition repaired_text :: "string \<Rightarrow> string" where
  "repaired_text body = body @ repair_appendix body [''s'']"

lemma lossy_stores [simp]: "md_store lossy_db = sample_store" "md_store repaired_db = sample_store" "md_audit repaired_db = md_audit lossy_db"
  by (simp_all add: repaired_db_def lossy_db_def)

definition plain_memory :: "string \<Rightarrow> string \<Rightarrow> memory" where
  "plain_memory ws body = sample_memory\<lparr>me_key := ''k'', me_body_json := body, me_workspace_hash := ws, me_status := ''proposed'', me_links := []\<rparr>"

lemma plain_memory_sel [simp]:
  "me_id (plain_memory ws body) = ''e2''" "me_category (plain_memory ws body) = ''note''" "me_key (plain_memory ws body) = ''k''"
  "me_body_json (plain_memory ws body) = body" "me_workspace_hash (plain_memory ws body) = ws" "me_status (plain_memory ws body) = ''proposed''"
  "me_links (plain_memory ws body) = []" "me_created_at (plain_memory ws body) = 20"
  by (simp_all add: plain_memory_def sample_memory_def)

lemma trim_proposed: "lower_text (trim ''proposed'') = ''proposed''"
  by (simp add: trim_ascii lower_text_ascii is_ascii_def is_whitespace_def is_ascii_uppercase_def)

lemma writable_proposed: "writable_status ''proposed'' = Inr ''proposed''"
  by (simp add: writable_status_def canonical_entity_status_def trim_proposed ENTITY_STATUSES_def ok_or_def)

lemma plain_enrich: "enrich sample_write_env 20 Unverified (plain_memory ws body) db = Inr (plain_memory ws body)"
  by (simp add: enrich_def plain_memory_def sample_memory_def writable_proposed map_err_def Let_def apply_derived_visibility_def derived_targets_def)

lemma lossy_seal:
  assumes "\<not> contains body ''s''"
  shows "seal_write sample_write_env Unverified (plain_memory ws body) lossy_db = (Inr (sample_sealed (repaired_text body)), repaired_db)"
proof -
  have "repair_target sample_store ''note'' ''k'' = Some ''e1''" by (simp add: repair_target_def sample_store_def sample_version_def)
  moreover have "open_spans lossy_db ''e1'' = [''s'']" "md_lossy_units lossy_db = [(''e1'', ''lossy'')]"
    by (simp_all add: open_spans_def lossy_db_def)
  ultimately have "repair_lossy_body sample_write_env ''note'' ''k'' body lossy_db = (Inr (repaired_text body), repaired_db)"
    using assms by (simp add: repair_lossy_body_def append_to_body_def repaired_text_def repaired_db_def)
  then show ?thesis
    by (simp add: seal_write_def bind_w_def read_w_def try_w_def return_w_def seal_body_def tags_text_def sample_sealed_def)
qed

lemma lossy_run:
  assumes "\<not> contains body ''s''"
  shows "remember_impl sample_write_env 20 sample_ids (plain_memory ws body) False vf vt False lossy_db =
    (case identity_row sample_store (plain_memory ws body) of
       Some r \<Rightarrow> remember_update sample_write_env 20 sample_ids (plain_memory ws body) (sample_sealed (repaired_text body)) r vf vt no_options repaired_db
     | None \<Rightarrow> remember_insert sample_write_env 20 sample_ids (plain_memory ws body) (sample_sealed (repaired_text body)) False vf vt no_options repaired_db)"
proof -
  have "rejected_value_gate sample_write_env 20 sample_ids False (plain_memory ws body) lossy_db = (Inr (), lossy_db)"
    by (rule no_tombstones) (simp_all add: sample_store_def)
  from remember_run [OF sample_keyed plain_enrich this lossy_seal [OF assms]] show ?thesis by (simp add: remember_impl_def)
qed

lemma same_workspace: "identity_row sample_store (plain_memory ''w'' body) = Some sample_version"
  by (simp add: identity_row_def sample_store_def sample_version_def)

text \<open>The mark is cleared although the write was refused: the spans are in no record, and no later write repairs it.\<close>

lemma refused_write_loses_spans:
  "\<exists>x. remember_impl sample_write_env 20 sample_ids (plain_memory ''w'' ''b'') False None (Some 5) False lossy_db = (Inl x, repaired_db) \<and>
     td_live (md_store repaired_db) = [sample_version]"
proof -
  have row: "live_row sample_store ''e1'' = Some sample_version" "row_id sample_version = ''e1''" "valid_start sample_version = 10"
    by (simp_all add: live_row_def sample_store_def sample_version_def valid_start_def recorded_def or_else_def)
  have body: "plain_body sample_write_env w sample_version = Inr ''b''" for w
    by (simp add: plain_body_def sample_version_def)
  have "update_tx sample_write_env 20 ''h1'' (plain_memory ''w'' ''b'') s False ''e1'' None (Some 5) sample_store = Inl (to_refusal 5 10)" for s
    unfolding update_tx_def row ok_or_def option.case bind_r_simps body
    by (simp add: check_period_def row guard_r_def)
  then have "remember_update sample_write_env 20 sample_ids (plain_memory ''w'' ''b'') s sample_version None (Some 5) no_options repaired_db =
      (Inl (to_refusal 5 10), repaired_db)" for s
    by (simp add: remember_update_def bind_w_def try_w_def return_w_def body row on_verdict_def commit_update_def transact_w_def sample_ids_def no_options_def)
  then show ?thesis
    by (subst lossy_run) (simp_all add: same_workspace contains_def, simp add: sample_store_def)
qed

text \<open>The spans go into a record of another workspace with the same category and key, and the mark of the record they belong
  to is cleared.\<close>

lemma repair_crosses_workspaces:
  "\<exists>db' r. remember_impl sample_write_env 20 sample_ids (plain_memory ''w2'' ''c'') False None None False lossy_db = (Inr (''e2'', ''created''), db') \<and>
     live_row (md_store db') ''e2'' = Some r \<and> row_workspace r = Some ''w2'' \<and> row_body_json r = repaired_text ''c'' \<and>
     live_row (md_store db') ''e1'' = Some sample_version \<and> md_lossy_units db' = [(''e1'', ''repaired'')]"
proof -
  let ?m = "plain_memory ''w2'' ''c''"
  let ?r = "insert_row sample_write_env ?m (sample_sealed (repaired_text ''c'')) None None"
  let ?td = "sample_store\<lparr>td_live := [sample_version, ?r]\<rparr>"
  have "insert_tx ?r sample_store = Inr ((), ?td)"
    by (simp add: insert_tx_Inr insert_row_facts sample_store_def sample_version_def)
  then have "remember_insert sample_write_env 20 sample_ids ?m (sample_sealed (repaired_text ''c'')) False None None no_options repaired_db =
      (Inr (''e2'', ''created''), set_store ?td repaired_db)"
    by (simp add: remember_insert_def check_new_period_def bind_w_def try_w_def read_w_def return_w_def on_verdict_def commit_insert_def transact_w_def)
  moreover have "identity_row sample_store ?m = None" by (simp add: identity_row_def sample_store_def sample_version_def)
  ultimately have "remember_impl sample_write_env 20 sample_ids ?m False None None False lossy_db = (Inr (''e2'', ''created''), set_store ?td repaired_db)"
    by (subst lossy_run) (simp_all add: contains_def)
  moreover have "live_row ?td ''e2'' = Some ?r" "live_row ?td ''e1'' = Some sample_version" "md_lossy_units (set_store ?td repaired_db) = [(''e1'', ''repaired'')]"
    by (simp_all add: live_row_def sample_version_def insert_row_facts set_store_def repaired_db_def)
  ultimately show ?thesis by (intro exI) (auto simp: insert_row_facts sample_sealed_def)
qed

text \<open>A re-assertion of the same body with a repair pending changes the stored body and leaves no version in the
  history.\<close>

lemma repair_leaves_no_history:
  "\<exists>db' r. remember_impl sample_write_env 20 sample_ids (plain_memory ''w'' ''b'') False None None False lossy_db = (Inr (''e1'', ''updated''), db') \<and>
     live_row (md_store db') ''e1'' = Some r \<and> row_body_json r = repaired_text ''b'' \<and> repaired_text ''b'' \<noteq> ''b'' \<and> td_history (md_store db') = []"
proof -
  let ?m = "plain_memory ''w'' ''b''" and ?s = "sample_sealed (repaired_text ''b'')"
  have row: "live_row sample_store ''e1'' = Some sample_version" "row_id sample_version = ''e1''"
    by (simp_all add: live_row_def sample_store_def sample_version_def)
  have body: "plain_body sample_write_env w sample_version = Inr ''b''" for w
    by (simp add: plain_body_def sample_version_def)
  obtain ls where ls: "or_else (links_decode (row_links sample_version)) [] = ls" by blast
  let ?r = "rewrite_row sample_write_env ?m ?s False (links_code ls) False None 20 ''h1'' None None sample_version"
  let ?td = "sample_store\<lparr>td_live := [?r]\<rparr>"
  have "update_tx sample_write_env 20 ''h1'' ?m ?s False ''e1'' None None sample_store = Inr ([], ?td)"
    unfolding update_tx_def row ok_or_def option.case bind_r_simps body
    by (simp add: audit_reassert_from_def check_period_def ls update_live_def sample_store_def row)
  then have "remember_update sample_write_env 20 sample_ids ?m ?s sample_version None None no_options repaired_db =
      (Inr (''e1'', ''updated''), set_store ?td repaired_db)"
    by (simp add: remember_update_def bind_w_def try_w_def return_w_def body row on_verdict_def commit_update_def transact_w_def sample_ids_def no_options_def)
  then have "remember_impl sample_write_env 20 sample_ids ?m False None None False lossy_db = (Inr (''e1'', ''updated''), set_store ?td repaired_db)"
    by (subst lossy_run) (simp_all add: contains_def same_workspace)
  moreover have "live_row ?td ''e1'' = Some ?r" "td_history ?td = []"
    by (simp_all add: live_row_def rewrite_row_facts row sample_store_def)
  ultimately show ?thesis
    by (intro exI) (auto simp: rewrite_row_facts sample_sealed_def repaired_text_def repair_appendix_def)
qed

section \<open>Visibility\<close>

lemma ensure_visibility: "me_visibility (ensure_durable_write_provenance m authority) = me_visibility m"
  by (cases authority) (simp_all add: elevate_def Let_def)

text \<open>A re-assertion that names no source takes the visibility the caller gives, whatever links to sources are
  stored: the comment on the links says that callers pass none.\<close>

lemma reassertion_widens_derived_records:
  assumes "remember_impl_with_authority env clock ids e skip vf vt allow authority opts db = (Inr (eid, ''updated''), db')"
    and "me_links e = []" and "live_row (md_store db') eid = Some r"
  shows "row_visibility r = Some (me_visibility e)"
proof -
  have upd: "''updated'' = ''created'' \<or> ''updated'' = ''updated''" by simp
  from assms(1) upd obtain m s db1 db2 td td' where en: "enrich env clock authority e db = Inr m"
      and "rejected_value_gate env clock ids allow m db = (Inr (), db1)" "seal_write env authority m db1 = (Inr s, db2)"
      and "same_tables (md_store db) td"
      and ch: "remember_change env clock (wi_history ids) m s vf vt (go_sparse_update opts) td (eid, ''updated'') td'"
      and td': "same_tables td' (md_store db')"
    by (rule remember_written)
  have "me_visibility m = me_visibility e"
    using en assms(2) by (auto simp: enrich_Inr apply_derived_visibility_def derived_targets_def ensure_fields ensure_visibility)
  with written_row [OF ch upd] td' assms(3) show ?thesis by (auto simp: live_row_def same_tables_def)
qed

text \<open>A writer of trust tier two reads the records of every fleet; what it derives from them is a record of its own
  fleet.\<close>

definition fleets :: gate_db where
  "fleets = \<lparr>gd_entities = [], gd_tombstones = [], gd_overlay = Absent, gd_agents =
     [\<lparr>ag_id = ''author'', ag_trust_tier = 1, ag_fleet_id = ''f1''\<rparr>, \<lparr>ag_id = ''editor'', ag_trust_tier = 2, ag_fleet_id = ''f2''\<rparr>,
      \<lparr>ag_id = ''reader'', ag_trust_tier = 1, ag_fleet_id = ''f2''\<rparr>]\<rparr>"

lemma tier_two_moves_fleet_records:
  "can_read fleets ''editor'' ''fleet'' ''author''" "more_restrictive_visibility ''workspace'' ''fleet'' = ''fleet''"
  "can_read fleets ''reader'' ''fleet'' ''editor''" "\<not> can_read fleets ''reader'' ''fleet'' ''author''"
  by (simp_all add: fleets_def can_read_def agent_trust_tier_def agent_fleet_def agent_get_def TRUST_TIER_UNSCOPED_def or_else_def
      more_restrictive_visibility_def visibility_rank_def)

section \<open>Sparse updates\<close>

text \<open>A sparse update does not count as a retrieval but promotes its record as if it did.\<close>

lemma sparse_update_promotes:
  assumes "vr_retrieval_count r = 4"
  shows "vr_retrieval_count (update_columns env m s True ls now vf vt r) = 4"
    and "vr_layer (update_columns env m s True ls now vf vt r) = ''working''"
  using assms by (simp_all add: update_columns_def compute_layer_def wrap64_def)

end
