(* ===== verification/Spec2Isabelle.thy ===== *)
theory Spec2Isabelle
  imports Iso8601 Trust_Admission Op_Guarantees Recall_Outcome Read_Guarantees Task_Guarantees Temporal_Guarantees
    Sufficiency_Guarantees Answer_Guarantees Lineage_Guarantees Authority_Intents
    Audit_Guarantees Remember_Findings
begin

text \<open>
  A verification development for Perseus Vault (\<open>src/src/\<close>), a persistent memory server for
  agents. The server keeps records in SQLite, governs who may read them, versions them in two
  times, serves task states built from them, answers with an explicit outcome, and runs its longer
  operations as durable runs. The development models the parts that decide what a caller may see and
  what it may conclude from an answer.

  \<^bold>\<open>The parts and their theories.\<close>

  \<^item> \<open>Prelude\<close>: results (\<open>Inl\<close> is the error), the operator \<open>?\<close> (\<open>bind_r\<close>), early returns
    (\<open>guard_r\<close>, \<open>check_all\<close>), the validating loop (\<open>unique_loop\<close>), 64-bit arithmetic (\<open>wrap64\<close>,
    \<open>rust_div\<close>), lists, and the locale for state machines. \<open>Rust_Str\<close>: UTF-8 text, trimming,
    decimal numbers. \<open>Json\<close>: JSON values and their canonical form (\<open>canonical_value\<close>).
  \<^item> \<open>Iso8601\<close> (\<open>util.rs\<close>): \<open>parse_iso8601_ms\<close> and \<open>format_iso8601\<close>; what the formatter
    prints, the parser reads back.
  \<^item> \<open>Trust_Admission\<close> (\<open>trust_admission.rs\<close>): admission records, the decision \<open>evaluate\<close>, the
    transitions approve, reject, downgrade and revoke, and the HMAC of an attestation. Decisions
    are total, only admitted records activate, and histories never raise their authority.
  \<^item> \<open>Op_Sanitize\<close>, \<open>Op_Runs\<close>, \<open>Op_Lifecycle\<close>, \<open>Op_Tools\<close>, \<open>Op_Guarantees\<close> (\<open>op_runs.rs\<close>,
    the wrappers of \<open>db.rs\<close> and the handlers of \<open>tools.rs\<close>): the tables of runs and items as
    lists of records, each transition, retry, recovery and pruning, and the tracked call. A call is one
    step, so histories are sequences of calls that do not overlap. A call moves a run along at most one edge
    of the diagram of states, which has no edge out of a finished state; retention alone deletes, and only
    finished runs; finished runs stay finished, failing calls write nothing.
  \<^item> \<open>Recall_Outcome\<close> (\<open>db.rs\<close>, \<open>models.rs\<close>): the verdict on a recall.
  \<^item> \<open>Read_Gate\<close>, \<open>Read_Guarantees\<close> (\<open>db.rs\<close>): decoding a row, tombstones and erasure mandates
    with their batched lookup, suppression through lineage, life cycle, visibility, and the two governed
    reads. A lookup serves exactly the records that pass every gate.
  \<^item> \<open>Temporal_Store\<close>, \<open>Temporal_Guarantees\<close> (\<open>db.rs\<close>): live rows and the history, the
    audited writers \<open>set_valid_to\<close>, \<open>update_entity_status\<close>, \<open>invalidate_entity\<close>, and the readers
    \<open>as_of\<close>, \<open>valid_at\<close>, \<open>bitemporal_at\<close>. The rows of one key form a timeline of disjoint
    intervals; audited writes keep it and do not change what an earlier instant reads.
  \<^item> \<open>Task_State\<close>, \<open>Task_Serve\<close>, \<open>Task_Guarantees\<close> (\<open>task_state.rs\<close>, \<open>db.rs\<close>): requests,
    sealed states, the compare-and-swap of the projection row, the resolution of evidence through the
    governed reads, serving and rebuilding. Serving recalls candidates, and that recall writes
    (\<open>vault_recall\<close>): it stores missing embeddings and journals seals that do not match, also when serving
    then fails. The store refines an abstract versioned store: no update is lost; served evidence is
    governed; the specification of a task never changes; serving writes no task state but the caller's.
  \<^item> \<open>Evidence_Sufficiency\<close>, \<open>Sufficiency_Guarantees\<close> (\<open>evidence_sufficiency.rs\<close>): requirement
    sets, reports with receipts, the evaluator, and its evaluation against the temporal store.
  \<^item> \<open>Safe_Outcome\<close>, \<open>Answer_Guarantees\<close> (\<open>safe_outcome.rs\<close>, the batch and context handlers of
    \<open>tools.rs\<close>): the answers built from contexts, reports, recalls, task states and failures. Every
    chain of builders keeps the contract of an answer; a complete context answer is backed by
    governed reads of every required record.
  \<^item> \<open>Lineage_Policy\<close>, \<open>Lineage_Store\<close>, \<open>Lineage_Guarantees\<close> (\<open>task_lineage.rs\<close>, the lineage path of
    \<open>db.rs\<close>): the cumulative authority of an agent over a chain of actions. Over every history of
    calls, grants and revocations the budgets hold, no send follows a read where the policy denies
    it, only the holder of the current head advances a lineage, and a retry charges nothing.
  \<^item> \<open>Authority_Store\<close>, \<open>Authority_Actions\<close>, \<open>Authority_Guarantees\<close>, \<open>Authority_Intents\<close>
    (\<open>db.rs\<close>, \<open>models.rs\<close>, \<open>schema.rs\<close>): manifests, revoked principals, findings, and the life of an
    authorized action. The code checks in one statement and writes in a later one, so each operation
    is a check and a write (\<open>approve_check\<close>, \<open>approve_write\<close> and so on) and \<open>world_step\<close>
    interleaves those of several callers; \<open>call_step\<close> runs whole calls one after the other. Under
    every interleaving, given as the list of its events (\<open>history\<close>), nothing that needs an approval is
    executed without one granted earlier in it, a revoked principal begins nothing and gets neither approval
    nor lease (an intent checked before the revocation is still recorded, a finding), and at most one caller
    holds the lease of an action key; an intent, plain or along a lineage, stays within the authority of its
    agent.
  \<^item> \<open>Audit_Chain\<close>, \<open>Audit_Guarantees\<close> (\<open>db.rs\<close>, \<open>models.rs\<close>): the journal and its hash chain. The
    chain verifies after every history of events in the order of time, redactions and key changes;
    recomputing it and verifying it agree; its last hash commits to every event before it.
  \<^item> \<open>Write_Gates\<close>, \<open>Remember\<close> (\<open>db.rs\<close>, \<open>interference.rs\<close>, \<open>extraction_loss.rs\<close>): the durable
    writer \<open>remember_impl_with_authority\<close> with its gates, in the order of the code: the canonical status, the
    evidence of the authority, the visibility of the sources, the rejected values, the repair of
    extraction losses, the interference gate with its quarantine, and the update of the record
    with the same identity or the insertion of a new one. A write is a function on
    \<open>memory_db\<close> that may fail at each statement (\<open>write_step\<close>); what was written before stays,
    except inside a transaction (\<open>transact_w\<close>).
  \<^item> \<open>Write_Steps\<close>, \<open>Remember_Effect\<close>: which relation between the stores before and after every
    step keeps, proved once in the locales \<open>write_relation\<close> and \<open>free_write_relation\<close> for all
    operations and interpreted for the records, the pending repairs and the journal; and the
    one effect a write can have on the records (\<open>remember_change\<close>).
  \<^item> \<open>Remember_Guarantees\<close>, \<open>Remember_Timeline\<close>, \<open>Remember_Samples\<close>, \<open>Remember_Findings\<close>: a derived record is not shown beyond its
    sources, a suppressed value is not written, only an authority leaves a record active, a refused
    write changes no record, links are only added; periods are never inverted, the timeline and
    the texts of the past are kept for keys of one workspace, and the journal verifies after every operation
    that is not earlier than its last event. \<open>Remember_Samples\<close>
    has the concrete installation for the witnesses, \<open>Remember_Findings\<close> the places where the writer departs from its comments.

  \<^bold>\<open>How the parts meet.\<close> The governed reads are the floor: task states and the sufficiency contract
  look their evidence up there, and the properties of both end in what
  \<open>get_entity_by_id_for_requester\<close> returns. The temporal store is the same store with its history
  (\<open>gate_of\<close> forgets the history), so a temporal anchor of a requirement is answered by
  \<open>resolve_temporal_versions\<close>. The durable writer works on the temporal store and the journal together: it
  looks sources up through the governed reads, its suppression agrees with theirs, its updates add to
  the timeline, and its events to the audit chain. The safe outcomes translate the verdicts of all of them.

  \<^bold>\<open>Interfaces.\<close> Each locale states what a client relies on and is interpreted on the model:
  a machine with an invariant and a diagram of states (the runs and the authorized actions), a call made of one guarded
  statement and others that only add (the runs), a versioned store (the task
  states), a timeline (the temporal store), a closed vocabulary (the three sanitisers of an answer), a relation
  that the statements of a write keep (the durable writer).

  \<^bold>\<open>Parameters.\<close> SHA-256 and the rendering of JSON are the functions of \<open>digest_env\<close>; the one
  hypothesis on them is \<open>sha256_32\<close>, that a digest has 32 bytes. JSON parsing, decryption, Unicode
  lower case and the decoder of a stored state are functions of the environments \<open>gate_env\<close>,
  \<open>store_env\<close> and \<open>task_env\<close>; the reading of a stored state back supposes that the decoder inverts
  the encoder on the states it is used for, which is what serde documents (\<open>state_codec\<close> for the
  lineages). A policy version is a digest of the policy text; \<open>versions_unique\<close> says that two texts
  with one version configure one policy, that is, that SHA-256 does not collide on them. The commitment of the last hash of the journal
  supposes the same of the texts hashed in verifying the two journals it compares, and the histories of
  the journal that no two keys used have one canary. Ranking and the embedding
  backend are not modelled: a recall selects an arbitrary list of records and embeds an arbitrary part of those
  without an embedding (\<open>recall_call\<close>), so what is shown of it holds for every ranking. Of the durable writer the parsers of links and evidence, the measured interference, the activation of a
  link and the search for near-duplicates are functions of \<open>write_env\<close>; that stored links are read
  back as they were written is a hypothesis where links are compared. The clock is an argument; a write reads it once.

  \<^bold>\<open>Loops and bounds.\<close> Every loop that always ends is a structural or measured recursion. The
  marker loop of the error sanitiser may not end, and is a partial function whose value is then
  \<open>None\<close>: it returns on ASCII text, and there is text on which it does not. The walk through the
  sources of a record has the depth limit 8 of the code as its fuel, and a walk that runs out counts
  as suppressed, as in the code. A lineage admits at most the 64 actions of \<open>MAX_HISTORY\<close>. Integers that the code can overflow are wrapped at their width.

  \<^bold>\<open>Not modelled.\<close> The rest of \<open>db.rs\<close> (forget, purge, linking, consolidation, migrations, maintenance) is mostly
  SQL text, and so are the text index, the near-duplicate signatures, the embeddings and the marker of projections that a
  write refreshes beside the row; ranking and embedding compute with floating point, and the two floating-point columns of
  a record are left out; the protocol server, the command line and the user interfaces are plumbing; encryption and
  signatures are packages. The journal events that authorized actions append after their writes are left out.
  Evidence lanes, claim cards, the live update, context transforms and projections have contracts of the same kind
  as those modelled here.
\<close>

end
